(* ===== verification/Prelude.thy ===== *)
theory Prelude
  imports Complex_Main "HOL-Library.AList" "HOL-Library.Char_ord" "HOL-Library.List_Lexorder"
    "HOL-Library.Product_Lexorder"
begin

text \<open>
  What the components share.
  \<^item> Programs: a Python method over mutable state is a function from a state to an
    outcome (\<open>Inl\<close> the exception raised, \<open>Inr\<close> the value returned) and the state it leaves.
    The state is kept when an exception is raised, because Python keeps the assignments made
    before a \<open>raise\<close>. \<open>keeps P m\<close> says that every run of \<open>m\<close>, returning or raising, keeps \<open>P\<close>.
  \<^item> Dictionaries: insertion-ordered association lists; \<open>AList.update\<close> is \<open>d[k] = v\<close>
    (the position of an existing key is kept, a new key goes last).
  \<^item> Text: \<open>str.lower\<close>, \<open>str.upper\<close>, \<open>str.strip\<close> and the decimal rendering of integers.
  \<^item> Values of type \<open>Any\<close> (\<open>pyval\<close>), with Python's equality and truth value.
  Instants are integers counting microseconds; floats are exact reals.
\<close>

named_theorems prog_simps \<open>equations that run a program of the state-and-exception monad\<close>
named_theorems keeps_intros \<open>rules that show a program keeps a predicate of its state\<close>

section \<open>Programs with state and exceptions\<close>

type_synonym ('s, 'e, 'a) prog = "'s \<Rightarrow> ('e + 'a) \<times> 's"

definition ret :: "'a \<Rightarrow> ('s, 'e, 'a) prog" where
  "ret x = (\<lambda>s. (Inr x, s))"

definition raise :: "'e \<Rightarrow> ('s, 'e, 'a) prog" where
  "raise e = (\<lambda>s. (Inl e, s))"

definition andThen :: "('s, 'e, 'a) prog \<Rightarrow> ('a \<Rightarrow> ('s, 'e, 'b) prog) \<Rightarrow> ('s, 'e, 'b) prog" where
  "andThen m f = (\<lambda>s. case m s of (Inl e, s') \<Rightarrow> (Inl e, s') | (Inr x, s') \<Rightarrow> f x s')"

definition reads :: "('s \<Rightarrow> 'a) \<Rightarrow> ('s, 'e, 'a) prog" where
  "reads f = (\<lambda>s. (Inr (f s), s))"

definition modifies :: "('s \<Rightarrow> 's) \<Rightarrow> ('s, 'e, unit) prog" where
  "modifies f = (\<lambda>s. (Inr (), f s))"

text \<open>\<open>if not b: raise e\<close>\<close>

definition require :: "bool \<Rightarrow> 'e \<Rightarrow> ('s, 'e, unit) prog" where
  "require b e = (if b then ret () else raise e)"

text \<open>The value of an option, or the exception of the missing one.\<close>

definition the_or :: "'e \<Rightarrow> 'a option \<Rightarrow> ('s, 'e, 'a) prog" where
  "the_or e r = (case r of None \<Rightarrow> raise e | Some x \<Rightarrow> ret x)"

text \<open>A \<open>for\<close> loop whose body is a program.\<close>

fun for_each :: "'a list \<Rightarrow> ('a \<Rightarrow> ('s, 'e, unit) prog) \<Rightarrow> ('s, 'e, unit) prog" where
  "for_each [] f = ret ()"
| "for_each (x # xs) f = andThen (f x) (\<lambda>_. for_each xs f)"

lemma run_prog [prog_simps]:
  "ret x s = (Inr x, s)"
  "raise e s = (Inl e, s)"
  "reads g s = (Inr (g s), s)"
  "modifies h s = (Inr (), h s)"
  by (simp_all add: ret_def raise_def reads_def modifies_def)

lemma run_require [prog_simps]:
  "require b e s = (if b then (Inr (), s) else (Inl e, s))"
  by (simp add: require_def prog_simps)

lemma run_the_or [prog_simps]:
  "the_or e r s = (case r of None \<Rightarrow> (Inl e, s) | Some x \<Rightarrow> (Inr x, s))"
  by (simp add: the_or_def prog_simps split: option.splits)

lemma run_andThen [prog_simps]:
  "andThen m f s = (case m s of (Inl e, s') \<Rightarrow> (Inl e, s') | (Inr x, s') \<Rightarrow> f x s')"
  by (simp add: andThen_def)

text \<open>The first step of a sequence, one equation per kind of step.\<close>

lemma run_step:
  "andThen (modifies f) m s = m () (f s)"
  "andThen (reads g) n s = n (g s) s"
  "andThen (ret x) k s = k x s"
  "andThen (raise e) k s = (Inl e, s)"
  by (simp_all add: prog_simps)

lemma snd_andThen_ret: "snd (andThen m (\<lambda>_. ret x) s) = snd (m s)"
  by (simp add: prog_simps split: prod.splits sum.splits)

lemma andThen_Inr:
  assumes "andThen m f s = (Inr y, t)"
  obtains x u where "m s = (Inr x, u)" and "f x u = (Inr y, t)"
  using assms by (auto simp: andThen_def split: prod.splits sum.splits)

lemma for_each_modifies: "for_each xs (\<lambda>x. modifies (f x)) s = (Inr (), foldl (\<lambda>s x. f x s) s xs)"
  by (induction xs arbitrary: s) (simp_all add: run_step run_prog)

definition keeps :: "('s \<Rightarrow> bool) \<Rightarrow> ('s, 'e, 'a) prog \<Rightarrow> bool" where
  "keeps P m \<longleftrightarrow> (\<forall>s. P s \<longrightarrow> P (snd (m s)))"

lemma keepsI: "(\<And>s. P s \<Longrightarrow> P (snd (m s))) \<Longrightarrow> keeps P m"
  by (simp add: keeps_def)

lemma keepsD: "keeps P m \<Longrightarrow> P s \<Longrightarrow> P (snd (m s))"
  by (simp add: keeps_def)

lemma keeps_ret [keeps_intros]: "keeps P (ret x)"
  by (simp add: keeps_def prog_simps)

lemma keeps_raise [keeps_intros]: "keeps P (raise e)"
  by (simp add: keeps_def prog_simps)

lemma keeps_reads [keeps_intros]: "keeps P (reads f)"
  by (simp add: keeps_def prog_simps)

lemma keeps_require [keeps_intros]: "keeps P (require b e)"
  by (simp add: keeps_def prog_simps)

lemma keeps_the_or [keeps_intros]: "keeps P (the_or e r)"
  by (simp add: keeps_def prog_simps split: option.splits)

lemma keeps_modifies: "(\<And>s. P s \<Longrightarrow> P (f s)) \<Longrightarrow> keeps P (modifies f)"
  by (simp add: keeps_def prog_simps)

lemma keeps_andThen [keeps_intros]:
  "keeps P m \<Longrightarrow> (\<And>x. keeps P (f x)) \<Longrightarrow> keeps P (andThen m f)"
  by (fastforce simp: keeps_def prog_simps split: prod.splits sum.splits)

lemma keeps_if [keeps_intros]:
  "(b \<Longrightarrow> keeps P m) \<Longrightarrow> (\<not> b \<Longrightarrow> keeps P n) \<Longrightarrow> keeps P (if b then m else n)"
  by simp

lemma keeps_case_option [keeps_intros]:
  "(r = None \<Longrightarrow> keeps P m) \<Longrightarrow> (\<And>x. r = Some x \<Longrightarrow> keeps P (n x)) \<Longrightarrow>
   keeps P (case r of None \<Rightarrow> m | Some x \<Rightarrow> n x)"
  by (simp split: option.splits)

lemma keeps_for_each [keeps_intros]:
  "(\<And>x. x \<in> set xs \<Longrightarrow> keeps P (f x)) \<Longrightarrow> keeps P (for_each xs f)"
  by (induction xs) (auto intro!: keeps_intros)


text \<open>A program on one component of a pair of states.\<close>

definition on_fst :: "('s, 'e, 'a) prog \<Rightarrow> ('s \<times> 't, 'e, 'a) prog" where
  "on_fst m = (\<lambda>(s, t). let (r, s') = m s in (r, (s', t)))"

definition on_snd :: "('t, 'e, 'a) prog \<Rightarrow> ('s \<times> 't, 'e, 'a) prog" where
  "on_snd m = (\<lambda>(s, t). let (r, t') = m t in (r, (s, t')))"

lemma run_on_fst [prog_simps]: "on_fst m (s, t) = (fst (m s), (snd (m s), t))"
  by (simp add: on_fst_def case_prod_beta)

lemma run_on_snd [prog_simps]: "on_snd m (s, t) = (fst (m t), (s, snd (m t)))"
  by (simp add: on_snd_def case_prod_beta)

text \<open>A result as a program that leaves the state alone.\<close>

definition lift_result :: "'e + 'a \<Rightarrow> ('s, 'e, 'a) prog" where
  "lift_result r = (\<lambda>s. (r, s))"

lemma run_lift_result [prog_simps]: "lift_result r s = (r, s)"
  by (simp add: lift_result_def)

lemma keeps_lift [keeps_intros]: "keeps P (lift_result r)"
  by (simp add: keeps_def run_lift_result)

section \<open>Results\<close>

text \<open>A function that may raise, without state: \<open>Inl\<close> the exception, \<open>Inr\<close> the value.\<close>

fun bindE :: "'e + 'a \<Rightarrow> ('a \<Rightarrow> 'e + 'b) \<Rightarrow> 'e + 'b" where
  "bindE (Inl e) f = Inl e"
| "bindE (Inr x) f = f x"

definition checkE :: "bool \<Rightarrow> 'e \<Rightarrow> 'e + unit" where
  "checkE b e = (if b then Inr () else Inl e)"

definition needE :: "'e \<Rightarrow> 'a option \<Rightarrow> 'e + 'a" where
  "needE e r = (case r of None \<Rightarrow> Inl e | Some x \<Rightarrow> Inr x)"

fun mapE :: "('a \<Rightarrow> 'e + 'b) \<Rightarrow> 'a list \<Rightarrow> 'e + 'b list" where
  "mapE f [] = Inr []"
| "mapE f (x # xs) = bindE (f x) (\<lambda>y. bindE (mapE f xs) (\<lambda>ys. Inr (y # ys)))"

lemma bindE_Inr_iff [simp]: "bindE m f = Inr y \<longleftrightarrow> (\<exists>x. m = Inr x \<and> f x = Inr y)"
  by (cases m) auto

lemma bindE_Inl_iff: "bindE m f = Inl e \<longleftrightarrow> m = Inl e \<or> (\<exists>x. m = Inr x \<and> f x = Inl e)"
  by (cases m) auto

lemma checkE_Inr_iff [simp]: "checkE b e = Inr u \<longleftrightarrow> b"
  by (simp add: checkE_def)

lemma checkE_True [simp]: "b \<Longrightarrow> checkE b e = Inr ()"
  by (simp add: checkE_def)

lemma needE_Inr_iff [simp]: "needE e r = Inr x \<longleftrightarrow> r = Some x"
  by (cases r) (auto simp: needE_def)

lemma needE_Some [simp]: "needE e (Some x) = Inr x"
  by (simp add: needE_def)

lemma mapE_Inr_length: "mapE f xs = Inr ys \<Longrightarrow> length ys = length xs"
  by (induction xs arbitrary: ys) auto

lemma mapE_Inr_map: "(\<And>x. x \<in> set xs \<Longrightarrow> f x = Inr (g x)) \<Longrightarrow> mapE f xs = Inr (map g xs)"
  by (induction xs) auto

lemma mapE_Inr_set: "mapE f xs = Inr ys \<Longrightarrow> y \<in> set ys \<Longrightarrow> \<exists>x \<in> set xs. f x = Inr y"
  by (induction xs arbitrary: ys) auto

section \<open>Dictionaries\<close>

text \<open>
  An assignment \<open>d[k] = v\<close> is \<open>AList.update k v d\<close>, a lookup \<open>d.get(k)\<close> is \<open>map_of d k\<close>.
  \<open>d.setdefault(k, v)\<close> writes only a missing key.
\<close>

type_synonym ('k, 'v) dict = "('k \<times> 'v) list"

definition dict_setdefault :: "'k \<Rightarrow> 'v \<Rightarrow> ('k, 'v) dict \<Rightarrow> ('k, 'v) dict" where
  "dict_setdefault k v d = (case map_of d k of None \<Rightarrow> d @ [(k, v)] | Some _ \<Rightarrow> d)"

text \<open>\<open>d.get(k, default)\<close>\<close>

definition dict_get :: "('k, 'v) dict \<Rightarrow> 'k \<Rightarrow> 'v \<Rightarrow> 'v" where
  "dict_get d k dflt = (case map_of d k of None \<Rightarrow> dflt | Some v \<Rightarrow> v)"

lemma dict_get_update: "dict_get (AList.update k v d) k' dflt = (if k = k' then v else dict_get d k' dflt)"
  by (simp add: dict_get_def update_conv')

lemma map_of_update [simp]: "map_of (AList.update k v d) k' = (if k = k' then Some v else map_of d k')"
  by (simp add: update_conv)

lemma map_of_setdefault [simp]:
  "map_of (dict_setdefault k v d) k' =
   (if k = k' \<and> map_of d k = None then Some v else map_of d k')"
  by (auto simp: dict_setdefault_def map_add_def split: option.splits)

lemma dict_update_absent:
  "map_of d k = None \<Longrightarrow> AList.update k v d = d @ [(k, v)]"
  by (induction d) (auto split: if_splits)

lemma set_dict_update:
  "set (AList.update k v d) \<subseteq> insert (k, v) (set d)"
  by (induction d) auto

lemma length_dict_update:
  "length (AList.update k v d) = (if map_of d k = None then Suc (length d) else length d)"
  by (induction d) auto

section \<open>Lists\<close>

text \<open>Change the first element that satisfies a test, as a \<open>for ... if ... break\<close> does.\<close>

fun update_first :: "('a \<Rightarrow> bool) \<Rightarrow> ('a \<Rightarrow> 'a) \<Rightarrow> 'a list \<Rightarrow> 'a list" where
  "update_first p f [] = []"
| "update_first p f (x # xs) = (if p x then f x # xs else x # update_first p f xs)"

text \<open>The same over \<open>reversed(xs)\<close>.\<close>

definition update_last :: "('a \<Rightarrow> bool) \<Rightarrow> ('a \<Rightarrow> 'a) \<Rightarrow> 'a list \<Rightarrow> 'a list" where
  "update_last p f xs = rev (update_first p f (rev xs))"

lemma update_first_none: "find p xs = None \<Longrightarrow> update_first p f xs = xs"
  by (induction xs) (auto split: if_splits)

lemma length_update_first [simp]: "length (update_first p f xs) = length xs"
  by (induction xs) auto

lemma length_update_last [simp]: "length (update_last p f xs) = length xs"
  by (simp add: update_last_def)

lemma set_update_first: "x \<in> set (update_first p f xs) \<Longrightarrow> x \<in> set xs \<or> (\<exists>y \<in> set xs. p y \<and> x = f y)"
  by (induction xs) (auto split: if_splits)

lemma set_update_last: "x \<in> set (update_last p f xs) \<Longrightarrow> x \<in> set xs \<or> (\<exists>y \<in> set xs. p y \<and> x = f y)"
  using set_update_first [of x p f "rev xs"] by (auto simp: update_last_def)

lemma map_update_first: "(\<And>x. g (f x) = g x) \<Longrightarrow> map g (update_first p f xs) = map g xs"
  by (induction xs) auto

lemma map_update_last: "(\<And>x. g (f x) = g x) \<Longrightarrow> map g (update_last p f xs) = map g xs"
  by (simp add: update_last_def map_update_first rev_map[symmetric])

section \<open>Text\<close>

text \<open>Decimal rendering, as \<open>str(n)\<close> does it.\<close>

definition digit_char :: "nat \<Rightarrow> char" where
  "digit_char d = char_of (48 + d)"

fun nat_str :: "nat \<Rightarrow> string" where
  "nat_str n = (if n < 10 then [digit_char n] else nat_str (n div 10) @ [digit_char (n mod 10)])"

declare nat_str.simps [simp del]

definition int_str :: "int \<Rightarrow> string" where
  "int_str i = (if i < 0 then CHR ''-'' # nat_str (nat (- i)) else nat_str (nat i))"

definition is_digit :: "char \<Rightarrow> bool" where
  "is_digit c \<longleftrightarrow> 48 \<le> (of_char c :: nat) \<and> (of_char c :: nat) \<le> 57"

definition digit_val :: "char \<Rightarrow> nat" where
  "digit_val c = of_char c - 48"

definition nat_of_str :: "string \<Rightarrow> nat" where
  "nat_of_str = foldl (\<lambda>n c. 10 * n + digit_val c) 0"

lemma digit_char_val [simp]: "d < 10 \<Longrightarrow> digit_val (digit_char d) = d"
  by (simp add: digit_val_def digit_char_def of_char_of)

lemma digit_char_is_digit [simp]: "d < 10 \<Longrightarrow> is_digit (digit_char d)"
  by (simp add: is_digit_def digit_char_def of_char_of)

lemma nat_of_str_nat_str [simp]: "nat_of_str (nat_str n) = n"
proof (induction n rule: nat_str.induct)
  case (1 n)
  show ?case
  proof (cases "n < 10")
    case True
    then show ?thesis by (simp add: nat_str.simps [of n] nat_of_str_def)
  next
    case False
    with 1 have "nat_of_str (nat_str (n div 10)) = n div 10" by simp
    with False show ?thesis by (simp add: nat_str.simps [of n] nat_of_str_def)
  qed
qed

lemma nat_str_inject [simp]: "nat_str m = nat_str n \<longleftrightarrow> m = n"
  by (metis nat_of_str_nat_str)

lemma nat_str_digits: "c \<in> set (nat_str n) \<Longrightarrow> is_digit c"
proof (induction n rule: nat_str.induct)
  case (1 n)
  then show ?case
    by (cases "n < 10") (auto simp: nat_str.simps [of n])
qed

lemma nat_str_nonempty [simp]: "nat_str n \<noteq> []"
  by (subst nat_str.simps) simp

text \<open>Case folding and white space: \<open>str.lower\<close> and \<open>str.upper\<close> as they treat the characters of
  ASCII, \<open>str.strip\<close> as it treats those of Latin-1.\<close>

definition lower_char :: "char \<Rightarrow> char" where
  "lower_char c = (let n = of_char c :: nat in if 65 \<le> n \<and> n \<le> 90 then char_of (n + 32) else c)"

definition upper_char :: "char \<Rightarrow> char" where
  "upper_char c = (let n = of_char c :: nat in if 97 \<le> n \<and> n \<le> 122 then char_of (n - 32) else c)"

definition str_lower :: "string \<Rightarrow> string" where
  "str_lower = map lower_char"

definition str_upper :: "string \<Rightarrow> string" where
  "str_upper = map upper_char"

definition str_replace :: "char \<Rightarrow> string \<Rightarrow> string \<Rightarrow> string" where
  "str_replace c r s = concat (map (\<lambda>x. if x = c then r else [x]) s)"

definition is_space :: "char \<Rightarrow> bool" where
  "is_space c \<longleftrightarrow> (let n = of_char c :: nat in n = 32 \<or> (9 \<le> n \<and> n \<le> 13) \<or> (28 \<le> n \<and> n \<le> 31) \<or> n = 133 \<or> n = 160)"

definition str_strip :: "string \<Rightarrow> string" where
  "str_strip s = rev (dropWhile is_space (rev (dropWhile is_space s)))"


definition starts_with :: "string \<Rightarrow> string \<Rightarrow> bool" where
  "starts_with p s \<longleftrightarrow> take (length p) s = p"

text \<open>\<open>part in whole\<close>\<close>

fun contains_text :: "string \<Rightarrow> string \<Rightarrow> bool" where
  "contains_text part [] = (part = [])"
| "contains_text part (c # cs) = (starts_with part (c # cs) \<or> contains_text part cs)"

text \<open>\<open>str.join\<close>\<close>

fun str_join :: "string \<Rightarrow> string list \<Rightarrow> string" where
  "str_join sep [] = []"
| "str_join sep [x] = x"
| "str_join sep (x # y # xs) = x @ sep @ str_join sep (y # xs)"

text \<open>\<open>text.split(c)\<close>\<close>

fun str_split :: "char \<Rightarrow> string \<Rightarrow> string \<Rightarrow> string list" where
  "str_split c acc [] = [rev acc]"
| "str_split c acc (x # xs) = (if x = c then rev acc # str_split c [] xs else str_split c (x # acc) xs)"

definition line_end :: "char \<Rightarrow> bool" where
  "line_end c \<longleftrightarrow> c \<in> {CHR 0x0A, CHR 0x0B, CHR 0x0C, CHR 0x0D, CHR 0x1C, CHR 0x1D, CHR 0x1E, CHR 0x85}"

text \<open>\<open>str.splitlines\<close>; the flag says that the character before was a carriage return.\<close>

fun split_lines :: "bool \<Rightarrow> string \<Rightarrow> string \<Rightarrow> string list" where
  "split_lines cr acc [] = (if acc = [] then [] else [rev acc])"
| "split_lines cr acc (c # cs) = (if cr \<and> c = CHR 0x0A then split_lines False [] cs
     else if line_end c then rev acc # split_lines (c = CHR 0x0D) [] cs
     else split_lines False (c # acc) cs)"

text \<open>\<open>str.replace\<close>, from left to right; \<open>str_replace\<close> is the case of one character.\<close>

fun str_replace_all :: "string \<Rightarrow> string \<Rightarrow> string \<Rightarrow> string" where
  "str_replace_all old new [] = []"
| "str_replace_all old new (c # cs) =
     (if old \<noteq> [] \<and> starts_with old (c # cs) then new @ str_replace_all old new (drop (length old - 1) cs)
      else c # str_replace_all old new cs)"

lemma starts_with_set: "starts_with p s \<Longrightarrow> set p \<subseteq> set s"
  by (metis set_take_subset starts_with_def)

lemma str_replace_all_id: "old \<noteq> [] \<Longrightarrow> hd old \<notin> set s \<Longrightarrow> str_replace_all old new s = s"
proof (induction old new s rule: str_replace_all.induct)
  case (2 old new c cs)
  then have "\<not> starts_with old (c # cs)" by (cases old) (auto simp: starts_with_def)
  with 2 show ?case by auto
qed simp

lemma str_replace_id: "c \<notin> set s \<Longrightarrow> str_replace c r s = s"
  by (induction s) (auto simp: str_replace_def)

lemma dropWhile_space: "s = [] \<or> \<not> is_space (hd s) \<Longrightarrow> dropWhile is_space s = s"
  by (cases s) auto

text \<open>Text with no white space at either end is its own \<open>strip\<close>, and every \<open>strip\<close> is such text.\<close>

definition trimmed :: "string \<Rightarrow> bool" where
  "trimmed s \<longleftrightarrow> s \<noteq> [] \<longrightarrow> \<not> is_space (hd s) \<and> \<not> is_space (last s)"

lemma str_strip_trimmed: "trimmed s \<Longrightarrow> str_strip s = s"
  by (cases "s = []") (simp_all add: trimmed_def str_strip_def dropWhile_space hd_rev)

lemma trimmed_strip [simp]: "trimmed (str_strip s)"
proof -
  let ?t = "dropWhile is_space s"

  show ?thesis
  proof (cases "str_strip s = []")
    case False
    define u where "u = dropWhile is_space (rev ?t)"
    have u: "u \<noteq> []" using False by (simp add: u_def str_strip_def)
    then have hd_u: "\<not> is_space (hd u)" unfolding u_def by (rule hd_dropWhile [OF])
    have "?t \<noteq> []" using u unfolding u_def by (metis dropWhile.simps(1) rev.simps(1))
    then have hd_t: "\<not> is_space (hd ?t)" by (rule hd_dropWhile)
    obtain pre where "rev ?t = pre @ u" unfolding u_def by (metis takeWhile_dropWhile_id)
    then have "?t = rev u @ rev pre" by (metis rev_append rev_rev_ident)
    then have "hd (rev u) = hd ?t" using u by simp
    with hd_t hd_u u show ?thesis by (simp add: trimmed_def str_strip_def u_def [symmetric] last_rev)
  qed (simp add: trimmed_def)
qed

text \<open>\<open>raw[raw.index("{") : raw.rindex("}") + 1]\<close>; a missing brace raises, and braces in the wrong
  order give the empty text.\<close>

definition first_index :: "char \<Rightarrow> string \<Rightarrow> nat option" where
  "first_index c s = (let i = length (takeWhile (\<lambda>x. x \<noteq> c) s) in if i < length s then Some i else None)"

definition last_index :: "char \<Rightarrow> string \<Rightarrow> nat option" where
  "last_index c s = map_option (\<lambda>i. length s - 1 - i) (first_index c (rev s))"

definition json_slice :: "string \<Rightarrow> string option" where
  "json_slice raw = (case (first_index CHR ''{'' raw, last_index CHR ''}'' raw) of
     (Some i, Some j) \<Rightarrow> Some (drop i (take (Suc j) raw))
   | _ \<Rightarrow> None)"

lemma first_index_app: "c \<notin> set xs \<Longrightarrow> first_index c (xs @ c # ys) = Some (length xs)"
proof -
  assume "c \<notin> set xs"
  then have "takeWhile (\<lambda>x. x \<noteq> c) (xs @ c # ys) = xs" by (induction xs) auto
  then show ?thesis by (simp add: first_index_def Let_def)
qed

lemma json_slice_text:
  assumes "CHR ''{'' \<notin> set before" "CHR ''}'' \<notin> set after"
    and "t = CHR ''{'' # body @ ''}''"
  shows "json_slice (before @ t @ after) = Some t"
proof -
  have raw: "before @ t @ after = before @ CHR ''{'' # (body @ ''}'' @ after)" by (simp add: assms)
  then have i: "first_index CHR ''{'' (before @ t @ after) = Some (length before)"
    using first_index_app [OF assms(1)] by simp
  have "rev (before @ t @ after) = rev after @ CHR ''}'' # (rev body @ CHR ''{'' # rev before)"
    by (simp add: assms)
  then have "first_index CHR ''}'' (rev (before @ t @ after)) = Some (length after)"
    using first_index_app [of "CHR ''}''" "rev after"] assms(2) by simp
  then have "last_index CHR ''}'' (before @ t @ after) = Some (length (before @ t) - 1)"
    by (simp add: last_index_def)
  with i show ?thesis by (simp add: json_slice_def assms)
qed

section \<open>UUIDs\<close>

text \<open>A UUID is its 128-bit value; \<open>uuid_str\<close> is the hyphenated lower-case form of \<open>str(u)\<close>.\<close>

datatype uuid = UUID (uuid_int: nat)

definition nil_uuid :: uuid where
  "nil_uuid = UUID 0"

definition hex_char :: "nat \<Rightarrow> char" where
  "hex_char d = (if d < 10 then char_of (48 + d) else char_of (87 + d))"

fun hex_digits :: "nat \<Rightarrow> nat \<Rightarrow> string" where
  "hex_digits 0 n = []"
| "hex_digits (Suc k) n = hex_digits k (n div 16) @ [hex_char (n mod 16)]"

definition uuid_str :: "uuid \<Rightarrow> string" where
  "uuid_str u = (let h = hex_digits 32 (uuid_int u) in
     take 8 h @ ''-'' @ take 4 (drop 8 h) @ ''-'' @ take 4 (drop 12 h) @ ''-'' @
     take 4 (drop 16 h) @ ''-'' @ drop 20 h)"

lemma length_hex_digits [simp]: "length (hex_digits k n) = k"
  by (induction k arbitrary: n) auto

lemma length_uuid_str [simp]: "length (uuid_str u) = 36"
  by (simp add: uuid_str_def Let_def)

lemma uuid_str_nonempty [simp]: "uuid_str u \<noteq> []"
  by (metis length_uuid_str list.size(3) zero_neq_numeral)

text \<open>\<open>UUID(text)\<close>: the prefixes, braces and hyphens it drops, and \<open>int(hex, 16)\<close> with the white
  space, sign, prefix and underscores that function accepts.\<close>

definition hex_val :: "char \<Rightarrow> nat option" where
  "hex_val c = (let n = of_char c :: nat in
     if 48 \<le> n \<and> n \<le> 57 then Some (n - 48)
     else if 97 \<le> n \<and> n \<le> 102 then Some (n - 87)
     else if 65 \<le> n \<and> n \<le> 70 then Some (n - 55) else None)"

fun hex_run :: "nat \<Rightarrow> bool \<Rightarrow> string \<Rightarrow> nat option" where
  "hex_run acc after_digit [] = (if after_digit then Some acc else None)"
| "hex_run acc after_digit (c # cs) =
     (if c = CHR ''_'' then (if after_digit then hex_run acc False cs else None)
      else case hex_val c of None \<Rightarrow> None | Some d \<Rightarrow> hex_run (16 * acc + d) True cs)"

definition hex_body :: "string \<Rightarrow> nat option" where
  "hex_body s = (if starts_with ''0x'' s \<or> starts_with ''0X'' s
     then hex_run 0 False (if starts_with ''_'' (drop 2 s) then drop 3 s else drop 2 s)
     else hex_run 0 False s)"

definition int_of_hex :: "string \<Rightarrow> int option" where
  "int_of_hex s = (case str_strip s of
     [] \<Rightarrow> None
   | c # cs \<Rightarrow> if c = CHR ''-'' then map_option (\<lambda>n. - int n) (hex_body cs)
       else if c = CHR ''+'' then map_option int (hex_body cs)
       else map_option int (hex_body (c # cs)))"

definition strip_braces :: "string \<Rightarrow> string" where
  "strip_braces s = (let brace = (\<lambda>c. c = CHR ''{'' \<or> c = CHR ''}'') in
     rev (dropWhile brace (rev (dropWhile brace s))))"

definition uuid_of_str :: "string \<Rightarrow> uuid option" where
  "uuid_of_str s = (let
     hex = filter (\<lambda>c. c \<noteq> CHR ''-'') (strip_braces (str_replace_all ''uuid:'' [] (str_replace_all ''urn:'' [] s))) in
     if length hex \<noteq> 32 then None
     else case int_of_hex hex of
       None \<Rightarrow> None
     | Some i \<Rightarrow> if 0 \<le> i \<and> i < 2 ^ 128 then Some (UUID (nat i)) else None)"

text \<open>The text of a UUID reads back as the UUID.\<close>

lemma hex_char_val [simp]: "d < 16 \<Longrightarrow> hex_val (hex_char d) = Some d"
  by (auto simp: hex_val_def hex_char_def of_char_of Let_def)

definition plain_hex :: "char \<Rightarrow> bool" where
  "plain_hex c \<longleftrightarrow> c \<notin> {CHR ''_'', CHR ''-'', CHR ''u'', CHR ''{'', CHR ''}'', CHR ''x'', CHR ''X'', CHR ''+''} \<and>
     \<not> is_space c"

lemma hex_char_plain: "d < 16 \<Longrightarrow> plain_hex (hex_char d)"
proof -
  have "list_all (\<lambda>d. plain_hex (hex_char d)) [0..<16]" by code_simp
  then show "d < 16 \<Longrightarrow> plain_hex (hex_char d)" by (simp add: list_all_iff)
qed

lemma hex_digits_plain: "c \<in> set (hex_digits k n) \<Longrightarrow> plain_hex c"
proof (induction k arbitrary: n)
  case (Suc k)
  then show ?case using hex_char_plain [of "n mod 16"] by auto
qed simp

lemma hex_run_digits: "hex_run acc b (hex_digits (Suc k) n @ ys) = hex_run (16 ^ Suc k * acc + n mod 16 ^ Suc k) True ys"
proof (induction k arbitrary: n ys)
  case 0
  then show ?case using hex_char_plain [of "n mod 16"] by (auto simp: plain_hex_def)
next
  case (Suc k)
  have "hex_digits (Suc (Suc k)) n @ ys = hex_digits (Suc k) (n div 16) @ hex_char (n mod 16) # ys" by simp
  also have "hex_run acc b \<dots> = hex_run (16 ^ Suc k * acc + n div 16 mod 16 ^ Suc k) True (hex_char (n mod 16) # ys)"
    by (rule Suc.IH)
  also have "\<dots> = hex_run (16 * (16 ^ Suc k * acc + n div 16 mod 16 ^ Suc k) + n mod 16) True ys"
    using hex_char_plain [of "n mod 16"] by (simp add: plain_hex_def)
  also have "16 * (16 ^ Suc k * acc + n div 16 mod 16 ^ Suc k) + n mod 16 = 16 ^ Suc (Suc k) * acc + n mod 16 ^ Suc (Suc k)"
    using mod_mult2_eq [of n 16 "16 ^ Suc k"] by (simp add: algebra_simps)
  finally show ?case .
qed

lemma uuid_of_str [simp]:
  assumes "uuid_int u < 2 ^ 128"
  shows "uuid_of_str (uuid_str u) = Some u"
proof -
  define h where "h = hex_digits 32 (uuid_int u)"
  have chars: "c \<notin> {CHR ''_'', CHR ''-'', CHR ''u'', CHR ''{'', CHR ''}'', CHR ''x'', CHR ''X'', CHR ''+''} \<and> \<not> is_space c"
    if "c \<in> set h" for c
    using hex_digits_plain that unfolding h_def plain_hex_def by blast
  have len: "length h = 32" by (simp add: h_def)
  have piece: "take n (drop m h) @ drop (m + n) h = drop m h" for m n
    by (metis add.commute append_take_drop_id drop_drop)
  have pieces: "take 8 h @ take 4 (drop 8 h) @ take 4 (drop 12 h) @ take 4 (drop 16 h) @ drop 20 h = h"
    using piece [of 4 16] piece [of 4 12] piece [of 4 8] by simp
  let ?s = "uuid_str u"
  have s: "?s = take 8 h @ ''-'' @ take 4 (drop 8 h) @ ''-'' @ take 4 (drop 12 h) @ ''-'' @
     take 4 (drop 16 h) @ ''-'' @ drop 20 h"
    by (simp add: uuid_str_def h_def Let_def)
  have u: "CHR ''u'' \<notin> set ?s" "CHR ''{'' \<notin> set ?s" "CHR ''}'' \<notin> set ?s"
    unfolding s by (auto dest!: in_set_takeD in_set_dropD chars)
  have dash: "filter (\<lambda>c. c \<noteq> CHR ''-'') t = t" if "set t \<subseteq> set h" for t
    using that chars by (auto simp: filter_id_conv)
  have "filter (\<lambda>c. c \<noteq> CHR ''-'') ?s = take 8 h @ take 4 (drop 8 h) @ take 4 (drop 12 h) @ take 4 (drop 16 h) @ drop 20 h"
    unfolding s by (simp add: dash set_take_subset set_drop_subset subset_trans [OF set_take_subset set_drop_subset])
  also have "\<dots> = h"
    by (simp add: pieces)
  finally have hex: "filter (\<lambda>c. c \<noteq> CHR ''-'') ?s = h" .
  have strip: "strip_braces ?s = ?s"
  proof -
    have "dropWhile (\<lambda>c. c = CHR ''{'' \<or> c = CHR ''}'') t = t" if "set t \<subseteq> set ?s" for t
      using that u by (cases t) auto
    then show ?thesis by (simp add: strip_braces_def)
  qed
  have "str_strip h = h"
    by (rule str_strip_trimmed) (metis chars trimmed_def hd_in_set last_in_set)
  moreover have "hex_body h = Some (uuid_int u)"
  proof -
    have "\<not> starts_with ''0x'' h" "\<not> starts_with ''0X'' h"
      using chars starts_with_set [of "''0x''" h] starts_with_set [of "''0X''" h] by auto
    moreover have "hex_run 0 False h = Some (uuid_int u)"
      using hex_run_digits [of 0 False 31 "uuid_int u" "[]"] assms by (simp add: h_def)
    ultimately show ?thesis by (simp add: hex_body_def)
  qed
  moreover obtain c cs where "h = c # cs" "c \<noteq> CHR ''-''" "c \<noteq> CHR ''+''"
    using len chars by (cases h) auto
  ultimately have "int_of_hex h = Some (int (uuid_int u))" by (simp add: int_of_hex_def)
  with assms len hex strip u show ?thesis
    by (simp add: uuid_of_str_def str_replace_all_id)
qed

section \<open>Dynamically typed values\<close>

text \<open>A \<open>datetime\<close>: a wall clock without a zone, or with its offset from UTC (microseconds).\<close>

datatype datetime = Naive int | Zoned int int

fun same_instant :: "datetime \<Rightarrow> datetime \<Rightarrow> bool" where
  "same_instant (Naive a) (Naive b) = (a = b)"
| "same_instant (Zoned a d) (Zoned b e) = (a - d = b - e)"
| "same_instant _ _ = False"

datatype pyval =
    PNone
  | PBool bool
  | PInt int
  | PFloat real
  | PStr string
  | PUuid uuid
  | PTime datetime
  | PList "pyval list"
  | PTuple "pyval list"
  | PDict "(string \<times> pyval) list"

text \<open>\<open>bool\<close> is a subclass of \<open>int\<close>, and \<open>1 == 1.0 == True\<close>.\<close>

fun py_num :: "pyval \<Rightarrow> real option" where
  "py_num (PBool b) = Some (if b then 1 else 0)"
| "py_num (PInt i) = Some (of_int i)"
| "py_num (PFloat r) = Some r"
| "py_num _ = None"

lemma size_zip_left [termination_simp]:
  "(a, b) \<in> set (zip xs ys) \<Longrightarrow> size a < Suc (size_list size xs)"
  by (auto dest!: set_zip_leftD intro: size_list_estimation' le_imp_less_Suc)

text \<open>The operator \<open>==\<close>. Dictionaries are compared as maps, lists never equal tuples.\<close>

fun py_eq :: "pyval \<Rightarrow> pyval \<Rightarrow> bool" where
  "py_eq (PList xs) (PList ys) =
     (length xs = length ys \<and> (\<forall>(x, y) \<in> set (zip xs ys). py_eq x y))"
| "py_eq (PTuple xs) (PTuple ys) =
     (length xs = length ys \<and> (\<forall>(x, y) \<in> set (zip xs ys). py_eq x y))"
| "py_eq (PDict xs) (PDict ys) =
     (length xs = length ys \<and>
      (\<forall>(k, x) \<in> set xs. case map_of ys k of None \<Rightarrow> False | Some y \<Rightarrow> py_eq x y))"
| "py_eq PNone b = (b = PNone)"
| "py_eq (PStr s) b = (b = PStr s)"
| "py_eq (PUuid u) b = (b = PUuid u)"
| "py_eq (PTime t) b = (case b of PTime u \<Rightarrow> same_instant t u | _ \<Rightarrow> False)"
| "py_eq a b = (case (py_num a, py_num b) of (Some x, Some y) \<Rightarrow> x = y | _ \<Rightarrow> False)"

text \<open>The truth value of a value.\<close>

fun py_truthy :: "pyval \<Rightarrow> bool" where
  "py_truthy PNone = False"
| "py_truthy (PBool b) = b"
| "py_truthy (PInt i) = (i \<noteq> 0)"
| "py_truthy (PFloat r) = (r \<noteq> 0)"
| "py_truthy (PStr s) = (s \<noteq> [])"
| "py_truthy (PUuid u) = True"
| "py_truthy (PTime t) = True"
| "py_truthy (PList xs) = (xs \<noteq> [])"
| "py_truthy (PTuple xs) = (xs \<noteq> [])"
| "py_truthy (PDict d) = (d \<noteq> [])"

text \<open>\<open>isinstance(v, int)\<close>, with the value: booleans are integers.\<close>

fun py_as_int :: "pyval \<Rightarrow> int option" where
  "py_as_int (PInt i) = Some i"
| "py_as_int (PBool b) = Some (if b then 1 else 0)"
| "py_as_int _ = None"

fun py_as_str :: "pyval \<Rightarrow> string option" where
  "py_as_str (PStr s) = Some s"
| "py_as_str _ = None"

text \<open>\<open>str(v)\<close>; the rendering of floats, instants and containers is the argument \<open>rp\<close>.\<close>

fun py_str :: "(pyval \<Rightarrow> string) \<Rightarrow> pyval \<Rightarrow> string" where
  "py_str rp (PStr s) = s"
| "py_str rp (PInt i) = int_str i"
| "py_str rp (PBool b) = (if b then ''True'' else ''False'')"
| "py_str rp PNone = ''None''"
| "py_str rp (PUuid u) = uuid_str u"
| "py_str rp v = rp v"

definition is_str :: "pyval \<Rightarrow> bool" where
  "is_str v \<longleftrightarrow> py_as_str v \<noteq> None"

text \<open>\<open>d.get(k)\<close> on a dictionary with text keys.\<close>

definition pget :: "(string \<times> pyval) list \<Rightarrow> string \<Rightarrow> pyval" where
  "pget d k = dict_get d k PNone"

lemma py_eq_str [simp]: "py_eq v (PStr s) \<longleftrightarrow> v = PStr s"
  by (cases v) auto

lemma py_eq_none [simp]: "py_eq v PNone \<longleftrightarrow> v = PNone"
  by (cases v) auto

end
