(* ===== verification/Sim_Models.thy ===== *)
theory Sim_Models
  imports Prelude
begin

text \<open>
  The state of the simulated system under management
  (\<^verbatim>\<open>simulator/postmortem_sim/models.py\<close>): one record per dataclass, one datatype per
  enumeration, and the world they live in. The dictionaries of \<open>WorldState\<close> are ordered
  association lists; objects reached from two places (an incident in the table and in a local
  variable) are one entry of the table here, addressed by its key.
\<close>

datatype health = Healthy | Degraded | Down | Recovering

datatype incident_status = Open_incident | Mitigating | Resolved

datatype slo_state = Slo_healthy | Breaching

record service =
  svc_id :: string
  svc_name :: string
  svc_tier :: string
  svc_owner_team :: string
  svc_health :: health
  svc_current_version :: string
  svc_previous_stable_version :: "string option"
  svc_capacity_units :: int
  svc_restart_count :: nat

record dependency =
  dep_id :: string
  dep_key :: string
  dep_from :: string
  dep_to :: string
  dep_type :: string
  dep_criticality :: string
  dep_status :: string

record slo =
  slo_id :: string
  slo_service :: string
  slo_kind :: string
  slo_threshold :: real
  slo_window_seconds :: int
  slo_current_value :: real
  slo_burn_rate :: real
  slo_status :: slo_state

record config_revision =
  cfg_id :: string
  cfg_service :: string
  cfg_key :: string
  cfg_value :: pyval
  cfg_valid_from :: int
  cfg_valid_to :: "int option"
  cfg_source :: string

record deployment =
  dpl_id :: string
  dpl_service :: string
  dpl_version :: string
  dpl_action :: string
  dpl_deployed_at :: int
  dpl_rolled_back :: bool

record alert =
  alr_id :: string
  alr_incident :: string
  alr_service :: string
  alr_slo_kind :: string
  alr_signal :: string
  alr_fired_at :: int
  alr_cleared_at :: "int option"

record incident =
  inc_id :: string
  inc_scenario_id :: string
  inc_title :: string
  inc_service :: string
  inc_severity :: string
  inc_family_id :: string
  inc_variant_id :: string
  inc_status :: incident_status
  inc_opened_at :: int
  inc_resolved_at :: "int option"
  inc_mttr_seconds :: "int option"
  inc_oracle_step :: nat

text \<open>The agent-visible view of an incident: no family, variant, scenario or oracle label.\<close>

record observation =
  obs_incident_id :: string
  obs_title :: string
  obs_service :: string
  obs_severity :: string
  obs_signal :: string
  obs_slo_kind :: string
  obs_slo_current_value :: real
  obs_slo_threshold :: real
  obs_current_version :: string
  obs_previous_stable_version :: "string option"
  obs_observed_at :: int

record order =
  ord_id :: string
  ord_incident_id :: string
  ord_status :: string
  ord_amount_cents :: int
  ord_error_code :: string
  ord_created_at :: int

record remediation_action =
  act_id :: string
  act_incident_id :: string
  act_type :: string
  act_target :: string
  act_params :: "(string, pyval) dict"
  act_applied_at :: int
  act_applied_by :: string
  act_outcome :: string
  act_memory_ref :: "string option"

record world =
  w_now :: int
  w_services :: "(string, service) dict"
  w_dependencies :: "(string, dependency) dict"
  w_slos :: "(string \<times> string, slo) dict"
  w_configs :: "config_revision list"
  w_deployments :: "deployment list"
  w_alerts :: "(string, alert) dict"
  w_incidents :: "(string, incident) dict"
  w_orders :: "order list"
  w_actions :: "remediation_action list"

definition empty_world :: "int \<Rightarrow> world" where
  "empty_world t = \<lparr>w_now = t, w_services = [], w_dependencies = [], w_slos = [], w_configs = [],
     w_deployments = [], w_alerts = [], w_incidents = [], w_orders = [], w_actions = []\<rparr>"

section \<open>Configuration revisions\<close>

definition is_current :: "string \<Rightarrow> string \<Rightarrow> config_revision \<Rightarrow> bool" where
  "is_current svc key r \<longleftrightarrow> cfg_service r = svc \<and> cfg_key r = key \<and> cfg_valid_to r = None"

definition current_config :: "world \<Rightarrow> string \<Rightarrow> string \<Rightarrow> config_revision option" where
  "current_config w svc key = find (is_current svc key) (rev (w_configs w))"

text \<open>
  What every configuration history must satisfy: at most one open revision per service and
  key, and closed revisions that end no earlier than they start.
\<close>

definition single_current :: "config_revision list \<Rightarrow> bool" where
  "single_current rs \<longleftrightarrow> (\<forall>svc key. length (filter (is_current svc key) rs) \<le> 1)"

definition well_dated :: "int \<Rightarrow> config_revision list \<Rightarrow> bool" where
  "well_dated now rs \<longleftrightarrow> (\<forall>r \<in> set rs. cfg_valid_from r \<le> now \<and>
     (\<forall>t. cfg_valid_to r = Some t \<longrightarrow> cfg_valid_from r \<le> t \<and> t \<le> now))"

lemma is_current_closed [simp]: "\<not> is_current svc key (r\<lparr>cfg_valid_to := Some t\<rparr>)"
  by (simp add: is_current_def)

lemma is_current_other:
  "is_current svc key r \<Longrightarrow> is_current svc' key' r \<longleftrightarrow> svc' = svc \<and> key' = key"
  by (auto simp: is_current_def)

text \<open>Closing the current revision of a pair leaves none open for it, and the others as they were.\<close>

lemma filter_close_first:
  assumes "p = is_current svc key" and "f = cfg_valid_to_update (\<lambda>_. Some t)"
  shows "length (filter (is_current svc' key') (update_first p f rs)) =
    (if svc' = svc \<and> key' = key then length (filter (is_current svc key) rs) - 1
     else length (filter (is_current svc' key') rs))"
proof (induction rs)
  case Nil
  then show ?case by simp
next
  case (Cons r rs)
  show ?case
  proof (cases "is_current svc key r")
    case True
    then show ?thesis using assms by (auto simp: is_current_other)
  next
    case False
    have pos: "length (filter (is_current svc key) rs) - 1 = 0"
      if "length (filter (is_current svc key) rs) = 0" using that by simp
    from False Cons show ?thesis using assms by auto
  qed
qed

lemma filter_close_last:
  "length (filter (is_current svc' key')
      (update_last (is_current svc key) (cfg_valid_to_update (\<lambda>_. Some t)) rs)) =
    (if svc' = svc \<and> key' = key then length (filter (is_current svc key) rs) - 1
     else length (filter (is_current svc' key') rs))"
proof -
  have len: "length (filter p (rev xs)) = length (filter p xs)"
    for p :: "config_revision \<Rightarrow> bool" and xs
    by (simp add: rev_filter[symmetric])
  show ?thesis
    unfolding update_last_def using filter_close_first [OF refl refl, of svc' key' svc key t "rev rs"]
    by (simp add: len)
qed

lemma single_current_close_open:
  assumes "single_current rs" and "is_current svc key r"
  shows "single_current (update_last (is_current svc key) (cfg_valid_to_update (\<lambda>_. Some t)) rs @ [r])"
proof (unfold single_current_def, intro allI)
  fix svc' key'
  let ?n = "\<lambda>s k. length (filter (is_current s k) rs)"
  have "?n svc' key' \<le> 1" and "?n svc key \<le> 1"
    using assms(1) by (auto simp: single_current_def)
  then show "length (filter (is_current svc' key')
      (update_last (is_current svc key) (cfg_valid_to_update (\<lambda>_. Some t)) rs @ [r])) \<le> 1"
    using assms(2) by (simp add: filter_close_last is_current_other [OF assms(2)])
qed

lemma well_dated_mono: "well_dated now rs \<Longrightarrow> now \<le> now' \<Longrightarrow> well_dated now' rs"
  by (force simp: well_dated_def)

lemma well_dated_close_open:
  assumes "well_dated now rs" and "cfg_valid_from r = now" and "cfg_valid_to r = None"
  shows "well_dated now (update_last p (cfg_valid_to_update (\<lambda>_. Some now)) rs @ [r])"
  using assms by (auto simp: well_dated_def dest!: set_update_last)

end
