(* ===== verification/Sim_Conductor.thy ===== *)
theory Sim_Conductor
  imports Sim_Models
begin

text \<open>
  The conductor of \<^verbatim>\<open>simulator/postmortem_sim/conductor.py\<close>: the seeded incident stream, the
  twelve injectors, the remediation actions and the resolution oracle. Every method is a program
  over the state \<open>conductor\<close> that raises \<open>SimulationError\<close> where the source does and
  \<open>SimKeyError\<close> where a dictionary subscript or a missing fixture field would. Assignments made
  before a \<open>raise\<close> stay in the state, as in Python.

  The fixture is taken after JSON decoding, at the types its fields have; an optional field is an
  option, a required field of a fault that may be missing is an option whose absence is the
  \<open>KeyError\<close> of the subscript. \<open>uuid5\<close> is the name-based UUID over the conductor's namespace,
  a parameter: nothing depends on its bits.
\<close>

datatype sim_error = SimulationError string | SimKeyError string | SimTypeError string

record fault =
  flt_bad_version :: "string option"
  flt_error_rate :: "real option"
  flt_p99_ms :: "real option"
  flt_availability :: "real option"
  flt_utilization :: "real option"
  flt_memory_utilization :: "real option"
  flt_near_miss :: bool
  flt_environment_migrated :: bool
  flt_dependency_key :: "string option"
  flt_failed_service :: "string option"
  flt_key :: "string option"
  flt_bad_value :: "pyval option"
  flt_burn_rate :: "real option"

record scenario =
  scn_id :: string
  scn_title :: string
  scn_target_service :: string
  scn_severity :: string
  scn_family_id :: string
  scn_variant_id :: string
  scn_inject_at_seconds :: int
  scn_fault :: fault
  scn_failed_orders :: "int option"

record expected_action =
  exp_action_type :: string
  exp_target_service :: string
  exp_params :: "(string, pyval) dict"

record oracle_policy =
  pol_required_actions :: "expected_action list"
  pol_action_seconds :: int
  pol_wrong_action_penalty_seconds :: int

record conductor =
  cd_seed :: int
  cd_start_time :: int
  cd_scenarios :: "scenario list"
  cd_oracle :: "(string, oracle_policy) dict"
  cd_scenario_oracle :: "(string, oracle_policy) dict"
  cd_next_scenario :: nat
  cd_state :: world

record action_result =
  res_action_id :: string
  res_applied :: bool
  res_resolved :: bool
  res_outcome :: string
  res_incident_status :: incident_status

type_synonym 'a sim = "(conductor, sim_error, 'a) prog"

definition sec :: "int \<Rightarrow> int" where
  "sec n = n * 1000000"

section \<open>Access to the world\<close>

definition on_world :: "(world \<Rightarrow> world) \<Rightarrow> unit sim" where
  "on_world f = modifies (\<lambda>c. c\<lparr>cd_state := f (cd_state c)\<rparr>)"

definition of_world :: "(world \<Rightarrow> 'a) \<Rightarrow> 'a sim" where
  "of_world f = reads (\<lambda>c. f (cd_state c))"

definition get_service :: "string \<Rightarrow> service sim" where
  "get_service n = andThen (of_world (\<lambda>w. map_of (w_services w) n)) (the_or (SimKeyError n))"

definition change_service :: "string \<Rightarrow> (service \<Rightarrow> service) \<Rightarrow> unit sim" where
  "change_service n f = andThen (get_service n)
     (\<lambda>s. on_world (\<lambda>w. w\<lparr>w_services := AList.update n (f s) (w_services w)\<rparr>))"

definition get_dependency :: "string \<Rightarrow> dependency sim" where
  "get_dependency k = andThen (of_world (\<lambda>w. map_of (w_dependencies w) k)) (the_or (SimKeyError k))"

definition change_dependency :: "string \<Rightarrow> (dependency \<Rightarrow> dependency) \<Rightarrow> unit sim" where
  "change_dependency k f = andThen (get_dependency k)
     (\<lambda>d. on_world (\<lambda>w. w\<lparr>w_dependencies := AList.update k (f d) (w_dependencies w)\<rparr>))"

definition get_slo :: "string \<times> string \<Rightarrow> slo sim" where
  "get_slo k = andThen (of_world (\<lambda>w. map_of (w_slos w) k)) (the_or (SimKeyError (fst k)))"

definition change_slo :: "string \<times> string \<Rightarrow> (slo \<Rightarrow> slo) \<Rightarrow> unit sim" where
  "change_slo k f = andThen (get_slo k)
     (\<lambda>s. on_world (\<lambda>w. w\<lparr>w_slos := AList.update k (f s) (w_slos w)\<rparr>))"

definition change_incident :: "string \<Rightarrow> (incident \<Rightarrow> incident) \<Rightarrow> unit sim" where
  "change_incident i f = on_world (\<lambda>w. case map_of (w_incidents w) i of None \<Rightarrow> w
     | Some inc \<Rightarrow> w\<lparr>w_incidents := AList.update i (f inc) (w_incidents w)\<rparr>)"

text \<open>A fault field: a missing one is the \<open>KeyError\<close> of its subscript.\<close>

definition fault_field :: "string \<Rightarrow> 'a option \<Rightarrow> 'a sim" where
  "fault_field name v = the_or (SimKeyError name) v"

definition sim_id :: "(string \<Rightarrow> string) \<Rightarrow> int \<Rightarrow> string \<Rightarrow> string \<Rightarrow> string" where
  "sim_id uuid5 seed kind key = uuid5 (int_str seed @ '':'' @ kind @ '':'' @ key)"

definition remaining_scenarios :: "conductor \<Rightarrow> nat" where
  "remaining_scenarios c = length (cd_scenarios c) - cd_next_scenario c"

definition advance_time :: "int \<Rightarrow> unit sim" where
  "advance_time seconds =
     andThen (require (0 \<le> seconds) (SimulationError ''simulation time cannot move backwards''))
     (\<lambda>_. on_world (\<lambda>w. w\<lparr>w_now := w_now w + sec seconds\<rparr>))"

section \<open>Configuration and failed orders\<close>

definition set_config ::
  "(string \<Rightarrow> string) \<Rightarrow> string \<Rightarrow> string \<Rightarrow> pyval \<Rightarrow> string \<Rightarrow> unit sim" where
  "set_config uuid5 svc key value source =
     andThen (on_world (\<lambda>w. w\<lparr>w_configs := update_last (is_current svc key)
        (cfg_valid_to_update (\<lambda>_. Some (w_now w))) (w_configs w)\<rparr>))
     (\<lambda>_. modifies (\<lambda>c. let w = cd_state c in c\<lparr>cd_state := w\<lparr>w_configs := w_configs w @
        [\<lparr>cfg_id = sim_id uuid5 (cd_seed c) ''config''
            (svc @ '':'' @ key @ '':'' @ nat_str (length (w_configs w))),
          cfg_service = svc, cfg_key = key, cfg_value = value,
          cfg_valid_from = w_now w, cfg_valid_to = None, cfg_source = source\<rparr>]\<rparr>\<rparr>))"

text \<open>One failed order; the loop appends one per index.\<close>

definition failed_order ::
  "(string \<Rightarrow> string) \<Rightarrow> int \<Rightarrow> incident \<Rightarrow> string \<Rightarrow> world \<Rightarrow> nat \<Rightarrow> order" where
  "failed_order uuid5 seed inc err w i =
     \<lparr>ord_id = sim_id uuid5 seed ''order''
        (inc_scenario_id inc @ '':'' @ nat_str (length (w_orders w)) @ '':'' @ nat_str i),
      ord_incident_id = inc_id inc, ord_status = ''failed'',
      ord_amount_cents = 1500 + ((seed + int i * 7919) mod 8500),
      ord_error_code = err, ord_created_at = w_now w + sec (int i)\<rparr>"

definition add_failed_orders ::
  "(string \<Rightarrow> string) \<Rightarrow> incident \<Rightarrow> int \<Rightarrow> string \<Rightarrow> unit sim" where
  "add_failed_orders uuid5 inc count err = modifies (\<lambda>c. c\<lparr>cd_state :=
     foldl (\<lambda>w i. w\<lparr>w_orders := w_orders w @ [failed_order uuid5 (cd_seed c) inc err w i]\<rparr>)
       (cd_state c) [0..<nat count]\<rparr>)"

definition new_incident :: "(string \<Rightarrow> string) \<Rightarrow> int \<Rightarrow> scenario \<Rightarrow> int \<Rightarrow> incident" where
  "new_incident uuid5 seed sc now =
     \<lparr>inc_id = sim_id uuid5 seed ''incident'' (scn_id sc),
      inc_scenario_id = scn_id sc, inc_title = scn_title sc, inc_service = scn_target_service sc,
      inc_severity = scn_severity sc, inc_family_id = scn_family_id sc,
      inc_variant_id = scn_variant_id sc, inc_status = Open_incident,
      inc_opened_at = now, inc_resolved_at = None, inc_mttr_seconds = None,
      inc_oracle_step = 0\<rparr>"

text \<open>The SLO breach, the alert and the failed orders of a new incident.\<close>

definition announce_incident ::
  "(string \<Rightarrow> string) \<Rightarrow> scenario \<Rightarrow> incident \<Rightarrow> string \<Rightarrow> real \<Rightarrow> string \<Rightarrow> string \<Rightarrow> incident sim" where
  "announce_incident uuid5 sc inc kind value signal err =
     andThen (change_slo (inc_service inc, kind) (\<lambda>s. s\<lparr>slo_current_value := value,
        slo_burn_rate := (case flt_burn_rate (scn_fault sc) of None \<Rightarrow> 8 | Some r \<Rightarrow> r),
        slo_status := Breaching\<rparr>)) (\<lambda>_.
     andThen (modifies (\<lambda>c. let w = cd_state c; aid = sim_id uuid5 (cd_seed c) ''alert'' (scn_id sc)
        in c\<lparr>cd_state := w\<lparr>w_alerts := AList.update aid
          \<lparr>alr_id = aid, alr_incident = inc_id inc, alr_service = inc_service inc,
           alr_slo_kind = kind, alr_signal = signal, alr_fired_at = w_now w,
           alr_cleared_at = None\<rparr> (w_alerts w)\<rparr>\<rparr>)) (\<lambda>_.
     andThen (add_failed_orders uuid5 inc
        (case scn_failed_orders sc of None \<Rightarrow> 5 | Some n \<Rightarrow> n) err) (\<lambda>_.
     ret inc)))"

definition open_incident ::
  "(string \<Rightarrow> string) \<Rightarrow> scenario \<Rightarrow> string \<Rightarrow> real \<Rightarrow> string \<Rightarrow> string \<Rightarrow> incident sim" where
  "open_incident uuid5 sc kind value signal err =
     andThen (reads (\<lambda>c. new_incident uuid5 (cd_seed c) sc (w_now (cd_state c)))) (\<lambda>inc.
     andThen (on_world (\<lambda>w. w\<lparr>w_incidents := AList.update (inc_id inc) inc (w_incidents w)\<rparr>)) (\<lambda>_.
     announce_incident uuid5 sc inc kind value signal err))"

section \<open>Injectors\<close>

definition set_health :: "string \<Rightarrow> health \<Rightarrow> unit sim" where
  "set_health n h = change_service n (\<lambda>s. s\<lparr>svc_health := h\<rparr>)"

definition inject_bad_deploy :: "(string \<Rightarrow> string) \<Rightarrow> scenario \<Rightarrow> incident sim" where
  "inject_bad_deploy uuid5 sc =
     andThen (change_service (scn_target_service sc)
        (\<lambda>s. s\<lparr>svc_previous_stable_version := Some (svc_current_version s)\<rparr>)) (\<lambda>_.
     andThen (fault_field ''bad_version'' (flt_bad_version (scn_fault sc))) (\<lambda>bad.
     andThen (change_service (scn_target_service sc)
        (\<lambda>s. s\<lparr>svc_current_version := bad, svc_health := Degraded\<rparr>)) (\<lambda>_.
     andThen (get_service (scn_target_service sc)) (\<lambda>s.
     andThen (modifies (\<lambda>c. let w = cd_state c in c\<lparr>cd_state := w\<lparr>w_deployments := w_deployments w @
        [\<lparr>dpl_id = sim_id uuid5 (cd_seed c) ''deploy'' (scn_id sc @ '':bad''),
          dpl_service = svc_name s, dpl_version = svc_current_version s,
          dpl_action = ''deploy'', dpl_deployed_at = w_now w, dpl_rolled_back = False\<rparr>]\<rparr>\<rparr>)) (\<lambda>_.
     andThen (fault_field ''error_rate'' (flt_error_rate (scn_fault sc))) (\<lambda>rate.
     open_incident uuid5 sc ''error_rate'' rate
       (''HTTP 5xx rose after deploy '' @ svc_current_version s) ''CHECKOUT_5XX''))))))"

definition inject_pool_exhaustion :: "(string \<Rightarrow> string) \<Rightarrow> scenario \<Rightarrow> incident sim" where
  "inject_pool_exhaustion uuid5 sc =
     andThen (get_service (scn_target_service sc)) (\<lambda>s.
     andThen (set_health (scn_target_service sc) Degraded) (\<lambda>_.
     if flt_near_miss (scn_fault sc) then
       andThen (fault_field ''p99_ms'' (flt_p99_ms (scn_fault sc))) (\<lambda>p99.
       open_incident uuid5 sc ''latency'' p99
         (''slow SQL query plan causes long scans; pool health confirmed '' @
          ''and resource gauges remain normal'') ''SLOW_QUERY_PLAN'')
     else
       andThen (of_world (\<lambda>w. current_config w (svc_name s) ''db_pool_size'')) (\<lambda>cur.
       andThen (require (cur \<noteq> None)
         (SimulationError (''db_pool_size missing for '' @ svc_name s))) (\<lambda>_.
       andThen (fault_field ''p99_ms'' (flt_p99_ms (scn_fault sc))) (\<lambda>p99.
       open_incident uuid5 sc ''latency'' p99
         ''database too many connections; p99 latency breached'' ''DB_POOL_EXHAUSTED'')))))"

text \<open>
  The three dependency outages: the dependency is repointed at the failed service and
  degraded, the failed service is down, the target degraded.
\<close>

definition degrade_dependency :: "scenario \<Rightarrow> string sim" where
  "degrade_dependency sc =
     andThen (fault_field ''dependency_key'' (flt_dependency_key (scn_fault sc))) (\<lambda>key.
     andThen (get_dependency key) (\<lambda>_.
     andThen (fault_field ''failed_service'' (flt_failed_service (scn_fault sc))) (\<lambda>failed.
     andThen (change_dependency key (\<lambda>d. d\<lparr>dep_to := failed, dep_status := ''degraded''\<rparr>)) (\<lambda>_.
     andThen (set_health failed Down) (\<lambda>_.
     andThen (set_health (scn_target_service sc) Degraded) (\<lambda>_.
     ret failed))))))"

definition inject_cache_outage :: "(string \<Rightarrow> string) \<Rightarrow> scenario \<Rightarrow> incident sim" where
  "inject_cache_outage uuid5 sc =
     andThen (degrade_dependency sc) (\<lambda>failed.
     andThen (fault_field ''availability'' (flt_availability (scn_fault sc))) (\<lambda>a.
     open_incident uuid5 sc ''availability'' a
       (''cache timeout cascade through '' @ failed) ''CACHE_TIMEOUT''))"

definition inject_traffic_saturation :: "(string \<Rightarrow> string) \<Rightarrow> scenario \<Rightarrow> incident sim" where
  "inject_traffic_saturation uuid5 sc =
     andThen (set_health (scn_target_service sc) Degraded) (\<lambda>_.
     andThen (fault_field ''utilization'' (flt_utilization (scn_fault sc))) (\<lambda>u.
     open_incident uuid5 sc ''saturation'' u
       ''traffic spike saturated CPU; checkout latency rising'' ''SERVICE_SATURATED''))"

definition inject_retry_storm :: "(string \<Rightarrow> string) \<Rightarrow> scenario \<Rightarrow> incident sim" where
  "inject_retry_storm uuid5 sc =
     andThen (set_health (scn_target_service sc) Degraded) (\<lambda>_.
     andThen (fault_field ''p99_ms'' (flt_p99_ms (scn_fault sc))) (\<lambda>p99.
     open_incident uuid5 sc ''latency'' p99
       ''retry storm amplified request rate after an upstream blip'' ''RETRY_STORM''))"

definition inject_memory_leak :: "(string \<Rightarrow> string) \<Rightarrow> scenario \<Rightarrow> incident sim" where
  "inject_memory_leak uuid5 sc =
     andThen (set_health (scn_target_service sc) Degraded) (\<lambda>_.
     andThen (fault_field ''memory_utilization'' (flt_memory_utilization (scn_fault sc))) (\<lambda>u.
     open_incident uuid5 sc ''saturation'' u
       ''gradual memory leak reached OOM pressure and process crashes'' ''MEMORY_PRESSURE''))"

definition inject_config_regression :: "(string \<Rightarrow> string) \<Rightarrow> scenario \<Rightarrow> incident sim" where
  "inject_config_regression uuid5 sc =
     andThen (fault_field ''key'' (flt_key (scn_fault sc))) (\<lambda>key.
     andThen (fault_field ''bad_value'' (flt_bad_value (scn_fault sc))) (\<lambda>bad.
     andThen (set_config uuid5 (scn_target_service sc) key bad ''fault'') (\<lambda>_.
     andThen (set_health (scn_target_service sc) Degraded) (\<lambda>_.
     andThen (fault_field ''error_rate'' (flt_error_rate (scn_fault sc))) (\<lambda>rate.
     open_incident uuid5 sc ''error_rate'' rate
       (''error spike followed config flag '' @ key @ '' change'') ''CONFIG_REGRESSION'')))))"

definition inject_datastore_failover :: "(string \<Rightarrow> string) \<Rightarrow> scenario \<Rightarrow> incident sim" where
  "inject_datastore_failover uuid5 sc =
     andThen (degrade_dependency sc) (\<lambda>_.
     andThen (fault_field ''availability'' (flt_availability (scn_fault sc))) (\<lambda>a.
     open_incident uuid5 sc ''availability'' a
       ''orders datastore primary unavailable; checkout writes failing'' ''DATASTORE_UNAVAILABLE''))"

definition inject_payment_provider_outage :: "(string \<Rightarrow> string) \<Rightarrow> scenario \<Rightarrow> incident sim" where
  "inject_payment_provider_outage uuid5 sc =
     andThen (degrade_dependency sc) (\<lambda>_.
     andThen (fault_field ''availability'' (flt_availability (scn_fault sc))) (\<lambda>a.
     open_incident uuid5 sc ''availability'' a
       ''upstream payment provider auth failures are blocking checkout'' ''PAYMENT_PROVIDER_DOWN''))"

definition inject_novel :: "(string \<Rightarrow> string) \<Rightarrow> scenario \<Rightarrow> incident sim" where
  "inject_novel uuid5 sc =
     andThen (set_health (scn_target_service sc) Degraded) (\<lambda>_.
     andThen (fault_field ''p99_ms'' (flt_p99_ms (scn_fault sc))) (\<lambda>p99.
     open_incident uuid5 sc ''latency'' p99
       ''ambiguous clock-skew signature with no known causal pattern'' ''UNKNOWN_FAILURE''))"

definition inject_pool_driver_migration :: "(string \<Rightarrow> string) \<Rightarrow> scenario \<Rightarrow> incident sim" where
  "inject_pool_driver_migration uuid5 sc =
     andThen (get_service (scn_target_service sc)) (\<lambda>s.
     andThen (set_health (scn_target_service sc) Degraded) (\<lambda>_.
     andThen (if flt_environment_migrated (scn_fault sc)
       then set_config uuid5 (svc_name s) ''pool_driver'' (PStr ''multiplexed'') ''platform_migration''
       else ret ()) (\<lambda>_.
     andThen (fault_field ''p99_ms'' (flt_p99_ms (scn_fault sc))) (\<lambda>p99.
     open_incident uuid5 sc ''latency'' p99
       ''database too many connections; p99 latency breached'' ''DB_POOL_EXHAUSTED''))))"

definition inject_cache_topology_migration :: "(string \<Rightarrow> string) \<Rightarrow> scenario \<Rightarrow> incident sim" where
  "inject_cache_topology_migration uuid5 sc =
     andThen (fault_field ''dependency_key'' (flt_dependency_key (scn_fault sc))) (\<lambda>key.
     andThen (get_dependency key) (\<lambda>_.
     andThen (get_service (scn_target_service sc)) (\<lambda>s.
     andThen (if flt_environment_migrated (scn_fault sc)
       then andThen (set_config uuid5 (svc_name s) ''cache_failover_target''
              (PStr ''cache-managed-primary'') ''platform_migration'')
            (\<lambda>_. set_health ''cache-onprem-replica'' Down)
       else ret ()) (\<lambda>_.
     andThen (fault_field ''failed_service'' (flt_failed_service (scn_fault sc))) (\<lambda>failed.
     andThen (change_dependency key (\<lambda>d. d\<lparr>dep_to := failed, dep_status := ''degraded''\<rparr>)) (\<lambda>_.
     andThen (set_health failed Down) (\<lambda>_.
     andThen (set_health (scn_target_service sc) Degraded) (\<lambda>_.
     andThen (fault_field ''availability'' (flt_availability (scn_fault sc))) (\<lambda>a.
     open_incident uuid5 sc ''availability'' a
       (''cache timeout cascade through '' @ failed) ''CACHE_TIMEOUT'')))))))))"

text \<open>The dispatch of \<open>inject_next\<close> on the family label.\<close>

definition inject_family :: "(string \<Rightarrow> string) \<Rightarrow> scenario \<Rightarrow> incident sim" where
  "inject_family uuid5 sc = (let family = scn_family_id sc in
     if family = ''F1_BAD_DEPLOY'' then inject_bad_deploy uuid5 sc
     else if family = ''F2_POOL_EXHAUSTION'' then inject_pool_exhaustion uuid5 sc
     else if family = ''F3_CACHE_OUTAGE'' then inject_cache_outage uuid5 sc
     else if family = ''F4_TRAFFIC_SATURATION'' then inject_traffic_saturation uuid5 sc
     else if family = ''F5_RETRY_STORM'' then inject_retry_storm uuid5 sc
     else if family = ''F6_MEMORY_LEAK'' then inject_memory_leak uuid5 sc
     else if family = ''F7_CONFIG_REGRESSION'' then inject_config_regression uuid5 sc
     else if family = ''F8_DATASTORE_FAILOVER'' then inject_datastore_failover uuid5 sc
     else if family = ''F9_PAYMENT_PROVIDER_OUTAGE'' then inject_payment_provider_outage uuid5 sc
     else if family = ''F10_NOVEL'' then inject_novel uuid5 sc
     else if family = ''F11_POOL_DRIVER_MIGRATION'' then inject_pool_driver_migration uuid5 sc
     else if family = ''F12_CACHE_TOPOLOGY_MIGRATION'' then inject_cache_topology_migration uuid5 sc
     else raise (SimulationError (''unsupported incident family: '' @ family)))"

definition inject_next :: "(string \<Rightarrow> string) \<Rightarrow> incident sim" where
  "inject_next uuid5 = (\<lambda>c.
     if length (cd_scenarios c) \<le> cd_next_scenario c
     then (Inl (SimulationError ''no scheduled scenarios remain''), c)
     else (let sc = cd_scenarios c ! cd_next_scenario c;
               due = cd_start_time c + sec (scn_inject_at_seconds sc);
               w = cd_state c
           in inject_family uuid5 sc (c\<lparr>cd_next_scenario := Suc (cd_next_scenario c),
                cd_state := w\<lparr>w_now := max (w_now w) due\<rparr>\<rparr>)))"

section \<open>Observation\<close>

definition active_alert :: "world \<Rightarrow> string \<Rightarrow> alert option" where
  "active_alert w iid = find (\<lambda>a. alr_incident a = iid \<and> alr_cleared_at a = None) (map snd (w_alerts w))"

definition observe_incident :: "string \<Rightarrow> observation sim" where
  "observe_incident iid =
     andThen (of_world (\<lambda>w. map_of (w_incidents w) iid)) (\<lambda>found.
     andThen (the_or (SimulationError (''unknown incident: '' @ iid)) found) (\<lambda>inc.
     andThen (of_world (\<lambda>w. active_alert w iid)) (\<lambda>active.
     andThen (the_or (SimulationError (''incident has no active alert: '' @ iid)) active) (\<lambda>a.
     andThen (get_slo (alr_service a, alr_slo_kind a)) (\<lambda>s.
     andThen (get_service (inc_service inc)) (\<lambda>svc.
     of_world (\<lambda>w. \<lparr>obs_incident_id = inc_id inc, obs_title = inc_title inc,
       obs_service = inc_service inc, obs_severity = inc_severity inc,
       obs_signal = alr_signal a, obs_slo_kind = alr_slo_kind a,
       obs_slo_current_value = slo_current_value s, obs_slo_threshold = slo_threshold s,
       obs_current_version = svc_current_version svc,
       obs_previous_stable_version = svc_previous_stable_version svc,
       obs_observed_at = w_now w\<rparr>)))))))"


section \<open>Remediation actions\<close>

fun hashable :: "pyval \<Rightarrow> bool" where
  "hashable (PList xs) = False"
| "hashable (PDict d) = False"
| "hashable (PTuple xs) = (\<forall>x \<in> set xs. hashable x)"
| "hashable v = True"

text \<open>\<open>value not in table\<close> for a table with text keys, and the text it is when it is in.\<close>

definition known_key :: "string \<Rightarrow> (string, 'v) dict \<Rightarrow> pyval \<Rightarrow> string sim" where
  "known_key message d v =
     andThen (require (hashable v) (SimTypeError ''unhashable type'')) (\<lambda>_.
     case v of PStr k \<Rightarrow> andThen (require (map_of d k \<noteq> None) (SimulationError message)) (\<lambda>_. ret k)
     | _ \<Rightarrow> raise (SimulationError message))"

definition mutate_rollback :: "(string \<Rightarrow> string) \<Rightarrow> string \<Rightarrow> (string, pyval) dict \<Rightarrow> unit sim" where
  "mutate_rollback uuid5 target params =
     andThen (get_service target) (\<lambda>s.
     andThen (the_or (SimulationError ''rollback_deploy requires target_version'')
        (py_as_str (pget params ''target_version''))) (\<lambda>version.
     andThen (on_world (\<lambda>w. w\<lparr>w_deployments := update_last
        (\<lambda>d. dpl_service d = target \<and> dpl_version d = svc_current_version s)
        (\<lambda>d. d\<lparr>dpl_rolled_back := True\<rparr>) (w_deployments w)\<rparr>)) (\<lambda>_.
     andThen (change_service target (\<lambda>s. s\<lparr>svc_current_version := version\<rparr>)) (\<lambda>_.
     modifies (\<lambda>c. let w = cd_state c in c\<lparr>cd_state := w\<lparr>w_deployments := w_deployments w @
        [\<lparr>dpl_id = sim_id uuid5 (cd_seed c) ''deploy''
            (''rollback:'' @ target @ '':'' @ nat_str (length (w_deployments w))),
          dpl_service = target, dpl_version = version, dpl_action = ''rollback'',
          dpl_deployed_at = w_now w, dpl_rolled_back = False\<rparr>]\<rparr>\<rparr>)))))"

definition mutate_set_config :: "(string \<Rightarrow> string) \<Rightarrow> string \<Rightarrow> (string, pyval) dict \<Rightarrow> unit sim" where
  "mutate_set_config uuid5 target params =
     andThen (get_service target) (\<lambda>_.
     case (py_as_str (pget params ''key''), map_of params ''value'') of
       (Some key, Some v) \<Rightarrow> set_config uuid5 target key v ''remediation''
     | _ \<Rightarrow> raise (SimulationError ''set_config requires key and value''))"

definition mutate_failover :: "string \<Rightarrow> (string, pyval) dict \<Rightarrow> unit sim" where
  "mutate_failover target params =
     andThen (get_service target) (\<lambda>_.
     andThen (of_world (\<lambda>w. w)) (\<lambda>w.
     andThen (known_key ''failover_dependency requires a known dependency_key''
        (w_dependencies w) (pget params ''dependency_key'')) (\<lambda>key.
     andThen (known_key ''failover_dependency requires a known to_service''
        (w_services w) (pget params ''to_service'')) (\<lambda>destination.
     change_dependency key (\<lambda>d. d\<lparr>dep_to := destination, dep_status := ''active''\<rparr>)))))"

definition mutate_scale :: "string \<Rightarrow> (string, pyval) dict \<Rightarrow> unit sim" where
  "mutate_scale target params =
     andThen (get_service target) (\<lambda>_.
     case py_as_int (pget params ''capacity_units'') of
       None \<Rightarrow> raise (SimulationError ''scale_service requires positive capacity_units'')
     | Some units \<Rightarrow>
         andThen (require (0 < units) (SimulationError ''scale_service requires positive capacity_units''))
         (\<lambda>_. change_service target (\<lambda>s. s\<lparr>svc_capacity_units := units\<rparr>)))"

definition mutate_throttle :: "(string \<Rightarrow> string) \<Rightarrow> string \<Rightarrow> (string, pyval) dict \<Rightarrow> unit sim" where
  "mutate_throttle uuid5 target params =
     andThen (get_service target) (\<lambda>_.
     case py_as_int (pget params ''traffic_percent'') of
       None \<Rightarrow> raise (SimulationError ''throttle_traffic requires traffic_percent between 1 and 100'')
     | Some percent \<Rightarrow>
         andThen (require (1 \<le> percent \<and> percent \<le> 100)
           (SimulationError ''throttle_traffic requires traffic_percent between 1 and 100''))
         (\<lambda>_. set_config uuid5 target ''traffic_limit_percent'' (pget params ''traffic_percent'')
            ''remediation''))"

definition mutate_action ::
  "(string \<Rightarrow> string) \<Rightarrow> string \<Rightarrow> string \<Rightarrow> (string, pyval) dict \<Rightarrow> unit sim" where
  "mutate_action uuid5 action_type target params =
     (if action_type = ''rollback_deploy'' then mutate_rollback uuid5 target params
      else if action_type = ''set_config'' then mutate_set_config uuid5 target params
      else if action_type = ''restart_service'' then
        change_service target (\<lambda>s. s\<lparr>svc_restart_count := Suc (svc_restart_count s)\<rparr>)
      else if action_type = ''failover_dependency'' then mutate_failover target params
      else if action_type = ''scale_service'' then mutate_scale target params
      else if action_type = ''throttle_traffic'' then mutate_throttle uuid5 target params
      else andThen (get_service target) (\<lambda>_.
        if action_type \<in> {''no_op_page_human'', ''escalate''} then ret ()
        else raise (SimulationError (''unsupported remediation action: '' @ action_type))))"

section \<open>The oracle\<close>

text \<open>
  \<open>dict.get(scenario, self._oracle[family])\<close> evaluates its default first: an unknown family is
  a \<open>KeyError\<close> even where the scenario has a policy of its own.
\<close>

definition oracle_for :: "incident \<Rightarrow> oracle_policy sim" where
  "oracle_for inc =
     andThen (reads (\<lambda>c. map_of (cd_oracle c) (inc_family_id inc))) (\<lambda>fam.
     andThen (the_or (SimKeyError (inc_family_id inc)) fam) (\<lambda>family_policy.
     reads (\<lambda>c. dict_get (cd_scenario_oracle c) (inc_scenario_id inc) family_policy)))"

definition expected_target :: "expected_action \<Rightarrow> incident \<Rightarrow> string" where
  "expected_target e inc = (if exp_target_service e = ''$incident.service'' then inc_service inc
     else exp_target_service e)"

definition expected_value :: "service \<Rightarrow> pyval \<Rightarrow> pyval" where
  "expected_value svc v = (if py_eq v (PStr ''$incident.previous_stable_version'')
     then (case svc_previous_stable_version svc of None \<Rightarrow> PNone | Some x \<Rightarrow> PStr x) else v)"

definition matches ::
  "expected_action \<Rightarrow> incident \<Rightarrow> string \<Rightarrow> string \<Rightarrow> (string, pyval) dict \<Rightarrow> bool sim" where
  "matches e inc action_type target params =
     (if exp_action_type e \<noteq> action_type \<or> expected_target e inc \<noteq> target then ret False
      else andThen (get_service (inc_service inc)) (\<lambda>svc.
        ret (list_all (\<lambda>(k, v). py_eq (pget params k) (expected_value svc v)) (exp_params e))))"

text \<open>\<open>int(seconds)\<close> of a difference of instants: truncated towards zero.\<close>

definition whole_seconds :: "int \<Rightarrow> int" where
  "whole_seconds d = (if 0 \<le> d then d div 1000000 else - ((- d) div 1000000))"

definition clear_alert :: "incident \<Rightarrow> string \<Rightarrow> unit sim" where
  "clear_alert inc k =
     andThen (of_world (\<lambda>w. map_of (w_alerts w) k)) (\<lambda>found.
     case found of None \<Rightarrow> ret ()
     | Some a \<Rightarrow>
       if alr_incident a = inc_id inc \<and> alr_cleared_at a = None then
         andThen (on_world (\<lambda>w. w\<lparr>w_alerts :=
            AList.update k (a\<lparr>alr_cleared_at := Some (w_now w)\<rparr>) (w_alerts w)\<rparr>))
         (\<lambda>_. change_slo (alr_service a, alr_slo_kind a) (\<lambda>s. s\<lparr>slo_status := Slo_healthy,
            slo_burn_rate := 0,
            slo_current_value := (if alr_slo_kind a = ''availability'' then 9995 / 10000 else 0)\<rparr>))
       else ret ())"

definition resolve :: "string \<Rightarrow> incident \<Rightarrow> unit sim" where
  "resolve iid inc =
     andThen (on_world (\<lambda>w. case map_of (w_incidents w) iid of None \<Rightarrow> w
        | Some i \<Rightarrow> w\<lparr>w_incidents := AList.update iid (i\<lparr>inc_status := Resolved,
            inc_resolved_at := Some (w_now w),
            inc_mttr_seconds := Some (whole_seconds (w_now w - inc_opened_at i))\<rparr>) (w_incidents w)\<rparr>)) (\<lambda>_.
     andThen (set_health (inc_service inc) Healthy) (\<lambda>_.
     andThen (of_world (\<lambda>w. map fst (w_alerts w))) (\<lambda>keys.
     for_each keys (clear_alert inc))))"

text \<open>
  What \<open>apply_action\<close> does once the action has been applied to the world: the record of the
  action with the resolution, and before it the clock and the incident.
\<close>

definition record_action ::
  "(string \<Rightarrow> string) \<Rightarrow> string \<Rightarrow> incident \<Rightarrow> bool \<Rightarrow> bool \<Rightarrow> string \<Rightarrow> string \<Rightarrow>
   (string, pyval) dict \<Rightarrow> string \<Rightarrow> string option \<Rightarrow> action_result sim" where
  "record_action uuid5 iid inc is_expected resolved action_type target params applied_by memory_ref =
     (let outcome = (if is_expected then ''success'' else ''no_effect'') in
     andThen (reads (\<lambda>c. sim_id uuid5 (cd_seed c) ''action''
        (inc_scenario_id inc @ '':'' @ nat_str (length (w_actions (cd_state c)))))) (\<lambda>aid.
     andThen (on_world (\<lambda>w. w\<lparr>w_actions := w_actions w @ [\<lparr>act_id = aid, act_incident_id = iid,
        act_type = action_type, act_target = target, act_params = params, act_applied_at = w_now w,
        act_applied_by = applied_by, act_outcome = outcome, act_memory_ref = memory_ref\<rparr>]\<rparr>)) (\<lambda>_.
     andThen (if resolved then resolve iid inc else ret ()) (\<lambda>_.
     ret \<lparr>res_action_id = aid, res_applied = True, res_resolved = resolved, res_outcome = outcome,
       res_incident_status = (if resolved then Resolved
         else if is_expected then Mitigating else inc_status inc)\<rparr>))))"

definition settle_action ::
  "(string \<Rightarrow> string) \<Rightarrow> string \<Rightarrow> incident \<Rightarrow> oracle_policy \<Rightarrow> bool \<Rightarrow> string \<Rightarrow> string \<Rightarrow>
   (string, pyval) dict \<Rightarrow> string \<Rightarrow> string option \<Rightarrow> action_result sim" where
  "settle_action uuid5 iid inc policy is_expected action_type target params applied_by memory_ref =
     andThen (on_world (\<lambda>w. w\<lparr>w_now := w_now w + sec (if is_expected then pol_action_seconds policy
        else pol_wrong_action_penalty_seconds policy)\<rparr>)) (\<lambda>_.
     andThen (if is_expected
        then change_incident iid (\<lambda>i. i\<lparr>inc_oracle_step := Suc (inc_oracle_step i), inc_status := Mitigating\<rparr>)
        else add_failed_orders uuid5 inc 2 ''MITIGATION_INEFFECTIVE'') (\<lambda>_.
     let step = (if is_expected then Suc (inc_oracle_step inc) else inc_oracle_step inc);
         resolved = (step = length (pol_required_actions policy)) in
     record_action uuid5 iid inc is_expected resolved action_type target params applied_by memory_ref))"

definition apply_action ::
  "(string \<Rightarrow> string) \<Rightarrow> string \<Rightarrow> string \<Rightarrow> string \<Rightarrow> (string, pyval) dict \<Rightarrow> string \<Rightarrow> string option \<Rightarrow>
   action_result sim" where
  "apply_action uuid5 iid action_type target params applied_by memory_ref =
     andThen (of_world (\<lambda>w. map_of (w_incidents w) iid)) (\<lambda>found.
     andThen (the_or (SimulationError (''unknown incident: '' @ iid)) found) (\<lambda>inc.
     andThen (require (inc_status inc \<noteq> Resolved)
        (SimulationError (''incident is already resolved: '' @ iid))) (\<lambda>_.
     andThen (of_world (\<lambda>w. map_of (w_services w) target)) (\<lambda>svc.
     andThen (require (svc \<noteq> None) (SimulationError (''unknown target service: '' @ target))) (\<lambda>_.
     andThen (oracle_for inc) (\<lambda>policy.
     let required = pol_required_actions policy; step = inc_oracle_step inc in
     andThen (if step < length required
        then matches (required ! step) inc action_type target params else ret False) (\<lambda>is_expected.
     andThen (mutate_action uuid5 action_type target params) (\<lambda>_.
     settle_action uuid5 iid inc policy is_expected action_type target params applied_by memory_ref))))))))"

section \<open>Construction\<close>

record service_item =
  si_name :: string
  si_tier :: string
  si_owner_team :: string
  si_current_version :: string
  si_previous_stable_version :: "string option"
  si_capacity_units :: "int option"

record dependency_item =
  di_key :: string
  di_from :: string
  di_to :: string
  di_type :: string
  di_criticality :: string

record slo_item =
  li_service :: string
  li_kind :: string
  li_threshold :: real
  li_window_seconds :: int
  li_baseline :: real

record config_item =
  ci_service :: string
  ci_key :: string
  ci_value :: pyval

record fixture =
  fx_seed :: int
  fx_start_time :: int
  fx_services :: "service_item list"
  fx_dependencies :: "dependency_item list"
  fx_slos :: "slo_item list"
  fx_configs :: "config_item list"
  fx_scenarios :: "scenario list"

definition load_services :: "(string \<Rightarrow> string) \<Rightarrow> fixture \<Rightarrow> (string, service) dict" where
  "load_services uuid5 fx = foldl (\<lambda>d i. AList.update (si_name i)
     \<lparr>svc_id = sim_id uuid5 (fx_seed fx) ''service'' (si_name i), svc_name = si_name i,
      svc_tier = si_tier i, svc_owner_team = si_owner_team i, svc_health = Healthy,
      svc_current_version = si_current_version i,
      svc_previous_stable_version = si_previous_stable_version i,
      svc_capacity_units = (case si_capacity_units i of None \<Rightarrow> 1 | Some n \<Rightarrow> n),
      svc_restart_count = 0\<rparr> d) [] (fx_services fx)"

definition load_dependencies :: "(string \<Rightarrow> string) \<Rightarrow> fixture \<Rightarrow> (string, dependency) dict" where
  "load_dependencies uuid5 fx = foldl (\<lambda>d i. AList.update (di_key i)
     \<lparr>dep_id = sim_id uuid5 (fx_seed fx) ''dependency'' (di_key i), dep_key = di_key i,
      dep_from = di_from i, dep_to = di_to i, dep_type = di_type i,
      dep_criticality = di_criticality i, dep_status = ''active''\<rparr> d) [] (fx_dependencies fx)"

definition load_slos :: "(string \<Rightarrow> string) \<Rightarrow> fixture \<Rightarrow> (string \<times> string, slo) dict" where
  "load_slos uuid5 fx = foldl (\<lambda>d i. AList.update (li_service i, li_kind i)
     \<lparr>slo_id = sim_id uuid5 (fx_seed fx) ''slo'' (li_service i @ '':'' @ li_kind i),
      slo_service = li_service i, slo_kind = li_kind i, slo_threshold = li_threshold i,
      slo_window_seconds = li_window_seconds i, slo_current_value = li_baseline i,
      slo_burn_rate = 0, slo_status = Slo_healthy\<rparr> d) [] (fx_slos fx)"

definition load_configs :: "(string \<Rightarrow> string) \<Rightarrow> fixture \<Rightarrow> config_revision list" where
  "load_configs uuid5 fx = map (\<lambda>i.
     \<lparr>cfg_id = sim_id uuid5 (fx_seed fx) ''config'' (ci_service i @ '':'' @ ci_key i @ '':0''),
      cfg_service = ci_service i, cfg_key = ci_key i, cfg_value = ci_value i,
      cfg_valid_from = fx_start_time fx, cfg_valid_to = None, cfg_source = ''fixture''\<rparr>) (fx_configs fx)"

definition load_world :: "(string \<Rightarrow> string) \<Rightarrow> fixture \<Rightarrow> world" where
  "load_world uuid5 fx = (let services = load_services uuid5 fx in
     (empty_world (fx_start_time fx))\<lparr>w_services := services,
       w_dependencies := load_dependencies uuid5 fx, w_slos := load_slos uuid5 fx,
       w_configs := load_configs uuid5 fx,
       w_deployments := map (\<lambda>(_, s).
         \<lparr>dpl_id = sim_id uuid5 (fx_seed fx) ''deploy'' (svc_name s @ '':initial''),
          dpl_service = svc_name s, dpl_version = svc_current_version s, dpl_action = ''deploy'',
          dpl_deployed_at = fx_start_time fx, dpl_rolled_back = False\<rparr>) services\<rparr>)"

definition new_conductor ::
  "(string \<Rightarrow> string) \<Rightarrow> fixture \<Rightarrow> (string, oracle_policy) dict \<Rightarrow> (string, oracle_policy) dict \<Rightarrow> conductor" where
  "new_conductor uuid5 fx families scenarios =
     \<lparr>cd_seed = fx_seed fx, cd_start_time = fx_start_time fx,
      cd_scenarios = sort_key (\<lambda>s. (scn_inject_at_seconds s, scn_id s)) (fx_scenarios fx),
      cd_oracle = families, cd_scenario_oracle = scenarios, cd_next_scenario = 0,
      cd_state = load_world uuid5 fx\<rparr>"

section \<open>Programs that leave the schedule alone\<close>

text \<open>
  The part of the conductor that only \<open>inject_next\<close> moves, and the clock. \<open>frame\<close> is what
  every program below keeps relative to a fixed starting conductor.
\<close>

definition schedule :: "conductor \<Rightarrow> scenario list \<times> nat \<times> (string, oracle_policy) dict \<times>
    (string, oracle_policy) dict \<times> int \<times> int" where
  "schedule c = (cd_scenarios c, cd_next_scenario c, cd_oracle c, cd_scenario_oracle c,
     cd_seed c, cd_start_time c)"

lemma schedule_state [simp]: "schedule (c\<lparr>cd_state := w\<rparr>) = schedule c"
  by (simp add: schedule_def)

lemma keeps_of_world [keeps_intros]: "keeps P (of_world f)"
  by (simp add: of_world_def keeps_reads)

lemma keeps_on_world: "(\<And>c. P c \<Longrightarrow> P (c\<lparr>cd_state := f (cd_state c)\<rparr>)) \<Longrightarrow> keeps P (on_world f)"
  unfolding on_world_def by (rule keeps_modifies)

lemma keeps_get [keeps_intros]:
  "keeps P (get_service n)" "keeps P (get_dependency k)" "keeps P (get_slo sk)"
  by (simp_all add: get_service_def get_dependency_def get_slo_def keeps_intros)

lemma keeps_fault_field [keeps_intros]: "keeps P (fault_field n v)"
  by (simp add: fault_field_def keeps_intros)

lemma keeps_matches [keeps_intros]: "keeps P (matches e inc t g ps)"
  unfolding matches_def by (intro keeps_intros)

lemma keeps_oracle_for [keeps_intros]: "keeps P (oracle_for inc)"
  unfolding oracle_for_def by (intro keeps_intros)

lemma keeps_known_key [keeps_intros]: "keeps P (known_key m d v)"
  unfolding known_key_def by (intro keeps_intros; cases v; simp add: keeps_intros)

lemma keeps_observe [keeps_intros]: "keeps P (observe_incident i)"
  unfolding observe_incident_def by (intro keeps_intros)

end
