(* ===== verification/Sim_Invariants.thy ===== *)
theory Sim_Invariants
  imports Sim_Conductor
begin

text \<open>
  Invariants of the conductor. The interface between an invariant and the conductor's programs
  is a tower of locales: \<open>action_invariant\<close> holds the laws a predicate must satisfy for the
  remediation actions to keep it, \<open>order_invariant\<close> and \<open>injection_invariant\<close> add those for
  the injectors, \<open>settlement_invariant\<close> those for the outcome of an action,
  \<open>conductor_invariant\<close> those for every operation. The programs
  are walked through once, inside the locales; each invariant is then an interpretation.
\<close>

section \<open>Interfaces\<close>

text \<open>What the invariants below look at; everything else may change freely.\<close>

definition core :: "world \<Rightarrow> int \<times> config_revision list \<times> (string, incident) dict \<times> order list \<times>
    remediation_action list" where
  "core w = (w_now w, w_configs w, w_incidents w, w_orders w, w_actions w)"

locale action_invariant =
  fixes uuid5 :: "string \<Rightarrow> string" and P :: "conductor \<Rightarrow> bool"
  assumes frame: "P c \<Longrightarrow> core w = core (cd_state c) \<Longrightarrow> P (c\<lparr>cd_state := w\<rparr>)"
    and config: "keeps P (set_config uuid5 svc key v source)"
begin

lemma on_world_frame: "(\<And>w. core (f w) = core w) \<Longrightarrow> keeps P (on_world f)"
  by (rule keeps_on_world) (simp add: frame)

lemma change_service [keeps_intros]: "keeps P (change_service n f)"
  unfolding change_service_def by (intro keeps_intros on_world_frame) (simp add: core_def)

lemma change_dependency [keeps_intros]: "keeps P (change_dependency n g)"
  unfolding change_dependency_def by (intro keeps_intros on_world_frame) (simp add: core_def)

lemma change_slo [keeps_intros]: "keeps P (change_slo k h)"
  unfolding change_slo_def by (intro keeps_intros on_world_frame) (simp add: core_def)

lemma set_health [keeps_intros]: "keeps P (set_health n h)"
  unfolding set_health_def by (intro keeps_intros)

lemma modifies_frame: "(\<And>c. core (f c) = core (cd_state c)) \<Longrightarrow> keeps P (modifies (\<lambda>c. c\<lparr>cd_state := f c\<rparr>))"
  by (rule keeps_modifies) (simp add: frame)

lemma rollback [keeps_intros]: "keeps P (mutate_rollback uuid5 t ps)"
  unfolding mutate_rollback_def Let_def
  by (intro keeps_intros on_world_frame modifies_frame) (simp_all add: core_def)

lemma set_config_action [keeps_intros]: "keeps P (mutate_set_config uuid5 t ps)"
  unfolding mutate_set_config_def
  by (intro keeps_intros; simp add: config keeps_raise split: option.splits)

lemma failover [keeps_intros]: "keeps P (mutate_failover t ps)"
  unfolding mutate_failover_def by (intro keeps_intros)

lemma scale [keeps_intros]: "keeps P (mutate_scale t ps)"
  unfolding mutate_scale_def by (intro keeps_intros)

lemma throttle [keeps_intros]: "keeps P (mutate_throttle uuid5 t ps)"
  unfolding mutate_throttle_def by (intro keeps_intros config)

lemma mutate [keeps_intros]: "keeps P (mutate_action uuid5 kind t ps)"
  unfolding mutate_action_def by (intro keeps_intros)

lemma clear [keeps_intros]: "keeps P (clear_alert inc k)"
  unfolding clear_alert_def
  by (intro keeps_intros on_world_frame) (simp_all add: core_def)

lemma degrade [keeps_intros]: "keeps P (degrade_dependency sc)"
  unfolding degrade_dependency_def by (intro keeps_intros)

end

text \<open>
  The policies the oracle can pick for an incident, and the number of actions it asks for.
\<close>

definition policy_of :: "conductor \<Rightarrow> incident \<Rightarrow> oracle_policy option" where
  "policy_of c inc = map_option (dict_get (cd_scenario_oracle c) (inc_scenario_id inc))
     (map_of (cd_oracle c) (inc_family_id inc))"

definition required_len :: "conductor \<Rightarrow> incident \<Rightarrow> nat" where
  "required_len c inc = (case policy_of c inc of None \<Rightarrow> 0 | Some p \<Rightarrow> length (pol_required_actions p))"

definition durations_ok :: "conductor \<Rightarrow> bool" where
  "durations_ok c \<longleftrightarrow> (\<forall>p \<in> snd ` set (cd_oracle c) \<union> snd ` set (cd_scenario_oracle c).
     0 \<le> pol_action_seconds p \<and> 0 \<le> pol_wrong_action_penalty_seconds p)"

lemma oracle_for_run:
  "oracle_for inc c = (case policy_of c inc of None \<Rightarrow> (Inl (SimKeyError (inc_family_id inc)), c)
     | Some p \<Rightarrow> (Inr p, c))"
  by (simp add: oracle_for_def policy_of_def prog_simps split: option.splits)

lemma policy_of_state [simp]: "policy_of (c\<lparr>cd_state := w\<rparr>) inc = policy_of c inc"
  by (simp add: policy_of_def)

lemma required_len_state [simp]: "required_len (c\<lparr>cd_state := w\<rparr>) inc = required_len c inc"
  by (simp add: required_len_def)

lemma durations_ok_policy:
  assumes "durations_ok c" and "policy_of c inc = Some p"
  shows "0 \<le> pol_action_seconds p \<and> 0 \<le> pol_wrong_action_penalty_seconds p"
proof -
  from assms(2) obtain fp where fp: "map_of (cd_oracle c) (inc_family_id inc) = Some fp"
    and p: "p = dict_get (cd_scenario_oracle c) (inc_scenario_id inc) fp"
    by (auto simp: policy_of_def)
  have "p \<in> snd ` set (cd_oracle c) \<union> snd ` set (cd_scenario_oracle c)"
  proof (cases "map_of (cd_scenario_oracle c) (inc_scenario_id inc)")
    case None
    with p map_of_SomeD [OF fp] show ?thesis by (force simp: dict_get_def)
  next
    case (Some q)
    with p map_of_SomeD [OF Some] show ?thesis by (force simp: dict_get_def)
  qed
  with assms(1) show ?thesis by (simp only: durations_ok_def)
qed

lemma durations_ok_spent:
  "durations_ok c \<Longrightarrow> policy_of c inc = Some p \<Longrightarrow> w_now (cd_state c) \<le> w_now (cd_state c) +
    sec (if b then pol_action_seconds p else pol_wrong_action_penalty_seconds p)"
  using durations_ok_policy [of c inc p] by (simp add: sec_def)

text \<open>A fresh incident, the step of a matched action and the resolution, as writes of the table.\<close>

definition fresh :: "conductor \<Rightarrow> incident \<Rightarrow> bool" where
  "fresh c inc \<longleftrightarrow> inc_status inc = Open_incident \<and> inc_opened_at inc = w_now (cd_state c) \<and>
     inc_resolved_at inc = None \<and> inc_mttr_seconds inc = None \<and> inc_oracle_step inc = 0"

definition progressed :: "incident \<Rightarrow> incident" where
  "progressed inc = inc\<lparr>inc_oracle_step := Suc (inc_oracle_step inc), inc_status := Mitigating\<rparr>"

definition resolved_at :: "int \<Rightarrow> incident \<Rightarrow> incident" where
  "resolved_at now inc = inc\<lparr>inc_status := Resolved, inc_resolved_at := Some now,
     inc_mttr_seconds := Some (whole_seconds (now - inc_opened_at inc))\<rparr>"

definition put_incident :: "string \<Rightarrow> incident \<Rightarrow> conductor \<Rightarrow> conductor" where
  "put_incident i inc c = c\<lparr>cd_state := (cd_state c)\<lparr>w_incidents :=
     AList.update i inc (w_incidents (cd_state c))\<rparr>\<rparr>"

definition set_now :: "int \<Rightarrow> conductor \<Rightarrow> conductor" where
  "set_now t c = c\<lparr>cd_state := (cd_state c)\<lparr>w_now := t\<rparr>\<rparr>"

definition find_incident :: "conductor \<Rightarrow> string \<Rightarrow> incident option" where
  "find_incident c i = map_of (w_incidents (cd_state c)) i"


lemma find_incident_put [simp]:
  "find_incident (put_incident i inc c) j = (if i = j then Some inc else find_incident c j)"
  by (simp add: find_incident_def put_incident_def)

lemma required_len_put [simp]: "required_len (put_incident i j c) inc = required_len c inc"
  by (simp add: put_incident_def)

lemma required_len_progressed [simp]: "required_len c (progressed inc) = required_len c inc"
  by (simp add: required_len_def policy_of_def progressed_def)

lemma progressed_fields [simp]:
  "inc_status (progressed inc) = Mitigating"
  "inc_oracle_step (progressed inc) = Suc (inc_oracle_step inc)"
  by (simp_all add: progressed_def)

text \<open>Whether the action is the next required one; the guards of \<open>apply_action\<close> passed.\<close>

definition match_step :: "oracle_policy \<Rightarrow> incident \<Rightarrow> string \<Rightarrow> string \<Rightarrow> (string, pyval) dict \<Rightarrow> bool sim" where
  "match_step p inc kind t ps = (if inc_oracle_step inc < length (pol_required_actions p)
     then matches (pol_required_actions p ! inc_oracle_step inc) inc kind t ps else ret False)"

lemma matches_state: "snd (matches e inc kind t ps c) = c"
  by (simp add: matches_def prog_simps get_service_def of_world_def split: option.splits)

lemma match_step_state: "snd (match_step p inc kind t ps c) = c"
  by (simp add: match_step_def matches_state run_prog)

lemma apply_action_run:
  assumes "find_incident c iid = Some inc" and "inc_status inc \<noteq> Resolved"
    and "map_of (w_services (cd_state c)) t \<noteq> None" and "policy_of c inc = Some p"
  shows "apply_action uuid5 iid kind t ps who mem c =
    andThen (match_step p inc kind t ps) (\<lambda>b. andThen (mutate_action uuid5 kind t ps)
      (\<lambda>_. settle_action uuid5 iid inc p b kind t ps who mem)) c"
  using assms
  by (simp add: apply_action_def of_world_def run_step run_andThen [of "the_or e r" for e r]
      run_andThen [of "require b e" for b e] run_andThen [of "oracle_for i" for i] run_the_or
      run_require oracle_for_run match_step_def Let_def find_incident_def)

text \<open>A guard that fails ends the call before anything changes.\<close>

lemma apply_action_guard:
  assumes "find_incident c iid = None \<or> (\<exists>inc. find_incident c iid = Some inc \<and>
    (inc_status inc = Resolved \<or> map_of (w_services (cd_state c)) t = None \<or> policy_of c inc = None))"
  shows "\<exists>e. apply_action uuid5 iid kind t ps who mem c = (Inl e, c)"
  using assms by (auto simp: apply_action_def prog_simps of_world_def oracle_for_run find_incident_def)

locale order_invariant = action_invariant +
  assumes orders: "keeps P (add_failed_orders uuid5 inc n err)"

locale injection_invariant = order_invariant +
  assumes opened: "P c \<Longrightarrow> fresh c inc \<Longrightarrow> P (put_incident (inc_id inc) inc c)"
begin

lemma announce [keeps_intros]: "keeps P (announce_incident uuid5 sc inc kind v sig err)"
  unfolding announce_incident_def Let_def
  by (intro keeps_intros orders modifies_frame) (simp add: core_def)

lemma open_incident [keeps_intros]: "keeps P (open_incident uuid5 sc kind v sig err)"
proof (rule keepsI)
  fix c assume P: "P c"
  define inc where "inc = new_incident uuid5 (cd_seed c) sc (w_now (cd_state c))"
  have "P (put_incident (inc_id inc) inc c)"
    by (rule opened [OF P]) (simp add: fresh_def inc_def new_incident_def)
  then have "P (snd (announce_incident uuid5 sc inc kind v sig err (put_incident (inc_id inc) inc c)))"
    by (rule keepsD [OF announce])
  then show "P (snd (open_incident uuid5 sc kind v sig err c))"
    by (simp add: open_incident_def run_andThen on_world_def run_prog put_incident_def
        inc_def[symmetric])
qed

lemma inject_bad_deploy [keeps_intros]: "keeps P (inject_bad_deploy uuid5 sc)"
  unfolding inject_bad_deploy_def Let_def
  by (intro keeps_intros modifies_frame) (simp add: core_def)

lemma injectors [keeps_intros]:
  "keeps P (inject_pool_exhaustion uuid5 sc)"
  "keeps P (inject_cache_outage uuid5 sc)"
  "keeps P (inject_traffic_saturation uuid5 sc)"
  "keeps P (inject_retry_storm uuid5 sc)"
  "keeps P (inject_memory_leak uuid5 sc)"
  "keeps P (inject_config_regression uuid5 sc)"
  "keeps P (inject_datastore_failover uuid5 sc)"
  "keeps P (inject_payment_provider_outage uuid5 sc)"
  "keeps P (inject_novel uuid5 sc)"
  "keeps P (inject_pool_driver_migration uuid5 sc)"
  "keeps P (inject_cache_topology_migration uuid5 sc)"
  unfolding inject_pool_exhaustion_def inject_cache_outage_def inject_traffic_saturation_def
    inject_retry_storm_def inject_memory_leak_def inject_config_regression_def
    inject_datastore_failover_def inject_payment_provider_outage_def inject_novel_def
    inject_pool_driver_migration_def inject_cache_topology_migration_def
  by (intro keeps_intros config)+

lemma family [keeps_intros]: "keeps P (inject_family uuid5 sc)"
  unfolding inject_family_def Let_def by (intro keeps_intros)

end

locale settlement_invariant = order_invariant +
  assumes acted: "P c \<Longrightarrow> act_id a = sim_id uuid5 (cd_seed c) ''action''
      (inc_scenario_id inc @ '':'' @ nat_str (length (w_actions (cd_state c)))) \<Longrightarrow>
      act_applied_at a = w_now (cd_state c) \<Longrightarrow>
      P (c\<lparr>cd_state := (cd_state c)\<lparr>w_actions := w_actions (cd_state c) @ [a]\<rparr>\<rparr>)"
    and spent: "P c \<Longrightarrow> policy_of c inc = Some p \<Longrightarrow> P (set_now (w_now (cd_state c) +
      sec (if b then pol_action_seconds p else pol_wrong_action_penalty_seconds p)) c)"
    and progress: "P c \<Longrightarrow> find_incident c i = Some inc \<Longrightarrow> inc_status inc \<noteq> Resolved \<Longrightarrow>
      inc_oracle_step inc < required_len c inc \<Longrightarrow> P (put_incident i (progressed inc) c)"
    and resolution: "P c \<Longrightarrow> find_incident c i = Some inc \<Longrightarrow> inc_status inc \<noteq> Resolved \<Longrightarrow>
      inc_oracle_step inc = required_len c inc \<Longrightarrow>
      P (put_incident i (resolved_at (w_now (cd_state c)) inc) c)"
begin

lemma resolve_keeps:
  assumes "P c" and "find_incident c iid = Some i" and "inc_status i \<noteq> Resolved"
    and "inc_oracle_step i = required_len c i"
  shows "P (snd (resolve iid inc c))"
proof -
  let ?rest = "andThen (set_health (inc_service inc) Healthy) (\<lambda>_.
     andThen (of_world (\<lambda>w. map fst (w_alerts w))) (\<lambda>keys. for_each keys (clear_alert inc)))
     :: unit sim"
  have "keeps P ?rest" by (intro keeps_intros)
  then have "P (snd (?rest (put_incident iid (resolved_at (w_now (cd_state c)) i) c)))"
    by (rule keepsD) (rule resolution [OF assms])
  then show ?thesis using assms(2)
    by (simp add: resolve_def on_world_def run_step put_incident_def resolved_at_def find_incident_def)
qed

lemma record_keeps:
  assumes "P c" and "find_incident c iid = Some i" and "inc_status i \<noteq> Resolved"
    and "resolved \<Longrightarrow> inc_oracle_step i = required_len c i"
  shows "P (snd (record_action uuid5 iid inc b resolved kind target params applied_by memory_ref c))"
proof -
  define a where "a = \<lparr>act_id = sim_id uuid5 (cd_seed c) ''action''
        (inc_scenario_id inc @ '':'' @ nat_str (length (w_actions (cd_state c)))),
     act_incident_id = iid, act_type = kind, act_target = target, act_params = params,
     act_applied_at = w_now (cd_state c), act_applied_by = applied_by,
     act_outcome = (if b then ''success'' else ''no_effect''), act_memory_ref = memory_ref\<rparr>"
  define c1 where "c1 = c\<lparr>cd_state := (cd_state c)\<lparr>w_actions := w_actions (cd_state c) @ [a]\<rparr>\<rparr>"
  have P1: "P c1" unfolding c1_def by (rule acted [OF assms(1)]) (simp_all add: a_def)
  have "find_incident c1 iid = Some i" using assms(2) by (simp add: c1_def find_incident_def)
  with P1 have "resolved \<Longrightarrow> P (snd (resolve iid inc c1))"
    using assms(3,4) by (intro resolve_keeps) (simp_all add: c1_def)
  with P1 show ?thesis
    by (simp add: record_action_def Let_def run_step on_world_def a_def c1_def snd_andThen_ret run_prog)
qed

lemma settle_keeps:
  assumes P: "P c" and inc: "find_incident c iid = Some inc" and open_: "inc_status inc \<noteq> Resolved"
    and pol: "policy_of c inc = Some p"
    and exp: "b \<Longrightarrow> inc_oracle_step inc < length (pol_required_actions p)"
  shows "P (snd (settle_action uuid5 iid inc p b kind target params applied_by memory_ref c))"
proof -
  define c1 where "c1 = set_now (w_now (cd_state c) +
    sec (if b then pol_action_seconds p else pol_wrong_action_penalty_seconds p)) c"
  have P1: "P c1" unfolding c1_def by (rule spent [OF P pol])
  have inc1: "find_incident c1 iid = Some inc"
    using inc by (simp add: c1_def set_now_def find_incident_def)
  have len: "required_len c1 inc = length (pol_required_actions p)"
    using pol by (simp add: required_len_def c1_def set_now_def)
  show ?thesis
  proof (cases b)
    case True
    let ?i = "progressed inc"
    have "P (put_incident iid ?i c1)"
      using exp True len by (intro progress [OF P1 inc1 open_]) simp
    then have "P (snd (record_action uuid5 iid inc b
        (Suc (inc_oracle_step inc) = length (pol_required_actions p)) kind target params applied_by
        memory_ref (put_incident iid ?i c1)))"
      using len by (intro record_keeps [where i = ?i]) simp_all
    then show ?thesis using True inc1
      by (simp add: settle_action_def on_world_def run_step change_incident_def c1_def set_now_def
          Let_def put_incident_def progressed_def find_incident_def)
  next
    case False
    have orders1: "P (snd (add_failed_orders uuid5 inc 2 ''MITIGATION_INEFFECTIVE'' c1))"
      by (rule keepsD [OF orders P1])
    have *: "w_incidents (foldl (\<lambda>w i. w\<lparr>w_orders := w_orders w @ [g w i]\<rparr>) w ns) = w_incidents w"
      for g w and ns :: "nat list" by (induction ns arbitrary: w) simp_all
    have "find_incident (snd (add_failed_orders uuid5 inc 2 ''MITIGATION_INEFFECTIVE'' c1)) iid = Some inc"
      using inc1 by (simp add: find_incident_def add_failed_orders_def run_prog *)
    with orders1 have "P (snd (record_action uuid5 iid inc b
        (inc_oracle_step inc = length (pol_required_actions p)) kind target params applied_by memory_ref
        (snd (add_failed_orders uuid5 inc 2 ''MITIGATION_INEFFECTIVE'' c1))))"
      using open_ len by (intro record_keeps [where i = inc]) (simp_all add: add_failed_orders_def run_prog)
    then show ?thesis using False
      by (simp add: settle_action_def on_world_def run_step c1_def set_now_def Let_def
          add_failed_orders_def run_prog)
  qed
qed

lemma mutate_frame:
  assumes "P c" and "find_incident c iid = Some inc"
  shows "P (snd (mutate_action uuid5 kind t ps c)) \<and>
    find_incident (snd (mutate_action uuid5 kind t ps c)) iid = Some inc \<and>
    schedule (snd (mutate_action uuid5 kind t ps c)) = schedule c"
proof -
  define Q where "Q = (\<lambda>d. P d \<and> find_incident d iid = Some inc \<and> schedule d = schedule c)"
  have "action_invariant uuid5 Q"
  proof
    fix d w assume "Q d" and "core w = core (cd_state d)"
    then show "Q (d\<lparr>cd_state := w\<rparr>)"
      by (auto simp: Q_def find_incident_def core_def intro: frame)
  next
    fix svc key v source
    have "find_incident (snd (set_config uuid5 svc key v source d)) iid = find_incident d iid \<and>
        schedule (snd (set_config uuid5 svc key v source d)) = schedule d" for d
      by (simp add: set_config_def on_world_def run_step run_prog Let_def find_incident_def)
    then show "keeps Q (set_config uuid5 svc key v source)"
      by (auto intro!: keepsI simp: Q_def intro: keepsD [OF config])
  qed
  from action_invariant.mutate [OF this, of kind t ps] have "Q (snd (mutate_action uuid5 kind t ps c))"
    by (rule keepsD) (simp add: Q_def assms)
  then show ?thesis by (simp add: Q_def)
qed

lemma policy_of_schedule: "schedule c = schedule d \<Longrightarrow> policy_of c inc = policy_of d inc"
  by (simp add: schedule_def policy_of_def)

text \<open>Every run of \<open>apply_action\<close>, returning or raising, keeps the invariant.\<close>

lemma act: "P c \<Longrightarrow> P (snd (apply_action uuid5 iid kind t ps who mem c))"
proof -
  assume P: "P c"
  show ?thesis
  proof (cases "\<exists>inc p. find_incident c iid = Some inc \<and> inc_status inc \<noteq> Resolved \<and>
      map_of (w_services (cd_state c)) t \<noteq> None \<and> policy_of c inc = Some p")
    case False
    then have "\<exists>e. apply_action uuid5 iid kind t ps who mem c = (Inl e, c)"
      by (intro apply_action_guard) (cases "find_incident c iid"; auto)
    with P show ?thesis by auto
  next
    case True
    then obtain inc p where inc: "find_incident c iid = Some inc" and open_: "inc_status inc \<noteq> Resolved"
      and t: "map_of (w_services (cd_state c)) t \<noteq> None" and pol: "policy_of c inc = Some p" by auto
    define d where "d = snd (mutate_action uuid5 kind t ps c)"
    have d: "P d" "find_incident d iid = Some inc" "policy_of d inc = Some p"
      using mutate_frame [OF P inc, of kind t ps] policy_of_schedule [of d c inc] pol
      by (simp_all add: d_def)
    note run = apply_action_run [OF inc open_ t pol, of uuid5 kind ps who mem]
    show ?thesis
    proof (cases "match_step p inc kind t ps c")
      case (Pair r c')
      then have [simp]: "c' = c" using match_step_state by (metis snd_conv)
      show ?thesis
      proof (cases r)
        case (Inl e)
        with Pair P show ?thesis by (simp add: run run_andThen)
      next
        case (Inr b)
        have "b \<Longrightarrow> inc_oracle_step inc < length (pol_required_actions p)"
          using Pair Inr by (auto simp: match_step_def run_prog split: if_splits)
        then have "P (snd (settle_action uuid5 iid inc p b kind t ps who mem d))"
          by (intro settle_keeps d open_)
        then show ?thesis using d(1) Pair Inr
          by (cases "mutate_action uuid5 kind t ps c"; cases "fst (mutate_action uuid5 kind t ps c)")
             (simp_all add: run run_andThen d_def)
      qed
    qed
  qed
qed

end

locale conductor_invariant = injection_invariant + settlement_invariant +
  assumes elapse: "P c \<Longrightarrow> w_now (cd_state c) \<le> t \<Longrightarrow> P (set_now t c)"
    and scheduled: "P c \<Longrightarrow> P (c\<lparr>cd_next_scenario := n'\<rparr>)"
begin

lemma inject: "P c \<Longrightarrow> P (snd (inject_next uuid5 c))"
proof -
  assume P: "P c"
  have "P (set_now (max (w_now (cd_state c)) t) (c\<lparr>cd_next_scenario := k\<rparr>))" for t k
    by (rule elapse [OF scheduled [OF P]]) simp
  then have "P (c\<lparr>cd_next_scenario := k,
      cd_state := (cd_state c)\<lparr>w_now := max (w_now (cd_state c)) t\<rparr>\<rparr>)" for t k
    by (simp add: set_now_def)
  from keepsD [OF family this] show ?thesis using P
    by (simp add: inject_next_def Let_def)
qed

lemma advance: "P c \<Longrightarrow> P (snd (advance_time n c))"
  using elapse [of c "w_now (cd_state c) + sec n"]
  by (simp add: advance_time_def prog_simps on_world_def set_now_def sec_def)

end

end
