(* ===== verification/Sim_Properties.thy ===== *)
theory Sim_Properties
  imports Sim_Invariants
begin

text \<open>
  The conductor as a state machine: the calls its clients make, the states they can reach, and
  the invariants of those states. Each invariant is an interpretation of
  \<open>conductor_invariant\<close> on the conductor's own programs.
\<close>

section \<open>Reachable states\<close>

datatype sim_call =
    Inject
  | Act string string string "(string, pyval) dict" string "string option"
  | Wait int
  | Look string

text \<open>One call, returning or raising: only the state it leaves.\<close>

fun perform :: "(string \<Rightarrow> string) \<Rightarrow> sim_call \<Rightarrow> conductor \<Rightarrow> conductor" where
  "perform uuid5 Inject c = snd (inject_next uuid5 c)"
| "perform uuid5 (Act iid kind target params who mem) c =
     snd (apply_action uuid5 iid kind target params who mem c)"
| "perform uuid5 (Wait n) c = snd (advance_time n c)"
| "perform uuid5 (Look iid) c = snd (observe_incident iid c)"

inductive sim_reach :: "(string \<Rightarrow> string) \<Rightarrow> conductor \<Rightarrow> conductor \<Rightarrow> bool" for uuid5 c0 where
  start: "sim_reach uuid5 c0 c0"
| call: "sim_reach uuid5 c0 c \<Longrightarrow> sim_reach uuid5 c0 (perform uuid5 m c)"

lemma observe_state: "snd (observe_incident i c) = c"
  by (auto simp: observe_incident_def prog_simps of_world_def get_slo_def get_service_def
      split: option.splits)

context conductor_invariant
begin

lemma perform_keeps: "P c \<Longrightarrow> P (perform uuid5 m c)"
  by (cases m) (simp_all add: inject act advance observe_state)

lemma reach: "sim_reach uuid5 c0 c \<Longrightarrow> P c0 \<Longrightarrow> P c"
  by (induction rule: sim_reach.induct) (simp_all add: perform_keeps)

end

lemma foldl_orders:
  "\<exists>os. foldl (\<lambda>w i. w\<lparr>w_orders := w_orders w @ [failed_order uuid5 seed inc err w i]\<rparr>) w ns =
    w\<lparr>w_orders := os\<rparr>"
proof (induction ns arbitrary: w)
  case Nil
  show ?case by (rule exI [of _ "w_orders w"]) simp
next
  case (Cons i ns)
  from Cons [of "w\<lparr>w_orders := w_orders w @ [failed_order uuid5 seed inc err w i]\<rparr>"]
  show ?case by auto
qed

lemma add_failed_orders_run:
  obtains os where "snd (add_failed_orders uuid5 inc n err c) =
    c\<lparr>cd_state := (cd_state c)\<lparr>w_orders := os\<rparr>\<rparr>"
  using foldl_orders [of uuid5 "cd_seed c" inc err "cd_state c" "[0..<nat n]"]
  by (auto simp: add_failed_orders_def run_prog)

lemma keeps_orders:
  assumes "\<And>c os. P c \<Longrightarrow> P (c\<lparr>cd_state := (cd_state c)\<lparr>w_orders := os\<rparr>\<rparr>)"
  shows "keeps P (add_failed_orders uuid5 inc n err)"
proof (rule keepsI)
  fix c assume P: "P c"
  obtain os where "snd (add_failed_orders uuid5 inc n err c) =
      c\<lparr>cd_state := (cd_state c)\<lparr>w_orders := os\<rparr>\<rparr>" by (rule add_failed_orders_run)
  with assms [OF P] show "P (snd (add_failed_orders uuid5 inc n err c))" by simp
qed

section \<open>Running the whole schedule\<close>

interpretation same_schedule: injection_invariant uuid5 "\<lambda>d. schedule d = K" for uuid5 K
proof unfold_locales
  show "keeps (\<lambda>d. schedule d = K) (set_config uuid5 svc key v source)" for svc key v source
    by (rule keepsI) (simp add: set_config_def on_world_def run_step run_prog Let_def)
  show "keeps (\<lambda>d. schedule d = K) (add_failed_orders uuid5 inc n err)" for inc n err
    by (rule keeps_orders) simp
qed (auto simp: put_incident_def)

lemma inject_schedule:
  assumes "cd_next_scenario c < length (cd_scenarios c)"
  shows "schedule (snd (inject_next uuid5 c)) =
    schedule (c\<lparr>cd_next_scenario := Suc (cd_next_scenario c)\<rparr>)"
proof -
  have "schedule (snd (inject_family uuid5 sc
        (c\<lparr>cd_next_scenario := Suc (cd_next_scenario c), cd_state := w\<rparr>))) =
      schedule (c\<lparr>cd_next_scenario := Suc (cd_next_scenario c)\<rparr>)" for sc w
    by (rule keepsD [OF same_schedule.family]) (simp add: schedule_def)
  with assms show ?thesis by (simp add: inject_next_def Let_def)
qed

lemma inject_remaining:
  assumes "remaining_scenarios c \<noteq> 0"
  shows "remaining_scenarios (snd (inject_next uuid5 c)) < remaining_scenarios c"
    and "cd_scenarios (snd (inject_next uuid5 c)) = cd_scenarios c"
    and "cd_next_scenario (snd (inject_next uuid5 c)) = Suc (cd_next_scenario c)"
proof -
  have "cd_next_scenario c < length (cd_scenarios c)" using assms by (simp add: remaining_scenarios_def)
  note * = this inject_schedule [OF this, of uuid5]
  then show "cd_scenarios (snd (inject_next uuid5 c)) = cd_scenarios c"
    and "cd_next_scenario (snd (inject_next uuid5 c)) = Suc (cd_next_scenario c)"
    by (simp_all add: schedule_def)
  with *(1) show "remaining_scenarios (snd (inject_next uuid5 c)) < remaining_scenarios c"
    by (simp add: remaining_scenarios_def)
qed

text \<open>The loop of the command line: \<open>while conductor.remaining_scenarios: conductor.inject_next()\<close>.\<close>

function inject_all :: "(string \<Rightarrow> string) \<Rightarrow> conductor \<Rightarrow> (sim_error + incident list) \<times> conductor" where
  "inject_all uuid5 c = (if remaining_scenarios c = 0 then (Inr [], c)
     else case inject_next uuid5 c of
       (Inl e, c') \<Rightarrow> (Inl e, c')
     | (Inr inc, c') \<Rightarrow> (case inject_all uuid5 c' of
         (Inl e, d) \<Rightarrow> (Inl e, d)
       | (Inr incs, d) \<Rightarrow> (Inr (inc # incs), d)))"
  by pat_completeness auto

termination
proof (relation "measure (remaining_scenarios \<circ> snd)")
  fix uuid5 c x y b
  assume "remaining_scenarios c \<noteq> 0" and "(x, y) = inject_next uuid5 c"
  with inject_remaining(1) [of c uuid5]
  show "((uuid5, y), uuid5, c) \<in> measure (remaining_scenarios \<circ> snd)"
    by (simp add: prod_eq_iff)
qed simp

declare inject_all.simps [simp del]

text \<open>What a program returns, whatever it was run on.\<close>

definition returns :: "('a \<Rightarrow> bool) \<Rightarrow> ('s, 'e, 'a) prog \<Rightarrow> bool" where
  "returns Q m \<longleftrightarrow> (\<forall>s x s'. m s = (Inr x, s') \<longrightarrow> Q x)"

lemma returns_andThen: "(\<And>x. returns Q (f x)) \<Longrightarrow> returns Q (andThen m f)"
  unfolding returns_def by (meson andThen_Inr)

lemma returns_if: "returns Q m \<Longrightarrow> returns Q n \<Longrightarrow> returns Q (if b then m else n)"
  by simp

lemma returns_raise: "returns Q (raise e)"
  by (simp add: returns_def prog_simps)

lemma returns_open:
  "returns (\<lambda>inc. \<exists>seed now. inc = new_incident uuid5 seed sc now) (open_incident uuid5 sc kind v sig err)"
  unfolding returns_def open_incident_def announce_incident_def
  by (auto elim!: andThen_Inr simp: run_prog) blast

lemma returns_family:
  "returns (\<lambda>inc. \<exists>seed now. inc = new_incident uuid5 seed sc now) (inject_family uuid5 sc)"
  unfolding inject_family_def Let_def inject_bad_deploy_def inject_pool_exhaustion_def
    inject_cache_outage_def inject_traffic_saturation_def
    inject_retry_storm_def inject_memory_leak_def inject_config_regression_def
    inject_datastore_failover_def inject_payment_provider_outage_def inject_novel_def
    inject_pool_driver_migration_def inject_cache_topology_migration_def
  by (intro returns_if returns_andThen returns_open returns_raise)

lemma inject_next_scenario:
  assumes "inject_next uuid5 c = (Inr inc, c')"
  shows "inc_scenario_id inc = scn_id (cd_scenarios c ! cd_next_scenario c)"
  using assms returns_family [of uuid5 "cd_scenarios c ! cd_next_scenario c"]
  by (fastforce simp: inject_next_def Let_def returns_def new_incident_def split: if_splits)

lemma spent_by_elapse:
  assumes "\<And>c t. P c \<Longrightarrow> w_now (cd_state c) \<le> t \<Longrightarrow> P (set_now t c)"
    and "\<And>c. P c \<Longrightarrow> durations_ok c" and "P c" and "policy_of c inc = Some p"
  shows "P (set_now (w_now (cd_state c) +
    sec (if b then pol_action_seconds p else pol_wrong_action_penalty_seconds p)) c)"
  by (rule assms(1) [OF assms(3) durations_ok_spent [OF assms(2) [OF assms(3)] assms(4)]])

section \<open>Configuration history\<close>

definition configs_ok :: "conductor \<Rightarrow> bool" where
  "configs_ok c \<longleftrightarrow> durations_ok c \<and> single_current (w_configs (cd_state c)) \<and>
     well_dated (w_now (cd_state c)) (w_configs (cd_state c))"

lemma durations_ok_state [simp]: "durations_ok (c\<lparr>cd_state := w\<rparr>) = durations_ok c"
  by (simp add: durations_ok_def)

lemma durations_ok_next [simp]: "durations_ok (c\<lparr>cd_next_scenario := n\<rparr>) = durations_ok c"
  by (simp add: durations_ok_def)

lemma set_config_configs_ok: "keeps configs_ok (set_config uuid5 svc key v source)"
  by (rule keepsI) (simp add: set_config_def on_world_def run_step run_prog Let_def configs_ok_def
      single_current_close_open well_dated_close_open is_current_def)

interpretation configs: conductor_invariant uuid5 configs_ok for uuid5
proof unfold_locales
  show "keeps configs_ok (add_failed_orders uuid5 inc n err)" for inc n err
    by (rule keeps_orders) (simp add: configs_ok_def)
  show elapse: "configs_ok (set_now t c)" if "configs_ok c" "w_now (cd_state c) \<le> t" for c t
    using that by (auto simp: configs_ok_def set_now_def intro: well_dated_mono)
  show "configs_ok (set_now (w_now (cd_state c) + sec (if b then pol_action_seconds p
      else pol_wrong_action_penalty_seconds p)) c)"
    if "configs_ok c" "policy_of c inc = Some p" for c inc p b
    by (rule spent_by_elapse [OF elapse _ that]) (simp_all add: configs_ok_def)
qed (auto simp: configs_ok_def core_def set_config_configs_ok put_incident_def)

section \<open>Incident life cycle\<close>

text \<open>
  An incident of the table: filed under its id, opened in the past, its oracle step within the
  required actions. An open one has matched nothing, a resolved one has matched every required
  action, has a resolution instant between its opening and now, and an MTTR that is their
  difference in whole seconds; one that is not resolved has neither.
\<close>

definition incident_ok :: "conductor \<Rightarrow> incident \<Rightarrow> bool" where
  "incident_ok c inc \<longleftrightarrow> inc_opened_at inc \<le> w_now (cd_state c) \<and>
     (inc_oracle_step inc = 0 \<or> inc_oracle_step inc \<le> required_len c inc) \<and>
     (case inc_status inc of
        Open_incident \<Rightarrow> inc_oracle_step inc = 0 \<and> inc_resolved_at inc = None \<and> inc_mttr_seconds inc = None
      | Mitigating \<Rightarrow> 0 < inc_oracle_step inc \<and> inc_resolved_at inc = None \<and> inc_mttr_seconds inc = None
      | Resolved \<Rightarrow> inc_oracle_step inc = required_len c inc \<and>
          (\<exists>t. inc_resolved_at inc = Some t \<and> inc_opened_at inc \<le> t \<and> t \<le> w_now (cd_state c) \<and>
             inc_mttr_seconds inc = Some ((t - inc_opened_at inc) div 1000000)))"

definition incidents_ok :: "conductor \<Rightarrow> bool" where
  "incidents_ok c \<longleftrightarrow> durations_ok c \<and> (\<forall>(k, inc) \<in> set (w_incidents (cd_state c)).
     k = inc_id inc \<and> incident_ok c inc)"

lemma incident_ok_later:
  "incident_ok c inc \<Longrightarrow> w_now (cd_state c) \<le> w_now (cd_state d) \<Longrightarrow>
   required_len d inc = required_len c inc \<Longrightarrow> incident_ok d inc"
  by (auto simp: incident_ok_def split: incident_status.splits)

lemma incidents_ok_later:
  assumes "incidents_ok c" and "w_now (cd_state c) \<le> w_now (cd_state d)"
    and "cd_oracle d = cd_oracle c" and "cd_scenario_oracle d = cd_scenario_oracle c"
    and "w_incidents (cd_state d) = w_incidents (cd_state c)"
  shows "incidents_ok d"
proof -
  have "required_len d inc = required_len c inc" for inc
    using assms(3,4) by (simp add: required_len_def policy_of_def)
  moreover have "durations_ok d"
    using assms(1,3,4) by (simp add: incidents_ok_def durations_ok_def)
  ultimately show ?thesis
    using assms(1,2,5) incident_ok_later [of c _ d] by (auto simp: incidents_ok_def)
qed

lemma incidents_ok_put:
  assumes "incidents_ok c" and "incident_ok c inc" and "i = inc_id inc"
  shows "incidents_ok (put_incident i inc c)"
proof -
  have "incident_ok (put_incident i inc c) j = incident_ok c j" for j
    by (simp add: incident_ok_def put_incident_def split: incident_status.split)
  then show ?thesis
    using assms set_dict_update [of i inc "w_incidents (cd_state c)"]
    by (auto simp: incidents_ok_def put_incident_def dest!: subsetD)
qed

lemma incidents_ok_find:
  "incidents_ok c \<Longrightarrow> find_incident c i = Some inc \<Longrightarrow> i = inc_id inc \<and> incident_ok c inc"
  by (auto simp: incidents_ok_def find_incident_def dest!: map_of_SomeD)

lemma incident_ok_resolved:
  assumes "incident_ok c inc" and "inc_oracle_step inc = required_len c inc"
  shows "incident_ok c (resolved_at (w_now (cd_state c)) inc)"
  using assms by (simp add: incident_ok_def resolved_at_def whole_seconds_def required_len_def
      policy_of_def)

interpretation incidents: conductor_invariant uuid5 incidents_ok for uuid5
proof unfold_locales
  show "incidents_ok (c\<lparr>cd_state := w\<rparr>)" if "incidents_ok c" "core w = core (cd_state c)" for c w
    by (rule incidents_ok_later [OF that(1)]) (use that(2) in \<open>simp_all add: core_def\<close>)
  show "keeps incidents_ok (set_config uuid5 svc key v source)" for svc key v source
    by (rule keepsI, erule incidents_ok_later)
       (simp_all add: set_config_def on_world_def run_step run_prog Let_def)
  show "keeps incidents_ok (add_failed_orders uuid5 inc n err)" for inc n err
    by (rule keeps_orders, erule incidents_ok_later) simp_all
  show "incidents_ok (c\<lparr>cd_state := (cd_state c)\<lparr>w_actions := w_actions (cd_state c) @ [a]\<rparr>\<rparr>)"
    if "incidents_ok c" for c a
    by (rule incidents_ok_later [OF that]) simp_all
  show elapse: "incidents_ok (set_now t c)" if "incidents_ok c" "w_now (cd_state c) \<le> t" for c t
    by (rule incidents_ok_later [OF that(1)]) (use that(2) in \<open>simp_all add: set_now_def\<close>)
  show "incidents_ok (set_now (w_now (cd_state c) + sec (if b then pol_action_seconds p
      else pol_wrong_action_penalty_seconds p)) c)"
    if "incidents_ok c" "policy_of c inc = Some p" for c inc p b
    by (rule spent_by_elapse [OF elapse _ that]) (simp_all add: incidents_ok_def)
  show "incidents_ok (put_incident (inc_id inc) inc c)" if "incidents_ok c" "fresh c inc" for c inc
    by (rule incidents_ok_put [OF that(1)]) (use that(2) in \<open>simp_all add: incident_ok_def fresh_def\<close>)
  show "incidents_ok (put_incident i (progressed inc) c)"
    if "incidents_ok c" "find_incident c i = Some inc" "inc_status inc \<noteq> Resolved"
      "inc_oracle_step inc < required_len c inc" for c i inc
  proof (rule incidents_ok_put [OF that(1)])
    show "incident_ok c (progressed inc)"
      using incidents_ok_find [OF that(1,2)] that(3,4)
      by (auto simp: incident_ok_def progressed_def required_len_def policy_of_def
          split: incident_status.splits)
    show "i = inc_id (progressed inc)"
      using incidents_ok_find [OF that(1,2)] by (simp add: progressed_def)
  qed
  show "incidents_ok (put_incident i (resolved_at (w_now (cd_state c)) inc) c)"
    if "incidents_ok c" "find_incident c i = Some inc" "inc_status inc \<noteq> Resolved"
      "inc_oracle_step inc = required_len c inc" for c i inc
    using incidents_ok_find [OF that(1,2)] that(1,4)
    by (intro incidents_ok_put incident_ok_resolved) (simp_all add: resolved_at_def)
  show "incidents_ok (c\<lparr>cd_next_scenario := n'\<rparr>)" if "incidents_ok c" for c n'
    by (rule incidents_ok_later [OF that]) simp_all
qed

section \<open>The ledgers: orders and actions\<close>

text \<open>
  Names are \<open>scenario:position\<close> and \<open>scenario:position:index\<close>; a position can be read back
  from its end whatever the scenario is called.
\<close>

lemma colon_no_digit [simp]: "\<not> is_digit (CHR '':'')"
  by (simp add: is_digit_def)

lemma name_split:
  assumes "s @ '':'' @ nat_str m = t @ '':'' @ nat_str n"
  shows "s = t \<and> m = n"
proof -
  have *: "takeWhile is_digit (rev (s @ '':'' @ nat_str m)) = rev (nat_str m)" for s m
    by (subst rev_append, subst rev_append, subst append.assoc)
       (auto simp: takeWhile_append nat_str_digits)
  from assms have "rev (nat_str m) = rev (nat_str n)" by (metis *)
  then have "m = n" by simp
  with assms show ?thesis by simp
qed

definition order_ok :: "(string \<Rightarrow> string) \<Rightarrow> int \<Rightarrow> nat \<Rightarrow> order \<Rightarrow> bool" where
  "order_ok uuid5 seed j x \<longleftrightarrow> ord_status x = ''failed'' \<and>
     1500 \<le> ord_amount_cents x \<and> ord_amount_cents x < 10000 \<and>
     (\<exists>s i. ord_id x = sim_id uuid5 seed ''order'' (s @ '':'' @ nat_str j @ '':'' @ nat_str i))"

definition action_named :: "(string \<Rightarrow> string) \<Rightarrow> int \<Rightarrow> nat \<Rightarrow> remediation_action \<Rightarrow> bool" where
  "action_named uuid5 seed j a \<longleftrightarrow>
     (\<exists>s. act_id a = sim_id uuid5 seed ''action'' (s @ '':'' @ nat_str j))"

definition ledger_ok :: "(string \<Rightarrow> string) \<Rightarrow> int \<Rightarrow> conductor \<Rightarrow> bool" where
  "ledger_ok uuid5 t0 c \<longleftrightarrow> durations_ok c \<and> t0 \<le> w_now (cd_state c) \<and>
     (\<forall>j < length (w_orders (cd_state c)). order_ok uuid5 (cd_seed c) j (w_orders (cd_state c) ! j)) \<and>
     (\<forall>j < length (w_actions (cd_state c)).
        action_named uuid5 (cd_seed c) j (w_actions (cd_state c) ! j)) \<and>
     sorted (map act_applied_at (w_actions (cd_state c))) \<and>
     (\<forall>a \<in> set (w_actions (cd_state c)). act_applied_at a \<le> w_now (cd_state c))"

lemma failed_order_ok: "order_ok uuid5 seed (length (w_orders w)) (failed_order uuid5 seed inc err w i)"
  by (auto simp: order_ok_def failed_order_def)

lemma nth_snoc_all:
  "(\<forall>j < length xs. Q j (xs ! j)) \<Longrightarrow> Q (length xs) x \<Longrightarrow> \<forall>j < length (xs @ [x]). Q j ((xs @ [x]) ! j)"
  by (auto simp: nth_append less_Suc_eq)

lemma foldl_orders_ok:
  assumes "\<forall>j < length (w_orders w). order_ok uuid5 seed j (w_orders w ! j)"
  shows "let w' = foldl (\<lambda>w i. w\<lparr>w_orders := w_orders w @ [failed_order uuid5 seed inc err w i]\<rparr>) w ns
    in \<forall>j < length (w_orders w'). order_ok uuid5 seed j (w_orders w' ! j)"
  using assms
proof (induction ns arbitrary: w)
  case Nil
  then show ?case by simp
next
  case (Cons i ns)
  show ?case
    using Cons.IH [of "w\<lparr>w_orders := w_orders w @ [failed_order uuid5 seed inc err w i]\<rparr>"]
      nth_snoc_all [OF Cons.prems failed_order_ok, of inc err i] by simp
qed

lemma orders_ledger: "keeps (ledger_ok uuid5 t0) (add_failed_orders uuid5 inc n err)"
proof (rule keepsI)
  fix c assume L: "ledger_ok uuid5 t0 c"
  obtain os where os: "foldl (\<lambda>w i. w\<lparr>w_orders := w_orders w @
      [failed_order uuid5 (cd_seed c) inc err w i]\<rparr>) (cd_state c) [0..<nat n] =
      (cd_state c)\<lparr>w_orders := os\<rparr>" using foldl_orders by blast
  from foldl_orders_ok [of "cd_state c" uuid5 "cd_seed c" inc err "[0..<nat n]"] L
  have "\<forall>j < length os. order_ok uuid5 (cd_seed c) j (os ! j)"
    by (simp add: os ledger_ok_def)
  with L show "ledger_ok uuid5 t0 (snd (add_failed_orders uuid5 inc n err c))"
    by (simp add: add_failed_orders_def run_prog os ledger_ok_def)
qed

interpretation ledger: conductor_invariant uuid5 "ledger_ok uuid5 t0" for uuid5 t0
proof unfold_locales
  show "ledger_ok uuid5 t0 (c\<lparr>cd_state := (cd_state c)\<lparr>w_actions := w_actions (cd_state c) @ [a]\<rparr>\<rparr>)"
    if "ledger_ok uuid5 t0 c" "act_id a = sim_id uuid5 (cd_seed c) ''action''
        (inc_scenario_id inc @ '':'' @ nat_str (length (w_actions (cd_state c))))"
      "act_applied_at a = w_now (cd_state c)" for c a inc
  proof -
    have "action_named uuid5 (cd_seed c) (length (w_actions (cd_state c))) a"
      using that(2) by (auto simp: action_named_def)
    with that(1) have "\<forall>j < length (w_actions (cd_state c) @ [a]).
        action_named uuid5 (cd_seed c) j ((w_actions (cd_state c) @ [a]) ! j)"
      by (intro nth_snoc_all) (simp_all add: ledger_ok_def)
    then show ?thesis using that(1,3) by (auto simp: ledger_ok_def sorted_append)
  qed
  show elapse: "ledger_ok uuid5 t0 (set_now t c)" if "ledger_ok uuid5 t0 c" "w_now (cd_state c) \<le> t" for c t
    using that by (auto simp: ledger_ok_def set_now_def)
  show "ledger_ok uuid5 t0 (set_now (w_now (cd_state c) + sec (if b then pol_action_seconds p
      else pol_wrong_action_penalty_seconds p)) c)"
    if "ledger_ok uuid5 t0 c" "policy_of c inc = Some p" for c inc p b
    by (rule spent_by_elapse [OF elapse _ that]) (simp_all add: ledger_ok_def)
  show "keeps (ledger_ok uuid5 t0) (set_config uuid5 svc key v source)" for svc key v source
    by (rule keepsI) (simp add: set_config_def on_world_def run_step run_prog Let_def ledger_ok_def)
qed (auto simp: orders_ledger ledger_ok_def core_def put_incident_def)

text \<open>Positions make the names distinct before they are hashed.\<close>

lemma distinct_names:
  assumes "\<forall>j < length xs. \<exists>n. f (xs ! j) = g n \<and> Q j n"
    and "\<And>i j n. Q i n \<Longrightarrow> Q j n \<Longrightarrow> i = j"
  shows "\<exists>names. map f xs = map g names \<and> distinct names"
proof -
  from assms(1) obtain h where h: "\<And>j. j < length xs \<Longrightarrow> f (xs ! j) = g (h j) \<and> Q j (h j)" by metis
  have "map f xs = map g (map h [0..<length xs])"
    by (rule nth_equalityI) (simp_all add: h)
  moreover have "distinct (map h [0..<length xs])"
    by (auto simp: distinct_map inj_on_def) (metis assms(2) h)
  ultimately show ?thesis by blast
qed

lemma ledger_names:
  assumes "ledger_ok uuid5 t0 c"
  shows "\<exists>names. map ord_id (w_orders (cd_state c)) =
      map (sim_id uuid5 (cd_seed c) ''order'') names \<and> distinct names"
    and "\<exists>names. map act_id (w_actions (cd_state c)) =
      map (sim_id uuid5 (cd_seed c) ''action'') names \<and> distinct names"
proof -
  show "\<exists>names. map ord_id (w_orders (cd_state c)) =
      map (sim_id uuid5 (cd_seed c) ''order'') names \<and> distinct names"
  proof (rule distinct_names [where Q = "\<lambda>j n. \<exists>s i. n = s @ '':'' @ nat_str j @ '':'' @ nat_str i"])
    show "\<forall>j<length (w_orders (cd_state c)). \<exists>n. ord_id (w_orders (cd_state c) ! j) =
        sim_id uuid5 (cd_seed c) ''order'' n \<and> (\<exists>s i. n = s @ '':'' @ nat_str j @ '':'' @ nat_str i)"
      using assms by (fastforce simp: ledger_ok_def order_ok_def)
    fix i j n
    assume "\<exists>s k. n = s @ '':'' @ nat_str i @ '':'' @ nat_str k"
      and "\<exists>s k. n = s @ '':'' @ nat_str j @ '':'' @ nat_str k"
    then show "i = j" by (metis append.assoc name_split)
  qed
  show "\<exists>names. map act_id (w_actions (cd_state c)) =
      map (sim_id uuid5 (cd_seed c) ''action'') names \<and> distinct names"
  proof (rule distinct_names [where Q = "\<lambda>j n. \<exists>s. n = s @ '':'' @ nat_str j"])
    show "\<forall>j<length (w_actions (cd_state c)). \<exists>n. act_id (w_actions (cd_state c) ! j) =
        sim_id uuid5 (cd_seed c) ''action'' n \<and> (\<exists>s. n = s @ '':'' @ nat_str j)"
      using assms by (fastforce simp: ledger_ok_def action_named_def)
    fix i j n
    assume "\<exists>s. n = s @ '':'' @ nat_str i" and "\<exists>s. n = s @ '':'' @ nat_str j"
    then show "i = j" using name_split by blast
  qed
qed

section \<open>Resolved incidents\<close>

text \<open>The record of a resolved incident is kept by every action, on this incident or another.\<close>

definition keeps_resolved :: "string \<Rightarrow> incident \<Rightarrow> conductor \<Rightarrow> bool" where
  "keeps_resolved iid inc c \<longleftrightarrow> find_incident c iid = Some inc \<and> inc_status inc = Resolved"

interpretation resolved: settlement_invariant uuid5 "keeps_resolved iid inc" for uuid5 iid inc
proof unfold_locales
  show "keeps (keeps_resolved iid inc) (set_config uuid5 svc key v source)" for svc key v source
    by (rule keepsI) (simp add: set_config_def on_world_def run_step run_prog Let_def
        keeps_resolved_def find_incident_def)
  show "keeps (keeps_resolved iid inc) (add_failed_orders uuid5 i n err)" for i n err
    by (rule keeps_orders) (simp add: keeps_resolved_def find_incident_def)
qed (auto simp: keeps_resolved_def core_def find_incident_def set_now_def put_incident_def)

end
