(* ===== verification/Sim_Actions.thy ===== *)
theory Sim_Actions
  imports Sim_Properties
begin

text \<open>
  What a remediation action does to the ledgers: \<open>apply_action\<close> is described exactly on the
  clock, the incident table, the orders and the actions, and sequences of actions on one incident
  are accounted for (time spent, orders lost, oracle steps matched).
\<close>

section \<open>The ledgers of a conductor\<close>

definition ledgers :: "conductor \<Rightarrow> (int \<times> (string, incident) dict \<times> order list \<times>
    remediation_action list) \<times> (scenario list \<times> nat \<times> (string, oracle_policy) dict \<times>
    (string, oracle_policy) dict \<times> int \<times> int)" where
  "ledgers c = (let w = cd_state c in ((w_now w, w_incidents w, w_orders w, w_actions w), schedule c))"

interpretation same_ledgers: action_invariant uuid5 "\<lambda>d. ledgers d = K" for uuid5 K
proof unfold_locales
  show "keeps (\<lambda>d. ledgers d = K) (set_config uuid5 svc key v source)" for svc key v source
    by (rule keepsI) (simp add: set_config_def on_world_def run_step run_prog Let_def ledgers_def)
qed (auto simp: ledgers_def core_def Let_def)

lemma keeps_ledgers: "(\<And>K. keeps (\<lambda>d. ledgers d = K) m) \<Longrightarrow> ledgers (snd (m c)) = ledgers c"
  using keepsD [of "\<lambda>d. ledgers d = ledgers c" m c] by simp

lemma mutate_ledgers [simp]: "ledgers (snd (mutate_action uuid5 kind t ps c)) = ledgers c"
  by (rule keeps_ledgers) (rule same_ledgers.mutate)

lemma resolve_ledgers:
  assumes "find_incident c iid = Some i"
  shows "ledgers (snd (resolve iid inc c)) =
    ledgers (put_incident iid (resolved_at (w_now (cd_state c)) i) c)"
proof -
  let ?rest = "andThen (set_health (inc_service inc) Healthy) (\<lambda>_.
     andThen (of_world (\<lambda>w. map fst (w_alerts w))) (\<lambda>keys. for_each keys (clear_alert inc)))
     :: unit sim"
  have "ledgers (snd (?rest d)) = ledgers d" for d
    by (rule keeps_ledgers) (intro keeps_intros same_ledgers.clear same_ledgers.set_health)
  then show ?thesis using assms
    by (simp add: resolve_def on_world_def run_step put_incident_def resolved_at_def find_incident_def)
qed

definition log_action :: "remediation_action \<Rightarrow> conductor \<Rightarrow> conductor" where
  "log_action a c = c\<lparr>cd_state := (cd_state c)\<lparr>w_actions := w_actions (cd_state c) @ [a]\<rparr>\<rparr>"

lemma record_ledgers:
  assumes "find_incident c iid = Some i"
    and "record_action uuid5 iid inc b resolved kind t ps who mem c = (Inr r, c')"
  obtains a where "ledgers c' = ledgers (let c1 = log_action a c in
      if resolved then put_incident iid (resolved_at (w_now (cd_state c)) i) c1 else c1)"
    and "act_incident_id a = iid" and "act_type a = kind" and "act_target a = t"
    and "act_params a = ps" and "act_applied_at a = w_now (cd_state c)" and "act_applied_by a = who"
    and "act_outcome a = (if b then ''success'' else ''no_effect'')" and "act_memory_ref a = mem"
    and "r = \<lparr>res_action_id = act_id a, res_applied = True, res_resolved = resolved,
      res_outcome = act_outcome a, res_incident_status =
        (if resolved then Resolved else if b then Mitigating else inc_status inc)\<rparr>"
proof -
  define a where "a = \<lparr>act_id = sim_id uuid5 (cd_seed c) ''action''
        (inc_scenario_id inc @ '':'' @ nat_str (length (w_actions (cd_state c)))),
     act_incident_id = iid, act_type = kind, act_target = t, act_params = ps,
     act_applied_at = w_now (cd_state c), act_applied_by = who,
     act_outcome = (if b then ''success'' else ''no_effect''), act_memory_ref = mem\<rparr>"
  let ?c1 = "log_action a c"
  have i1: "find_incident ?c1 iid = Some i" using assms(1) by (simp add: log_action_def find_incident_def)
  have now: "w_now (cd_state ?c1) = w_now (cd_state c)" by (simp add: log_action_def)
  have run: "andThen (if resolved then resolve iid inc else ret ()) (\<lambda>_.
     ret \<lparr>res_action_id = act_id a, res_applied = True, res_resolved = resolved,
       res_outcome = act_outcome a, res_incident_status = (if resolved then Resolved
         else if b then Mitigating else inc_status inc)\<rparr>) ?c1 = (Inr r, c')"
    using assms(2) by (simp add: record_action_def Let_def run_step on_world_def a_def log_action_def)
  then have "c' = snd ((if resolved then resolve iid inc else ret ()) ?c1)"
    by (metis snd_andThen_ret snd_conv)
  with resolve_ledgers [OF i1, of inc] now
  have led: "ledgers c' = ledgers (let c1 = log_action a c in
      if resolved then put_incident iid (resolved_at (w_now (cd_state c)) i) c1 else c1)"
    by (simp add: run_prog)
  from run have "r = \<lparr>res_action_id = act_id a, res_applied = True, res_resolved = resolved,
      res_outcome = act_outcome a, res_incident_status =
        (if resolved then Resolved else if b then Mitigating else inc_status inc)\<rparr>"
    by (auto simp: run_andThen run_prog split: prod.splits sum.splits if_splits)
  with led show thesis by (intro that [of a]) (simp_all add: a_def)
qed

section \<open>One action\<close>

definition is_expected_now :: "oracle_policy \<Rightarrow> incident \<Rightarrow> string \<Rightarrow> string \<Rightarrow> (string, pyval) dict \<Rightarrow>
    conductor \<Rightarrow> bool" where
  "is_expected_now p inc kind t ps c \<longleftrightarrow> fst (match_step p inc kind t ps c) = Inr True"

text \<open>The incident after an action that ended at \<open>now\<close>.\<close>

definition incident_after :: "oracle_policy \<Rightarrow> bool \<Rightarrow> int \<Rightarrow> incident \<Rightarrow> incident" where
  "incident_after p b now inc = (let i = (if b then progressed inc else inc) in
     if inc_oracle_step i = length (pol_required_actions p) then resolved_at now i else i)"

lemma length_add_failed_orders:
  "length (w_orders (cd_state (snd (add_failed_orders uuid5 inc n err c)))) =
   length (w_orders (cd_state c)) + nat n"
proof -
  have *: "length (w_orders (foldl (\<lambda>w i. w\<lparr>w_orders := w_orders w @ [f w i]\<rparr>) w ns)) =
    length (w_orders w) + length ns" for f w and ns :: "nat list"
    by (induction ns arbitrary: w) simp_all
  show ?thesis by (simp add: add_failed_orders_def run_prog * [of "failed_order uuid5 (cd_seed c) inc err"])
qed

lemma settle_effect:
  assumes inc: "find_incident c iid = Some inc"
    and run: "settle_action uuid5 iid inc p b kind t ps who mem c = (Inr r, c')"
  defines "now \<equiv> w_now (cd_state c) + sec (if b then pol_action_seconds p
    else pol_wrong_action_penalty_seconds p)"
  shows "w_now (cd_state c') = now \<and>
    w_incidents (cd_state c') = AList.update iid (incident_after p b now inc)
      (w_incidents (cd_state c)) \<and>
    length (w_orders (cd_state c')) = length (w_orders (cd_state c)) + (if b then 0 else 2) \<and>
    (\<exists>a. w_actions (cd_state c') = w_actions (cd_state c) @ [a] \<and> act_incident_id a = iid \<and>
      act_type a = kind \<and> act_target a = t \<and> act_params a = ps \<and> act_applied_at a = now \<and>
      act_applied_by a = who \<and> act_memory_ref a = mem \<and> act_outcome a = res_outcome r \<and>
      act_id a = res_action_id r) \<and>
    res_outcome r = (if b then ''success'' else ''no_effect'') \<and>
    res_incident_status r = inc_status (incident_after p b now inc) \<and>
    (res_resolved r \<longleftrightarrow> inc_oracle_step (incident_after p b now inc) = length (pol_required_actions p)) \<and>
    schedule c' = schedule c"
proof -
  define c1 where "c1 = set_now now c"
  define c2 where "c2 = (if b then put_incident iid (progressed inc) c1
    else snd (add_failed_orders uuid5 inc 2 ''MITIGATION_INEFFECTIVE'' c1))"
  define i where "i = (if b then progressed inc else inc)"
  let ?res = "inc_oracle_step i = length (pol_required_actions p)"
  have rec_run: "record_action uuid5 iid inc b ?res kind t ps who mem c2 = (Inr r, c')"
    using run inc unfolding settle_action_def on_world_def run_step Let_def
    by (cases b) (simp_all add: run_step change_incident_def on_world_def c1_def c2_def set_now_def
        put_incident_def progressed_def find_incident_def i_def now_def add_failed_orders_def run_prog)
  obtain os where os: "snd (add_failed_orders uuid5 inc 2 ''MITIGATION_INEFFECTIVE'' c1) =
      c1\<lparr>cd_state := (cd_state c1)\<lparr>w_orders := os\<rparr>\<rparr>" by (rule add_failed_orders_run)
  from length_add_failed_orders [of uuid5 inc 2 "''MITIGATION_INEFFECTIVE''" c1]
  have len: "length os = length (w_orders (cd_state c)) + 2"
    unfolding os by (simp add: c1_def set_now_def)
  have inc2: "find_incident c2 iid = Some i"
    using inc unfolding c2_def os by (simp add: i_def c1_def set_now_def find_incident_def put_incident_def)
  have upd: "AList.update iid inc d = d" if "map_of d iid = Some inc" for d :: "(string, incident) dict"
    using that by (induction d) (auto split: if_splits)
  have upd2: "AList.update iid y (AList.update iid x d) = AList.update iid y d" for x y and d :: "(string, incident) dict"
    by (induction d) auto
  have table: "map_of (w_incidents (cd_state c)) iid = Some inc"
    using inc by (simp add: find_incident_def)
  have c2: "c2 = (if b then put_incident iid (progressed inc) c1
      else c1\<lparr>cd_state := (cd_state c1)\<lparr>w_orders := os\<rparr>\<rparr>)"
    unfolding c2_def os ..
  show ?thesis
    by (rule record_ledgers [OF inc2 rec_run])
      (auto simp: ledgers_def Let_def log_action_def c2 c1_def len set_now_def put_incident_def
        i_def incident_after_def resolved_at_def upd [OF table] upd2 split: if_splits)
qed

text \<open>A call that returns passed every guard, and ran the matching, the mutation and the settling.\<close>

lemma apply_action_Inr:
  assumes "apply_action uuid5 iid kind t ps who mem c = (Inr r, c')"
  obtains inc p d where "find_incident c iid = Some inc" and "inc_status inc \<noteq> Resolved"
    and "map_of (w_services (cd_state c)) t \<noteq> None" and "policy_of c inc = Some p"
    and "ledgers d = ledgers c"
    and "settle_action uuid5 iid inc p (is_expected_now p inc kind t ps c) kind t ps who mem d = (Inr r, c')"
proof -
  obtain inc p where inc: "find_incident c iid = Some inc" "inc_status inc \<noteq> Resolved"
      "map_of (w_services (cd_state c)) t \<noteq> None" "policy_of c inc = Some p"
    using apply_action_guard [of c iid t uuid5 kind ps who mem] assms by fastforce
  from assms obtain b u where b: "match_step p inc kind t ps c = (Inr b, u)"
    and run: "andThen (mutate_action uuid5 kind t ps)
      (\<lambda>_. settle_action uuid5 iid inc p b kind t ps who mem) u = (Inr r, c')"
    unfolding apply_action_run [OF inc] by (rule andThen_Inr)
  have [simp]: "u = c" using b match_step_state by (metis snd_conv)
  from run obtain x d where d: "mutate_action uuid5 kind t ps c = (Inr x, d)"
    and "settle_action uuid5 iid inc p b kind t ps who mem d = (Inr r, c')"
    by (auto elim: andThen_Inr)
  moreover have "b = is_expected_now p inc kind t ps c" using b by (simp add: is_expected_now_def)
  moreover have "ledgers d = ledgers c" using mutate_ledgers [of uuid5 kind t ps c] d by simp
  ultimately show thesis using inc that by blast
qed

lemma apply_action_ledgers:
  assumes "apply_action uuid5 iid kind t ps who mem c = (Inr r, c')"
  obtains inc p b now where "find_incident c iid = Some inc" and "inc_status inc \<noteq> Resolved"
    and "map_of (w_services (cd_state c)) t \<noteq> None" and "policy_of c inc = Some p"
    and "b = is_expected_now p inc kind t ps c"
    and "now = w_now (cd_state c) + sec (if b then pol_action_seconds p
      else pol_wrong_action_penalty_seconds p)"
    and "w_now (cd_state c') = now"
    and "w_incidents (cd_state c') = AList.update iid (incident_after p b now inc)
      (w_incidents (cd_state c))"
    and "length (w_orders (cd_state c')) = length (w_orders (cd_state c)) + (if b then 0 else 2)"
    and "\<exists>a. w_actions (cd_state c') = w_actions (cd_state c) @ [a] \<and> act_incident_id a = iid \<and>
      act_type a = kind \<and> act_target a = t \<and> act_params a = ps \<and> act_applied_at a = now \<and>
      act_applied_by a = who \<and> act_memory_ref a = mem \<and> act_outcome a = res_outcome r \<and>
      act_id a = res_action_id r"
    and "res_outcome r = (if b then ''success'' else ''no_effect'')"
    and "res_incident_status r = inc_status (incident_after p b now inc)"
    and "res_resolved r \<longleftrightarrow> inc_oracle_step (incident_after p b now inc) = length (pol_required_actions p)"
    and "schedule c' = schedule c"
proof -
  obtain inc p d where inc: "find_incident c iid = Some inc" "inc_status inc \<noteq> Resolved"
      "map_of (w_services (cd_state c)) t \<noteq> None" "policy_of c inc = Some p"
    and d: "ledgers d = ledgers c"
    and run: "settle_action uuid5 iid inc p (is_expected_now p inc kind t ps c) kind t ps who mem d = (Inr r, c')"
    using assms by (rule apply_action_Inr)
  have "find_incident d iid = Some inc"
    using inc(1) d by (simp add: find_incident_def ledgers_def Let_def)
  note effect = settle_effect [OF this run]
  have same: "w_now (cd_state d) = w_now (cd_state c)"
    "w_incidents (cd_state d) = w_incidents (cd_state c)"
    "w_orders (cd_state d) = w_orders (cd_state c)"
    "w_actions (cd_state d) = w_actions (cd_state c)" "schedule d = schedule c"
    using d by (simp_all add: ledgers_def Let_def)
  from effect [unfolded same] show thesis
    by (elim conjE, intro that [OF inc refl refl])
qed

section \<open>Errors\<close>

text \<open>Programs that may only raise exceptions other than \<open>SimulationError\<close>.\<close>

definition no_sim_error :: "'a sim \<Rightarrow> bool" where
  "no_sim_error m \<longleftrightarrow> (\<forall>c msg. fst (m c) \<noteq> Inl (SimulationError msg))"

lemma no_sim_error_basic:
  "no_sim_error (ret x)" "no_sim_error (reads f)" "no_sim_error (modifies g)"
  "no_sim_error (of_world h)" "no_sim_error (on_world k)"
  "no_sim_error (get_service n)" "no_sim_error (get_slo s)"
  by (auto simp: no_sim_error_def prog_simps of_world_def on_world_def get_service_def get_slo_def
      split: option.splits)

lemma no_sim_error_andThen:
  assumes "no_sim_error m" and "\<And>x. no_sim_error (f x)"
  shows "no_sim_error (andThen m f)"
  unfolding no_sim_error_def
proof (intro allI)
  fix c msg
  obtain r d where m: "m c = (r, d)" by (cases "m c")
  show "fst (andThen m f c) \<noteq> Inl (SimulationError msg)"
  proof (cases r)
    case (Inl e)
    with m assms(1) have "e \<noteq> SimulationError msg" by (metis no_sim_error_def fst_conv)
    with m Inl show ?thesis by (simp add: run_andThen)
  next
    case (Inr x)
    with m assms(2) [of x] show ?thesis by (simp add: run_andThen no_sim_error_def)
  qed
qed

lemma no_sim_error_for_each:
  "(\<And>x. no_sim_error (f x)) \<Longrightarrow> no_sim_error (for_each xs f)"
  by (induction xs) (simp_all add: no_sim_error_basic no_sim_error_andThen)

lemmas no_sim_error_rules = no_sim_error_basic no_sim_error_andThen no_sim_error_for_each

lemma no_sim_error_clear: "no_sim_error (clear_alert inc k)"
  unfolding clear_alert_def change_slo_def
  by (intro no_sim_error_rules) (auto intro!: no_sim_error_rules split: option.splits)

lemma no_sim_error_settle: "no_sim_error (settle_action uuid5 iid inc p b kind t ps who mem)"
  unfolding settle_action_def record_action_def resolve_def Let_def set_health_def change_service_def
    change_incident_def add_failed_orders_def
  by (auto intro!: no_sim_error_rules no_sim_error_clear)

lemma no_sim_error_set_config: "no_sim_error (set_config uuid5 svc key v source)"
  unfolding set_config_def by (intro no_sim_error_rules)

text \<open>An action that is refused with a \<open>SimulationError\<close> was refused before it wrote anything.\<close>

lemma mutate_refused:
  assumes "mutate_action uuid5 kind t ps c = (Inl (SimulationError msg), c')"
  shows "c' = c"
proof -
  have cfg: "set_config uuid5 svc key v source d \<noteq> (Inl (SimulationError msg), c')" for svc key v source d
    using no_sim_error_set_config by (metis no_sim_error_def fst_conv)
  note unf = prog_simps of_world_def on_world_def get_service_def change_service_def change_dependency_def
    get_dependency_def
  have "mutate_rollback uuid5 t ps c = (Inl (SimulationError msg), c') \<Longrightarrow> c' = c"
    by (auto simp: mutate_rollback_def unf split: option.splits)
  moreover have "mutate_set_config uuid5 t ps c = (Inl (SimulationError msg), c') \<Longrightarrow> c' = c"
    using cfg by (auto simp: mutate_set_config_def unf split: option.splits)
  moreover have "mutate_failover t ps c = (Inl (SimulationError msg), c') \<Longrightarrow> c' = c"
    by (auto simp: mutate_failover_def known_key_def unf split: option.splits if_splits pyval.splits)
  moreover have "mutate_scale t ps c = (Inl (SimulationError msg), c') \<Longrightarrow> c' = c"
    by (auto simp: mutate_scale_def unf split: option.splits if_splits)
  moreover have "mutate_throttle uuid5 t ps c = (Inl (SimulationError msg), c') \<Longrightarrow> c' = c"
    using cfg by (auto simp: mutate_throttle_def unf split: option.splits if_splits)
  ultimately show ?thesis
    using assms by (auto simp: mutate_action_def unf split: if_splits option.splits)
qed

lemma apply_action_refused:
  assumes "apply_action uuid5 iid kind target params who mem c = (Inl (SimulationError msg), c')"
  shows "c' = c"
proof (cases "\<exists>inc p. find_incident c iid = Some inc \<and> inc_status inc \<noteq> Resolved \<and>
    map_of (w_services (cd_state c)) target \<noteq> None \<and> policy_of c inc = Some p")
  case False
  then have "\<exists>e. apply_action uuid5 iid kind target params who mem c = (Inl e, c)"
    by (intro apply_action_guard) (cases "find_incident c iid"; auto)
  with assms show ?thesis by auto
next
  case True
  then obtain inc p where run: "andThen (match_step p inc kind target params)
      (\<lambda>b. andThen (mutate_action uuid5 kind target params)
        (\<lambda>_. settle_action uuid5 iid inc p b kind target params who mem)) c =
      (Inl (SimulationError msg), c')"
    using assms apply_action_run by metis
  obtain r u where m: "match_step p inc kind target params c = (r, u)" by fastforce
  then have [simp]: "u = c" using match_step_state by (metis snd_conv)
  obtain q d where mut: "mutate_action uuid5 kind target params c = (q, d)" by fastforce
  have "settle_action uuid5 iid inc p b kind target params who mem d \<noteq> (Inl (SimulationError msg), c')"
    for b using no_sim_error_settle by (metis no_sim_error_def fst_conv)
  with run m mut show ?thesis
    by (cases r; cases q) (auto simp: run_andThen dest: mutate_refused)
qed

section \<open>Sequences of actions on one incident\<close>

type_synonym action_call = "string \<times> string \<times> (string, pyval) dict"

fun run_actions :: "(string \<Rightarrow> string) \<Rightarrow> string \<Rightarrow> string \<Rightarrow> action_call list \<Rightarrow> action_result list sim" where
  "run_actions uuid5 iid who [] = ret []"
| "run_actions uuid5 iid who ((kind, t, ps) # plan) =
     andThen (apply_action uuid5 iid kind t ps who None) (\<lambda>r.
     andThen (run_actions uuid5 iid who plan) (\<lambda>rs. ret (r # rs)))"

definition matched :: "action_result list \<Rightarrow> nat" where
  "matched rs = length (filter (\<lambda>r. res_outcome r = ''success'') rs)"

definition missed :: "action_result list \<Rightarrow> nat" where
  "missed rs = length rs - matched rs"

lemma matched_le: "matched rs \<le> length rs"
  by (simp add: matched_def)

lemma matched_Cons: "matched (r # rs) = (if res_outcome r = ''success'' then 1 else 0) + matched rs"
  by (simp add: matched_def)

lemma missed_Cons: "missed (r # rs) = (if res_outcome r = ''success'' then 0 else 1) + missed rs"
  using matched_le [of rs] by (simp add: missed_def matched_Cons)

definition cost :: "oracle_policy \<Rightarrow> action_result list \<Rightarrow> int" where
  "cost p rs = int (matched rs) * pol_action_seconds p + int (missed rs) * pol_wrong_action_penalty_seconds p"

text \<open>What a run of \<open>rs\<close> from \<open>c\<close> to \<open>c'\<close> means for the incident.\<close>

definition accounted :: "oracle_policy \<Rightarrow> string \<Rightarrow> incident \<Rightarrow> conductor \<Rightarrow> action_result list \<Rightarrow>
    conductor \<Rightarrow> bool" where
  "accounted p iid inc c rs c' \<longleftrightarrow> (\<exists>inc'. find_incident c' iid = Some inc' \<and>
     inc_opened_at inc' = inc_opened_at inc \<and>
     inc_oracle_step inc' = inc_oracle_step inc + matched rs \<and>
     w_now (cd_state c') = w_now (cd_state c) + sec (cost p rs) \<and>
     length (w_orders (cd_state c')) = length (w_orders (cd_state c)) + 2 * missed rs \<and>
     length (w_actions (cd_state c')) = length (w_actions (cd_state c)) + length rs \<and>
     (rs \<noteq> [] \<longrightarrow> (inc_status inc' = Resolved \<longleftrightarrow> inc_oracle_step inc' = length (pol_required_actions p)) \<and>
       (inc_status inc' = Resolved \<longrightarrow> inc_resolved_at inc' = Some (w_now (cd_state c')) \<and>
          inc_mttr_seconds inc' = Some (whole_seconds (w_now (cd_state c') - inc_opened_at inc)))))"

lemma incident_after_fields [simp]:
  "inc_opened_at (incident_after p b now inc) = inc_opened_at inc"
  "inc_family_id (incident_after p b now inc) = inc_family_id inc"
  "inc_scenario_id (incident_after p b now inc) = inc_scenario_id inc"
  "inc_oracle_step (incident_after p b now inc) = (if b then 1 else 0) + inc_oracle_step inc"
  by (simp_all add: incident_after_def resolved_at_def progressed_def Let_def)

lemma sec_add: "sec (a + b) = sec a + sec b"
  by (simp add: sec_def)

lemma accounted_one:
  assumes "apply_action uuid5 iid kind t ps who mem c = (Inr r, c')"
    and "find_incident c iid = Some inc" and "policy_of c inc = Some p"
  shows "accounted p iid inc c [r] c' \<and> (\<forall>inc'. find_incident c' iid = Some inc' \<longrightarrow>
    inc_opened_at inc' = inc_opened_at inc \<and>
    inc_oracle_step inc' = inc_oracle_step inc + matched [r] \<and> policy_of c' inc' = Some p)"
  using assms(1)
proof (rule apply_action_ledgers)
  fix inc2 q b now
  assume "find_incident c iid = Some inc2" and open2: "inc_status inc2 \<noteq> Resolved"
    and "policy_of c inc2 = Some q"
    and now: "now = w_now (cd_state c) + sec (if b then pol_action_seconds q
      else pol_wrong_action_penalty_seconds q)"
    and w: "w_now (cd_state c') = now" "w_incidents (cd_state c') =
      AList.update iid (incident_after q b now inc2) (w_incidents (cd_state c))"
    "length (w_orders (cd_state c')) = length (w_orders (cd_state c)) + (if b then 0 else 2)"
    "\<exists>a. w_actions (cd_state c') = w_actions (cd_state c) @ [a] \<and> act_incident_id a = iid \<and>
      act_type a = kind \<and> act_target a = t \<and> act_params a = ps \<and> act_applied_at a = now \<and>
      act_applied_by a = who \<and> act_memory_ref a = mem \<and> act_outcome a = res_outcome r \<and>
      act_id a = res_action_id r"
    and out: "res_outcome r = (if b then ''success'' else ''no_effect'')"
    and sched: "schedule c' = schedule c"
  then have [simp]: "inc2 = inc" "q = p" using assms(2,3) by auto
  let ?i = "incident_after p b now inc"
  have i: "find_incident c' iid = Some ?i" by (simp add: find_incident_def w)
  have m: "matched [r] = (if b then 1 else 0)" "missed [r] = (if b then 0 else 1)"
    by (simp_all add: matched_def missed_def out)
  have c: "cost p [r] = (if b then pol_action_seconds p else pol_wrong_action_penalty_seconds p)"
    by (simp add: cost_def m)
  have len: "length (w_actions (cd_state c')) = Suc (length (w_actions (cd_state c)))"
    using w(4) by auto
  have st: "inc_status ?i = Resolved \<longleftrightarrow> inc_oracle_step ?i = length (pol_required_actions p)"
    "inc_status ?i = Resolved \<longrightarrow> inc_resolved_at ?i = Some now \<and>
      inc_mttr_seconds ?i = Some (whole_seconds (now - inc_opened_at inc))"
    using open2 by (auto simp: incident_after_def resolved_at_def progressed_def Let_def)
  have "accounted p iid inc c [r] c'"
    unfolding accounted_def using st by (intro exI [of _ ?i]) (simp add: i m c len w(1,3) now)
  moreover have "policy_of c' ?i = policy_of c inc"
    using sched by (simp add: policy_of_def schedule_def)
  ultimately show ?thesis using i assms(3) by (simp add: m)
qed

text \<open>One action, then a sequence (which leaves the state as it is when it is empty).\<close>

lemma accounted_Cons:
  assumes one: "accounted p iid inc c [r] d" and rest: "accounted p iid inc2 d rs c'"
    and inc2: "find_incident d iid = Some inc2" and none: "rs = [] \<Longrightarrow> c' = d"
  shows "accounted p iid inc c (r # rs) c'"
proof (cases "rs = []")
  case True
  then show ?thesis using one none by simp
next
  case False
  have add: "matched (r # rs) = matched [r] + matched rs" "missed (r # rs) = missed [r] + missed rs"
    "cost p (r # rs) = cost p [r] + cost p rs"
    by (simp_all add: matched_Cons missed_Cons cost_def algebra_simps)
       (simp_all add: matched_def missed_def)
  from rest False obtain inc3 where i3: "find_incident c' iid = Some inc3"
    "inc_opened_at inc3 = inc_opened_at inc2"
    "inc_oracle_step inc3 = inc_oracle_step inc2 + matched rs"
    "w_now (cd_state c') = w_now (cd_state d) + sec (cost p rs)"
    "length (w_orders (cd_state c')) = length (w_orders (cd_state d)) + 2 * missed rs"
    "length (w_actions (cd_state c')) = length (w_actions (cd_state d)) + length rs"
    "inc_status inc3 = Resolved \<longleftrightarrow> inc_oracle_step inc3 = length (pol_required_actions p)"
    "inc_status inc3 = Resolved \<longrightarrow> inc_resolved_at inc3 = Some (w_now (cd_state c')) \<and>
        inc_mttr_seconds inc3 = Some (whole_seconds (w_now (cd_state c') - inc_opened_at inc2))"
    unfolding accounted_def by blast
  from one inc2 have d: "w_now (cd_state d) = w_now (cd_state c) + sec (cost p [r])"
    "length (w_orders (cd_state d)) = length (w_orders (cd_state c)) + 2 * missed [r]"
    "length (w_actions (cd_state d)) = length (w_actions (cd_state c)) + 1"
    "inc_opened_at inc2 = inc_opened_at inc" "inc_oracle_step inc2 = inc_oracle_step inc + matched [r]"
    unfolding accounted_def by auto
  show ?thesis
    unfolding accounted_def
    using i3(7,8) by (intro exI [of _ inc3]) (simp add: i3(1-6) d(1-5) add sec_add)
qed

lemma run_actions_accounted:
  assumes "run_actions uuid5 iid who plan c = (Inr rs, c')"
    and "find_incident c iid = Some inc" and "policy_of c inc = Some p"
  shows "accounted p iid inc c rs c' \<and> length rs = length plan"
  using assms
proof (induction plan arbitrary: c inc rs)
  case Nil
  then show ?case by (auto simp: accounted_def run_prog matched_def missed_def cost_def sec_def)
next
  case (Cons a plan)
  obtain kind t ps where a: "a = (kind, t, ps)" by (cases a)
  from Cons.prems(1) obtain r d rs2 where run: "apply_action uuid5 iid kind t ps who None c = (Inr r, d)"
    "run_actions uuid5 iid who plan d = (Inr rs2, c')" and rs: "rs = r # rs2"
    by (auto simp: a run_prog elim!: andThen_Inr)
  from accounted_one [OF run(1) Cons.prems(2,3)] obtain inc2 where
    one: "accounted p iid inc c [r] d" and inc2: "find_incident d iid = Some inc2"
      "inc_opened_at inc2 = inc_opened_at inc"
      "inc_oracle_step inc2 = inc_oracle_step inc + matched [r]" "policy_of d inc2 = Some p"
    unfolding accounted_def by blast
  from Cons.IH [OF run(2) inc2(1,4)] have rest: "accounted p iid inc2 d rs2 c'"
    and len: "length rs2 = length plan" by auto
  have "rs2 = [] \<Longrightarrow> c' = d" using len run(2) by (simp add: run_prog)
  from accounted_Cons [OF one rest inc2(1) this] len rs show ?case by simp
qed

end
