(* ===== verification/Sim_Claims.thy ===== *)
theory Sim_Claims
  imports Sim_Actions "HOL-Library.Multiset"
begin

text \<open>
  The properties of the simulator: the reachable states of the conductor, what one remediation
  action and a sequence of them do, what an observation may depend on, and the run of the whole
  schedule. A small fixture on which the code runs serves the concrete instances.
\<close>

section \<open>A small fixture\<close>

definition no_fault :: fault where
  "no_fault = \<lparr>flt_bad_version = None, flt_error_rate = None, flt_p99_ms = None,
     flt_availability = None, flt_utilization = Some (95 / 100), flt_memory_utilization = None,
     flt_near_miss = False, flt_environment_migrated = False, flt_dependency_key = None,
     flt_failed_service = None, flt_key = None, flt_bad_value = None, flt_burn_rate = None\<rparr>"

definition demo_fixture :: fixture where
  "demo_fixture = \<lparr>fx_seed = 7, fx_start_time = 0,
     fx_services = [\<lparr>si_name = ''checkout'', si_tier = ''1'', si_owner_team = ''pay'',
       si_current_version = ''v2'', si_previous_stable_version = Some ''v1'',
       si_capacity_units = Some 2\<rparr>],
     fx_dependencies = [],
     fx_slos = [\<lparr>li_service = ''checkout'', li_kind = ''saturation'', li_threshold = 8 / 10,
       li_window_seconds = 300, li_baseline = 1 / 10\<rparr>],
     fx_configs = [\<lparr>ci_service = ''checkout'', ci_key = ''pool'', ci_value = PInt 10\<rparr>],
     fx_scenarios = [\<lparr>scn_id = ''s1'', scn_title = ''hot'', scn_target_service = ''checkout'',
       scn_severity = ''SEV2'', scn_family_id = ''F4_TRAFFIC_SATURATION'', scn_variant_id = ''a'',
       scn_inject_at_seconds = 60, scn_fault = no_fault, scn_failed_orders = Some 1\<rparr>]\<rparr>"

definition demo_policy :: oracle_policy where
  "demo_policy = \<lparr>pol_required_actions = [\<lparr>exp_action_type = ''scale_service'',
       exp_target_service = ''$incident.service'', exp_params = [(''capacity_units'', PInt 6)]\<rparr>],
     pol_action_seconds = 30, pol_wrong_action_penalty_seconds = 90\<rparr>"

definition demo_conductor :: conductor where
  "demo_conductor = new_conductor id demo_fixture [(''F4_TRAFFIC_SATURATION'', demo_policy)] []"

definition demo_incident :: string where
  "demo_incident = sim_id id 7 ''incident'' ''s1''"

lemmas demo_defs = demo_conductor_def demo_fixture_def demo_policy_def demo_incident_def no_fault_def
  new_conductor_def load_world_def load_services_def load_dependencies_def load_slos_def
  load_configs_def empty_world_def

text \<open>The incident of the fixture once it is open, as one evaluated state.\<close>

definition demo_open :: conductor where
  "demo_open = snd (inject_next id demo_conductor)"

lemmas demo_run = demo_open_def inject_next_def inject_family_def inject_traffic_saturation_def
  set_health_def change_service_def get_service_def change_slo_def get_slo_def open_incident_def
  announce_incident_def add_failed_orders_def failed_order_def new_incident_def fault_field_def
  of_world_def on_world_def prog_simps sim_id_def int_str_def nat_str.simps digit_char_def sec_def
  upt_rec Let_def

lemma demo_policy_of: "policy_of demo_open inc = (if inc_family_id inc = ''F4_TRAFFIC_SATURATION''
    then Some demo_policy else None)"
  by (simp add: demo_run demo_defs policy_of_def dict_get_def)

lemma demo_reach: "sim_reach id demo_conductor demo_open"
  using sim_reach.call [OF sim_reach.start, of id demo_conductor Inject] by (simp add: demo_open_def)

lemma demo_durations: "durations_ok demo_conductor"
  by (simp add: durations_ok_def demo_defs)

section \<open>Invariants of the reachable states\<close>










text \<open>In every reachable state the ledgers are sound: simulated time has not gone back past
  the start, every order is a failed one worth 1500 to 9999 cents, actions are in the order of
  their instants and none is in the future, and the names hashed into the ids of the orders
  and of the actions are pairwise distinct (so only a collision of the hash could make two ids equal).\<close>

theorem sim_ledgers:
  assumes "durations_ok (new_conductor uuid5 fx families scenarios)"
    and "sim_reach uuid5 (new_conductor uuid5 fx families scenarios) c"
  shows "fx_start_time fx \<le> w_now (cd_state c) \<and>
    (\<forall>x \<in> set (w_orders (cd_state c)). ord_status x = ''failed'' \<and>
       1500 \<le> ord_amount_cents x \<and> ord_amount_cents x < 10000) \<and>
    sorted (map act_applied_at (w_actions (cd_state c))) \<and>
    (\<forall>a \<in> set (w_actions (cd_state c)). act_applied_at a \<le> w_now (cd_state c)) \<and>
    (\<exists>names. map ord_id (w_orders (cd_state c)) =
       map (sim_id uuid5 (cd_seed c) ''order'') names \<and> distinct names) \<and>
    (\<exists>names. map act_id (w_actions (cd_state c)) =
       map (sim_id uuid5 (cd_seed c) ''action'') names \<and> distinct names)"
proof -
  have "ledger_ok uuid5 (fx_start_time fx) (new_conductor uuid5 fx families scenarios)"
    using assms(1) by (simp add: ledger_ok_def new_conductor_def load_world_def Let_def empty_world_def)
  then have L: "ledger_ok uuid5 (fx_start_time fx) c" by (rule ledger.reach [OF assms(2)])
  then have "\<forall>x \<in> set (w_orders (cd_state c)). ord_status x = ''failed'' \<and>
       1500 \<le> ord_amount_cents x \<and> ord_amount_cents x < 10000"
    by (auto simp: ledger_ok_def order_ok_def in_set_conv_nth)
  with L ledger_names [OF L] show ?thesis by (simp add: ledger_ok_def)
qed

theorem sim_ledgers_witness:
  "list_all (\<lambda>x. 1500 \<le> ord_amount_cents x) (w_orders (cd_state demo_open))"
  unfolding list_all_iff using sim_ledgers [OF demo_durations [unfolded demo_conductor_def]
      demo_reach [unfolded demo_conductor_def]] by blast

section \<open>Remediation actions\<close>

text \<open>C24. An action that the conductor refuses with a \<open>SimulationError\<close> - unknown incident,
  resolved incident, unknown target, bad parameters, unsupported kind - leaves it exactly as it was.\<close>

theorem sim_refused_action:
  assumes "apply_action uuid5 iid kind target params who mem c = (Inl (SimulationError msg), c')"
  shows "c' = c"
  using assms by (rule apply_action_refused)

theorem sim_refused_action_witness:
  "apply_action id ''nope'' ''escalate'' ''checkout'' [] ''agent'' None demo_open =
     (Inl (SimulationError ''unknown incident: nope''), demo_open)"
proof -
  let ?run = "apply_action id ''nope'' ''escalate'' ''checkout'' [] ''agent'' None demo_open"
  have "fst ?run = Inl (SimulationError ''unknown incident: nope'')"
    by (simp add: apply_action_def prog_simps of_world_def demo_run demo_defs)
  then have "?run = (Inl (SimulationError ''unknown incident: nope''), snd ?run)"
    by (simp add: prod_eq_iff)
  with sim_refused_action [OF this] show ?thesis by metis
qed

text \<open>C23. An action that returns did so on a known, unresolved incident and a known service,
  under the oracle's policy for it. Time advances by the policy's action time when the action is
  the next required one and by its penalty otherwise; the incident takes the step (and is resolved,
  with its MTTR, as soon as the last required action is matched), no other incident changes; a
  matched action loses no order, any other loses two; one action is logged with the instant
  reached and the outcome returned; the reported status is the incident's new one.\<close>

theorem sim_action_effect:
  assumes "apply_action uuid5 iid kind target params who mem c = (Inr r, c')"
  shows "\<exists>inc p b now. find_incident c iid = Some inc \<and> inc_status inc \<noteq> Resolved \<and>
    map_of (w_services (cd_state c)) target \<noteq> None \<and> policy_of c inc = Some p \<and>
    b = is_expected_now p inc kind target params c \<and>
    now = w_now (cd_state c) + sec (if b then pol_action_seconds p
      else pol_wrong_action_penalty_seconds p) \<and>
    w_now (cd_state c') = now \<and>
    w_incidents (cd_state c') = AList.update iid (incident_after p b now inc) (w_incidents (cd_state c)) \<and>
    length (w_orders (cd_state c')) = length (w_orders (cd_state c)) + (if b then 0 else 2) \<and>
    (\<exists>a. w_actions (cd_state c') = w_actions (cd_state c) @ [a] \<and> act_incident_id a = iid \<and>
      act_type a = kind \<and> act_target a = target \<and> act_params a = params \<and> act_applied_at a = now \<and>
      act_outcome a = res_outcome r \<and> act_id a = res_action_id r) \<and>
    res_outcome r = (if b then ''success'' else ''no_effect'') \<and>
    res_incident_status r = inc_status (incident_after p b now inc) \<and>
    schedule c' = schedule c"
  using assms by (rule apply_action_ledgers) blast

text \<open>A conductor with one open incident, on which the required action is applied.\<close>

definition small_conductor :: conductor where
  "small_conductor = \<lparr>cd_seed = 7, cd_start_time = 0, cd_scenarios = [],
     cd_oracle = [(''F'', demo_policy)], cd_scenario_oracle = [], cd_next_scenario = 0,
     cd_state = (empty_world 0)\<lparr>
       w_services := [(''c'', \<lparr>svc_id = ''1'', svc_name = ''c'', svc_tier = ''1'', svc_owner_team = ''p'',
         svc_health = Degraded, svc_current_version = ''v2'', svc_previous_stable_version = None,
         svc_capacity_units = 2, svc_restart_count = 0\<rparr>)],
       w_incidents := [(''i'', \<lparr>inc_id = ''i'', inc_scenario_id = ''s'', inc_title = ''t'',
         inc_service = ''c'', inc_severity = ''SEV2'', inc_family_id = ''F'', inc_variant_id = ''a'',
         inc_status = Open_incident, inc_opened_at = 0, inc_resolved_at = None,
         inc_mttr_seconds = None, inc_oracle_step = 0\<rparr>)]\<rparr>\<rparr>"

definition small_fix :: "(sim_error + action_result) \<times> conductor" where
  "small_fix = apply_action id ''i'' ''scale_service'' ''c'' [(''capacity_units'', PInt 6)] ''me'' None
     small_conductor"

lemma small_fix_run: "(case small_fix of (Inr r, c') \<Rightarrow> res_resolved r \<and> w_now (cd_state c') = 30000000
    | _ \<Rightarrow> False)"
  by code_simp

lemma small_fix_result:
  obtains r c' where "apply_action id ''i'' ''scale_service'' ''c'' [(''capacity_units'', PInt 6)] ''me'' None
    small_conductor = (Inr r, c')" and "res_resolved r"
  using small_fix_run that by (auto simp: small_fix_def split: prod.splits sum.splits)

theorem sim_action_effect_witness:
  "\<exists>r c'. small_fix = (Inr r, c') \<and> (\<exists>inc. find_incident small_conductor ''i'' = Some inc \<and>
     inc_status inc \<noteq> Resolved) \<and> schedule c' = schedule small_conductor"
proof (rule small_fix_result)
  fix r c'
  assume run: "apply_action id ''i'' ''scale_service'' ''c'' [(''capacity_units'', PInt 6)] ''me'' None
    small_conductor = (Inr r, c')"
  from sim_action_effect [OF run] run show ?thesis unfolding small_fix_def by blast
qed

text \<open>A sequence of actions on one incident is accounted for exactly: simulated time has
  advanced by the policy's action time for each matched action and its penalty for each other one,
  two orders were lost per miss, every action was logged, the oracle step advanced by the
  matches. The incident ends resolved exactly when the matches complete the required actions,
  and then its MTTR is the time from its opening to the end of the sequence.\<close>

theorem sim_plan_cost:
  assumes "run_actions uuid5 iid who plan c = (Inr rs, c')"
    and "find_incident c iid = Some inc" and "policy_of c inc = Some p"
  shows "\<exists>inc'. find_incident c' iid = Some inc' \<and> length rs = length plan \<and>
    w_now (cd_state c') = w_now (cd_state c) + sec (int (matched rs) * pol_action_seconds p +
      int (missed rs) * pol_wrong_action_penalty_seconds p) \<and>
    length (w_orders (cd_state c')) = length (w_orders (cd_state c)) + 2 * missed rs \<and>
    length (w_actions (cd_state c')) = length (w_actions (cd_state c)) + length plan \<and>
    inc_oracle_step inc' = inc_oracle_step inc + matched rs \<and>
    (plan \<noteq> [] \<longrightarrow> (inc_status inc' = Resolved \<longleftrightarrow> inc_oracle_step inc' = length (pol_required_actions p)) \<and>
      (inc_status inc' = Resolved \<longrightarrow>
        inc_mttr_seconds inc' = Some (whole_seconds (w_now (cd_state c') - inc_opened_at inc))))"
proof -
  have "accounted p iid inc c rs c'" and len: "length rs = length plan"
    using run_actions_accounted [OF assms] by simp_all
  then obtain inc' where "find_incident c' iid = Some inc'"
    "inc_oracle_step inc' = inc_oracle_step inc + matched rs"
    "w_now (cd_state c') = w_now (cd_state c) + sec (cost p rs)"
    "length (w_orders (cd_state c')) = length (w_orders (cd_state c)) + 2 * missed rs"
    "length (w_actions (cd_state c')) = length (w_actions (cd_state c)) + length rs"
    "rs \<noteq> [] \<longrightarrow> (inc_status inc' = Resolved \<longleftrightarrow> inc_oracle_step inc' = length (pol_required_actions p)) \<and>
       (inc_status inc' = Resolved \<longrightarrow> inc_resolved_at inc' = Some (w_now (cd_state c')) \<and>
          inc_mttr_seconds inc' = Some (whole_seconds (w_now (cd_state c') - inc_opened_at inc)))"
    unfolding accounted_def by blast
  moreover have "rs = [] \<longleftrightarrow> plan = []" using len by auto
  ultimately show ?thesis using len unfolding cost_def by (intro exI [of _ inc']) simp
qed

theorem sim_plan_cost_witness:
  "\<exists>r c'. small_fix = (Inr r, c') \<and>
     w_now (cd_state c') = w_now (cd_state small_conductor) + sec (int (matched [r]) * 30 + int (missed [r]) * 90)"
proof (rule small_fix_result)
  fix r c'
  assume run: "apply_action id ''i'' ''scale_service'' ''c'' [(''capacity_units'', PInt 6)] ''me'' None
    small_conductor = (Inr r, c')"
  have plan: "run_actions id ''i'' ''me'' [(''scale_service'', ''c'', [(''capacity_units'', PInt 6)])]
    small_conductor = (Inr [r], c')" by (simp add: run prog_simps)
  have "\<exists>inc. find_incident small_conductor ''i'' = Some inc \<and> policy_of small_conductor inc = Some demo_policy"
    by (simp add: small_conductor_def find_incident_def policy_of_def dict_get_def empty_world_def)
  then obtain inc where "find_incident small_conductor ''i'' = Some inc"
    "policy_of small_conductor inc = Some demo_policy" by blast
  from sim_plan_cost [OF plan this] run show ?thesis
    unfolding small_fix_def by (auto simp: demo_policy_def)
qed

text \<open>A resolved incident is final: until its scenario is injected again no call changes its
  record, and an action addressed to it is refused and leaves the conductor unchanged.\<close>

theorem sim_resolved_is_final:
  assumes "find_incident c iid = Some inc" and "inc_status inc = Resolved" and "m \<noteq> Inject"
  shows "find_incident (perform uuid5 m c) iid = Some inc \<and>
    (\<exists>e. apply_action uuid5 iid kind target params who mem c = (Inl e, c))"
proof
  show "\<exists>e. apply_action uuid5 iid kind target params who mem c = (Inl e, c)"
    using assms(1,2) by (intro apply_action_guard) simp
  have K: "keeps_resolved iid inc c" using assms(1,2) by (simp add: keeps_resolved_def)
  show "find_incident (perform uuid5 m c) iid = Some inc"
  proof (cases m)
    case (Act jid kind2 t ps who2 mem2)
    with resolved.act [OF K, of uuid5 jid kind2 t ps who2 mem2] show ?thesis
      by (simp add: keeps_resolved_def)
  next
    case (Wait n)
    with assms(1) show ?thesis
      by (simp add: advance_time_def prog_simps on_world_def find_incident_def)
  next
    case (Look j)
    with assms(1) show ?thesis by (simp add: observe_state)
  qed (use assms(3) in simp)
qed

theorem sim_resolved_is_final_witness:
  "\<exists>inc. inc_status inc = Resolved \<and> find_incident (perform id (Wait 5) (put_incident ''i'' inc small_conductor)) ''i'' = Some inc"
proof -
  define inc where "inc = resolved_at 3 (new_incident id 7 (cd_scenarios demo_conductor ! 0) 0)"
  have *: "inc_status inc = Resolved" by (simp add: inc_def resolved_at_def)
  with sim_resolved_is_final [of "put_incident ''i'' inc small_conductor" "''i''" inc "Wait 5" id]
  show ?thesis by auto
qed

section \<open>Observations\<close>

text \<open>The same world with other labels: family, variant, scenario, oracle step and status of every
  incident, the hidden schedule and the oracle.\<close>

definition relabel :: "(incident \<Rightarrow> string) \<Rightarrow> (incident \<Rightarrow> string) \<Rightarrow> (incident \<Rightarrow> string) \<Rightarrow>
    (incident \<Rightarrow> nat) \<Rightarrow> conductor \<Rightarrow> conductor" where
  "relabel fam var scn stp c = c\<lparr>cd_state := (cd_state c)\<lparr>w_incidents := map (\<lambda>(k, i).
     (k, i\<lparr>inc_family_id := fam i, inc_variant_id := var i, inc_scenario_id := scn i,
       inc_oracle_step := stp i\<rparr>)) (w_incidents (cd_state c))\<rparr>\<rparr>"

text \<open>What a responder observes of an incident - the observation or the error - does not
  depend on the labels the benchmark hides from it: two conductors that differ only in the
  families, variants, scenarios and oracle steps of their incidents, in the schedule and in the
  oracle show the same.\<close>

theorem sim_observation_blind:
  "fst (observe_incident iid ((relabel fam var scn stp c)\<lparr>cd_scenarios := scs, cd_oracle := ora,
      cd_scenario_oracle := sco, cd_next_scenario := n\<rparr>)) = fst (observe_incident iid c)"
proof -
  have "map_of (map (\<lambda>(k, i). (k, g i)) d) iid = map_option g (map_of d iid)"
    for g :: "incident \<Rightarrow> incident" and d :: "(string, incident) dict"
    by (induction d) auto
  then show ?thesis
    by (cases "map_of (w_incidents (cd_state c)) iid"; cases "active_alert (cd_state c) iid")
      (simp_all add: observe_incident_def prog_simps of_world_def get_slo_def get_service_def
        relabel_def active_alert_def split: option.split)
qed

section \<open>The whole schedule\<close>

lemma inject_all_scenarios:
  "case inject_all uuid5 c of
     (Inr incs, c') \<Rightarrow> map inc_scenario_id incs = map scn_id (drop (cd_next_scenario c) (cd_scenarios c)) \<and>
       remaining_scenarios c' = 0
   | (Inl e, c') \<Rightarrow> remaining_scenarios c' < remaining_scenarios c"
proof (induction uuid5 c rule: inject_all.induct)
  case (1 uuid5 c)
  show ?case
  proof (cases "remaining_scenarios c = 0")
    case True
    then show ?thesis by (simp add: inject_all.simps [of uuid5 c] remaining_scenarios_def)
  next
    case False
    note rem = inject_remaining [OF False, of uuid5]
    obtain r c1 where inj: "inject_next uuid5 c = (r, c1)" by fastforce
    show ?thesis
    proof (cases r)
      case (Inl e)
      with False inj rem(1) show ?thesis by (simp add: inject_all.simps [of uuid5 c])
    next
      case (Inr inc)
      have sc: "inc_scenario_id inc = scn_id (cd_scenarios c ! cd_next_scenario c)"
        using inject_next_scenario inj Inr by blast
      have "cd_next_scenario c < length (cd_scenarios c)"
        using False by (simp add: remaining_scenarios_def)
      then have drop: "drop (cd_next_scenario c) (cd_scenarios c) =
          cd_scenarios c ! cd_next_scenario c # drop (Suc (cd_next_scenario c)) (cd_scenarios c)"
        by (rule Cons_nth_drop_Suc [symmetric])
      from "1.IH" [OF False inj [symmetric] Inr] have IH: "case inject_all uuid5 c1 of
         (Inr incs, c') \<Rightarrow> map inc_scenario_id incs = map scn_id (drop (cd_next_scenario c1) (cd_scenarios c1)) \<and>
           remaining_scenarios c' = 0
       | (Inl e, c') \<Rightarrow> remaining_scenarios c' < remaining_scenarios c1" .
      obtain q d where q: "inject_all uuid5 c1 = (q, d)" by fastforce
      with IH rem inj Inr False sc drop show ?thesis
        by (cases q) (simp_all add: inject_all.simps [of uuid5 c])
    qed
  qed
qed

text \<open>C25. Running a new conductor until no scenario remains ends. When no injection fails it
  returns one incident per scenario of the fixture, in the order of the scheduled instants with
  ties broken by scenario id; an injection that fails has consumed at least one scenario.\<close>

theorem sim_schedule_replayed:
  "case inject_all uuid5 (new_conductor uuid5 fx families scenarios) of
     (Inr incs, c') \<Rightarrow> remaining_scenarios c' = 0 \<and>
       (\<exists>scs. mset scs = mset (fx_scenarios fx) \<and>
          sorted (map (\<lambda>s. (scn_inject_at_seconds s, scn_id s)) scs) \<and>
          map inc_scenario_id incs = map scn_id scs)
   | (Inl e, c') \<Rightarrow> remaining_scenarios c' < length (fx_scenarios fx)"
proof -
  let ?c = "new_conductor uuid5 fx families scenarios"
  let ?scs = "sort_key (\<lambda>s. (scn_inject_at_seconds s, scn_id s)) (fx_scenarios fx)"
  have c: "cd_scenarios ?c = ?scs" "cd_next_scenario ?c = 0" by (simp_all add: new_conductor_def)
  then have "remaining_scenarios ?c = length (fx_scenarios fx)" by (simp add: remaining_scenarios_def)
  with inject_all_scenarios [of ?c uuid5] c show ?thesis
    by (auto split: prod.splits sum.splits intro!: exI [of _ ?scs])
qed

end
