(* ===== verification/Cons_Contracts.thy ===== *)
theory Cons_Contracts
  imports Prelude
begin

text \<open>
  The messages of the consolidation pipeline
  (\<^verbatim>\<open>consolidation/postmortem_consolidation/contracts.py\<close>): the change event of one episodic
  row, the closed window of a resolved timestamp, their parsing from the changefeed webhook and from
  the queue, the episode group of one incident and the runbook candidate distilled from it.

  The text conversions of the Python library the source calls (ISO-8601 instants, decimals, JSON,
  SHA-256 and the rendering of floats and containers) are the fields of \<open>textlib\<close>, an argument of
  the functions that use them. Instants are microseconds since the epoch in UTC.
\<close>

datatype cons_error = ValueError string | TypeError string | KeyError string | IndexError string
  | AttributeError string | RuntimeError string | InvalidOperation | OverflowError | StopIteration
  | ServiceFault "string option"

text \<open>\<open>Finite c e\<close> is \<open>c * 10 ^ e\<close>: equal numbers with different exponents print differently.\<close>

datatype decimal = Finite int int | Infinite bool | NotANumber

definition rat_pow10 :: "int \<Rightarrow> rat" where
  "rat_pow10 e = (if 0 \<le> e then 10 ^ nat e else 1 / 10 ^ nat (- e))"

text \<open>Numbers in their order; the flag of an infinity says it is the negative one.\<close>

fun dec_rank :: "decimal \<Rightarrow> int \<times> rat" where
  "dec_rank (Finite c e) = (0, of_int c * rat_pow10 e)"
| "dec_rank (Infinite neg) = ((if neg then - 1 else 1), 0)"
| "dec_rank NotANumber = (2, 0)"

text \<open>\<open>a <= b\<close>; an ordering comparison with a NaN raises \<open>InvalidOperation\<close>.\<close>

definition dec_le :: "decimal \<Rightarrow> decimal \<Rightarrow> cons_error + bool" where
  "dec_le a b = (if a = NotANumber \<or> b = NotANumber then Inl InvalidOperation
     else Inr (dec_rank a \<le> dec_rank b))"

text \<open>\<open>int(value)\<close>, truncated towards zero.\<close>

fun dec_int :: "decimal \<Rightarrow> cons_error + int" where
  "dec_int (Finite c e) = Inr (let q = of_int c * rat_pow10 e in if 0 \<le> q then \<lfloor>q\<rfloor> else \<lceil>q\<rceil>)"
| "dec_int (Infinite _) = Inl OverflowError"
| "dec_int NotANumber = Inl (ValueError ''cannot convert NaN to integer'')"

record textlib =
  lib_iso :: "string \<Rightarrow> (int \<times> int option) option"
  lib_iso_text :: "int \<Rightarrow> string"
  lib_decimal :: "string \<Rightarrow> decimal option"
  lib_decimal_text :: "decimal \<Rightarrow> string"
  lib_json :: "string \<Rightarrow> pyval option"
  lib_json_text :: "pyval \<Rightarrow> string"
  lib_sha256 :: "string \<Rightarrow> string"
  lib_render :: "pyval \<Rightarrow> string"

section \<open>Fields\<close>

text \<open>\<open>datetime.fromisoformat\<close> gives a wall clock and an optional offset; none means UTC.\<close>

definition parse_timestamp :: "textlib \<Rightarrow> pyval \<Rightarrow> string \<Rightarrow> cons_error + int" where
  "parse_timestamp lib v name = (case v of
     PStr s \<Rightarrow> bindE (checkE (s \<noteq> []) (ValueError (name @ '' must be a non-empty ISO-8601 string''))) (\<lambda>_.
       bindE (needE (ValueError ''Invalid isoformat string'')
         (lib_iso lib (str_replace (CHR ''Z'') ''+00:00'' s))) (\<lambda>(wall, offset).
       Inr (case offset of None \<Rightarrow> wall | Some d \<Rightarrow> wall - d)))
   | _ \<Rightarrow> Inl (ValueError (name @ '' must be a non-empty ISO-8601 string'')))"

definition wall_time_ns :: "int \<Rightarrow> int" where
  "wall_time_ns us = us * 1000"

definition parse_change_timestamp :: "textlib \<Rightarrow> pyval \<Rightarrow> string \<Rightarrow> cons_error + decimal" where
  "parse_change_timestamp lib v name = (case v of
     PStr s \<Rightarrow> bindE (checkE (s \<noteq> []) (ValueError (name @ '' must be a CockroachDB HLC or ISO-8601 string'')))
       (\<lambda>_. case lib_decimal lib s of
          Some d \<Rightarrow> Inr d
        | None \<Rightarrow> bindE (parse_timestamp lib v name) (\<lambda>us. Inr (Finite (wall_time_ns us) 0)))
   | _ \<Rightarrow> Inl (ValueError (name @ '' must be a CockroachDB HLC or ISO-8601 string'')))"

definition change_timestamp_datetime :: "decimal \<Rightarrow> cons_error + int" where
  "change_timestamp_datetime d = bindE (dec_int d) (\<lambda>ns.
     let seconds = ns div 1000000000; remainder_ns = ns mod 1000000000 in
     Inr (seconds * 1000000 + remainder_ns div 1000))"

definition required_text :: "pyval \<Rightarrow> string \<Rightarrow> cons_error + string" where
  "required_text v name = (case v of
     PStr s \<Rightarrow> if str_strip s = [] then Inl (ValueError (name @ '' must be a non-empty string''))
       else Inr (str_strip s)
   | _ \<Rightarrow> Inl (ValueError (name @ '' must be a non-empty string'')))"

text \<open>\<open>a or b\<close>\<close>

definition py_or :: "pyval \<Rightarrow> pyval \<Rightarrow> pyval" where
  "py_or a b = (if py_truthy a then a else b)"

section \<open>Change events\<close>

record change_event =
  ev_event_id :: string
  ev_org_id :: string
  ev_agent_id :: string
  ev_incident_id :: string
  ev_service_id :: string
  ev_event_type :: string
  ev_content :: string
  ev_occurred_at :: int
  ev_updated_at :: decimal
  ev_metadata :: "(string \<times> pyval) list"

text \<open>\<open>metadata\<close> of a changed row: an object, or the JSON text of one.\<close>

definition row_metadata :: "textlib \<Rightarrow> pyval \<Rightarrow> cons_error + (string \<times> pyval) list" where
  "row_metadata lib v =
     bindE (case py_or v (PDict []) of
         PStr s \<Rightarrow> needE (ValueError ''invalid JSON'') (lib_json lib s)
       | m \<Rightarrow> Inr m) (\<lambda>m.
     case m of PDict d \<Rightarrow> Inr d | _ \<Rightarrow> Inl (ValueError ''after.metadata must be an object''))"

definition change_event_from_changefeed ::
  "textlib \<Rightarrow> (string \<times> pyval) list \<Rightarrow> cons_error + change_event" where
  "change_event_from_changefeed lib envelope = (case pget envelope ''after'' of
     PDict aft \<Rightarrow>
       bindE (row_metadata lib (pget aft ''metadata'')) (\<lambda>metadata.
       bindE (required_text (pget aft ''event_id'') ''after.event_id'') (\<lambda>event_id.
       bindE (required_text (pget aft ''org_id'') ''after.org_id'') (\<lambda>org_id.
       bindE (required_text (pget aft ''agent_id'') ''after.agent_id'') (\<lambda>agent_id.
       bindE (required_text (pget aft ''incident_id'') ''after.incident_id'') (\<lambda>incident_id.
       bindE (required_text (pget aft ''service_id'') ''after.service_id'') (\<lambda>service_id.
       bindE (required_text (pget aft ''event_type'') ''after.event_type'') (\<lambda>event_type.
       bindE (parse_timestamp lib (pget aft ''occurred_at'') ''after.occurred_at'') (\<lambda>occurred_at.
       bindE (parse_change_timestamp lib (py_or (pget envelope ''updated'') (pget aft ''created_at''))
          ''updated'') (\<lambda>updated_at.
       Inr \<lparr>ev_event_id = event_id, ev_org_id = org_id, ev_agent_id = agent_id,
         ev_incident_id = incident_id, ev_service_id = service_id, ev_event_type = event_type,
         ev_content = py_str (lib_render lib) (py_or (pget aft ''content'') (PStr [])),
         ev_occurred_at = occurred_at, ev_updated_at = updated_at, ev_metadata = metadata\<rparr>)))))))))
   | _ \<Rightarrow> Inl (ValueError (''changefeed row must include an object-valued '' @ [CHR 0x27] @ ''after'' @ [CHR 0x27])))"

definition event_deduplication_id :: "textlib \<Rightarrow> change_event \<Rightarrow> string" where
  "event_deduplication_id lib e =
     lib_sha256 lib (''row:'' @ ev_event_id e @ '':'' @ lib_decimal_text lib (ev_updated_at e))"

definition event_to_dict :: "textlib \<Rightarrow> change_event \<Rightarrow> (string \<times> pyval) list" where
  "event_to_dict lib e =
     [(''event_id'', PStr (ev_event_id e)), (''org_id'', PStr (ev_org_id e)),
      (''agent_id'', PStr (ev_agent_id e)), (''incident_id'', PStr (ev_incident_id e)),
      (''service_id'', PStr (ev_service_id e)), (''event_type'', PStr (ev_event_type e)),
      (''content'', PStr (ev_content e)), (''occurred_at'', PStr (lib_iso_text lib (ev_occurred_at e))),
      (''updated_at'', PStr (lib_decimal_text lib (ev_updated_at e))),
      (''metadata'', PDict (ev_metadata e)), (''kind'', PStr ''row'')]"

text \<open>\<open>dict(v or {})\<close>; a sequence of pairs, which the queue never carries, is refused here.\<close>

definition stored_metadata :: "pyval \<Rightarrow> cons_error + (string \<times> pyval) list" where
  "stored_metadata v = (case py_or v (PDict []) of PDict d \<Rightarrow> Inr d
     | _ \<Rightarrow> Inl (TypeError ''metadata is not an object''))"

definition event_from_dict :: "textlib \<Rightarrow> (string \<times> pyval) list \<Rightarrow> cons_error + change_event" where
  "event_from_dict lib value =
     bindE (required_text (pget value ''event_id'') ''event_id'') (\<lambda>event_id.
     bindE (required_text (pget value ''org_id'') ''org_id'') (\<lambda>org_id.
     bindE (required_text (pget value ''agent_id'') ''agent_id'') (\<lambda>agent_id.
     bindE (required_text (pget value ''incident_id'') ''incident_id'') (\<lambda>incident_id.
     bindE (required_text (pget value ''service_id'') ''service_id'') (\<lambda>service_id.
     bindE (required_text (pget value ''event_type'') ''event_type'') (\<lambda>event_type.
     bindE (parse_timestamp lib (pget value ''occurred_at'') ''occurred_at'') (\<lambda>occurred_at.
     bindE (parse_change_timestamp lib (pget value ''updated_at'') ''updated_at'') (\<lambda>updated_at.
     bindE (stored_metadata (pget value ''metadata'')) (\<lambda>metadata.
     Inr \<lparr>ev_event_id = event_id, ev_org_id = org_id, ev_agent_id = agent_id,
       ev_incident_id = incident_id, ev_service_id = service_id, ev_event_type = event_type,
       ev_content = py_str (lib_render lib) (py_or (pget value ''content'') (PStr [])),
       ev_occurred_at = occurred_at, ev_updated_at = updated_at, ev_metadata = metadata\<rparr>)))))))))"

section \<open>Closed windows and queue messages\<close>

record closed_window = cw_watermark :: decimal

definition window_from_changefeed ::
  "textlib \<Rightarrow> (string \<times> pyval) list \<Rightarrow> cons_error + closed_window" where
  "window_from_changefeed lib envelope =
     bindE (parse_change_timestamp lib (pget envelope ''resolved'') ''resolved'') (\<lambda>w. Inr \<lparr>cw_watermark = w\<rparr>)"

definition window_deduplication_id :: "textlib \<Rightarrow> closed_window \<Rightarrow> string" where
  "window_deduplication_id lib w = lib_sha256 lib (''window:'' @ lib_decimal_text lib (cw_watermark w))"

definition window_to_dict :: "textlib \<Rightarrow> closed_window \<Rightarrow> (string \<times> pyval) list" where
  "window_to_dict lib w = [(''kind'', PStr ''window_closed''),
     (''watermark'', PStr (lib_decimal_text lib (cw_watermark w)))]"

definition window_from_dict :: "textlib \<Rightarrow> (string \<times> pyval) list \<Rightarrow> cons_error + closed_window" where
  "window_from_dict lib value =
     bindE (parse_change_timestamp lib (pget value ''watermark'') ''watermark'') (\<lambda>w. Inr \<lparr>cw_watermark = w\<rparr>)"

datatype queue_message = Row change_event | Window closed_window

fun deduplication_id :: "textlib \<Rightarrow> queue_message \<Rightarrow> string" where
  "deduplication_id lib (Row e) = event_deduplication_id lib e"
| "deduplication_id lib (Window w) = window_deduplication_id lib w"

fun message_to_dict :: "textlib \<Rightarrow> queue_message \<Rightarrow> (string \<times> pyval) list" where
  "message_to_dict lib (Row e) = event_to_dict lib e"
| "message_to_dict lib (Window w) = window_to_dict lib w"

text \<open>One item of a changefeed payload: a tombstone gives no message.\<close>

definition parse_changefeed_item :: "textlib \<Rightarrow> pyval \<Rightarrow> cons_error + queue_message list" where
  "parse_changefeed_item lib raw = (case raw of
     PDict d \<Rightarrow>
       if pget d ''resolved'' \<noteq> PNone then bindE (window_from_changefeed lib d) (\<lambda>w. Inr [Window w])
       else if pget d ''after'' \<noteq> PNone then bindE (change_event_from_changefeed lib d) (\<lambda>e. Inr [Row e])
       else Inr []
   | _ \<Rightarrow> Inl (ValueError ''each changefeed payload item must be an object''))"

definition parse_changefeed_body :: "textlib \<Rightarrow> pyval \<Rightarrow> cons_error + queue_message list" where
  "parse_changefeed_body lib value = (case value of
     PDict d \<Rightarrow> (case dict_get d ''payload'' value of
         PDict i \<Rightarrow> bindE (mapE (parse_changefeed_item lib) [PDict i]) (\<lambda>ms. Inr (concat ms))
       | PList items \<Rightarrow> bindE (mapE (parse_changefeed_item lib) items) (\<lambda>ms. Inr (concat ms))
       | PTuple items \<Rightarrow> bindE (mapE (parse_changefeed_item lib) items) (\<lambda>ms. Inr (concat ms))
       | _ \<Rightarrow> Inl (ValueError ''changefeed payload must be an object or array''))
   | _ \<Rightarrow> Inl (ValueError ''changefeed request body must be a JSON object''))"

definition parse_queue_message :: "textlib \<Rightarrow> (string \<times> pyval) list \<Rightarrow> cons_error + queue_message" where
  "parse_queue_message lib value =
     (if pget value ''kind'' = PStr ''row'' then bindE (event_from_dict lib value) (\<lambda>e. Inr (Row e))
      else if pget value ''kind'' = PStr ''window_closed''
      then bindE (window_from_dict lib value) (\<lambda>w. Inr (Window w))
      else Inl (ValueError ''unsupported queue message kind''))"

section \<open>Groups and candidates\<close>

datatype runbook_outcome = Success | Failed | No_effect

record episode_group =
  grp_org_id :: string
  grp_agent_id :: string
  grp_incident_id :: string
  grp_service_id :: string
  grp_episodes :: "change_event list"
  grp_outcome :: runbook_outcome

definition idempotency_key :: "textlib \<Rightarrow> episode_group \<Rightarrow> string" where
  "idempotency_key lib g = lib_sha256 lib (grp_org_id g @ '':'' @ grp_incident_id g @ '':'' @
     str_join ''|'' (sort (map ev_event_id (grp_episodes g))))"

type_synonym json_object = "(string \<times> pyval) list"

record candidate =
  cand_org_id :: string
  cand_agent_id :: string
  cand_incident_id :: string
  cand_service_id :: string
  cand_name :: string
  cand_trigger_desc :: string
  cand_steps :: "json_object list"
  cand_preconditions :: "json_object list"
  cand_postconditions :: "json_object list"
  cand_service_tags :: "string list"
  cand_error_signatures :: "string list"
  cand_outcome :: runbook_outcome
  cand_source_event_ids :: "string list"
  cand_embedding :: "real list"

definition steps_hash :: "textlib \<Rightarrow> candidate \<Rightarrow> string" where
  "steps_hash lib c = lib_sha256 lib (lib_json_text lib (PTuple (map PDict (cand_steps c))))"

record model_result =
  mr_candidate :: candidate
  mr_model_id :: string
  mr_prompt :: string
  mr_raw_response :: string

section \<open>The wire format\<close>

text \<open>
  What the code relies on of the library's text conversions: an instant printed by
  \<open>isoformat()\<close> reads back as itself, with the UTC offset and no \<open>Z\<close>; a decimal printed by
  \<open>str\<close> reads back as itself; neither prints as the empty text.
\<close>

definition text_roundtrip :: "textlib \<Rightarrow> bool" where
  "text_roundtrip lib \<longleftrightarrow>
     (\<forall>t. lib_iso lib (lib_iso_text lib t) = Some (t, Some 0) \<and> lib_iso_text lib t \<noteq> [] \<and>
        CHR ''Z'' \<notin> set (lib_iso_text lib t)) \<and>
     (\<forall>d. lib_decimal lib (lib_decimal_text lib d) = Some d \<and> lib_decimal_text lib d \<noteq> [])"

text \<open>What parsing guarantees of an event: trimmed, non-empty identifiers.\<close>

definition proper_text :: "string \<Rightarrow> bool" where
  "proper_text s \<longleftrightarrow> s \<noteq> [] \<and> trimmed s"

definition proper_event :: "change_event \<Rightarrow> bool" where
  "proper_event e \<longleftrightarrow> list_all proper_text [ev_event_id e, ev_org_id e, ev_agent_id e,
     ev_incident_id e, ev_service_id e, ev_event_type e]"

lemma required_text_proper: "required_text v n = Inr s \<Longrightarrow> proper_text s"
  by (auto simp: required_text_def proper_text_def split: pyval.splits if_splits)

lemma required_text_PStr: "proper_text s \<Longrightarrow> required_text (PStr s) n = Inr s"
  by (simp add: required_text_def proper_text_def str_strip_trimmed)

lemma changefeed_event_proper: "change_event_from_changefeed lib env = Inr e \<Longrightarrow> proper_event e"
  by (auto simp: change_event_from_changefeed_def proper_event_def dest: required_text_proper
      split: pyval.splits)

lemma parse_timestamp_text: "text_roundtrip lib \<Longrightarrow> parse_timestamp lib (PStr (lib_iso_text lib t)) n = Inr t"
  by (simp add: text_roundtrip_def parse_timestamp_def str_replace_id)

lemma parse_change_timestamp_text:
  "text_roundtrip lib \<Longrightarrow> parse_change_timestamp lib (PStr (lib_decimal_text lib d)) n = Inr d"
  by (simp add: text_roundtrip_def parse_change_timestamp_def)

lemma event_roundtrip:
  assumes "text_roundtrip lib" and "proper_event e"
  shows "event_from_dict lib (event_to_dict lib e) = Inr e"
  using assms
  by (auto simp: event_from_dict_def event_to_dict_def pget_def dict_get_def proper_event_def
      required_text_PStr parse_timestamp_text parse_change_timestamp_text stored_metadata_def py_or_def)

lemma message_roundtrip:
  assumes "text_roundtrip lib" and "case m of Row e \<Rightarrow> proper_event e | Window w \<Rightarrow> True"
  shows "parse_queue_message lib (message_to_dict lib m) = Inr m"
proof (cases m)
  case (Row e)
  have "pget (event_to_dict lib e) ''kind'' = PStr ''row''"
    by (simp add: event_to_dict_def pget_def dict_get_def)
  with Row assms show ?thesis by (simp add: parse_queue_message_def event_roundtrip)
next
  case (Window w)
  then show ?thesis using assms(1)
    by (simp add: parse_queue_message_def window_to_dict_def pget_def dict_get_def
        window_from_dict_def parse_change_timestamp_text)
qed

lemma changefeed_proper:
  assumes "parse_changefeed_body lib v = Inr ms" and "Row e \<in> set ms"
  shows "proper_event e"
proof -
  have item: "Row e \<in> set m \<Longrightarrow> parse_changefeed_item lib raw = Inr m \<Longrightarrow> proper_event e" for raw m
    by (auto simp: parse_changefeed_item_def dest: changefeed_event_proper split: pyval.splits if_splits)
  have "proper_event e" if "mapE (parse_changefeed_item lib) items = Inr mss" "ms = concat mss" for items mss
    using that assms(2) item by (auto dest!: mapE_Inr_set)
  then show ?thesis using assms(1)
    by (auto simp: parse_changefeed_body_def simp del: mapE.simps split: pyval.splits)
qed

end
