(* ===== verification/Cons_Grouping.thy ===== *)
theory Cons_Grouping
  imports Cons_Contracts "HOL-Library.Multiset"
begin

text \<open>
  Episode grouping (\<^verbatim>\<open>consolidation/postmortem_consolidation/grouping.py\<close>): events are
  collected per organisation and incident in a dictionary, histories with a terminal outcome become
  groups, the others stay buffered. \<open>group_completed_incidents\<close> is the code's loop;
  \<open>group_spec\<close> says what it computes, and the two are shown equal.
\<close>

definition outcome_word :: "textlib \<Rightarrow> change_event \<Rightarrow> string" where
  "outcome_word lib e = str_lower (py_str (lib_render lib) (dict_get (ev_metadata e) ''outcome'' (PStr [])))"

definition outcome_for :: "textlib \<Rightarrow> change_event list \<Rightarrow> runbook_outcome option" where
  "outcome_for lib events = (case filter (\<lambda>e. ev_event_type e = ''outcome'') events of
     [] \<Rightarrow> None
   | outcomes \<Rightarrow> (let value = outcome_word lib (last outcomes) in
       if value \<in> {''success'', ''resolved''} then Some Success
       else if value \<in> {''failed'', ''failure''} then Some Failed
       else if value \<in> {''no_effect'', ''no-effect''} then Some No_effect
       else None))"

definition incident_key :: "change_event \<Rightarrow> string \<times> string" where
  "incident_key e = (ev_org_id e, ev_incident_id e)"

definition add_to_group ::
  "(string \<times> string, change_event list) dict \<Rightarrow> change_event \<Rightarrow> (string \<times> string, change_event list) dict" where
  "add_to_group d e = AList.update (incident_key e) (dict_get d (incident_key e) [] @ [e]) d"

definition in_order :: "change_event list \<Rightarrow> change_event list" where
  "in_order = sort_key (\<lambda>e. (ev_occurred_at e, ev_event_id e))"

definition group_of_history :: "textlib \<Rightarrow> change_event list \<Rightarrow> episode_group option" where
  "group_of_history lib incident_events = (let ordered = in_order incident_events in
     case outcome_for lib ordered of
       None \<Rightarrow> None
     | Some outcome \<Rightarrow> (let first = hd ordered in Some
         \<lparr>grp_org_id = ev_org_id first, grp_agent_id = ev_agent_id first,
          grp_incident_id = ev_incident_id first, grp_service_id = ev_service_id first,
          grp_episodes = ordered, grp_outcome = outcome\<rparr>))"

text \<open>The keys of the dictionary are distinct, so sorting the items is sorting by key.\<close>

definition group_completed_incidents :: "textlib \<Rightarrow> change_event list \<Rightarrow> episode_group list" where
  "group_completed_incidents lib events =
     (let grouped = foldl add_to_group [] events in
      List.map_filter (\<lambda>(_, es). group_of_history lib es) (sort_key fst grouped))"

section \<open>What grouping computes\<close>

definition events_of :: "change_event list \<Rightarrow> string \<times> string \<Rightarrow> change_event list" where
  "events_of events k = filter (\<lambda>e. incident_key e = k) events"

definition group_spec :: "textlib \<Rightarrow> change_event list \<Rightarrow> episode_group list" where
  "group_spec lib events = List.map_filter (\<lambda>k. group_of_history lib (events_of events k))
     (sorted_list_of_set (incident_key ` set events))"

lemma grouped_dict:
  "(\<forall>k. map_of (foldl add_to_group [] events) k =
      (if k \<in> incident_key ` set events then Some (events_of events k) else None)) \<and>
   distinct (map fst (foldl add_to_group [] events)) \<and>
   set (map fst (foldl add_to_group [] events)) = incident_key ` set events"
proof (induction events rule: rev_induct)
  case Nil
  then show ?case by simp
next
  case (snoc e events)
  let ?d = "foldl add_to_group [] events"
  have get: "dict_get ?d (incident_key e) [] = events_of events (incident_key e)"
  proof -
    have m: "map_of ?d (incident_key e) = (if incident_key e \<in> incident_key ` set events
        then Some (events_of events (incident_key e)) else None)" using snoc by blast
    have "events_of events k = []" if "k \<notin> incident_key ` set events" for k
      using that by (force simp: events_of_def filter_empty_conv)
    then show ?thesis by (simp only: dict_get_def m split: if_split) simp
  qed
  have step: "foldl add_to_group [] (events @ [e]) =
      AList.update (incident_key e) (events_of events (incident_key e) @ [e]) ?d"
    by (simp add: add_to_group_def [of ?d e] get)
  have hist: "events_of (events @ [e]) k = events_of events k @ (if incident_key e = k then [e] else [])" for k
    by (simp add: events_of_def)
  have maps: "map_of ?d k = (if k \<in> incident_key ` set events then Some (events_of events k) else None)" for k
    using snoc by blast
  have "map_of (foldl add_to_group [] (events @ [e])) k =
      (if k \<in> incident_key ` set (events @ [e]) then Some (events_of (events @ [e]) k) else None)" for k
    unfolding step map_of_update maps hist by (cases "incident_key e = k") auto
  moreover have "distinct (map fst (foldl add_to_group [] (events @ [e])))"
    unfolding step using snoc by (intro distinct_update) simp
  moreover have "set (map fst (foldl add_to_group [] (events @ [e]))) = incident_key ` set (events @ [e])"
    unfolding step using snoc dom_update [of "incident_key e" "events_of events (incident_key e) @ [e]" ?d] by simp
  ultimately show ?case by blast
qed

lemma sort_key_fst_map:
  "map fst (sort_key fst d) = sort (map fst d)" for d :: "('k::linorder \<times> 'v) list"
  by (rule properties_for_sort [symmetric]) simp_all

lemma map_filter_of_map:
  "List.map_filter f xs = List.map_filter (\<lambda>k. g k) (map h xs)"
  if "\<And>x. x \<in> set xs \<Longrightarrow> f x = g (h x)"
  using that by (induction xs) (auto simp: List.map_filter_def)

lemma group_completed_spec: "group_completed_incidents lib events = group_spec lib events"
proof -
  let ?d = "foldl add_to_group [] events"
  note d = grouped_dict [of events]
  have "List.map_filter (\<lambda>(_, es). group_of_history lib es) (sort_key fst ?d) =
    List.map_filter (\<lambda>k. group_of_history lib (events_of events k)) (map fst (sort_key fst ?d))"
  proof (rule map_filter_of_map)
    fix x assume "x \<in> set (sort_key fst ?d)"
    then have "map_of ?d (fst x) = Some (snd x)" using d by simp
    moreover have "map_of ?d (fst x) = (if fst x \<in> incident_key ` set events
        then Some (events_of events (fst x)) else None)" using d by blast
    ultimately have "snd x = events_of events (fst x)" by (simp split: if_splits)
    then show "(case x of (_, es) \<Rightarrow> group_of_history lib es) =
        group_of_history lib (events_of events (fst x))" by (simp add: case_prod_beta)
  qed
  moreover have "map fst (sort_key fst ?d) = sorted_list_of_set (incident_key ` set events)"
    using d by (metis sort_key_fst_map sorted_list_of_set_sort_remdups distinct_remdups_id)
  ultimately show ?thesis by (simp add: group_completed_incidents_def group_spec_def)
qed

section \<open>The groups\<close>

lemma in_order_props [simp]:
  "mset (in_order es) = mset es" "set (in_order es) = set es"
  "sorted (map (\<lambda>e. (ev_occurred_at e, ev_event_id e)) (in_order es))"
  by (simp_all add: in_order_def)

lemma outcome_for_nonempty: "outcome_for lib es = Some r \<Longrightarrow> es \<noteq> []"
  by (auto simp: outcome_for_def)

lemma group_of_history_props:
  assumes "group_of_history lib (events_of events k) = Some g"
  shows "(grp_org_id g, grp_incident_id g) = k \<and> grp_episodes g = in_order (events_of events k) \<and>
    outcome_for lib (grp_episodes g) = Some (grp_outcome g) \<and> grp_episodes g \<noteq> [] \<and>
    grp_agent_id g = ev_agent_id (hd (grp_episodes g)) \<and> grp_service_id g = ev_service_id (hd (grp_episodes g))"
proof -
  from assms obtain r where r: "outcome_for lib (in_order (events_of events k)) = Some r"
    and g: "g = (let first = hd (in_order (events_of events k)) in
         \<lparr>grp_org_id = ev_org_id first, grp_agent_id = ev_agent_id first,
          grp_incident_id = ev_incident_id first, grp_service_id = ev_service_id first,
          grp_episodes = in_order (events_of events k), grp_outcome = r\<rparr>)"
    by (auto simp: group_of_history_def Let_def split: option.splits)
  from outcome_for_nonempty [OF r] have "hd (in_order (events_of events k)) \<in> set (events_of events k)"
    by (metis hd_in_set in_order_props(2))
  then have "incident_key (hd (in_order (events_of events k))) = k" by (simp add: events_of_def)
  with r g outcome_for_nonempty [OF r] show ?thesis by (auto simp: Let_def incident_key_def)
qed

lemma set_map_filter: "set (List.map_filter f xs) = {y. \<exists>x \<in> set xs. f x = Some y}"
  by (force simp: List.map_filter_def)

lemma map_filter_map_Some:
  "(\<And>x y. x \<in> set xs \<Longrightarrow> f x = Some y \<Longrightarrow> g y = x) \<Longrightarrow>
   map g (List.map_filter f xs) = filter (\<lambda>x. f x \<noteq> None) xs"
  by (induction xs) (auto simp: List.map_filter_def)

text \<open>One group per completed incident, in the order of their keys.\<close>

lemma group_keys:
  "map (\<lambda>g. (grp_org_id g, grp_incident_id g)) (group_completed_incidents lib events) =
   filter (\<lambda>k. outcome_for lib (in_order (events_of events k)) \<noteq> None)
     (sorted_list_of_set (incident_key ` set events))"
proof -
  have "group_of_history lib (events_of events k) \<noteq> None \<longleftrightarrow>
      outcome_for lib (in_order (events_of events k)) \<noteq> None" for k
    by (auto simp: group_of_history_def Let_def split: option.splits)
  then show ?thesis
    unfolding group_completed_spec group_spec_def
    by (subst map_filter_map_Some) (auto dest: group_of_history_props)
qed

lemma group_member:
  assumes "g \<in> set (group_completed_incidents lib events)"
  shows "grp_episodes g = in_order (events_of events (grp_org_id g, grp_incident_id g)) \<and>
    outcome_for lib (grp_episodes g) = Some (grp_outcome g) \<and> grp_episodes g \<noteq> [] \<and>
    grp_agent_id g = ev_agent_id (hd (grp_episodes g)) \<and> grp_service_id g = ev_service_id (hd (grp_episodes g))"
  using assms unfolding group_completed_spec group_spec_def
  by (auto simp: set_map_filter dest!: group_of_history_props)

end
