(* ===== verification/Cons_Storage.thy ===== *)
theory Cons_Storage
  imports Cons_Grouping
begin

text \<open>
  The window buffer (\<^verbatim>\<open>consolidation/postmortem_consolidation/storage.py\<close>): the interface
  the pipeline relies on as the locale \<open>window_store\<close>, and the in-memory store, which provides it.
  The S3 store is in \<open>Cons_S3\<close>.
\<close>

section \<open>Interface\<close>

definition dec_key :: "change_event \<Rightarrow> (int \<times> rat) \<times> string" where
  "dec_key e = (dec_rank (ev_updated_at e), ev_event_id e)"

text \<open>Delivered by \<open>watermark\<close>: the row was changed no later.\<close>

definition delivered :: "decimal \<Rightarrow> change_event \<Rightarrow> bool" where
  "delivered watermark e \<longleftrightarrow> dec_rank (ev_updated_at e) \<le> dec_rank watermark"

text \<open>
  What a buffer promises about the events it holds: reading through a watermark changes none
  and, when it returns, gives the delivered ones in order; marking held events removes some of these and
  no other, and when it returns all but those the service may have \<open>kept\<close>; archiving
  touches none; a put adds at most its event and drops only the event it replaces. \<open>fit\<close> are the events
  the buffer can hold. Any of the operations may raise.
\<close>

locale window_store =
  fixes lib :: textlib
    and put :: "change_event \<Rightarrow> ('s, cons_error, unit) prog"
    and read_through :: "decimal \<Rightarrow> ('s, cons_error, change_event list) prog"
    and mark_processed :: "change_event list \<Rightarrow> decimal \<Rightarrow> ('s, cons_error, unit) prog"
    and archive :: "model_result \<Rightarrow> string \<Rightarrow> ('s, cons_error, unit) prog"
    and held :: "'s \<Rightarrow> change_event list"
    and ok :: "'s \<Rightarrow> bool"
    and fit :: "change_event \<Rightarrow> bool"
    and kept :: "change_event \<Rightarrow> bool"
  assumes put_ok: "ok s \<Longrightarrow> fit e \<Longrightarrow> ok (snd (put e s))"
    and put_held: "ok s \<Longrightarrow> fit e \<Longrightarrow> x \<in> set (held (snd (put e s))) \<Longrightarrow> x = e \<or> x \<in> set (held s)"
    and put_keeps: "ok s \<Longrightarrow> fit e \<Longrightarrow> x \<in> set (held s) \<Longrightarrow>
      x \<in> set (held (snd (put e s))) \<or> event_deduplication_id lib x = event_deduplication_id lib e"
    and read_ok: "ok s \<Longrightarrow> ok (snd (read_through w s))"
    and read_held: "held (snd (read_through w s)) = held s"
    and read_result: "ok s \<Longrightarrow> fst (read_through w s) = Inr es \<Longrightarrow>
      es = sort_key dec_key (filter (delivered w) (held s))"
    and mark_ok: "ok s \<Longrightarrow> ok (snd (mark_processed es w s))"
    and mark_held: "ok s \<Longrightarrow> set es \<subseteq> set (held s) \<Longrightarrow>
      \<exists>gone \<subseteq> set es. held (snd (mark_processed es w s)) = filter (\<lambda>e. e \<notin> gone) (held s)"
    and mark_removes: "ok s \<Longrightarrow> set es \<subseteq> set (held s) \<Longrightarrow> fst (mark_processed es w s) = Inr () \<Longrightarrow>
      e \<in> set es \<Longrightarrow> e \<in> set (held (snd (mark_processed es w s))) \<Longrightarrow> kept e"
    and archive_ok: "ok s \<Longrightarrow> ok (snd (archive r k s))"
    and archive_held: "held (snd (archive r k s)) = held s"
    and held_distinct: "ok s \<Longrightarrow> distinct (map (event_deduplication_id lib) (held s))"
begin

text \<open>An event stays in the buffer until it is marked or replaced by one with its identity.\<close>

lemma mark_keeps_others:
  assumes "ok s" and "x \<in> set (held s)" and "x \<notin> set es" and "set es \<subseteq> set (held s)"
  shows "x \<in> set (held (snd (mark_processed es w s)))"
  using mark_held [OF assms(1,4), of w] assms(2,3) by auto

text \<open>What a marking that returns leaves is either not marked or kept by the service.\<close>

lemma mark_exact:
  assumes "ok s" and "set es \<subseteq> set (held s)" and "mark_processed es w s = (Inr (), t)"
  obtains gone where "gone \<subseteq> set es" "held t = filter (\<lambda>e. e \<notin> gone) (held s)" "\<And>e. e \<in> set es \<Longrightarrow> e \<notin> gone \<Longrightarrow> kept e"
proof -
  obtain gone where gone: "gone \<subseteq> set es" "held t = filter (\<lambda>e. e \<notin> gone) (held s)"
    using mark_held [OF assms(1,2), of w] assms(3) by auto
  have "kept e" if "e \<in> set es" "e \<notin> gone" for e
  proof (rule mark_removes [OF assms(1,2) _ that(1)])
    show "fst (mark_processed es w s) = Inr ()" using assms(3) by simp
    show "e \<in> set (held (snd (mark_processed es w s)))" using assms(2,3) gone(2) that by auto
  qed
  with gone that show thesis by blast
qed

end

section \<open>The in-memory store\<close>

record window_store =
  ws_pending :: "(string, change_event) dict"
  ws_processed :: "string list"
  ws_archives :: "(string, model_result) dict"
  ws_watermark :: "decimal option"

definition new_window_store :: window_store where
  "new_window_store = \<lparr>ws_pending = [], ws_processed = [], ws_archives = [], ws_watermark = None\<rparr>"

definition ws_put :: "textlib \<Rightarrow> change_event \<Rightarrow> (window_store, cons_error, unit) prog" where
  "ws_put lib e = modifies (\<lambda>s. let k = event_deduplication_id lib e in
     if k \<in> set (ws_processed s) then s else s\<lparr>ws_pending := AList.update k e (ws_pending s)\<rparr>)"

text \<open>The filter compares each pending event with the watermark in turn, and may raise.\<close>

fun filterE :: "('a \<Rightarrow> 'e + bool) \<Rightarrow> 'a list \<Rightarrow> 'e + 'a list" where
  "filterE p [] = Inr []"
| "filterE p (x # xs) = bindE (p x) (\<lambda>b. bindE (filterE p xs) (\<lambda>ys. Inr (if b then x # ys else ys)))"

definition ws_read_through :: "decimal \<Rightarrow> (window_store, cons_error, change_event list) prog" where
  "ws_read_through watermark = (\<lambda>s.
     (bindE (filterE (\<lambda>e. dec_le (ev_updated_at e) watermark) (map snd (ws_pending s)))
       (\<lambda>es. Inr (sort_key dec_key es)), s))"

text \<open>\<open>max(self.watermark or watermark, watermark)\<close>; zero is false.\<close>

definition dec_truthy :: "decimal \<Rightarrow> bool" where
  "dec_truthy d \<longleftrightarrow> (case d of Finite c e \<Rightarrow> c \<noteq> 0 | _ \<Rightarrow> True)"

definition later_watermark :: "decimal option \<Rightarrow> decimal \<Rightarrow> cons_error + decimal" where
  "later_watermark old new = (let a = (case old of Some d \<Rightarrow> if dec_truthy d then d else new | None \<Rightarrow> new) in
     bindE (dec_le new a) (\<lambda>b. Inr (if b then a else new)))"

definition mark_one :: "textlib \<Rightarrow> change_event \<Rightarrow> window_store \<Rightarrow> window_store" where
  "mark_one lib e s = (let k = event_deduplication_id lib e in
     s\<lparr>ws_processed := List.insert k (ws_processed s), ws_pending := AList.delete k (ws_pending s)\<rparr>)"

definition ws_mark_processed ::
  "textlib \<Rightarrow> change_event list \<Rightarrow> decimal \<Rightarrow> (window_store, cons_error, unit) prog" where
  "ws_mark_processed lib es watermark =
     andThen (for_each es (\<lambda>e. modifies (mark_one lib e))) (\<lambda>_.
     andThen (reads ws_watermark) (\<lambda>old.
     andThen (lift_result (later_watermark old watermark)) (\<lambda>d.
     modifies (\<lambda>s. s\<lparr>ws_watermark := Some d\<rparr>))))"

definition ws_archive :: "model_result \<Rightarrow> string \<Rightarrow> (window_store, cons_error, unit) prog" where
  "ws_archive result key = modifies (\<lambda>s. s\<lparr>ws_archives := dict_setdefault key result (ws_archives s)\<rparr>)"

definition ws_ok :: "textlib \<Rightarrow> window_store \<Rightarrow> bool" where
  "ws_ok lib s \<longleftrightarrow> distinct (map fst (ws_pending s)) \<and>
     (\<forall>(k, e) \<in> set (ws_pending s). k = event_deduplication_id lib e \<and> k \<notin> set (ws_processed s))"

definition ws_held :: "window_store \<Rightarrow> change_event list" where
  "ws_held s = map snd (ws_pending s)"

lemma filterE_Inr:
  "filterE p xs = Inr ys \<Longrightarrow> (\<And>x b. x \<in> set xs \<Longrightarrow> p x = Inr b \<Longrightarrow> b = q x) \<Longrightarrow> ys = filter q xs"
  by (induction xs arbitrary: ys) (auto simp: if_distrib cong: if_cong)

lemma filterE_total:
  "(\<And>x. x \<in> set xs \<Longrightarrow> p x = Inr (q x)) \<Longrightarrow> filterE p xs = Inr (filter q xs)"
  by (induction xs) auto

lemma filterE_error: "x \<in> set xs \<Longrightarrow> p x = Inl e \<Longrightarrow> \<exists>e'. filterE p xs = Inl e'"
proof (induction xs)
  case (Cons y ys)
  show ?case
  proof (cases "p y")
    case (Inr b)
    with Cons have "x \<in> set ys" by auto
    with Cons obtain e' where "filterE p ys = Inl e'" by auto
    with Inr show ?thesis by simp
  qed simp
qed simp

lemma mark_loop:
  "foldl (\<lambda>s e. mark_one lib e s) s es =
   s\<lparr>ws_processed := foldl (\<lambda>ks e. List.insert (event_deduplication_id lib e) ks) (ws_processed s) es,
     ws_pending := filter (\<lambda>x. fst x \<notin> event_deduplication_id lib ` set es) (ws_pending s)\<rparr>"
proof (induction es arbitrary: s)
  case Nil
  then show ?case by simp
next
  case (Cons e es)
  have "filter (\<lambda>x. fst x \<notin> event_deduplication_id lib ` set es)
      (AList.delete (event_deduplication_id lib e) d) =
    filter (\<lambda>x. fst x \<notin> event_deduplication_id lib ` set (e # es)) d" for d :: "(string, change_event) dict"
    by (induction d) auto
  with Cons [of "mark_one lib e s"] show ?case by (simp add: mark_one_def [of lib e s] Let_def)
qed

lemma mark_state:
  "\<exists>w'. snd (ws_mark_processed lib es w s) =
   s\<lparr>ws_processed := foldl (\<lambda>ks e. List.insert (event_deduplication_id lib e) ks) (ws_processed s) es,
     ws_pending := filter (\<lambda>x. fst x \<notin> event_deduplication_id lib ` set es) (ws_pending s),
     ws_watermark := w'\<rparr>"
proof -
  define u where "u = foldl (\<lambda>s e. mark_one lib e s) s es"
  have run: "ws_mark_processed lib es w s = (case later_watermark (ws_watermark u) w of
      Inl e \<Rightarrow> (Inl e, u) | Inr d \<Rightarrow> (Inr (), u\<lparr>ws_watermark := Some d\<rparr>))"
    by (simp add: ws_mark_processed_def run_andThen for_each_modifies u_def run_prog run_lift_result
        split: sum.split)
  have u: "u = s\<lparr>ws_processed := foldl (\<lambda>ks e. List.insert (event_deduplication_id lib e) ks) (ws_processed s) es,
     ws_pending := filter (\<lambda>x. fst x \<notin> event_deduplication_id lib ` set es) (ws_pending s)\<rparr>"
    by (simp add: u_def mark_loop)
  show ?thesis
  proof (cases "later_watermark (ws_watermark u) w")
    case (Inl e)
    with run u show ?thesis by (intro exI [of _ "ws_watermark s"]) simp
  next
    case (Inr d)
    with run u show ?thesis by (intro exI [of _ "Some d"]) simp
  qed
qed

lemma set_insert_fold:
  "set (foldl (\<lambda>ks e. List.insert (f e) ks) ks es) = set ks \<union> f ` set es"
  by (induction es arbitrary: ks) auto

lemma ws_held_distinct: "ws_ok lib s \<Longrightarrow> distinct (map (event_deduplication_id lib) (ws_held s))"
proof -
  assume ok: "ws_ok lib s"
  then have "map (event_deduplication_id lib) (ws_held s) = map fst (ws_pending s)"
    by (auto simp: ws_held_def ws_ok_def)
  with ok show ?thesis by (simp add: ws_ok_def)
qed

lemma ws_mark_held:
  assumes "ws_ok lib s" "set es \<subseteq> set (ws_held s)"
  shows "ws_held (snd (ws_mark_processed lib es w s)) = filter (\<lambda>e. e \<notin> set es) (ws_held s)"
proof -
  have "filter (\<lambda>x. fst x \<notin> event_deduplication_id lib ` set es) (ws_pending s) =
      filter (\<lambda>x. event_deduplication_id lib (snd x) \<notin> event_deduplication_id lib ` set es) (ws_pending s)"
    using assms(1) by (intro filter_cong) (auto simp: ws_ok_def)
  with mark_state [of lib es w s] have "ws_held (snd (ws_mark_processed lib es w s)) =
      filter (\<lambda>e. event_deduplication_id lib e \<notin> event_deduplication_id lib ` set es) (ws_held s)"
    by (auto simp: ws_held_def filter_map o_def)
  moreover have "inj_on (event_deduplication_id lib) (set (ws_held s))"
    using ws_held_distinct [OF assms(1)] by (simp add: distinct_map)
  ultimately show ?thesis using inj_on_image_mem_iff [OF _ _ assms(2)] by (auto intro!: filter_cong)
qed

interpretation memory_store: window_store lib "ws_put lib" ws_read_through "ws_mark_processed lib"
  ws_archive ws_held "ws_ok lib" "\<lambda>_. True" "\<lambda>_. False" for lib
proof unfold_locales
  show "ws_ok lib (snd (ws_put lib e s))" if "ws_ok lib s" for s e
    using that set_dict_update [of "event_deduplication_id lib e" e "ws_pending s"]
    by (auto simp: ws_put_def run_prog ws_ok_def Let_def distinct_update dest!: subsetD)
  show "x = e \<or> x \<in> set (ws_held s)" if "ws_ok lib s" "x \<in> set (ws_held (snd (ws_put lib e s)))" for s e x
    using that set_dict_update [of "event_deduplication_id lib e" e "ws_pending s"]
    by (force simp: ws_put_def run_prog ws_held_def Let_def split: if_splits)
  show "x \<in> set (ws_held (snd (ws_put lib e s))) \<or>
      event_deduplication_id lib x = event_deduplication_id lib e"
    if "ws_ok lib s" "x \<in> set (ws_held s)" for s e x
  proof -
    from that(2) obtain k where "(k, x) \<in> set (ws_pending s)" by (auto simp: ws_held_def)
    with that(1) have k: "k = event_deduplication_id lib x"
      and map: "map_of (ws_pending s) k = Some x" by (auto simp: ws_ok_def)
    show ?thesis
    proof (cases "k = event_deduplication_id lib e")
      case False
      with map have "map_of (AList.update (event_deduplication_id lib e) e (ws_pending s)) k = Some x" by simp
      then have "x \<in> snd ` set (AList.update (event_deduplication_id lib e) e (ws_pending s))"
        by (metis map_of_SomeD image_eqI snd_conv)
      with that(2) show ?thesis by (auto simp: ws_put_def run_prog ws_held_def Let_def)
    qed (simp add: k)
  qed
  show "ws_ok lib (snd (ws_read_through w s))" if "ws_ok lib s" for w s using that by (simp add: ws_read_through_def)
  show "ws_held (snd (ws_read_through w s)) = ws_held s" for w s by (simp add: ws_read_through_def)
  show "es = sort_key dec_key (filter (delivered w) (ws_held s))"
    if "fst (ws_read_through w s) = Inr es" for w s es
  proof -
    from that obtain xs where "filterE (\<lambda>e. dec_le (ev_updated_at e) w) (map snd (ws_pending s)) = Inr xs"
      and es: "es = sort_key dec_key xs" by (auto simp: ws_read_through_def)
    then have "xs = filter (delivered w) (map snd (ws_pending s))"
      by (intro filterE_Inr) (auto simp: dec_le_def delivered_def split: if_splits)
    with es show ?thesis by (simp add: ws_held_def)
  qed
  show "ws_ok lib (snd (ws_mark_processed lib es w s))" if "ws_ok lib s" for s es w
    using that mark_state [of lib es w s]
    by (auto simp: ws_ok_def set_insert_fold distinct_map_filter)
  show "\<exists>gone \<subseteq> set es. ws_held (snd (ws_mark_processed lib es w s)) = filter (\<lambda>e. e \<notin> gone) (ws_held s)"
    if "ws_ok lib s" "set es \<subseteq> set (ws_held s)" for s es w
    using ws_mark_held [OF that] by blast
  show False if "ws_ok lib s" "set es \<subseteq> set (ws_held s)" "e \<in> set es" "e \<in> set (ws_held (snd (ws_mark_processed lib es w s)))"
    for s es w e
    using that(3,4) ws_mark_held [OF that(1,2)] by simp
  show "ws_ok lib (snd (ws_archive r k s))" if "ws_ok lib s" for s r k
    using that by (simp add: ws_archive_def run_prog ws_ok_def)
  show "ws_held (snd (ws_archive r k s)) = ws_held s" for s r k
    by (simp add: ws_archive_def run_prog ws_held_def)
qed (rule ws_held_distinct)

end
