(* ===== verification/Cons_Repository.thy ===== *)
theory Cons_Repository
  imports Cons_Contracts
begin

text \<open>
  Runbook writers (\<^verbatim>\<open>consolidation/postmortem_consolidation/repository.py\<close>). The life cycle of
  a runbook's versions is the relation \<open>runbook_step\<close>; \<open>runbook_repository\<close> is the interface that
  says every call of a writer is one such step on the versions of its key and none on any other.
  The in-memory writer and the SQL writer both provide it.
\<close>

datatype runbook_status = Draft | Active | Deprecated

fun status_str :: "runbook_status \<Rightarrow> string" where
  "status_str Draft = ''draft''"
| "status_str Active = ''active''"
| "status_str Deprecated = ''deprecated''"

record mutation =
  mut_operation :: string
  mut_runbook_id :: string
  mut_version :: nat
  mut_success_count :: nat
  mut_failure_count :: nat
  mut_status :: string
  mut_idempotent_replay :: bool

type_synonym runbook_name_key = "string \<times> string \<times> string"

definition key_of :: "candidate \<Rightarrow> runbook_name_key" where
  "key_of c = (cand_org_id c, cand_agent_id c, cand_name c)"

section \<open>The life cycle\<close>

text \<open>One version of a runbook; the token stands for its steps.\<close>

record 't version =
  vr_version :: nat
  vr_token :: 't
  vr_success :: nat
  vr_failure :: nat
  vr_status :: runbook_status

definition weakened :: "'t version \<Rightarrow> 't version" where
  "weakened v = v\<lparr>vr_failure := Suc (vr_failure v),
     vr_status := (if vr_success v \<le> Suc (vr_failure v) then Deprecated else vr_status v)\<rparr>"

definition reinforced :: "nat \<Rightarrow> 't version \<Rightarrow> 't version" where
  "reinforced r v = v\<lparr>vr_success := Suc (vr_success v),
     vr_status := (if vr_status v = Draft \<and> Suc r \<le> Suc (vr_success v) then Active else vr_status v)\<rparr>"

definition first_version :: "nat \<Rightarrow> 't \<Rightarrow> 't version" where
  "first_version n t = \<lparr>vr_version = n, vr_token = t, vr_success = 1, vr_failure = 0, vr_status = Draft\<rparr>"

inductive runbook_step ::
  "nat \<Rightarrow> ('t \<Rightarrow> candidate \<Rightarrow> bool) \<Rightarrow> candidate \<Rightarrow> 't version list \<Rightarrow> 't version list \<Rightarrow> bool"
  for r same c where
  unchanged: "runbook_step r same c vs vs"
| weaken: "cand_outcome c \<noteq> Success \<Longrightarrow> runbook_step r same c (vs @ [v]) (vs @ [weakened v])"
| reinforce: "cand_outcome c = Success \<Longrightarrow> same (vr_token v) c \<Longrightarrow>
    runbook_step r same c (vs @ [v]) (vs @ [reinforced r v])"
| create: "cand_outcome c = Success \<Longrightarrow> runbook_step r same c [] [first_version 1 t]"
| supersede: "cand_outcome c = Success \<Longrightarrow> \<not> same (vr_token v) c \<Longrightarrow>
    v' = v \<or> v' = v\<lparr>vr_status := Deprecated\<rparr> \<Longrightarrow>
    runbook_step r same c (vs @ [v]) (vs @ [v', first_version (Suc (vr_version v)) t])"

inductive_cases runbook_stepE: "runbook_step r same c vs vs'"

text \<open>
  What every version list satisfies: numbered from 1, each version has at least one success, a
  version that is not deprecated has more successes than failures, an active one has more than
  \<open>r\<close> successes.
\<close>

definition sound_version :: "nat \<Rightarrow> 't version \<Rightarrow> bool" where
  "sound_version r v \<longleftrightarrow> 0 < vr_success v \<and> (vr_status v \<noteq> Deprecated \<longrightarrow> vr_failure v < vr_success v) \<and>
     (vr_status v = Active \<longrightarrow> r < vr_success v)"

definition sound_versions :: "nat \<Rightarrow> 't version list \<Rightarrow> bool" where
  "sound_versions r vs \<longleftrightarrow> map vr_version vs = [1..<Suc (length vs)] \<and> list_all (sound_version r) vs"

lemma sound_step:
  assumes "runbook_step r same c vs vs'" and "sound_versions r vs"
  shows "sound_versions r vs'"
  using assms
proof (cases rule: runbook_step.cases)
  case (weaken us v)
  then show ?thesis using assms(2)
    by (auto simp: sound_versions_def sound_version_def weakened_def)
next
  case (reinforce v us)
  then show ?thesis using assms(2)
    by (auto simp: sound_versions_def sound_version_def reinforced_def)
next
  case (supersede v v' us t)
  then have num: "map vr_version us @ [vr_version v] = [1..<Suc (Suc (length us))]"
    and all: "list_all (sound_version r) us" "sound_version r v"
    using assms(2) by (auto simp: sound_versions_def)
  from num have "vr_version v = Suc (length us)" "map vr_version us = [1..<Suc (length us)]"
    by (simp_all add: upt_Suc_append)
  with supersede all show ?thesis
    by (auto simp: sound_versions_def sound_version_def first_version_def upt_Suc_append)
qed (auto simp: sound_versions_def sound_version_def first_version_def)

text \<open>How one version may change: counts grow, deprecation is final, the number and steps stay.\<close>

definition version_le :: "'t version \<Rightarrow> 't version \<Rightarrow> bool" where
  "version_le v w \<longleftrightarrow> vr_version w = vr_version v \<and> vr_token w = vr_token v \<and>
     vr_success v \<le> vr_success w \<and> vr_failure v \<le> vr_failure w \<and>
     (vr_status v = Deprecated \<longrightarrow> vr_status w = Deprecated) \<and> (vr_status v = Active \<longrightarrow> vr_status w \<noteq> Draft)"

definition versions_le :: "'t version list \<Rightarrow> 't version list \<Rightarrow> bool" where
  "versions_le vs ws \<longleftrightarrow> length vs \<le> length ws \<and> (\<forall>i < length vs. version_le (vs ! i) (ws ! i))"

lemma versions_le_refl: "versions_le vs vs"
  by (simp add: versions_le_def version_le_def)

lemma version_le_trans: "version_le u v \<Longrightarrow> version_le v w \<Longrightarrow> version_le u w"
  by (cases "vr_status v") (auto simp: version_le_def)

lemma versions_le_trans: "versions_le us vs \<Longrightarrow> versions_le vs ws \<Longrightarrow> versions_le us ws"
  unfolding versions_le_def by (meson le_trans less_le_trans version_le_trans)

lemma versions_le_last: "version_le v w \<Longrightarrow> versions_le (vs @ [v]) (vs @ w # ws)"
  by (auto simp: versions_le_def version_le_def nth_append less_Suc_eq)

lemma versions_le_step: "runbook_step r same c vs vs' \<Longrightarrow> versions_le vs vs'"
  by (erule runbook_stepE)
     (auto intro!: versions_le_refl versions_le_last
       simp: versions_le_def [of "[]"] version_le_def weakened_def reinforced_def)

lemma failed_step: "runbook_step r same c vs vs' \<Longrightarrow> cand_outcome c \<noteq> Success \<Longrightarrow>
    length vs' = length vs \<and> map vr_token vs' = map vr_token vs"
  by (erule runbook_stepE) (auto simp: weakened_def)

section \<open>Interface\<close>

locale runbook_repository =
  fixes put_runbook :: "candidate \<Rightarrow> string \<Rightarrow> ('s, cons_error, mutation) prog"
    and versions :: "'s \<Rightarrow> runbook_name_key \<Rightarrow> 't version list"
    and same :: "'t \<Rightarrow> candidate \<Rightarrow> bool"
    and ok :: "'s \<Rightarrow> bool"
    and r :: nat
  assumes put_ok: "ok s \<Longrightarrow> ok (snd (put_runbook c k s))"
    and put_step: "ok s \<Longrightarrow> runbook_step r same c (versions s (key_of c))
      (versions (snd (put_runbook c k s)) (key_of c))"
    and put_frame: "ok s \<Longrightarrow> key \<noteq> key_of c \<Longrightarrow> versions (snd (put_runbook c k s)) key = versions s key"
begin

text \<open>A run of writes, each returning or raising.\<close>

fun put_all :: "(candidate \<times> string) list \<Rightarrow> 's \<Rightarrow> 's" where
  "put_all [] s = s"
| "put_all ((c, k) # cs) s = put_all cs (snd (put_runbook c k s))"

lemma put_any: "ok s \<Longrightarrow> \<exists>c'. runbook_step r same c' (versions s key) (versions (snd (put_runbook c k s)) key)"
  by (cases "key = key_of c") (auto intro: put_step runbook_step.unchanged simp: put_frame)

lemma put_all_ok: "ok s \<Longrightarrow> ok (put_all cs s)"
  by (induction cs s rule: put_all.induct) (simp_all add: put_ok)

lemma put_all_sound: "ok s \<Longrightarrow> sound_versions r (versions s key) \<Longrightarrow> sound_versions r (versions (put_all cs s) key)"
proof (induction cs s rule: put_all.induct)
  case (2 c k cs s)
  from put_any [OF 2(2), of key c k] have "sound_versions r (versions (snd (put_runbook c k s)) key)"
    using 2(3) by (auto intro: sound_step)
  with 2 show ?case by (simp add: put_ok)
qed simp

lemma put_all_le: "ok s \<Longrightarrow> versions_le (versions s key) (versions (put_all cs s) key)"
proof (induction cs s rule: put_all.induct)
  case (2 c k cs s)
  from put_any [OF 2(2), of key c k] have "versions_le (versions s key) (versions (snd (put_runbook c k s)) key)"
    by (auto intro: versions_le_step)
  with 2 show ?case by (auto simp: put_ok intro: versions_le_trans)
qed (simp add: versions_le_refl)

text \<open>Only proven outcomes create: failed and no-effect candidates never add or change a procedure.\<close>

lemma put_all_failed:
  assumes "ok s" and "\<forall>(c, k) \<in> set cs. cand_outcome c \<noteq> Success"
  shows "length (versions (put_all cs s) key) = length (versions s key) \<and>
    map vr_token (versions (put_all cs s) key) = map vr_token (versions s key)"
  using assms
proof (induction cs s rule: put_all.induct)
  case (2 c k cs s)
  have "length (versions (snd (put_runbook c k s)) key) = length (versions s key) \<and>
      map vr_token (versions (snd (put_runbook c k s)) key) = map vr_token (versions s key)"
    using 2(2,3) by (cases "key = key_of c") (auto dest!: failed_step [OF put_step] simp: put_frame)
  with 2 show ?case by (simp add: put_ok)
qed simp

end

section \<open>The in-memory writer\<close>

record local_runbook =
  lr_runbook_id :: string
  lr_version :: nat
  lr_steps_hash :: string
  lr_success_count :: nat
  lr_failure_count :: nat
  lr_status :: runbook_status
  lr_embedding :: "real list"

record memory_repo =
  mrp_reinforcements :: nat
  mrp_runbooks :: "(runbook_name_key, local_runbook list) dict"
  mrp_processed :: "(string, mutation) dict"

definition new_memory_repo :: "int \<Rightarrow> cons_error + memory_repo" where
  "new_memory_repo n = (if n < 1 then Inl (ValueError ''reinforcements_to_activate must be at least 1'')
     else Inr \<lparr>mrp_reinforcements = nat n, mrp_runbooks = [], mrp_processed = []\<rparr>)"

definition mutation_of :: "string \<Rightarrow> local_runbook \<Rightarrow> mutation" where
  "mutation_of op l = \<lparr>mut_operation = op, mut_runbook_id = lr_runbook_id l, mut_version = lr_version l,
     mut_success_count = lr_success_count l, mut_failure_count = lr_failure_count l,
     mut_status = status_str (lr_status l), mut_idempotent_replay = False\<rparr>"

definition ignored_counterexample :: mutation where
  "ignored_counterexample = \<lparr>mut_operation = ''ignored_counterexample'', mut_runbook_id = [],
     mut_version = 0, mut_success_count = 0, mut_failure_count = 0, mut_status = ''absent'',
     mut_idempotent_replay = False\<rparr>"

definition local_weaken :: "local_runbook \<Rightarrow> local_runbook" where
  "local_weaken l = (let l' = l\<lparr>lr_failure_count := lr_failure_count l + 1\<rparr> in
     if lr_success_count l' \<le> lr_failure_count l' then l'\<lparr>lr_status := Deprecated\<rparr> else l')"

definition local_reinforce :: "nat \<Rightarrow> local_runbook \<Rightarrow> local_runbook" where
  "local_reinforce n l = (let l' = l\<lparr>lr_success_count := lr_success_count l + 1\<rparr> in
     if lr_status l' = Draft \<and> n + 1 \<le> lr_success_count l' then l'\<lparr>lr_status := Active\<rparr> else l')"

definition local_new :: "textlib \<Rightarrow> candidate \<Rightarrow> nat \<Rightarrow> local_runbook list \<Rightarrow> local_runbook" where
  "local_new lib c n versions =
     \<lparr>lr_runbook_id = ''rb-'' @ nat_str n @ ''-'' @ nat_str (length versions + 1),
      lr_version = (if versions = [] then 1 else lr_version (last versions) + 1),
      lr_steps_hash = steps_hash lib c, lr_success_count = 1, lr_failure_count = 0,
      lr_status = Draft, lr_embedding = cand_embedding c\<rparr>"

text \<open>
  The versions list of the key is the object in the dictionary: writing the list back is the
  in-place change. \<open>setdefault\<close> leaves an empty list behind even where the call then raises.
\<close>

definition memory_apply :: "textlib \<Rightarrow> candidate \<Rightarrow> string \<Rightarrow> (memory_repo, cons_error, mutation) prog" where
  "memory_apply lib c k = (\<lambda>s. case map_of (mrp_processed s) k of
     Some previous \<Rightarrow> (Inr (previous\<lparr>mut_operation := ''noop'', mut_idempotent_replay := True\<rparr>), s)
   | None \<Rightarrow>
      (let key = key_of c;
           s1 = s\<lparr>mrp_runbooks := dict_setdefault key [] (mrp_runbooks s)\<rparr>;
           versions = dict_get (mrp_runbooks s1) key [];
           finish = (\<lambda>vs m. (Inr m, s1\<lparr>mrp_runbooks := AList.update key vs (mrp_runbooks s1),
              mrp_processed := AList.update k m (mrp_processed s1)\<rparr>))
       in if cand_outcome c \<noteq> Success then
            (if versions = [] then finish versions ignored_counterexample
             else let l = local_weaken (last versions) in
               finish (butlast versions @ [l]) (mutation_of ''weaken'' l))
          else if versions = [] \<or> lr_steps_hash (last versions) \<noteq> steps_hash lib c then
            (if length (cand_embedding c) \<noteq> 1024
             then (Inl (ValueError ''candidate runbook must have a VECTOR(1024) embedding''), s1)
             else let l = local_new lib c (length (mrp_runbooks s1)) versions in
               finish (versions @ [l]) (mutation_of ''create'' l))
          else let l = local_reinforce (mrp_reinforcements s) (last versions) in
            finish (butlast versions @ [l]) (mutation_of ''reinforce'' l)))"

definition local_view :: "local_runbook \<Rightarrow> string version" where
  "local_view l = \<lparr>vr_version = lr_version l, vr_token = lr_steps_hash l, vr_success = lr_success_count l,
     vr_failure = lr_failure_count l, vr_status = lr_status l\<rparr>"

definition memory_versions :: "memory_repo \<Rightarrow> runbook_name_key \<Rightarrow> string version list" where
  "memory_versions s key = map local_view (dict_get (mrp_runbooks s) key [])"

lemma local_view_ops:
  "local_view (local_weaken l) = weakened (local_view l)"
  "local_view (local_reinforce n l) = reinforced n (local_view l)"
  by (simp_all add: local_view_def local_weaken_def local_reinforce_def weakened_def reinforced_def Let_def)

lemma local_view_new:
  "local_view (local_new lib c n []) = first_version 1 (steps_hash lib c)"
  "vs \<noteq> [] \<Longrightarrow> local_view (local_new lib c n vs) =
     first_version (Suc (vr_version (local_view (last vs)))) (steps_hash lib c)"
  by (simp_all add: local_view_def local_new_def first_version_def)

declare dict_get_update [simp]

lemma dict_get_setdefault_nil [simp]: "dict_get (dict_setdefault k [] d) k' [] = dict_get d k' []"
  by (auto simp: dict_get_def split: option.splits)

lemma memory_step:
  "runbook_step (mrp_reinforcements s) (\<lambda>h c. h = steps_hash lib c) c (memory_versions s (key_of c))
     (memory_versions (snd (memory_apply lib c k s)) (key_of c))"
proof -
  define vs where "vs = dict_get (mrp_runbooks s) (key_of c) []"
  show ?thesis
  proof (cases "map_of (mrp_processed s) k")
    case (Some m)
    then show ?thesis by (simp add: memory_apply_def runbook_step.unchanged)
  next
    case None
    show ?thesis
    proof (cases "vs = []")
      case True
      then show ?thesis using None
        by (auto simp: memory_apply_def memory_versions_def Let_def vs_def local_view_new
            intro: runbook_step.unchanged runbook_step.create [simplified])
    next
      case False
      define us l where "us = butlast vs" and "l = last vs"
      with False have vs: "vs = us @ [l]" by simp
      have tok: "vr_token (local_view l) = lr_steps_hash l" by (simp add: local_view_def)
      show ?thesis using None vs False tok
          runbook_step.weaken [of c "mrp_reinforcements s" _ "map local_view us" "local_view l"]
          runbook_step.reinforce [of c "\<lambda>h c. h = steps_hash lib c" "local_view l" "mrp_reinforcements s" "map local_view us"]
          runbook_step.supersede [of c "\<lambda>h c. h = steps_hash lib c" "local_view l" "local_view l"
            "mrp_reinforcements s" "map local_view us" "steps_hash lib c"]
          local_view_new(2) [of vs lib c "length (dict_setdefault (key_of c) [] (mrp_runbooks s))"]
        by (auto simp: memory_apply_def memory_versions_def Let_def vs_def [symmetric] local_view_ops
            intro: runbook_step.unchanged)
    qed
  qed
qed

lemma memory_frame:
  "key \<noteq> key_of c \<Longrightarrow> memory_versions (snd (memory_apply lib c k s)) key = memory_versions s key"
  by (auto simp: memory_apply_def memory_versions_def Let_def split: option.splits)

lemma memory_reinforcements [simp]:
  "mrp_reinforcements (snd (memory_apply lib c k s)) = mrp_reinforcements s"
  by (simp add: memory_apply_def Let_def split: option.splits)

interpretation memory: runbook_repository "memory_apply lib" memory_versions
  "\<lambda>h c. h = steps_hash lib c" "\<lambda>s. mrp_reinforcements s = r" r for lib r
  by unfold_locales (auto simp: memory_frame intro: memory_step)

section \<open>The SQL writer\<close>

text \<open>
  \<open>CockroachRunbookRepository\<close>: the two tables it touches and its statements, one definition per
  statement. A call is one transaction: when it raises, the tables are as before. \<open>gen\<close> is the
  database's default for \<open>runbook_id\<close>; a duplicate violates the table's unique constraint. JSON
  values are compared with Python's equality, as the code compares the decoded steps.
\<close>

record procedural_row =
  pm_runbook_id :: string
  pm_key :: runbook_name_key
  pm_version :: nat
  pm_status :: runbook_status
  pm_trigger_desc :: string
  pm_embedding :: "real list"
  pm_service_tags :: "string list"
  pm_error_signatures :: "string list"
  pm_preconditions :: "json_object list"
  pm_steps :: "json_object list"
  pm_postconditions :: "json_object list"
  pm_usage_count :: nat
  pm_success_count :: nat
  pm_failure_count :: nat
  pm_success_rate :: real
  pm_created_by :: string

record provenance_row =
  rp_runbook_id :: string
  rp_incident_id :: string
  rp_event_id :: string
  rp_role :: string

record sql_repo =
  sq_memory :: "procedural_row list"
  sq_provenance :: "provenance_row list"

definition row_mutation :: "string \<Rightarrow> procedural_row \<Rightarrow> mutation" where
  "row_mutation op row = \<lparr>mut_operation = op, mut_runbook_id = pm_runbook_id row,
     mut_version = pm_version row, mut_success_count = pm_success_count row,
     mut_failure_count = pm_failure_count row, mut_status = status_str (pm_status row),
     mut_idempotent_replay = False\<rparr>"

text \<open>The join of the replay check, with its \<open>LIMIT 1\<close>.\<close>

definition select_replay :: "sql_repo \<Rightarrow> candidate \<Rightarrow> procedural_row option" where
  "select_replay q c = find (\<lambda>row. pm_key row = key_of c \<and>
     (\<exists>p \<in> set (sq_provenance q). rp_runbook_id p = pm_runbook_id row \<and>
        rp_incident_id p = cand_incident_id c)) (sq_memory q)"

text \<open>\<open>ORDER BY version DESC LIMIT 1\<close>\<close>

definition rows_of :: "sql_repo \<Rightarrow> runbook_name_key \<Rightarrow> procedural_row list" where
  "rows_of q key = filter (\<lambda>row. pm_key row = key) (sq_memory q)"

definition select_latest :: "sql_repo \<Rightarrow> candidate \<Rightarrow> procedural_row option" where
  "select_latest q c = (case rows_of q (key_of c) of [] \<Rightarrow> None
     | rs \<Rightarrow> Some (last (sort_key pm_version rs)))"

definition update_where :: "string \<Rightarrow> (procedural_row \<Rightarrow> procedural_row) \<Rightarrow> sql_repo \<Rightarrow> sql_repo" where
  "update_where rid f q = q\<lparr>sq_memory :=
     map (\<lambda>row. if pm_runbook_id row = rid then f row else row) (sq_memory q)\<rparr>"

definition row_weaken :: "procedural_row \<Rightarrow> procedural_row" where
  "row_weaken row = row\<lparr>pm_usage_count := pm_usage_count row + 1,
     pm_failure_count := pm_failure_count row + 1,
     pm_success_rate := real (pm_success_count row) / (real (pm_usage_count row) + 1),
     pm_status := (if pm_success_count row \<le> pm_failure_count row + 1 then Deprecated
       else pm_status row)\<rparr>"

definition row_reinforce :: "nat \<Rightarrow> procedural_row \<Rightarrow> procedural_row" where
  "row_reinforce n row = row\<lparr>pm_usage_count := pm_usage_count row + 1,
     pm_success_count := pm_success_count row + 1,
     pm_success_rate := (real (pm_success_count row) + 1) / (real (pm_usage_count row) + 1),
     pm_status := (if pm_status row = Draft \<and> n + 1 \<le> pm_success_count row + 1 then Active
       else pm_status row)\<rparr>"

definition row_new :: "string \<Rightarrow> nat \<Rightarrow> candidate \<Rightarrow> procedural_row" where
  "row_new rid version c = \<lparr>pm_runbook_id = rid, pm_key = key_of c, pm_version = version,
     pm_status = Draft, pm_trigger_desc = cand_trigger_desc c, pm_embedding = cand_embedding c,
     pm_service_tags = cand_service_tags c, pm_error_signatures = cand_error_signatures c,
     pm_preconditions = cand_preconditions c, pm_steps = cand_steps c,
     pm_postconditions = cand_postconditions c, pm_usage_count = 1, pm_success_count = 1,
     pm_failure_count = 0, pm_success_rate = 1, pm_created_by = ''consolidation_job''\<rparr>"

definition same_steps :: "json_object list \<Rightarrow> candidate \<Rightarrow> bool" where
  "same_steps stored c \<longleftrightarrow> py_eq (PList (map PDict stored)) (PList (map PDict (cand_steps c)))"

text \<open>\<open>_vector_literal\<close>: only the length matters here, not the digits printed.\<close>

definition vector_literal :: "real list \<Rightarrow> cons_error + real list" where
  "vector_literal embedding = (if length embedding \<noteq> 1024
     then Inl (ValueError ''candidate runbook must have a VECTOR(1024) embedding'') else Inr embedding)"

text \<open>The provenance row at the end of a call that wrote.\<close>

definition insert_provenance :: "string \<Rightarrow> string \<Rightarrow> candidate \<Rightarrow> sql_repo \<Rightarrow> cons_error + sql_repo" where
  "insert_provenance rid role c q =
     (if cand_source_event_ids c = [] then Inl (IndexError ''tuple index out of range'')
      else Inr (q\<lparr>sq_provenance := sq_provenance q @ [\<lparr>rp_runbook_id = rid,
        rp_incident_id = cand_incident_id c, rp_event_id = last (cand_source_event_ids c),
        rp_role = role\<rparr>]\<rparr>))"

definition sql_create :: "(sql_repo \<Rightarrow> string) \<Rightarrow> candidate \<Rightarrow> procedural_row option \<Rightarrow> sql_repo \<Rightarrow>
    cons_error + (procedural_row \<times> sql_repo)" where
  "sql_create gen c latest q =
     (let version = (case latest of None \<Rightarrow> 1 | Some row \<Rightarrow> pm_version row + 1);
          q1 = (case latest of None \<Rightarrow> q
            | Some row \<Rightarrow> update_where (pm_runbook_id row) (\<lambda>x. x\<lparr>pm_status := Deprecated\<rparr>) q)
      in bindE (vector_literal (cand_embedding c)) (\<lambda>_.
         bindE (checkE (gen q1 \<notin> pm_runbook_id ` set (sq_memory q1)) (RuntimeError ''unique violation'')) (\<lambda>_.
         let row = row_new (gen q1) version c in
         Inr (row, q1\<lparr>sq_memory := sq_memory q1 @ [row]\<rparr>))))"

definition sql_transaction :: "(sql_repo \<Rightarrow> string) \<Rightarrow> nat \<Rightarrow> candidate \<Rightarrow> sql_repo \<Rightarrow>
    cons_error + (mutation \<times> sql_repo)" where
  "sql_transaction gen n c q = (case select_replay q c of
     Some row \<Rightarrow> Inr ((row_mutation ''noop'' row)\<lparr>mut_idempotent_replay := True\<rparr>, q)
   | None \<Rightarrow> (let latest = select_latest q c in
       if cand_outcome c \<noteq> Success then (case latest of
           None \<Rightarrow> Inr (ignored_counterexample, q)
         | Some row \<Rightarrow>
             bindE (insert_provenance (pm_runbook_id row) ''counterexample'' c
               (update_where (pm_runbook_id row) row_weaken q)) (\<lambda>q'.
             Inr (row_mutation ''weaken'' (row_weaken row), q')))
       else if latest = None \<or> \<not> same_steps (pm_steps (the latest)) c then
         bindE (sql_create gen c latest q) (\<lambda>(row, q1).
         bindE (insert_provenance (pm_runbook_id row) ''source'' c q1) (\<lambda>q'.
         Inr (row_mutation ''create'' row, q')))
       else
         bindE (insert_provenance (pm_runbook_id (the latest)) ''reinforcement'' c
           (update_where (pm_runbook_id (the latest)) (row_reinforce n) q)) (\<lambda>q'.
         Inr (row_mutation ''reinforce'' (row_reinforce n (the latest)), q'))))"

definition sql_apply :: "(sql_repo \<Rightarrow> string) \<Rightarrow> nat \<Rightarrow> candidate \<Rightarrow> string \<Rightarrow>
    (sql_repo, cons_error, mutation) prog" where
  "sql_apply gen n c k = (\<lambda>q. case sql_transaction gen n c q of
     Inl e \<Rightarrow> (Inl e, q)
   | Inr (m, q') \<Rightarrow> (Inr m, q'))"

definition row_view :: "procedural_row \<Rightarrow> json_object list version" where
  "row_view row = \<lparr>vr_version = pm_version row, vr_token = pm_steps row,
     vr_success = pm_success_count row, vr_failure = pm_failure_count row, vr_status = pm_status row\<rparr>"

definition sql_versions :: "sql_repo \<Rightarrow> runbook_name_key \<Rightarrow> json_object list version list" where
  "sql_versions q key = map row_view (rows_of q key)"

text \<open>
  The schema's constraints, and the versions of a key stored in order: unique ids, and the
  checks on the counters.
\<close>

definition row_checks :: "procedural_row \<Rightarrow> bool" where
  "row_checks row \<longleftrightarrow> pm_success_count row + pm_failure_count row = pm_usage_count row \<and>
     0 < pm_usage_count row \<and> pm_success_rate row = real (pm_success_count row) / real (pm_usage_count row)"

definition sql_ok :: "sql_repo \<Rightarrow> bool" where
  "sql_ok q \<longleftrightarrow> distinct (map pm_runbook_id (sq_memory q)) \<and> (\<forall>row \<in> set (sq_memory q). row_checks row) \<and>
     (\<forall>key. sorted_wrt (<) (map pm_version (rows_of q key)))"

lemma sql_ok_rows: "sql_ok q \<Longrightarrow> sorted_wrt (<) (map pm_version (rows_of q key))"
  unfolding sql_ok_def by blast

lemma row_view_ops:
  "row_view (row_weaken x) = weakened (row_view x)"
  "row_view (row_reinforce n x) = reinforced n (row_view x)"
  "row_view (x\<lparr>pm_status := Deprecated\<rparr>) = (row_view x)\<lparr>vr_status := Deprecated\<rparr>"
  "row_view (row_new rid v c) = first_version v (cand_steps c)"
  by (simp_all add: row_view_def row_weaken_def row_reinforce_def weakened_def reinforced_def
      row_new_def first_version_def)

lemma row_key_ops [simp]:
  "pm_key (row_weaken x) = pm_key x" "pm_key (row_reinforce n x) = pm_key x"
  "pm_runbook_id (row_weaken x) = pm_runbook_id x" "pm_runbook_id (row_reinforce n x) = pm_runbook_id x"
  "pm_version (row_weaken x) = pm_version x" "pm_version (row_reinforce n x) = pm_version x"
  by (simp_all add: row_weaken_def row_reinforce_def)

lemma row_checks_ops:
  "row_checks x \<Longrightarrow> row_checks (row_weaken x)" "row_checks x \<Longrightarrow> row_checks (row_reinforce n x)"
  "row_checks (x\<lparr>pm_status := st\<rparr>) = row_checks x" "row_checks (row_new rid v c)"
  by (auto simp: row_checks_def row_weaken_def row_reinforce_def row_new_def add.commute)

text \<open>The latest row is the last one of its key.\<close>

lemma select_latest_last:
  assumes "sql_ok q"
  shows "select_latest q c = (if rows_of q (key_of c) = [] then None else Some (last (rows_of q (key_of c))))"
proof -
  have "sorted (map pm_version (rows_of q (key_of c)))"
    using sql_ok_rows [OF assms] by (simp add: strict_sorted_iff)
  then have "sort_key pm_version (rows_of q (key_of c)) = rows_of q (key_of c)" by (rule sort_key_id_if_sorted)
  then show ?thesis unfolding select_latest_def list.case_eq_if by simp
qed

text \<open>Updating the last row of a key by its id changes that row only.\<close>

lemma rows_of_update:
  assumes "distinct (map pm_runbook_id (sq_memory q))" and "rows_of q k = us @ [x]"
    and "\<And>y. pm_key (f y) = pm_key y"
  shows "rows_of (update_where (pm_runbook_id x) f q) key = (if key = k then us @ [f x] else rows_of q key)"
proof -
  have x: "x \<in> set (sq_memory q)" "pm_key x = k"
    using assms(2) by (metis (mono_tags) rows_of_def in_set_conv_decomp mem_Collect_eq set_filter)+
  have uniq: "pm_runbook_id y = pm_runbook_id x \<Longrightarrow> y = x" if "y \<in> set (sq_memory q)" for y
    using assms(1) that x(1) by (auto simp: distinct_map inj_on_def)
  have flt: "filter (\<lambda>row. pm_key row = key) (map (\<lambda>y. if pm_runbook_id y = pm_runbook_id x then f y else y) rs) =
      map (\<lambda>y. if pm_runbook_id y = pm_runbook_id x then f y else y) (filter (\<lambda>row. pm_key row = key) rs)" for rs
    using assms(3) by (induction rs) auto
  have mp: "rows_of (update_where (pm_runbook_id x) f q) key =
      map (\<lambda>y. if pm_runbook_id y = pm_runbook_id x then f y else y) (rows_of q key)"
    by (simp add: rows_of_def update_where_def flt)
  show ?thesis
  proof (cases "key = k")
    case True
    have dist: "distinct (map pm_runbook_id (us @ [x]))"
      using assms(1,2) by (metis rows_of_def distinct_map_filter)
    then have "\<forall>y \<in> set us. pm_runbook_id y \<noteq> pm_runbook_id x" by auto (metis image_eqI)
    then have "map (\<lambda>y. if pm_runbook_id y = pm_runbook_id x then f y else y) us = us"
      by (intro map_idI) simp
    with True assms(2) mp show ?thesis by simp
  next
    case False
    have "y \<in> set (rows_of q key) \<Longrightarrow> pm_runbook_id y \<noteq> pm_runbook_id x" for y
      using False x uniq by (auto simp: rows_of_def)
    then have "map (\<lambda>y. if pm_runbook_id y = pm_runbook_id x then f y else y) (rows_of q key) = rows_of q key"
      by (intro map_idI) auto
    with False mp show ?thesis by simp
  qed
qed

text \<open>The three kinds of write keep the constraints and act on the versions as the life cycle does.\<close>

lemma update_ok:
  assumes "sql_ok q" and "rows_of q k = us @ [x]"
    and "\<And>y. pm_key (f y) = pm_key y \<and> pm_runbook_id (f y) = pm_runbook_id y \<and> pm_version (f y) = pm_version y"
    and "\<And>y. row_checks y \<Longrightarrow> row_checks (f y)"
  shows "sql_ok (update_where (pm_runbook_id x) f q)"
proof -
  have "map pm_runbook_id (sq_memory (update_where (pm_runbook_id x) f q)) = map pm_runbook_id (sq_memory q)"
    using assms(3) by (simp add: update_where_def)
  moreover have "\<forall>row \<in> set (sq_memory (update_where (pm_runbook_id x) f q)). row_checks row"
    using assms(1,4) by (auto simp: update_where_def sql_ok_def)
  moreover have "sorted_wrt (<) (map pm_version (rows_of (update_where (pm_runbook_id x) f q) key))" for key
  proof -
    have "map pm_version (rows_of (update_where (pm_runbook_id x) f q) key) = map pm_version (rows_of q key)"
      using rows_of_update [of q k us x f key] assms by (simp add: sql_ok_def)
    with sql_ok_rows [OF assms(1), of key] show ?thesis by simp
  qed
  ultimately show ?thesis using assms(1) unfolding sql_ok_def by simp
qed

lemma provenance_rows:
  assumes "insert_provenance rid role c q = Inr q'"
  shows "sq_memory q' = sq_memory q" "rows_of q' key = rows_of q key" "sql_ok q' = sql_ok q"
  using assms by (auto simp: insert_provenance_def rows_of_def sql_ok_def split: if_splits)

lemma append_row:
  assumes "sql_ok q" and "rid \<notin> pm_runbook_id ` set (sq_memory q)"
    and "\<forall>row \<in> set (rows_of q (key_of c)). pm_version row < v"
  shows "sql_ok (q\<lparr>sq_memory := sq_memory q @ [row_new rid v c]\<rparr>)"
    and "rows_of (q\<lparr>sq_memory := sq_memory q @ [row_new rid v c]\<rparr>) key =
      rows_of q key @ (if key = key_of c then [row_new rid v c] else [])"
proof -
  have new: "pm_runbook_id (row_new rid v c) = rid" "pm_key (row_new rid v c) = key_of c"
    "pm_version (row_new rid v c) = v" by (simp_all add: row_new_def)
  then show rows: "rows_of (q\<lparr>sq_memory := sq_memory q @ [row_new rid v c]\<rparr>) key =
      rows_of q key @ (if key = key_of c then [row_new rid v c] else [])" for key
    by (simp add: rows_of_def)
  show "sql_ok (q\<lparr>sq_memory := sq_memory q @ [row_new rid v c]\<rparr>)"
    unfolding sql_ok_def rows using assms new
    by (auto simp: sql_ok_def row_checks_ops sorted_wrt_append)
qed

lemma sql_create_props:
  assumes "sql_ok q" and "sql_create gen c (select_latest q c) q = Inr (row, q')"
  shows "sql_ok q' \<and> (\<forall>key. key \<noteq> key_of c \<longrightarrow> rows_of q' key = rows_of q key) \<and>
    (case select_latest q c of
       None \<Rightarrow> rows_of q (key_of c) = [] \<and> rows_of q' (key_of c) = [row] \<and> row = row_new (pm_runbook_id row) 1 c
     | Some x \<Rightarrow> \<exists>us. rows_of q (key_of c) = us @ [x] \<and>
         rows_of q' (key_of c) = us @ [x\<lparr>pm_status := Deprecated\<rparr>, row] \<and>
         row = row_new (pm_runbook_id row) (Suc (pm_version x)) c)"
proof (cases "select_latest q c")
  case None
  then have empty: "rows_of q (key_of c) = []"
    using select_latest_last [OF assms(1), of c] by (auto split: if_splits)
  from assms(2) None have row: "row = row_new (gen q) 1 c" "q' = q\<lparr>sq_memory := sq_memory q @ [row]\<rparr>"
    and fresh: "gen q \<notin> pm_runbook_id ` set (sq_memory q)"
    by (auto simp: sql_create_def Let_def)
  have "pm_runbook_id row = gen q" by (simp add: row row_new_def)
  with append_row [OF assms(1) fresh, of c 1] empty None row show ?thesis by simp
next
  case (Some x)
  then have "rows_of q (key_of c) \<noteq> []" and x: "x = last (rows_of q (key_of c))"
    using select_latest_last [OF assms(1), of c] by (auto split: if_splits)
  then obtain us where us: "rows_of q (key_of c) = us @ [x]" by (metis append_butlast_last_id)
  define q1 where "q1 = update_where (pm_runbook_id x) (\<lambda>x. x\<lparr>pm_status := Deprecated\<rparr>) q"
  from assms(2) Some have row: "row = row_new (gen q1) (Suc (pm_version x)) c"
      "q' = q1\<lparr>sq_memory := sq_memory q1 @ [row]\<rparr>"
    and fresh: "gen q1 \<notin> pm_runbook_id ` set (sq_memory q1)"
    by (auto simp: sql_create_def Let_def q1_def)
  have ok1: "sql_ok q1" unfolding q1_def by (rule update_ok [OF assms(1) us]) (simp_all add: row_checks_ops)
  have rows1: "rows_of q1 key = (if key = key_of c then us @ [x\<lparr>pm_status := Deprecated\<rparr>] else rows_of q key)" for key
    unfolding q1_def using assms(1) us by (intro rows_of_update) (simp_all add: sql_ok_def)
  have "sorted_wrt (<) (map pm_version (us @ [x]))" using sql_ok_rows [OF assms(1)] us by metis
  then have "\<forall>y \<in> set (rows_of q1 (key_of c)). pm_version y < Suc (pm_version x)"
    by (auto simp: rows1 sorted_wrt_append less_Suc_eq)
  note new = append_row [OF ok1 fresh this]
  have "pm_runbook_id row = gen q1" by (simp add: row row_new_def)
  with new us rows1 row Some show ?thesis by auto
qed

lemma sql_ok_apply: "sql_ok q \<Longrightarrow> sql_ok (snd (sql_apply gen n c k q))" (is "?ok \<Longrightarrow> _")
  and sql_step: "sql_ok q \<Longrightarrow> runbook_step n same_steps c (sql_versions q (key_of c))
     (sql_versions (snd (sql_apply gen n c k q)) (key_of c))"
  and sql_frame: "sql_ok q \<Longrightarrow> key \<noteq> key_of c \<Longrightarrow>
     sql_versions (snd (sql_apply gen n c k q)) key = sql_versions q key"
proof -
  have "sql_ok q' \<and> runbook_step n same_steps c (sql_versions q (key_of c)) (sql_versions q' (key_of c)) \<and>
      (\<forall>key. key \<noteq> key_of c \<longrightarrow> rows_of q' key = rows_of q key)"
    if ok: "sql_ok q" and run: "sql_transaction gen n c q = Inr (m, q')" for m q'
  proof (cases "select_replay q c = None \<and> (cand_outcome c = Success \<or> select_latest q c \<noteq> None)")
    case False
    with run have "q' = q" by (auto simp: sql_transaction_def Let_def split: option.splits if_splits)
    with ok show ?thesis by (simp add: runbook_step.unchanged)
  next
    case True
    note latest = select_latest_last [OF ok, of c]
    show ?thesis
    proof (cases "cand_outcome c = Success \<and>
        (select_latest q c = None \<or> \<not> same_steps (pm_steps (the (select_latest q c))) c)")
      case True2: True
      with run True obtain row q1 where mk: "sql_create gen c (select_latest q c) q = Inr (row, q1)"
        and pr: "insert_provenance (pm_runbook_id row) ''source'' c q1 = Inr q'"
        by (auto simp: sql_transaction_def Let_def)
      note p = provenance_rows [OF pr] sql_create_props [OF ok mk]
      show ?thesis
      proof (cases "select_latest q c")
        case None
        with p have "sql_versions q (key_of c) = []"
          "sql_versions q' (key_of c) = [first_version 1 (cand_steps c)]"
          by (auto simp: sql_versions_def row_view_ops) (metis One_nat_def row_view_ops(4))
        then show ?thesis using p True2 by (auto intro: runbook_step.create [simplified])
      next
        case (Some x)
        with p obtain us where us: "rows_of q (key_of c) = us @ [x]"
          "rows_of q1 (key_of c) = us @ [x\<lparr>pm_status := Deprecated\<rparr>, row]"
          "row = row_new (pm_runbook_id row) (Suc (pm_version x)) c" by auto
        have "row_view row = first_version (Suc (vr_version (row_view x))) (cand_steps c)"
          by (subst us(3)) (simp only: row_view_ops, simp add: row_view_def)
        with us p(2) have v: "sql_versions q (key_of c) = map row_view us @ [row_view x]"
          "sql_versions q' (key_of c) = map row_view us @
             [(row_view x)\<lparr>vr_status := Deprecated\<rparr>, first_version (Suc (vr_version (row_view x))) (cand_steps c)]"
          by (simp_all add: sql_versions_def row_view_ops)
        have "\<not> same_steps (vr_token (row_view x)) c" using True2 Some by (simp add: row_view_def)
        then have "runbook_step n same_steps c (sql_versions q (key_of c)) (sql_versions q' (key_of c))"
          unfolding v using True2 by (intro runbook_step.supersede) simp_all
        then show ?thesis using p by simp
      qed
    next
      case False
      with True obtain x where x: "select_latest q c = Some x"
        and kind: "cand_outcome c \<noteq> Success \<or> same_steps (pm_steps x) c" by auto
      then have "rows_of q (key_of c) \<noteq> []" "x = last (rows_of q (key_of c))"
        using latest by (auto split: if_splits)
      then obtain us where us: "rows_of q (key_of c) = us @ [x]" by (metis append_butlast_last_id)
      define f role where "f = (if cand_outcome c = Success then row_reinforce n else row_weaken)"
        and "role = (if cand_outcome c = Success then ''reinforcement'' else ''counterexample'')"
      have pr: "insert_provenance (pm_runbook_id x) role c (update_where (pm_runbook_id x) f q) = Inr q'"
        using run True False x by (auto simp: sql_transaction_def Let_def f_def role_def)
      have "sql_ok (update_where (pm_runbook_id x) f q)"
        by (rule update_ok [OF ok us]) (simp_all add: f_def row_checks_ops)
      moreover have rows: "rows_of (update_where (pm_runbook_id x) f q) key =
          (if key = key_of c then us @ [f x] else rows_of q key)" for key
        using ok us by (intro rows_of_update) (simp_all add: sql_ok_def f_def)
      moreover have "runbook_step n same_steps c (map row_view us @ [row_view x]) (map row_view us @ [row_view (f x)])"
        using kind by (auto simp: f_def row_view_ops row_view_def [of x] intro: runbook_step.weaken
          runbook_step.reinforce)
      ultimately show ?thesis using provenance_rows [OF pr] us by (simp add: sql_versions_def)
    qed
  qed
  note main = this
  show "sql_ok q \<Longrightarrow> sql_ok (snd (sql_apply gen n c k q))"
    using main by (auto simp: sql_apply_def split: sum.splits)
  show "sql_ok q \<Longrightarrow> runbook_step n same_steps c (sql_versions q (key_of c))
     (sql_versions (snd (sql_apply gen n c k q)) (key_of c))"
    using main by (auto simp: sql_apply_def runbook_step.unchanged split: sum.splits)
  show "sql_ok q \<Longrightarrow> key \<noteq> key_of c \<Longrightarrow>
     sql_versions (snd (sql_apply gen n c k q)) key = sql_versions q key"
    using main by (cases key) (auto simp: sql_apply_def sql_versions_def split: sum.splits)
qed

interpretation sql: runbook_repository "sql_apply gen n" sql_versions same_steps sql_ok n for gen n
  by unfold_locales (auto intro: sql_ok_apply sql_step sql_frame)

text \<open>A call that wrote left a provenance row that the replay check finds.\<close>

lemma insert_recorded:
  assumes "insert_provenance rid role c q = Inr q'" and "row \<in> set (sq_memory q)"
    and "pm_runbook_id row = rid" and "pm_key row = key_of c"
  shows "select_replay q' c \<noteq> None"
  using assms unfolding select_replay_def find_None_iff
  by (auto simp: insert_provenance_def split: if_splits)

lemma sql_recorded:
  assumes ok: "sql_ok q" and run: "sql_transaction gen n c q = Inr (m, q')" and m: "m \<noteq> ignored_counterexample"
  shows "select_replay q' c \<noteq> None"
proof (cases "select_replay q c")
  case (Some row)
  with run show ?thesis by (simp add: sql_transaction_def)
next
  case None
  show ?thesis
  proof (cases "cand_outcome c = Success \<and>
      (select_latest q c = None \<or> \<not> same_steps (pm_steps (the (select_latest q c))) c)")
    case True
    with run None obtain row q1 where mk: "sql_create gen c (select_latest q c) q = Inr (row, q1)"
      and pr: "insert_provenance (pm_runbook_id row) ''source'' c q1 = Inr q'"
      by (auto simp: sql_transaction_def Let_def)
    have "row \<in> set (rows_of q1 (key_of c))"
      using sql_create_props [OF ok mk] by (auto split: option.splits)
    then show ?thesis by (intro insert_recorded [OF pr]) (auto simp: rows_of_def)
  next
    case False
    with run None m obtain x where x: "select_latest q c = Some x"
      by (auto simp: sql_transaction_def Let_def split: option.splits)
    then have "rows_of q (key_of c) \<noteq> []" "x = last (rows_of q (key_of c))"
      using select_latest_last [OF ok, of c] by (auto split: if_splits)
    then have xin: "x \<in> set (sq_memory q)" "pm_key x = key_of c"
      using last_in_set [of "rows_of q (key_of c)"] by (auto simp: rows_of_def)
    define f role where "f = (if cand_outcome c = Success then row_reinforce n else row_weaken)"
      and "role = (if cand_outcome c = Success then ''reinforcement'' else ''counterexample'')"
    have pr: "insert_provenance (pm_runbook_id x) role c (update_where (pm_runbook_id x) f q) = Inr q'"
      using run None False x by (auto simp: sql_transaction_def Let_def f_def role_def)
    show ?thesis
      by (rule insert_recorded [OF pr, of "f x"]) (use xin in \<open>auto simp: update_where_def f_def\<close>)
  qed
qed

end
