(* ===== verification/Cons_Model.thy ===== *)
theory Cons_Model
  imports Cons_Contracts "HOL-Library.Word"
begin

text \<open>
  Distilling a group into a runbook candidate
  (\<^verbatim>\<open>consolidation/postmortem_consolidation/model.py\<close> and \<^verbatim>\<open>embedding.py\<close>): the
  deterministic model, the parsing of a model's payload, the retry loop and the response parsing of
  the Bedrock model, and the deterministic embedding. The remote client is an argument.
\<close>

section \<open>Prompt\<close>

definition outcome_str :: "runbook_outcome \<Rightarrow> string" where
  "outcome_str r = (case r of Success \<Rightarrow> ''success'' | Failed \<Rightarrow> ''failed'' | No_effect \<Rightarrow> ''no_effect'')"

definition build_prompt :: "textlib \<Rightarrow> episode_group \<Rightarrow> string" where
  "build_prompt lib g = (let episodes = map (\<lambda>e. PDict
       [(''event_id'', PStr (ev_event_id e)), (''type'', PStr (ev_event_type e)),
        (''content'', PStr (ev_content e)), (''metadata'', PDict (ev_metadata e)),
        (''occurred_at'', PStr (lib_iso_text lib (ev_occurred_at e)))]) (grp_episodes g) in
     ''You are Postmortem's sleep-time memory consolidator. Distill the completed '' @
     ''incident into one safe procedural runbook. Return JSON only with keys: '' @
     ''name, trigger_desc, steps, preconditions, postconditions, service_tags, '' @
     ''error_signatures. Do not invent actions not present in the evidence.'' @ [CHR 0x0A] @
     ''OUTCOME='' @ outcome_str (grp_outcome g) @ [CHR 0x0A] @ ''EPISODES='' @
     lib_json_text lib (PList episodes))"

section \<open>Candidates from a payload\<close>

fun as_dict :: "pyval \<Rightarrow> json_object option" where
  "as_dict (PDict d) = Some d"
| "as_dict _ = None"

fun as_sequence :: "pyval \<Rightarrow> pyval list option" where
  "as_sequence (PList xs) = Some xs"
| "as_sequence (PTuple xs) = Some xs"
| "as_sequence _ = None"

definition payload_objects :: "json_object \<Rightarrow> string \<Rightarrow> cons_error + json_object list" where
  "payload_objects payload key =
     bindE (needE (ValueError (key @ '' must be an array'')) (as_sequence (py_or (pget payload key) (PTuple []))))
       (mapE (\<lambda>v. needE (ValueError (key @ '' must contain objects'')) (as_dict v)))"

definition payload_strings :: "textlib \<Rightarrow> json_object \<Rightarrow> string \<Rightarrow> cons_error + string list" where
  "payload_strings lib payload key =
     bindE (needE (ValueError (key @ '' must be an array'')) (as_sequence (py_or (pget payload key) (PTuple []))))
       (\<lambda>raw. Inr (filter (\<lambda>s. s \<noteq> []) (map (py_str (lib_render lib)) raw)))"

definition payload_text :: "textlib \<Rightarrow> json_object \<Rightarrow> string \<Rightarrow> string" where
  "payload_text lib payload key = str_strip (py_str (lib_render lib) (py_or (pget payload key) (PStr [])))"

definition candidate_from_payload ::
  "textlib \<Rightarrow> episode_group \<Rightarrow> json_object \<Rightarrow> cons_error + candidate" where
  "candidate_from_payload lib g payload =
     bindE (checkE (case as_sequence (pget payload ''steps'') of Some xs \<Rightarrow> xs \<noteq> [] | None \<Rightarrow> False)
       (ValueError ''consolidation model returned no runbook steps'')) (\<lambda>_.
     bindE (payload_objects payload ''steps'') (\<lambda>steps.
     bindE (payload_objects payload ''preconditions'') (\<lambda>pre.
     bindE (payload_objects payload ''postconditions'') (\<lambda>post.
     bindE (payload_strings lib payload ''service_tags'') (\<lambda>tags.
     bindE (payload_strings lib payload ''error_signatures'') (\<lambda>signatures.
     Inr \<lparr>cand_org_id = grp_org_id g, cand_agent_id = grp_agent_id g,
       cand_incident_id = grp_incident_id g, cand_service_id = grp_service_id g,
       cand_name = payload_text lib payload ''name'',
       cand_trigger_desc = payload_text lib payload ''trigger_desc'',
       cand_steps = steps, cand_preconditions = pre, cand_postconditions = post,
       cand_service_tags = tags, cand_error_signatures = signatures,
       cand_outcome = grp_outcome g,
       cand_source_event_ids = map ev_event_id (grp_episodes g), cand_embedding = []\<rparr>))))))"

section \<open>The deterministic model\<close>

text \<open>\<open>re.sub("[^a-z0-9]+", "-", s).strip("-")\<close>\<close>

definition slug_char :: "char \<Rightarrow> bool" where
  "slug_char c \<longleftrightarrow> is_digit c \<or> (97 \<le> (of_char c :: nat) \<and> (of_char c :: nat) \<le> 122)"

function squeeze :: "string \<Rightarrow> string" where
  "squeeze [] = []"
| "squeeze (c # cs) = (if slug_char c then c # squeeze cs
     else CHR ''-'' # squeeze (dropWhile (\<lambda>x. \<not> slug_char x) cs))"
  by pat_completeness auto

termination
  by (relation "measure length") (auto simp: le_imp_less_Suc length_dropWhile_le)

definition strip_char :: "char \<Rightarrow> string \<Rightarrow> string" where
  "strip_char c s = rev (dropWhile (\<lambda>x. x = c) (rev (dropWhile (\<lambda>x. x = c) s)))"

definition name_token :: "string \<Rightarrow> string" where
  "name_token s = strip_char (CHR ''-'') (squeeze (str_lower s))"

definition meta_get :: "change_event \<Rightarrow> string \<Rightarrow> pyval" where
  "meta_get e k = pget (ev_metadata e) k"

definition alert_of :: "change_event list \<Rightarrow> change_event" where
  "alert_of es = (case find (\<lambda>e. ev_event_type e = ''alert'') es of Some e \<Rightarrow> e | None \<Rightarrow> hd es)"

definition action_of :: "change_event list \<Rightarrow> change_event" where
  "action_of es = (case find (\<lambda>e. ev_event_type e = ''action'') (rev es) of Some e \<Rightarrow> e | None \<Rightarrow> last es)"

definition runbook_payload :: "string \<Rightarrow> string \<Rightarrow> string \<Rightarrow> string \<Rightarrow> json_object \<Rightarrow> json_object" where
  "runbook_payload name signature service action_type action_params =
      [(''name'', PStr name),
       (''trigger_desc'', PStr signature),
       (''steps'', PTuple
         [PDict [(''order'', PInt 1), (''tool'', PStr ''get_operational_state''),
            (''action'', PStr ''verify_signature''), (''expected'', PStr signature)],
          PDict [(''order'', PInt 2), (''tool'', PStr ''remediate_and_record''),
            (''action'', PStr action_type), (''params'', PDict action_params)],
          PDict [(''order'', PInt 3), (''tool'', PStr ''get_operational_state''),
            (''action'', PStr ''verify_slo_recovery'')]]),
       (''preconditions'', PTuple
         [PDict [(''field'', PStr ''service''), (''operator'', PStr ''eq''), (''value'', PStr service)],
          PDict [(''field'', PStr ''signature''), (''operator'', PStr ''contains''),
            (''value'', PStr signature)]]),
       (''postconditions'', PTuple
         [PDict [(''field'', PStr ''slo_status''), (''operator'', PStr ''eq''), (''value'', PStr ''healthy'')]]),
       (''service_tags'', PTuple [PStr service]),
       (''error_signatures'', PTuple [PStr signature])]"

definition deterministic_payload :: "textlib \<Rightarrow> episode_group \<Rightarrow> json_object" where
  "deterministic_payload lib g =
     (let alert = alert_of (grp_episodes g); action = action_of (grp_episodes g);
          service = py_str (lib_render lib) (py_or (meta_get alert ''service_name'')
            (py_or (meta_get action ''service_name'') (PStr (grp_service_id g))));
          family = py_str (lib_render lib) (py_or (meta_get alert ''family_id'')
            (py_or (meta_get action ''family_id'') (PStr ''incident'')));
          signature = py_str (lib_render lib) (py_or (meta_get alert ''error_signature'')
            (py_or (meta_get alert ''signal'') (py_or (PStr (ev_content alert)) (PStr family))));
          action_type = py_str (lib_render lib) (py_or (meta_get action ''action_type'') (PStr ''escalate''));
          action_params = (case as_dict (py_or (meta_get action ''params'') (PDict [])) of
            Some d \<Rightarrow> d | None \<Rightarrow> []);
          token = name_token (service @ ''-'' @ family) in
      runbook_payload (if token = [] then ''incident-response'' else token) signature service
        action_type action_params)"

definition deterministic_consolidate :: "textlib \<Rightarrow> episode_group \<Rightarrow> cons_error + model_result" where
  "deterministic_consolidate lib g =
     (if grp_episodes g = [] then Inl (IndexError ''tuple index out of range'')
      else let payload = deterministic_payload lib g in
        bindE (candidate_from_payload lib g payload) (\<lambda>c.
        Inr \<lparr>mr_candidate = c, mr_model_id = ''deterministic-local-v1'', mr_prompt = build_prompt lib g,
          mr_raw_response = lib_json_text lib (PDict payload)\<rparr>))"

section \<open>The Bedrock model\<close>

text \<open>What one call of the remote client does: a response, or an error with its service code.\<close>

datatype reply = Reply pyval | Fault "string option"

definition throttling :: "string option \<Rightarrow> bool" where
  "throttling code \<longleftrightarrow> code = Some ''ThrottlingException'' \<or> code = Some ''TooManyRequestsException''"

text \<open>
  The attempts of \<open>consolidate\<close>: the result, the number of calls made, and the base delays
  slept (the code adds a jitter of at most 0.15 s to each).
\<close>

function converse_from :: "(nat \<Rightarrow> reply) \<Rightarrow> nat \<Rightarrow> nat \<Rightarrow> (cons_error + pyval) \<times> nat \<times> real list" where
  "converse_from client max_attempts attempt =
     (if max_attempts \<le> attempt
      then (Inl (RuntimeError ''Bedrock consolidation produced no response''), 0, [])
      else case client attempt of
        Reply r \<Rightarrow> (Inr r, 1, [])
      | Fault code \<Rightarrow>
          if \<not> throttling code then (Inl (ServiceFault code), 1, [])
          else if attempt + 1 = max_attempts then (Inl (ServiceFault code), 1, [])
          else (let (r, n, ds) = converse_from client max_attempts (attempt + 1) in
            (r, Suc n, min 8 (2 ^ attempt * (25 / 100)) # ds)))"
  by pat_completeness auto

termination
  by (relation "measure (\<lambda>(_, m, a). m - a)") auto

declare converse_from.simps [simp del]

definition drop_suffix_fence :: "string \<Rightarrow> string" where
  "drop_suffix_fence s = (if drop (length s - 3) s = ''```'' \<and> 3 \<le> length s
     then rev (dropWhile is_space (rev (take (length s - 3) s))) else s)"

definition drop_prefix_fence :: "string \<Rightarrow> string" where
  "drop_prefix_fence s = (if starts_with ''```'' s
     then (let t = drop 3 s in dropWhile is_space (if starts_with ''json'' t then drop 4 t else t)) else s)"

definition extract_json :: "string \<Rightarrow> string" where
  "extract_json value = (let stripped = str_strip value in
     if starts_with ''```'' stripped then drop_suffix_fence (drop_prefix_fence stripped) else stripped)"

definition subscript :: "pyval \<Rightarrow> string \<Rightarrow> cons_error + pyval" where
  "subscript v k = (case v of PDict d \<Rightarrow> needE (KeyError k) (map_of d k)
     | _ \<Rightarrow> Inl (TypeError ''not subscriptable by a name''))"

text \<open>The first \<open>text\<close> of the content; iterating an object or a text meets no mapping.\<close>

definition first_text :: "pyval \<Rightarrow> cons_error + pyval" where
  "first_text content = (case content of
     PStr _ \<Rightarrow> Inl StopIteration
   | PDict _ \<Rightarrow> Inl StopIteration
   | _ \<Rightarrow> bindE (needE (TypeError ''not iterable'') (as_sequence content)) (\<lambda>items.
       needE StopIteration (List.find (\<lambda>v. True)
         (List.map_filter (\<lambda>v. case as_dict v of None \<Rightarrow> None | Some d \<Rightarrow> map_of d ''text'') items))))"

definition parse_response :: "textlib \<Rightarrow> string \<Rightarrow> episode_group \<Rightarrow> pyval \<Rightarrow> cons_error + model_result" where
  "parse_response lib model_id g response =
     bindE (subscript response ''output'') (\<lambda>out.
     bindE (subscript out ''message'') (\<lambda>msg.
     bindE (subscript msg ''content'') (\<lambda>content.
     bindE (first_text content) (\<lambda>raw.
     bindE (needE (AttributeError ''strip'') (py_as_str raw)) (\<lambda>text.
     bindE (needE (ValueError ''invalid JSON'') (lib_json lib (extract_json text))) (\<lambda>decoded.
     bindE (needE (ValueError ''Bedrock response must decode to a JSON object'') (as_dict decoded)) (\<lambda>payload.
     bindE (candidate_from_payload lib g payload) (\<lambda>c.
     Inr \<lparr>mr_candidate = c, mr_model_id = model_id, mr_prompt = build_prompt lib g,
       mr_raw_response = text\<rparr>))))))))"

definition bedrock_consolidate ::
  "textlib \<Rightarrow> string \<Rightarrow> (nat \<Rightarrow> reply) \<Rightarrow> nat \<Rightarrow> episode_group \<Rightarrow> cons_error + model_result" where
  "bedrock_consolidate lib model_id client max_attempts g =
     bindE (fst (converse_from client max_attempts 0)) (parse_response lib model_id g)"

section \<open>Embeddings\<close>

definition embedding_dimensions :: nat where
  "embedding_dimensions = 1024"

text \<open>\<open>float(v)\<close>; \<open>parse\<close> reads a text, and has no value for a text that is no finite number.\<close>

definition to_float :: "(string \<Rightarrow> real option) \<Rightarrow> pyval \<Rightarrow> cons_error + real" where
  "to_float parse v = (case v of
     PStr s \<Rightarrow> needE (ValueError ''embedding contains a non-finite value'') (parse s)
   | _ \<Rightarrow> needE (TypeError ''not a number'') (py_num v))"

definition validate_embedding :: "(string \<Rightarrow> real option) \<Rightarrow> pyval list \<Rightarrow> cons_error + real list" where
  "validate_embedding parse values =
     bindE (checkE (length values = embedding_dimensions) (ValueError ''wrong embedding dimensions'')) (\<lambda>_.
     mapE (to_float parse) values)"

definition titan_embed :: "(string \<Rightarrow> real option) \<Rightarrow> json_object \<Rightarrow> cons_error + real list" where
  "titan_embed parse payload = (case pget payload ''embedding'' of
     PList values \<Rightarrow> validate_embedding parse values
   | _ \<Rightarrow> Inl (ValueError ''Titan response did not contain an embedding array''))"

text \<open>\<open>digest4\<close> is the first four bytes of a SHA-256 digest, read big-endian.\<close>

definition raw_embedding :: "(string \<Rightarrow> 32 word) \<Rightarrow> string \<Rightarrow> real list" where
  "raw_embedding digest4 text = map (\<lambda>index.
     (real (unat (digest4 (nat_str index @ '':'' @ text))) / 4294967295) * 2 - 1)
     [0..<embedding_dimensions]"

definition deterministic_embed :: "(string \<Rightarrow> 32 word) \<Rightarrow> string \<Rightarrow> cons_error + real list" where
  "deterministic_embed digest4 text =
     (let values = raw_embedding digest4 text; norm = sqrt (sum_list (map (\<lambda>v. v * v) values)) in
      validate_embedding (\<lambda>_. None) (map (\<lambda>v. PFloat (v / norm)) values))"

section \<open>What holds of them\<close>

text \<open>No component is zero, since \<open>2 ^ 32 - 1\<close> is odd, so the norm is positive.\<close>

lemma raw_component_nonzero: "(real (unat (w :: 32 word)) / 4294967295) * 2 - 1 \<noteq> 0"
proof
  assume "(real (unat w) / 4294967295) * 2 - 1 = 0"
  then have "2 * real (unat w) = 4294967295" by simp
  then have "real (2 * unat w) = real 4294967295" by simp
  then have "2 * unat w = 4294967295" by (simp only: of_nat_eq_iff)
  then show False by presburger
qed

lemma raw_norm_positive: "0 < sum_list (map (\<lambda>v. v * v) (raw_embedding digest4 text))"
proof -
  have nz: "v \<noteq> 0" if "v \<in> set (raw_embedding digest4 text)" for v
    using that raw_component_nonzero by (auto simp: raw_embedding_def)
  have ne: "raw_embedding digest4 text \<noteq> []" by (simp add: raw_embedding_def embedding_dimensions_def)
  have "0 < sum_list (map (\<lambda>v. v * v) vs)" if "vs \<noteq> []" "\<And>v. v \<in> set vs \<Longrightarrow> v \<noteq> 0" for vs :: "real list"
    using that
  proof (induction vs)
    case (Cons v vs)
    have "0 < v * v" using Cons.prems(2) [of v] by (simp add: zero_less_mult_iff) linarith
    with Cons show ?case by (cases vs) (auto intro: add_pos_pos)
  qed simp
  with nz ne show ?thesis by blast
qed

lemma mapE_float: "mapE (to_float parse) (map PFloat vs) = Inr vs"
  by (induction vs) (simp_all add: to_float_def)

lemma embedding_total:
  "\<exists>vs. deterministic_embed digest4 text = Inr vs \<and> length vs = 1024 \<and> sum_list (map (\<lambda>v. v * v) vs) = 1"
proof -
  let ?raw = "raw_embedding digest4 text"
  let ?s = "sum_list (map (\<lambda>v. v * v) ?raw)"
  let ?vs = "map (\<lambda>v. v / sqrt ?s) ?raw"
  have len: "length ?raw = 1024" by (simp add: raw_embedding_def embedding_dimensions_def)
  have "deterministic_embed digest4 text = Inr ?vs"
    using mapE_float [of "\<lambda>_. None" ?vs] len
    by (simp add: deterministic_embed_def Let_def validate_embedding_def embedding_dimensions_def o_def)
  moreover have "sum_list (map (\<lambda>v. v * v) (map (\<lambda>v. v / n) vs)) = sum_list (map (\<lambda>v. v * v) vs) / (n * n)"
    for n :: real and vs
    by (induction vs) (simp_all add: add_divide_distrib)
  moreover have "sqrt ?s * sqrt ?s = ?s" using raw_norm_positive [of digest4 "text"] by simp
  ultimately show ?thesis using raw_norm_positive [of digest4 "text"] len by auto
qed

text \<open>The retry loop makes at most \<open>max_attempts\<close> calls and sleeps between calls only.\<close>

lemma converse_from_calls:
  "let (r, n, ds) = converse_from client m a in n \<le> m - a \<and> length ds = n - 1 \<and> list_all (\<lambda>d. d \<le> 8) ds"
proof (induction client m a rule: converse_from.induct)
  case (1 client m a)
  show ?case
  proof (cases "m \<le> a")
    case True
    then show ?thesis by (simp add: converse_from.simps [of client m a])
  next
    case False
    show ?thesis
    proof (cases "client a")
      case (Reply r)
      with False show ?thesis by (simp add: converse_from.simps [of client m a])
    next
      case (Fault code)
      show ?thesis
      proof (cases "throttling code \<and> a + 1 \<noteq> m")
        case True
        obtain r n ds where rec: "converse_from client m (Suc a) = (r, n, ds)" by (cases "converse_from client m (Suc a)")
        have "n \<noteq> 0" using rec True False by (auto simp: converse_from.simps [of client m "Suc a"]
            split: reply.splits if_splits prod.splits)
        with 1 False Fault True rec show ?thesis by (auto simp: converse_from.simps [of client m a])
      next
        case False2: False
        with False Fault show ?thesis by (auto simp: converse_from.simps [of client m a])
      qed
    qed
  qed
qed

lemma converse_from_result:
  assumes "a + k < m" and "\<forall>i < k. \<exists>code. client (a + i) = Fault code \<and> throttling code"
    and "client (a + k) = Reply r"
  shows "fst (converse_from client m a) = Inr r"
  using assms
proof (induction k arbitrary: a)
  case 0
  then show ?case by (simp add: converse_from.simps [of client m a])
next
  case (Suc k)
  from Suc.prems(2) [rule_format, of 0] obtain code where "client a = Fault code" "throttling code" by auto
  moreover have "fst (converse_from client m (Suc a)) = Inr r"
    using Suc.prems Suc.IH [of "Suc a"] by (metis Suc_less_eq add_Suc add_Suc_right add_Suc_shift)
  ultimately show ?case using Suc.prems(1)
    by (simp add: converse_from.simps [of client m a] case_prod_beta)
qed

text \<open>Slugs use the alphabet of the pattern, with single inner dashes only.\<close>

lemma squeeze_chars: "c \<in> set (squeeze s) \<Longrightarrow> slug_char c \<or> c = CHR ''-''"
  by (induction s rule: squeeze.induct) (auto split: if_splits)

lemma dropWhile_sub: "set (dropWhile p xs) \<subseteq> set xs"
  by (rule set_dropWhileD [THEN subsetI])

lemma name_token_chars: "c \<in> set (name_token s) \<Longrightarrow> slug_char c \<or> c = CHR ''-''"
  unfolding name_token_def strip_char_def by (auto dest!: set_dropWhileD squeeze_chars)

text \<open>The deterministic model always yields a candidate of the group, with three steps.\<close>

lemma seq_truthy: "as_sequence v = Some xs \<Longrightarrow> xs \<noteq> [] \<Longrightarrow> py_truthy v"
  by (cases v) auto

lemma payload_fields:
  "pget (runbook_payload n g s t ps) ''steps'' = PTuple (map PDict
     [[(''order'', PInt 1), (''tool'', PStr ''get_operational_state''),
       (''action'', PStr ''verify_signature''), (''expected'', PStr g)],
      [(''order'', PInt 2), (''tool'', PStr ''remediate_and_record''),
       (''action'', PStr t), (''params'', PDict ps)],
      [(''order'', PInt 3), (''tool'', PStr ''get_operational_state''),
       (''action'', PStr ''verify_slo_recovery'')]])"
  "pget (runbook_payload n g s t ps) ''preconditions'' = PTuple (map PDict
     [[(''field'', PStr ''service''), (''operator'', PStr ''eq''), (''value'', PStr s)],
      [(''field'', PStr ''signature''), (''operator'', PStr ''contains''), (''value'', PStr g)]])"
  "pget (runbook_payload n g s t ps) ''postconditions'' = PTuple (map PDict
     [[(''field'', PStr ''slo_status''), (''operator'', PStr ''eq''), (''value'', PStr ''healthy'')]])"
  "pget (runbook_payload n g s t ps) ''service_tags'' = PTuple [PStr s]"
  "pget (runbook_payload n g s t ps) ''error_signatures'' = PTuple [PStr g]"
  by (simp_all add: runbook_payload_def pget_def dict_get_def)

lemma mapE_dicts: "mapE (\<lambda>v. needE e (as_dict v)) (map PDict ds) = Inr ds"
  by (induction ds) simp_all

lemma payload_objects_dicts:
  "pget payload key = PTuple (map PDict ds) \<Longrightarrow> payload_objects payload key = Inr ds"
  by (cases ds) (simp_all add: payload_objects_def py_or_def mapE_dicts [unfolded list.map])

lemma payload_strings_some:
  "pget payload key = PTuple vs \<Longrightarrow> \<exists>ss. payload_strings lib payload key = Inr ss"
  by (simp add: payload_strings_def py_or_def)

lemma payload_steps_nonempty:
  assumes "as_sequence (pget payload key) = Some xs" and "xs \<noteq> []"
    and "payload_objects payload key = Inr ds"
  shows "ds \<noteq> []"
  using assms seq_truthy [OF assms(1,2)]
  by (auto simp: payload_objects_def py_or_def dest: mapE_Inr_length)

lemma candidate_fields:
  assumes "candidate_from_payload lib g payload = Inr c"
  shows "cand_org_id c = grp_org_id g \<and> cand_agent_id c = grp_agent_id g \<and>
    cand_incident_id c = grp_incident_id g \<and> cand_service_id c = grp_service_id g \<and>
    cand_outcome c = grp_outcome g \<and> cand_source_event_ids c = map ev_event_id (grp_episodes g) \<and>
    cand_steps c \<noteq> [] \<and> payload_objects payload ''steps'' = Inr (cand_steps c)"
  using assms
  by (auto simp: candidate_from_payload_def dest: payload_steps_nonempty split: option.splits)

lemma runbook_payload_total:
  "\<exists>c. candidate_from_payload lib g (runbook_payload n sg s t ps) = Inr c \<and> length (cand_steps c) = 3"
proof -
  let ?p = "runbook_payload n sg s t ps"
  obtain s1 s2 where str: "payload_strings lib ?p ''service_tags'' = Inr s1"
    "payload_strings lib ?p ''error_signatures'' = Inr s2"
    using payload_strings_some payload_fields(4,5) by metis
  show ?thesis
    by (simp add: candidate_from_payload_def payload_objects_dicts [OF payload_fields(1)]
        payload_objects_dicts [OF payload_fields(2)] payload_objects_dicts [OF payload_fields(3)] str)
       (simp add: payload_fields)
qed

lemma deterministic_total:
  assumes "grp_episodes g \<noteq> []"
  shows "\<exists>r. deterministic_consolidate lib g = Inr r \<and> length (cand_steps (mr_candidate r)) = 3"
  using assms runbook_payload_total
  by (fastforce simp: deterministic_consolidate_def deterministic_payload_def Let_def)

end
