(* ===== verification/Cons_Pipeline.thy ===== *)
theory Cons_Pipeline
  imports Cons_Storage Cons_Repository Cons_Model
begin

text \<open>
  The pipeline (\<^verbatim>\<open>consolidation/postmortem_consolidation/pipeline.py\<close>) over any buffer and any
  writer, as the code takes them: its state is the pair of theirs. The lemmas about it are proved
  once, inside the interface of the buffer.
\<close>

record processing_result =
  pr_buffered_events :: nat
  pr_completed_groups :: nat
  pr_mutations :: "mutation list"

text \<open>One completed group: distil, embed, write, archive.\<close>

definition process_group ::
  "textlib \<Rightarrow> (model_result \<Rightarrow> string \<Rightarrow> ('s, cons_error, unit) prog) \<Rightarrow>
   (candidate \<Rightarrow> string \<Rightarrow> ('r, cons_error, mutation) prog) \<Rightarrow>
   (episode_group \<Rightarrow> cons_error + model_result) \<Rightarrow> (string \<Rightarrow> cons_error + real list) \<Rightarrow>
   episode_group \<Rightarrow> ('s \<times> 'r, cons_error, mutation) prog" where
  "process_group lib archive put_runbook consolidate embedder g =
     andThen (lift_result (consolidate g)) (\<lambda>result.
     andThen (lift_result (embedder (cand_trigger_desc (mr_candidate result)))) (\<lambda>embedding.
     let embedded = result\<lparr>mr_candidate := (mr_candidate result)\<lparr>cand_embedding := embedding\<rparr>\<rparr> in
     andThen (on_snd (put_runbook (mr_candidate embedded) (idempotency_key lib g))) (\<lambda>m.
     andThen (on_fst (archive embedded (idempotency_key lib g))) (\<lambda>_.
     ret m))))"

text \<open>The loop over the groups, collecting the mutations.\<close>

fun map_prog :: "('a \<Rightarrow> ('s, 'e, 'b) prog) \<Rightarrow> 'a list \<Rightarrow> ('s, 'e, 'b list) prog" where
  "map_prog f [] = ret []"
| "map_prog f (x # xs) = andThen (f x) (\<lambda>y. andThen (map_prog f xs) (\<lambda>ys. ret (y # ys)))"

definition completed_event_ids :: "episode_group list \<Rightarrow> string set" where
  "completed_event_ids gs = set (map ev_event_id (concat (map grp_episodes gs)))"

definition process ::
  "textlib \<Rightarrow> (change_event \<Rightarrow> ('s, cons_error, unit) prog) \<Rightarrow>
   (decimal \<Rightarrow> ('s, cons_error, change_event list) prog) \<Rightarrow>
   (change_event list \<Rightarrow> decimal \<Rightarrow> ('s, cons_error, unit) prog) \<Rightarrow>
   (model_result \<Rightarrow> string \<Rightarrow> ('s, cons_error, unit) prog) \<Rightarrow>
   (candidate \<Rightarrow> string \<Rightarrow> ('r, cons_error, mutation) prog) \<Rightarrow>
   (episode_group \<Rightarrow> cons_error + model_result) \<Rightarrow> (string \<Rightarrow> cons_error + real list) \<Rightarrow>
   queue_message \<Rightarrow> ('s \<times> 'r, cons_error, processing_result) prog" where
  "process lib put read_through mark archive put_runbook consolidate embedder message = (case message of
     Row e \<Rightarrow> andThen (on_fst (put e)) (\<lambda>_. ret \<lparr>pr_buffered_events = 1, pr_completed_groups = 0,
       pr_mutations = []\<rparr>)
   | Window w \<Rightarrow>
       andThen (on_fst (read_through (cw_watermark w))) (\<lambda>events.
       let groups = group_completed_incidents lib events in
       andThen (map_prog (process_group lib archive put_runbook consolidate embedder) groups) (\<lambda>mutations.
       let completed = filter (\<lambda>e. ev_event_id e \<in> completed_event_ids groups) events in
       andThen (on_fst (mark completed (cw_watermark w))) (\<lambda>_.
       ret \<lparr>pr_buffered_events = 0, pr_completed_groups = length groups, pr_mutations = mutations\<rparr>))))"

lemma map_prog_length: "map_prog f xs s = (Inr ys, s') \<Longrightarrow> length ys = length xs"
  by (induction xs arbitrary: s ys) (auto simp: run_prog elim!: andThen_Inr)

lemma keeps_map_prog: "(\<And>x. x \<in> set xs \<Longrightarrow> keeps P (f x)) \<Longrightarrow> keeps P (map_prog f xs)"
  by (induction xs) (auto intro!: keeps_intros)

lemma keeps_on_fst: "keeps P m \<Longrightarrow> keeps (\<lambda>s. P (fst s)) (on_fst m)"
  by (auto simp: keeps_def run_on_fst)

lemma keeps_on_snd: "keeps P m \<Longrightarrow> keeps (\<lambda>s. P (snd s)) (on_snd m)"
  by (auto simp: keeps_def run_on_snd)

lemma keeps_fst_on_snd: "keeps (\<lambda>s. P (fst s)) (on_snd m)"
  by (auto simp: keeps_def run_on_snd)

lemma keeps_snd_on_fst: "keeps (\<lambda>s. P (snd s)) (on_fst m)"
  by (auto simp: keeps_def run_on_fst)

section \<open>What a window writes\<close>

text \<open>The call of the writer for a group: its distilled candidate with its embedding, under the key of the group, the
  digest of its organisation, incident and event ids.\<close>

definition consolidation ::
  "textlib \<Rightarrow> (episode_group \<Rightarrow> cons_error + model_result) \<Rightarrow> (string \<Rightarrow> cons_error + real list) \<Rightarrow>
   episode_group \<Rightarrow> cons_error + candidate \<times> string" where
  "consolidation lib consolidate embedder g =
     bindE (consolidate g) (\<lambda>result.
     bindE (embedder (cand_trigger_desc (mr_candidate result))) (\<lambda>embedding.
     Inr ((mr_candidate result)\<lparr>cand_embedding := embedding\<rparr>,
       lib_sha256 lib (grp_org_id g @ '':'' @ grp_incident_id g @ '':'' @
         str_join ''|'' (sort (map ev_event_id (grp_episodes g)))))))"

text \<open>The writer's state after the groups have been written in turn, each call returning its mutation.\<close>

fun written ::
  "textlib \<Rightarrow> (candidate \<Rightarrow> string \<Rightarrow> ('r, cons_error, mutation) prog) \<Rightarrow>
   (episode_group \<Rightarrow> cons_error + model_result) \<Rightarrow> (string \<Rightarrow> cons_error + real list) \<Rightarrow>
   episode_group list \<Rightarrow> mutation list \<Rightarrow> 'r \<Rightarrow> 'r \<Rightarrow> bool" where
  "written lib put_runbook consolidate embedder [] ms r r' \<longleftrightarrow> ms = [] \<and> r' = r"
| "written lib put_runbook consolidate embedder (g # gs) ms r r' \<longleftrightarrow> (\<exists>c k m ms' r1. ms = m # ms' \<and>
     consolidation lib consolidate embedder g = Inr (c, k) \<and> put_runbook c k r = (Inr m, r1) \<and>
     written lib put_runbook consolidate embedder gs ms' r1 r')"

text \<open>The same of a window that stopped: some first groups have been written, and the writer may have been called once
  more, for the next.\<close>

definition partly_written where
  "partly_written lib put_runbook consolidate embedder gs r r' \<longleftrightarrow> (\<exists>before rest ms r1. gs = before @ rest \<and>
     written lib put_runbook consolidate embedder before ms r r1 \<and>
     (r' = r1 \<or> (\<exists>g others c k. rest = g # others \<and> consolidation lib consolidate embedder g = Inr (c, k) \<and>
       r' = snd (put_runbook c k r1))))"

lemma group_written:
  assumes "process_group lib archive put_runbook consolidate embedder g (s, r) = (q, (s', r'))"
  shows "case q of
     Inr m \<Rightarrow> (\<exists>c k. consolidation lib consolidate embedder g = Inr (c, k) \<and> put_runbook c k r = (Inr m, r'))
   | Inl _ \<Rightarrow> r' = r \<or> (\<exists>c k. consolidation lib consolidate embedder g = Inr (c, k) \<and> r' = snd (put_runbook c k r))"
  using assms unfolding process_group_def consolidation_def idempotency_key_def
  by (auto simp: run_andThen run_lift_result run_on_fst run_on_snd run_prog Let_def split: prod.splits sum.splits)
    (metis prod.collapse)?

lemma partly_written_first: "partly_written lib put_runbook consolidate embedder gs r r"
  unfolding partly_written_def by (intro exI [of _ "[]"] exI [of _ gs] exI [of _ r]) simp

lemma groups_written:
  "map_prog (process_group lib archive put_runbook consolidate embedder) gs (s, r) = (q, (s', r')) \<Longrightarrow>
   case q of Inr ms \<Rightarrow> written lib put_runbook consolidate embedder gs ms r r'
   | Inl _ \<Rightarrow> partly_written lib put_runbook consolidate embedder gs r r'"
proof (induction gs arbitrary: s r q)
  case Nil
  then show ?case by (auto simp: run_prog)
next
  case (Cons g gs)
  obtain p s1 r1 where one: "process_group lib archive put_runbook consolidate embedder g (s, r) = (p, (s1, r1))"
    using prod.exhaust by metis
  show ?case
  proof (cases p)
    case (Inl e)
    with Cons.prems one have "q = Inl e" "r' = r1" by (auto simp: run_andThen)
    with Inl group_written [OF one] have "r' = r \<or> (\<exists>c k. consolidation lib consolidate embedder g = Inr (c, k) \<and>
        r' = snd (put_runbook c k r))" by auto
    then have "partly_written lib put_runbook consolidate embedder (g # gs) r r'"
      unfolding partly_written_def by (intro exI [of _ "[]"] exI [of _ "g # gs"] exI [of _ r]) auto
    with \<open>q = Inl e\<close> show ?thesis by simp
  next
    case (Inr m)
    note first = group_written [OF one, unfolded Inr sum.case]
    obtain rest t where rest: "map_prog (process_group lib archive put_runbook consolidate embedder) gs (s1, r1) = (rest, t)"
      using prod.exhaust by metis
    with Cons.prems one Inr have t: "t = (s', r')" and q: "q = (case rest of Inl e \<Rightarrow> Inl e | Inr ms \<Rightarrow> Inr (m # ms))"
      by (auto simp: run_andThen run_prog split: sum.splits)
    note others = Cons.IH [OF rest [unfolded t]]
    show ?thesis
    proof (cases rest)
      case (Inl e)
      from first obtain c k where head: "consolidation lib consolidate embedder g = Inr (c, k)" "put_runbook c k r = (Inr m, r1)"
        by blast
      from others Inl obtain before later ms r2 where tail: "gs = before @ later"
          "written lib put_runbook consolidate embedder before ms r1 r2"
          "r' = r2 \<or> (\<exists>g others c k. later = g # others \<and> consolidation lib consolidate embedder g = Inr (c, k) \<and>
            r' = snd (put_runbook c k r2))"
        by (auto simp: partly_written_def)
      from head tail(2) have "written lib put_runbook consolidate embedder (g # before) (m # ms) r r2" by simp
      with tail(1,3) have "partly_written lib put_runbook consolidate embedder (g # gs) r r'"
        unfolding partly_written_def by (intro exI [of _ "g # before"] exI [of _ later] exI [of _ "m # ms"] exI [of _ r2]) simp
      with q Inl show ?thesis by simp
    qed (use first others q in auto)
  qed
qed

section \<open>Over any buffer\<close>

context window_store
begin

abbreviation run where "run \<equiv> process lib put read_through mark_processed archive"

lemma groups_keep_store:
  assumes "ok s"
  shows "ok (fst (snd (map_prog (process_group lib archive put_runbook consolidate embedder) gs (s, r))))"
    and "held (fst (snd (map_prog (process_group lib archive put_runbook consolidate embedder) gs (s, r)))) = held s"
proof -
  let ?P = "\<lambda>t. ok t \<and> held t = held s"
  have "keeps ?P (archive x k)" for x k by (auto intro!: keepsI simp: archive_ok archive_held)
  then have "keeps (\<lambda>t. ?P (fst t)) (process_group lib archive put_runbook consolidate embedder g)" for g
    unfolding process_group_def Let_def
    by (intro keeps_intros keeps_fst_on_snd keeps_on_fst)
  then have "keeps (\<lambda>t. ?P (fst t)) (map_prog (process_group lib archive put_runbook consolidate embedder) gs)"
    by (intro keeps_map_prog)
  from keepsD [OF this, of "(s, r)"] assms
  show "ok (fst (snd (map_prog (process_group lib archive put_runbook consolidate embedder) gs (s, r))))"
    and "held (fst (snd (map_prog (process_group lib archive put_runbook consolidate embedder) gs (s, r)))) = held s"
    by simp_all
qed

text \<open>Every message keeps the buffer sound, whether it is processed or raises.\<close>

lemma process_ok: "ok s \<Longrightarrow> (case m of Row e \<Rightarrow> fit e | Window _ \<Rightarrow> True) \<Longrightarrow> ok (fst (snd (run put_runbook consolidate embedder m (s, r))))"
proof -
  assume ok: "ok s" and fit: "case m of Row e \<Rightarrow> fit e | Window _ \<Rightarrow> True"
  have "fit e \<Longrightarrow> keeps ok (put e)" and "keeps ok (read_through w)" and "keeps ok (mark_processed es w)"
    and "keeps ok (archive x k)" for e w es x k
    by (auto intro!: keepsI put_ok mark_ok archive_ok read_ok)
  then have "keeps (\<lambda>t. ok (fst t)) (run put_runbook consolidate embedder m)"
    using fit unfolding process_def Let_def process_group_def
    by (cases m) (auto intro!: keeps_intros keeps_on_fst keeps_fst_on_snd keeps_map_prog)
  from keepsD [OF this, of "(s, r)"] ok show ?thesis by simp
qed

text \<open>A window: whatever stops it, an event leaves the buffer only when its incident is completed and all completed
  incidents have been written; one that is processed to its end leaves of these at most what the service kept.\<close>

lemma window_run:
  assumes "ok s" and "run put_runbook consolidate embedder (Window w) (s, r) = (res, (s', r'))"
  defines "events \<equiv> sort_key dec_key (filter (delivered (cw_watermark w)) (held s))"
  defines "groups \<equiv> group_completed_incidents lib events"
  defines "finished \<equiv> filter (\<lambda>e. ev_event_id e \<in> completed_event_ids groups) events"
  shows "ok s' \<and> (\<exists>gone \<subseteq> set finished. held s' = filter (\<lambda>e. e \<notin> gone) (held s) \<and>
     (case res of
       Inr x \<Rightarrow> pr_completed_groups x = length groups \<and> list_all kept (filter (\<lambda>e. e \<notin> gone) finished) \<and>
         written lib put_runbook consolidate embedder groups (pr_mutations x) r r'
     | Inl _ \<Rightarrow> (gone = {} \<and> partly_written lib put_runbook consolidate embedder groups r r') \<or>
         (\<exists>ms. written lib put_runbook consolidate embedder groups ms r r')))"
proof -
  obtain rd u where rd: "read_through (cw_watermark w) s = (rd, u)" by fastforce
  have u: "ok u" "held u = held s"
    using read_ok [OF assms(1), of "cw_watermark w"] read_held [of "cw_watermark w" s] rd by simp_all
  show ?thesis
  proof (cases rd)
    case (Inl e)
    with assms(2) rd have "res = Inl e" "s' = u" "r' = r" by (auto simp: process_def run_andThen run_on_fst)
    with u show ?thesis by (auto intro: partly_written_first intro!: exI [of _ "{}"])
  next
    case (Inr xs)
    with read_result [OF assms(1)] rd have xs: "xs = events" unfolding events_def by (metis fst_conv)
    obtain q v r1 where q: "map_prog (process_group lib archive put_runbook consolidate embedder) groups (u, r) = (q, (v, r1))"
      using prod.exhaust by metis
    note store = groups_keep_store [OF u(1), of put_runbook consolidate embedder groups r]
    from store q u have v: "ok v" "held v = held s" by simp_all
    note writes = groups_written [OF q]
    show ?thesis
    proof (cases q)
      case (Inl e)
      with assms(2) rd \<open>rd = Inr xs\<close> xs q have "res = Inl e" "s' = v" "r' = r1"
        by (auto simp: process_def run_andThen run_on_fst Let_def groups_def)
      with v writes Inl show ?thesis by (auto intro!: exI [of _ "{}"])
    next
      case (Inr ms)
      have sub: "set finished \<subseteq> set (held v)" by (auto simp: finished_def events_def v)
      obtain k t where mark: "mark_processed finished (cw_watermark w) v = (k, t)" by fastforce
      have ok: "ok t" using mark_ok [OF v(1)] mark by (metis snd_conv)
      have final: "res = (case k of Inl e \<Rightarrow> Inl e
          | Inr _ \<Rightarrow> Inr \<lparr>pr_buffered_events = 0, pr_completed_groups = length groups, pr_mutations = ms\<rparr>)"
        "s' = t" "r' = r1"
        using assms(2) rd \<open>rd = Inr xs\<close> xs q Inr mark
        by (auto simp: process_def run_andThen run_on_fst run_prog Let_def groups_def finished_def split: sum.splits)
      show ?thesis
      proof (cases k)
        case (Inl e)
        obtain gone where "gone \<subseteq> set finished" "held t = filter (\<lambda>e. e \<notin> gone) (held v)"
          using mark_held [OF v(1) sub, of "cw_watermark w"] mark by auto
        moreover have "\<exists>ms. written lib put_runbook consolidate embedder groups ms r r'"
          using writes \<open>q = Inr ms\<close> final(3) by auto
        ultimately show ?thesis using Inl final(1,2) ok v(2) by (intro conjI exI [of _ gone]) simp_all
      next
        case u: (Inr u)
        have "mark_processed finished (cw_watermark w) v = (Inr (), t)" using mark u by simp
        then obtain gone where "gone \<subseteq> set finished" "held t = filter (\<lambda>e. e \<notin> gone) (held v)"
          "\<And>e. e \<in> set finished \<Longrightarrow> e \<notin> gone \<Longrightarrow> kept e"
          by (rule mark_exact [OF v(1) sub]) blast
        then have "list_all kept (filter (\<lambda>e. e \<notin> gone) finished)" by (simp add: list_all_iff)
        moreover have "written lib put_runbook consolidate embedder groups ms r r1" using writes \<open>q = Inr ms\<close> by simp
        ultimately have "gone \<subseteq> set finished \<and> held s' = filter (\<lambda>e. e \<notin> gone) (held s) \<and>
            list_all kept (filter (\<lambda>e. e \<notin> gone) finished) \<and> written lib put_runbook consolidate embedder groups ms r r'"
          using \<open>gone \<subseteq> set finished\<close> \<open>held t = filter (\<lambda>e. e \<notin> gone) (held v)\<close> v(2) final by simp
        with u final(1,2) ok show ?thesis by (intro conjI exI [of _ gone]) simp_all
      qed
    qed
  qed
qed

text \<open>A window that is processed to the end, over a service that keeps nothing it is told to delete.\<close>

lemma window_result:
  assumes "ok s" and "run put_runbook consolidate embedder (Window w) (s, r) = (Inr res, (s', r'))" and "\<And>e. \<not> kept e"
  defines "events \<equiv> sort_key dec_key (filter (delivered (cw_watermark w)) (held s))"
  defines "groups \<equiv> group_completed_incidents lib events"
  shows "pr_completed_groups res = length groups \<and> length (pr_mutations res) = length groups \<and>
    held s' = filter (\<lambda>e. \<not> (e \<in> set events \<and> ev_event_id e \<in> completed_event_ids groups)) (held s)"
proof -
  have lengths: "written lib put_runbook consolidate embedder gs ms r r' \<Longrightarrow> length ms = length gs" for gs ms r
    by (induction gs arbitrary: ms r) auto
  let ?finished = "filter (\<lambda>e. ev_event_id e \<in> completed_event_ids groups) events"
  from window_run [OF assms(1,2)] obtain gone where gone: "gone \<subseteq> set ?finished" "held s' = filter (\<lambda>e. e \<notin> gone) (held s)"
      "pr_completed_groups res = length groups" "list_all kept (filter (\<lambda>e. e \<notin> gone) ?finished)"
      "written lib put_runbook consolidate embedder groups (pr_mutations res) r r'"
    unfolding events_def groups_def by auto
  from gone(4) assms(3) have "set ?finished \<subseteq> gone" by (auto simp: list_all_iff)
  with gone(1) have "gone = set ?finished" by blast
  then have "held s' = filter (\<lambda>e. \<not> (e \<in> set events \<and> ev_event_id e \<in> completed_event_ids groups)) (held s)"
    unfolding gone(2) by (intro filter_cong) auto
  with gone(3) lengths [OF gone(5)] show ?thesis by simp
qed

text \<open>The events of an incident with no outcome stay in the buffer, unless they share an id with
  an event of a completed one.\<close>

lemma incomplete_stays:
  assumes "ok s" and "run put_runbook consolidate embedder (Window w) (s, r) = (res, (s', r'))"
    and "e \<in> set (held s)"
    and "ev_event_id e \<notin> completed_event_ids (group_completed_incidents lib
      (sort_key dec_key (filter (delivered (cw_watermark w)) (held s))))"
  shows "e \<in> set (held s')"
  using window_run [OF assms(1,2)] assms(3,4) by auto

end

text \<open>The instances the code builds: the in-memory store with a writer.\<close>

definition memory_process where
  "memory_process lib = process lib (ws_put lib) ws_read_through (ws_mark_processed lib) ws_archive"

lemma memory_process_run: "memory_process lib = memory_store.run lib"
  by (simp add: memory_process_def)

end
