(* ===== verification/Cons_Handlers.thy ===== *)
theory Cons_Handlers
  imports Cons_Pipeline
begin

text \<open>
  The Lambda handlers (\<^verbatim>\<open>consolidation/postmortem_consolidation/handlers.py\<close>): the webhook that
  authenticates a changefeed call and forwards its messages to the FIFO queue in batches of ten, and
  the consumer that processes the records of a batch and reports which of them failed. The queue
  client and the processor are arguments.
\<close>

section \<open>The webhook\<close>

definition normalized_headers :: "textlib \<Rightarrow> (string \<times> pyval) list \<Rightarrow> (string, string) dict" where
  "normalized_headers lib headers =
     foldl (\<lambda>d (k, v). AList.update (str_lower k) (py_str (lib_render lib) v) d) [] headers"

definition request_secret :: "textlib \<Rightarrow> (string \<times> pyval) list \<Rightarrow> string" where
  "request_secret lib headers = (let normalized = normalized_headers lib headers;
       explicit = dict_get normalized ''x-postmortem-webhook-secret'' [] in
     if explicit \<noteq> [] then explicit
     else let authorization = dict_get normalized ''authorization'' [] in
       if starts_with ''bearer '' (str_lower authorization) then drop 7 authorization else [])"

record response =
  rsp_status :: nat
  rsp_body :: "(string \<times> pyval) list"

definition respond :: "nat \<Rightarrow> (string \<times> pyval) list \<Rightarrow> response" where
  "respond status body = \<lparr>rsp_status = status, rsp_body = body\<rparr>"

record entry =
  en_id :: string
  en_body :: string
  en_group :: string
  en_deduplication_id :: string

definition entry_of :: "textlib \<Rightarrow> nat \<times> queue_message \<Rightarrow> entry" where
  "entry_of lib = (\<lambda>(i, m). \<lparr>en_id = ''m'' @ nat_str i @ ''-'' @ take 8 (deduplication_id lib m),
     en_body = lib_json_text lib (PDict (message_to_dict lib m)),
     en_group = ''postmortem-consolidation'', en_deduplication_id = deduplication_id lib m\<rparr>)"

text \<open>The slices \<open>messages[start:start + 10]\<close>.\<close>

function chunks :: "nat \<Rightarrow> 'a list \<Rightarrow> 'a list list" where
  "chunks n xs = (if n = 0 \<or> xs = [] then [] else take n xs # chunks n (drop n xs))"
  by pat_completeness auto

termination
  by (relation "measure (\<lambda>(_, xs). length xs)") auto

declare chunks.simps [simp del]

text \<open>\<open>hmac.compare_digest\<close> on texts accepts ASCII only.\<close>

definition ascii :: "string \<Rightarrow> bool" where
  "ascii s \<longleftrightarrow> (\<forall>c \<in> set s. (of_char c :: nat) < 128)"

fun send_all :: "(entry list \<Rightarrow> ('q, cons_error, pyval list) prog) \<Rightarrow> entry list list \<Rightarrow>
    ('q, cons_error, nat) prog" where
  "send_all send [] = ret 0"
| "send_all send (es # ess) =
     andThen (send es) (\<lambda>failed.
     andThen (require (failed = []) (RuntimeError (''SQS rejected '' @ nat_str (length failed) @
        '' changefeed messages''))) (\<lambda>_.
     andThen (send_all send ess) (\<lambda>n. ret (length es + n))))"

text \<open>The body of the request: its JSON text, possibly base64.\<close>

definition request_body :: "(string \<Rightarrow> cons_error + string) \<Rightarrow> (string \<times> pyval) list \<Rightarrow> cons_error + pyval" where
  "request_body base64 event = (let encoded = py_or (pget event ''body'') (PStr ''{}'') in
     if py_truthy (pget event ''isBase64Encoded'')
     then bindE (needE (TypeError ''not text'') (py_as_str encoded)) (\<lambda>s. bindE (base64 s) (\<lambda>t. Inr (PStr t)))
     else Inr encoded)"

definition parse_request :: "textlib \<Rightarrow> pyval \<Rightarrow> cons_error + queue_message list" where
  "parse_request lib encoded =
     bindE (needE (TypeError ''the JSON object must be str'') (py_as_str encoded)) (\<lambda>s.
     bindE (needE (ValueError ''invalid JSON'') (lib_json lib s)) (parse_changefeed_body lib))"

definition client_error :: "cons_error \<Rightarrow> bool" where
  "client_error e \<longleftrightarrow> (case e of ValueError _ \<Rightarrow> True | TypeError _ \<Rightarrow> True | _ \<Rightarrow> False)"

definition receive_changefeed ::
  "textlib \<Rightarrow> (string \<Rightarrow> cons_error + string) \<Rightarrow> (entry list \<Rightarrow> ('q, cons_error, pyval list) prog) \<Rightarrow>
   string \<Rightarrow> (string \<times> pyval) list \<Rightarrow> ('q, cons_error, response) prog" where
  "receive_changefeed lib base64 send expected event =
     andThen (the_or (AttributeError ''items'') (as_dict (py_or (pget event ''headers'') (PDict [])))) (\<lambda>headers.
     let supplied = request_secret lib headers in
     if supplied = [] then ret (respond 401 [(''error'', PStr ''invalid webhook credential'')])
     else andThen (require (ascii supplied \<and> ascii expected)
         (TypeError ''comparing strings with non-ASCII characters is not supported'')) (\<lambda>_.
       if supplied \<noteq> expected then ret (respond 401 [(''error'', PStr ''invalid webhook credential'')])
       else andThen (lift_result (request_body base64 event)) (\<lambda>encoded.
         case parse_request lib encoded of
           Inl e \<Rightarrow> if client_error e then ret (respond 400 [(''error'', PStr ''bad request'')]) else raise e
         | Inr messages \<Rightarrow>
             andThen (send_all send (chunks 10 (map (entry_of lib) (List.enumerate 0 messages)))) (\<lambda>accepted.
             ret (respond 202 [(''accepted'', PInt (int accepted))])))))"

section \<open>The consumer\<close>

definition record_identifier :: "textlib \<Rightarrow> nat \<Rightarrow> (string \<times> pyval) list \<Rightarrow> string" where
  "record_identifier lib i r = py_str (lib_render lib) (py_or (pget r ''messageId'') (PInt (int i)))"

definition record_message :: "textlib \<Rightarrow> (string \<times> pyval) list \<Rightarrow> cons_error + queue_message" where
  "record_message lib r =
     bindE (needE (KeyError ''body'') (map_of r ''body'')) (\<lambda>body.
     bindE (needE (TypeError ''the JSON object must be str'') (py_as_str body)) (\<lambda>s.
     bindE (needE (ValueError ''invalid JSON'') (lib_json lib s)) (\<lambda>v.
     bindE (needE (AttributeError ''get'') (as_dict v)) (parse_queue_message lib))))"

text \<open>One record of the batch: its message, processed.\<close>

definition process_record ::
  "textlib \<Rightarrow> (queue_message \<Rightarrow> ('s, cons_error, processing_result) prog) \<Rightarrow> (string \<times> pyval) list \<Rightarrow>
   ('s, cons_error, processing_result) prog" where
  "process_record lib proc r = andThen (lift_result (record_message lib r)) proc"

text \<open>The loop: the first failure fails its record and every later one, and ends the batch.\<close>

fun handle_records ::
  "textlib \<Rightarrow> (queue_message \<Rightarrow> ('s, cons_error, processing_result) prog) \<Rightarrow> nat \<Rightarrow>
   (string \<times> pyval) list list \<Rightarrow> 's \<Rightarrow> string list \<times> 's" where
  "handle_records lib proc i [] s = ([], s)"
| "handle_records lib proc i (r # rs) s = (case process_record lib proc r s of
     (Inr _, s') \<Rightarrow> handle_records lib proc (Suc i) rs s'
   | (Inl _, s') \<Rightarrow> (map (\<lambda>(j, x). record_identifier lib j x) (List.enumerate i (r # rs)), s'))"

text \<open>An event without records closes the window at the current time.\<close>

datatype handler_output = Scheduled nat "string list" | Batch_failures "string list"

definition consolidator_handler ::
  "textlib \<Rightarrow> (queue_message \<Rightarrow> ('s, cons_error, processing_result) prog) \<Rightarrow> int \<Rightarrow>
   (string \<times> pyval) list list option \<Rightarrow> ('s, cons_error, handler_output) prog" where
  "consolidator_handler lib proc now records = (case records of
     None \<Rightarrow> andThen (proc (Window \<lparr>cw_watermark = Finite (wall_time_ns now) 0\<rparr>)) (\<lambda>result.
       ret (Scheduled (pr_completed_groups result) (map mut_operation (pr_mutations result))))
   | Some rs \<Rightarrow> (\<lambda>s. let (failures, s') = handle_records lib proc 0 rs s in (Inr (Batch_failures failures), s')))"

section \<open>What holds of them\<close>

lemma concat_chunks: "0 < n \<Longrightarrow> concat (chunks n xs) = xs"
  by (induction n xs rule: chunks.induct) (simp add: chunks.simps [of n xs for n xs])

lemma chunks_sizes: "es \<in> set (chunks n xs) \<Longrightarrow> 0 < length es \<and> length es \<le> n"
proof (induction n xs rule: chunks.induct)
  case (1 n xs)
  then show ?case by (cases "n = 0 \<or> xs = []") (auto simp: chunks.simps [of n xs])
qed

text \<open>A client that records the batches it is sent, and rejects as it likes.\<close>

definition recording :: "(entry list list \<Rightarrow> entry list \<Rightarrow> pyval list) \<Rightarrow> entry list \<Rightarrow>
    (entry list list, cons_error, pyval list) prog" where
  "recording reject es = (\<lambda>sent. (Inr (reject sent es), sent @ [es]))"

lemma send_all_recording:
  "send_all (recording reject) ess sent = (Inr n, sent') \<Longrightarrow> sent' = sent @ ess \<and> n = length (concat ess)"
proof (induction ess arbitrary: sent n)
  case Nil
  then show ?case by (simp add: run_prog)
next
  case (Cons es ess)
  have step: "send_all (recording reject) (es # ess) sent = (if reject sent es = []
      then andThen (send_all (recording reject) ess) (\<lambda>n. ret (length es + n)) (sent @ [es])
      else (Inl (RuntimeError (''SQS rejected '' @ nat_str (length (reject sent es)) @
        '' changefeed messages'')), sent @ [es]))"
    by (simp add: run_andThen recording_def run_require)
  have run: "andThen (send_all (recording reject) ess) (\<lambda>n. ret (length es + n)) (sent @ [es]) = (Inr n, sent')"
    using Cons.prems unfolding step by (simp split: if_splits)
  then obtain m where "send_all (recording reject) ess (sent @ [es]) = (Inr m, sent')"
    and n: "n = length es + m"
    by (rule andThen_Inr) (auto simp: run_prog)
  from Cons.IH [OF this(1)] n show ?case by simp
qed

lemma handle_records_split:
  "\<exists>k s1. k \<le> length rs \<and> s1 = snd (map_prog (process_record lib proc) (take k rs) s) \<and>
    (\<exists>xs. fst (map_prog (process_record lib proc) (take k rs) s) = Inr xs) \<and>
    (if k = length rs then handle_records lib proc i rs s = ([], s1)
     else (\<exists>e. fst (process_record lib proc (rs ! k) s1) = Inl e) \<and>
       handle_records lib proc i rs s =
         (map (\<lambda>(j, x). record_identifier lib j x) (drop k (List.enumerate i rs)),
          snd (process_record lib proc (rs ! k) s1)))"
proof (induction rs arbitrary: i s)
  case Nil
  show ?case by (intro exI [of _ 0]) (simp add: run_prog)
next
  case (Cons r rs)
  obtain q s' where run: "process_record lib proc r s = (q, s')" by fastforce
  show ?case
  proof (cases q)
    case (Inl e)
    with run show ?thesis by (intro exI [of _ 0]) (simp add: run_prog)
  next
    case (Inr x)
    from Cons [of s' "Suc i"] obtain k s1 where k: "k \<le> length rs"
      "s1 = snd (map_prog (process_record lib proc) (take k rs) s')"
      "\<exists>xs. fst (map_prog (process_record lib proc) (take k rs) s') = Inr xs"
      "if k = length rs then handle_records lib proc (Suc i) rs s' = ([], s1)
       else (\<exists>e. fst (process_record lib proc (rs ! k) s1) = Inl e) \<and>
         handle_records lib proc (Suc i) rs s' =
           (map (\<lambda>(j, x). record_identifier lib j x) (drop k (List.enumerate (Suc i) rs)),
            snd (process_record lib proc (rs ! k) s1))" by blast
    have m: "map_prog (process_record lib proc) (take (Suc k) (r # rs)) s =
        (case map_prog (process_record lib proc) (take k rs) s' of (Inl e, t) \<Rightarrow> (Inl e, t)
          | (Inr xs, t) \<Rightarrow> (Inr (x # xs), t))"
      using run Inr by (simp add: run_andThen run_prog split: prod.split sum.split)
    from k(3) obtain xs where "map_prog (process_record lib proc) (take k rs) s' = (Inr xs, s1)"
      using k(2) by (metis prod.collapse)
    with m have M: "map_prog (process_record lib proc) (take (Suc k) (r # rs)) s = (Inr (x # xs), s1)" by simp
    have H: "handle_records lib proc i (r # rs) s = handle_records lib proc (Suc i) rs s'"
      using run Inr by simp
    show ?thesis
    proof (intro exI [of _ "Suc k"] exI [of _ s1] conjI)
      show "if Suc k = length (r # rs) then handle_records lib proc i (r # rs) s = ([], s1)
         else (\<exists>e. fst (process_record lib proc ((r # rs) ! Suc k) s1) = Inl e) \<and>
           handle_records lib proc i (r # rs) s =
             (map (\<lambda>(j, x). record_identifier lib j x) (drop (Suc k) (List.enumerate i (r # rs))),
              snd (process_record lib proc ((r # rs) ! Suc k) s1))"
        using k(4) unfolding H by simp
    qed (use k(1) M in auto)
  qed
qed

end
