(* ===== verification/Cons_Claims.thy ===== *)
theory Cons_Claims
  imports Cons_Handlers
begin

text \<open>
  The properties of the consolidation pipeline: the wire format and the webhook, grouping, the
  processing of a window and its replay, the life cycle of runbooks under both writers, the models,
  and the consumer. A small concrete text library serves the instances.
\<close>

section \<open>A concrete text library\<close>

definition int_of_str :: "string \<Rightarrow> int" where
  "int_of_str s = (case s of [] \<Rightarrow> 0 | c # cs \<Rightarrow>
     if c = CHR ''-'' then - int (nat_of_str cs) else int (nat_of_str s))"

lemma minus_not_digit [simp]: "\<not> is_digit (CHR ''-'')"
  by (simp add: is_digit_def)

lemma int_of_str_int_str [simp]: "int_of_str (int_str i) = i"
proof (cases "i < 0")
  case False
  obtain c cs where cs: "nat_str (nat i) = c # cs" using nat_str_nonempty by (metis neq_Nil_conv)
  then have "c \<noteq> CHR ''-''" using nat_str_digits [of c "nat i"] minus_not_digit by auto
  with False cs have "int_of_str (int_str i) = int (nat_of_str (nat_str (nat i)))"
    by (simp add: int_of_str_def int_str_def)
  with False show ?thesis by simp
qed (simp add: int_of_str_def int_str_def)

lemma int_str_chars: "c \<in> set (int_str i) \<Longrightarrow> is_digit c \<or> c = CHR ''-''"
  by (auto simp: int_str_def dest: nat_str_digits split: if_splits)

lemma int_str_nonempty [simp]: "int_str i \<noteq> []"
  by (simp add: int_str_def)

fun plain_decimal_text :: "decimal \<Rightarrow> string" where
  "plain_decimal_text (Finite c e) = int_str c @ ''E'' @ int_str e"
| "plain_decimal_text (Infinite neg) = (if neg then ''-Infinity'' else ''Infinity'')"
| "plain_decimal_text NotANumber = ''NaN''"

definition plain_decimal :: "string \<Rightarrow> decimal option" where
  "plain_decimal s = (if s = ''NaN'' then Some NotANumber
     else if s = ''Infinity'' then Some (Infinite False)
     else if s = ''-Infinity'' then Some (Infinite True)
     else if CHR ''E'' \<in> set s then
       (let a = takeWhile (\<lambda>x. x \<noteq> CHR ''E'') s in
        Some (Finite (int_of_str a) (int_of_str (drop (Suc (length a)) s))))
     else None)"

lemma plain_decimal_roundtrip: "plain_decimal (plain_decimal_text d) = Some d"
proof (cases d)
  case (Finite c e)
  let ?s = "int_str c @ ''E'' @ int_str e"
  have noE: "CHR ''E'' \<notin> set (int_str c)" using int_str_chars [of "CHR ''E''" c] by (auto simp: is_digit_def)
  then have tw: "takeWhile (\<lambda>x. x \<noteq> CHR ''E'') ?s = int_str c" by (subst takeWhile_append2) auto
  have mem: "CHR ''E'' \<in> set ?s" by simp
  have "CHR ''E'' \<notin> set ''NaN''" "CHR ''E'' \<notin> set ''Infinity''" "CHR ''E'' \<notin> set ''-Infinity''" by simp_all
  with mem have "?s \<noteq> ''NaN''" "?s \<noteq> ''Infinity''" "?s \<noteq> ''-Infinity''" by metis+
  with mem show ?thesis unfolding Finite plain_decimal_text.simps plain_decimal_def
    by (simp only: if_False if_True tw Let_def) simp
qed (simp_all add: plain_decimal_def)

definition plain_textlib :: textlib where
  "plain_textlib = \<lparr>lib_iso = (\<lambda>s. Some (int_of_str s, Some 0)), lib_iso_text = int_str,
     lib_decimal = plain_decimal, lib_decimal_text = plain_decimal_text,
     lib_json = (\<lambda>s. if s = ''window'' then Some (PDict [(''resolved'', PStr ''5E0'')]) else None), lib_json_text = (\<lambda>v. ''{}''), lib_sha256 = (\<lambda>s. s),
     lib_render = (\<lambda>v. ''?'')\<rparr>"

lemma plain_decimal_text_nonempty: "plain_decimal_text d \<noteq> []"
  by (cases d) auto

lemma plain_textlib_roundtrip: "text_roundtrip plain_textlib"
proof -
  have "CHR ''Z'' \<notin> set (int_str t)" for t
    using int_str_chars [of "CHR ''Z''" t] by (auto simp: is_digit_def)
  then show ?thesis
    by (simp add: text_roundtrip_def plain_textlib_def plain_decimal_roundtrip plain_decimal_text_nonempty)
qed

text \<open>One history of two events, complete at its second.\<close>

definition sample_event :: "string \<Rightarrow> string \<Rightarrow> int \<Rightarrow> change_event" where
  "sample_event i kind t = \<lparr>ev_event_id = i, ev_org_id = ''o'', ev_agent_id = ''a'', ev_incident_id = ''n'',
     ev_service_id = ''s'', ev_event_type = kind, ev_content = ''hot'', ev_occurred_at = t,
     ev_updated_at = Finite t 0, ev_metadata = [(''outcome'', PStr ''resolved'')]\<rparr>"

definition sample_events :: "change_event list" where
  "sample_events = [sample_event ''e1'' ''alert'' 1, sample_event ''e2'' ''outcome'' 2]"

section \<open>The wire\<close>

text \<open>C40. Every message the webhook accepts survives the queue: writing it as a dictionary and
  parsing it back gives the same message, whenever the library's instants and decimals read back
  as printed.\<close>

theorem cons_queue_roundtrip:
  assumes "text_roundtrip lib" and "parse_changefeed_body lib body = Inr messages"
    and "m \<in> set messages"
  shows "parse_queue_message lib (message_to_dict lib m) = Inr m"
proof (rule message_roundtrip [OF assms(1)])
  show "case m of Row e \<Rightarrow> proper_event e | Window w \<Rightarrow> True"
    using assms(2,3) by (auto split: queue_message.split intro: changefeed_proper)
qed

lemma five_text: "plain_decimal_text (Finite 5 0) = ''5E0''"
  by (simp add: int_str_def nat_str.simps digit_char_def) code_simp

lemma plain_parse: "parse_changefeed_body plain_textlib (PDict [(''resolved'', PStr ''5E0'')]) =
    Inr [Window \<lparr>cw_watermark = Finite 5 0\<rparr>]"
proof -
  have five: "plain_decimal ''5E0'' = Some (Finite 5 0)"
    using plain_decimal_roundtrip [of "Finite 5 0"] by (simp only: five_text)
  show ?thesis
    by (simp add: parse_changefeed_body_def dict_get_def parse_changefeed_item_def pget_def
        window_from_changefeed_def parse_change_timestamp_def plain_textlib_def five)
qed

theorem cons_queue_roundtrip_witness:
  "parse_queue_message plain_textlib (message_to_dict plain_textlib (Window \<lparr>cw_watermark = Finite 5 0\<rparr>)) =
   Inr (Window \<lparr>cw_watermark = Finite 5 0\<rparr>)"
  by (rule cons_queue_roundtrip [OF plain_textlib_roundtrip plain_parse]) simp

text \<open>The authenticated part of the webhook.\<close>

definition accept_body ::
  "textlib \<Rightarrow> (entry list \<Rightarrow> ('q, cons_error, pyval list) prog) \<Rightarrow> pyval \<Rightarrow> ('q, cons_error, response) prog" where
  "accept_body lib send encoded = (case parse_request lib encoded of
     Inl e \<Rightarrow> if client_error e then ret (respond 400 [(''error'', PStr ''bad request'')]) else raise e
   | Inr messages \<Rightarrow>
       andThen (send_all send (chunks 10 (map (entry_of lib) (List.enumerate 0 messages)))) (\<lambda>accepted.
       ret (respond 202 [(''accepted'', PInt (int accepted))])))"

lemma receiver_cases:
  assumes "receive_changefeed lib base64 send expected event q = (res, q')"
  obtains (refused) "q' = q" and "\<And>r. res = Inr r \<Longrightarrow> rsp_status r = 401"
  | (accepted) headers encoded where "as_dict (py_or (pget event ''headers'') (PDict [])) = Some headers"
      and "request_secret lib headers = expected" and "expected \<noteq> []"
      and "request_body base64 event = Inr encoded" and "accept_body lib send encoded q = (res, q')"
proof (cases "\<exists>headers encoded. as_dict (py_or (pget event ''headers'') (PDict [])) = Some headers \<and>
    request_secret lib headers = expected \<and> expected \<noteq> [] \<and> ascii expected \<and>
    request_body base64 event = Inr encoded")
  case True
  then obtain headers encoded where h: "as_dict (py_or (pget event ''headers'') (PDict [])) = Some headers"
    "request_secret lib headers = expected" "expected \<noteq> []" "ascii expected"
    "request_body base64 event = Inr encoded" by blast
  then have "accept_body lib send encoded q = (res, q')"
    using assms by (simp add: receive_changefeed_def run_andThen run_the_or Let_def run_require
        run_lift_result accept_body_def)
  with h accepted show thesis by blast
next
  case False
  have "q' = q \<and> (\<forall>r. res = Inr r \<longrightarrow> rsp_status r = 401)"
  proof (cases "as_dict (py_or (pget event ''headers'') (PDict []))")
    case None
    with assms show ?thesis by (auto simp: receive_changefeed_def run_andThen run_the_or)
  next
    case (Some headers)
    show ?thesis
    proof (cases "request_secret lib headers = expected \<and> expected \<noteq> [] \<and> ascii expected")
      case True
      with False Some obtain e where "request_body base64 event = Inl e"
        by (cases "request_body base64 event") auto
      with True Some assms show ?thesis
        by (auto simp: receive_changefeed_def run_andThen run_the_or Let_def run_require run_lift_result)
    next
      case False
      with Some assms show ?thesis
        by (auto simp: receive_changefeed_def run_andThen run_the_or Let_def run_require run_prog
            respond_def split: if_splits)
    qed
  qed
  with refused show thesis by blast
qed

text \<open>A webhook call that is answered 202 has sent every message of its body to the queue, in
  order and once, in batches of one to ten, and reports their number.\<close>

theorem cons_receiver_accepts:
  assumes "receive_changefeed lib base64 (recording reject) expected event sent = (Inr r, sent')"
    and "rsp_status r = 202"
  shows "\<exists>encoded messages batches. request_body base64 event = Inr encoded \<and>
    parse_request lib encoded = Inr messages \<and> sent' = sent @ batches \<and>
    concat batches = map (entry_of lib) (List.enumerate 0 messages) \<and>
    list_all (\<lambda>es. 0 < length es \<and> length es \<le> 10) batches \<and>
    rsp_body r = [(''accepted'', PInt (int (length messages)))]"
  using assms(1)
proof (cases rule: receiver_cases)
  case refused
  with assms(2) show ?thesis by auto
next
  case (accepted headers encoded)
  then obtain messages where msgs: "parse_request lib encoded = Inr messages"
    using assms(2) by (auto simp: accept_body_def run_prog respond_def split: sum.splits if_splits)
  let ?batches = "chunks 10 (map (entry_of lib) (List.enumerate 0 messages))"
  from accepted msgs obtain n where snd_all: "send_all (recording reject) ?batches sent = (Inr n, sent')"
    and r: "r = respond 202 [(''accepted'', PInt (int n))]"
    by (auto simp: accept_body_def run_prog elim!: andThen_Inr)
  from send_all_recording [OF snd_all] accepted msgs r show ?thesis
    by (intro exI [of _ encoded] exI [of _ messages] exI [of _ ?batches])
       (auto simp: concat_chunks respond_def list_all_iff dest: chunks_sizes)
qed

definition sample_call :: "(string \<times> pyval) list" where
  "sample_call = [(''headers'', PDict [(''Authorization'', PStr ''Bearer k'')]), (''body'', PStr ''window'')]"

lemma sample_secret: "request_secret plain_textlib [(''Authorization'', PStr ''Bearer k'')] = ''k''"
  by code_simp

lemma sample_call_run:
  obtains sent' where "receive_changefeed plain_textlib Inr (recording (\<lambda>_ _. [])) ''k'' sample_call [] =
    (Inr (respond 202 [(''accepted'', PInt 1)]), sent')" and "sent' \<noteq> []"
proof -
  have parse: "parse_request plain_textlib (PStr ''window'') = Inr [Window \<lparr>cw_watermark = Finite 5 0\<rparr>]"
    using plain_parse by (simp add: parse_request_def plain_textlib_def)
  obtain sent' where "receive_changefeed plain_textlib Inr (recording (\<lambda>_ _. [])) ''k'' sample_call [] =
      (Inr (respond 202 [(''accepted'', PInt 1)]), sent')" "sent' \<noteq> []"
    by (simp add: receive_changefeed_def run_andThen run_the_or Let_def run_require run_lift_result
        request_body_def pget_def dict_get_def py_or_def sample_secret parse ascii_def recording_def run_prog
        chunks.simps of_char_def sample_call_def)
  then show thesis by (rule that)
qed

theorem cons_receiver_accepts_witness:
  "\<exists>r sent'. receive_changefeed plain_textlib Inr (recording (\<lambda>_ _. [])) ''k'' sample_call [] = (Inr r, sent') \<and>
     list_all (\<lambda>es. length es \<le> 10) sent'"
proof (rule sample_call_run)
  fix sent' assume run: "receive_changefeed plain_textlib Inr (recording (\<lambda>_ _. [])) ''k'' sample_call [] =
    (Inr (respond 202 [(''accepted'', PInt 1)]), sent')"
  from cons_receiver_accepts [OF run] run show ?thesis
    by (auto simp: respond_def list_all_iff)
qed

text \<open>A webhook call reaches the queue only with the expected, non-empty secret in its headers:
  if anything was sent, the call was authenticated.\<close>

theorem cons_receiver_authenticated:
  assumes "snd (receive_changefeed lib base64 send expected event q) \<noteq> q"
  shows "\<exists>headers. as_dict (py_or (pget event ''headers'') (PDict [])) = Some headers \<and>
    request_secret lib headers = expected \<and> expected \<noteq> []"
proof (cases rule: receiver_cases [of lib base64 send expected event q,
      OF prod.collapse [symmetric], case_names refused accepted])
  case refused
  with assms show ?thesis by simp
next
  case (accepted headers encoded)
  then show ?thesis by blast
qed

theorem cons_receiver_authenticated_witness:
  "\<exists>headers. as_dict (py_or (pget sample_call ''headers'') (PDict [])) = Some headers \<and>
     request_secret plain_textlib headers = ''k'' \<and> ''k'' \<noteq> []"
proof (rule sample_call_run)
  fix sent'
  assume "receive_changefeed plain_textlib Inr (recording (\<lambda>_ _. [])) ''k'' sample_call [] =
    (Inr (respond 202 [(''accepted'', PInt 1)]), sent')" and "sent' \<noteq> []"
  then have "snd (receive_changefeed plain_textlib Inr (recording (\<lambda>_ _. [])) ''k'' sample_call []) \<noteq> []" by simp
  then show ?thesis by (rule cons_receiver_authenticated)
qed

section \<open>Grouping\<close>

text \<open>The outcome a history reports, said of its last outcome event.\<close>

definition reports :: "textlib \<Rightarrow> change_event list \<Rightarrow> runbook_outcome \<Rightarrow> bool" where
  "reports lib es r \<longleftrightarrow> (\<exists>pre e post. es = pre @ e # post \<and> ev_event_type e = ''outcome'' \<and>
     list_all (\<lambda>x. ev_event_type x \<noteq> ''outcome'') post \<and>
     (str_lower (py_str (lib_render lib) (dict_get (ev_metadata e) ''outcome'' (PStr []))), r) \<in>
       {(''success'', Success), (''resolved'', Success), (''failed'', Failed), (''failure'', Failed),
        (''no_effect'', No_effect), (''no-effect'', No_effect)})"

lemma last_split:
  assumes "es = pre @ e # post" "P e" "list_all (\<lambda>x. \<not> P x) post"
  shows "filter P es = filter P pre @ [e]"
  using assms by (simp add: list_all_iff filter_empty_conv)

lemma last_splitE:
  assumes "filter P es \<noteq> []"
  obtains pre post where "es = pre @ last (filter P es) # post" "P (last (filter P es))" "list_all (\<lambda>x. \<not> P x) post"
  using assms
proof (induction es arbitrary: thesis rule: rev_induct)
  case (snoc x es)
  show ?case
  proof (cases "P x")
    case True
    then show ?thesis by (intro snoc.prems(1) [of es "[]"]) simp_all
  next
    case False
    with snoc.prems(2) have "filter P es \<noteq> []" by simp
    then obtain pre post where "es = pre @ last (filter P es) # post" "P (last (filter P es))" "list_all (\<lambda>x. \<not> P x) post"
      using snoc.IH by blast
    with False show ?thesis by (intro snoc.prems(1) [of pre "post @ [x]"]) simp_all
  qed
qed simp

lemma outcome_for_word:
  "outcome_for lib es = Some r \<longleftrightarrow> filter (\<lambda>e. ev_event_type e = ''outcome'') es \<noteq> [] \<and>
     (outcome_word lib (last (filter (\<lambda>e. ev_event_type e = ''outcome'') es)), r) \<in>
       {(''success'', Success), (''resolved'', Success), (''failed'', Failed), (''failure'', Failed),
        (''no_effect'', No_effect), (''no-effect'', No_effect)}"
  by (cases "filter (\<lambda>e. ev_event_type e = ''outcome'') es") (auto simp: outcome_for_def Let_def)

lemma outcome_for_reports: "outcome_for lib es = Some r \<longleftrightarrow> reports lib es r"
proof
  assume "outcome_for lib es = Some r"
  note word = this [unfolded outcome_for_word]
  show "reports lib es r"
    by (rule last_splitE [OF word [THEN conjunct1]])
      (use word in \<open>unfold reports_def outcome_word_def, blast\<close>)
next
  assume "reports lib es r"
  then obtain pre e post where split: "es = pre @ e # post" "ev_event_type e = ''outcome''"
      "list_all (\<lambda>x. ev_event_type x \<noteq> ''outcome'') post"
    and word: "(outcome_word lib e, r) \<in> {(''success'', Success), (''resolved'', Success), (''failed'', Failed),
      (''failure'', Failed), (''no_effect'', No_effect), (''no-effect'', No_effect)}"
    unfolding reports_def outcome_word_def by blast
  have "filter (\<lambda>e. ev_event_type e = ''outcome'') es = filter (\<lambda>e. ev_event_type e = ''outcome'') pre @ [e]"
    by (rule last_split [OF split])
  with word show "outcome_for lib es = Some r" unfolding outcome_for_word by simp
qed

text \<open>C27. Grouping is exact. The keys of the groups are strictly ordered, so there is one group for a key, and a pair of
  organisation and incident has one exactly when its history - its events, ordered by time and id - reports an outcome:
  the last outcome event of the history (none follows it) names success or resolved, failed or failure, no_effect or
  no-effect in its metadata, in any case. The group of a key holds that history, has the agent and the service of its
  first event, and the outcome it reports.\<close>

theorem cons_grouping_exact:
  "let groups = group_completed_incidents lib events; keys = map (\<lambda>g. (grp_org_id g, grp_incident_id g)) groups;
     history = (\<lambda>k. sort_key (\<lambda>e. (ev_occurred_at e, ev_event_id e))
       (filter (\<lambda>e. (ev_org_id e, ev_incident_id e) = k) events)) in
   sorted_wrt (<) keys \<and> (\<forall>k. k \<in> set keys \<longleftrightarrow> (\<exists>r. reports lib (history k) r)) \<and>
   list_all (\<lambda>g. grp_episodes g = history (grp_org_id g, grp_incident_id g) \<and> reports lib (grp_episodes g) (grp_outcome g) \<and>
     (\<exists>first others. grp_episodes g = first # others \<and> grp_agent_id g = ev_agent_id first \<and>
        grp_service_id g = ev_service_id first)) groups"
proof -
  let ?groups = "group_completed_incidents lib events" and ?keys = "incident_key ` set events"
  have hist: "sort_key (\<lambda>e. (ev_occurred_at e, ev_event_id e)) (filter (\<lambda>e. (ev_org_id e, ev_incident_id e) = k) events) =
      in_order (events_of events k)" for k
    by (simp add: in_order_def events_of_def incident_key_def)
  have keys: "map (\<lambda>g. (grp_org_id g, grp_incident_id g)) ?groups =
      filter (\<lambda>k. outcome_for lib (in_order (events_of events k)) \<noteq> None) (sorted_list_of_set ?keys)"
    by (rule group_keys)
  have none: "outcome_for lib (in_order (events_of events k)) = None" if "k \<notin> ?keys" for k
  proof -
    from that have "events_of events k = []" by (auto simp: events_of_def filter_empty_conv)
    then have "in_order (events_of events k) = []" by (simp add: in_order_def)
    then show ?thesis by (simp add: outcome_for_def)
  qed
  have "sorted_wrt (<) (map (\<lambda>g. (grp_org_id g, grp_incident_id g)) ?groups)"
    unfolding keys by (rule sorted_wrt_filter) simp
  moreover have "k \<in> set (map (\<lambda>g. (grp_org_id g, grp_incident_id g)) ?groups) \<longleftrightarrow>
      (\<exists>r. reports lib (in_order (events_of events k)) r)" for k
    unfolding keys outcome_for_reports [symmetric] using none [of k] by (cases "k \<in> ?keys") simp_all
  moreover have "list_all (\<lambda>g. grp_episodes g = in_order (events_of events (grp_org_id g, grp_incident_id g)) \<and>
      reports lib (grp_episodes g) (grp_outcome g) \<and>
      (\<exists>first others. grp_episodes g = first # others \<and> grp_agent_id g = ev_agent_id first \<and>
        grp_service_id g = ev_service_id first)) ?groups"
    unfolding list_all_iff
  proof
    fix g assume "g \<in> set ?groups"
    from group_member [OF this] show "grp_episodes g = in_order (events_of events (grp_org_id g, grp_incident_id g)) \<and>
      reports lib (grp_episodes g) (grp_outcome g) \<and>
      (\<exists>first others. grp_episodes g = first # others \<and> grp_agent_id g = ev_agent_id first \<and>
        grp_service_id g = ev_service_id first)"
      unfolding outcome_for_reports by (metis list.collapse)
  qed
  ultimately show ?thesis by (simp only: Let_def hist) blast
qed

section \<open>Windows\<close>

definition memory_window where
  "memory_window lib put_runbook consolidate embedder w =
     memory_process lib put_runbook consolidate embedder (Window w)"

text \<open>A store and a repository on which a window runs to its end.\<close>

definition sample_store :: window_store where
  "sample_store = \<lparr>ws_pending = map (\<lambda>e. (event_deduplication_id plain_textlib e, e)) sample_events,
     ws_processed = [], ws_archives = [], ws_watermark = None\<rparr>"

definition sample_repo :: memory_repo where
  "sample_repo = \<lparr>mrp_reinforcements = 2, mrp_runbooks = [], mrp_processed = []\<rparr>"

definition sample_window where
  "sample_window = memory_window plain_textlib (memory_apply plain_textlib) (deterministic_consolidate plain_textlib)
     (\<lambda>_. Inr (replicate 1024 0)) \<lparr>cw_watermark = Finite 3 0\<rparr>"

lemma sample_window_runs:
  "case sample_window (sample_store, sample_repo) of
     (Inr res, t) \<Rightarrow> pr_completed_groups res = 1 \<and> (case sample_window t of (Inr _, _) \<Rightarrow> True | _ \<Rightarrow> False)
   | _ \<Rightarrow> False"
  by code_simp

lemma sample_window_result:
  obtains res s' r' res2 s2 r2 where
    "memory_window plain_textlib (memory_apply plain_textlib) (deterministic_consolidate plain_textlib)
      (\<lambda>_. Inr (replicate 1024 0)) \<lparr>cw_watermark = Finite 3 0\<rparr> (sample_store, sample_repo) = (Inr res, (s', r'))"
    and "memory_window plain_textlib (memory_apply plain_textlib) (deterministic_consolidate plain_textlib)
      (\<lambda>_. Inr (replicate 1024 0)) \<lparr>cw_watermark = Finite 3 0\<rparr> (s', r') = (Inr res2, (s2, r2))"
    and "pr_completed_groups res = 1"
  using sample_window_runs unfolding sample_window_def by (auto split: prod.splits sum.splits)

lemma sample_store_ok: "ws_ok plain_textlib sample_store"
  by (simp add: ws_ok_def sample_store_def sample_events_def sample_event_def event_deduplication_id_def
      plain_textlib_def)

text \<open>The events a window is about, in the order the code reads them.\<close>

definition window_events :: "window_store \<Rightarrow> closed_window \<Rightarrow> change_event list" where
  "window_events s w = sort_key dec_key (filter (delivered (cw_watermark w)) (ws_held s))"

lemma window_exact:
  assumes "ws_ok lib s"
    and "memory_window lib put_runbook consolidate embedder w (s, r) = (Inr res, (s', r'))"
  shows "pr_completed_groups res = length (group_completed_incidents lib (window_events s w)) \<and>
    length (pr_mutations res) = pr_completed_groups res \<and> ws_ok lib s' \<and>
    ws_held s' = filter (\<lambda>e. \<not> (delivered (cw_watermark w) e \<and>
      ev_event_id e \<in> completed_event_ids (group_completed_incidents lib (window_events s w)))) (ws_held s)"
proof -
  from assms(2) have run: "memory_store.run lib put_runbook consolidate embedder (Window w) (s, r) = (Inr res, (s', r'))"
    by (simp add: memory_window_def memory_process_run)
  have "ws_held s' = filter (\<lambda>e. \<not> (e \<in> set (window_events s w) \<and>
      ev_event_id e \<in> completed_event_ids (group_completed_incidents lib (window_events s w)))) (ws_held s)"
    using memory_store.window_result [OF assms(1) run] by (simp add: window_events_def)
  also have "\<dots> = filter (\<lambda>e. \<not> (delivered (cw_watermark w) e \<and>
      ev_event_id e \<in> completed_event_ids (group_completed_incidents lib (window_events s w)))) (ws_held s)"
    by (rule filter_cong) (auto simp: window_events_def)
  finally show ?thesis
    using memory_store.window_result [OF assms(1) run]
      memory_store.process_ok [OF assms(1), of "Window w" put_runbook consolidate embedder r] run
    by (simp add: window_events_def)
qed

text \<open>A window that is processed to its end consolidates each completed incident once and
  removes from the buffer exactly the delivered events of those incidents: everything else, in
  particular every event delivered after the watermark and every event of an incomplete incident,
  is still there.\<close>

theorem cons_window_exact:
  assumes "ws_ok lib s"
    and "memory_window lib put_runbook consolidate embedder w (s, r) = (Inr res, (s', r'))"
  shows "pr_completed_groups res = length (group_completed_incidents lib (window_events s w)) \<and>
    length (pr_mutations res) = pr_completed_groups res \<and> ws_ok lib s' \<and>
    ws_held s' = filter (\<lambda>e. \<not> (delivered (cw_watermark w) e \<and>
      ev_event_id e \<in> completed_event_ids (group_completed_incidents lib (window_events s w)))) (ws_held s)"
  by (rule window_exact [OF assms])

theorem cons_window_exact_witness:
  "\<exists>res s' r'. sample_window (sample_store, sample_repo) = (Inr res, (s', r')) \<and>
     length (pr_mutations res) = 1 \<and> ws_ok plain_textlib s'"
proof (rule sample_window_result)
  fix res s' r'
  assume run: "memory_window plain_textlib (memory_apply plain_textlib) (deterministic_consolidate plain_textlib)
      (\<lambda>_. Inr (replicate 1024 0)) \<lparr>cw_watermark = Finite 3 0\<rparr> (sample_store, sample_repo) = (Inr res, (s', r'))"
    and "pr_completed_groups res = 1"
  with cons_window_exact [OF sample_store_ok run] show ?thesis
    unfolding sample_window_def by auto
qed

text \<open>An event id belongs to one incident, as a primary key does.\<close>

definition ids_determine_incident :: "change_event list \<Rightarrow> bool" where
  "ids_determine_incident es \<longleftrightarrow> (\<forall>e \<in> set es. \<forall>f \<in> set es. ev_event_id e = ev_event_id f \<longrightarrow>
     incident_key e = incident_key f)"

lemma no_groups_left:
  fixes lib events
  defines "done \<equiv> completed_event_ids (group_completed_incidents lib events)"
  assumes "ids_determine_incident events"
  shows "group_completed_incidents lib (filter (\<lambda>e. ev_event_id e \<notin> done) events) = []"
proof -
  let ?gs = "group_completed_incidents lib events" and ?rest = "filter (\<lambda>e. ev_event_id e \<notin> done) events"
  have "outcome_for lib (in_order (events_of ?rest k)) = None" if k: "k \<in> incident_key ` set ?rest" for k
  proof -
    from k obtain e where e: "e \<in> set events" "ev_event_id e \<notin> done" "incident_key e = k" by auto
    have no: "(grp_org_id g, grp_incident_id g) \<noteq> k" if "g \<in> set ?gs" for g
    proof
      assume "(grp_org_id g, grp_incident_id g) = k"
      with group_member [OF that] have "grp_episodes g = in_order (events_of events k)" by simp
      with e have "e \<in> set (grp_episodes g)" by (auto simp: events_of_def)
      with that e(2) show False by (auto simp: done_def completed_event_ids_def)
    qed
    have "events_of ?rest k = events_of events k"
      unfolding events_of_def filter_filter
    proof (rule filter_cong [OF refl], rule iffI)
      fix f assume f: "f \<in> set events" "incident_key f = k"
      have "ev_event_id f \<notin> done"
      proof
        assume "ev_event_id f \<in> done"
        then obtain g x where g: "g \<in> set ?gs" "x \<in> set (grp_episodes g)" "ev_event_id x = ev_event_id f"
          unfolding done_def completed_event_ids_def by auto
        have "set (grp_episodes g) = set (events_of events (grp_org_id g, grp_incident_id g))"
          using group_member [OF g(1)] by (metis in_order_props(2))
        with g(2) have "x \<in> set events" "incident_key x = (grp_org_id g, grp_incident_id g)"
          by (auto simp: events_of_def)
        with assms(2) f g(3) have "(grp_org_id g, grp_incident_id g) = k"
          unfolding ids_determine_incident_def by metis
        with no [OF g(1)] show False by simp
      qed
      with f(2) show "ev_event_id f \<notin> done \<and> incident_key f = k" by simp
    qed simp
    moreover have "outcome_for lib (in_order (events_of events k)) = None"
    proof (rule ccontr)
      assume "outcome_for lib (in_order (events_of events k)) \<noteq> None"
      moreover have "k \<in> set (sorted_list_of_set (incident_key ` set events))" using e by auto
      ultimately have "k \<in> set (map (\<lambda>g. (grp_org_id g, grp_incident_id g)) ?gs)"
        unfolding group_keys by simp
      with no show False by auto
    qed
    ultimately show ?thesis by simp
  qed
  then have "map (\<lambda>g. (grp_org_id g, grp_incident_id g)) (group_completed_incidents lib ?rest) = []"
    unfolding group_keys filter_empty_conv by auto
  then show ?thesis by simp
qed

text \<open>Processing is exactly once: a window that is closed again after it was processed, with no
  new events in between, finds no completed incident, writes nothing and leaves the runbooks as
  they are - provided an event id belongs to one incident, as in the database.\<close>

theorem cons_window_replay:
  assumes "ws_ok lib s"
    and "memory_window lib put_runbook consolidate embedder w (s, r) = (Inr res, (s', r'))"
    and "ids_determine_incident (ws_held s)"
    and "memory_window lib put_runbook consolidate embedder w (s', r') = (Inr res2, (s2, r2))"
  shows "pr_completed_groups res2 = 0 \<and> pr_mutations res2 = [] \<and> r2 = r' \<and> ws_held s2 = ws_held s'"
proof -
  let ?done = "completed_event_ids (group_completed_incidents lib (window_events s w))"
  have held: "ws_held s' = filter (\<lambda>e. \<not> (delivered (cw_watermark w) e \<and> ev_event_id e \<in> ?done)) (ws_held s)"
    and ok: "ws_ok lib s'"
    using window_exact [OF assms(1,2)] by auto
  have "window_events s' w = filter (\<lambda>e. ev_event_id e \<notin> ?done) (window_events s w)"
    unfolding window_events_def held filter_sort [symmetric] filter_filter
    by (rule filter_cong) auto
  moreover have "ids_determine_incident (window_events s w)"
    using assms(3) by (auto simp: ids_determine_incident_def window_events_def)
  ultimately have none: "group_completed_incidents lib (window_events s' w) = []"
    using no_groups_left by metis
  have run2: "memory_store.run lib put_runbook consolidate embedder (Window w) (s', r') = (Inr res2, (s2, r2))"
    using assms(4) by (simp add: memory_window_def memory_process_run)
  from window_exact [OF ok assms(4)] none have "pr_completed_groups res2 = 0"
    "pr_mutations res2 = []" "ws_held s2 = ws_held s'"
    by (auto simp: completed_event_ids_def)
  moreover have "r2 = r'" using run2 none memory_store.read_result [OF ok, of "cw_watermark w"]
    by (auto simp: process_def run_andThen run_on_fst run_prog Let_def window_events_def ws_read_through_def
        split: sum.splits)
  ultimately show ?thesis by simp
qed

theorem cons_window_replay_witness:
  "\<exists>s' r' res2 s2 r2. sample_window (s', r') = (Inr res2, (s2, r2)) \<and> pr_completed_groups res2 = 0 \<and> r2 = r'"
proof (rule sample_window_result)
  fix res s' r' res2 s2 r2
  assume run: "memory_window plain_textlib (memory_apply plain_textlib) (deterministic_consolidate plain_textlib)
      (\<lambda>_. Inr (replicate 1024 0)) \<lparr>cw_watermark = Finite 3 0\<rparr> (sample_store, sample_repo) = (Inr res, (s', r'))"
    and run2: "memory_window plain_textlib (memory_apply plain_textlib) (deterministic_consolidate plain_textlib)
      (\<lambda>_. Inr (replicate 1024 0)) \<lparr>cw_watermark = Finite 3 0\<rparr> (s', r') = (Inr res2, (s2, r2))"
  have "ids_determine_incident (ws_held sample_store)"
    by (simp add: ids_determine_incident_def ws_held_def sample_store_def sample_events_def
        sample_event_def incident_key_def)
  from cons_window_replay [OF sample_store_ok run this run2] run2 show ?thesis
    unfolding sample_window_def by blast
qed

text \<open>One row whose changefeed timestamp parsed as a NaN stops the in-memory pipeline: while it
  is in the buffer every window fails and changes nothing, whatever its watermark.\<close>

theorem cons_nan_blocks_windows:
  assumes "e \<in> set (ws_held s)" and "ev_updated_at e = NotANumber"
  shows "\<exists>err. memory_window lib put_runbook consolidate embedder w (s, r) = (Inl err, (s, r))"
proof -
  have "\<exists>err. filterE (\<lambda>e. dec_le (ev_updated_at e) (cw_watermark w)) (map snd (ws_pending s)) = Inl err"
    using assms by (intro filterE_error [of e]) (auto simp: dec_le_def ws_held_def)
  then obtain err where "filterE (\<lambda>e. dec_le (ev_updated_at e) (cw_watermark w)) (map snd (ws_pending s)) = Inl err" ..
  then show ?thesis
    by (simp add: memory_window_def memory_process_def process_def run_andThen run_on_fst ws_read_through_def)
qed

theorem cons_nan_blocks_windows_witness:
  "\<exists>err. memory_window plain_textlib (memory_apply plain_textlib) (deterministic_consolidate plain_textlib) (\<lambda>_. Inr [])
     \<lparr>cw_watermark = Finite 9 0\<rparr>
     (snd (ws_put plain_textlib (sample_event ''x'' ''alert'' 1\<lparr>ev_updated_at := NotANumber\<rparr>) new_window_store), sample_repo) =
   (Inl err, (snd (ws_put plain_textlib (sample_event ''x'' ''alert'' 1\<lparr>ev_updated_at := NotANumber\<rparr>) new_window_store), sample_repo))"
  by (rule cons_nan_blocks_windows [of "sample_event ''x'' ''alert'' 1\<lparr>ev_updated_at := NotANumber\<rparr>"])
     (simp_all add: ws_put_def run_prog new_window_store_def ws_held_def Let_def)

section \<open>Runbooks\<close>

text \<open>The writers' states after a run of candidates, each call returning or raising.\<close>

definition memory_after :: "textlib \<Rightarrow> (candidate \<times> string) list \<Rightarrow> memory_repo \<Rightarrow> memory_repo" where
  "memory_after lib cs s = foldl (\<lambda>s (c, k). snd (memory_apply lib c k s)) s cs"

definition sql_after :: "(sql_repo \<Rightarrow> string) \<Rightarrow> nat \<Rightarrow> (candidate \<times> string) list \<Rightarrow> sql_repo \<Rightarrow> sql_repo" where
  "sql_after gen n cs q = foldl (\<lambda>q (c, k). snd (sql_apply gen n c k q)) q cs"

lemma memory_after_run: "memory_after lib cs s = memory.put_all lib cs s"
  unfolding memory_after_def by (induction cs arbitrary: s) auto

lemma sql_after_run: "sql_after gen n cs q = sql.put_all gen n cs q"
  unfolding sql_after_def by (induction cs arbitrary: q) auto

text \<open>Whatever sequence of candidates the in-memory writer is given, each runbook's versions stay
  numbered from one, every version has a success, one that is not deprecated has more
  successes than failures and an active one more successes than the activation threshold; and along
  the way no version disappears, loses counts, changes its steps, or comes back from deprecation.\<close>

theorem cons_memory_lifecycle:
  "let s = memory_after lib cs (\<lparr>mrp_reinforcements = n, mrp_runbooks = [], mrp_processed = []\<rparr>);
       t = memory_after lib ds s in
   sound_versions n (memory_versions s key) \<and> versions_le (memory_versions s key) (memory_versions t key)"
proof -
  let ?ini = "\<lparr>mrp_reinforcements = n, mrp_runbooks = [], mrp_processed = []\<rparr>"
  let ?s = "memory_after lib cs ?ini"
  have "memory_versions ?ini key = []" by (simp add: memory_versions_def dict_get_def)
  then have "sound_versions n (memory_versions ?s key)"
    unfolding memory_after_run by (intro memory.put_all_sound [where r = n]) (auto simp: sound_versions_def)
  moreover have "versions_le (memory_versions ?s key) (memory_versions (memory_after lib ds ?s) key)"
    unfolding memory_after_run [of lib ds] by (rule memory.put_all_le) (rule refl)
  ultimately show ?thesis by (simp add: Let_def)
qed

text \<open>C28. The same of the SQL writer on its tables, from the empty database: the life cycle, and the
  schema's constraints on every row - ids unique, successes and failures adding up to the uses, the
  success rate their exact ratio.\<close>

theorem cons_sql_lifecycle:
  "let q = sql_after gen n cs \<lparr>sq_memory = [], sq_provenance = []\<rparr>; p = sql_after gen n ds q in
   sound_versions n (sql_versions q key) \<and> versions_le (sql_versions q key) (sql_versions p key) \<and>
   distinct (map pm_runbook_id (sq_memory q)) \<and> list_all row_checks (sq_memory q)"
proof -
  let ?ini = "\<lparr>sq_memory = [], sq_provenance = []\<rparr>"
  let ?q = "sql_after gen n cs ?ini"
  have ok0: "sql_ok ?ini" by (simp add: sql_ok_def rows_of_def)
  have "sql_versions ?ini key = []" by (simp add: sql_versions_def rows_of_def)
  then have "sound_versions n (sql_versions ?q key)"
    unfolding sql_after_run by (intro sql.put_all_sound [OF ok0]) (auto simp: sound_versions_def)
  moreover have ok: "sql_ok ?q" unfolding sql_after_run by (rule sql.put_all_ok [OF ok0])
  moreover have "versions_le (sql_versions ?q key) (sql_versions (sql_after gen n ds ?q) key)"
    unfolding sql_after_run [of gen n ds] by (rule sql.put_all_le [OF ok])
  moreover have "distinct (map pm_runbook_id (sq_memory ?q))" "list_all row_checks (sq_memory ?q)"
    using ok unfolding sql_ok_def list_all_iff by blast+
  ultimately show ?thesis by (simp add: Let_def)
qed

text \<open>A failed or no-effect episode never writes a procedure: after any sequence of such
  candidates each key has, under both writers, the versions with the steps it had before.\<close>

theorem cons_failed_never_creates:
  assumes "\<forall>(c, k) \<in> set cs. cand_outcome c \<noteq> Success" and "sql_ok q"
  shows "map vr_token (sql_versions (sql_after gen n cs q) key) = map vr_token (sql_versions q key) \<and>
    map vr_token (memory_versions (memory_after lib cs s) key) = map vr_token (memory_versions s key)"
  using sql.put_all_failed [OF assms(2,1)] memory.put_all_failed [of s "mrp_reinforcements s", OF refl assms(1)]
  by (simp add: sql_after_run memory_after_run)

definition sample_candidate :: "runbook_outcome \<Rightarrow> json_object list \<Rightarrow> candidate" where
  "sample_candidate r st = \<lparr>cand_org_id = ''o'', cand_agent_id = ''a'', cand_incident_id = ''n'',
     cand_service_id = ''s'', cand_name = ''hot'', cand_trigger_desc = ''t'', cand_steps = st,
     cand_preconditions = [], cand_postconditions = [], cand_service_tags = [],
     cand_error_signatures = [], cand_outcome = r, cand_source_event_ids = [''e''],
     cand_embedding = replicate 1024 0\<rparr>"

theorem cons_failed_never_creates_witness:
  "map vr_token (memory_versions (memory_after plain_textlib [(sample_candidate Failed [[]], ''k'')] sample_repo)
     (''o'', ''a'', ''hot'')) = map vr_token (memory_versions sample_repo (''o'', ''a'', ''hot''))"
  using cons_failed_never_creates [of "[(sample_candidate Failed [[]], ''k'')]"
      "\<lparr>sq_memory = [], sq_provenance = []\<rparr>"]
  by (simp add: sample_candidate_def sql_ok_def rows_of_def)

text \<open>In memory a call that was answered is not repeated: the same idempotency key, whatever the
  candidate, is answered as a no-op with the first answer's counts, and nothing changes.\<close>

theorem cons_memory_idempotent:
  assumes "memory_apply lib c k s = (Inr m, s')"
  shows "memory_apply lib c' k s' = (Inr (m\<lparr>mut_operation := ''noop'', mut_idempotent_replay := True\<rparr>), s')"
  using assms
  by (auto simp: memory_apply_def [of lib c] memory_apply_def [of lib c'] Let_def
      split: option.splits if_splits)

theorem cons_memory_idempotent_witness:
  "\<exists>s' m. memory_apply plain_textlib (sample_candidate Failed []) ''k'' sample_repo = (Inr ignored_counterexample, s') \<and>
     memory_apply plain_textlib (sample_candidate Success [[]]) ''k'' s' = (Inr m, s')"
proof -
  obtain s' where run: "memory_apply plain_textlib (sample_candidate Failed []) ''k'' sample_repo =
      (Inr ignored_counterexample, s')"
    by (simp add: memory_apply_def sample_repo_def sample_candidate_def Let_def dict_get_def
        dict_setdefault_def)
  with cons_memory_idempotent [OF run, of "sample_candidate Success [[]]"] show ?thesis by blast
qed

text \<open>In SQL, once a candidate has written - created, reinforced or weakened - any candidate for
  the same runbook and incident is answered as a no-op and the tables stay as they are.\<close>

theorem cons_sql_idempotent:
  assumes "sql_ok q" and "sql_apply gen n c k q = (Inr m, q')" and "m \<noteq> ignored_counterexample"
    and "key_of c' = key_of c" and "cand_incident_id c' = cand_incident_id c"
  shows "\<exists>m'. sql_apply gen n c' k' q' = (Inr m', q') \<and> mut_operation m' = ''noop'' \<and> mut_idempotent_replay m'"
proof -
  have "sql_transaction gen n c q = Inr (m, q')"
    using assms(2) by (auto simp: sql_apply_def split: sum.splits)
  with assms(1,3) have "select_replay q' c \<noteq> None" by (intro sql_recorded)
  then have "select_replay q' c' \<noteq> None" using assms(4,5) by (simp add: select_replay_def)
  then show ?thesis by (auto simp: sql_apply_def sql_transaction_def row_mutation_def)
qed

definition sample_gen :: "sql_repo \<Rightarrow> string" where
  "sample_gen q = nat_str (length (sq_memory q))"

theorem cons_sql_idempotent_witness:
  "\<exists>q' m'. snd (sql_apply sample_gen 2 (sample_candidate Success [[]]) ''k'' \<lparr>sq_memory = [], sq_provenance = []\<rparr>) = q' \<and>
     sql_apply sample_gen 2 (sample_candidate Failed []) ''other'' q' = (Inr m', q') \<and> mut_operation m' = ''noop''"
proof -
  let ?q = "\<lparr>sq_memory = [], sq_provenance = []\<rparr>"
  obtain m q' where run: "sql_apply sample_gen 2 (sample_candidate Success [[]]) ''k'' ?q = (Inr m, q')"
    and m: "mut_operation m = ''create''"
    by (simp add: sql_apply_def sql_transaction_def select_replay_def select_latest_def rows_of_def
        sample_candidate_def Let_def sql_create_def vector_literal_def insert_provenance_def
        row_mutation_def)
  have "m \<noteq> ignored_counterexample" using m by (auto simp: ignored_counterexample_def)
  moreover have "sql_ok ?q" by (simp add: sql_ok_def rows_of_def)
  ultimately obtain m' where "sql_apply sample_gen 2 (sample_candidate Failed []) ''other'' q' = (Inr m', q')"
    "mut_operation m' = ''noop''"
    using cons_sql_idempotent [OF _ run, of "sample_candidate Failed []" "''other''"]
    by (auto simp: sample_candidate_def key_of_def)
  with run show ?thesis by auto
qed

text \<open>The two writers disagree on a superseded version: a successful candidate with other steps
  leaves the incumbent's status as it was in memory, and deprecates it in SQL.\<close>

theorem cons_supersede_differs:
  assumes "map_of (mrp_processed s) k = None" and "dict_get (mrp_runbooks s) (key_of c) [] = us @ [l]"
    and "lr_steps_hash l \<noteq> steps_hash lib c" and "cand_outcome c = Success"
    and "length (cand_embedding c) = 1024"
    and "sql_ok q" and "rows_of q (key_of c) = vs @ [x]" and "\<not> same_steps (pm_steps x) c"
    and "sql_apply gen n c k q = (Inr m, q')" and "mut_operation m = ''create''"
  shows "(\<exists>new. memory_versions (snd (memory_apply lib c k s)) (key_of c) =
       map local_view us @ [local_view l, new]) \<and>
    (\<exists>new. sql_versions q' (key_of c) =
       map row_view vs @ [(row_view x)\<lparr>vr_status := Deprecated\<rparr>, new])"
proof
  show "\<exists>new. memory_versions (snd (memory_apply lib c k s)) (key_of c) = map local_view us @ [local_view l, new]"
    using assms(1-5) by (simp add: memory_apply_def memory_versions_def Let_def)
  have latest: "select_latest q c = Some x" using select_latest_last [OF assms(6), of c] assms(7) by simp
  have run: "sql_transaction gen n c q = Inr (m, q')"
    using assms(9) by (auto simp: sql_apply_def split: sum.splits)
  with latest assms(4,8,10) obtain row q1 where mk: "sql_create gen c (Some x) q = Inr (row, q1)"
    and pr: "insert_provenance (pm_runbook_id row) ''source'' c q1 = Inr q'"
    by (auto simp: sql_transaction_def Let_def row_mutation_def split: option.splits)
  from sql_create_props [OF assms(6), of gen c row q1] mk latest assms(7)
  have "rows_of q1 (key_of c) = vs @ [x\<lparr>pm_status := Deprecated\<rparr>, row]" by auto
  with provenance_rows [OF pr] show "\<exists>new. sql_versions q' (key_of c) =
      map row_view vs @ [(row_view x)\<lparr>vr_status := Deprecated\<rparr>, new]"
    by (simp add: sql_versions_def row_view_ops)
qed

section \<open>Models\<close>

text \<open>The Bedrock model calls its client at most \<open>max_attempts\<close> times and sleeps at most
  eight seconds (before jitter) between two calls; when the first answer that is not a throttling
  comes in time it is used: a response is returned, any other fault is raised at once.\<close>

theorem cons_retry:
  assumes "k < max_attempts" and "\<forall>i < k. \<exists>code. client i = Fault code \<and> throttling code"
    and "client k = Reply r \<or> (\<exists>code. client k = Fault code \<and> \<not> throttling code)"
  shows "fst (converse_from client max_attempts 0) =
      (case client k of Reply r \<Rightarrow> Inr r | Fault code \<Rightarrow> Inl (ServiceFault code)) \<and>
    fst (snd (converse_from client max_attempts 0)) = Suc k \<and> Suc k \<le> max_attempts \<and>
    length (snd (snd (converse_from client max_attempts 0))) = k \<and>
    list_all (\<lambda>d. d \<le> 8) (snd (snd (converse_from client max_attempts 0)))"
proof -
  have "converse_from client max_attempts a = (case client (a + k) of Reply r \<Rightarrow> Inr r
        | Fault code \<Rightarrow> Inl (ServiceFault code), Suc k, map (\<lambda>i. min 8 (2 ^ i * (25 / 100))) [a..<a + k])"
    if "a + k < max_attempts" "\<forall>i < k. \<exists>code. client (a + i) = Fault code \<and> throttling code"
      "client (a + k) = Reply r \<or> (\<exists>code. client (a + k) = Fault code \<and> \<not> throttling code)" for a
    using that
  proof (induction k arbitrary: a)
    case 0
    then show ?case by (auto simp: converse_from.simps [of client max_attempts a])
  next
    case (Suc k)
    from Suc.prems(2) [rule_format, of 0] obtain code where c: "client a = Fault code" "throttling code" by auto
    have "converse_from client max_attempts (Suc a) = (case client (Suc a + k) of Reply r \<Rightarrow> Inr r
        | Fault code \<Rightarrow> Inl (ServiceFault code), Suc k, map (\<lambda>i. min 8 (2 ^ i * (25 / 100))) [Suc a..<Suc a + k])"
    proof (rule Suc.IH)
      show "Suc a + k < max_attempts" using Suc.prems(1) by simp
      show "\<forall>i<k. \<exists>code. client (Suc a + i) = Fault code \<and> throttling code"
        using Suc.prems(2) by (metis Suc_less_eq add_Suc_right add_Suc_shift)
      show "client (Suc a + k) = Reply r \<or> (\<exists>code. client (Suc a + k) = Fault code \<and> \<not> throttling code)"
        using Suc.prems(3) by simp
    qed
    moreover have "[a..<a + Suc k] = a # [Suc a..<Suc a + k]" by (simp add: upt_conv_Cons del: upt_Suc)
    ultimately show ?case using c Suc.prems(1)
      by (simp add: converse_from.simps [of client max_attempts a] del: upt_Suc)
  qed
  from this [of 0] assms show ?thesis by (simp add: list_all_iff)
qed

theorem cons_retry_witness:
  "fst (converse_from (\<lambda>i. if i < 2 then Fault (Some ''ThrottlingException'') else Reply PNone) 4 0) = Inr PNone"
  using cons_retry [of 2 4 "\<lambda>i. if i < 2 then Fault (Some ''ThrottlingException'') else Reply PNone" PNone]
  by (simp add: throttling_def)

text \<open>The deterministic embedding is total and normalised: for every text it returns 1024
  components whose squares add up to one, whatever the digests are - no component can be zero,
  so the norm it divides by never is.\<close>

theorem cons_embedding_unit:
  "\<exists>vs. deterministic_embed digest4 words = Inr vs \<and> length vs = 1024 \<and> sum_list (map (\<lambda>v. v * v) vs) = 1"
  by (rule embedding_total)

lemma candidate_name: "candidate_from_payload lib g p = Inr c \<Longrightarrow> cand_name c = payload_text lib p ''name''"
  by (auto simp: candidate_from_payload_def)

text \<open>The deterministic model turns every group with an episode into a candidate of the same
  organisation, agent, incident and outcome that cites all its events, has three steps, and a
  non-empty name made of lower-case letters, digits and dashes only.\<close>

theorem cons_deterministic_candidate:
  assumes "grp_episodes g \<noteq> []"
  shows "\<exists>res c. deterministic_consolidate lib g = Inr res \<and> c = mr_candidate res \<and>
    length (cand_steps c) = 3 \<and> cand_org_id c = grp_org_id g \<and> cand_agent_id c = grp_agent_id g \<and>
    cand_incident_id c = grp_incident_id g \<and> cand_outcome c = grp_outcome g \<and>
    cand_source_event_ids c = map ev_event_id (grp_episodes g) \<and> cand_name c \<noteq> [] \<and>
    list_all (\<lambda>x. slug_char x \<or> x = CHR ''-'') (cand_name c)"
proof -
  obtain res where res: "deterministic_consolidate lib g = Inr res" "length (cand_steps (mr_candidate res)) = 3"
    using deterministic_total [OF assms] by blast
  then obtain name signature service kind params where
    cand: "candidate_from_payload lib g (runbook_payload name signature service kind params) = Inr (mr_candidate res)"
    and name: "name = ''incident-response'' \<or> (\<exists>s. name = name_token s \<and> name \<noteq> [])"
    using assms by (fastforce simp: deterministic_consolidate_def deterministic_payload_def Let_def split: if_splits)
  have chars: "list_all (\<lambda>x. slug_char x \<or> x = CHR ''-'') name"
    using name name_token_chars by (auto simp: list_all_iff slug_char_def)
  have space: "\<not> is_space x" if "slug_char x \<or> x = CHR ''-''" for x
    using that by (auto simp: slug_char_def is_digit_def is_space_def Let_def)
  have "trimmed name" using chars space name by (auto simp: trimmed_def list_all_iff)
  moreover have "name \<noteq> []" using name by auto
  moreover have "pget (runbook_payload name signature service kind params) ''name'' = PStr name"
    by (simp add: runbook_payload_def pget_def dict_get_def)
  ultimately have "cand_name (mr_candidate res) = name"
    using candidate_name [OF cand] by (simp add: payload_text_def py_or_def str_strip_trimmed)
  with res candidate_fields [OF cand] chars name show ?thesis by auto
qed

theorem cons_deterministic_candidate_witness:
  "\<exists>res. deterministic_consolidate plain_textlib \<lparr>grp_org_id = ''o'', grp_agent_id = ''a'', grp_incident_id = ''n'',
     grp_service_id = ''s'', grp_episodes = sample_events, grp_outcome = Success\<rparr> = Inr res"
  using cons_deterministic_candidate [of "\<lparr>grp_org_id = ''o'', grp_agent_id = ''a'', grp_incident_id = ''n'',
     grp_service_id = ''s'', grp_episodes = sample_events, grp_outcome = Success\<rparr>" plain_textlib]
  by (auto simp: sample_events_def)

text \<open>A model's answer is read through its Markdown fence: trimmed text between a \<open>json\<close> fence
  and a closing fence, each on its own line, is extracted as it is, and so is trimmed text that has
  no fence.\<close>

theorem cons_extract_json:
  assumes "proper_text body" and "\<not> starts_with ''```'' body"
  shows "extract_json (''```json'' @ [CHR 0x0A] @ body @ [CHR 0x0A] @ ''```'') = body \<and> extract_json body = body"
proof
  have tr: "trimmed body" and ne: "body \<noteq> []" using assms(1) by (auto simp: proper_text_def)
  show "extract_json body = body" using assms(2) tr by (simp add: extract_json_def str_strip_trimmed)
  let ?v = "''```json'' @ [CHR 0x0A] @ body @ [CHR 0x0A] @ ''```''"
  have "trimmed ?v" by (simp add: trimmed_def is_space_def)
  then have strip: "str_strip ?v = ?v" by (rule str_strip_trimmed)
  have hd: "dropWhile is_space (CHR 0x0A # body @ [CHR 0x0A] @ ''```'') = body @ [CHR 0x0A] @ ''```''"
    using tr ne by (cases body) (auto simp: trimmed_def is_space_def Let_def)
  then have pre: "drop_prefix_fence ?v = body @ [CHR 0x0A] @ ''```''"
    by (simp add: drop_prefix_fence_def starts_with_def Let_def)
  have "dropWhile is_space (CHR 0x0A # rev body) = rev body"
    using tr ne by (cases "rev body") (auto simp: trimmed_def is_space_def Let_def last_rev [symmetric] hd_rev)
  then have "drop_suffix_fence (body @ [CHR 0x0A] @ ''```'') = body"
    by (simp add: drop_suffix_fence_def)
  then show "extract_json ?v = body"
    using strip pre by (simp add: extract_json_def starts_with_def Let_def)
qed

theorem cons_extract_json_witness:
  "extract_json (''```json'' @ [CHR 0x0A] @ ''{}'' @ [CHR 0x0A] @ ''```'') = ''{}''"
  using cons_extract_json [of "''{}''"] by (simp add: proper_text_def trimmed_def is_space_def starts_with_def)

section \<open>The consumer\<close>

text \<open>The consumer reports a suffix of the batch: the records before the first failing one were
  all processed, in order; that one failed; it and every later record are reported, under their
  own identifiers, and none of the later ones was touched.\<close>

theorem cons_batch_failures:
  "\<exists>k s1. k \<le> length rs \<and> s1 = snd (map_prog (process_record lib proc) (take k rs) s) \<and>
    (\<exists>xs. fst (map_prog (process_record lib proc) (take k rs) s) = Inr xs) \<and>
    consolidator_handler lib proc now (Some rs) s =
      (if k = length rs then (Inr (Batch_failures []), s1)
       else (Inr (Batch_failures (map (\<lambda>(j, x). record_identifier lib j x) (drop k (List.enumerate 0 rs)))),
          snd (process_record lib proc (rs ! k) s1))) \<and>
    (k = length rs \<or> (\<exists>e. fst (process_record lib proc (rs ! k) s1) = Inl e))"
proof -
  from handle_records_split [of rs lib proc s 0] obtain k s1 where k: "k \<le> length rs"
    "s1 = snd (map_prog (process_record lib proc) (take k rs) s)"
    "\<exists>xs. fst (map_prog (process_record lib proc) (take k rs) s) = Inr xs"
    "if k = length rs then handle_records lib proc 0 rs s = ([], s1)
     else (\<exists>e. fst (process_record lib proc (rs ! k) s1) = Inl e) \<and>
       handle_records lib proc 0 rs s =
         (map (\<lambda>(j, x). record_identifier lib j x) (drop k (List.enumerate 0 rs)),
          snd (process_record lib proc (rs ! k) s1))" by blast
  then show ?thesis
    by (intro exI [of _ k] exI [of _ s1]) (cases "k = length rs"; simp add: consolidator_handler_def)
qed

end
