(* ===== verification/Cons_S3.thy ===== *)
theory Cons_S3
  imports Cons_Handlers
begin

text \<open>
  The durable window buffer (\<open>S3WindowStore\<close> of
  \<^verbatim>\<open>consolidation/postmortem_consolidation/storage.py\<close>) over a bucket: an object per pending
  event, listed page by page. The bucket does what S3 documents: an object is replaced by a put with its
  key, a listing gives the keys with a prefix in their order, at most a page at a time, each page after the
  last key of the one before; a request may fail, carried out or not, and a deletion may leave single keys
  out. The store is an instance of the interface \<open>window_store\<close>.
\<close>

section \<open>The bucket\<close>

type_synonym objects = "(string, string) dict"

text \<open>The objects, and the number of requests made so far.\<close>

record bucket =
  bk_objects :: objects
  bk_requests :: nat

definition keys_after :: "string \<Rightarrow> string option \<Rightarrow> objects \<Rightarrow> string list" where
  "keys_after prefix token b = filter (\<lambda>k. starts_with prefix k \<and> (case token of None \<Rightarrow> True | Some t \<Rightarrow> t < k))
     (sort (remdups (map fst b)))"

text \<open>A page holds at most \<open>Suc n\<close> keys; a truncated one comes with the token of the next.\<close>

definition list_objects :: "nat \<Rightarrow> string \<Rightarrow> string option \<Rightarrow> objects \<Rightarrow> string list \<times> string option" where
  "list_objects n prefix token b = (let ks = keys_after prefix token b; page = take (Suc n) ks in
     (page, if Suc n < length ks then Some (last page) else None))"

definition delete_objects :: "string list \<Rightarrow> objects \<Rightarrow> objects" where
  "delete_objects ks b = filter (\<lambda>(k, _). k \<notin> set ks) b"

section \<open>The store\<close>

text \<open>\<open>s3_hour\<close> is \<open>strftime\<close> with its format, \<open>s3_now\<close> the instant printed in an archive, \<open>s3_page\<close> one less
  than the length of a page. \<open>s3_fault\<close> is the fault of a request, by its number: whether it was carried out
  nevertheless, and the code of the error the client raises. \<open>s3_kept\<close> are the keys a request to delete leaves out
  with an error of their own: the answer lists them, and the code does not look at it.\<close>

record s3_store =
  s3_prefix :: string
  s3_page :: nat
  s3_hour :: "int \<Rightarrow> string"
  s3_now :: string
  s3_fault :: "nat \<Rightarrow> (bool \<times> string option) option"
  s3_kept :: "nat \<Rightarrow> string \<Rightarrow> bool"

text \<open>\<open>client\<close> are the faults and the keys left out.\<close>

definition new_s3_store ::
    "(nat \<Rightarrow> (bool \<times> string option) option) \<times> (nat \<Rightarrow> string \<Rightarrow> bool) \<Rightarrow> string \<Rightarrow> nat \<Rightarrow> (int \<Rightarrow> string) \<Rightarrow> string \<Rightarrow> s3_store" where
  "new_s3_store client prefix page hour now_iso = \<lparr>s3_prefix = rev (dropWhile (\<lambda>c. c = CHR ''/'') (rev prefix)), s3_page = page,
     s3_hour = hour, s3_now = now_iso, s3_fault = fst client, s3_kept = snd client\<rparr>"

text \<open>A request that reads, over the number of requests; and one that changes the objects.\<close>

definition asks :: "s3_store \<Rightarrow> (nat, cons_error, unit) prog" where
  "asks st = (\<lambda>n. (case s3_fault st n of None \<Rightarrow> Inr () | Some (_, code) \<Rightarrow> Inl (ServiceFault code), Suc n))"

definition changes :: "s3_store \<Rightarrow> (nat \<Rightarrow> objects \<Rightarrow> objects) \<Rightarrow> (bucket, cons_error, unit) prog" where
  "changes st f = (\<lambda>b. let n = bk_requests b; old = bk_objects b; new = f n old in
     (case s3_fault st n of
        None \<Rightarrow> (Inr (), \<lparr>bk_objects = new, bk_requests = Suc n\<rparr>)
      | Some (carried_out, code) \<Rightarrow> (Inl (ServiceFault code),
          \<lparr>bk_objects = (if carried_out then new else old), bk_requests = Suc n\<rparr>)))"

definition pending_prefix :: "s3_store \<Rightarrow> string" where
  "pending_prefix st = s3_prefix st @ ''/pending/''"

definition pending_key :: "textlib \<Rightarrow> s3_store \<Rightarrow> change_event \<Rightarrow> cons_error + string" where
  "pending_key lib st e = bindE (change_timestamp_datetime (ev_updated_at e)) (\<lambda>updated.
     Inr (pending_prefix st @ s3_hour st updated @ ''/'' @ event_deduplication_id lib e @ ''.json''))"

definition event_body :: "textlib \<Rightarrow> change_event \<Rightarrow> string" where
  "event_body lib e = lib_json_text lib (PDict (event_to_dict lib e))"

definition s3_put :: "textlib \<Rightarrow> s3_store \<Rightarrow> change_event \<Rightarrow> (bucket, cons_error, unit) prog" where
  "s3_put lib st e = andThen (lift_result (pending_key lib st e)) (\<lambda>k.
     changes st (\<lambda>_. AList.update k (event_body lib e)))"

definition stored_event :: "textlib \<Rightarrow> string \<Rightarrow> cons_error + change_event" where
  "stored_event lib body =
     bindE (needE (ValueError ''invalid JSON'') (lib_json lib body)) (\<lambda>payload.
     bindE (needE (AttributeError ''get'') (as_dict payload)) (event_from_dict lib))"

text \<open>The loop over the keys of a page: each object is got, parsed and compared with the watermark.\<close>

definition read_object :: "textlib \<Rightarrow> decimal \<Rightarrow> objects \<Rightarrow> string \<Rightarrow> cons_error + change_event \<times> bool" where
  "read_object lib watermark b k =
     bindE (needE (ServiceFault (Some ''NoSuchKey'')) (map_of b k)) (\<lambda>body.
     bindE (stored_event lib body) (\<lambda>e.
     bindE (dec_le (ev_updated_at e) watermark) (\<lambda>due. Inr (e, due))))"

fun read_keys :: "textlib \<Rightarrow> s3_store \<Rightarrow> decimal \<Rightarrow> objects \<Rightarrow> string list \<Rightarrow> (nat, cons_error, change_event list) prog" where
  "read_keys lib st watermark b [] = ret []"
| "read_keys lib st watermark b (k # ks) =
     andThen (asks st) (\<lambda>_.
     andThen (lift_result (read_object lib watermark b k)) (\<lambda>(e, due).
     andThen (read_keys lib st watermark b ks) (\<lambda>es. ret (if due then e # es else es))))"

lemma keys_after_rest:
  assumes "list_objects n prefix token b = (page, Some t)"
  shows "t \<in> set (keys_after prefix token b)"
    and "keys_after prefix token b = page @ keys_after prefix (Some t) b"
proof -
  let ?ks = "keys_after prefix token b"
  have page: "page = take (Suc n) ?ks" and len: "Suc n < length ?ks" and t: "t = last page"
    using assms by (auto simp: list_objects_def Let_def split: if_splits)
  have sorted: "sorted_wrt (<) ?ks"
    using strict_sorted_iff [of ?ks] by (simp add: keys_after_def sorted_wrt_filter)
  have ne: "page \<noteq> []" using page len by (cases ?ks) auto
  then show t_in: "t \<in> set ?ks" using t page by (metis in_set_takeD last_in_set)
  have ks: "?ks = page @ drop (Suc n) ?ks" using page by simp
  then have "sorted_wrt (<) (page @ drop (Suc n) ?ks)" using sorted by simp
  then have later: "\<And>x y. x \<in> set page \<Longrightarrow> y \<in> set (drop (Suc n) ?ks) \<Longrightarrow> x < y" and "sorted_wrt (<) page"
    by (auto simp: sorted_wrt_append)
  then have "x \<le> t" if "x \<in> set page" for x
    using that ne t by (induction page) (auto simp: less_le split: if_splits)
  with later t ne have "filter (\<lambda>k. t < k) (page @ drop (Suc n) ?ks) = drop (Suc n) ?ks"
    by (auto simp: filter_id_conv filter_empty_conv not_less last_in_set)
  then have "filter (\<lambda>k. t < k) ?ks = drop (Suc n) ?ks" using ks by simp
  moreover have "filter (\<lambda>k. t < k) ?ks = keys_after prefix (Some t) b"
    unfolding keys_after_def filter_filter using t_in
    by (intro filter_cong) (auto simp: keys_after_def split: option.splits)
  ultimately show "?ks = page @ keys_after prefix (Some t) b" using ks by simp
qed

lemma pages_shrink:
  assumes "list_objects n prefix token b = (page, Some t)"
  shows "length (keys_after prefix (Some t) b) < length (keys_after prefix token b)"
proof -
  have "page \<noteq> []" using assms keys_after_rest(1) [OF assms]
    by (auto simp: list_objects_def Let_def split: if_splits)
  with keys_after_rest(2) [OF assms] show ?thesis by simp
qed

text \<open>The loop over the pages: it ends because each page is after the one before.\<close>

function read_pages ::
    "textlib \<Rightarrow> s3_store \<Rightarrow> decimal \<Rightarrow> string option \<Rightarrow> objects \<Rightarrow> (nat, cons_error, change_event list) prog" where
  "read_pages lib st watermark token b = andThen (asks st) (\<lambda>_.
     case list_objects (s3_page st) (pending_prefix st) token b of (page, following) \<Rightarrow>
     andThen (read_keys lib st watermark b page) (\<lambda>events. case following of
       None \<Rightarrow> ret events
     | Some t \<Rightarrow> andThen (read_pages lib st watermark (Some t) b) (\<lambda>rest. ret (events @ rest))))"
  by pat_completeness auto

termination
  by (relation "measure (\<lambda>(lib, st, watermark, token, b). length (keys_after (pending_prefix st) token b))")
    (simp, metis (no_types, lifting) case_prod_conv in_measure pages_shrink)

declare read_pages.simps [simp del]

text \<open>Reading changes no object.\<close>

definition s3_read_through :: "textlib \<Rightarrow> s3_store \<Rightarrow> decimal \<Rightarrow> (bucket, cons_error, change_event list) prog" where
  "s3_read_through lib st watermark = (\<lambda>b.
     case andThen (read_pages lib st watermark None (bk_objects b)) (\<lambda>events. ret (sort_key dec_key events)) (bk_requests b) of
       (r, n) \<Rightarrow> (r, b\<lparr>bk_requests := n\<rparr>))"

definition delete_chunk :: "textlib \<Rightarrow> s3_store \<Rightarrow> change_event list \<Rightarrow> (bucket, cons_error, unit) prog" where
  "delete_chunk lib st chunk = andThen (lift_result (mapE (pending_key lib st) chunk)) (\<lambda>ks.
     changes st (\<lambda>n. delete_objects (filter (\<lambda>k. \<not> s3_kept st n k) ks)))"

definition s3_mark_processed ::
  "textlib \<Rightarrow> s3_store \<Rightarrow> change_event list \<Rightarrow> decimal \<Rightarrow> (bucket, cons_error, unit) prog" where
  "s3_mark_processed lib st events watermark =
     andThen (for_each (chunks 1000 events) (delete_chunk lib st)) (\<lambda>_.
     changes st (\<lambda>_. AList.update (s3_prefix st @ ''/state/watermark.json'')
       (lib_json_text lib (PDict [(''watermark'', PStr (lib_decimal_text lib watermark))]))))"

definition archive_payload :: "textlib \<Rightarrow> s3_store \<Rightarrow> model_result \<Rightarrow> string \<Rightarrow> pyval" where
  "archive_payload lib st result key = (let c = mr_candidate result in
     PDict [(''idempotency_key'', PStr key), (''model_id'', PStr (mr_model_id result)), (''prompt'', PStr (mr_prompt result)),
       (''raw_response'', PStr (mr_raw_response result)),
       (''candidate'', PDict [(''name'', PStr (cand_name c)), (''incident_id'', PStr (cand_incident_id c)),
         (''outcome'', PStr (outcome_str (cand_outcome c))), (''steps_hash'', PStr (steps_hash lib c)),
         (''embedding_dimensions'', PInt (int (length (cand_embedding c)))),
         (''source_event_ids'', PTuple (map PStr (cand_source_event_ids c)))]),
       (''archived_at'', PStr (s3_now st))])"

definition s3_archive :: "textlib \<Rightarrow> s3_store \<Rightarrow> model_result \<Rightarrow> string \<Rightarrow> (bucket, cons_error, unit) prog" where
  "s3_archive lib st result key = changes st (\<lambda>_. AList.update (s3_prefix st @ ''/archive/'' @ key @ ''.json'')
     (lib_json_text lib (archive_payload lib st result key)))"

section \<open>The events held\<close>

definition held_at :: "textlib \<Rightarrow> objects \<Rightarrow> string \<Rightarrow> change_event list" where
  "held_at lib b k = (case map_of b k of None \<Rightarrow> [] | Some body \<Rightarrow>
     (case stored_event lib body of Inl _ \<Rightarrow> [] | Inr e \<Rightarrow> [e]))"

definition objects_held :: "textlib \<Rightarrow> s3_store \<Rightarrow> objects \<Rightarrow> change_event list" where
  "objects_held lib st b = concat (map (held_at lib b) (keys_after (pending_prefix st) None b))"

text \<open>What is relied on: a digest has no slash, and no two versions of a row share one; an event that is put reads
  back from its text, and has a time.\<close>

definition s3_laws :: "textlib \<Rightarrow> bool" where
  "s3_laws lib \<longleftrightarrow> (\<forall>t. CHR ''/'' \<notin> set (lib_sha256 lib t)) \<and>
     (\<forall>e f. event_deduplication_id lib e = event_deduplication_id lib f \<longrightarrow> ev_updated_at e = ev_updated_at f)"

definition s3_fit :: "textlib \<Rightarrow> s3_store \<Rightarrow> change_event \<Rightarrow> bool" where
  "s3_fit lib st e \<longleftrightarrow> stored_event lib (event_body lib e) = Inr e \<and> (\<exists>k. pending_key lib st e = Inr k)"

definition objects_ok :: "textlib \<Rightarrow> s3_store \<Rightarrow> objects \<Rightarrow> bool" where
  "objects_ok lib st b \<longleftrightarrow> s3_laws lib \<and> distinct (map fst b) \<and>
     (\<forall>(k, body) \<in> set b. starts_with (pending_prefix st) k \<longrightarrow>
       (\<exists>e. stored_event lib body = Inr e \<and> pending_key lib st e = Inr k))"

lemma set_keys_after [simp]:
  "k \<in> set (keys_after prefix None b) \<longleftrightarrow> k \<in> fst ` set b \<and> starts_with prefix k"
  by (auto simp: keys_after_def)

lemma distinct_keys_after [simp]: "distinct (keys_after prefix token b)"
  by (simp add: keys_after_def)

lemma sorted_keys_after [simp]: "sorted (keys_after prefix token b)"
  by (simp add: keys_after_def sorted_wrt_filter)

text \<open>A listing is determined by the set of keys.\<close>

lemma keys_after_unique:
  assumes "sorted ks" "distinct ks" "\<And>k. k \<in> set ks \<longleftrightarrow> k \<in> fst ` set b \<and> starts_with prefix k"
  shows "keys_after prefix None b = ks"
  using assms by (intro sorted_distinct_set_unique) auto

lemma starts_with_append [simp]: "starts_with p (p @ s)"
  by (simp add: starts_with_def)

lemma pending_key_prefix: "pending_key lib st e = Inr k \<Longrightarrow> starts_with (pending_prefix st) k"
  by (auto simp: pending_key_def)

text \<open>The key of an event names its identity, and the identity its key.\<close>

lemma pending_key_iff:
  assumes "s3_laws lib" "pending_key lib st e = Inr k" "pending_key lib st f = Inr k'"
  shows "k = k' \<longleftrightarrow> event_deduplication_id lib e = event_deduplication_id lib f"
proof
  have slash: "CHR ''/'' \<notin> set (event_deduplication_id lib x @ ''.json'')" for x
    using assms(1) by (auto simp: s3_laws_def event_deduplication_id_def)
  have last: "takeWhile (\<lambda>c. c \<noteq> CHR ''/'') (rev (a @ ''/'' @ event_deduplication_id lib x @ ''.json'')) =
      rev (event_deduplication_id lib x @ ''.json'')" for a x
    using slash [of x] by (auto simp: takeWhile_tail takeWhile_append2)
  obtain t t' where keys: "k = (pending_prefix st @ s3_hour st t) @ ''/'' @ event_deduplication_id lib e @ ''.json''"
      "k' = (pending_prefix st @ s3_hour st t') @ ''/'' @ event_deduplication_id lib f @ ''.json''"
    using assms(2,3) by (auto simp: pending_key_def)
  show "event_deduplication_id lib e = event_deduplication_id lib f" if "k = k'"
  proof -
    have "rev (event_deduplication_id lib e @ ''.json'') = rev (event_deduplication_id lib f @ ''.json'')"
      using that keys last by metis
    then show ?thesis by simp
  qed
  show "k = k'" if "event_deduplication_id lib e = event_deduplication_id lib f"
  proof -
    have "ev_updated_at e = ev_updated_at f" using assms(1) that unfolding s3_laws_def by blast
    with that have "pending_key lib st e = pending_key lib st f" by (simp only: pending_key_def)
    with assms(2,3) show ?thesis by simp
  qed
qed

section \<open>Reading\<close>

lemma asks_Inr: "asks st n = (Inr u, n') \<Longrightarrow> s3_fault st n = None \<and> n' = Suc n"
  by (auto simp: asks_def split: option.splits)

lemma read_object_result:
  "read_object lib w b k = Inr (e, due) \<Longrightarrow> held_at lib b k = [e] \<and> due = delivered w e"
  by (auto simp: read_object_def held_at_def dec_le_def delivered_def split: if_splits)

lemma read_keys_result:
  "read_keys lib st w b ks n = (Inr es, n') \<Longrightarrow> es = filter (delivered w) (concat (map (held_at lib b) ks))"
proof (induction ks arbitrary: es n n')
  case (Cons k ks)
  from Cons.prems obtain e due n1 n2 rest where "read_object lib w b k = Inr (e, due)"
      "read_keys lib st w b ks n1 = (Inr rest, n2)" "es = (if due then e # rest else rest)"
    by (auto elim!: andThen_Inr simp: run_prog run_lift_result)
  with Cons.IH read_object_result show ?case by simp
qed (simp add: run_prog)

lemma read_pages_result:
  "read_pages lib st w token b n = (Inr es, n') \<Longrightarrow>
   es = filter (delivered w) (concat (map (held_at lib b) (keys_after (pending_prefix st) token b)))"
proof (induction lib st w token b arbitrary: es n n' rule: read_pages.induct)
  case (1 lib st w token b)
  obtain page following where l: "list_objects (s3_page st) (pending_prefix st) token b = (page, following)" by fastforce
  from "1.prems" l obtain xs n1 n2 where xs: "read_keys lib st w b page n1 = (Inr xs, n2)"
    and rest: "(case following of None \<Rightarrow> ret xs
      | Some t \<Rightarrow> andThen (read_pages lib st w (Some t) b) (\<lambda>rest. ret (xs @ rest))) n2 = (Inr es, n')"
    by (auto elim!: andThen_Inr simp: read_pages.simps [of lib st w token b])
  show ?case
  proof (cases following)
    case None
    with l have "page = keys_after (pending_prefix st) token b"
      by (auto simp: list_objects_def Let_def split: if_splits)
    with rest None read_keys_result [OF xs] show ?thesis by (simp add: run_prog)
  next
    case (Some t)
    with rest obtain ys n3 where ys: "read_pages lib st w (Some t) b n2 = (Inr ys, n3)" "es = xs @ ys"
      by (auto elim!: andThen_Inr simp: run_prog)
    have "ys = filter (delivered w) (concat (map (held_at lib b) (keys_after (pending_prefix st) (Some t) b)))"
      by (rule "1.IH" [OF l [symmetric] Some ys(1)])
    with ys(2) read_keys_result [OF xs] show ?thesis
      using keys_after_rest(2) [OF l [unfolded Some]] by simp
  qed
qed

text \<open>What a sound bucket holds: an event per pending key.\<close>

lemma held_key:
  assumes "objects_ok lib st b" "k \<in> set (keys_after (pending_prefix st) None b)"
  obtains e where "held_at lib b k = [e]" "pending_key lib st e = Inr k"
proof -
  from assms(2) obtain body where body: "(k, body) \<in> set b" "starts_with (pending_prefix st) k" by auto
  with assms(1) obtain e where "stored_event lib body = Inr e" "pending_key lib st e = Inr k"
    by (auto simp: objects_ok_def)
  moreover have "map_of b k = Some body" using assms(1) body(1) by (simp add: objects_ok_def)
  ultimately show thesis using that by (simp add: held_at_def)
qed

lemma set_objects_held:
  assumes "objects_ok lib st b"
  shows "e \<in> set (objects_held lib st b) \<longleftrightarrow>
    (\<exists>k body. map_of b k = Some body \<and> starts_with (pending_prefix st) k \<and> stored_event lib body = Inr e)"
proof -
  have "distinct (map fst b)" using assms by (simp add: objects_ok_def)
  then show ?thesis
    by (force simp: objects_held_def held_at_def split: option.splits sum.splits dest: map_of_SomeD)
qed

lemma held_pending_key:
  assumes "objects_ok lib st b" "e \<in> set (objects_held lib st b)"
  obtains k where "pending_key lib st e = Inr k" "k \<in> set (keys_after (pending_prefix st) None b)" "held_at lib b k = [e]"
proof -
  from assms(2) obtain k where k: "k \<in> set (keys_after (pending_prefix st) None b)" "e \<in> set (held_at lib b k)"
    by (auto simp: objects_held_def simp del: set_keys_after)
  with held_key [OF assms(1) k(1)] that show thesis by (metis empty_iff list.set(1) set_ConsD)
qed

lemma concat_filter:
  "(\<And>k. k \<in> set ks \<Longrightarrow> filter P (f k) = (if Q k then f k else [])) \<Longrightarrow>
   filter P (concat (map f ks)) = concat (map f (filter Q ks))"
  by (induction ks) auto

lemma other_key:
  "\<not> starts_with (pending_prefix st) (s3_prefix st @ ''/state/watermark.json'')"
  "\<not> starts_with (pending_prefix st) (s3_prefix st @ ''/archive/'' @ t)"
  by (simp_all add: starts_with_def pending_prefix_def)

lemmas other_keys [simp] = other_key [simplified]

text \<open>An object outside the pending ones changes nothing.\<close>

lemma objects_held_other:
  assumes "\<not> starts_with (pending_prefix st) k"
  shows "objects_held lib st (AList.update k body b) = objects_held lib st b"
  unfolding objects_held_def
proof (intro arg_cong [where f = concat] map_cong)
  show "keys_after (pending_prefix st) None (AList.update k body b) = keys_after (pending_prefix st) None b"
    using assms by (intro keys_after_unique) (auto simp: dom_update)
  show "held_at lib (AList.update k body b) k' = held_at lib b k'"
    if "k' \<in> set (keys_after (pending_prefix st) None b)" for k'
    using that assms by (auto simp: held_at_def update_conv')
qed

lemma objects_ok_other:
  "objects_ok lib st b \<Longrightarrow> \<not> starts_with (pending_prefix st) k \<Longrightarrow> objects_ok lib st (AList.update k body b)"
  using set_dict_update [of k body b] by (auto simp: objects_ok_def distinct_update)

lemma map_of_delete_objects: "map_of (delete_objects ks b) k = (if k \<in> set ks then None else map_of b k)"
  by (induction b) (auto simp: delete_objects_def)

lemma objects_ok_delete:
  assumes "objects_ok lib st b"
  shows "objects_ok lib st (delete_objects ks b)"
    and "objects_held lib st (delete_objects ks b) =
      concat (map (held_at lib b) (filter (\<lambda>k. k \<notin> set ks) (keys_after (pending_prefix st) None b)))"
proof -
  show "objects_ok lib st (delete_objects ks b)"
    using assms by (auto simp: objects_ok_def delete_objects_def distinct_map_filter)
  have "fst ` set (delete_objects ks b) = fst ` set b - set ks" by (force simp: delete_objects_def)
  then have "keys_after (pending_prefix st) None (delete_objects ks b) =
      filter (\<lambda>k. k \<notin> set ks) (keys_after (pending_prefix st) None b)"
    by (intro keys_after_unique) (auto simp: sorted_wrt_filter)
  then show "objects_held lib st (delete_objects ks b) =
      concat (map (held_at lib b) (filter (\<lambda>k. k \<notin> set ks) (keys_after (pending_prefix st) None b)))"
    unfolding objects_held_def
    by (intro arg_cong [where f = concat] map_cong) (auto simp: held_at_def map_of_delete_objects)
qed

lemma held_distinct_ids:
  assumes "objects_ok lib st b"
  shows "distinct (map (event_deduplication_id lib) (objects_held lib st b))"
proof -
  have laws: "s3_laws lib" using assms by (simp add: objects_ok_def)
  have "distinct (map (event_deduplication_id lib) (concat (map (held_at lib b) ks)))"
    if "set ks \<subseteq> set (keys_after (pending_prefix st) None b)" "distinct ks" for ks
    using that
  proof (induction ks)
    case (Cons k ks)
    obtain e where e: "held_at lib b k = [e]" "pending_key lib st e = Inr k"
      using held_key [OF assms] Cons.prems(1) by (metis list.set_intros(1) subsetD)
    have "event_deduplication_id lib e \<noteq> event_deduplication_id lib f" if f: "f \<in> set (held_at lib b k')" "k' \<in> set ks" for f k'
    proof -
      have "k' \<in> set (keys_after (pending_prefix st) None b)" using f(2) Cons.prems(1) by (meson list.set_intros(2) subsetD)
      then obtain g where "held_at lib b k' = [g]" "pending_key lib st g = Inr k'" using held_key [OF assms] by blast
      with f(1) have "pending_key lib st f = Inr k'" by simp
      with pending_key_iff [OF laws e(2)] f(2) Cons.prems(2) show ?thesis by auto
    qed
    with e Cons show ?case by (force simp del: set_keys_after)
  qed simp
  then show ?thesis by (simp add: objects_held_def)
qed

section \<open>Writing\<close>

text \<open>The events a deletion removes are those under its keys.\<close>

lemma objects_delete:
  assumes "objects_ok lib st b"
  shows "objects_held lib st (delete_objects ks b) =
    filter (\<lambda>e. list_all (\<lambda>k. pending_key lib st e \<noteq> Inr k) ks) (objects_held lib st b)"
  unfolding objects_ok_delete(2) [OF assms] objects_held_def [of lib st b]
proof (rule concat_filter [symmetric])
  fix k assume "k \<in> set (keys_after (pending_prefix st) None b)"
  then obtain e where "held_at lib b k = [e]" "pending_key lib st e = Inr k" by (rule held_key [OF assms])
  then show "filter (\<lambda>e. list_all (\<lambda>k. pending_key lib st e \<noteq> Inr k) ks) (held_at lib b k) =
      (if k \<notin> set ks then held_at lib b k else [])"
    by (auto simp: list_all_iff)
qed

definition s3_held :: "textlib \<Rightarrow> s3_store \<Rightarrow> bucket \<Rightarrow> change_event list" where
  "s3_held lib st b = objects_held lib st (bk_objects b)"

definition s3_ok :: "textlib \<Rightarrow> s3_store \<Rightarrow> bucket \<Rightarrow> bool" where
  "s3_ok lib st b \<longleftrightarrow> objects_ok lib st (bk_objects b)"

text \<open>An event some deletion leaves out.\<close>

definition s3_spared :: "textlib \<Rightarrow> s3_store \<Rightarrow> change_event \<Rightarrow> bool" where
  "s3_spared lib st e \<longleftrightarrow> (\<exists>n k. pending_key lib st e = Inr k \<and> s3_kept st n k)"

text \<open>A request changes the objects as it should or not at all; when it returns, as it should.\<close>

lemma changes_objects:
  "bk_objects (snd (changes st f b)) \<in> {bk_objects b, f (bk_requests b) (bk_objects b)}"
  "fst (changes st f b) = Inr () \<Longrightarrow> bk_objects (snd (changes st f b)) = f (bk_requests b) (bk_objects b)"
  by (auto simp: changes_def Let_def split: option.splits)

lemma keeps_changes:
  "(\<And>n objects. P objects \<Longrightarrow> P (f n objects)) \<Longrightarrow> keeps (\<lambda>b. P (bk_objects b)) (changes st f)"
proof (rule keepsI)
  show "P (bk_objects (snd (changes st f b)))"
    if "\<And>n objects. P objects \<Longrightarrow> P (f n objects)" "P (bk_objects b)" for b
    using changes_objects(1) [of st f b] that by auto
qed

lemma changes_other:
  assumes "\<not> starts_with (pending_prefix st) k"
  shows "s3_held lib st (snd (changes st (\<lambda>_. AList.update k body) b)) = s3_held lib st b"
    and "s3_ok lib st b \<Longrightarrow> s3_ok lib st (snd (changes st (\<lambda>_. AList.update k body) b))"
  using changes_objects(1) [of st "\<lambda>_. AList.update k body" b] objects_held_other [OF assms] objects_ok_other [OF _ assms]
  by (auto simp: s3_held_def s3_ok_def)

lemma mapE_Inr_in: "mapE f xs = Inr ys \<Longrightarrow> x \<in> set xs \<Longrightarrow> \<exists>y \<in> set ys. f x = Inr y"
  by (induction xs arbitrary: ys) auto

text \<open>Deleting a chunk of the events \<open>H\<close> of a sound bucket.\<close>

lemma delete_chunk_held:
  assumes "s3_ok lib st b" "inj_on (event_deduplication_id lib) H" "set (s3_held lib st b) \<subseteq> H" "set es \<subseteq> H"
    and "delete_chunk lib st es b = (res, b')"
  shows "s3_ok lib st b'" and "\<exists>gone \<subseteq> set es. s3_held lib st b' = filter (\<lambda>e. e \<notin> gone) (s3_held lib st b)"
    and "res = Inr () \<Longrightarrow> e \<in> set es \<Longrightarrow> e \<in> set (s3_held lib st b') \<Longrightarrow> s3_spared lib st e"
proof -
  let ?held = "s3_held lib st b"
  have ok: "objects_ok lib st (bk_objects b)" and laws: "s3_laws lib"
    using assms(1) by (simp_all add: s3_ok_def objects_ok_def)
  show "s3_ok lib st b'" using assms(1,5)
    keepsD [of "\<lambda>b. objects_ok lib st (bk_objects b)" "delete_chunk lib st es" b]
    by (auto simp: delete_chunk_def s3_ok_def intro!: keeps_intros keeps_changes objects_ok_delete(1))
  have same: "f \<in> set es" if "f \<in> set ?held" "g \<in> set es" "pending_key lib st f = Inr k" "pending_key lib st g = Inr k" for f g k
  proof -
    have "event_deduplication_id lib f = event_deduplication_id lib g" using pending_key_iff [OF laws that(3,4)] by simp
    with assms(2,3,4) that(1,2) have "f = g" by (meson inj_onD subsetD)
    with that(2) show ?thesis by simp
  qed
  have delete: "\<exists>gone \<subseteq> set es. objects_held lib st (delete_objects ks (bk_objects b)) = filter (\<lambda>e. e \<notin> gone) ?held"
    if ks: "\<And>k. k \<in> set ks \<Longrightarrow> \<exists>g \<in> set es. pending_key lib st g = Inr k" for ks
  proof (intro exI conjI)
    show "{e \<in> set ?held. \<exists>k \<in> set ks. pending_key lib st e = Inr k} \<subseteq> set es" using same ks by blast
    show "objects_held lib st (delete_objects ks (bk_objects b)) =
        filter (\<lambda>e. e \<notin> {e \<in> set ?held. \<exists>k \<in> set ks. pending_key lib st e = Inr k}) ?held"
      unfolding objects_delete [OF ok] s3_held_def by (rule filter_cong) (auto simp: list_all_iff)
  qed
  have none: "\<exists>gone \<subseteq> set es. ?held = filter (\<lambda>e. e \<notin> gone) ?held" by (intro exI [of _ "{}"]) simp
  show "\<exists>gone \<subseteq> set es. s3_held lib st b' = filter (\<lambda>e. e \<notin> gone) ?held"
  proof (cases "mapE (pending_key lib st) es")
    case (Inl x)
    with assms(5) have "b' = b" by (auto simp: delete_chunk_def run_andThen run_lift_result)
    with none show ?thesis by simp
  next
    case (Inr ks)
    let ?ks = "filter (\<lambda>k. \<not> s3_kept st (bk_requests b) k) ks"
    from Inr assms(5) have "bk_objects b' \<in> {bk_objects b, delete_objects ?ks (bk_objects b)}"
      using changes_objects(1) [of st "\<lambda>n. delete_objects (filter (\<lambda>k. \<not> s3_kept st n k) ks)" b]
      by (auto simp: delete_chunk_def run_andThen run_lift_result)
    moreover have "\<exists>g \<in> set es. pending_key lib st g = Inr k" if "k \<in> set ?ks" for k
      using mapE_Inr_set [OF Inr] that by simp
    ultimately show ?thesis
    proof (elim insertE emptyE)
      assume "bk_objects b' = bk_objects b"
      with none show ?thesis by (simp add: s3_held_def)
    next
      assume "bk_objects b' = delete_objects ?ks (bk_objects b)"
      with delete [of ?ks] mapE_Inr_set [OF Inr] show ?thesis by (simp add: s3_held_def)
    qed
  qed
  show "s3_spared lib st e" if "res = Inr ()" "e \<in> set es" "e \<in> set (s3_held lib st b')"
  proof -
    from assms(5) that(1) obtain ks where ks: "mapE (pending_key lib st) es = Inr ks"
      by (cases "mapE (pending_key lib st) es") (auto simp: delete_chunk_def run_andThen run_lift_result)
    let ?ks = "filter (\<lambda>k. \<not> s3_kept st (bk_requests b) k) ks"
    from mapE_Inr_in [OF ks that(2)] obtain k where k: "k \<in> set ks" "pending_key lib st e = Inr k" by blast
    have "bk_objects b' = delete_objects ?ks (bk_objects b)"
      using ks assms(5) that(1) changes_objects(2) [of st "\<lambda>n. delete_objects (filter (\<lambda>k. \<not> s3_kept st n k) ks)" b]
      by (auto simp: delete_chunk_def run_andThen run_lift_result)
    with that(3) have "\<forall>k \<in> set ?ks. pending_key lib st e \<noteq> Inr k"
      by (simp add: s3_held_def objects_delete [OF ok] list_all_iff)
    with k show ?thesis by (auto simp: s3_spared_def)
  qed
qed

lemma delete_chunks_held:
  assumes "inj_on (event_deduplication_id lib) H"
  shows "s3_ok lib st b \<Longrightarrow> set (s3_held lib st b) \<subseteq> H \<Longrightarrow> set (concat ess) \<subseteq> H \<Longrightarrow>
   for_each ess (delete_chunk lib st) b = (res, b') \<Longrightarrow>
   s3_ok lib st b' \<and> (\<exists>gone \<subseteq> set (concat ess). s3_held lib st b' = filter (\<lambda>e. e \<notin> gone) (s3_held lib st b)) \<and>
   (res = Inr () \<longrightarrow> (\<forall>e \<in> set (concat ess). e \<in> set (s3_held lib st b') \<longrightarrow> s3_spared lib st e))"
proof (induction ess arbitrary: b)
  case Nil
  then show ?case by (auto simp: run_prog intro: exI [of _ "{}"])
next
  case (Cons es ess)
  obtain r1 b1 where one: "delete_chunk lib st es b = (r1, b1)" by fastforce
  have es: "set es \<subseteq> H" using Cons.prems(3) by simp
  note chunk = delete_chunk_held [OF Cons.prems(1) assms Cons.prems(2) es one]
  from chunk(2) obtain g1 where g1: "g1 \<subseteq> set es" "s3_held lib st b1 = filter (\<lambda>e. e \<notin> g1) (s3_held lib st b)" by blast
  show ?case
  proof (cases r1)
    case (Inl x)
    with Cons.prems(4) one have "res = Inl x" "b' = b1" by (auto simp: run_andThen)
    with chunk(1) g1 show ?thesis by (auto intro!: exI [of _ g1])
  next
    case (Inr u)
    with Cons.prems(4) one have rest: "for_each ess (delete_chunk lib st) b1 = (res, b')" by (auto simp: run_andThen)
    have "set (s3_held lib st b1) \<subseteq> H" "set (concat ess) \<subseteq> H" using g1(2) Cons.prems(2,3) by auto
    note later = Cons.IH [OF chunk(1) this rest]
    then obtain g2 where g2: "g2 \<subseteq> set (concat ess)" "s3_held lib st b' = filter (\<lambda>e. e \<notin> g2) (s3_held lib st b1)" by blast
    with g1 have "g1 \<union> g2 \<subseteq> set (concat (es # ess))" "s3_held lib st b' = filter (\<lambda>e. e \<notin> g1 \<union> g2) (s3_held lib st b)"
      by auto
    moreover have "s3_spared lib st e" if "res = Inr ()" "e \<in> set (concat (es # ess))" "e \<in> set (s3_held lib st b')" for e
      using that later chunk(3) [of e] Inr g2(2) by auto
    ultimately show ?thesis using later by blast
  qed
qed

lemma s3_mark_held:
  assumes "s3_ok lib st b" "set es \<subseteq> set (s3_held lib st b)"
  shows "\<exists>gone \<subseteq> set es. s3_held lib st (snd (s3_mark_processed lib st es w b)) = filter (\<lambda>e. e \<notin> gone) (s3_held lib st b)"
    and "fst (s3_mark_processed lib st es w b) = Inr () \<Longrightarrow> e \<in> set es \<Longrightarrow>
      e \<in> set (s3_held lib st (snd (s3_mark_processed lib st es w b))) \<Longrightarrow> s3_spared lib st e"
proof -
  obtain r1 b1 where run: "for_each (chunks 1000 es) (delete_chunk lib st) b = (r1, b1)" by fastforce
  have inj: "inj_on (event_deduplication_id lib) (set (s3_held lib st b))"
    using held_distinct_ids [of lib st "bk_objects b"] assms(1) by (simp add: s3_held_def s3_ok_def distinct_map)
  have concat: "concat (chunks 1000 es) = es" by (simp add: concat_chunks)
  note all = delete_chunks_held [OF inj assms(1) subset_refl _ run, unfolded concat, OF assms(2)]
  have "s3_held lib st (snd (s3_mark_processed lib st es w b)) = s3_held lib st b1"
    using run by (cases r1) (simp_all add: s3_mark_processed_def run_andThen changes_other other_key)
  then show "\<exists>gone \<subseteq> set es. s3_held lib st (snd (s3_mark_processed lib st es w b)) = filter (\<lambda>e. e \<notin> gone) (s3_held lib st b)"
    and "fst (s3_mark_processed lib st es w b) = Inr () \<Longrightarrow> e \<in> set es \<Longrightarrow>
      e \<in> set (s3_held lib st (snd (s3_mark_processed lib st es w b))) \<Longrightarrow> s3_spared lib st e"
    using all run by (auto simp: s3_mark_processed_def run_andThen split: sum.splits)
qed

lemma s3_mark_ok:
  assumes "s3_ok lib st b"
  shows "s3_ok lib st (snd (s3_mark_processed lib st es w b))"
proof -
  have "keeps (\<lambda>b. objects_ok lib st (bk_objects b)) (delete_chunk lib st chunk)" for chunk
    unfolding delete_chunk_def by (intro keeps_intros keeps_changes objects_ok_delete(1))
  then have "keeps (\<lambda>b. objects_ok lib st (bk_objects b)) (s3_mark_processed lib st es w)"
    unfolding s3_mark_processed_def by (intro keeps_intros keeps_changes objects_ok_other other_key)
  with assms show ?thesis unfolding s3_ok_def by (rule keepsD [rotated])
qed

text \<open>A put adds its event and drops at most the one under its key.\<close>

lemma s3_put_fit:
  assumes "s3_fit lib st e"
  obtains k where "bk_objects (snd (s3_put lib st e b)) \<in> {bk_objects b, AList.update k (event_body lib e) (bk_objects b)}"
    "pending_key lib st e = Inr k" "stored_event lib (event_body lib e) = Inr e"
proof -
  from assms obtain k where k: "pending_key lib st e = Inr k" and e: "stored_event lib (event_body lib e) = Inr e"
    by (auto simp: s3_fit_def)
  show thesis
    using that [OF _ k e] k changes_objects(1) [of st "\<lambda>_. AList.update k (event_body lib e)" b]
    by (simp add: s3_put_def run_andThen run_lift_result)
qed

lemma objects_put:
  assumes "objects_ok lib st b" "pending_key lib st e = Inr k" "stored_event lib (event_body lib e) = Inr e"
  shows "objects_ok lib st (AList.update k (event_body lib e) b)"
    and "x \<in> set (objects_held lib st (AList.update k (event_body lib e) b)) \<Longrightarrow> x = e \<or> x \<in> set (objects_held lib st b)"
    and "x \<in> set (objects_held lib st b) \<Longrightarrow> x \<in> set (objects_held lib st (AList.update k (event_body lib e) b)) \<or>
      event_deduplication_id lib x = event_deduplication_id lib e"
proof -
  show ok: "objects_ok lib st (AList.update k (event_body lib e) b)"
    using assms set_dict_update [of k "event_body lib e" b] by (auto simp: objects_ok_def distinct_update)
  show "x = e \<or> x \<in> set (objects_held lib st b)" if "x \<in> set (objects_held lib st (AList.update k (event_body lib e) b))"
    using that assms(3) by (auto simp: set_objects_held [OF ok] set_objects_held [OF assms(1)] update_conv' split: if_splits)
  show "x \<in> set (objects_held lib st (AList.update k (event_body lib e) b)) \<or> event_deduplication_id lib x = event_deduplication_id lib e"
    if x: "x \<in> set (objects_held lib st b)"
  proof -
    obtain k' where k': "pending_key lib st x = Inr k'" "k' \<in> set (keys_after (pending_prefix st) None b)"
        "held_at lib b k' = [x]"
      by (rule held_pending_key [OF assms(1) x])
    show ?thesis
    proof (cases "k' = k")
      case True
      with pending_key_iff [OF _ k'(1) assms(2)] assms(1) show ?thesis by (simp add: objects_ok_def)
    next
      case False
      with k' have "map_of (AList.update k (event_body lib e) b) k' = map_of b k'" by (simp add: update_conv')
      with k'(2,3) show ?thesis
        by (auto simp: set_objects_held [OF ok] held_at_def split: option.splits sum.splits)
    qed
  qed
qed

lemma s3_read_objects [simp]: "bk_objects (snd (s3_read_through lib st w b)) = bk_objects b"
  by (simp add: s3_read_through_def split: prod.split)

lemma s3_read_ok: "s3_ok lib st b \<Longrightarrow> s3_ok lib st (snd (s3_read_through lib st w b))"
  and s3_read_held [simp]: "s3_held lib st (snd (s3_read_through lib st w b)) = s3_held lib st b"
  by (simp_all add: s3_ok_def s3_held_def)

lemma s3_distinct: "s3_ok lib st b \<Longrightarrow> distinct (map (event_deduplication_id lib) (s3_held lib st b))"
  unfolding s3_ok_def s3_held_def by (rule held_distinct_ids)

lemma s3_read_result:
  "fst (s3_read_through lib st w b) = Inr es \<Longrightarrow> es = sort_key dec_key (filter (delivered w) (s3_held lib st b))"
  by (auto simp: s3_read_through_def s3_held_def objects_held_def run_prog elim!: andThen_Inr dest: read_pages_result
      split: prod.splits)

interpretation s3_store: window_store lib "s3_put lib st" "s3_read_through lib st" "s3_mark_processed lib st"
  "s3_archive lib st" "s3_held lib st" "s3_ok lib st" "s3_fit lib st" "s3_spared lib st" for lib st
proof unfold_locales
  fix b :: bucket and e x :: change_event and es :: "change_event list" and w k r
  assume fit: "s3_fit lib st e"
  obtain k where put: "bk_objects (snd (s3_put lib st e b)) \<in> {bk_objects b, AList.update k (event_body lib e) (bk_objects b)}"
    "pending_key lib st e = Inr k" "stored_event lib (event_body lib e) = Inr e"
    by (rule s3_put_fit [OF fit])
  assume "s3_ok lib st b"
  then have "objects_ok lib st (bk_objects b)" by (simp add: s3_ok_def)
  note put' = objects_put [OF this put(2,3)]
  show "s3_ok lib st (snd (s3_put lib st e b))" using put(1) put'(1) \<open>s3_ok lib st b\<close> by (auto simp: s3_ok_def)
  show "x = e \<or> x \<in> set (s3_held lib st b)" if "x \<in> set (s3_held lib st (snd (s3_put lib st e b)))"
    using that put(1) put'(2) [of x] by (auto simp: s3_held_def)
  show "x \<in> set (s3_held lib st (snd (s3_put lib st e b))) \<or> event_deduplication_id lib x = event_deduplication_id lib e"
    if "x \<in> set (s3_held lib st b)"
    using that put(1) put'(3) [of x] by (auto simp: s3_held_def)
qed (auto simp: s3_archive_def changes_other other_key intro: s3_mark_ok s3_mark_held s3_read_result s3_distinct s3_read_ok)

section \<open>The pipeline over the bucket\<close>

definition s3_process where
  "s3_process lib st = process lib (s3_put lib st) (s3_read_through lib st) (s3_mark_processed lib st) (s3_archive lib st)"

lemma s3_process_run: "s3_process lib st = s3_store.run lib st"
  by (simp add: s3_process_def)

lemma pending_key_number: "pending_key lib st e = Inr k \<Longrightarrow> ev_updated_at e \<noteq> NotANumber"
  by (auto simp: pending_key_def change_timestamp_datetime_def)

text \<open>Reading a sound bucket through a number fails only where the service does.\<close>

lemma read_object_total:
  assumes "objects_ok lib st b" "w \<noteq> NotANumber" "k \<in> set (keys_after (pending_prefix st) None b)"
  obtains e where "read_object lib w b k = Inr (e, delivered w e)"
proof -
  obtain e where e: "held_at lib b k = [e]" "pending_key lib st e = Inr k" by (rule held_key [OF assms(1,3)])
  then obtain body where "map_of b k = Some body" "stored_event lib body = Inr e"
    by (auto simp: held_at_def split: option.splits sum.splits)
  moreover have "dec_le (ev_updated_at e) w = Inr (delivered w e)"
    using assms(2) pending_key_number [OF e(2)] by (simp add: dec_le_def delivered_def)
  ultimately show thesis using that by (simp add: read_object_def)
qed

lemma asks_Inl: "asks st n = (Inl e, n') \<Longrightarrow> \<exists>f. s3_fault st n = Some f"
  by (auto simp: asks_def split: option.splits)

lemma read_keys_raises:
  assumes "objects_ok lib st b" "w \<noteq> NotANumber"
  shows "set ks \<subseteq> set (keys_after (pending_prefix st) None b) \<Longrightarrow> read_keys lib st w b ks n = (Inl e, n') \<Longrightarrow>
    \<exists>n f. s3_fault st n = Some f"
proof (induction ks arbitrary: n n' e)
  case (Cons k ks)
  have k: "k \<in> set (keys_after (pending_prefix st) None b)" using Cons.prems(1) by simp
  obtain x where x: "read_object lib w b k = Inr (x, delivered w x)" by (rule read_object_total [OF assms k])
  obtain a n1 where a: "asks st n = (a, n1)" by fastforce
  obtain q n2 where q: "read_keys lib st w b ks n1 = (q, n2)" by fastforce
  show ?case
  proof (cases a)
    case (Inr u)
    with Cons.prems(2) a x q have "\<exists>e'. q = Inl e'"
      by (cases q) (simp_all add: run_andThen run_lift_result run_prog)
    with q Cons.IH Cons.prems(1) show ?thesis by auto
  qed (use a in \<open>blast dest: asks_Inl\<close>)
qed (simp add: run_prog)

lemma keys_after_subset: "set (keys_after prefix token b) \<subseteq> set (keys_after prefix None b)"
  by (auto simp: keys_after_def)

lemma read_pages_raises:
  "objects_ok lib st b \<Longrightarrow> w \<noteq> NotANumber \<Longrightarrow> read_pages lib st w token b n = (Inl e, n') \<Longrightarrow> \<exists>n f. s3_fault st n = Some f"
proof (induction lib st w token b arbitrary: n n' e rule: read_pages.induct)
  case (1 lib st w token b)
  obtain page following where l: "list_objects (s3_page st) (pending_prefix st) token b = (page, following)" by fastforce
  then have "set page \<subseteq> set (keys_after (pending_prefix st) token b)"
    by (auto simp: list_objects_def Let_def simp del: take_Suc_Cons dest: in_set_takeD)
  with keys_after_subset have page: "set page \<subseteq> set (keys_after (pending_prefix st) None b)" by blast
  obtain a n1 where a: "asks st n = (a, n1)" by fastforce
  obtain q n2 where q: "read_keys lib st w b page n1 = (q, n2)" by fastforce
  show ?case
  proof (cases a)
    case a': (Inr u)
    show ?thesis
    proof (cases q)
      case (Inl x)
      with read_keys_raises [OF "1.prems"(1,2) page] q show ?thesis by blast
    next
      case (Inr xs)
      with "1.prems"(3) a a' q l obtain t where t: "following = Some t"
        by (cases following) (simp_all add: read_pages.simps [of lib st w token b] run_andThen run_prog)
      obtain p n3 where rest: "read_pages lib st w (Some t) b n2 = (p, n3)" by fastforce
      with "1.prems"(3) a a' q Inr l t have "\<exists>e'. p = Inl e'"
        by (cases p) (simp_all add: read_pages.simps [of lib st w token b] run_andThen run_prog)
      with rest "1.IH" [OF l [symmetric] t "1.prems"(1,2)] show ?thesis by blast
    qed
  qed (use a in \<open>blast dest: asks_Inl\<close>)
qed

lemma s3_read_raises:
  assumes "s3_ok lib st b" "w \<noteq> NotANumber" "s3_read_through lib st w b = (Inl e, b')"
  shows "\<exists>n f. s3_fault st n = Some f"
proof -
  obtain q n where q: "read_pages lib st w None (bk_objects b) (bk_requests b) = (q, n)" by fastforce
  with assms(3) have "\<exists>e'. q = Inl e'"
    by (cases q) (simp_all add: s3_read_through_def run_andThen run_prog)
  with q read_pages_raises [OF assms(1) [unfolded s3_ok_def] assms(2)] show ?thesis by blast
qed

end
