(* ===== verification/Cons_S3_Claims.thy ===== *)
theory Cons_S3_Claims
  imports Cons_S3 Cons_Claims
begin



section \<open>A bucket\<close>











end
