(* ===== verification/Be_Domain.thy ===== *)
theory Be_Domain
  imports Prelude
begin

text \<open>
  The contracts of the responder (\<^verbatim>\<open>backend/src/postmortem_backend/domain.py\<close> and
  \<^verbatim>\<open>errors.py\<close>): the incident signal, the recall query and its candidates, commands, decisions,
  results and events, the texts built from them, and the domain failures.

  The conversions of the Python library the source calls are the fields of \<open>pylib\<close>, an argument
  of the functions that use them: ISO-8601 instants, the parsing of \<open>int(...)\<close> and
  \<open>float(...)\<close> on text, the rendering of floats and containers, the Unicode normal form NFKC and
  the test for format characters, \<open>json.loads\<close> and \<open>json.dumps\<close> with their failures, and the format \<open>.9g\<close>.
\<close>

text \<open>How \<open>json.loads\<close> fails: \<open>JSONDecodeError\<close>, another \<open>ValueError\<close> for an integer of more digits than
  the interpreter converts, and \<open>RecursionError\<close> for a text that nests too deeply; \<open>json.dumps\<close> has the
  last two.\<close>

datatype json_fault = Bad_json | Long_number | Deep_json

record pylib =
  lib_isoformat :: "datetime \<Rightarrow> string"
  lib_fromisoformat :: "string \<Rightarrow> datetime option"
  lib_int_of :: "string \<Rightarrow> int option"
  lib_float_of :: "string \<Rightarrow> real option"
  lib_fixed3 :: "real \<Rightarrow> string"
  lib_repr :: "pyval \<Rightarrow> string"
  lib_nfkc :: "string \<Rightarrow> string"
  lib_format_char :: "char \<Rightarrow> bool"
  lib_loads :: "string \<Rightarrow> json_fault + pyval"
  lib_dumps :: "pyval \<Rightarrow> string"
  lib_dumps_fault :: "pyval \<Rightarrow> json_fault option"
  lib_g9 :: "real \<Rightarrow> string"

type_synonym pydict = "(string \<times> pyval) list"

section \<open>Failures\<close>

text \<open>The classes of \<^verbatim>\<open>errors.py\<close>, built-in exceptions the code lets through, and
  \<open>PortError\<close>, any other exception (of a service behind a port, or of arithmetic): its class and
  its message.\<close>

datatype be_error =
    ConfigurationError string
  | ProvenanceError string
  | ApprovalRequired string
  | UnsupportedAction string
  | RecallError string
  | ReasoningError string
  | AtomicRemediationError string
  | OutcomeConflict string
  | OutcomeRecordingError string
  | ToolNotAllowed string
  | DestructiveActionBlocked string
  | PromptInjectionDetected string
  | InputValidationError string
  | WebhookAuthenticationError string
  | RoleScopeViolation string
  | ValueFault string
  | TypeFault string
  | AttributeFault string
  | PortError string string

text \<open>\<open>type(exc).__name__\<close> and \<open>str(exc)\<close>\<close>

fun error_type :: "be_error \<Rightarrow> string" where
  "error_type (ConfigurationError _) = ''ConfigurationError''"
| "error_type (ProvenanceError _) = ''ProvenanceError''"
| "error_type (ApprovalRequired _) = ''ApprovalRequired''"
| "error_type (UnsupportedAction _) = ''UnsupportedAction''"
| "error_type (RecallError _) = ''RecallError''"
| "error_type (ReasoningError _) = ''ReasoningError''"
| "error_type (AtomicRemediationError _) = ''AtomicRemediationError''"
| "error_type (OutcomeConflict _) = ''OutcomeConflict''"
| "error_type (OutcomeRecordingError _) = ''OutcomeRecordingError''"
| "error_type (ToolNotAllowed _) = ''ToolNotAllowed''"
| "error_type (DestructiveActionBlocked _) = ''DestructiveActionBlocked''"
| "error_type (PromptInjectionDetected _) = ''PromptInjectionDetected''"
| "error_type (InputValidationError _) = ''InputValidationError''"
| "error_type (WebhookAuthenticationError _) = ''WebhookAuthenticationError''"
| "error_type (RoleScopeViolation _) = ''RoleScopeViolation''"
| "error_type (ValueFault _) = ''ValueError''"
| "error_type (TypeFault _) = ''TypeError''"
| "error_type (AttributeFault _) = ''AttributeError''"
| "error_type (PortError c _) = c"

fun error_text :: "be_error \<Rightarrow> string" where
  "error_text (ConfigurationError m) = m"
| "error_text (ProvenanceError m) = m"
| "error_text (ApprovalRequired m) = m"
| "error_text (UnsupportedAction m) = m"
| "error_text (RecallError m) = m"
| "error_text (ReasoningError m) = m"
| "error_text (AtomicRemediationError m) = m"
| "error_text (OutcomeConflict m) = m"
| "error_text (OutcomeRecordingError m) = m"
| "error_text (ToolNotAllowed m) = m"
| "error_text (DestructiveActionBlocked m) = m"
| "error_text (PromptInjectionDetected m) = m"
| "error_text (InputValidationError m) = m"
| "error_text (WebhookAuthenticationError m) = m"
| "error_text (RoleScopeViolation m) = m"
| "error_text (ValueFault m) = m"
| "error_text (TypeFault m) = m"
| "error_text (AttributeFault m) = m"
| "error_text (PortError _ m) = m"

section \<open>Enumerations\<close>

datatype memory_kind = Episodic | Semantic | Procedural

datatype action_kind = Rollback | Restart | Scale | Feature_flag

datatype decision_kind = Remediate | Propose | Ask_human | Escalate

datatype outcome_kind = Succeeded | Failed | No_effect

datatype event_type = Incident_received | Recall_started | Recall_completed | Reasoning_started
  | Decision_proposed | Action_proposed | Approval_required | Transaction_started
  | Transaction_committed | Transaction_rolled_back | Outcome_recorded | Response_completed
  | Response_failed

text \<open>The \<open>value\<close> of a member.\<close>

fun memory_kind_str :: "memory_kind \<Rightarrow> string" where
  "memory_kind_str Episodic = ''episodic''"
| "memory_kind_str Semantic = ''semantic''"
| "memory_kind_str Procedural = ''procedural''"

fun action_str :: "action_kind \<Rightarrow> string" where
  "action_str Rollback = ''rollback''"
| "action_str Restart = ''restart''"
| "action_str Scale = ''scale''"
| "action_str Feature_flag = ''feature_flag''"

fun decision_str :: "decision_kind \<Rightarrow> string" where
  "decision_str Remediate = ''remediate_and_record''"
| "decision_str Propose = ''propose_action''"
| "decision_str Ask_human = ''ask_human''"
| "decision_str Escalate = ''escalate''"

fun outcome_value :: "outcome_kind \<Rightarrow> string" where
  "outcome_value Succeeded = ''success''"
| "outcome_value Failed = ''failed''"
| "outcome_value No_effect = ''no_effect''"

fun event_type_str :: "event_type \<Rightarrow> string" where
  "event_type_str Incident_received = ''incident.received''"
| "event_type_str Recall_started = ''recall.started''"
| "event_type_str Recall_completed = ''recall.completed''"
| "event_type_str Reasoning_started = ''reasoning.started''"
| "event_type_str Decision_proposed = ''decision.proposed''"
| "event_type_str Action_proposed = ''action.proposed''"
| "event_type_str Approval_required = ''approval.required''"
| "event_type_str Transaction_started = ''transaction.started''"
| "event_type_str Transaction_committed = ''transaction.committed''"
| "event_type_str Transaction_rolled_back = ''transaction.rolled_back''"
| "event_type_str Outcome_recorded = ''outcome.recorded''"
| "event_type_str Response_completed = ''response.completed''"
| "event_type_str Response_failed = ''response.failed''"

text \<open>\<open>ActionKind(value)\<close> and \<open>OutcomeKind(value)\<close>; a value that is no member raises.\<close>

definition action_of_str :: "string \<Rightarrow> action_kind option" where
  "action_of_str s = find (\<lambda>a. action_str a = s) [Rollback, Restart, Scale, Feature_flag]"

definition outcome_of_str :: "string \<Rightarrow> outcome_kind option" where
  "outcome_of_str s = find (\<lambda>a. outcome_value a = s) [Succeeded, Failed, No_effect]"

lemma action_of_str [simp]: "action_of_str (action_str a) = Some a"
  by (cases a) (simp_all add: action_of_str_def)

lemma outcome_of_str [simp]: "outcome_of_str (outcome_value a) = Some a"
  by (cases a) (simp_all add: outcome_of_str_def)

section \<open>Signals, queries and memory\<close>

record signal =
  sig_incident_id :: uuid
  sig_session_id :: uuid
  sig_org_id :: uuid
  sig_agent_id :: uuid
  sig_service_id :: uuid
  sig_severity :: string
  sig_summary :: string
  sig_error_signature :: "string option"
  sig_service_tags :: "string list"
  sig_observed_at :: datetime
  sig_metadata :: pydict

text \<open>\<open>if text\<close>: present and not empty.\<close>

definition nonempty :: "string option \<Rightarrow> bool" where
  "nonempty t \<longleftrightarrow> t \<noteq> None \<and> t \<noteq> Some []"

definition signature_text :: "string option \<Rightarrow> string" where
  "signature_text e = (if nonempty e then '' Error signature: '' @ the e @ ''.'' else [])"

definition recall_text :: "signal \<Rightarrow> string" where
  "recall_text s = (let
     signature = signature_text (sig_error_signature s);
     tags = (if sig_service_tags s \<noteq> [] then '' Service tags: '' @ str_join '', '' (sig_service_tags s) @ ''.''
       else []) in
     sig_severity s @ '' incident affecting service '' @ uuid_str (sig_service_id s) @ ''. '' @
     sig_summary s @ ''.'' @ signature @ tags)"

record recall_query =
  qry_org_id :: uuid
  qry_agent_id :: uuid
  qry_service_id :: uuid
  qry_text :: string
  qry_embedding :: "real list"
  qry_k :: int
  qry_service_tags :: "string list"
  qry_error_signature :: "string option"
  qry_as_of :: datetime
  qry_cold_start :: bool
  qry_current_incident_id :: "uuid option"

record memory_candidate =
  mem_memory_id :: uuid
  mem_kind :: memory_kind
  mem_content :: string
  mem_similarity :: real
  mem_success_rate :: real
  mem_occurred_at :: "datetime option"
  mem_service_id :: "uuid option"
  mem_runbook_id :: "uuid option"
  mem_steps :: "pyval list"
  mem_metadata :: pydict
  mem_org_id :: "uuid option"
  mem_agent_id :: "uuid option"
  mem_confidence :: real
  mem_valid_from :: "datetime option"
  mem_valid_to :: "datetime option"
  mem_recorded_at :: "datetime option"
  mem_provenance_ids :: "uuid list"
  mem_ranking_score :: real

record recall_bundle =
  bun_episodes :: "memory_candidate list"
  bun_facts :: "memory_candidate list"
  bun_runbooks :: "memory_candidate list"
  bun_cold_start :: bool
  bun_diagnostics :: pydict

definition all_candidates :: "recall_bundle \<Rightarrow> memory_candidate list" where
  "all_candidates b = bun_episodes b @ bun_facts b @ bun_runbooks b"

section \<open>Commands, decisions and results\<close>

record command =
  cmd_org_id :: uuid
  cmd_agent_id :: uuid
  cmd_incident_id :: uuid
  cmd_session_id :: uuid
  cmd_service_id :: uuid
  cmd_action :: action_kind
  cmd_target_version :: string
  cmd_cited_memory_id :: uuid
  cmd_runbook_id :: "uuid option"
  cmd_rationale :: string
  cmd_outcome_stub :: string
  cmd_requires_human_approval :: bool
  cmd_approved :: bool
  cmd_idempotency_key :: "string option"

definition memory_text :: "command \<Rightarrow> string" where
  "memory_text c = action_str (cmd_action c) @ '' service '' @ uuid_str (cmd_service_id c) @ '' to '' @
     cmd_target_version c @ ''; reason: '' @ cmd_rationale c @ ''; expected outcome: '' @ cmd_outcome_stub c"

definition effective_idempotency_key :: "command \<Rightarrow> string" where
  "effective_idempotency_key c = (if nonempty (cmd_idempotency_key c) then the (cmd_idempotency_key c)
     else uuid_str (cmd_incident_id c) @ '':'' @ action_str (cmd_action c) @ '':'' @
       uuid_str (cmd_service_id c) @ '':'' @ cmd_target_version c @ '':'' @ uuid_str (cmd_cited_memory_id c))"

record decision =
  dec_kind :: decision_kind
  dec_explanation :: string
  dec_cited_memory_id :: "uuid option"
  dec_command :: "command option"
  dec_confidence :: real

record remediation_result =
  res_action_id :: uuid
  res_transaction_id :: uuid
  res_event_id :: uuid
  res_deploy_id :: uuid
  res_committed_at :: datetime
  res_incident_status :: string
  res_service_status :: string

record outcome_command =
  oc_org_id :: uuid
  oc_agent_id :: uuid
  oc_incident_id :: uuid
  oc_service_id :: uuid
  oc_action_id :: uuid
  oc_outcome :: outcome_kind
  oc_summary :: string
  oc_error_signature :: "string option"
  oc_observed_at :: datetime

definition outcome_text :: "outcome_command \<Rightarrow> string" where
  "outcome_text c = ''Remediation action '' @ uuid_str (oc_action_id c) @ '' for service '' @
     uuid_str (oc_service_id c) @ '' finished with outcome '' @ outcome_value (oc_outcome c) @ ''. '' @
     oc_summary c @ ''.'' @ signature_text (oc_error_signature c)"

record outcome_result =
  or_action_id :: uuid
  or_transaction_id :: uuid
  or_event_id :: uuid
  or_incident_id :: uuid
  or_outcome :: outcome_kind
  or_incident_status :: string
  or_recorded_at :: datetime
  or_idempotent_replay :: bool

record turn_response =
  rsp_incident_id :: uuid
  rsp_decision :: decision
  rsp_remediation :: "remediation_result option"

section \<open>Events\<close>

text \<open>\<open>json_value\<close>: what is sent over the wire.\<close>

fun json_value :: "pylib \<Rightarrow> pyval \<Rightarrow> pyval" where
  "json_value lib (PUuid u) = PStr (uuid_str u)"
| "json_value lib (PTime t) = PStr (lib_isoformat lib t)"
| "json_value lib (PTuple xs) = PList (map (json_value lib) xs)"
| "json_value lib (PList xs) = PList (map (json_value lib) xs)"
| "json_value lib (PDict d) = PDict (map (\<lambda>(k, v). (k, json_value lib v)) d)"
| "json_value lib v = v"

record agent_event =
  aev_incident_id :: uuid
  aev_type :: event_type
  aev_stage :: string
  aev_message :: string
  aev_data :: pydict
  aev_event_id :: uuid
  aev_occurred_at :: datetime

definition event_dict :: "pylib \<Rightarrow> agent_event \<Rightarrow> pyval" where
  "event_dict lib e = json_value lib (PDict
     [(''incident_id'', PUuid (aev_incident_id e)), (''type'', PStr (event_type_str (aev_type e))),
      (''stage'', PStr (aev_stage e)), (''message'', PStr (aev_message e)), (''data'', PDict (aev_data e)),
      (''event_id'', PUuid (aev_event_id e)), (''occurred_at'', PTime (aev_occurred_at e))])"

record incident_view =
  view_signal :: signal
  view_last_result :: "turn_response option"
  view_event_count :: nat

text \<open>A value of JSON holds no UUID, instant or tuple at any depth.\<close>

fun is_json :: "pyval \<Rightarrow> bool" where
  "is_json (PUuid u) = False"
| "is_json (PTime t) = False"
| "is_json (PTuple xs) = False"
| "is_json (PList xs) = (\<forall>x \<in> set xs. is_json x)"
| "is_json (PDict d) = (\<forall>(k, v) \<in> set d. is_json v)"
| "is_json _ = True"

lemma json_value_is_json: "is_json (json_value lib v)"
  by (induction lib v rule: json_value.induct) auto

lemma json_value_id: "is_json v \<Longrightarrow> json_value lib v = v"
proof (induction lib v rule: json_value.induct)
  case (5 lib d)
  then show ?case by (auto intro!: map_idI simp: case_prod_beta)
qed (auto intro!: map_idI)

section \<open>Conversions of metadata values\<close>

text \<open>\<open>int(v)\<close> and \<open>float(v)\<close>. An integer that does not round to a float of 64 bits overflows.\<close>

definition float_bound :: int where
  "float_bound = 2 ^ 1024 - 2 ^ 970"

definition float_overflow :: be_error where
  "float_overflow = PortError ''OverflowError'' ''int too large to convert to float''"

fun py_int :: "pylib \<Rightarrow> pyval \<Rightarrow> be_error + int" where
  "py_int lib (PInt i) = Inr i"
| "py_int lib (PBool b) = Inr (if b then 1 else 0)"
| "py_int lib (PFloat r) = Inr (if 0 \<le> r then \<lfloor>r\<rfloor> else \<lceil>r\<rceil>)"
| "py_int lib (PStr s) = needE (ValueFault ''invalid literal for int() with base 10'') (lib_int_of lib s)"
| "py_int lib _ = Inl (TypeFault ''int() argument must be a string, a bytes-like object or a real number'')"

fun py_float :: "pylib \<Rightarrow> pyval \<Rightarrow> be_error + real" where
  "py_float lib (PInt i) = (if \<bar>i\<bar> < float_bound then Inr (of_int i) else Inl float_overflow)"
| "py_float lib (PBool b) = Inr (if b then 1 else 0)"
| "py_float lib (PFloat r) = Inr r"
| "py_float lib (PStr s) = needE (ValueFault ''could not convert string to float'') (lib_float_of lib s)"
| "py_float lib _ = Inl (TypeFault ''float() argument must be a string or a real number'')"

text \<open>\<open>json.loads(t)\<close>, and \<open>json.dumps(v)\<close> without a \<open>default\<close>: it writes no UUID and no instant.\<close>

fun json_error :: "json_fault \<Rightarrow> be_error" where
  "json_error Bad_json = ValueFault ''Expecting value''"
| "json_error Long_number = ValueFault ''Exceeds the limit (4300 digits) for integer string conversion''"
| "json_error Deep_json = PortError ''RecursionError'' ''maximum recursion depth exceeded''"

definition py_loads :: "pylib \<Rightarrow> string \<Rightarrow> be_error + pyval" where
  "py_loads lib t = (case lib_loads lib t of Inl f \<Rightarrow> Inl (json_error f) | Inr v \<Rightarrow> Inr v)"

fun json_writable :: "pyval \<Rightarrow> bool" where
  "json_writable (PUuid _) = False"
| "json_writable (PTime _) = False"
| "json_writable (PList vs) = list_all json_writable vs"
| "json_writable (PTuple vs) = list_all json_writable vs"
| "json_writable (PDict d) = list_all (\<lambda>(k, v). json_writable v) d"
| "json_writable _ = True"

definition py_dumps :: "pylib \<Rightarrow> pyval \<Rightarrow> be_error + string" where
  "py_dumps lib v = (case lib_dumps_fault lib v of
     Some f \<Rightarrow> Inl (json_error f)
   | None \<Rightarrow> if json_writable v then Inr (lib_dumps lib v) else Inl (TypeFault ''Object is not JSON serializable''))"

text \<open>\<open>a or b\<close>\<close>

definition orelse :: "pyval \<Rightarrow> pyval \<Rightarrow> pyval" where
  "orelse a b = (if py_truthy a then a else b)"

text \<open>The elements a \<open>for\<close> loop over the value visits: a text gives its characters, a
  dictionary its keys.\<close>

fun py_iter :: "pyval \<Rightarrow> be_error + pyval list" where
  "py_iter (PList xs) = Inr xs"
| "py_iter (PTuple xs) = Inr xs"
| "py_iter (PStr s) = Inr (map (\<lambda>c. PStr [c]) s)"
| "py_iter (PDict d) = Inr (map (\<lambda>(k, v). PStr k) d)"
| "py_iter _ = Inl (TypeFault ''object is not iterable'')"

text \<open>A library whose conversions are the simplest ones: enough for ASCII text without floats.\<close>

definition plain_lib :: pylib where
  "plain_lib = \<lparr>lib_isoformat = (\<lambda>_. ''1970-01-01T00:00:00+00:00''), lib_fromisoformat = (\<lambda>_. None),
     lib_int_of = (\<lambda>_. None), lib_float_of = (\<lambda>_. None), lib_fixed3 = (\<lambda>_. ''0.940''),
     lib_repr = (\<lambda>_. []), lib_nfkc = (\<lambda>t. t), lib_format_char = (\<lambda>_. False),
     lib_loads = (\<lambda>_. Inl Bad_json), lib_dumps = (\<lambda>_. []), lib_dumps_fault = (\<lambda>_. None), lib_g9 = (\<lambda>_. [])\<rparr>"

end
