(* ===== verification/Be_Injection.thy ===== *)
theory Be_Injection
  imports Be_Domain
begin

text \<open>
  The defence against prompt injection (\<^verbatim>\<open>backend/src/postmortem_backend/guardrails/injection.py\<close>):
  the deny patterns as regular expressions with a matcher, the scrubbing of hidden characters, and
  the screening of signals and of recalled memory. Characters are those of Latin-1; the normal form
  NFKC and the test for format characters are fields of \<open>pylib\<close>.
\<close>

section \<open>Regular expressions\<close>

text \<open>The expressions the patterns use: literals without regard to case, one character or any number
  of characters of a class, sequence, choice, option, \<open>\b\<close> and a multi-line \<open>^\<close>.\<close>

datatype rx = Lit string | One "char \<Rightarrow> bool" | Many "char \<Rightarrow> bool" | Seq rx rx | Alt rx rx | Opt rx
  | Word_edge | Line_start

definition same_letters :: "string \<Rightarrow> string \<Rightarrow> bool" where
  "same_letters a b \<longleftrightarrow> map lower_char a = map lower_char b"

text \<open>\<open>\w\<close> and \<open>\s\<close>\<close>

definition word_char :: "char \<Rightarrow> bool" where
  "word_char c \<longleftrightarrow> (let n = of_char c :: nat in
     (48 \<le> n \<and> n \<le> 57) \<or> (65 \<le> n \<and> n \<le> 90) \<or> n = 95 \<or> (97 \<le> n \<and> n \<le> 122) \<or>
     n \<in> {170, 178, 179, 181, 185, 186, 188, 189, 190} \<or> (192 \<le> n \<and> n \<noteq> 215 \<and> n \<noteq> 247))"

definition white :: "char \<Rightarrow> bool" where
  "white c \<longleftrightarrow> is_space c \<or> (of_char c :: nat) = 133 \<or> (of_char c :: nat) = 160"

definition word_at :: "string \<Rightarrow> nat \<Rightarrow> bool" where
  "word_at t i \<longleftrightarrow> i < length t \<and> word_char (t ! i)"

definition word_before :: "string \<Rightarrow> nat \<Rightarrow> bool" where
  "word_before t i \<longleftrightarrow> 0 < i \<and> word_at t (i - 1)"

definition line_start :: "string \<Rightarrow> nat \<Rightarrow> bool" where
  "line_start t i \<longleftrightarrow> i = 0 \<or> (i \<le> length t \<and> t ! (i - 1) = CHR 0x0A)"

text \<open>\<open>rx_ends r t i\<close>: where a match of \<open>r\<close> that starts at \<open>i\<close> may end.\<close>

fun rx_ends :: "rx \<Rightarrow> string \<Rightarrow> nat \<Rightarrow> nat list" where
  "rx_ends (Lit s) t i = (if same_letters (take (length s) (drop i t)) s then [i + length s] else [])"
| "rx_ends (One p) t i = (if i < length t \<and> p (t ! i) then [Suc i] else [])"
| "rx_ends (Many p) t i = map (\<lambda>k. i + k) [0..<Suc (length (takeWhile p (drop i t)))]"
| "rx_ends (Seq a b) t i = concat (map (rx_ends b t) (rx_ends a t i))"
| "rx_ends (Alt a b) t i = rx_ends a t i @ rx_ends b t i"
| "rx_ends (Opt a) t i = rx_ends a t i @ [i]"
| "rx_ends Word_edge t i = (if word_at t i \<noteq> word_before t i then [i] else [])"
| "rx_ends Line_start t i = (if line_start t i then [i] else [])"

text \<open>\<open>pattern.search(text)\<close>\<close>

definition rx_search :: "rx \<Rightarrow> string \<Rightarrow> bool" where
  "rx_search r t \<longleftrightarrow> list_ex (\<lambda>i. rx_ends r t i \<noteq> []) [0..<Suc (length t)]"

text \<open>The meaning of the expressions, as a relation between a start and an end.\<close>

inductive rx_match :: "rx \<Rightarrow> string \<Rightarrow> nat \<Rightarrow> nat \<Rightarrow> bool" where
  match_lit: "same_letters (take (length s) (drop i t)) s \<Longrightarrow> rx_match (Lit s) t i (i + length s)"
| match_one: "i < length t \<Longrightarrow> p (t ! i) \<Longrightarrow> rx_match (One p) t i (Suc i)"
| match_many: "i \<le> j \<Longrightarrow> j \<le> length t \<or> j = i \<Longrightarrow> (\<forall>k. i \<le> k \<longrightarrow> k < j \<longrightarrow> p (t ! k)) \<Longrightarrow> rx_match (Many p) t i j"
| match_seq: "rx_match a t i j \<Longrightarrow> rx_match b t j k \<Longrightarrow> rx_match (Seq a b) t i k"
| match_left: "rx_match a t i j \<Longrightarrow> rx_match (Alt a b) t i j"
| match_right: "rx_match b t i j \<Longrightarrow> rx_match (Alt a b) t i j"
| match_some: "rx_match a t i j \<Longrightarrow> rx_match (Opt a) t i j"
| match_none: "rx_match (Opt a) t i i"
| match_edge: "word_at t i \<noteq> word_before t i \<Longrightarrow> rx_match Word_edge t i i"
| match_line: "line_start t i \<Longrightarrow> rx_match Line_start t i i"

inductive_simps rx_match_simps [simp]: "rx_match (Lit s) t i j" "rx_match (One p) t i j"
  "rx_match (Many p) t i j" "rx_match (Seq a b) t i j" "rx_match (Alt a b) t i j" "rx_match (Opt a) t i j"
  "rx_match Word_edge t i j" "rx_match Line_start t i j"

lemma takeWhile_prefix_iff:
  "k \<le> length (takeWhile p xs) \<longleftrightarrow> k \<le> length xs \<and> (\<forall>j < k. p (xs ! j))"
proof (induction xs arbitrary: k)
  case (Cons x xs)
  show ?case
  proof (cases k)
    case (Suc m)
    with Cons [of m] show ?thesis by (auto simp: All_less_Suc2)
  qed simp
qed auto

lemma many_iff:
  "(\<exists>k \<le> length (takeWhile p (drop i t)). j = i + k) \<longleftrightarrow>
    i \<le> j \<and> (j \<le> length t \<or> j = i) \<and> (\<forall>k. i \<le> k \<longrightarrow> k < j \<longrightarrow> p (t ! k))"
proof
  assume "\<exists>k \<le> length (takeWhile p (drop i t)). j = i + k"
  then obtain k where k: "k \<le> length t - i" "\<forall>m < k. p (drop i t ! m)" "j = i + k"
    by (auto simp: takeWhile_prefix_iff)
  have "p (t ! m)" if "i \<le> m" "m < j" for m
    using k(2) [rule_format, of "m - i"] that k by (cases "i \<le> length t") auto
  with k show "i \<le> j \<and> (j \<le> length t \<or> j = i) \<and> (\<forall>k. i \<le> k \<longrightarrow> k < j \<longrightarrow> p (t ! k))"
    by (cases "i \<le> length t") auto
next
  assume r: "i \<le> j \<and> (j \<le> length t \<or> j = i) \<and> (\<forall>k. i \<le> k \<longrightarrow> k < j \<longrightarrow> p (t ! k))"
  then have "j - i \<le> length (takeWhile p (drop i t))"
    by (auto simp: takeWhile_prefix_iff)
  with r show "\<exists>k \<le> length (takeWhile p (drop i t)). j = i + k"
    by (intro exI [of _ "j - i"]) auto
qed

text \<open>The matcher computes the relation.\<close>

lemma rx_ends_match: "j \<in> set (rx_ends r t i) \<longleftrightarrow> rx_match r t i j"
proof (induction r arbitrary: i j)
  case (Many p)
  have "j \<in> set (rx_ends (Many p) t i) \<longleftrightarrow> (\<exists>k \<le> length (takeWhile p (drop i t)). j = i + k)"
    by (auto simp: less_Suc_eq_le image_iff Bex_def simp del: upt_Suc) (rule exI [of _ "j - i"], simp)
  also have "\<dots> \<longleftrightarrow> rx_match (Many p) t i j" unfolding many_iff by simp
  finally show ?case .
qed auto

lemma rx_search_match: "rx_search r t \<longleftrightarrow> (\<exists>i j. i \<le> length t \<and> rx_match r t i j)"
proof -
  have "rx_ends r t i \<noteq> [] \<longleftrightarrow> (\<exists>j. rx_match r t i j)" for i
    using rx_ends_match [of _ r t i] by (metis ex_in_conv set_empty)
  then show ?thesis unfolding rx_search_def list_ex_iff by (auto simp: less_Suc_eq_le simp del: upt_Suc)
qed

section \<open>The deny patterns\<close>

fun seqs :: "rx list \<Rightarrow> rx" where
  "seqs [] = Lit []"
| "seqs [r] = r"
| "seqs (r # s # rs) = Seq r (seqs (s # rs))"

fun alts :: "string list \<Rightarrow> rx" where
  "alts [] = One (\<lambda>_. False)"
| "alts [s] = Lit s"
| "alts (s # t # ss) = Alt (Lit s) (alts (t # ss))"

abbreviation spaces :: rx where "spaces \<equiv> Many white"

definition spaces1 :: rx where
  "spaces1 = Seq (One white) (Many white)"

definition slash :: rx where
  "slash = Opt (Lit ''/'')"

definition joiner :: rx where
  "joiner = Opt (One (\<lambda>c. c = CHR ''_'' \<or> c = CHR ''-''))"

definition injection_patterns :: "rx list" where
  "injection_patterns =
    [seqs [Word_edge, Lit ''tool_call'', Word_edge],
     seqs [Word_edge, Lit ''function_call'', Word_edge],
     seqs [Lit ''<'', spaces, slash, spaces, Lit ''tool'', joiner, Lit ''use'', Word_edge],
     seqs [Lit ''<'', spaces, slash, spaces, Lit ''function'', joiner, Lit ''call'', Opt (Lit ''s''), Word_edge],
     seqs [Word_edge, alts [''remediate_and_record'', ''scale_data_tier'', ''update_incident_state'',
       ''record_episode''], spaces, Lit ''(''],
     seqs [Lit ''ignore'', spaces1, Opt (Seq (Lit ''all'') spaces1), alts [''previous'', ''prior'', ''above''],
       spaces1, Lit ''instructions''],
     seqs [Lit ''disregard'', spaces1, Opt (Seq (Lit ''all'') spaces1),
       Alt (alts [''previous'', ''prior'']) (seqs [Lit ''the'', spaces1, Lit ''above''])],
     seqs [Lit ''you'', spaces1, Lit ''are'', spaces1, Lit ''now'', spaces1],
     seqs [Lit ''new'', spaces1, Lit ''system'', spaces1, Lit ''prompt''],
     seqs [Line_start, spaces, alts [''system'', ''assistant'', ''developer''], spaces, Lit '':''],
     seqs [Lit ''<'', spaces, slash, spaces, alts [''system'', ''assistant'', ''user''], spaces, Lit ''>''],
     seqs [Lit ''['', slash, Lit ''INST]''],
     seqs [Lit ''<|'', alts [''im_start'', ''im_end'', ''system'', ''assistant''], Lit ''|>'']]"

section \<open>Screening text\<close>

definition max_untrusted_field_chars :: nat where
  "max_untrusted_field_chars = 8000"

definition control_char :: "char \<Rightarrow> bool" where
  "control_char c \<longleftrightarrow> (let n = of_char c :: nat in n \<le> 8 \<or> n = 11 \<or> n = 12 \<or> (14 \<le> n \<and> n \<le> 31) \<or> n = 127)"

definition normalize_untrusted_text :: "pylib \<Rightarrow> string \<Rightarrow> string" where
  "normalize_untrusted_text lib t = filter (\<lambda>c. \<not> lib_format_char lib c) (lib_nfkc lib t)"

definition scrub_control_characters :: "pylib \<Rightarrow> string \<Rightarrow> string" where
  "scrub_control_characters lib t = filter (\<lambda>c. \<not> control_char c) (normalize_untrusted_text lib t)"

definition contains_tool_call_injection :: "string \<Rightarrow> bool" where
  "contains_tool_call_injection t =
     (if t = [] then False else list_ex (\<lambda>p. rx_search p t) injection_patterns)"

definition guard_text :: "pylib \<Rightarrow> string \<Rightarrow> string \<Rightarrow> be_error + string" where
  "guard_text lib field t = (let scrubbed = scrub_control_characters lib t in
     if length scrubbed > max_untrusted_field_chars then
       Inl (PromptInjectionDetected (''Untrusted field '' @ [CHR 0x27] @ field @ [CHR 0x27] @
         '' exceeds 8000 chars; refusing (context-stuffing guard, T1).''))
     else if contains_tool_call_injection scrubbed then
       Inl (PromptInjectionDetected (''Untrusted field '' @ [CHR 0x27] @ field @ [CHR 0x27] @
         '' contains tool-call-looking or instruction-override content; refusing (T1/R6).''))
     else Inr scrubbed)"

text \<open>\<open>guard_untrusted_text\<close> lets \<open>None\<close> through; its callers' \<open>or ""\<close> never applies to a text.\<close>

definition guard_untrusted_text :: "pylib \<Rightarrow> string \<Rightarrow> string option \<Rightarrow> be_error + string option" where
  "guard_untrusted_text lib field v = (case v of
     None \<Rightarrow> Inr None
   | Some t \<Rightarrow> bindE (guard_text lib field t) (\<lambda>u. Inr (Some u)))"

section \<open>Signals\<close>

definition guard_metadata_item :: "pylib \<Rightarrow> string \<times> pyval \<Rightarrow> be_error + unit" where
  "guard_metadata_item lib kv = (case kv of
     (k, PStr s) \<Rightarrow> bindE (guard_text lib (''metadata.'' @ k) s) (\<lambda>_. Inr ())
   | _ \<Rightarrow> Inr ())"

definition sanitize_signal :: "pylib \<Rightarrow> signal \<Rightarrow> be_error + signal" where
  "sanitize_signal lib s =
     bindE (guard_text lib ''summary'' (sig_summary s)) (\<lambda>summary.
     bindE (guard_untrusted_text lib ''error_signature'' (sig_error_signature s)) (\<lambda>signature.
     bindE (mapE (guard_text lib ''service_tags'') (sig_service_tags s)) (\<lambda>tags.
     bindE (mapE (guard_metadata_item lib) (sig_metadata s)) (\<lambda>_.
     Inr (s\<lparr>sig_summary := summary, sig_error_signature := signature, sig_service_tags := tags\<rparr>)))))"

section \<open>Recalled memory\<close>

lemma mapE_cong [fundef_cong]:
  "xs = ys \<Longrightarrow> (\<And>x. x \<in> set ys \<Longrightarrow> f x = g x) \<Longrightarrow> mapE f xs = mapE g ys"
  by (induction xs arbitrary: ys) auto

lemma bindE_cong [fundef_cong]:
  "m = n \<Longrightarrow> (\<And>x. n = Inr x \<Longrightarrow> f x = g x) \<Longrightarrow> bindE m f = bindE n g"
  by (cases m) auto

fun scan_untrusted_value :: "pylib \<Rightarrow> string \<Rightarrow> pyval \<Rightarrow> be_error + pyval" where
  "scan_untrusted_value lib field (PStr s) = bindE (guard_text lib field s) (\<lambda>u. Inr (PStr u))"
| "scan_untrusted_value lib field (PDict d) =
     bindE (mapE (\<lambda>(k, v). bindE (scan_untrusted_value lib (field @ ''.'' @ k) v) (\<lambda>w. Inr (k, w))) d)
       (\<lambda>d. Inr (PDict d))"
| "scan_untrusted_value lib field (PTuple xs) =
     bindE (mapE (scan_untrusted_value lib field) xs) (\<lambda>ys. Inr (PTuple ys))"
| "scan_untrusted_value lib field (PList xs) =
     bindE (mapE (scan_untrusted_value lib field) xs) (\<lambda>ys. Inr (PList ys))"
| "scan_untrusted_value lib field v = Inr v"

text \<open>The metadata of a candidate is a dictionary.\<close>

definition scan_metadata :: "pylib \<Rightarrow> pydict \<Rightarrow> be_error + pydict" where
  "scan_metadata lib d =
     mapE (\<lambda>(k, v). bindE (scan_untrusted_value lib (''memory.metadata'' @ ''.'' @ k) v) (\<lambda>w. Inr (k, w))) d"

definition guard_untrusted_memory_candidate :: "pylib \<Rightarrow> memory_candidate \<Rightarrow> be_error + memory_candidate" where
  "guard_untrusted_memory_candidate lib c =
     bindE (guard_text lib ''memory.content'' (mem_content c)) (\<lambda>content.
     bindE (mapE (scan_untrusted_value lib ''memory.steps'') (mem_steps c)) (\<lambda>steps.
     bindE (scan_metadata lib (mem_metadata c)) (\<lambda>metadata.
     Inr (c\<lparr>mem_content := content, mem_steps := steps, mem_metadata := metadata\<rparr>))))"

definition guard_untrusted_recall_bundle :: "pylib \<Rightarrow> recall_bundle \<Rightarrow> be_error + recall_bundle" where
  "guard_untrusted_recall_bundle lib b =
     bindE (mapE (guard_untrusted_memory_candidate lib) (bun_episodes b)) (\<lambda>es.
     bindE (mapE (guard_untrusted_memory_candidate lib) (bun_facts b)) (\<lambda>fs.
     bindE (mapE (guard_untrusted_memory_candidate lib) (bun_runbooks b)) (\<lambda>rs.
     Inr (b\<lparr>bun_episodes := es, bun_facts := fs, bun_runbooks := rs\<rparr>))))"

section \<open>What screened text is\<close>

text \<open>At most 8000 characters, none of them a control character but tab, line feed and carriage return,
  and no match of a deny pattern anywhere.\<close>

definition clean :: "string \<Rightarrow> bool" where
  "clean t \<longleftrightarrow> length t \<le> 8000 \<and>
     list_all (\<lambda>c. (32 \<le> (of_char c :: nat) \<and> (of_char c :: nat) \<noteq> 127) \<or> (of_char c :: nat) \<in> {9, 10, 13}) t \<and>
     (\<forall>p \<in> set injection_patterns. \<forall>i j. i \<le> length t \<longrightarrow> \<not> rx_match p t i j)"

lemma empty_no_match: "p \<in> set injection_patterns \<Longrightarrow> \<not> rx_search p []"
proof -
  have "list_all (\<lambda>p. \<not> rx_search p []) injection_patterns" by code_simp
  then show "p \<in> set injection_patterns \<Longrightarrow> \<not> rx_search p []" by (simp add: list_all_iff)
qed

lemma contains_match:
  "contains_tool_call_injection t \<longleftrightarrow> (\<exists>p \<in> set injection_patterns. \<exists>i j. i \<le> length t \<and> rx_match p t i j)"
proof -
  have "contains_tool_call_injection t \<longleftrightarrow> (\<exists>p \<in> set injection_patterns. rx_search p t)"
    using empty_no_match by (auto simp: contains_tool_call_injection_def list_ex_iff)
  then show ?thesis by (auto simp: rx_search_match)
qed

lemma no_control_char:
  "\<not> control_char c \<longleftrightarrow> (32 \<le> (of_char c :: nat) \<and> (of_char c :: nat) \<noteq> 127) \<or> (of_char c :: nat) \<in> {9, 10, 13}"
  by (auto simp: control_char_def Let_def)

lemma clean_quick [code]:
  "clean t \<longleftrightarrow> length t \<le> max_untrusted_field_chars \<and> list_all (\<lambda>c. \<not> control_char c) t \<and>
     \<not> contains_tool_call_injection t"
  by (auto simp: clean_def contains_match no_control_char max_untrusted_field_chars_def)

lemma guard_text_iff:
  "guard_text lib field t = Inr u \<longleftrightarrow> u = scrub_control_characters lib t \<and> clean u"
  by (auto simp: guard_text_def Let_def clean_quick scrub_control_characters_def list_all_iff)

lemma guard_text_refusal: "guard_text lib field t = Inl e \<Longrightarrow> \<exists>m. e = PromptInjectionDetected m"
  by (auto simp: guard_text_def Let_def split: if_splits)

lemma scrub_no_format: "c \<in> set (scrub_control_characters lib t) \<Longrightarrow> \<not> lib_format_char lib c"
  by (simp add: scrub_control_characters_def normalize_untrusted_text_def)

text \<open>The strings in a value: every string at a leaf, through dictionaries, lists and tuples. The keys
  of a dictionary are not among them: the screen keeps them as they are.\<close>

fun leaf_texts :: "pyval \<Rightarrow> string list" where
  "leaf_texts (PStr s) = [s]"
| "leaf_texts (PList xs) = concat (map leaf_texts xs)"
| "leaf_texts (PTuple xs) = concat (map leaf_texts xs)"
| "leaf_texts (PDict d) = concat (map (\<lambda>(k, v). leaf_texts v) d)"
| "leaf_texts _ = []"

text \<open>The strings of a memory that are screened: its content, and those in its steps and metadata.\<close>

definition screened_strings :: "memory_candidate \<Rightarrow> string list" where
  "screened_strings c = mem_content c # concat (map leaf_texts (mem_steps c)) @
     concat (map (\<lambda>(k, v). leaf_texts v) (mem_metadata c))"

lemma mapE_list_all:
  assumes "mapE f xs = Inr ys" "\<And>x y. x \<in> set xs \<Longrightarrow> f x = Inr y \<Longrightarrow> P y"
  shows "list_all P ys"
  unfolding list_all_iff using assms(2) mapE_Inr_set [OF assms(1)] by metis

lemma list_all_concat_map: "list_all (\<lambda>x. list_all P (f x)) xs \<Longrightarrow> list_all P (concat (map f xs))"
  by (induction xs) auto

lemma scan_clean: "scan_untrusted_value lib field v = Inr w \<Longrightarrow> list_all clean (leaf_texts w)"
proof (induction lib field v arbitrary: w rule: scan_untrusted_value.induct)
  case (2 lib field d)
  then obtain e where e: "w = PDict e" "mapE (\<lambda>(k, v). bindE (scan_untrusted_value lib (field @ ''.'' @ k) v)
      (\<lambda>w. Inr (k, w))) d = Inr e" by auto
  have "list_all (\<lambda>x. list_all clean (case x of (k, v) \<Rightarrow> leaf_texts v)) e"
    using 2 by (intro mapE_list_all [OF e(2)]) (auto split: prod.splits)
  with e(1) show ?case by (simp add: list_all_concat_map)
next
  case (3 lib field xs)
  then obtain ys where ys: "w = PTuple ys" "mapE (scan_untrusted_value lib field) xs = Inr ys" by auto
  have "list_all (\<lambda>x. list_all clean (leaf_texts x)) ys"
    using 3 by (intro mapE_list_all [OF ys(2)]) auto
  with ys(1) show ?case by (simp add: list_all_concat_map)
next
  case (4 lib field xs)
  then obtain ys where ys: "w = PList ys" "mapE (scan_untrusted_value lib field) xs = Inr ys" by auto
  have "list_all (\<lambda>x. list_all clean (leaf_texts x)) ys"
    using 4 by (intro mapE_list_all [OF ys(2)]) auto
  with ys(1) show ?case by (simp add: list_all_concat_map)
qed (auto simp: guard_text_iff)

lemma scan_metadata_clean:
  assumes "scan_metadata lib d = Inr e"
  shows "list_all clean (concat (map (\<lambda>(k, v). leaf_texts v) e))"
  by (intro list_all_concat_map mapE_list_all [OF assms [unfolded scan_metadata_def]])
    (auto split: prod.splits dest: scan_clean)

text \<open>The keys of a dictionary are kept as they are.\<close>

lemma scan_metadata_keys: "scan_metadata lib d = Inr e \<Longrightarrow> map fst e = map fst d"
  unfolding scan_metadata_def by (induction d arbitrary: e) auto

lemma guard_candidate_clean:
  assumes "guard_untrusted_memory_candidate lib c = Inr d"
  shows "list_all clean (screened_strings d)"
proof -
  obtain t ss md where g: "guard_text lib ''memory.content'' (mem_content c) = Inr t"
      "mapE (scan_untrusted_value lib ''memory.steps'') (mem_steps c) = Inr ss"
      "scan_metadata lib (mem_metadata c) = Inr md"
      "d = c\<lparr>mem_content := t, mem_steps := ss, mem_metadata := md\<rparr>"
    using assms by (auto simp: guard_untrusted_memory_candidate_def)
  have "list_all clean (concat (map leaf_texts ss))"
    by (intro list_all_concat_map mapE_list_all [OF g(2)]) (rule scan_clean)
  with g scan_metadata_clean [OF g(3)] show ?thesis
    by (auto simp: screened_strings_def guard_text_iff)
qed

text \<open>Screening keeps which memory it is and how it ranks.\<close>

lemma guard_candidate_kept:
  assumes "guard_untrusted_memory_candidate lib c = Inr d"
  shows "d = c\<lparr>mem_content := mem_content d, mem_steps := mem_steps d, mem_metadata := mem_metadata d\<rparr>"
    "map fst (mem_metadata d) = map fst (mem_metadata c)" "mem_memory_id d = mem_memory_id c"
  using assms by (auto simp: guard_untrusted_memory_candidate_def scan_metadata_keys)

lemma guard_bundle_fields:
  assumes "guard_untrusted_recall_bundle lib b = Inr d"
  shows "mapE (guard_untrusted_memory_candidate lib) (all_candidates b) = Inr (all_candidates d)"
    "bun_cold_start d = bun_cold_start b" "bun_diagnostics d = bun_diagnostics b"
proof -
  have app: "mapE f (xs @ ys) = Inr (us @ vs)" if "mapE f xs = Inr us" "mapE f ys = Inr vs"
    for f :: "memory_candidate \<Rightarrow> be_error + memory_candidate" and xs ys us vs
    using that by (induction xs arbitrary: us) auto
  show "mapE (guard_untrusted_memory_candidate lib) (all_candidates b) = Inr (all_candidates d)"
    using assms by (auto simp: guard_untrusted_recall_bundle_def all_candidates_def intro!: app)
qed (use assms in \<open>auto simp: guard_untrusted_recall_bundle_def\<close>)

lemma guard_bundle_clean:
  assumes "guard_untrusted_recall_bundle lib b = Inr d" "c \<in> set (all_candidates d)"
  shows "list_all clean (screened_strings c)"
  using mapE_Inr_set [OF guard_bundle_fields(1) [OF assms(1)] assms(2)] guard_candidate_clean by blast

lemma mapE_Inr_maps: "mapE f xs = Inr ys \<Longrightarrow> (\<And>x y. f x = Inr y \<Longrightarrow> g y = h x) \<Longrightarrow> map g ys = map h xs"
  by (induction xs arbitrary: ys) auto

lemma guard_bundle_ids:
  assumes "guard_untrusted_recall_bundle lib b = Inr d"
  shows "map mem_memory_id (all_candidates d) = map mem_memory_id (all_candidates b)"
  by (rule mapE_Inr_maps [OF guard_bundle_fields(1) [OF assms]]) (rule guard_candidate_kept)

text \<open>A call of a tool is found wherever it stands, in any letter case and with any white space
  before the parenthesis.\<close>

lemma same_letters_length: "same_letters a b \<Longrightarrow> length a = length b"
  by (simp add: same_letters_def) (metis length_map)

lemma match_lit_at:
  "same_letters s w \<Longrightarrow> rx_match (Lit w) (u @ s @ v) (length u) (length u + length s)"
  using same_letters_length [of s w] match_lit [of w "length u" "u @ s @ v"] by simp

lemma rx_match_alts: "w \<in> set ws \<Longrightarrow> rx_match (Lit w) t i j \<Longrightarrow> rx_match (alts ws) t i j"
  by (induction ws rule: alts.induct) auto

lemma word_char_lower: "word_char (lower_char c) = word_char c"
  by (auto simp: word_char_def lower_char_def Let_def)

lemma same_letters_word:
  assumes "same_letters a b" "a \<noteq> []"
  shows "word_char (hd a) = word_char (hd b)"
proof -
  have "lower_char (hd a) = lower_char (hd b)"
    using assms by (cases a; cases b) (auto simp: same_letters_def)
  then show ?thesis by (metis word_char_lower)
qed

section \<open>A quick test\<close>

text \<open>A match of an expression needs the letters of the literals it cannot avoid. The test lets the
  evaluation of a screen skip the patterns a text has no letters for.\<close>

fun needs :: "rx \<Rightarrow> string" where
  "needs (Lit s) = s"
| "needs (Seq a b) = needs a @ needs b"
| "needs _ = []"

definition has_letters :: "string \<Rightarrow> string \<Rightarrow> bool" where
  "has_letters letters s = list_all (\<lambda>c. List.member letters (lower_char c)) s"

lemma same_letters_quick [code]:
  "same_letters [] [] = True"
  "same_letters [] (y # ys) = False"
  "same_letters (x # xs) [] = False"
  "same_letters (x # xs) (y # ys) = (if lower_char x = lower_char y then same_letters xs ys else False)"
  by (simp_all add: same_letters_def)

lemma rx_match_needs:
  "rx_match r t i j \<Longrightarrow> c \<in> set (needs r) \<Longrightarrow> lower_char c \<in> set (map lower_char t)"
proof (induction r arbitrary: i j)
  case (Lit s)
  then have "map lower_char (take (length s) (drop i t)) = map lower_char s"
    by (simp add: same_letters_def)
  with Lit.prems(2) have "lower_char c \<in> set (map lower_char (take (length s) (drop i t)))"
    by simp
  then show ?case by (auto dest: in_set_takeD in_set_dropD)
qed auto

lemma rx_search_letters: "rx_search r t = (if has_letters (map lower_char t) (needs r) then rx_search r t else False)"
  by (auto simp: rx_search_match has_letters_def list_all_iff dest: rx_match_needs)

lemma contains_quick [code]:
  "contains_tool_call_injection t =
     (if t = [] then False else let letters = map lower_char t in
        list_ex (\<lambda>p. if has_letters letters (needs p) then rx_search p t else False) injection_patterns)"
  unfolding contains_tool_call_injection_def Let_def by (subst rx_search_letters) (rule refl)

end
