(* ===== verification/Be_Guardrails.thy ===== *)
theory Be_Guardrails
  imports Be_Domain
begin

text \<open>
  The guardrails of the responder (\<^verbatim>\<open>backend/src/postmortem_backend/guardrails\<close>): the tool
  allowlist and the gate for destructive actions (\<^verbatim>\<open>allowlist.py\<close>), the provenance gate
  (\<^verbatim>\<open>provenance.py\<close>), the database roles (\<^verbatim>\<open>roles.py\<close>) and the authentication of
  webhooks (\<^verbatim>\<open>validation.py\<close>). The digest HMAC-SHA256 is an argument.
\<close>

section \<open>Allowlist\<close>

definition allowed_tools :: "string list" where
  "allowed_tools = [''recall_memory'', ''get_operational_state'', ''remediate_and_record'',
     ''record_episode'', ''update_incident_state'', ''scale_data_tier'', ''propose_action'',
     ''escalate'', ''ask_human'']"

definition decision_tool :: "(decision_kind, string) dict" where
  "decision_tool = [(Remediate, ''remediate_and_record''), (Propose, ''propose_action''),
     (Ask_human, ''ask_human''), (Escalate, ''escalate'')]"

definition high_blast_radius_actions :: "action_kind list" where
  "high_blast_radius_actions = [Scale, Feature_flag]"

definition critical_service_tags :: "string list" where
  "critical_service_tags = [''checkout'', ''payments'', ''payment'', ''billing'', ''invoicing'']"

definition critical_service_gated_actions :: "action_kind list" where
  "critical_service_gated_actions = [Rollback, Restart]"

definition is_critical_tier_service :: "string list \<Rightarrow> bool" where
  "is_critical_tier_service service_tags \<longleftrightarrow> (let
     normalized = set (map (\<lambda>tag. str_lower (str_strip tag)) service_tags) in
     \<not> (normalized \<inter> set critical_service_tags = {}))"

record approval_record =
  apr_tool :: string
  apr_action :: string
  apr_high_blast_radius :: bool
  apr_approved :: bool
  apr_approver :: "string option"
  apr_reason :: string
  apr_decided_at :: datetime

fun opt_str :: "string option \<Rightarrow> pyval" where
  "opt_str None = PNone"
| "opt_str (Some s) = PStr s"

definition approval_dict :: "pylib \<Rightarrow> approval_record \<Rightarrow> pydict" where
  "approval_dict lib r =
     [(''tool'', PStr (apr_tool r)), (''action'', PStr (apr_action r)),
      (''high_blast_radius'', PBool (apr_high_blast_radius r)), (''approved'', PBool (apr_approved r)),
      (''approver'', opt_str (apr_approver r)), (''reason'', PStr (apr_reason r)),
      (''decided_at'', PStr (lib_isoformat lib (apr_decided_at r)))]"

definition enforce_tool_allowlist :: "string \<Rightarrow> be_error + string" where
  "enforce_tool_allowlist tool =
     (if tool \<notin> set allowed_tools
      then Inl (ToolNotAllowed (''Tool '' @ [CHR 0x27] @ tool @ [CHR 0x27] @
        '' is not on the remediation allowlist ('' @ str_join '', '' (sort allowed_tools) @ '').''))
      else Inr tool)"

definition resolve_decision_tool :: "decision_kind \<Rightarrow> be_error + string" where
  "resolve_decision_tool kind =
     bindE (needE (ToolNotAllowed (''Decision '' @ [CHR 0x27] @ decision_str kind @ [CHR 0x27] @
       '' does not map to an allowlisted tool.'')) (map_of decision_tool kind)) enforce_tool_allowlist"

definition is_high_blast_radius :: "command \<Rightarrow> string list \<Rightarrow> bool" where
  "is_high_blast_radius c service_tags \<longleftrightarrow> (let
     critical_tier_destructive =
       (cmd_action c \<in> set critical_service_gated_actions \<and> is_critical_tier_service service_tags) in
     cmd_action c \<in> set high_blast_radius_actions \<or> critical_tier_destructive \<or>
     cmd_requires_human_approval c)"

text \<open>\<open>now\<close> is the default of \<open>decided_at\<close>.\<close>

definition authorize_action :: "command \<Rightarrow> bool \<Rightarrow> string option \<Rightarrow> string list \<Rightarrow> datetime \<Rightarrow>
    be_error + approval_record" where
  "authorize_action c human_approved approver service_tags now =
     bindE (enforce_tool_allowlist ''remediate_and_record'') (\<lambda>tool.
     if \<not> is_high_blast_radius c service_tags then
       Inr \<lparr>apr_tool = tool, apr_action = action_str (cmd_action c), apr_high_blast_radius = False,
         apr_approved = True, apr_approver = approver,
         apr_reason = ''Reversible, single-target, auto-approved action.'', apr_decided_at = now\<rparr>
     else if \<not> human_approved then
       Inl (DestructiveActionBlocked (''Action '' @ [CHR 0x27] @ action_str (cmd_action c) @ [CHR 0x27] @
         '' is high blast radius and requires explicit human approval before execution (R5).''))
     else (case approver of
       None \<Rightarrow> Inl (DestructiveActionBlocked (''Approval of high-blast-radius action '' @ [CHR 0x27] @
         action_str (cmd_action c) @ [CHR 0x27] @
         '' must name the approving human; anonymous approval is refused (R5, R10).''))
     | Some name \<Rightarrow> if name = [] \<or> str_strip name = [] then
         Inl (DestructiveActionBlocked (''Approval of high-blast-radius action '' @ [CHR 0x27] @
         action_str (cmd_action c) @ [CHR 0x27] @
         '' must name the approving human; anonymous approval is refused (R5, R10).''))
       else Inr \<lparr>apr_tool = tool, apr_action = action_str (cmd_action c), apr_high_blast_radius = True,
         apr_approved = True, apr_approver = Some (str_strip name),
         apr_reason = ''High-blast-radius action approved by a named human.'', apr_decided_at = now\<rparr>))"

lemma remediate_tool [simp]: "enforce_tool_allowlist ''remediate_and_record'' = Inr ''remediate_and_record''"
  by (simp add: enforce_tool_allowlist_def allowed_tools_def)

lemma resolve_decision_tool_total: "resolve_decision_tool k = Inr (decision_str k)"
  by (cases k) (simp_all add: resolve_decision_tool_def decision_tool_def enforce_tool_allowlist_def
      allowed_tools_def)

text \<open>What an authorised command has: it is of a kind that needs nobody, or a named human approved
  it.\<close>

definition authorized :: "command \<Rightarrow> bool \<Rightarrow> string option \<Rightarrow> string list \<Rightarrow> bool" where
  "authorized c human_approved approver tags \<longleftrightarrow>
     (is_high_blast_radius c tags \<longrightarrow>
        human_approved \<and> (\<exists>name. approver = Some name \<and> str_strip name \<noteq> []))"

lemma authorize_action_iff:
  "(\<exists>r. authorize_action c h a tags now = Inr r) \<longleftrightarrow> authorized c h a tags"
  by (auto simp: authorize_action_def authorized_def str_strip_def split: option.splits)

lemma authorize_action_record:
  assumes "authorize_action c h a tags now = Inr r"
  shows "apr_tool r = ''remediate_and_record''" "apr_action r = action_str (cmd_action c)" "apr_approved r"
    "apr_high_blast_radius r \<longleftrightarrow> is_high_blast_radius c tags" "apr_decided_at r = now"
    "apr_approver r = (if is_high_blast_radius c tags then map_option str_strip a else a)"
  using assms by (auto simp: authorize_action_def split: if_splits option.splits)

lemma authorize_action_refusal:
  "authorize_action c h a tags now = Inl e \<Longrightarrow> \<exists>m. e = DestructiveActionBlocked m"
  by (auto simp: authorize_action_def split: if_splits option.splits)

section \<open>Provenance\<close>

definition require_grounded_action :: "command \<Rightarrow> uuid list option \<Rightarrow> be_error + unit" where
  "require_grounded_action c recalled_ids = (let cited = cmd_cited_memory_id c in
     if cited = nil_uuid then
       Inl (ProvenanceError ''Ungrounded action refused: no cited memory/runbook id (R4).'')
     else (case recalled_ids of
       None \<Rightarrow> Inr ()
     | Some ids \<Rightarrow> if cited \<notin> set ids then
         Inl (ProvenanceError (''Cited memory '' @ uuid_str cited @ '' was not among the recalled ids this turn; '' @
           ''the citation does not resolve to retrieved memory (R4).''))
       else Inr ()))"

definition verify_citation_resolves :: "uuid option \<Rightarrow> uuid list \<Rightarrow> bool" where
  "verify_citation_resolves cited recalled_ids =
     (if cited = None \<or> cited = Some nil_uuid then False else the cited \<in> set recalled_ids)"

text \<open>\<open>ProvenanceGuardedRemediation\<close>: the wrapped port is asked only after the gate.\<close>

definition guarded_remediation ::
  "(command \<Rightarrow> real list \<Rightarrow> ('s, be_error, remediation_result) prog) \<Rightarrow> uuid list option \<Rightarrow>
   command \<Rightarrow> real list \<Rightarrow> ('s, be_error, remediation_result) prog" where
  "guarded_remediation inner recalled_ids c v =
     andThen (lift_result (require_grounded_action c recalled_ids)) (\<lambda>_. inner c v)"

lemma require_grounded_iff:
  "require_grounded_action c ids = Inr u \<longleftrightarrow>
     cmd_cited_memory_id c \<noteq> nil_uuid \<and> (\<forall>l. ids = Some l \<longrightarrow> cmd_cited_memory_id c \<in> set l)"
  by (auto simp: require_grounded_action_def Let_def split: option.splits)

lemma require_grounded_verify:
  "require_grounded_action c (Some ids) = Inr u \<longleftrightarrow> verify_citation_resolves (Some (cmd_cited_memory_id c)) ids"
  by (auto simp: require_grounded_iff verify_citation_resolves_def)

lemma require_grounded_refusal:
  "require_grounded_action c ids = Inl e \<Longrightarrow> \<exists>m. e = ProvenanceError m"
  by (auto simp: require_grounded_action_def Let_def split: option.splits if_splits)

section \<open>Database roles\<close>

datatype database_role = Reader | Writer | Consolidator

fun role_str :: "database_role \<Rightarrow> string" where
  "role_str Reader = ''postmortem_reader''"
| "role_str Writer = ''postmortem_writer''"
| "role_str Consolidator = ''postmortem_consolidator''"

definition read_capable :: "database_role list" where
  "read_capable = [Reader, Writer, Consolidator]"

definition write_capable :: "database_role list" where
  "write_capable = [Writer, Consolidator]"

text \<open>A provider of connections: a bare pool over the database of a URL, or a provider bound to a role
  and an identity, which hands out the connections of the provider it wraps.\<close>

datatype provider = Pool string | Role_scoped provider database_role string

definition role_scoped_provider :: "provider \<Rightarrow> database_role \<Rightarrow> string option \<Rightarrow> provider" where
  "role_scoped_provider p r identity =
     Role_scoped p r (if nonempty identity then the identity else role_str r)"

fun provider_role :: "provider \<Rightarrow> database_role option" where
  "provider_role (Pool _) = None"
| "provider_role (Role_scoped _ r _) = Some r"

text \<open>\<open>RoleScopedProvider.__call__\<close>: the URL of the pool a connection comes from.\<close>

fun dials :: "provider \<Rightarrow> string" where
  "dials (Pool url) = url"
| "dials (Role_scoped p _ _) = dials p"

definition require_reader :: "provider \<Rightarrow> be_error + unit" where
  "require_reader p = (case provider_role p of
     None \<Rightarrow> Inr ()
   | Some r \<Rightarrow> if r \<noteq> Reader then
       Inl (RoleScopeViolation (''Recall path requires the '' @ role_str Reader @ '' identity; refusing a '' @
         role_str r @ ''-scoped connection (least privilege, R7).''))
     else Inr ())"

definition require_writer :: "provider \<Rightarrow> be_error + unit" where
  "require_writer p = (case provider_role p of
     None \<Rightarrow> Inr ()
   | Some r \<Rightarrow> if r \<notin> set write_capable then
       Inl (RoleScopeViolation (''Act path requires a write-capable identity ('' @
         str_join '', '' (sort (map role_str write_capable)) @ ''); refusing a '' @ role_str r @
         ''-scoped connection (R7, T2).''))
     else Inr ())"

definition require_read_capable :: "provider \<Rightarrow> be_error + unit" where
  "require_read_capable p = (case provider_role p of
     None \<Rightarrow> Inr ()
   | Some r \<Rightarrow> if r \<notin> set read_capable then
       Inl (RoleScopeViolation (''Read requires one of ['' @
         str_join '', '' (map (\<lambda>s. [CHR 0x27] @ s @ [CHR 0x27]) (sort (map role_str read_capable))) @
         '']; got '' @ role_str r @ ''.''))
     else Inr ())"

lemma require_read_capable_total: "require_read_capable p = Inr ()"
  by (cases p; cases "provider_role p"; cases "the (provider_role p)")
    (auto simp: require_read_capable_def read_capable_def)

lemma require_reader_iff: "require_reader p = Inr u \<longleftrightarrow> provider_role p \<in> {None, Some Reader}"
  by (auto simp: require_reader_def split: option.splits if_splits)

lemma require_writer_iff:
  "require_writer p = Inr u \<longleftrightarrow> provider_role p \<in> {None, Some Writer, Some Consolidator}"
  by (auto simp: require_writer_def write_capable_def split: option.splits if_splits)

section \<open>Webhook signatures\<close>

definition signature_prefixes :: "string list" where
  "signature_prefixes = [''sha256='', ''sha256:'']"

definition compute_hmac_signature :: "(string \<Rightarrow> string \<Rightarrow> string) \<Rightarrow> string \<Rightarrow> string \<Rightarrow> string" where
  "compute_hmac_signature hmac secret body = ''sha256='' @ hmac secret body"

text \<open>The loop over the prefixes, with its \<open>break\<close>.\<close>

fun strip_signature_prefix :: "string list \<Rightarrow> string \<Rightarrow> string" where
  "strip_signature_prefix [] candidate = candidate"
| "strip_signature_prefix (p # ps) candidate =
     (if starts_with p (str_lower candidate) then drop (length p) candidate
      else strip_signature_prefix ps candidate)"

text \<open>\<open>text.split("=", 1)[1]\<close> on a text that has the separator\<close>

definition after_equals :: "string \<Rightarrow> string" where
  "after_equals s = tl (dropWhile (\<lambda>c. c \<noteq> CHR ''='') s)"

text \<open>\<open>hmac.compare_digest\<close> on two texts refuses one that is not ASCII.\<close>

definition is_ascii :: "string \<Rightarrow> bool" where
  "is_ascii s \<longleftrightarrow> (\<forall>c \<in> set s. (of_char c :: nat) < 128)"

definition compare_digest :: "string \<Rightarrow> string \<Rightarrow> be_error + bool" where
  "compare_digest a b = (if is_ascii a \<and> is_ascii b then Inr (a = b)
     else Inl (TypeFault ''comparing strings with non-ASCII characters is not supported''))"

definition verify_hmac_signature ::
  "(string \<Rightarrow> string \<Rightarrow> string) \<Rightarrow> string \<Rightarrow> string \<Rightarrow> string option \<Rightarrow> be_error + unit" where
  "verify_hmac_signature hmac secret body provided =
     (if secret = [] then Inl (WebhookAuthenticationError
        (''Changefeed webhook secret is not configured; refusing unauthenticated '' @
         ''ingest (fail closed, R9).''))
      else if \<not> nonempty provided then
        Inl (WebhookAuthenticationError ''Missing changefeed webhook signature.'')
      else let candidate = strip_signature_prefix signature_prefixes (str_strip (the provided));
           expected = after_equals (compute_hmac_signature hmac secret body) in
        bindE (compare_digest expected candidate) (\<lambda>same.
        if \<not> same then Inl (WebhookAuthenticationError ''Changefeed webhook signature mismatch.'')
        else Inr ()))"

record webhook_authenticator =
  wha_secret :: string

definition new_authenticator :: "string option \<Rightarrow> webhook_authenticator" where
  "new_authenticator secret = \<lparr>wha_secret = (if nonempty secret then the secret else [])\<rparr>"

definition authenticator_configured :: "webhook_authenticator \<Rightarrow> bool" where
  "authenticator_configured a \<longleftrightarrow> wha_secret a \<noteq> []"

definition authenticate :: "(string \<Rightarrow> string \<Rightarrow> string) \<Rightarrow> webhook_authenticator \<Rightarrow> string \<Rightarrow>
    string option \<Rightarrow> be_error + unit" where
  "authenticate hmac a body sig = verify_hmac_signature hmac (wha_secret a) body sig"

lemma expected_digest: "after_equals (compute_hmac_signature hmac secret body) = hmac secret body"
  by (simp add: after_equals_def compute_hmac_signature_def)

text \<open>The accepted headers: the digest itself or after one prefix, in any letter case of the
  prefix, with white space around it.\<close>

lemma verify_hmac_iff:
  "verify_hmac_signature hmac secret body provided = Inr u \<longleftrightarrow>
     secret \<noteq> [] \<and> nonempty provided \<and> is_ascii (hmac secret body) \<and>
     strip_signature_prefix signature_prefixes (str_strip (the provided)) = hmac secret body"
  by (auto simp: verify_hmac_signature_def expected_digest compare_digest_def Let_def)

text \<open>A digest of hexadecimal digits starts with no prefix.\<close>

definition hex_text :: "string \<Rightarrow> bool" where
  "hex_text s \<longleftrightarrow> (\<forall>c \<in> set s. is_digit c \<or> (97 \<le> (of_char c :: nat) \<and> (of_char c :: nat) \<le> 102))"

lemma hex_text_ascii: "hex_text s \<Longrightarrow> is_ascii s"
  by (force simp: hex_text_def is_ascii_def is_digit_def)

lemma hex_not_space: "hex_text s \<Longrightarrow> c \<in> set s \<Longrightarrow> \<not> is_space c"
  by (auto simp: hex_text_def is_space_def is_digit_def Let_def)

lemma hex_lower: "hex_text s \<Longrightarrow> str_lower s = s"
  by (induction s) (auto simp: hex_text_def str_lower_def lower_char_def is_digit_def Let_def)

lemma hex_no_prefix: "hex_text s \<Longrightarrow> strip_signature_prefix signature_prefixes s = s"
proof -
  assume h: "hex_text s"
  have "\<not> starts_with p (str_lower s)" if "p \<in> set signature_prefixes" for p
  proof
    assume "starts_with p (str_lower s)"
    then have "hex_text p" using h
      by (metis hex_lower hex_text_def in_set_takeD starts_with_def)
    with that show False
      by (auto simp: signature_prefixes_def hex_text_def is_digit_def)
  qed
  then show ?thesis by (auto simp: signature_prefixes_def)
qed

lemma hex_trimmed: "hex_text s \<Longrightarrow> s \<noteq> [] \<Longrightarrow> trimmed s"
  using hex_not_space [of s "hd s"] hex_not_space [of s "last s"] by (simp add: trimmed_def)

end
