(* ===== verification/Be_Service.thy ===== *)
theory Be_Service
  imports Be_Injection Be_Guardrails
begin

text \<open>
  The responder (\<^verbatim>\<open>backend/src/postmortem_backend/service.py\<close>): one turn from the signal of an
  incident to the recorded response, with an event per step, and the recording of outcomes. The
  services behind the ports (\<^verbatim>\<open>ports.py\<close>) are programs over a world of their own.
\<close>

section \<open>Ports\<close>

text \<open>\<open>p_stamp\<close> draws the identity and the time of an event, \<open>p_now\<close> reads the clock for an
  authorisation.\<close>

record 'w ports =
  p_embed :: "string \<Rightarrow> ('w, be_error, real list) prog"
  p_recall :: "recall_query \<Rightarrow> ('w, be_error, recall_bundle) prog"
  p_decide :: "signal \<Rightarrow> recall_bundle \<Rightarrow> ('w, be_error, decision) prog"
  p_remediate :: "command \<Rightarrow> real list \<Rightarrow> ('w, be_error, remediation_result) prog"
  p_publish :: "agent_event \<Rightarrow> ('w, be_error, unit) prog"
  p_stamp :: "'w \<Rightarrow> (uuid \<times> datetime) \<times> 'w"
  p_now :: "'w \<Rightarrow> datetime"

section \<open>Registry\<close>

record registry =
  reg_signals :: "(uuid, signal) dict"
  reg_results :: "(uuid, turn_response) dict"

definition new_registry :: registry where
  "new_registry = \<lparr>reg_signals = [], reg_results = []\<rparr>"

definition received :: "signal \<Rightarrow> registry \<Rightarrow> registry" where
  "received s r = r\<lparr>reg_signals := AList.update (sig_incident_id s) s (reg_signals r)\<rparr>"

definition completed :: "turn_response \<Rightarrow> registry \<Rightarrow> registry" where
  "completed t r = r\<lparr>reg_results := AList.update (rsp_incident_id t) t (reg_results r)\<rparr>"

definition registry_view :: "registry \<Rightarrow> uuid \<Rightarrow> nat \<Rightarrow> incident_view option" where
  "registry_view r i event_count = (case map_of (reg_signals r) i of
     None \<Rightarrow> None
   | Some s \<Rightarrow> Some \<lparr>view_signal = s, view_last_result = map_of (reg_results r) i, view_event_count = event_count\<rparr>)"

section \<open>Events\<close>

type_synonym 'w responder = "registry \<times> 'w"

text \<open>\<open>_event\<close>\<close>

definition event :: "'w ports \<Rightarrow> signal \<Rightarrow> event_type \<Rightarrow> string \<Rightarrow> string \<Rightarrow> pydict \<Rightarrow>
    ('w responder, be_error, unit) prog" where
  "event P s ty stage message data = on_snd (
     andThen (\<lambda>w. case p_stamp P w of (st, w') \<Rightarrow> (Inr st, w')) (\<lambda>(event_id, occurred_at).
     p_publish P \<lparr>aev_incident_id = sig_incident_id s, aev_type = ty, aev_stage = stage,
       aev_message = message, aev_data = data, aev_event_id = event_id, aev_occurred_at = occurred_at\<rparr>))"

fun opt_uuid :: "uuid option \<Rightarrow> pyval" where
  "opt_uuid None = PNone"
| "opt_uuid (Some u) = PStr (uuid_str u)"

text \<open>\<open>_rejected_count\<close>\<close>

definition sum_ints :: "pylib \<Rightarrow> pydict \<Rightarrow> be_error + int" where
  "sum_ints lib d = bindE (mapE (\<lambda>(k, v). py_int lib v) d) (\<lambda>is. Inr (sum_list is))"

definition rejected_count :: "pylib \<Rightarrow> pydict \<Rightarrow> be_error + int" where
  "rejected_count lib d = (case (pget d ''candidate_counts'', pget d ''eligible_counts'') of
     (PDict candidates, PDict eligible) \<Rightarrow>
       bindE (sum_ints lib candidates) (\<lambda>a. bindE (sum_ints lib eligible) (\<lambda>b. Inr (max (a - b) 0)))
   | _ \<Rightarrow> Inr 0)"

text \<open>\<open>_console_score\<close>\<close>

definition console_score :: "pylib \<Rightarrow> memory_candidate \<Rightarrow> be_error + pyval" where
  "console_score lib c = (case dict_get (mem_metadata c) ''rank_components'' (PDict []) of
     PDict components \<Rightarrow>
       bindE (py_float lib (dict_get components ''similarity'' (PFloat (mem_similarity c)))) (\<lambda>vec.
       bindE (py_float lib (dict_get components ''scope'' (PFloat 0))) (\<lambda>scope.
       bindE (py_float lib (dict_get components ''recency'' (PFloat 0))) (\<lambda>freshness.
       bindE (py_float lib (dict_get components ''success_rate''
         (dict_get components ''successful_outcome'' (PFloat 0)))) (\<lambda>outcome.
       Inr (PDict [(''vector'', PFloat vec), (''scope'', PFloat scope), (''freshness'', PFloat freshness),
         (''outcome'', PFloat outcome), (''composite'', PFloat (mem_ranking_score c))])))))
   | _ \<Rightarrow> Inl (AttributeFault ''object has no attribute get''))"

text \<open>\<open>str(metadata.get(key, occurred_at or observed_at))\<close>\<close>

definition learned_text :: "pylib \<Rightarrow> signal \<Rightarrow> memory_candidate \<Rightarrow> string \<Rightarrow> pyval" where
  "learned_text lib s c key = PStr (py_str (lib_repr lib) (dict_get (mem_metadata c) key
     (PStr (lib_isoformat lib (case mem_occurred_at c of Some t \<Rightarrow> t | None \<Rightarrow> sig_observed_at s)))))"

definition recall_item :: "pylib \<Rightarrow> signal \<Rightarrow> memory_candidate \<Rightarrow> be_error + pyval" where
  "recall_item lib s c = bindE (console_score lib c) (\<lambda>score. Inr (PDict (
     [(''memoryId'', PStr (uuid_str (mem_memory_id c))),
      (''memoryKind'', PStr (memory_kind_str (mem_kind c))),
      (''sourceCaseId'', PStr (py_str (lib_repr lib)
        (dict_get (mem_metadata c) ''source_case_id'' (PUuid (sig_incident_id s))))),
      (''summary'', PStr (mem_content c)), (''similarity'', PFloat (mem_similarity c)),
      (''accepted'', PBool True), (''confidence'', PFloat (mem_confidence c)),
      (''successRate'', PFloat (mem_success_rate c)), (''score'', score),
      (''provenance'', PList (map (\<lambda>u. PStr (uuid_str u)) (mem_provenance_ids c)))] @
     (case mem_runbook_id c of Some r \<Rightarrow> [(''runbookId'', PStr (uuid_str r))] | None \<Rightarrow> []) @
     (if py_truthy (pget (mem_metadata c) ''successful_action'')
      then [(''successfulAction'', PStr (py_str (lib_repr lib) (pget (mem_metadata c) ''successful_action'')))]
      else []) @
     [(''scope'', PDict [(''service'', PStr (uuid_str (case mem_service_id c of Some u \<Rightarrow> u | None \<Rightarrow> sig_service_id s))),
        (''tenant'', PStr (uuid_str (sig_org_id s)))]),
      (''validFrom'', learned_text lib s c ''valid_from''),
      (''learnedAt'', learned_text lib s c ''learned_at'')])))"

definition recall_completed_data :: "pylib \<Rightarrow> signal \<Rightarrow> recall_bundle \<Rightarrow> be_error + pydict" where
  "recall_completed_data lib s memory =
     bindE (rejected_count lib (bun_diagnostics memory)) (\<lambda>rejected.
     bindE (mapE (recall_item lib s) (all_candidates memory)) (\<lambda>items. Inr
     [(''episodes'', PInt (int (length (bun_episodes memory)))),
      (''facts'', PInt (int (length (bun_facts memory)))),
      (''runbooks'', PInt (int (length (bun_runbooks memory)))),
      (''cold_start'', PBool (bun_cold_start memory)),
      (''diagnostics'', PDict (bun_diagnostics memory)),
      (''provider'', if bun_cold_start memory then PStr ''cold-start''
        else dict_get (bun_diagnostics memory) ''provider'' (PStr ''c-spann+mcp'')),
      (''rejected_count'', PInt rejected),
      (''memory_ids'', PList (map (\<lambda>c. PStr (uuid_str (mem_memory_id c))) (all_candidates memory))),
      (''query_summary'', PStr (recall_text s)), (''duration_ms'', PInt 0), (''results'', PList items)]))"

section \<open>The phases of a turn\<close>

definition recall_phase :: "pylib \<Rightarrow> 'w ports \<Rightarrow> signal \<Rightarrow> ('w responder, be_error, recall_bundle) prog" where
  "recall_phase lib P s =
     andThen (event P s Recall_started ''recall'' ''Embedding incident signature.''
       [(''query_summary'', PStr (recall_text s)), (''duration_ms'', PInt 0), (''results'', PList [])]) (\<lambda>_.
     andThen (on_snd (p_embed P (recall_text s))) (\<lambda>query_embedding.
     andThen (on_snd (p_recall P \<lparr>qry_org_id = sig_org_id s, qry_agent_id = sig_agent_id s,
       qry_service_id = sig_service_id s, qry_text = recall_text s, qry_embedding = query_embedding,
       qry_k = 8, qry_service_tags = sig_service_tags s, qry_error_signature = sig_error_signature s,
       qry_as_of = sig_observed_at s,
       qry_cold_start = py_truthy (dict_get (sig_metadata s) ''cold_start'' (PBool False)),
       qry_current_incident_id = Some (sig_incident_id s)\<rparr>)) (\<lambda>recalled.
     andThen (lift_result (guard_untrusted_recall_bundle lib recalled)) (\<lambda>memory.
     andThen (lift_result (recall_completed_data lib s memory)) (\<lambda>data.
     andThen (event P s Recall_completed ''recall'' ''Recalled scoped organizational memory.'' data) (\<lambda>_.
     ret memory))))))"

definition reason_phase :: "'w ports \<Rightarrow> signal \<Rightarrow> recall_bundle \<Rightarrow> ('w responder, be_error, decision) prog" where
  "reason_phase P s memory =
     andThen (event P s Reasoning_started ''reason'' ''Selecting a grounded response.'' []) (\<lambda>_.
     andThen (on_snd (p_decide P s memory)) (\<lambda>decision.
     andThen (event P s Decision_proposed ''reason'' (dec_explanation decision)
       [(''decision'', PStr (decision_str (dec_kind decision))),
        (''confidence'', PFloat (dec_confidence decision)),
        (''cited_memory_id'', opt_uuid (dec_cited_memory_id decision)),
        (''cited_runbook_id'', opt_uuid (case dec_command decision of None \<Rightarrow> None | Some c \<Rightarrow> cmd_runbook_id c))])
       (\<lambda>_. ret decision)))"

definition command_arguments :: "command \<Rightarrow> string \<times> pyval" where
  "command_arguments c = (''arguments'', PDict [(''action'', PStr (action_str (cmd_action c))),
     (''target_version'', PStr (cmd_target_version c))])"

definition propose :: "'w ports \<Rightarrow> signal \<Rightarrow> command \<Rightarrow> ('w responder, be_error, unit) prog" where
  "propose P s c = event P s Action_proposed ''act'' ''Grounded remediation proposed.''
     [(''action'', PStr (action_str (cmd_action c))),
      (''action_id'', PStr (effective_idempotency_key c)),
      (''tool'', PStr ''remediate_and_record''), (''target'', PStr (uuid_str (cmd_service_id c))),
      (''cited_memory_id'', PStr (uuid_str (cmd_cited_memory_id c))),
      (''requires_approval'', PBool (cmd_requires_human_approval c)), command_arguments c]"

definition pause :: "'w ports \<Rightarrow> signal \<Rightarrow> command \<Rightarrow> ('w responder, be_error, unit) prog" where
  "pause P s c = event P s Approval_required ''act'' ''Remediation is paused for explicit SRE approval.''
     [(''action'', PStr (action_str (cmd_action c))), (''tool'', PStr ''remediate_and_record''),
      (''target'', PStr (uuid_str (cmd_service_id c))),
      (''cited_memory_id'', PStr (uuid_str (cmd_cited_memory_id c))), command_arguments c]"

text \<open>The second component of the state is the local variable \<open>transaction_started\<close>.\<close>

definition execute :: "pylib \<Rightarrow> 'w ports \<Rightarrow> signal \<Rightarrow> command \<Rightarrow> string option \<Rightarrow>
    ('w responder \<times> bool, be_error, remediation_result) prog" where
  "execute lib P s c approver =
     andThen (on_fst (on_snd (reads (p_now P)))) (\<lambda>now.
     andThen (lift_result (authorize_action c (cmd_approved c) approver (sig_service_tags s) now)) (\<lambda>approval.
     andThen (on_fst (on_snd (p_embed P (memory_text c)))) (\<lambda>action_embedding.
     andThen (on_fst (event P s Transaction_started ''act+record''
       ''Starting atomic operational action and episodic append.''
       [(''action'', PStr (action_str (cmd_action c))),
        (''transaction_id'', PStr (uuid_str (cmd_incident_id c))),
        (''authorization'', PDict (approval_dict lib approval))])) (\<lambda>_.
     andThen (modifies (\<lambda>(r, started). (r, True))) (\<lambda>_.
     andThen (on_fst (on_snd (p_remediate P c action_embedding))) (\<lambda>result.
     andThen (on_fst (event P s Transaction_committed ''act+record''
       ''Operational action and memory committed together.''
       [(''action_id'', PStr (uuid_str (res_action_id result))),
        (''transaction_id'', PStr (uuid_str (res_transaction_id result))),
        (''deploy_id'', PStr (uuid_str (res_deploy_id result))),
        (''event_id'', PStr (uuid_str (res_event_id result))),
        (''committed_at'', PStr (lib_isoformat lib (res_committed_at result)))])) (\<lambda>_.
     ret result)))))))"

definition act_phase :: "pylib \<Rightarrow> 'w ports \<Rightarrow> signal \<Rightarrow> recall_bundle \<Rightarrow> decision \<Rightarrow> bool \<Rightarrow> string option \<Rightarrow>
    ('w responder \<times> bool, be_error, decision \<times> remediation_result option) prog" where
  "act_phase lib P s memory d approved approver = (case dec_command d of
     Some proposed \<Rightarrow> if dec_kind d = Remediate then let
       c = proposed\<lparr>cmd_approved := approved\<rparr>; d' = d\<lparr>dec_command := Some c\<rparr> in
       andThen (lift_result (bindE (resolve_decision_tool (dec_kind d')) enforce_tool_allowlist)) (\<lambda>_.
       andThen (lift_result (require_grounded_action c (Some (map mem_memory_id (all_candidates memory))))) (\<lambda>_.
       andThen (on_fst (propose P s c)) (\<lambda>_.
       if cmd_requires_human_approval c \<and> \<not> cmd_approved c then
         andThen (on_fst (pause P s c)) (\<lambda>_. ret (d', None))
       else andThen (execute lib P s c approver) (\<lambda>result. ret (d', Some result)))))
     else ret (d, None)
   | None \<Rightarrow> ret (d, None))"

definition complete_phase :: "'w ports \<Rightarrow> signal \<Rightarrow> decision \<Rightarrow> remediation_result option \<Rightarrow>
    ('w responder, be_error, turn_response) prog" where
  "complete_phase P s d remediation = (let
     result = \<lparr>rsp_incident_id = sig_incident_id s, rsp_decision = d, rsp_remediation = remediation\<rparr> in
     andThen (modifies (\<lambda>(reg, w). (completed result reg, w))) (\<lambda>_.
     andThen (event P s Response_completed ''record'' ''Responder turn completed.''
       [(''remediated'', PBool (remediation \<noteq> None)),
        (''memory_id'', opt_uuid (map_option res_event_id remediation)),
        (''summary'', PStr (if remediation \<noteq> None
          then ''Action outcome recorded atomically with operational state.'' else dec_explanation d)),
        (''freshness_ms'', PInt 0), (''stale_reads_observed'', PInt 0)]) (\<lambda>_.
     ret result)))"

text \<open>The \<open>try\<close> block.\<close>

definition turn :: "pylib \<Rightarrow> 'w ports \<Rightarrow> signal \<Rightarrow> bool \<Rightarrow> string option \<Rightarrow>
    ('w responder \<times> bool, be_error, turn_response) prog" where
  "turn lib P s approved approver =
     andThen (on_fst (recall_phase lib P s)) (\<lambda>memory.
     andThen (on_fst (reason_phase P s memory)) (\<lambda>decision.
     andThen (act_phase lib P s memory decision approved approver) (\<lambda>(decision, remediation).
     on_fst (complete_phase P s decision remediation))))"

text \<open>The \<open>except\<close> block.\<close>

definition report_failure :: "'w ports \<Rightarrow> signal \<Rightarrow> bool \<Rightarrow> be_error \<Rightarrow> ('w responder, be_error, 'a) prog" where
  "report_failure P s transaction_started e =
     andThen (event P s (if transaction_started then Transaction_rolled_back else Response_failed)
       (if transaction_started then ''act+record'' else ''response'')
       ''Responder failed safely; no partial remediation was recorded.''
       [(''error_type'', PStr (error_type e)), (''error'', PStr (error_text e))]) (\<lambda>_. raise e)"

definition guarded_turn :: "pylib \<Rightarrow> 'w ports \<Rightarrow> signal \<Rightarrow> bool \<Rightarrow> string option \<Rightarrow>
    ('w responder, be_error, turn_response) prog" where
  "guarded_turn lib P s approved approver = (\<lambda>st.
     case turn lib P s approved approver (st, False) of
       (Inr result, (st', started)) \<Rightarrow> (Inr result, st')
     | (Inl e, (st', started)) \<Rightarrow> report_failure P s started e st')"

definition handle :: "pylib \<Rightarrow> 'w ports \<Rightarrow> signal \<Rightarrow> bool \<Rightarrow> string option \<Rightarrow>
    ('w responder, be_error, turn_response) prog" where
  "handle lib P signal approved approver =
     andThen (lift_result (sanitize_signal lib signal)) (\<lambda>s.
     andThen (modifies (\<lambda>(reg, w). (received s reg, w))) (\<lambda>_.
     andThen (event P s Incident_received ''perceive'' (''Received '' @ sig_severity s @ '' incident.'')
       [(''service'', PStr (uuid_str (sig_service_id s))), (''service_id'', PStr (uuid_str (sig_service_id s))),
        (''severity'', PStr (sig_severity s)), (''status'', PStr ''open''), (''summary'', PStr (sig_summary s))]) (\<lambda>_.
     guarded_turn lib P s approved approver)))"

section \<open>Outcomes\<close>

record 'w outcome_ports =
  o_embed :: "string \<Rightarrow> ('w, be_error, real list) prog"
  o_record :: "outcome_command \<Rightarrow> real list \<Rightarrow> ('w, be_error, outcome_result) prog"
  o_publish :: "agent_event \<Rightarrow> ('w, be_error, unit) prog"
  o_stamp :: "'w \<Rightarrow> (uuid \<times> datetime) \<times> 'w"
  o_now :: "'w \<Rightarrow> datetime"

text \<open>The difference of an instant with a zone and one without is a \<open>TypeError\<close>; \<open>int\<close> cuts
  towards zero.\<close>

definition freshness_ms :: "datetime \<Rightarrow> datetime \<Rightarrow> be_error + int" where
  "freshness_ms now recorded_at = (case (now, recorded_at) of
     (Zoned a d, Zoned b e) \<Rightarrow> (let us = (a - d) - (b - e) in
       Inr (max (if 0 \<le> us then us div 1000 else - ((- us) div 1000)) 0))
   | _ \<Rightarrow> Inl (TypeFault ''cannot subtract offset-naive and offset-aware datetimes''))"

definition outcome_event :: "outcome_command \<Rightarrow> outcome_result \<Rightarrow> int \<Rightarrow> uuid \<Rightarrow> datetime \<Rightarrow> agent_event" where
  "outcome_event c r ms event_id occurred_at = \<lparr>aev_incident_id = oc_incident_id c, aev_type = Outcome_recorded,
     aev_stage = ''record'',
     aev_message = ''Recorded '' @ outcome_value (oc_outcome c) @ '' outcome for action '' @
       uuid_str (oc_action_id c) @ ''.'',
     aev_data = [(''memory_id'', PStr (uuid_str (or_event_id r))), (''memory_kind'', PStr ''episodic''),
       (''summary'', PStr (oc_summary c)), (''freshness_ms'', PInt ms), (''stale_reads_observed'', PInt 0),
       (''action_id'', PStr (uuid_str (oc_action_id c))),
       (''transaction_id'', PStr (uuid_str (or_transaction_id r))),
       (''outcome'', PStr (outcome_value (oc_outcome c))), (''incident_status'', PStr (or_incident_status r)),
       (''idempotent_replay'', PBool (or_idempotent_replay r))],
     aev_event_id = event_id, aev_occurred_at = occurred_at\<rparr>"

definition record_and_publish :: "'w outcome_ports \<Rightarrow> outcome_command \<Rightarrow> ('w, be_error, outcome_result) prog" where
  "record_and_publish P c =
     andThen (o_embed P (outcome_text c)) (\<lambda>embedding.
     andThen (o_record P c embedding) (\<lambda>result.
     andThen (reads (o_now P)) (\<lambda>now.
     andThen (lift_result (freshness_ms now (or_recorded_at result))) (\<lambda>ms.
     andThen (if \<not> or_idempotent_replay result then
         andThen (\<lambda>w. case o_stamp P w of (st, w') \<Rightarrow> (Inr st, w')) (\<lambda>(event_id, occurred_at).
         o_publish P (outcome_event c result ms event_id occurred_at))
       else ret ()) (\<lambda>_.
     ret result)))))"

section \<open>HTTP status of a failure\<close>

text \<open>The exception handlers of the API (\<^verbatim>\<open>api.py\<close>); an exception without one is a server error.\<close>

fun http_status :: "be_error \<Rightarrow> nat" where
  "http_status (WebhookAuthenticationError _) = 401"
| "http_status (InputValidationError _) = 400"
| "http_status (PromptInjectionDetected _) = 400"
| "http_status (ReasoningError _) = 502"
| "http_status (RecallError _) = 503"
| "http_status (AtomicRemediationError _) = 503"
| "http_status (OutcomeRecordingError _) = 503"
| "http_status (ValueFault _) = 500"
| "http_status (TypeFault _) = 500"
| "http_status (AttributeFault _) = 500"
| "http_status (PortError _ _) = 500"
| "http_status _ = 409"

end
