(* ===== verification/Be_Events.thy ===== *)
theory Be_Events
  imports Be_Domain
begin

text \<open>
  The event broker (\<^verbatim>\<open>backend/src/postmortem_backend/events.py\<close>): a ring buffer of events per
  incident, and one bounded queue per open stream of an incident. A stream is a Python generator;
  its steps are operations here: \<open>open_stream\<close> runs it up to its first \<open>yield\<close>, \<open>next_event\<close>
  is one \<open>next()\<close> (\<open>None\<close> is the heartbeat of an empty queue), \<open>close_stream\<close> its
  \<open>finally\<close> block. The lock makes each operation one step.
\<close>

definition default_history_limit :: int where
  "default_history_limit = 500"

definition default_subscriber_queue_limit :: int where
  "default_subscriber_queue_limit = 1000"

text \<open>A queue of \<^verbatim>\<open>queue.Queue\<close> is known by a number; \<open>str_backlog\<close> is what \<open>yield from
  history\<close> has still to deliver.\<close>

record event_stream =
  str_incident_id :: uuid
  str_backlog :: "agent_event list"
  str_queue :: "agent_event list"

record broker =
  br_history_limit :: int
  br_queue_limit :: int
  br_history :: "(uuid, agent_event list) dict"
  br_subscribers :: "(uuid, nat list) dict"
  br_streams :: "(nat, event_stream) dict"

definition new_broker :: "int \<Rightarrow> int \<Rightarrow> broker" where
  "new_broker history_limit queue_limit = \<lparr>br_history_limit = history_limit,
     br_queue_limit = queue_limit, br_history = [], br_subscribers = [], br_streams = []\<rparr>"

text \<open>The newest \<open>n\<close> entries: a deque with \<open>maxlen = n\<close> drops the oldest ones.\<close>

definition last_n :: "nat \<Rightarrow> 'a list \<Rightarrow> 'a list" where
  "last_n n xs = drop (length xs - n) xs"

text \<open>\<open>tuple(self._history.get(incident_id, ()))\<close>\<close>

definition history :: "broker \<Rightarrow> uuid \<Rightarrow> agent_event list" where
  "history b i = dict_get (br_history b) i []"

definition subscribers :: "broker \<Rightarrow> uuid \<Rightarrow> nat list" where
  "subscribers b i = dict_get (br_subscribers b) i []"

text \<open>\<open>put_nowait\<close>; a queue with a bound that is not positive is unbounded, a full one drops the
  event.\<close>

definition put_nowait :: "int \<Rightarrow> agent_event \<Rightarrow> agent_event list \<Rightarrow> agent_event list" where
  "put_nowait limit e q = (if 0 < limit \<and> limit \<le> int (length q) then q else q @ [e])"

definition deliver :: "agent_event \<Rightarrow> broker \<Rightarrow> nat \<Rightarrow> broker" where
  "deliver e b s = (case map_of (br_streams b) s of
     None \<Rightarrow> b
   | Some st \<Rightarrow> b\<lparr>br_streams := AList.update s
       (st\<lparr>str_queue := put_nowait (br_queue_limit b) e (str_queue st)\<rparr>) (br_streams b)\<rparr>)"

text \<open>A new entry of the default dictionary is \<open>deque(maxlen=history_limit)\<close>, which refuses a
  negative bound.\<close>

definition publish :: "agent_event \<Rightarrow> (broker, be_error, unit) prog" where
  "publish e =
     andThen (reads (\<lambda>b. map_of (br_history b) (aev_incident_id e) \<noteq> None \<or> 0 \<le> br_history_limit b)) (\<lambda>ok.
     andThen (require ok (ValueFault ''maxlen must be non-negative'')) (\<lambda>_.
     andThen (modifies (\<lambda>b. b\<lparr>
       br_history := AList.update (aev_incident_id e)
         (last_n (nat (br_history_limit b)) (history b (aev_incident_id e) @ [e])) (br_history b),
       br_subscribers := dict_setdefault (aev_incident_id e) [] (br_subscribers b)\<rparr>)) (\<lambda>_.
     modifies (\<lambda>b. foldl (deliver e) b (subscribers b (aev_incident_id e))))))"

text \<open>\<open>s\<close> is the identity of the new queue.\<close>

definition open_stream :: "uuid \<Rightarrow> nat \<Rightarrow> broker \<Rightarrow> broker" where
  "open_stream i s b = b\<lparr>
     br_subscribers := AList.update i (subscribers b i @ [s]) (br_subscribers b),
     br_streams := AList.update s \<lparr>str_incident_id = i, str_backlog = history b i, str_queue = []\<rparr>
       (br_streams b)\<rparr>"

definition next_event :: "nat \<Rightarrow> broker \<Rightarrow> agent_event option \<times> broker" where
  "next_event s b = (case map_of (br_streams b) s of
     None \<Rightarrow> (None, b)
   | Some st \<Rightarrow> (case str_backlog st of
       e # es \<Rightarrow> (Some e, b\<lparr>br_streams := AList.update s (st\<lparr>str_backlog := es\<rparr>) (br_streams b)\<rparr>)
     | [] \<Rightarrow> (case str_queue st of
         e # es \<Rightarrow> (Some e, b\<lparr>br_streams := AList.update s (st\<lparr>str_queue := es\<rparr>) (br_streams b)\<rparr>)
       | [] \<Rightarrow> (None, b))))"

definition close_stream :: "nat \<Rightarrow> broker \<Rightarrow> broker" where
  "close_stream s b = (case map_of (br_streams b) s of
     None \<Rightarrow> b
   | Some st \<Rightarrow> let left = filter (\<lambda>t. t \<noteq> s) (subscribers b (str_incident_id st)) in
       b\<lparr>br_subscribers := (if left = [] then AList.delete (str_incident_id st) (br_subscribers b)
           else AList.update (str_incident_id st) left (br_subscribers b)),
         br_streams := AList.delete s (br_streams b)\<rparr>)"

section \<open>The ring buffer\<close>

lemma length_last_n [simp]: "length (last_n n xs) = min n (length xs)"
  by (simp add: last_n_def min_def)

lemma last_n_all [simp]: "length xs \<le> n \<Longrightarrow> last_n n xs = xs"
  by (simp add: last_n_def)

lemma last_n_append [simp]: "last_n n (last_n n xs @ ys) = last_n n (xs @ ys)"
proof (cases "length xs \<le> n")
  case False
  then show ?thesis by (auto simp: last_n_def add.commute)
qed simp

lemma last_n_suffix: "\<exists>ys. xs = ys @ last_n n xs"
  unfolding last_n_def by (metis append_take_drop_id)

section \<open>What a delivery changes\<close>

lemma deliver_fields [simp]:
  "br_history (deliver e b s) = br_history b"
  "br_subscribers (deliver e b s) = br_subscribers b"
  "br_history_limit (deliver e b s) = br_history_limit b"
  "br_queue_limit (deliver e b s) = br_queue_limit b"
  by (simp_all add: deliver_def split: option.splits)

lemma foldl_deliver_fields [simp]:
  "br_history (foldl (deliver e) b ss) = br_history b"
  "br_subscribers (foldl (deliver e) b ss) = br_subscribers b"
  "br_history_limit (foldl (deliver e) b ss) = br_history_limit b"
  "br_queue_limit (foldl (deliver e) b ss) = br_queue_limit b"
  by (induction ss arbitrary: b) simp_all

lemma deliver_stream:
  "map_of (br_streams (deliver e b t)) s =
   (if s = t then map_option (\<lambda>st. st\<lparr>str_queue := put_nowait (br_queue_limit b) e (str_queue st)\<rparr>)
        (map_of (br_streams b) s)
    else map_of (br_streams b) s)"
  by (auto simp: deliver_def split: option.splits)

lemma foldl_deliver_stream:
  "distinct ss \<Longrightarrow> map_of (br_streams (foldl (deliver e) b ss)) s =
   (if s \<in> set ss then map_option (\<lambda>st. st\<lparr>str_queue := put_nowait (br_queue_limit b) e (str_queue st)\<rparr>)
        (map_of (br_streams b) s)
    else map_of (br_streams b) s)"
  by (induction ss arbitrary: b) (auto simp: deliver_stream)

text \<open>A broker with a bound that is not negative never refuses an event.\<close>

lemma publish_run:
  assumes "0 \<le> br_history_limit b"
  shows "publish e b = (Inr (), foldl (deliver e)
     (b\<lparr>br_history := AList.update (aev_incident_id e)
         (last_n (nat (br_history_limit b)) (history b (aev_incident_id e) @ [e])) (br_history b),
       br_subscribers := dict_setdefault (aev_incident_id e) [] (br_subscribers b)\<rparr>)
     (subscribers b (aev_incident_id e)))"
proof -
  have "subscribers (b\<lparr>br_history := h, br_subscribers := dict_setdefault i [] (br_subscribers b)\<rparr>) i =
      subscribers b i" for h i
    by (simp add: subscribers_def dict_get_def split: option.splits)
  with assms show ?thesis by (simp add: publish_def prog_simps)
qed

lemma history_publish:
  assumes "0 \<le> br_history_limit b"
  shows "history (snd (publish e b)) i =
    (if i = aev_incident_id e then last_n (nat (br_history_limit b)) (history b i @ [e]) else history b i)"
  using assms by (simp add: publish_run history_def dict_get_def)

lemma publish_limits [simp]:
  "br_history_limit (snd (publish e b)) = br_history_limit b"
  "br_queue_limit (snd (publish e b)) = br_queue_limit b"
  by (simp_all add: publish_def prog_simps)

section \<open>Subscriptions\<close>

text \<open>The subscriptions are the open streams: every queue of an incident is a stream of that
  incident, once.\<close>

definition incident_of :: "broker \<Rightarrow> nat \<Rightarrow> uuid option" where
  "incident_of b s = map_option str_incident_id (map_of (br_streams b) s)"

definition subscribed :: "broker \<Rightarrow> bool" where
  "subscribed b \<longleftrightarrow> (\<forall>i. distinct (subscribers b i)) \<and>
     (\<forall>i s. s \<in> set (subscribers b i) \<longleftrightarrow> incident_of b s = Some i)"

lemma subscribed_new: "subscribed (new_broker h q)"
  by (simp add: subscribed_def new_broker_def subscribers_def dict_get_def incident_of_def)

lemma subscribers_publish [simp]: "subscribers (snd (publish e b)) i = subscribers b i"
  by (auto simp: publish_def prog_simps subscribers_def dict_get_def split: option.splits)

lemma publish_stream:
  assumes "0 \<le> br_history_limit b" "subscribed b"
  shows "map_of (br_streams (snd (publish e b))) s =
    map_option (\<lambda>st. if str_incident_id st = aev_incident_id e
        then st\<lparr>str_queue := put_nowait (br_queue_limit b) e (str_queue st)\<rparr> else st)
      (map_of (br_streams b) s)"
  using assms
  by (cases "map_of (br_streams b) s")
    (auto simp: publish_run foldl_deliver_stream subscribed_def incident_of_def)

lemma subscribed_publish:
  assumes "0 \<le> br_history_limit b" "subscribed b"
  shows "subscribed (snd (publish e b))"
proof -
  have "incident_of (snd (publish e b)) s = incident_of b s" for s
    using assms by (cases "map_of (br_streams b) s") (simp_all add: incident_of_def publish_stream)
  with assms(2) show ?thesis by (simp add: subscribed_def)
qed

lemma subscribed_open:
  assumes "subscribed b" "map_of (br_streams b) s = None"
  shows "subscribed (open_stream i s b)"
proof -
  have "s \<notin> set (subscribers b j)" for j using assms by (auto simp: subscribed_def incident_of_def)
  moreover have "subscribers (open_stream i s b) j = (if j = i then subscribers b i @ [s] else subscribers b j)" for j
    by (simp add: open_stream_def subscribers_def dict_get_def)
  moreover have "incident_of (open_stream i s b) t = (if t = s then Some i else incident_of b t)" for t
    by (simp add: open_stream_def incident_of_def)
  ultimately show ?thesis using assms by (auto simp: subscribed_def)
qed

lemma next_event_fields [simp]:
  "br_subscribers (snd (next_event s b)) = br_subscribers b"
  "br_history (snd (next_event s b)) = br_history b"
  "br_history_limit (snd (next_event s b)) = br_history_limit b"
  "br_queue_limit (snd (next_event s b)) = br_queue_limit b"
  by (simp_all add: next_event_def split: option.splits list.splits)

lemma next_event_other:
  "s \<noteq> t \<Longrightarrow> map_of (br_streams (snd (next_event t b))) s = map_of (br_streams b) s"
  by (simp add: next_event_def split: option.splits list.splits)

lemma subscribed_next:
  assumes "subscribed b"
  shows "subscribed (snd (next_event s b))"
proof -
  have "incident_of (snd (next_event s b)) t = incident_of b t" for t
    by (simp add: incident_of_def next_event_def split: option.splits list.splits)
  with assms show ?thesis by (simp add: subscribed_def subscribers_def)
qed

lemma map_of_delete: "map_of (AList.delete k d) k' = (if k = k' then None else map_of d k')"
  by (simp add: delete_conv')

lemma subscribed_close:
  assumes "subscribed b"
  shows "subscribed (close_stream s b)"
proof (cases "map_of (br_streams b) s")
  case (Some st)
  have subs: "subscribers (close_stream s b) i =
      (if i = str_incident_id st then filter (\<lambda>t. t \<noteq> s) (subscribers b i) else subscribers b i)" for i
    using Some by (simp add: close_stream_def subscribers_def dict_get_def Let_def map_of_delete)
  have streams: "incident_of (close_stream s b) t = (if t = s then None else incident_of b t)" for t
    using Some by (simp add: close_stream_def Let_def map_of_delete incident_of_def)
  have "incident_of b s = Some (str_incident_id st)" using Some by (simp add: incident_of_def)
  with assms show ?thesis by (auto simp: subscribed_def subs streams)
qed (use assms in \<open>simp add: close_stream_def\<close>)

section \<open>Runs\<close>

datatype broker_op = Publish agent_event | Open uuid nat | Next nat | Close nat

fun broker_step :: "broker_op \<Rightarrow> broker \<Rightarrow> agent_event option \<times> broker" where
  "broker_step (Publish e) b = (None, snd (publish e b))"
| "broker_step (Open i s) b = (None, open_stream i s b)"
| "broker_step (Next s) b = next_event s b"
| "broker_step (Close s) b = (None, close_stream s b)"

text \<open>\<open>yielded s ops b\<close>: the events the consumer of stream \<open>s\<close> is given while \<open>ops\<close> runs.\<close>

fun yielded :: "nat \<Rightarrow> broker_op list \<Rightarrow> broker \<Rightarrow> agent_event list" where
  "yielded s [] b = []"
| "yielded s (p # ps) b = (case broker_step p b of (r, b') \<Rightarrow>
     (if p = Next s then (case r of Some e \<Rightarrow> [e] | None \<Rightarrow> []) else []) @ yielded s ps b')"

definition broker_run :: "broker_op list \<Rightarrow> broker \<Rightarrow> broker" where
  "broker_run ps b = foldl (\<lambda>b p. snd (broker_step p b)) b ps"

fun published :: "uuid \<Rightarrow> broker_op list \<Rightarrow> agent_event list" where
  "published i [] = []"
| "published i (Publish e # ps) = (if aev_incident_id e = i then [e] else []) @ published i ps"
| "published i (_ # ps) = published i ps"

text \<open>What the stream has still to hand over.\<close>

definition pending :: "nat \<Rightarrow> broker \<Rightarrow> agent_event list" where
  "pending s b = (case map_of (br_streams b) s of None \<Rightarrow> [] | Some st \<Rightarrow> str_backlog st @ str_queue st)"

lemma broker_run_simps [simp]:
  "broker_run [] b = b"
  "broker_run (p # ps) b = broker_run ps (snd (broker_step p b))"
  by (simp_all add: broker_run_def)

text \<open>Opens that reuse no identity, as \<open>Queue(...)\<close> gives a new object each time.\<close>

fun fresh_opens :: "broker_op list \<Rightarrow> broker \<Rightarrow> bool" where
  "fresh_opens [] b = True"
| "fresh_opens (p # ps) b = ((case p of Open i s \<Rightarrow> map_of (br_streams b) s = None | _ \<Rightarrow> True) \<and>
     fresh_opens ps (snd (broker_step p b)))"

lemma broker_step_limits [simp]:
  "br_history_limit (snd (broker_step p b)) = br_history_limit b"
  "br_queue_limit (snd (broker_step p b)) = br_queue_limit b"
  by (cases p; simp add: open_stream_def close_stream_def Let_def split: option.splits)+

lemma subscribed_step:
  assumes "0 \<le> br_history_limit b" "subscribed b" "fresh_opens [p] b"
  shows "subscribed (snd (broker_step p b))"
  using assms by (cases p) (simp_all add: subscribed_publish subscribed_open subscribed_next subscribed_close)

text \<open>A step of the broker moves an open stream by exactly what was published and handed over.\<close>

lemma pending_step:
  assumes b: "0 \<le> br_history_limit b" "subscribed b"
    and st: "map_of (br_streams b) s = Some st" "str_incident_id st = i"
    and p: "fresh_opens [p] b" "p \<noteq> Close s"
    and room: "br_queue_limit b \<le> 0 \<or> int (length (str_queue st) + length (published i [p])) \<le> br_queue_limit b"
  obtains st' where "map_of (br_streams (snd (broker_step p b))) s = Some st'" "str_incident_id st' = i"
    "yielded s [p] b @ pending s (snd (broker_step p b)) = pending s b @ published i [p]"
    "length (str_queue st') \<le> length (str_queue st) + length (published i [p])"
proof (cases p)
  case (Publish e)
  with assms that show thesis
    by (cases "aev_incident_id e = i") (auto simp: publish_stream pending_def put_nowait_def)
next
  case (Open j t)
  with assms have "t \<noteq> s" by auto
  with Open assms that show thesis by (auto simp: open_stream_def pending_def)
next
  case (Next t)
  with assms that show thesis
  proof (cases "t = s")
    case True
    with Next assms that [of "st\<lparr>str_backlog := tl (str_backlog st)\<rparr>"] that [of "st\<lparr>str_queue := tl (str_queue st)\<rparr>"]
    show thesis
      by (cases "str_backlog st"; cases "str_queue st") (auto simp: next_event_def pending_def)
  next
    case False
    with Next assms that show thesis
      by (auto simp: pending_def next_event_other split: prod.splits)
  qed
next
  case (Close t)
  with assms that show thesis
    by (cases "map_of (br_streams b) t") (auto simp: close_stream_def pending_def Let_def map_of_delete)
qed

text \<open>While a stream is open and its queue has room, what it has handed over and what it still
  holds is its backlog followed by everything published for its incident, in order.\<close>

lemma stream_accounts:
  assumes "0 \<le> br_history_limit b" "subscribed b"
    and "map_of (br_streams b) s = Some st" "str_incident_id st = i"
    and "fresh_opens ps b" "Close s \<notin> set ps"
    and "br_queue_limit b \<le> 0 \<or> int (length (str_queue st) + length (published i ps)) \<le> br_queue_limit b"
  shows "yielded s ps b @ pending s (broker_run ps b) = pending s b @ published i ps"
  using assms
proof (induction ps arbitrary: b st)
  case (Cons p ps)
  let ?c = "snd (broker_step p b)"
  have pub: "published i (p # ps) = published i [p] @ published i ps" by (cases p) auto
  have room: "br_queue_limit b \<le> 0 \<or> int (length (str_queue st) + length (published i [p])) \<le> br_queue_limit b"
    using Cons.prems(7) pub by auto
  obtain st' where st': "map_of (br_streams ?c) s = Some st'" "str_incident_id st' = i"
      "yielded s [p] b @ pending s ?c = pending s b @ published i [p]"
      "length (str_queue st') \<le> length (str_queue st) + length (published i [p])"
    by (rule pending_step [of b s st i p]) (use Cons.prems room in auto)
  have "yielded s ps ?c @ pending s (broker_run ps ?c) = pending s ?c @ published i ps"
  proof (rule Cons.IH [of _ st'])
    show "subscribed ?c" using Cons.prems by (intro subscribed_step) auto
    show "br_queue_limit ?c \<le> 0 \<or> int (length (str_queue st') + length (published i ps)) \<le> br_queue_limit ?c"
      using Cons.prems(7) pub st'(4) by auto
  qed (use Cons.prems st' in auto)
  moreover have "yielded s (p # ps) b = yielded s [p] b @ yielded s ps ?c"
    by (simp add: case_prod_beta)
  ultimately show ?case using st'(3) pub by (metis append.assoc broker_run_simps(2))
qed simp

text \<open>The history of an incident is the newest part of everything published for it.\<close>

lemma history_run:
  assumes "0 \<le> br_history_limit b"
  shows "history (broker_run ps b) i =
    (if published i ps = [] then history b i else last_n (nat (br_history_limit b)) (history b i @ published i ps))"
  using assms
proof (induction ps arbitrary: b)
  case (Cons p ps)
  have "published i (p # ps) = published i [p] @ published i ps" by (cases p) auto
  moreover have "published i [p] \<noteq> [] \<Longrightarrow>
      history (snd (broker_step p b)) i = last_n (nat (br_history_limit b)) (history b i @ published i [p])"
    "published i [p] = [] \<Longrightarrow> history (snd (broker_step p b)) i = history b i"
    using Cons.prems
    by (cases p; auto simp: history_publish split: if_splits;
        auto simp: history_def open_stream_def close_stream_def Let_def split: option.splits)+
  ultimately show ?case using Cons by (cases "published i [p] = []") auto
qed simp

end
