(* ===== verification/Be_Turn.thy ===== *)
theory Be_Turn
  imports Be_Service Be_Events
begin

text \<open>
  What every turn of the responder does, whatever the services behind its ports do: which commands
  the remediation port and which texts the reasoner are given, and which events are published, in
  which order. The second part is stated over a world with a log of events (a locale).
\<close>

section \<open>Programs\<close>

lemma andThen_cong_run:
  "(\<And>x t. m s = (Inr x, t) \<Longrightarrow> f x t = g x t) \<Longrightarrow> andThen m f s = andThen m g s"
  by (auto simp: andThen_def split: prod.splits sum.splits)

lemma andThen_lift [simp]:
  "andThen (lift_result (Inl e)) f = raise e"
  "andThen (lift_result (Inr x)) f = f x"
  by (auto simp: fun_eq_iff prog_simps)

lemma andThen_assoc: "andThen (andThen m f) g = andThen m (\<lambda>x. andThen (f x) g)"
  by (auto simp: fun_eq_iff andThen_def split: prod.splits sum.splits)

lemma on_fst_andThen: "on_fst (andThen m f) = andThen (on_fst m) (\<lambda>x. on_fst (f x))"
  by (auto simp: fun_eq_iff on_fst_def andThen_def split: prod.splits sum.splits)

lemma on_fst_simps:
  "on_fst (ret x) = ret x" "on_fst (lift_result r) = lift_result r" "on_fst (raise e) = raise e"
  by (auto simp: fun_eq_iff on_fst_def prog_simps)

lemma andThen_Inr_iff: "andThen m f s = (Inr y, t) \<longleftrightarrow> (\<exists>x u. m s = (Inr x, u) \<and> f x u = (Inr y, t))"
  by (auto simp: andThen_def split: prod.splits sum.splits)

lemma on_snd_Inr: "on_snd m st = (Inr x, st') \<longleftrightarrow> (\<exists>w'. m (snd st) = (Inr x, w') \<and> st' = (fst st, w'))"
  by (cases st; cases "m (snd st)") (auto simp: run_on_snd)

lemma on_fst_Inr: "on_fst m st = (Inr x, st') \<longleftrightarrow> (\<exists>w'. m (fst st) = (Inr x, w') \<and> st' = (w', snd st))"
  by (cases st; cases "m (fst st)") (auto simp: run_on_fst)

section \<open>What the ports are asked\<close>

lemma event_ports [simp]:
  "event (P\<lparr>p_remediate := f\<rparr>) = event P" "event (P\<lparr>p_decide := g\<rparr>) = event P"
  by (simp_all add: event_def fun_eq_iff)

lemma step_ports [simp]:
  "propose (P\<lparr>p_remediate := f\<rparr>) s c = propose P s c" "propose (P\<lparr>p_decide := g\<rparr>) s c = propose P s c"
  "pause (P\<lparr>p_remediate := f\<rparr>) s c = pause P s c" "pause (P\<lparr>p_decide := g\<rparr>) s c = pause P s c"
  "execute lib (P\<lparr>p_decide := g\<rparr>) s c approver = execute lib P s c approver"
  by (simp_all add: propose_def pause_def execute_def)

lemma phase_ports [simp]:
  "recall_phase lib (P\<lparr>p_remediate := f\<rparr>) s = recall_phase lib P s"
  "recall_phase lib (P\<lparr>p_decide := g\<rparr>) s = recall_phase lib P s"
  "reason_phase (P\<lparr>p_remediate := f\<rparr>) s memory = reason_phase P s memory"
  "complete_phase (P\<lparr>p_remediate := f\<rparr>) s d r = complete_phase P s d r"
  "complete_phase (P\<lparr>p_decide := g\<rparr>) s d r = complete_phase P s d r"
  "act_phase lib (P\<lparr>p_decide := g\<rparr>) s memory d approved approver = act_phase lib P s memory d approved approver"
  "report_failure (P\<lparr>p_remediate := f\<rparr>) s b e = report_failure P s b e"
  "report_failure (P\<lparr>p_decide := g\<rparr>) s b e = report_failure P s b e"
  by (simp_all add: recall_phase_def reason_phase_def complete_phase_def report_failure_def)
    (simp add: act_phase_def Let_def split: option.split)

text \<open>The memory of a turn is what the recall port gave, screened.\<close>

lemma recall_phase_memory:
  assumes "recall_phase lib P s st = (Inr memory, st')"
  obtains q w b w' where "p_recall P q w = (Inr b, w')" "guard_untrusted_recall_bundle lib b = Inr memory"
  using assms unfolding recall_phase_def
  by (auto simp: andThen_Inr_iff on_snd_Inr run_lift_result run_prog)

text \<open>A command that may be executed in a turn.\<close>

definition granted :: "uuid set \<Rightarrow> string list \<Rightarrow> bool \<Rightarrow> string option \<Rightarrow> command \<Rightarrow> bool" where
  "granted recalled tags approved approver c \<longleftrightarrow>
     cmd_cited_memory_id c \<noteq> nil_uuid \<and> cmd_cited_memory_id c \<in> recalled \<and>
     cmd_approved c = approved \<and> (cmd_requires_human_approval c \<longrightarrow> approved) \<and>
     authorized c approved approver tags"

lemma execute_cong:
  assumes "authorized c (cmd_approved c) approver (sig_service_tags s) \<Longrightarrow> f c = p_remediate P c"
  shows "execute lib (P\<lparr>p_remediate := f\<rparr>) s c approver = execute lib P s c approver"
proof (cases "authorized c (cmd_approved c) approver (sig_service_tags s)")
  case True
  with assms show ?thesis by (simp add: execute_def)
next
  case False
  have "\<exists>e. authorize_action c (cmd_approved c) approver (sig_service_tags s) now = Inl e" for now
    using False authorize_action_iff [of c "cmd_approved c" approver "sig_service_tags s" now]
    by (cases "authorize_action c (cmd_approved c) approver (sig_service_tags s) now") auto
  then obtain err where "\<And>now. authorize_action c (cmd_approved c) approver (sig_service_tags s) now = Inl (err now)"
    by metis
  then show ?thesis by (simp add: execute_def)
qed

lemma act_phase_cong:
  assumes f: "\<And>c. granted recalled (sig_service_tags s) approved approver c \<Longrightarrow> f c = p_remediate P c"
    and "mem_memory_id ` set (all_candidates memory) \<subseteq> recalled"
  shows "act_phase lib (P\<lparr>p_remediate := f\<rparr>) s memory d approved approver =
    act_phase lib P s memory d approved approver"
proof (cases "dec_command d")
  case (Some proposed)
  let ?c = "proposed\<lparr>cmd_approved := approved\<rparr>"
  let ?grounded = "require_grounded_action ?c (Some (map mem_memory_id (all_candidates memory)))"
  have "execute lib (P\<lparr>p_remediate := f\<rparr>) s ?c approver = execute lib P s ?c approver"
    if "?grounded = Inr ()" "\<not> (cmd_requires_human_approval ?c \<and> \<not> approved)"
  proof (rule execute_cong)
    assume "authorized ?c (cmd_approved ?c) approver (sig_service_tags s)"
    with that assms(2) have "granted recalled (sig_service_tags s) approved approver ?c"
      by (auto simp: granted_def require_grounded_iff)
    then show "f ?c = p_remediate P ?c" by (rule f)
  qed
  then show ?thesis
    using Some by (cases ?grounded) (auto simp: act_phase_def Let_def propose_def pause_def)
qed (simp add: act_phase_def)

lemma handle_granted:
  assumes f: "\<And>c. granted recalled tags approved approver c \<Longrightarrow> f c = p_remediate P c"
    and recalled: "\<And>q w b w'. p_recall P q w = (Inr b, w') \<Longrightarrow> mem_memory_id ` set (all_candidates b) \<subseteq> recalled"
    and tags: "\<And>s. sanitize_signal lib signal = Inr s \<Longrightarrow> sig_service_tags s = tags"
  shows "handle lib (P\<lparr>p_remediate := f\<rparr>) signal approved approver = handle lib P signal approved approver"
proof (cases "sanitize_signal lib signal")
  case (Inr s)
  have "turn lib (P\<lparr>p_remediate := f\<rparr>) s approved approver st = turn lib P s approved approver st" for st
    unfolding turn_def phase_ports
  proof (intro andThen_cong_run)
    fix memory st' d st''
    assume "on_fst (recall_phase lib P s) st = (Inr memory, st')"
    then obtain st1 where "recall_phase lib P s (fst st) = (Inr memory, st1)"
      unfolding on_fst_Inr by blast
    then obtain q w b w' where b: "p_recall P q w = (Inr b, w')" "guard_untrusted_recall_bundle lib b = Inr memory"
      by (rule recall_phase_memory)
    have "mem_memory_id ` set (all_candidates memory) = mem_memory_id ` set (all_candidates b)"
      using guard_bundle_ids [OF b(2)] by (metis set_map)
    with recalled [OF b(1)] have ids: "mem_memory_id ` set (all_candidates memory) \<subseteq> recalled" by simp
    have "act_phase lib (P\<lparr>p_remediate := f\<rparr>) s memory d approved approver =
        act_phase lib P s memory d approved approver"
      using f ids tags [OF Inr] by (intro act_phase_cong) auto
    then show "andThen (act_phase lib (P\<lparr>p_remediate := f\<rparr>) s memory d approved approver)
        (\<lambda>(decision, remediation). on_fst (complete_phase P s decision remediation)) st'' =
      andThen (act_phase lib P s memory d approved approver)
        (\<lambda>(decision, remediation). on_fst (complete_phase P s decision remediation)) st''"
      by simp
  qed
  then have "guarded_turn lib (P\<lparr>p_remediate := f\<rparr>) s approved approver = guarded_turn lib P s approved approver"
    by (simp add: guarded_turn_def fun_eq_iff split: prod.split sum.split)
  with Inr show ?thesis by (simp add: handle_def)
qed (simp add: handle_def)

text \<open>The fields of a screened signal that are clean. Its severity, its identifiers and its metadata are
  those of the signal that came in: the string values of the metadata are tested but not replaced, and
  strings deeper in it are not tested.\<close>

definition scrubbed_signal :: "pylib \<Rightarrow> signal \<Rightarrow> signal" where
  "scrubbed_signal lib s = s\<lparr>sig_summary := scrub_control_characters lib (sig_summary s),
     sig_error_signature := map_option (scrub_control_characters lib) (sig_error_signature s),
     sig_service_tags := map (scrub_control_characters lib) (sig_service_tags s)\<rparr>"

definition clean_signal :: "signal \<Rightarrow> bool" where
  "clean_signal s \<longleftrightarrow> clean (sig_summary s) \<and> (\<forall>e. sig_error_signature s = Some e \<longrightarrow> clean e) \<and>
     list_all clean (sig_service_tags s)"

lemma sanitize_signal_clean:
  assumes "sanitize_signal lib signal = Inr s"
  shows "clean_signal s"
    "s = signal\<lparr>sig_summary := scrub_control_characters lib (sig_summary signal),
       sig_error_signature := map_option (scrub_control_characters lib) (sig_error_signature signal),
       sig_service_tags := map (scrub_control_characters lib) (sig_service_tags signal)\<rparr>"
proof -
  obtain a b ts where g: "guard_text lib ''summary'' (sig_summary signal) = Inr a"
      "guard_untrusted_text lib ''error_signature'' (sig_error_signature signal) = Inr b"
      "mapE (guard_text lib ''service_tags'') (sig_service_tags signal) = Inr ts"
      "s = signal\<lparr>sig_summary := a, sig_error_signature := b, sig_service_tags := ts\<rparr>"
    using assms by (auto simp: sanitize_signal_def)
  have "list_all clean ts" by (rule mapE_list_all [OF g(3)]) (simp add: guard_text_iff)
  moreover have "ts = map (scrub_control_characters lib) (sig_service_tags signal)"
    using mapE_Inr_maps [OF g(3), of id "scrub_control_characters lib"] by (simp add: guard_text_iff)
  ultimately show "clean_signal s"
    "s = signal\<lparr>sig_summary := scrub_control_characters lib (sig_summary signal),
       sig_error_signature := map_option (scrub_control_characters lib) (sig_error_signature signal),
       sig_service_tags := map (scrub_control_characters lib) (sig_service_tags signal)\<rparr>"
    using g by (auto simp: clean_signal_def guard_text_iff guard_untrusted_text_def split: option.splits)
qed

lemma handle_clean:
  assumes g: "\<And>memory. clean_signal (scrubbed_signal lib signal) \<Longrightarrow>
      list_all (\<lambda>c. list_all clean (screened_strings c)) (all_candidates memory) \<Longrightarrow>
      g (scrubbed_signal lib signal) memory = p_decide P (scrubbed_signal lib signal) memory"
  shows "handle lib (P\<lparr>p_decide := g\<rparr>) signal approved approver = handle lib P signal approved approver"
proof (cases "sanitize_signal lib signal")
  case (Inr s)
  have "turn lib (P\<lparr>p_decide := g\<rparr>) s approved approver st = turn lib P s approved approver st" for st
    unfolding turn_def phase_ports
  proof (rule andThen_cong_run)
    fix memory st'
    assume "on_fst (recall_phase lib P s) st = (Inr memory, st')"
    then obtain st1 where "recall_phase lib P s (fst st) = (Inr memory, st1)"
      unfolding on_fst_Inr by blast
    then obtain q w b w' where b: "p_recall P q w = (Inr b, w')" "guard_untrusted_recall_bundle lib b = Inr memory"
      by (rule recall_phase_memory)
    then have "list_all (\<lambda>c. list_all clean (screened_strings c)) (all_candidates memory)"
      by (simp add: list_all_iff [of _ "all_candidates memory"] guard_bundle_clean)
    with sanitize_signal_clean [OF Inr] have "g s memory = p_decide P s memory"
      using g by (simp add: scrubbed_signal_def)
    then have "reason_phase (P\<lparr>p_decide := g\<rparr>) s memory = reason_phase P s memory"
      by (simp add: reason_phase_def)
    then show "andThen (on_fst (reason_phase (P\<lparr>p_decide := g\<rparr>) s memory)) (\<lambda>decision.
        andThen (act_phase lib P s memory decision approved approver)
          (\<lambda>(decision, remediation). on_fst (complete_phase P s decision remediation))) st' =
      andThen (on_fst (reason_phase P s memory)) (\<lambda>decision.
        andThen (act_phase lib P s memory decision approved approver)
          (\<lambda>(decision, remediation). on_fst (complete_phase P s decision remediation))) st'"
      by simp
  qed
  then have "guarded_turn lib (P\<lparr>p_decide := g\<rparr>) s approved approver = guarded_turn lib P s approved approver"
    by (simp add: guarded_turn_def fun_eq_iff split: prod.split sum.split)
  with Inr show ?thesis by (simp add: handle_def)
qed (simp add: handle_def)

end
