(* ===== verification/Be_Trace.thy ===== *)
theory Be_Trace
  imports Be_Turn
begin

text \<open>
  The events of a turn. A world with a log (a locale: publishing appends to the log of an incident,
  of which the newest part is kept, the other services leave it alone) gives every turn one of a few
  sequences of events, decided by how the turn ends.
\<close>

section \<open>The sequences\<close>

definition recalled_events :: "event_type list" where
  "recalled_events = [Recall_started, Recall_completed]"

definition reasoned_events :: "event_type list" where
  "reasoned_events = [Reasoning_started, Decision_proposed]"

text \<open>The events of the \<open>try\<close> block: all of them when it returns, some of them when it raises.\<close>

definition turn_events :: "be_error + turn_response \<Rightarrow> event_type list \<Rightarrow> bool" where
  "turn_events out ts = (let before = recalled_events @ reasoned_events in case out of
     Inr r \<Rightarrow> (case rsp_remediation r of
       Some _ \<Rightarrow> ts = before @ [Action_proposed, Transaction_started, Transaction_committed, Response_completed]
     | None \<Rightarrow> ts = before @ [Response_completed] \<or>
         ts = before @ [Action_proposed, Approval_required, Response_completed])
   | Inl _ \<Rightarrow> ts = [Recall_started] \<or> ts = recalled_events @ [Reasoning_started] \<or> ts = before \<or>
         ts = before @ [Action_proposed] \<or> ts = before @ [Action_proposed, Transaction_started])"

text \<open>The events of \<open>handle\<close> for a signal that passes the screen: the incident is received, and one
  more event reports a failure.\<close>

definition handle_events :: "be_error + turn_response \<Rightarrow> event_type list \<Rightarrow> bool" where
  "handle_events out ts = (case out of
     Inr r \<Rightarrow> (\<exists>us. turn_events out us \<and> ts = Incident_received # us)
   | Inl e \<Rightarrow> (\<exists>us. turn_events out us \<and> ts = Incident_received # us @
       [if Transaction_started \<in> set us then Transaction_rolled_back else Response_failed]))"

section \<open>Worlds with a log\<close>

locale logged_world =
  fixes P :: "'w ports" and i :: uuid and n :: nat and log :: "'w \<Rightarrow> agent_event list" and inv :: "'w \<Rightarrow> bool"
  assumes publish: "inv w \<Longrightarrow> aev_incident_id e = i \<Longrightarrow>
      fst (p_publish P e w) = Inr () \<and> inv (snd (p_publish P e w)) \<and>
      last_n n (log (snd (p_publish P e w))) = last_n n (log w @ [e])"
    and stamp: "inv w \<Longrightarrow> inv (snd (p_stamp P w)) \<and> log (snd (p_stamp P w)) = log w"
    and embedding: "inv w \<Longrightarrow> inv (snd (p_embed P t w)) \<and> log (snd (p_embed P t w)) = log w"
    and recall: "inv w \<Longrightarrow> inv (snd (p_recall P q w)) \<and> log (snd (p_recall P q w)) = log w"
    and deciding: "inv w \<Longrightarrow> inv (snd (p_decide P s m w)) \<and> log (snd (p_decide P s m w)) = log w"
    and remediate: "inv w \<Longrightarrow> inv (snd (p_remediate P c v w)) \<and> log (snd (p_remediate P c v w)) = log w"
begin

text \<open>\<open>emits ts w w'\<close>: events of the types \<open>ts\<close> were logged between two worlds.\<close>

definition emits :: "event_type list \<Rightarrow> 'w \<Rightarrow> 'w \<Rightarrow> bool" where
  "emits ts w w' \<longleftrightarrow> inv w' \<and> (\<exists>es. map aev_type es = ts \<and> last_n n (log w') = last_n n (log w @ es))"

lemma emits_nil: "inv w \<Longrightarrow> emits [] w w"
  by (simp add: emits_def)

lemma emits_append: "emits a w u \<Longrightarrow> emits b u v \<Longrightarrow> emits (a @ b) w v"
  unfolding emits_def by (metis append.assoc last_n_append map_append)

lemma emits_quiet: "inv w' \<Longrightarrow> log w' = log w \<Longrightarrow> emits [] w w'"
  by (simp add: emits_def)

text \<open>\<open>traced m T\<close>: a run of \<open>m\<close> logs events of types \<open>T\<close> allows for its outcome, and its flag is
  set when a transaction has been announced.\<close>

definition traced :: "('w responder \<times> bool, be_error, 'a) prog \<Rightarrow> (be_error + 'a \<Rightarrow> event_type list \<Rightarrow> bool) \<Rightarrow> bool" where
  "traced m T \<longleftrightarrow> (\<forall>r w b. inv w \<longrightarrow> (case m ((r, w), b) of (out, ((r', w'), b')) \<Rightarrow>
     \<exists>ts. T out ts \<and> emits ts w w' \<and> b' = (b \<or> Transaction_started \<in> set ts)))"

lemma tracedD:
  assumes "traced m T" "inv w" "m ((r, w), b) = (out, ((r', w'), b'))"
  obtains ts where "T out ts" "emits ts w w'" "b' = (b \<or> Transaction_started \<in> set ts)"
  using that assms(1) [unfolded traced_def, THEN spec, of r, THEN spec, of w, THEN spec, of b] assms(2,3)
  by auto

lemma tracedI:
  assumes "\<And>r w b out r' w' b'. inv w \<Longrightarrow> m ((r, w), b) = (out, ((r', w'), b')) \<Longrightarrow>
    \<exists>ts. T out ts \<and> emits ts w w' \<and> b' = (b \<or> Transaction_started \<in> set ts)"
  shows "traced m T"
  unfolding traced_def using assms by (auto split: prod.splits)

lemma traced_weaken: "traced m T \<Longrightarrow> (\<And>out ts. T out ts \<Longrightarrow> U out ts) \<Longrightarrow> traced m U"
  unfolding traced_def by (fastforce split: prod.splits)

lemma traced_andThen:
  assumes m: "traced m T" and f: "\<And>x. traced (f x) (U x)"
  shows "traced (andThen m f) (\<lambda>out ts. (\<exists>e. out = Inl e \<and> T (Inl e) ts) \<or>
    (\<exists>x a b. T (Inr x) a \<and> U x out b \<and> ts = a @ b))"
proof (rule tracedI)
  fix r w and b :: bool and out r' w' b'
  assume w: "inv w" and run: "andThen m f ((r, w), b) = (out, ((r', w'), b'))"
  obtain o1 r1 w1 b1 where m1: "m ((r, w), b) = (o1, ((r1, w1), b1))" by (metis prod.collapse)
  obtain a where a: "T o1 a" "emits a w w1" "b1 = (b \<or> Transaction_started \<in> set a)"
    by (rule tracedD [OF m w m1])
  show "\<exists>ts. ((\<exists>e. out = Inl e \<and> T (Inl e) ts) \<or> (\<exists>x a b. T (Inr x) a \<and> U x out b \<and> ts = a @ b)) \<and>
      emits ts w w' \<and> b' = (b \<or> Transaction_started \<in> set ts)"
  proof (cases o1)
    case (Inl e)
    with run m1 have "out = Inl e" "w' = w1" "b' = b1" by (simp_all add: run_andThen)
    with a Inl show ?thesis by auto
  next
    case (Inr x)
    with run m1 have "f x ((r1, w1), b1) = (out, ((r', w'), b'))" by (simp add: run_andThen)
    moreover have "inv w1" using a(2) by (simp add: emits_def)
    ultimately obtain c where c: "U x out c" "emits c w1 w'" "b' = (b1 \<or> Transaction_started \<in> set c)"
      using tracedD [OF f] by metis
    have "emits (a @ c) w w'" by (rule emits_append [OF a(2) c(2)])
    with a c Inr show ?thesis by (intro exI [of _ "a @ c"]) auto
  qed
qed

lemma traced_lift: "traced (lift_result res) (\<lambda>out ts. out = res \<and> ts = [])"
  by (rule tracedI) (auto simp: run_lift_result emits_nil)

lemma traced_ret: "traced (ret x) (\<lambda>out ts. out = Inr x \<and> ts = [])"
  by (rule tracedI) (auto simp: run_prog emits_nil)

text \<open>A service that leaves the log alone, and a change of the registry.\<close>

lemma traced_service:
  assumes "\<And>w. inv w \<Longrightarrow> inv (snd (m w)) \<and> log (snd (m w)) = log w"
  shows "traced (on_fst (on_snd m)) (\<lambda>out ts. ts = [])"
proof (rule tracedI)
  fix r w and b :: bool and out r' w' b'
  assume "inv w" "on_fst (on_snd m) ((r, w), b) = (out, ((r', w'), b'))"
  then show "\<exists>ts. ts = [] \<and> emits ts w w' \<and> b' = (b \<or> Transaction_started \<in> set ts)"
    using assms [of w] by (auto simp: run_on_fst run_on_snd intro: emits_quiet)
qed

lemma traced_registry: "traced (on_fst (modifies (\<lambda>(r, w). (f r, w)))) (\<lambda>out ts. out = Inr () \<and> ts = [])"
  by (rule tracedI) (auto simp: run_on_fst run_prog emits_nil)

lemma event_run:
  assumes "inv w" "sig_incident_id s = i"
  obtains w' where "event P s ty stage message data (r, w) = (Inr (), (r, w'))" "emits [ty] w w'"
proof -
  obtain st w1 where st: "p_stamp P w = (st, w1)" by fastforce
  obtain event_id t where e: "st = (event_id, t)" by fastforce
  let ?e = "\<lparr>aev_incident_id = sig_incident_id s, aev_type = ty, aev_stage = stage, aev_message = message,
    aev_data = data, aev_event_id = event_id, aev_occurred_at = t\<rparr>"
  have w1: "inv w1" "log w1 = log w" using stamp [OF assms(1)] st by simp_all
  have p: "fst (p_publish P ?e w1) = Inr ()" "inv (snd (p_publish P ?e w1))"
      "last_n n (log (snd (p_publish P ?e w1))) = last_n n (log w1 @ [?e])"
    using publish [OF w1(1), of ?e] assms(2) by simp_all
  show thesis
  proof
    show "event P s ty stage message data (r, w) = (Inr (), (r, snd (p_publish P ?e w1)))"
      using p(1) by (simp add: event_def run_on_snd run_andThen st e)
    show "emits [ty] w (snd (p_publish P ?e w1))"
      unfolding emits_def using p(2,3) w1(2) by (intro conjI exI [of _ "[?e]"]) simp_all
  qed
qed

lemma traced_event:
  assumes "sig_incident_id s = i" "ty \<noteq> Transaction_started"
  shows "traced (on_fst (event P s ty stage message data)) (\<lambda>out ts. out = Inr () \<and> ts = [ty])"
proof (rule tracedI)
  fix r w and b :: bool and out r' w' b'
  assume w: "inv w" and run: "on_fst (event P s ty stage message data) ((r, w), b) = (out, ((r', w'), b'))"
  obtain w1 where "event P s ty stage message data (r, w) = (Inr (), (r, w1))" "emits [ty] w w1"
    by (rule event_run [OF w assms(1)])
  with run assms(2) show "\<exists>ts. (out = Inr () \<and> ts = [ty]) \<and> emits ts w w' \<and> b' = (b \<or> Transaction_started \<in> set ts)"
    by (auto simp: run_on_fst)
qed

text \<open>The announcement of a transaction sets the flag.\<close>

lemma traced_started:
  assumes "sig_incident_id s = i"
  shows "traced (andThen (on_fst (event P s Transaction_started stage message data)) (\<lambda>_. modifies (\<lambda>(r, b). (r, True))))
    (\<lambda>out ts. out = Inr () \<and> ts = [Transaction_started])"
proof (rule tracedI)
  fix r w and b :: bool and out r' w' b'
  assume w: "inv w" and run: "andThen (on_fst (event P s Transaction_started stage message data))
    (\<lambda>_. modifies (\<lambda>(r, b). (r, True))) ((r, w), b) = (out, ((r', w'), b'))"
  obtain w1 where "event P s Transaction_started stage message data (r, w) = (Inr (), (r, w1))"
      "emits [Transaction_started] w w1"
    by (rule event_run [OF w assms(1)])
  with run show "\<exists>ts. (out = Inr () \<and> ts = [Transaction_started]) \<and> emits ts w w' \<and>
      b' = (b \<or> Transaction_started \<in> set ts)"
    by (auto simp: run_andThen run_on_fst run_prog)
qed

lemmas traced_steps = traced_andThen traced_lift traced_ret traced_service traced_registry traced_event traced_started

section \<open>The phases\<close>

lemma recall_traced:
  assumes "sig_incident_id s = i"
  shows "traced (on_fst (recall_phase lib P s)) (\<lambda>out ts. case out of
    Inr _ \<Rightarrow> ts = recalled_events | Inl _ \<Rightarrow> ts = [Recall_started])"
  unfolding recall_phase_def on_fst_andThen on_fst_simps
  by (rule traced_weaken, (rule traced_steps | rule embedding | rule recall | rule assms | simp)+)
    (auto simp: recalled_events_def split: sum.splits)

lemma reason_traced:
  assumes "sig_incident_id s = i"
  shows "traced (on_fst (reason_phase P s memory)) (\<lambda>out ts. case out of
    Inr _ \<Rightarrow> ts = reasoned_events | Inl _ \<Rightarrow> ts = [Reasoning_started])"
  unfolding reason_phase_def on_fst_andThen on_fst_simps
  by (rule traced_weaken, (rule traced_steps | rule deciding | rule assms | simp)+)
    (auto simp: reasoned_events_def)

lemma complete_traced:
  assumes "sig_incident_id s = i"
  shows "traced (on_fst (complete_phase P s d rem))
    (\<lambda>out ts. ts = [Response_completed] \<and> (\<exists>r. out = Inr r \<and> rsp_remediation r = rem))"
  unfolding complete_phase_def Let_def on_fst_andThen on_fst_simps
  by (rule traced_weaken, (rule traced_steps | rule assms | simp)+)

lemma execute_traced:
  assumes "sig_incident_id s = i"
  shows "traced (execute lib P s c approver) (\<lambda>out ts. case out of
    Inr _ \<Rightarrow> ts = [Transaction_started, Transaction_committed] | Inl _ \<Rightarrow> ts = [] \<or> ts = [Transaction_started])"
proof -
  have clock: "inv w \<Longrightarrow> inv (snd (reads (p_now P) w)) \<and> log (snd (reads (p_now P) w)) = log w" for w
    by (simp add: run_prog)
  show ?thesis
    unfolding execute_def andThen_assoc [of "on_fst (event P s Transaction_started x y z)" for x y z, symmetric]
    by (rule traced_weaken,
      (rule traced_started traced_andThen traced_lift traced_ret traced_service traced_event |
        rule clock embedding remediate | rule assms | simp)+)
      (auto split: sum.splits)
qed

lemma act_traced:
  assumes "sig_incident_id s = i"
  shows "traced (act_phase lib P s memory d approved approver) (\<lambda>out ts. case out of
    Inr (_, rem) \<Rightarrow> (if rem = None then ts = [] \<or> ts = [Action_proposed, Approval_required]
      else ts = [Action_proposed, Transaction_started, Transaction_committed])
  | Inl _ \<Rightarrow> ts = [] \<or> ts = [Action_proposed] \<or> ts = [Action_proposed, Transaction_started])"
proof (cases "dec_command d")
  case None
  then show ?thesis by (simp add: act_phase_def) (rule traced_weaken [OF traced_ret], simp)
next
  case (Some proposed)
  let ?c = "proposed\<lparr>cmd_approved := approved\<rparr>"
  let ?paused = "cmd_requires_human_approval ?c \<and> \<not> cmd_approved ?c"
  have rest: "traced (if ?paused then andThen (on_fst (pause P s ?c)) (\<lambda>_. ret (d', None))
      else andThen (execute lib P s ?c approver) (\<lambda>result. ret (d', Some result)))
    (\<lambda>out ts. case out of
      Inr (_, rem) \<Rightarrow> (if rem = None then ts = [Approval_required] else ts = [Transaction_started, Transaction_committed])
    | Inl _ \<Rightarrow> ts = [] \<or> ts = [Transaction_started])" for d'
  proof (cases ?paused)
    case True
    have "traced (andThen (on_fst (pause P s ?c)) (\<lambda>_. ret (d', None :: remediation_result option)))
        (\<lambda>out ts. out = Inr (d', None) \<and> ts = [Approval_required])"
      unfolding pause_def by (rule traced_weaken, (rule traced_andThen traced_ret traced_event | rule assms | simp)+)
    with True show ?thesis by (simp add: if_P) (erule traced_weaken, simp)
  next
    case False
    have "traced (andThen (execute lib P s ?c approver) (\<lambda>result. ret (d', Some result)))
        (\<lambda>out ts. case out of Inr (_, rem) \<Rightarrow> rem \<noteq> None \<and> ts = [Transaction_started, Transaction_committed]
          | Inl _ \<Rightarrow> ts = [] \<or> ts = [Transaction_started])"
      by (rule traced_weaken [OF traced_andThen [OF execute_traced [OF assms] traced_ret]]) (auto split: sum.splits)
    with False show ?thesis by (simp add: if_not_P) (erule traced_weaken, auto split: sum.splits)
  qed
  show ?thesis
  proof (cases "dec_kind d = Remediate")
    case True
    show ?thesis
      unfolding act_phase_def Some option.case Let_def if_P [OF True] propose_def
      by (rule traced_weaken [OF traced_andThen [OF traced_lift traced_andThen [OF traced_lift
              traced_andThen [OF traced_event [OF assms] rest]]]])
        (auto split: sum.splits if_splits)
  next
    case False
    then show ?thesis by (simp add: act_phase_def Some) (rule traced_weaken [OF traced_ret], simp)
  qed
qed

lemma turn_traced:
  assumes "sig_incident_id s = i"
  shows "traced (turn lib P s approved approver) turn_events"
proof -
  have rest: "traced (case p of (d, rem) \<Rightarrow> on_fst (complete_phase P s d rem))
      (\<lambda>out ts. ts = [Response_completed] \<and> (\<exists>r. out = Inr r \<and> rsp_remediation r = snd p))" for p
    using complete_traced [OF assms] by (cases p) simp
  show ?thesis
    unfolding turn_def
    by (rule traced_weaken [OF traced_andThen [OF recall_traced [OF assms] traced_andThen [OF reason_traced [OF assms]
            traced_andThen [OF act_traced [OF assms] rest]]]])
      (auto simp: turn_events_def Let_def split: sum.splits option.splits if_splits)
qed

lemma guarded_turn_logged:
  assumes s: "sig_incident_id s = i" and w: "inv w"
    and run: "guarded_turn lib P s approved approver (reg, w) = (out, (reg', w'))"
  shows "\<exists>us. turn_events out us \<and> emits (case out of Inr _ \<Rightarrow> us
    | Inl _ \<Rightarrow> us @ [if Transaction_started \<in> set us then Transaction_rolled_back else Response_failed]) w w'"
proof -
  obtain o1 r1 w1 b1 where t: "turn lib P s approved approver ((reg, w), False) = (o1, ((r1, w1), b1))"
    by (metis prod.collapse)
  obtain us where us: "turn_events o1 us" "emits us w w1" "b1 = (False \<or> Transaction_started \<in> set us)"
    by (rule tracedD [OF turn_traced [OF s] w t])
  show ?thesis
  proof (cases o1)
    case (Inr r)
    with run t have "out = Inr r" "w' = w1" by (simp_all add: guarded_turn_def)
    with us Inr show ?thesis by auto
  next
    case (Inl e)
    have w1: "inv w1" using us(2) by (simp add: emits_def)
    let ?ty = "if b1 then Transaction_rolled_back else Response_failed"
    obtain w2 where "event P s ?ty (if b1 then ''act+record'' else ''response'')
        ''Responder failed safely; no partial remediation was recorded.''
        [(''error_type'', PStr (error_type e)), (''error'', PStr (error_text e))] (r1, w1) = (Inr (), (r1, w2))"
        "emits [?ty] w1 w2"
      by (rule event_run [OF w1 s])
    with run t Inl have "out = Inl e" "w' = w2"
      by (auto simp: guarded_turn_def report_failure_def run_andThen run_prog)
    moreover have "emits (us @ [?ty]) w w2" by (rule emits_append [OF us(2) \<open>emits [?ty] w1 w2\<close>])
    ultimately show ?thesis using us(1,3) Inl by (intro exI [of _ us]) (auto split: if_splits)
  qed
qed

text \<open>A refused signal changes nothing; every other one is logged.\<close>

theorem handle_logged:
  assumes "sig_incident_id signal = i" and w: "inv w"
    and run: "handle lib P signal approved approver (reg, w) = (out, (reg', w'))"
  shows "case sanitize_signal lib signal of
      Inl e \<Rightarrow> out = Inl e \<and> reg' = reg \<and> w' = w
    | Inr s \<Rightarrow> \<exists>ts. handle_events out ts \<and> emits ts w w'"
proof (cases "sanitize_signal lib signal")
  case (Inl e)
  with run show ?thesis by (auto simp: handle_def run_prog)
next
  case (Inr s)
  have s: "sig_incident_id s = i" using sanitize_signal_clean(2) [OF Inr] assms(1) by simp
  let ?ev = "event P s Incident_received ''perceive'' (''Received '' @ sig_severity s @ '' incident.'')
       [(''service'', PStr (uuid_str (sig_service_id s))), (''service_id'', PStr (uuid_str (sig_service_id s))),
        (''severity'', PStr (sig_severity s)), (''status'', PStr ''open''), (''summary'', PStr (sig_summary s))]"
  obtain w1 where w1: "?ev (received s reg, w) = (Inr (), (received s reg, w1))" "emits [Incident_received] w w1"
    by (rule event_run [OF w s])
  have "guarded_turn lib P s approved approver (received s reg, w1) = (out, (reg', w'))"
    using run Inr w1(1) by (simp add: handle_def run_step) (simp add: run_andThen)
  moreover have "inv w1" using w1(2) by (simp add: emits_def)
  ultimately obtain us where us: "turn_events out us" "emits (case out of Inr _ \<Rightarrow> us
      | Inl _ \<Rightarrow> us @ [if Transaction_started \<in> set us then Transaction_rolled_back else Response_failed]) w1 w'"
    using guarded_turn_logged [OF s] by blast
  have "handle_events out ([Incident_received] @ (case out of Inr _ \<Rightarrow> us
      | Inl _ \<Rightarrow> us @ [if Transaction_started \<in> set us then Transaction_rolled_back else Response_failed]))"
    using us(1) by (cases out) (auto simp: handle_events_def)
  with emits_append [OF w1(2) us(2)] Inr show ?thesis by auto
qed

end

end
