(* ===== verification/Be_Recall.thy ===== *)
theory Be_Recall
  imports Be_Domain
begin

text \<open>
  The recall policy (\<^verbatim>\<open>backend/src/postmortem_backend/recall.py\<close>): the eligibility gates of
  the three kinds of memory, their scores, the choice of diverse candidates in rank order, and the
  bundle with its diagnostics. The three kinds are three instances of one locale.
\<close>

section \<open>Policy\<close>

text \<open>Durations are microseconds.\<close>

record recall_policy =
  pol_candidate_multiplier :: int
  pol_max_candidate_limit :: int
  pol_max_episodes :: int
  pol_max_facts :: int
  pol_max_runbooks :: int
  pol_min_episode_similarity :: real
  pol_min_fact_similarity :: real
  pol_min_runbook_similarity :: real
  pol_min_fact_confidence :: real
  pol_min_runbook_success_rate :: real
  pol_min_runbook_usage_count :: int
  pol_min_positive_provenance :: int
  pol_max_counterexample_ratio :: real
  pol_max_episode_age :: int
  pol_recency_half_life :: int

definition days :: "int \<Rightarrow> int" where
  "days n = n * 86400000000"

definition default_policy :: recall_policy where
  "default_policy = \<lparr>pol_candidate_multiplier = 4, pol_max_candidate_limit = 40,
     pol_max_episodes = 3, pol_max_facts = 10, pol_max_runbooks = 3,
     pol_min_episode_similarity = 0.65, pol_min_fact_similarity = 0.60,
     pol_min_runbook_similarity = 0.72, pol_min_fact_confidence = 0.65,
     pol_min_runbook_success_rate = 0.60, pol_min_runbook_usage_count = 1,
     pol_min_positive_provenance = 1, pol_max_counterexample_ratio = 0.50,
     pol_max_episode_age = days 365, pol_recency_half_life = days 90\<rparr>"

definition candidate_limit :: "recall_policy \<Rightarrow> int \<Rightarrow> int" where
  "candidate_limit pol requested_k =
     min (max (max requested_k 1 * pol_candidate_multiplier pol) 20) (pol_max_candidate_limit pol)"

section \<open>Instants\<close>

text \<open>\<open>_aware\<close>: an instant without a zone is read as UTC. Comparisons are between the instants.\<close>

fun aware :: "datetime \<Rightarrow> datetime" where
  "aware (Naive w) = Zoned w 0"
| "aware (Zoned w d) = Zoned w d"

fun instant :: "datetime \<Rightarrow> int" where
  "instant (Naive w) = w"
| "instant (Zoned w d) = w - d"

text \<open>\<open>_datetime\<close>\<close>

definition to_datetime :: "pylib \<Rightarrow> pyval \<Rightarrow> be_error + datetime option" where
  "to_datetime lib v = (case v of
     PTime t \<Rightarrow> Inr (Some t)
   | _ \<Rightarrow> if py_truthy v then bindE (needE (ValueFault ''Invalid isoformat string'')
         (lib_fromisoformat lib (py_str (lib_repr lib) v))) (\<lambda>t. Inr (Some t))
       else Inr None)"

section \<open>Eligibility\<close>

definition scope_valid :: "recall_query \<Rightarrow> memory_candidate \<Rightarrow> bool" where
  "scope_valid q c =
     (if mem_org_id c \<noteq> None \<and> mem_org_id c \<noteq> Some (qry_org_id q) then False
      else if mem_agent_id c \<noteq> None \<and> mem_agent_id c \<noteq> Some (qry_agent_id q) then False
      else mem_service_id c = None \<or> mem_service_id c = Some (qry_service_id q))"

definition temporally_valid :: "recall_query \<Rightarrow> memory_candidate \<Rightarrow> bool" where
  "temporally_valid q c = (let as_of = instant (aware (qry_as_of q)) in
     if (case mem_valid_from c of Some t \<Rightarrow> instant (aware t) > as_of | None \<Rightarrow> False) then False
     else if (case mem_valid_to c of Some t \<Rightarrow> instant (aware t) \<le> as_of | None \<Rightarrow> False) then False
     else if (case mem_recorded_at c of Some t \<Rightarrow> instant (aware t) > as_of | None \<Rightarrow> False) then False
     else (case mem_occurred_at c of Some t \<Rightarrow> instant (aware t) \<le> as_of | None \<Rightarrow> True))"

definition episode_eligible :: "recall_policy \<Rightarrow> recall_query \<Rightarrow> memory_candidate \<Rightarrow> bool" where
  "episode_eligible pol q c =
     (if mem_kind c \<noteq> Episodic then False
      else if \<not> scope_valid q c \<or> \<not> temporally_valid q c then False
      else if mem_similarity c < pol_min_episode_similarity pol then False
      else (case mem_occurred_at c of
          Some t \<Rightarrow> \<not> (instant (aware (qry_as_of q)) - instant (aware t) > pol_max_episode_age pol)
        | None \<Rightarrow> True))"

definition fact_eligible :: "recall_policy \<Rightarrow> recall_query \<Rightarrow> memory_candidate \<Rightarrow> bool" where
  "fact_eligible pol q c \<longleftrightarrow> mem_kind c = Semantic \<and> scope_valid q c \<and> temporally_valid q c \<and>
     mem_similarity c \<ge> pol_min_fact_similarity pol \<and> mem_confidence c \<ge> pol_min_fact_confidence pol"

text \<open>\<open>int(item.metadata.get(key) or 0)\<close> and \<open>{str(v) for v in item.metadata.get(key) or ()}\<close>\<close>

definition meta_count :: "pylib \<Rightarrow> memory_candidate \<Rightarrow> string \<Rightarrow> be_error + int" where
  "meta_count lib c key = py_int lib (orelse (pget (mem_metadata c) key) (PInt 0))"

definition meta_texts :: "pylib \<Rightarrow> memory_candidate \<Rightarrow> string \<Rightarrow> be_error + string set" where
  "meta_texts lib c key = bindE (py_iter (orelse (pget (mem_metadata c) key) (PTuple [])))
     (\<lambda>vs. Inr (set (map (py_str (lib_repr lib)) vs)))"

definition runbook_eligible :: "pylib \<Rightarrow> recall_policy \<Rightarrow> recall_query \<Rightarrow> memory_candidate \<Rightarrow> be_error + bool" where
  "runbook_eligible lib pol q c =
     (if mem_kind c \<noteq> Procedural \<or> \<not> scope_valid q c \<or> \<not> temporally_valid q c \<or>
         mem_similarity c < pol_min_runbook_similarity pol \<or>
         mem_success_rate c < pol_min_runbook_success_rate pol
      then Inr False
      else bindE (meta_count lib c ''usage_count'') (\<lambda>usage_count.
        bindE (meta_count lib c ''positive_provenance_count'') (\<lambda>positive.
        bindE (meta_count lib c ''counterexample_count'') (\<lambda>counterexamples.
        if usage_count < pol_min_runbook_usage_count pol then Inr False
        else if positive < pol_min_positive_provenance pol then Inr False
        else if real_of_int counterexamples / real_of_int (max (positive + counterexamples) 1) >
            pol_max_counterexample_ratio pol then Inr False
        else bindE (meta_texts lib c ''applicable_service_tags'') (\<lambda>applicable_tags.
          if applicable_tags \<noteq> {} \<and> applicable_tags \<inter> set (qry_service_tags q) = {} then Inr False
          else bindE (meta_texts lib c ''applicable_error_signatures'') (\<lambda>signatures.
            if signatures \<noteq> {} \<and> (case qry_error_signature q of None \<Rightarrow> True | Some s \<Rightarrow> s \<notin> signatures)
            then Inr False else Inr True))))))"

section \<open>Scores\<close>

definition recency :: "recall_policy \<Rightarrow> recall_query \<Rightarrow> datetime option \<Rightarrow> be_error + real" where
  "recency pol q timestamp = (case timestamp of
     None \<Rightarrow> Inr 0
   | Some t \<Rightarrow> let
       age_seconds = max (real_of_int (instant (aware (qry_as_of q)) - instant (aware t)) / 1000000) 0;
       half_life_seconds = real_of_int (pol_recency_half_life pol) / 1000000 in
       if half_life_seconds = 0 then Inl (PortError ''ZeroDivisionError'' ''float division by zero'')
       else Inr (exp (- 0.69314718056 * age_seconds / half_life_seconds)))"

text \<open>\<open>{**a, **b}\<close>\<close>

definition dict_merge :: "pydict \<Rightarrow> pydict \<Rightarrow> pydict" where
  "dict_merge a b = foldl (\<lambda>d (k, v). AList.update k v d) a b"

definition ranked :: "memory_candidate \<Rightarrow> real \<Rightarrow> pydict \<Rightarrow> memory_candidate" where
  "ranked c score metadata = c\<lparr>mem_ranking_score := score, mem_metadata := dict_merge (mem_metadata c) metadata\<rparr>"

definition rank_components :: "(string \<times> real) list \<Rightarrow> string \<times> pyval" where
  "rank_components cs = (''rank_components'', PDict (map (\<lambda>(k, r). (k, PFloat r)) cs))"

definition score_episode :: "recall_policy \<Rightarrow> recall_query \<Rightarrow> memory_candidate \<Rightarrow> be_error + memory_candidate" where
  "score_episode pol q c = bindE (recency pol q (mem_occurred_at c)) (\<lambda>rec. let
     successful = (if py_eq (pget (mem_metadata c) ''outcome'') (PStr ''success'') then 1 else 0 :: real);
     scope = (if mem_service_id c = Some (qry_service_id q) then 1 else 0.5 :: real);
     score = 0.65 * mem_similarity c + 0.20 * rec + 0.10 * successful + 0.05 * scope;
     actionable = (successful \<noteq> 0 \<and> (mem_runbook_id c \<noteq> None \<or>
       py_truthy (pget (mem_metadata c) ''action_id'') \<or> py_truthy (pget (mem_metadata c) ''successful_action'')))
     in Inr (ranked c score [(''actionable'', PBool actionable),
       rank_components [(''similarity'', mem_similarity c), (''recency'', rec),
         (''successful_outcome'', successful), (''scope'', scope)]]))"

definition score_fact :: "recall_policy \<Rightarrow> recall_query \<Rightarrow> memory_candidate \<Rightarrow> be_error + memory_candidate" where
  "score_fact pol q c = bindE (recency pol q (mem_recorded_at c)) (\<lambda>rec. let
     provenance = real (min (length (mem_provenance_ids c)) 3) / 3;
     score = 0.60 * mem_similarity c + 0.25 * mem_confidence c + 0.10 * rec + 0.05 * provenance
     in Inr (ranked c score [(''actionable'', PBool False),
       rank_components [(''similarity'', mem_similarity c), (''confidence'', mem_confidence c),
         (''recency'', rec), (''provenance'', provenance)]]))"

definition runbook_scope_score :: "pylib \<Rightarrow> recall_query \<Rightarrow> memory_candidate \<Rightarrow> be_error + real" where
  "runbook_scope_score lib q c =
     bindE (meta_texts lib c ''applicable_service_tags'') (\<lambda>tags.
     bindE (meta_texts lib c ''applicable_error_signatures'') (\<lambda>signatures. let
       tag_score = (if tags \<inter> set (qry_service_tags q) \<noteq> {} then 1 else if tags = {} then 0.5 else 0 :: real);
       signature_score = (if (case qry_error_signature q of None \<Rightarrow> False | Some s \<Rightarrow> s \<in> signatures) then 1
         else if signatures = {} then 0.5 else 0 :: real)
       in Inr ((tag_score + signature_score) / 2)))"

text \<open>\<open>_datetime(...) or item.recorded_at\<close>\<close>

definition last_used :: "pylib \<Rightarrow> memory_candidate \<Rightarrow> be_error + datetime option" where
  "last_used lib c = bindE (to_datetime lib (pget (mem_metadata c) ''last_used_at'')) (\<lambda>t.
     Inr (case t of Some u \<Rightarrow> Some u | None \<Rightarrow> mem_recorded_at c))"

definition score_runbook :: "pylib \<Rightarrow> recall_policy \<Rightarrow> recall_query \<Rightarrow> memory_candidate \<Rightarrow> be_error + memory_candidate" where
  "score_runbook lib pol q c =
     bindE (last_used lib c) (\<lambda>used.
     bindE (recency pol q used) (\<lambda>rec.
     bindE (meta_count lib c ''positive_provenance_count'') (\<lambda>positive. let
       provenance = real_of_int (min positive 3) / 3 in
     bindE (runbook_scope_score lib q c) (\<lambda>scope. let
       score = 0.55 * mem_similarity c + 0.25 * mem_success_rate c + 0.10 * rec + 0.05 * provenance + 0.05 * scope
       in Inr (ranked c score [(''actionable'', PBool True), (''provenance_verified'', PBool True),
         rank_components [(''similarity'', mem_similarity c), (''success_rate'', mem_success_rate c),
           (''recency'', rec), (''provenance'', provenance), (''scope'', scope)]])))))"

section \<open>Choice\<close>

text \<open>\<open>[score(item) for item in items if eligible(item)]\<close>\<close>

fun accepted :: "(memory_candidate \<Rightarrow> be_error + bool) \<Rightarrow> (memory_candidate \<Rightarrow> be_error + memory_candidate) \<Rightarrow>
    memory_candidate list \<Rightarrow> be_error + memory_candidate list" where
  "accepted eligible score [] = Inr []"
| "accepted eligible score (c # cs) = bindE (eligible c) (\<lambda>ok.
     if ok then bindE (score c) (\<lambda>d. bindE (accepted eligible score cs) (\<lambda>ds. Inr (d # ds)))
     else accepted eligible score cs)"

definition rank_key :: "memory_candidate \<Rightarrow> real \<times> real \<times> string" where
  "rank_key c = (mem_ranking_score c, mem_similarity c, uuid_str (mem_memory_id c))"

text \<open>\<open>sorted(items, key=..., reverse=True)\<close> keeps the order of equal items: it is the reverse of
  a stable sort of the reversed list.\<close>

definition sorted_reverse :: "memory_candidate list \<Rightarrow> memory_candidate list" where
  "sorted_reverse cs = rev (sort_key rank_key (rev cs))"

text \<open>The loop of \<open>_diverse\<close>: \<open>seen\<close> and \<open>selected\<close> are its variables.\<close>

fun select_diverse :: "int \<Rightarrow> (memory_candidate \<Rightarrow> 'k) \<Rightarrow> 'k set \<Rightarrow> memory_candidate list \<Rightarrow>
    memory_candidate list \<Rightarrow> memory_candidate list" where
  "select_diverse limit key seen selected [] = selected"
| "select_diverse limit key seen selected (c # cs) =
     (if key c \<in> seen then select_diverse limit key seen selected cs
      else if limit \<le> int (length (selected @ [c])) then selected @ [c]
      else select_diverse limit key (insert (key c) seen) (selected @ [c]) cs)"

definition diverse :: "int \<Rightarrow> (memory_candidate \<Rightarrow> 'k) \<Rightarrow> memory_candidate list \<Rightarrow> memory_candidate list" where
  "diverse limit key cs = select_diverse limit key {} [] (sorted_reverse cs)"

definition episode_key :: "pylib \<Rightarrow> memory_candidate \<Rightarrow> string" where
  "episode_key lib c = py_str (lib_repr lib) (orelse (pget (mem_metadata c) ''source_case_id'')
     (orelse (pget (mem_metadata c) ''incident_id'') (PUuid (mem_memory_id c))))"

definition fact_key :: "pylib \<Rightarrow> memory_candidate \<Rightarrow> string \<times> string" where
  "fact_key lib c = (py_str (lib_repr lib) (dict_get (mem_metadata c) ''subject'' (PStr [])),
     py_str (lib_repr lib) (dict_get (mem_metadata c) ''predicate'' (PStr [])))"

definition runbook_key :: "pylib \<Rightarrow> memory_candidate \<Rightarrow> string" where
  "runbook_key lib c = py_str (lib_repr lib) (orelse (pget (mem_metadata c) ''name'') (PUuid (mem_memory_id c)))"

section \<open>Ranking\<close>

definition cold_bundle :: recall_bundle where
  "cold_bundle = \<lparr>bun_episodes = [], bun_facts = [], bun_runbooks = [], bun_cold_start = True,
     bun_diagnostics = [(''mode'', PStr ''cold_start''), (''database_queries'', PInt 0)]\<rparr>"

definition kind_counts :: "nat \<Rightarrow> nat \<Rightarrow> nat \<Rightarrow> pyval" where
  "kind_counts e f r = PDict [(''episodic'', PInt (int e)), (''semantic'', PInt (int f)),
     (''procedural'', PInt (int r))]"

definition count_with :: "string \<Rightarrow> memory_candidate list \<Rightarrow> pyval" where
  "count_with key cs = PInt (int (length (filter (\<lambda>c. pget (mem_metadata c) key \<noteq> PNone) cs)))"

definition diagnostics :: "recall_policy \<Rightarrow> pyval \<Rightarrow> pyval \<Rightarrow> memory_candidate list \<Rightarrow> pydict" where
  "diagnostics pol candidates eligible ranked_facts =
     [(''mode'', PStr ''memory''),
      (''candidate_counts'', candidates),
      (''eligible_counts'', eligible),
      (''thresholds'', PDict
        [(''episode_similarity'', PFloat (pol_min_episode_similarity pol)),
         (''fact_similarity'', PFloat (pol_min_fact_similarity pol)),
         (''runbook_similarity'', PFloat (pol_min_runbook_similarity pol)),
         (''fact_confidence'', PFloat (pol_min_fact_confidence pol)),
         (''runbook_success_rate'', PFloat (pol_min_runbook_success_rate pol)),
         (''positive_provenance'', PInt (pol_min_positive_provenance pol))]),
      (''bitemporal'', PDict
        [(''facts_with_predecessor'', count_with ''superseded_predecessor'' ranked_facts),
         (''stale_facts_returned'', count_with ''superseded_by'' ranked_facts)])]"

definition rank :: "pylib \<Rightarrow> recall_policy \<Rightarrow> recall_query \<Rightarrow> memory_candidate list \<Rightarrow>
    memory_candidate list \<Rightarrow> memory_candidate list \<Rightarrow> be_error + recall_bundle" where
  "rank lib pol q episodes facts runbooks =
     (if qry_cold_start q then Inr cold_bundle
      else bindE (accepted (\<lambda>c. Inr (episode_eligible pol q c)) (score_episode pol q) episodes) (\<lambda>accepted_episodes.
        bindE (accepted (\<lambda>c. Inr (fact_eligible pol q c)) (score_fact pol q) facts) (\<lambda>accepted_facts.
        bindE (accepted (runbook_eligible lib pol q) (score_runbook lib pol q) runbooks) (\<lambda>accepted_runbooks. let
          ranked_episodes = diverse (min (qry_k q) (pol_max_episodes pol)) (episode_key lib) accepted_episodes;
          ranked_facts = diverse (pol_max_facts pol) (fact_key lib) accepted_facts;
          ranked_runbooks = diverse (pol_max_runbooks pol) (runbook_key lib) accepted_runbooks in
        Inr \<lparr>bun_episodes = ranked_episodes, bun_facts = ranked_facts, bun_runbooks = ranked_runbooks,
          bun_cold_start = False,
          bun_diagnostics = diagnostics pol (kind_counts (length episodes) (length facts) (length runbooks))
            (kind_counts (length accepted_episodes) (length accepted_facts) (length accepted_runbooks))
            ranked_facts\<rparr>))))"

text \<open>The adapter of the cold-start control never reads memory.\<close>

definition cold_start_recall :: "bool \<Rightarrow> recall_query \<Rightarrow> recall_bundle" where
  "cold_start_recall delegate_configured q = cold_bundle\<lparr>bun_diagnostics :=
     bun_diagnostics cold_bundle @ [(''delegate_configured'', PBool delegate_configured)]\<rparr>"

section \<open>Sorting and choosing\<close>

lemma set_sorted_reverse [simp]: "set (sorted_reverse cs) = set cs"
  by (simp add: sorted_reverse_def)

lemma sorted_reverse_sorted:
  "sorted_wrt (\<lambda>a b. rank_key b \<le> rank_key a) (sorted_reverse cs)"
proof -
  have "sorted (map rank_key (sort_key rank_key (rev cs)))" by simp
  then show ?thesis by (simp add: sorted_reverse_def sorted_wrt_rev sorted_wrt_map)
qed

text \<open>What the loop returns when it goes through a descending list: members of it, in its order,
  one per key, at most the limit (but at least one), and nothing it passed over is missing without
  a reason.\<close>

lemma select_diverse_prefix: "\<exists>ys. select_diverse limit key seen sel cs = sel @ ys \<and> set ys \<subseteq> set cs"
proof (induction limit key seen sel cs rule: select_diverse.induct)
  case (2 limit key seen sel c cs)
  then show ?case by (cases "key c \<in> seen"; cases "limit \<le> int (length (sel @ [c]))") auto
qed simp

lemma select_diverse_distinct:
  "distinct (map key sel) \<Longrightarrow> set (map key sel) = seen \<Longrightarrow>
   distinct (map key (select_diverse limit key seen sel cs))"
  by (induction limit key seen sel cs rule: select_diverse.induct) auto

lemma select_diverse_length:
  "int (length sel) < limit \<or> sel = [] \<Longrightarrow>
   int (length (select_diverse limit key seen sel cs)) \<le> max limit 1"
  by (induction limit key seen sel cs rule: select_diverse.induct) auto

lemma select_diverse_sorted:
  assumes "sorted_wrt (\<lambda>a b. rank_key b \<le> rank_key a) (sel @ cs)"
  shows "sorted_wrt (\<lambda>a b. rank_key b \<le> rank_key a) (select_diverse limit key seen sel cs)"
  using assms
  by (induction limit key seen sel cs rule: select_diverse.induct) (auto simp: sorted_wrt_append)

text \<open>An item that is not chosen is beaten: an item with its key is chosen and ranks at least as
  high, or the limit is reached by items that all rank at least as high.\<close>

lemma select_diverse_complete:
  assumes "sorted_wrt (\<lambda>a b. rank_key b \<le> rank_key a) (sel @ cs)" "set (map key sel) = seen" "c \<in> set cs"
    and "out = select_diverse limit key seen sel cs"
  shows "(\<exists>d \<in> set out. key d = key c \<and> rank_key c \<le> rank_key d) \<or>
     (limit \<le> int (length out) \<and> (\<forall>d \<in> set out. rank_key c \<le> rank_key d))"
  using assms
proof (induction limit key seen sel cs arbitrary: c rule: select_diverse.induct)
  case (2 limit key seen sel b bs)
  show ?case
  proof (cases "key b \<in> seen")
    case True
    then obtain d where d: "d \<in> set sel" "key d = key b" using 2(4) by auto
    have sel_out: "set sel \<subseteq> set out"
      using True 2(6) select_diverse_prefix [of limit key seen sel bs] by auto
    show ?thesis
    proof (cases "c = b")
      case True
      with d sel_out 2(3) show ?thesis by (auto simp: sorted_wrt_append)
    next
      case False
      with True 2 show ?thesis by (auto simp: sorted_wrt_append)
    qed
  next
    case False
    show ?thesis
    proof (cases "limit \<le> int (length (sel @ [b]))")
      case True
      with False 2(3-6) show ?thesis by (auto simp: sorted_wrt_append)
    next
      case inner: False
      have out: "out = select_diverse limit key (insert (key b) seen) (sel @ [b]) bs"
        using False inner 2(6) by simp
      then have "b \<in> set out"
        using select_diverse_prefix [of limit key "insert (key b) seen" "sel @ [b]" bs] by auto
      with 2(2) [OF False inner, of c] 2(3-5) out show ?thesis by auto
    qed
  qed
qed simp

lemma diverse_facts:
  shows diverse_subset: "set (diverse limit key cs) \<subseteq> set cs"
    and diverse_distinct: "distinct (map key (diverse limit key cs))"
    and diverse_length: "int (length (diverse limit key cs)) \<le> max limit 1"
    and diverse_sorted: "sorted_wrt (\<lambda>a b. rank_key b \<le> rank_key a) (diverse limit key cs)"
proof -
  show "set (diverse limit key cs) \<subseteq> set cs"
    using select_diverse_prefix [of limit key "{}" "[]" "sorted_reverse cs"] by (auto simp: diverse_def)
qed (simp_all add: diverse_def select_diverse_distinct select_diverse_length select_diverse_sorted
    sorted_reverse_sorted)

lemma diverse_complete:
  assumes "c \<in> set cs"
  shows "(\<exists>d \<in> set (diverse limit key cs). key d = key c \<and> rank_key c \<le> rank_key d) \<or>
     (limit \<le> int (length (diverse limit key cs)) \<and> (\<forall>d \<in> set (diverse limit key cs). rank_key c \<le> rank_key d))"
  using assms select_diverse_complete [of "[]" "sorted_reverse cs" key "{}" c]
  by (simp add: diverse_def sorted_reverse_sorted)

section \<open>One kind of memory\<close>

text \<open>A score changes only the rank and the metadata it adds; the keys it adds:\<close>

definition same_memory :: "memory_candidate \<Rightarrow> memory_candidate \<Rightarrow> bool" where
  "same_memory m c \<longleftrightarrow>
     c = m\<lparr>mem_ranking_score := mem_ranking_score c, mem_metadata := mem_metadata c\<rparr> \<and>
     (\<forall>k. k \<notin> {''actionable'', ''provenance_verified'', ''rank_components''} \<longrightarrow>
        map_of (mem_metadata c) k = map_of (mem_metadata m) k)"

lemma map_of_merge: "k \<notin> set (map fst b) \<Longrightarrow> map_of (dict_merge a b) k = map_of a k"
  unfolding dict_merge_def by (induction b arbitrary: a) (auto simp: case_prod_beta)

lemma same_memory_ranked:
  assumes "set (map fst md) \<subseteq> {''actionable'', ''provenance_verified'', ''rank_components''}"
  shows "same_memory c (ranked c score md)"
  unfolding same_memory_def
proof (intro conjI allI impI)
  fix k
  assume "k \<notin> {''actionable'', ''provenance_verified'', ''rank_components''}"
  with assms have "k \<notin> set (map fst md)" by blast
  then show "map_of (mem_metadata (ranked c score md)) k = map_of (mem_metadata c) k"
    by (simp add: ranked_def map_of_merge)
qed (simp add: ranked_def)

lemma same_memory_fields:
  assumes "same_memory m c"
  shows "mem_memory_id c = mem_memory_id m" "mem_kind c = mem_kind m" "mem_content c = mem_content m"
    "mem_similarity c = mem_similarity m" "mem_steps c = mem_steps m"
proof -
  from assms have e: "c = m\<lparr>mem_ranking_score := mem_ranking_score c, mem_metadata := mem_metadata c\<rparr>"
    by (simp add: same_memory_def)
  show "mem_memory_id c = mem_memory_id m" by (subst e) simp
  show "mem_kind c = mem_kind m" by (subst e) simp
  show "mem_content c = mem_content m" by (subst e) simp
  show "mem_similarity c = mem_similarity m" by (subst e) simp
  show "mem_steps c = mem_steps m" by (subst e) simp
qed

lemma same_memory_meta:
  assumes "same_memory m c" "k \<notin> {''actionable'', ''provenance_verified'', ''rank_components''}"
  shows "pget (mem_metadata c) k = pget (mem_metadata m) k"
    "dict_get (mem_metadata c) k v = dict_get (mem_metadata m) k v"
  using assms by (simp_all add: same_memory_def pget_def dict_get_def)

locale memory_channel =
  fixes eligible :: "memory_candidate \<Rightarrow> be_error + bool"
    and score :: "memory_candidate \<Rightarrow> be_error + memory_candidate"
    and key :: "memory_candidate \<Rightarrow> 'k"
  assumes score_same: "score m = Inr c \<Longrightarrow> same_memory m c"
    and key_same: "same_memory m c \<Longrightarrow> key c = key m"
begin

definition pool :: "memory_candidate list \<Rightarrow> memory_candidate set" where
  "pool cs = {d. \<exists>c \<in> set cs. eligible c = Inr True \<and> score c = Inr d}"

lemma accepted_pool: "accepted eligible score cs = Inr ds \<Longrightarrow> set ds = pool cs"
proof (induction cs arbitrary: ds)
  case (Cons c cs)
  then obtain ok where ok: "eligible c = Inr ok" by auto
  show ?case
  proof (cases ok)
    case True
    with Cons.prems ok obtain d ds' where "score c = Inr d" "accepted eligible score cs = Inr ds'" "ds = d # ds'"
      by auto
    with Cons.IH [of ds'] ok True show ?thesis by (auto simp: pool_def)
  next
    case False
    with Cons ok show ?thesis by (auto simp: pool_def)
  qed
qed (simp add: pool_def)

lemma chosen_sound:
  assumes "accepted eligible score cs = Inr ds" "d \<in> set (diverse limit key ds)"
  shows "\<exists>m \<in> set cs. eligible m = Inr True \<and> score m = Inr d \<and> same_memory m d"
proof -
  have "d \<in> pool cs" using assms diverse_subset [of limit key ds] accepted_pool [OF assms(1)] by blast
  then show ?thesis unfolding pool_def using score_same by blast
qed

lemma chosen_complete:
  assumes "accepted eligible score cs = Inr ds" "m \<in> set cs" "eligible m = Inr True"
  obtains c where "score m = Inr c"
    "(\<exists>d \<in> set (diverse limit key ds). key d = key m \<and> rank_key c \<le> rank_key d) \<or>
     (limit \<le> int (length (diverse limit key ds)) \<and> (\<forall>d \<in> set (diverse limit key ds). rank_key c \<le> rank_key d))"
proof -
  have "\<exists>c. score m = Inr c" using assms
  proof (induction cs arbitrary: ds)
    case (Cons c cs)
    then show ?case by (auto split: if_splits)
  qed simp
  then obtain c where c: "score m = Inr c" by blast
  then have "c \<in> set ds" using accepted_pool [OF assms(1)] assms by (auto simp: pool_def)
  from diverse_complete [OF this, of limit key] c key_same [OF score_same [OF c]] show thesis
    by (intro that) auto
qed

lemma accepted_total:
  assumes "\<And>c. c \<in> set cs \<Longrightarrow> \<exists>b. eligible c = Inr b"
    and "\<And>c. c \<in> set cs \<Longrightarrow> eligible c = Inr True \<Longrightarrow> \<exists>d. score c = Inr d"
  shows "\<exists>ds. accepted eligible score cs = Inr ds"
  using assms
proof (induction cs)
  case (Cons c cs)
  from Cons.prems(1) obtain b where "eligible c = Inr b" by (meson list.set_intros(1))
  moreover from Cons.IH Cons.prems obtain ds where "accepted eligible score cs = Inr ds"
    by (meson list.set_intros(2))
  ultimately have b: "eligible c = Inr b" "accepted eligible score cs = Inr ds" by blast+
  show ?case
  proof (cases b)
    case True
    with Cons.prems(2) [of c] b obtain d where "score c = Inr d" by auto
    with True b show ?thesis by simp
  qed (use b in simp)
qed simp

end

interpretation episode_channel: memory_channel "\<lambda>c. Inr (episode_eligible pol q c)" "score_episode pol q"
  "episode_key lib" for pol q lib
proof
  show "same_memory m c" if "score_episode pol q m = Inr c" for m c
    using that by (auto simp: score_episode_def Let_def rank_components_def intro!: same_memory_ranked)
  show "episode_key lib c = episode_key lib m" if "same_memory m c" for m c
    using that by (simp add: episode_key_def same_memory_meta same_memory_fields)
qed

interpretation fact_channel: memory_channel "\<lambda>c. Inr (fact_eligible pol q c)" "score_fact pol q"
  "fact_key lib" for pol q lib
proof
  show "same_memory m c" if "score_fact pol q m = Inr c" for m c
    using that by (auto simp: score_fact_def Let_def rank_components_def intro!: same_memory_ranked)
  show "fact_key lib c = fact_key lib m" if "same_memory m c" for m c
    using that by (simp add: fact_key_def same_memory_meta)
qed

interpretation runbook_channel: memory_channel "runbook_eligible lib pol q" "score_runbook lib pol q"
  "runbook_key lib" for lib pol q
proof
  show "same_memory m c" if "score_runbook lib pol q m = Inr c" for m c
    using that by (auto simp: score_runbook_def Let_def rank_components_def intro!: same_memory_ranked)
  show "runbook_key lib c = runbook_key lib m" if "same_memory m c" for m c
    using that by (simp add: runbook_key_def same_memory_meta same_memory_fields)
qed

text \<open>A run of \<open>rank\<close> that returns, taken apart.\<close>

lemma rank_cases:
  assumes "rank lib pol q es fs rs = Inr b"
  obtains (cold) "qry_cold_start q" "b = cold_bundle"
  | (warm) ae af ar where "\<not> qry_cold_start q"
      "accepted (\<lambda>c. Inr (episode_eligible pol q c)) (score_episode pol q) es = Inr ae"
      "accepted (\<lambda>c. Inr (fact_eligible pol q c)) (score_fact pol q) fs = Inr af"
      "accepted (runbook_eligible lib pol q) (score_runbook lib pol q) rs = Inr ar"
      "bun_episodes b = diverse (min (qry_k q) (pol_max_episodes pol)) (episode_key lib) ae"
      "bun_facts b = diverse (pol_max_facts pol) (fact_key lib) af"
      "bun_runbooks b = diverse (pol_max_runbooks pol) (runbook_key lib) ar"
  using assms by (auto simp: rank_def Let_def split: if_splits)

section \<open>Bounds of the scores\<close>

lemma recency_unit:
  assumes "recency pol q t = Inr r" "0 < pol_recency_half_life pol"
  shows "0 \<le> r \<and> r \<le> 1"
proof (cases t)
  case (Some u)
  let ?h = "real_of_int (pol_recency_half_life pol) / 1000000"
  let ?a = "max (real_of_int (instant (aware (qry_as_of q)) - instant (aware u)) / 1000000) 0"
  have h: "0 < ?h" using assms by simp
  have "r = exp (- 0.69314718056 * ?a / ?h)"
    using assms Some h by (simp add: recency_def Let_def split: if_splits)
  moreover have "- 0.69314718056 * ?a / ?h \<le> 0"
    using h by (intro divide_nonpos_pos) (auto simp: max_def)
  ultimately show ?thesis by (metis exp_ge_zero exp_le_one_iff)
qed (use assms in \<open>simp add: recency_def\<close>)

text \<open>A weighted mean of values between 0 and 1 is one.\<close>

lemma weighted_unit:
  fixes ws :: "(real \<times> real) list"
  assumes "\<forall>(w, x) \<in> set ws. 0 \<le> w \<and> 0 \<le> x \<and> x \<le> 1"
  shows "0 \<le> (\<Sum>(w, x) \<leftarrow> ws. w * x) \<and> (\<Sum>(w, x) \<leftarrow> ws. w * x) \<le> (\<Sum>(w, x) \<leftarrow> ws. w)"
  using assms
proof (induction ws)
  case (Cons p ws)
  obtain w x where p: "p = (w, x)" by (cases p)
  have "0 \<le> w * x" "w * x \<le> w" using Cons.prems p by (auto simp: mult_left_le)
  with Cons p show ?case by auto
qed simp

definition unit_measures :: "memory_candidate \<Rightarrow> bool" where
  "unit_measures c \<longleftrightarrow> 0 \<le> mem_similarity c \<and> mem_similarity c \<le> 1 \<and>
     0 \<le> mem_success_rate c \<and> mem_success_rate c \<le> 1 \<and> 0 \<le> mem_confidence c \<and> mem_confidence c \<le> 1"

lemma score_episode_unit:
  assumes "score_episode pol q m = Inr c" "unit_measures m" "0 < pol_recency_half_life pol"
  shows "0 \<le> mem_ranking_score c \<and> mem_ranking_score c \<le> 1"
proof -
  obtain r where r: "recency pol q (mem_occurred_at m) = Inr r"
    using assms by (auto simp: score_episode_def)
  define su where "su = (if py_eq (pget (mem_metadata m) ''outcome'') (PStr ''success'') then 1 else 0 :: real)"
  define sc where "sc = (if mem_service_id m = Some (qry_service_id q) then 1 else 0.5 :: real)"
  have "mem_ranking_score c = (\<Sum>(w, x) \<leftarrow> [(0.65, mem_similarity m), (0.20, r), (0.10, su), (0.05, sc)]. w * x)"
    using assms(1) r by (auto simp: score_episode_def Let_def ranked_def su_def sc_def)
  moreover have "0 \<le> r \<and> r \<le> 1" using recency_unit r assms(3) by blast
  ultimately show ?thesis
    using weighted_unit [of "[(0.65, mem_similarity m), (0.20, r), (0.10, su), (0.05, sc)]"] assms(2)
    by (simp add: unit_measures_def su_def sc_def)
qed

lemma score_fact_unit:
  assumes "score_fact pol q m = Inr c" "unit_measures m" "0 < pol_recency_half_life pol"
  shows "0 \<le> mem_ranking_score c \<and> mem_ranking_score c \<le> 1"
proof -
  obtain r where r: "recency pol q (mem_recorded_at m) = Inr r"
    using assms by (auto simp: score_fact_def)
  define pr where "pr = real (min (length (mem_provenance_ids m)) 3) / 3"
  have "mem_ranking_score c = (\<Sum>(w, x) \<leftarrow> [(0.60, mem_similarity m), (0.25, mem_confidence m), (0.10, r), (0.05, pr)]. w * x)"
    using assms(1) r by (auto simp: score_fact_def Let_def ranked_def pr_def)
  moreover have "0 \<le> r \<and> r \<le> 1" using recency_unit r assms(3) by blast
  moreover have "0 \<le> pr \<and> pr \<le> 1" by (auto simp: pr_def)
  ultimately show ?thesis
    using weighted_unit [of "[(0.60, mem_similarity m), (0.25, mem_confidence m), (0.10, r), (0.05, pr)]"] assms(2)
    by (simp add: unit_measures_def)
qed

lemma runbook_scope_score_unit: "runbook_scope_score lib q m = Inr s \<Longrightarrow> 0 \<le> s \<and> s \<le> 1"
  by (auto simp: runbook_scope_score_def Let_def split: if_splits option.splits)

text \<open>An eligible runbook has a positive count, so that its provenance share is not negative.\<close>

lemma score_runbook_unit:
  assumes "score_runbook lib pol q m = Inr c" "runbook_eligible lib pol q m = Inr True" "unit_measures m"
    "0 < pol_recency_half_life pol" "0 \<le> pol_min_positive_provenance pol"
  shows "0 \<le> mem_ranking_score c \<and> mem_ranking_score c \<le> 1"
proof -
  obtain used r p s where r: "last_used lib m = Inr used" "recency pol q used = Inr r"
      "meta_count lib m ''positive_provenance_count'' = Inr p" "runbook_scope_score lib q m = Inr s"
    using assms(1) by (auto simp: score_runbook_def Let_def)
  define pr where "pr = real_of_int (min p 3) / 3"
  have "pol_min_positive_provenance pol \<le> p"
    using assms(2) r(3) by (auto simp: runbook_eligible_def split: if_splits)
  then have "0 \<le> pr \<and> pr \<le> 1" using assms(5) by (auto simp: pr_def)
  moreover have "0 \<le> r \<and> r \<le> 1" using recency_unit r assms(4) by blast
  moreover have "mem_ranking_score c = (\<Sum>(w, x) \<leftarrow> [(0.55, mem_similarity m), (0.25, mem_success_rate m),
      (0.10, r), (0.05, pr), (0.05, s)]. w * x)"
    using assms(1) r by (auto simp: score_runbook_def Let_def ranked_def pr_def)
  ultimately show ?thesis
    using weighted_unit [of "[(0.55, mem_similarity m), (0.25, mem_success_rate m), (0.10, r), (0.05, pr), (0.05, s)]"]
      assms(3) runbook_scope_score_unit [OF r(4)]
    by (simp add: unit_measures_def)
qed

end
