(* ===== verification/Be_Fakes.thy ===== *)
theory Be_Fakes
  imports Be_Recall Be_Guardrails
begin

text \<open>
  The adapters of the local runtime (\<^verbatim>\<open>backend/src/postmortem_backend/adapters/fakes.py\<close>): the
  embedding, the recall and the rule-based reasoner, and the store whose transactions work on a copy
  of its tables that replaces them when they succeed. New UUIDs and the clock are arguments.
\<close>

section \<open>Embedding\<close>

text \<open>\<open>text.encode("utf-8")\<close> of Latin-1 characters\<close>

definition utf8_char :: "char \<Rightarrow> nat list" where
  "utf8_char c = (let n = of_char c in if n < 128 then [n] else [192 + n div 64, 128 + n mod 64])"

definition fake_dimension :: nat where
  "fake_dimension = 1024"

definition fake_embed :: "string \<Rightarrow> real list" where
  "fake_embed t = (let
     bytes = concat (map utf8_char t);
     encoded = (if bytes = [] then [0] else bytes);
     vec = foldl (\<lambda>v (i, b). v[i mod fake_dimension := v ! (i mod fake_dimension) + (real b + 1) / 256])
       (replicate fake_dimension 0) (zip [0..<length encoded] encoded);
     magnitude = sqrt (sum_list (map (\<lambda>x. x * x) vec)) in
     map (\<lambda>x. x / magnitude) vec)"

section \<open>Recall\<close>

record fake_recall =
  fr_bundle :: recall_bundle
  fr_queries :: "recall_query list"

definition fake_recall_run :: "recall_query \<Rightarrow> (fake_recall, be_error, recall_bundle) prog" where
  "fake_recall_run q =
     andThen (modifies (\<lambda>r. r\<lparr>fr_queries := fr_queries r @ [q]\<rparr>)) (\<lambda>_.
     reads (\<lambda>r. if qry_cold_start q then cold_bundle else fr_bundle r))"

section \<open>Reasoning\<close>

definition actionable :: "memory_candidate \<Rightarrow> bool" where
  "actionable c \<longleftrightarrow> py_truthy (dict_get (mem_metadata c) ''actionable'' (PBool True))"

definition fake_weight :: "memory_candidate \<Rightarrow> real" where
  "fake_weight c = mem_similarity c * 0.7 + mem_success_rate c * 0.3"

text \<open>\<open>max\<close> gives the first of the items with the greatest key.\<close>

fun first_max :: "('a \<Rightarrow> real) \<Rightarrow> 'a \<Rightarrow> 'a list \<Rightarrow> 'a" where
  "first_max f best [] = best"
| "first_max f best (x # xs) = first_max f (if f best < f x then x else best) xs"

definition best_candidate :: "recall_bundle \<Rightarrow> memory_candidate option" where
  "best_candidate memory = (let
     candidates = filter actionable (if bun_runbooks memory \<noteq> [] then bun_runbooks memory else bun_episodes memory) in
     case candidates of [] \<Rightarrow> None | c # cs \<Rightarrow> Some (first_max fake_weight c cs))"

definition metadata_action :: "pyval \<Rightarrow> be_error + action_kind" where
  "metadata_action v = needE (ValueFault ''not a valid ActionKind'')
     (case v of PStr s \<Rightarrow> action_of_str s | _ \<Rightarrow> None)"

definition fake_command :: "pylib \<Rightarrow> signal \<Rightarrow> memory_candidate \<Rightarrow> action_kind \<Rightarrow> command" where
  "fake_command lib s c action = \<lparr>cmd_org_id = sig_org_id s, cmd_agent_id = sig_agent_id s,
     cmd_incident_id = sig_incident_id s, cmd_session_id = sig_session_id s,
     cmd_service_id = sig_service_id s, cmd_action = action,
     cmd_target_version = py_str (lib_repr lib) (dict_get (mem_metadata c) ''target_version'' (PStr ''last-known-good'')),
     cmd_cited_memory_id = mem_memory_id c,
     cmd_runbook_id = (if mem_kind c = Procedural then Some (mem_memory_id c) else mem_runbook_id c),
     cmd_rationale = ''Matched '' @ memory_kind_str (mem_kind c) @ '' memory '' @ uuid_str (mem_memory_id c) @
       '' with similarity '' @ lib_fixed3 lib (mem_similarity c) @ ''.'',
     cmd_outcome_stub = ''remediation_started'',
     cmd_requires_human_approval =
       py_truthy (dict_get (mem_metadata c) ''requires_human_approval'' (PBool False)),
     cmd_approved = False, cmd_idempotency_key = None\<rparr>"

definition fake_decide :: "pylib \<Rightarrow> signal \<Rightarrow> recall_bundle \<Rightarrow> be_error + decision" where
  "fake_decide lib s memory = (case best_candidate memory of
     None \<Rightarrow> Inr \<lparr>dec_kind = Escalate,
       dec_explanation = ''No grounded memory matched this incident; page a human.'',
       dec_cited_memory_id = None, dec_command = None, dec_confidence = 0\<rparr>
   | Some c \<Rightarrow> bindE (metadata_action (dict_get (mem_metadata c) ''action'' (PStr (action_str Rollback)))) (\<lambda>action.
       let cmd = fake_command lib s c action in
       Inr \<lparr>dec_kind = Remediate, dec_explanation = cmd_rationale cmd,
         dec_cited_memory_id = Some (mem_memory_id c), dec_command = Some cmd,
         dec_confidence = mem_similarity c\<rparr>))"

section \<open>The store\<close>

record service_row =
  sv_org_id :: uuid
  sv_status :: string
  sv_current_deploy_id :: "uuid option"

record incident_row =
  ic_org_id :: uuid
  ic_service_id :: uuid
  ic_status :: string
  ic_runbook_id :: "uuid option"
  ic_resolved_at :: "datetime option"

record deploy_row =
  dp_org_id :: uuid
  dp_service_id :: uuid
  dp_version :: string
  dp_action :: string
  dp_deployed_by :: string
  dp_status :: string

record episode_row =
  ep_org_id :: uuid
  ep_agent_id :: uuid
  ep_incident_id :: uuid
  ep_session_id :: "uuid option"
  ep_service_id :: uuid
  ep_event_type :: string
  ep_content :: string
  ep_metadata :: pydict
  ep_runbook_id :: "uuid option"
  ep_importance :: real
  ep_embedding :: "real list"
  ep_occurred_at :: "datetime option"
  ep_created_at :: "datetime option"

record action_row =
  ac_org_id :: uuid
  ac_incident_id :: uuid
  ac_action_type :: string
  ac_target_id :: uuid
  ac_params :: pydict
  ac_applied_by :: string
  ac_outcome :: string
  ac_memory_ref :: uuid
  ac_transaction_id :: uuid
  ac_idempotency_key :: string

text \<open>The tables a snapshot copies.\<close>

record tables =
  tb_services :: "(uuid, service_row) dict"
  tb_incidents :: "(uuid, incident_row) dict"
  tb_deploys :: "(uuid, deploy_row) dict"
  tb_episodes :: "(uuid, episode_row) dict"
  tb_actions :: "(uuid, action_row) dict"
  tb_runbook_usage :: "(uuid, int) dict"

datatype fail_point = After_operational_write | During_memory_write | During_audit_write
  | Outcome_after_action_update | Outcome_during_event_write

record fake_store =
  fs_tables :: tables
  fs_provenance :: "uuid list"
  fs_fail_at :: "fail_point option"
  fs_commit_count :: int
  fs_rollback_count :: int
  fs_outcome_commit_count :: int
  fs_outcome_rollback_count :: int
  fs_auto_seed :: bool

definition new_fake_store :: "bool \<Rightarrow> fake_store" where
  "new_fake_store auto_seed = \<lparr>fs_tables = \<lparr>tb_services = [], tb_incidents = [], tb_deploys = [],
     tb_episodes = [], tb_actions = [], tb_runbook_usage = []\<rparr>, fs_provenance = [], fs_fail_at = None,
     fs_commit_count = 0, fs_rollback_count = 0, fs_outcome_commit_count = 0,
     fs_outcome_rollback_count = 0, fs_auto_seed = auto_seed\<rparr>"

definition degraded_service :: "uuid \<Rightarrow> service_row" where
  "degraded_service org = \<lparr>sv_org_id = org, sv_status = ''degraded'', sv_current_deploy_id = None\<rparr>"

definition open_incident_row :: "uuid \<Rightarrow> uuid \<Rightarrow> incident_row" where
  "open_incident_row org service = \<lparr>ic_org_id = org, ic_service_id = service, ic_status = ''open'',
     ic_runbook_id = None, ic_resolved_at = None\<rparr>"

definition seed :: "uuid \<Rightarrow> uuid \<Rightarrow> uuid \<Rightarrow> uuid \<Rightarrow> fake_store \<Rightarrow> fake_store" where
  "seed service_id incident_id cited org s = s\<lparr>
     fs_tables := (fs_tables s)\<lparr>
       tb_services := AList.update service_id (degraded_service org) (tb_services (fs_tables s)),
       tb_incidents := AList.update incident_id (open_incident_row org service_id) (tb_incidents (fs_tables s))\<rparr>,
     fs_provenance := List.insert cited (fs_provenance s)\<rparr>"

text \<open>The rows a store with \<open>auto_seed\<close> makes up before it starts.\<close>

definition seed_missing :: "command \<Rightarrow> fake_store \<Rightarrow> fake_store" where
  "seed_missing c s = (if \<not> fs_auto_seed s then s else s\<lparr>
     fs_tables := (fs_tables s)\<lparr>
       tb_services := dict_setdefault (cmd_service_id c) (degraded_service (cmd_org_id c)) (tb_services (fs_tables s)),
       tb_incidents := dict_setdefault (cmd_incident_id c) (open_incident_row (cmd_org_id c) (cmd_service_id c))
         (tb_incidents (fs_tables s))\<rparr>,
     fs_provenance := List.insert (cmd_cited_memory_id c) (fs_provenance s)\<rparr>)"

definition supported_actions :: "action_kind list" where
  "supported_actions = [Rollback, Restart]"

definition validate_command :: "command \<Rightarrow> real list \<Rightarrow> be_error + unit" where
  "validate_command c v =
     bindE (checkE (cmd_action c \<in> set supported_actions)
       (UnsupportedAction (action_str (cmd_action c) @ '' is not implemented in Phase 1.''))) (\<lambda>_.
     bindE (checkE (\<not> (cmd_requires_human_approval c \<and> \<not> cmd_approved c))
       (ApprovalRequired ''This remediation requires explicit SRE approval.'')) (\<lambda>_.
     checkE (length v = 1024)
       (AtomicRemediationError ''Episodic embedding must have exactly 1024 dimensions.'')))"

text \<open>The UUIDs one transaction draws.\<close>

record fresh_ids =
  new_deploy_id :: uuid
  new_event_id :: uuid
  new_action_id :: uuid
  new_transaction_id :: uuid

definition action_episode :: "fresh_ids \<Rightarrow> command \<Rightarrow> real list \<Rightarrow> episode_row" where
  "action_episode ids c v = \<lparr>ep_org_id = cmd_org_id c, ep_agent_id = cmd_agent_id c,
     ep_incident_id = cmd_incident_id c, ep_session_id = Some (cmd_session_id c),
     ep_service_id = cmd_service_id c, ep_event_type = ''action'', ep_content = memory_text c,
     ep_metadata = [(''deploy_id'', PStr (uuid_str (new_deploy_id ids))),
       (''cited_memory_id'', PStr (uuid_str (cmd_cited_memory_id c))),
       (''outcome'', PStr (cmd_outcome_stub c))],
     ep_runbook_id = cmd_runbook_id c, ep_importance = 0.9, ep_embedding = v,
     ep_occurred_at = None, ep_created_at = None\<rparr>"

definition applied_action :: "fresh_ids \<Rightarrow> command \<Rightarrow> action_row" where
  "applied_action ids c = \<lparr>ac_org_id = cmd_org_id c, ac_incident_id = cmd_incident_id c,
     ac_action_type = (if cmd_action c = Rollback then action_str (cmd_action c) @ ''_deploy'' else ''restart_service''),
     ac_target_id = cmd_service_id c, ac_params = [(''target_version'', PStr (cmd_target_version c))],
     ac_applied_by = ''agent:'' @ uuid_str (cmd_agent_id c), ac_outcome = ''success'',
     ac_memory_ref = new_event_id ids, ac_transaction_id = new_transaction_id ids,
     ac_idempotency_key = effective_idempotency_key c\<rparr>"

definition new_deploy :: "command \<Rightarrow> deploy_row" where
  "new_deploy c = \<lparr>dp_org_id = cmd_org_id c, dp_service_id = cmd_service_id c,
     dp_version = cmd_target_version c, dp_action = action_str (cmd_action c),
     dp_deployed_by = ''agent:'' @ uuid_str (cmd_agent_id c), dp_status = ''completed''\<rparr>"

text \<open>\<open>self.fail_at == point\<close> raises.\<close>

definition injected :: "fake_store \<Rightarrow> fail_point \<Rightarrow> be_error \<Rightarrow> be_error + unit" where
  "injected s p e = checkE (fs_fail_at s \<noteq> Some p) e"

text \<open>The body of the transaction, on the staged tables.\<close>

definition stage_remediation :: "fresh_ids \<Rightarrow> command \<Rightarrow> real list \<Rightarrow> fake_store \<Rightarrow> be_error + tables" where
  "stage_remediation ids c v s = (let staged = fs_tables s;
       absent_service = AtomicRemediationError ''Target service is absent or outside the org scope.'';
       absent_incident = AtomicRemediationError ''Target incident is absent or does not match the service.'' in
     bindE (needE absent_service (map_of (tb_services staged) (cmd_service_id c))) (\<lambda>service.
     bindE (checkE (sv_org_id service = cmd_org_id c) absent_service) (\<lambda>_.
     bindE (needE absent_incident (map_of (tb_incidents staged) (cmd_incident_id c))) (\<lambda>incident.
     bindE (checkE (ic_org_id incident = cmd_org_id c \<and> ic_service_id incident = cmd_service_id c) absent_incident) (\<lambda>_.
     bindE (checkE (cmd_cited_memory_id c \<in> set (fs_provenance s))
       (ProvenanceError ''Cited memory/runbook does not exist.'')) (\<lambda>_. let
       operational = staged\<lparr>
         tb_deploys := AList.update (new_deploy_id ids) (new_deploy c) (tb_deploys staged),
         tb_services := AList.update (cmd_service_id c)
           (service\<lparr>sv_status := ''recovering'', sv_current_deploy_id := Some (new_deploy_id ids)\<rparr>) (tb_services staged),
         tb_incidents := AList.update (cmd_incident_id c)
           (incident\<lparr>ic_status := ''mitigating'', ic_runbook_id := cmd_runbook_id c\<rparr>) (tb_incidents staged)\<rparr> in
     bindE (injected s After_operational_write
       (AtomicRemediationError ''Injected failure after operational mutation.'')) (\<lambda>_. let
       remembered = operational\<lparr>
         tb_episodes := AList.update (new_event_id ids) (action_episode ids c v) (tb_episodes operational)\<rparr> in
     bindE (injected s During_memory_write
       (AtomicRemediationError ''Injected failure during episodic append.'')) (\<lambda>_. let
       audited = remembered\<lparr>
         tb_actions := AList.update (new_action_id ids) (applied_action ids c) (tb_actions remembered)\<rparr> in
     bindE (injected s During_audit_write
       (AtomicRemediationError ''Injected failure during action audit append.'')) (\<lambda>_.
     Inr (case cmd_runbook_id c of
       None \<Rightarrow> audited
     | Some r \<Rightarrow> audited\<lparr>tb_runbook_usage :=
         AList.update r (dict_get (tb_runbook_usage audited) r 0 + 1) (tb_runbook_usage audited)\<rparr>))))))))))"

definition remediate_and_record :: "fresh_ids \<Rightarrow> datetime \<Rightarrow> command \<Rightarrow> real list \<Rightarrow>
    (fake_store, be_error, remediation_result) prog" where
  "remediate_and_record ids now c v =
     andThen (lift_result (validate_command c v)) (\<lambda>_.
     andThen (modifies (seed_missing c)) (\<lambda>_.
     andThen (reads (stage_remediation ids c v)) (\<lambda>r. case r of
       Inl e \<Rightarrow> andThen (modifies (\<lambda>s. s\<lparr>fs_rollback_count := fs_rollback_count s + 1\<rparr>)) (\<lambda>_. raise e)
     | Inr staged \<Rightarrow> andThen (modifies (\<lambda>s. s\<lparr>fs_tables := staged, fs_commit_count := fs_commit_count s + 1\<rparr>)) (\<lambda>_.
         ret \<lparr>res_action_id = new_action_id ids, res_transaction_id = new_transaction_id ids,
           res_event_id = new_event_id ids, res_deploy_id = new_deploy_id ids, res_committed_at = now,
           res_incident_status = ''mitigating'', res_service_status = ''recovering''\<rparr>))))"

section \<open>Outcomes\<close>

definition is_outcome_of :: "uuid \<Rightarrow> episode_row \<Rightarrow> bool" where
  "is_outcome_of action ep \<longleftrightarrow> ep_event_type ep = ''outcome'' \<and>
     pget (ep_metadata ep) ''action_id'' = PStr (uuid_str action)"

definition outcome_episode :: "outcome_command \<Rightarrow> real list \<Rightarrow> action_row \<Rightarrow> incident_row \<Rightarrow> episode_row" where
  "outcome_episode c v action incident = \<lparr>ep_org_id = oc_org_id c, ep_agent_id = oc_agent_id c,
     ep_incident_id = oc_incident_id c, ep_session_id = None, ep_service_id = oc_service_id c,
     ep_event_type = ''outcome'', ep_content = outcome_text c,
     ep_metadata = [(''outcome'', PStr (outcome_value (oc_outcome c))),
       (''action_id'', PStr (uuid_str (oc_action_id c))),
       (''transaction_id'', PStr (uuid_str (ac_transaction_id action))),
       (''action_type'', PStr (ac_action_type action)), (''params'', PDict (ac_params action)),
       (''service_id'', PStr (uuid_str (oc_service_id c))),
       (''error_signature'', opt_str (oc_error_signature c)),
       (''consolidation_ready'', PBool True), (''source'', PStr ''responder_outcome'')],
     ep_runbook_id = ic_runbook_id incident, ep_importance = 0.95, ep_embedding = v,
     ep_occurred_at = Some (oc_observed_at c), ep_created_at = Some (oc_observed_at c)\<rparr>"

text \<open>What the body gives: the result to return and, unless it is a replay, the tables to install.\<close>

definition stage_outcome :: "uuid \<Rightarrow> outcome_command \<Rightarrow> real list \<Rightarrow> fake_store \<Rightarrow>
    be_error + outcome_result \<times> tables option" where
  "stage_outcome event_id c v s = (let staged = fs_tables s;
       foreign = ProvenanceError ''Outcome action does not belong to the org, incident, and service.'' in
     bindE (needE foreign (map_of (tb_incidents staged) (oc_incident_id c))) (\<lambda>incident.
     bindE (checkE (ic_org_id incident = oc_org_id c \<and> ic_service_id incident = oc_service_id c) foreign) (\<lambda>_.
     bindE (needE foreign (map_of (tb_actions staged) (oc_action_id c))) (\<lambda>action.
     bindE (checkE (ac_org_id action = oc_org_id c \<and> ac_incident_id action = oc_incident_id c \<and>
       ac_target_id action = oc_service_id c) foreign) (\<lambda>_.
     case find (\<lambda>(i, ep). is_outcome_of (oc_action_id c) ep) (tb_episodes staged) of
       Some (existing_id, event) \<Rightarrow>
         bindE (needE (ValueFault ''not a valid OutcomeKind'')
           (case pget (ep_metadata event) ''outcome'' of PStr o' \<Rightarrow> outcome_of_str o' | _ \<Rightarrow> None)) (\<lambda>recorded.
         bindE (checkE (recorded = oc_outcome c)
           (OutcomeConflict (''Outcome already recorded as '' @ outcome_value recorded @ ''.''))) (\<lambda>_.
         bindE (needE (PortError ''KeyError'' ''created_at'') (ep_created_at event)) (\<lambda>created_at.
         Inr (\<lparr>or_action_id = oc_action_id c, or_transaction_id = ac_transaction_id action,
           or_event_id = existing_id, or_incident_id = oc_incident_id c, or_outcome = recorded,
           or_incident_status = ic_status incident, or_recorded_at = created_at,
           or_idempotent_replay = True\<rparr>, None))))
     | None \<Rightarrow> let updated = staged\<lparr>tb_actions := AList.update (oc_action_id c)
           (action\<lparr>ac_outcome := outcome_value (oc_outcome c)\<rparr>) (tb_actions staged)\<rparr> in
         bindE (injected s Outcome_after_action_update
           (OutcomeRecordingError ''Injected failure after outcome action update.'')) (\<lambda>_. let
           incident' = (if oc_outcome c = Succeeded
             then incident\<lparr>ic_status := ''resolved'', ic_resolved_at := Some (oc_observed_at c)\<rparr> else incident);
           recorded = updated\<lparr>
             tb_incidents := AList.update (oc_incident_id c) incident' (tb_incidents updated),
             tb_episodes := AList.update event_id (outcome_episode c v action incident') (tb_episodes updated)\<rparr> in
         bindE (injected s Outcome_during_event_write
           (OutcomeRecordingError ''Injected failure during outcome episode append.'')) (\<lambda>_.
         Inr (\<lparr>or_action_id = oc_action_id c, or_transaction_id = ac_transaction_id action,
           or_event_id = event_id, or_incident_id = oc_incident_id c, or_outcome = oc_outcome c,
           or_incident_status = ic_status incident', or_recorded_at = oc_observed_at c,
           or_idempotent_replay = False\<rparr>, Some recorded))))))))"

definition record_outcome :: "uuid \<Rightarrow> outcome_command \<Rightarrow> real list \<Rightarrow> (fake_store, be_error, outcome_result) prog" where
  "record_outcome event_id c v =
     andThen (require (length v = 1024)
       (OutcomeRecordingError ''Outcome embedding must have exactly 1024 dimensions.'')) (\<lambda>_.
     andThen (reads (stage_outcome event_id c v)) (\<lambda>r. case r of
       Inl e \<Rightarrow> andThen (modifies (\<lambda>s. s\<lparr>fs_outcome_rollback_count := fs_outcome_rollback_count s + 1\<rparr>)) (\<lambda>_. raise e)
     | Inr (res, None) \<Rightarrow> ret res
     | Inr (res, Some staged) \<Rightarrow>
         andThen (modifies (\<lambda>s. s\<lparr>fs_tables := staged, fs_outcome_commit_count := fs_outcome_commit_count s + 1\<rparr>)) (\<lambda>_.
         ret res)))"

definition demo_runbook_id :: uuid where
  "demo_runbook_id = UUID 0x207"

definition phase_one_demo_memory :: recall_bundle where
  "phase_one_demo_memory = \<lparr>bun_episodes = [], bun_facts = [], bun_runbooks =
     [\<lparr>mem_memory_id = demo_runbook_id, mem_kind = Procedural,
       mem_content = ''A post-deploy 5xx spike was resolved by rolling back the canary '' @
         ''to the last-known-good version.'',
       mem_similarity = 0.94, mem_success_rate = 0.90, mem_occurred_at = None, mem_service_id = None,
       mem_runbook_id = Some demo_runbook_id, mem_steps = [],
       mem_metadata = [(''source_case_id'', PStr ''CASE-1878''), (''successful_action'', PStr ''Rollback canary''),
         (''action'', PStr (action_str Rollback)), (''target_version'', PStr ''1.4.2''),
         (''requires_human_approval'', PBool False)],
       mem_org_id = None, mem_agent_id = None, mem_confidence = 0, mem_valid_from = None,
       mem_valid_to = None, mem_recorded_at = None, mem_provenance_ids = [], mem_ranking_score = 0\<rparr>],
     bun_cold_start = False, bun_diagnostics = []\<rparr>"

end
