(* ===== verification/Be_Store.thy ===== *)
theory Be_Store
  imports Be_Fakes
begin

text \<open>
  The contract of a remediation port (\<^verbatim>\<open>AtomicRemediationPort\<close> in \<^verbatim>\<open>ports.py\<close>) as a locale, with
  the local store and the provenance guard as its models, and the invariants of the local store: its
  rows refer to each other, and an action has at most one recorded outcome.
\<close>

section \<open>The port\<close>

text \<open>A refusal leaves the ledger alone, and nothing that needs an approval runs without one.\<close>

locale remediation_port =
  fixes run :: "command \<Rightarrow> real list \<Rightarrow> ('w, be_error, remediation_result) prog"
    and ledger :: "'w \<Rightarrow> 'l"
  assumes refused: "run c v w = (Inl e, w') \<Longrightarrow> ledger w' = ledger w"
    and approved: "run c v w = (Inr r, w') \<Longrightarrow> cmd_requires_human_approval c \<Longrightarrow> cmd_approved c"
begin

lemma guard_run:
  "guarded_remediation run ids c v w = (case require_grounded_action c ids of
     Inl e \<Rightarrow> (Inl e, w) | Inr _ \<Rightarrow> run c v w)"
  by (simp add: guarded_remediation_def prog_simps split: sum.splits)

lemma guarded_refused:
  "guarded_remediation run ids c v w = (Inl e, w') \<Longrightarrow> ledger w' = ledger w"
  using refused by (auto simp: guard_run split: sum.splits)

lemma guarded_approved:
  "guarded_remediation run ids c v w = (Inr r, w') \<Longrightarrow> cmd_requires_human_approval c \<Longrightarrow> cmd_approved c"
  using approved by (auto simp: guard_run split: sum.splits)

text \<open>What reaches the ledger through the guard cites a memory that exists for the guard.\<close>

lemma guarded_ledger:
  assumes "ledger (snd (guarded_remediation run ids c v w)) \<noteq> ledger w"
  shows "\<exists>r. fst (run c v w) = Inr r \<and> cmd_cited_memory_id c \<noteq> nil_uuid \<and>
    (\<forall>l. ids = Some l \<longrightarrow> cmd_cited_memory_id c \<in> set l) \<and>
    (cmd_requires_human_approval c \<longrightarrow> cmd_approved c)"
proof (cases "require_grounded_action c ids")
  case (Inl e)
  with assms show ?thesis by (simp add: guard_run)
next
  case (Inr u)
  obtain o' w' where run: "run c v w = (o', w')" by fastforce
  with Inr assms have "ledger w' \<noteq> ledger w" by (simp add: guard_run)
  with run refused obtain r where "o' = Inr r" by (cases o') auto
  with run approved [of c v w r w'] Inr show ?thesis by (auto simp: require_grounded_iff)
qed

end

section \<open>A remediation of the local store\<close>

text \<open>The ledger: what a transaction appends. The rows an \<open>auto_seed\<close> store makes up are outside.\<close>

definition store_ledger :: "fake_store \<Rightarrow> (uuid, deploy_row) dict \<times> (uuid, episode_row) dict \<times>
    (uuid, action_row) dict \<times> (uuid, int) dict" where
  "store_ledger s = (tb_deploys (fs_tables s), tb_episodes (fs_tables s), tb_actions (fs_tables s),
     tb_runbook_usage (fs_tables s))"

lemma seed_missing_fields [simp]:
  "store_ledger (seed_missing c s) = store_ledger s"
  "fs_fail_at (seed_missing c s) = fs_fail_at s"
  "fs_commit_count (seed_missing c s) = fs_commit_count s"
  "fs_rollback_count (seed_missing c s) = fs_rollback_count s"
  "fs_auto_seed (seed_missing c s) = fs_auto_seed s"
  "\<not> fs_auto_seed s \<Longrightarrow> seed_missing c s = s"
  by (simp_all add: seed_missing_def store_ledger_def)

lemma remediate_cases:
  obtains (invalid) e where "validate_command c v = Inl e" "remediate_and_record ids now c v s = (Inl e, s)"
  | (rolled_back) e where "validate_command c v = Inr ()"
      "stage_remediation ids c v (seed_missing c s) = Inl e"
      "remediate_and_record ids now c v s = (Inl e,
        (seed_missing c s)\<lparr>fs_rollback_count := fs_rollback_count (seed_missing c s) + 1\<rparr>)"
  | (committed) t r where "validate_command c v = Inr ()"
      "stage_remediation ids c v (seed_missing c s) = Inr t"
      "remediate_and_record ids now c v s = (Inr r,
        (seed_missing c s)\<lparr>fs_tables := t, fs_commit_count := fs_commit_count (seed_missing c s) + 1\<rparr>)"
      "r = \<lparr>res_action_id = new_action_id ids, res_transaction_id = new_transaction_id ids,
         res_event_id = new_event_id ids, res_deploy_id = new_deploy_id ids, res_committed_at = now,
         res_incident_status = ''mitigating'', res_service_status = ''recovering''\<rparr>"
proof (cases "validate_command c v")
  case (Inl e)
  then show thesis by (intro invalid) (simp_all add: remediate_and_record_def prog_simps)
next
  case (Inr u)
  show thesis
  proof (cases "stage_remediation ids c v (seed_missing c s)")
    case (Inl e)
    with Inr show thesis by (intro rolled_back) (simp_all add: remediate_and_record_def prog_simps)
  next
    case stage: (Inr t)
    with Inr show thesis by (intro committed) (simp_all add: remediate_and_record_def prog_simps)
  qed
qed

lemma validate_approved: "validate_command c v = Inr u \<Longrightarrow> cmd_requires_human_approval c \<Longrightarrow> cmd_approved c"
  by (simp add: validate_command_def)

interpretation local_port: remediation_port "remediate_and_record ids now" store_ledger for ids now
proof
  show "store_ledger s' = store_ledger s" if "remediate_and_record ids now c v s = (Inl e, s')" for c v s e s'
  proof (cases rule: remediate_cases [where c = c and v = v and ids = ids and s = s and now = now])
    case rolled_back
    with that have "s' = (seed_missing c s)\<lparr>fs_rollback_count := fs_rollback_count (seed_missing c s) + 1\<rparr>" by simp
    moreover have "store_ledger (t\<lparr>fs_rollback_count := n\<rparr>) = store_ledger t" for t n
      by (simp add: store_ledger_def)
    ultimately show ?thesis by simp
  qed (use that in auto)
  show "cmd_approved c" if "remediate_and_record ids now c v s = (Inr r, s')" "cmd_requires_human_approval c"
    for c v s r s'
    by (cases rule: remediate_cases [where c = c and v = v and ids = ids and s = s and now = now]) (use that validate_approved in auto)
qed

text \<open>The guarded store, as the local runtime wires it, keeps the contract.\<close>

interpretation guarded_port: remediation_port "guarded_remediation (remediate_and_record ids now) recalled" store_ledger
  for ids now recalled
  using local_port.guarded_refused local_port.guarded_approved by unfold_locales blast+

text \<open>What a committed transaction has checked, and the tables it installs.\<close>

lemma stage_remediation_effect:
  assumes "stage_remediation ids c v s = Inr t"
  obtains service incident where
    "map_of (tb_services (fs_tables s)) (cmd_service_id c) = Some service" "sv_org_id service = cmd_org_id c"
    "map_of (tb_incidents (fs_tables s)) (cmd_incident_id c) = Some incident" "ic_org_id incident = cmd_org_id c"
    "ic_service_id incident = cmd_service_id c" "cmd_cited_memory_id c \<in> set (fs_provenance s)"
    "tb_services t = AList.update (cmd_service_id c)
      (service\<lparr>sv_status := ''recovering'', sv_current_deploy_id := Some (new_deploy_id ids)\<rparr>) (tb_services (fs_tables s))"
    "tb_incidents t = AList.update (cmd_incident_id c)
      (incident\<lparr>ic_status := ''mitigating'', ic_runbook_id := cmd_runbook_id c\<rparr>) (tb_incidents (fs_tables s))"
    "tb_deploys t = AList.update (new_deploy_id ids) (new_deploy c) (tb_deploys (fs_tables s))"
    "tb_episodes t = AList.update (new_event_id ids) (action_episode ids c v) (tb_episodes (fs_tables s))"
    "tb_actions t = AList.update (new_action_id ids) (applied_action ids c) (tb_actions (fs_tables s))"
    "tb_runbook_usage t = (case cmd_runbook_id c of None \<Rightarrow> tb_runbook_usage (fs_tables s)
      | Some r \<Rightarrow> AList.update r (dict_get (tb_runbook_usage (fs_tables s)) r 0 + 1) (tb_runbook_usage (fs_tables s)))"
proof -
  let ?T = "fs_tables s"
  obtain service incident where
    a: "map_of (tb_services ?T) (cmd_service_id c) = Some service" "sv_org_id service = cmd_org_id c"
      "map_of (tb_incidents ?T) (cmd_incident_id c) = Some incident" "ic_org_id incident = cmd_org_id c"
      "ic_service_id incident = cmd_service_id c" "cmd_cited_memory_id c \<in> set (fs_provenance s)"
    using assms by (auto simp: stage_remediation_def Let_def)
  with assms show thesis
    by (intro that [OF a]) (auto simp: stage_remediation_def Let_def split: option.splits)
qed

section \<open>An outcome of the local store\<close>

lemma record_outcome_cases:
  assumes "length v = 1024"
  obtains (rolled_back) e where "stage_outcome i c v s = Inl e"
      "record_outcome i c v s = (Inl e, s\<lparr>fs_outcome_rollback_count := fs_outcome_rollback_count s + 1\<rparr>)"
  | (replayed) r where "stage_outcome i c v s = Inr (r, None)" "record_outcome i c v s = (Inr r, s)"
  | (committed) r t where "stage_outcome i c v s = Inr (r, Some t)"
      "record_outcome i c v s = (Inr r, s\<lparr>fs_tables := t, fs_outcome_commit_count := fs_outcome_commit_count s + 1\<rparr>)"
proof (cases "stage_outcome i c v s")
  case (Inl e)
  with assms show thesis by (intro rolled_back) (simp_all add: record_outcome_def prog_simps)
next
  case (Inr p)
  then obtain r o' where p: "stage_outcome i c v s = Inr (r, o')" by (cases p) auto
  show thesis
  proof (cases o')
    case None
    with p assms show thesis by (intro replayed) (simp_all add: record_outcome_def prog_simps)
  next
    case (Some t)
    with p assms show thesis by (intro committed) (simp_all add: record_outcome_def prog_simps)
  qed
qed

text \<open>What an outcome that is not refused has checked.\<close>

lemma stage_outcome_rows:
  assumes "stage_outcome i c v s = Inr x"
  obtains incident action where
    "map_of (tb_incidents (fs_tables s)) (oc_incident_id c) = Some incident" "ic_org_id incident = oc_org_id c"
    "ic_service_id incident = oc_service_id c"
    "map_of (tb_actions (fs_tables s)) (oc_action_id c) = Some action" "ac_org_id action = oc_org_id c"
    "ac_incident_id action = oc_incident_id c" "ac_target_id action = oc_service_id c"
  using assms by (auto simp: stage_outcome_def Let_def)

text \<open>With these rows, what the body does depends on whether an outcome is on record.\<close>

lemma stage_outcome_eq:
  assumes "map_of (tb_incidents (fs_tables s)) (oc_incident_id c) = Some incident" "ic_org_id incident = oc_org_id c"
    "ic_service_id incident = oc_service_id c"
    "map_of (tb_actions (fs_tables s)) (oc_action_id c) = Some action" "ac_org_id action = oc_org_id c"
    "ac_incident_id action = oc_incident_id c" "ac_target_id action = oc_service_id c"
  defines "incident' \<equiv> if oc_outcome c = Succeeded
    then incident\<lparr>ic_status := ''resolved'', ic_resolved_at := Some (oc_observed_at c)\<rparr> else incident"
  shows "find (\<lambda>(i, ep). is_outcome_of (oc_action_id c) ep) (tb_episodes (fs_tables s)) = None \<Longrightarrow>
      fs_fail_at s = None \<Longrightarrow>
      stage_outcome i c v s = Inr (\<lparr>or_action_id = oc_action_id c, or_transaction_id = ac_transaction_id action,
         or_event_id = i, or_incident_id = oc_incident_id c, or_outcome = oc_outcome c,
         or_incident_status = ic_status incident', or_recorded_at = oc_observed_at c,
         or_idempotent_replay = False\<rparr>,
       Some ((fs_tables s)\<lparr>
         tb_actions := AList.update (oc_action_id c) (action\<lparr>ac_outcome := outcome_value (oc_outcome c)\<rparr>) (tb_actions (fs_tables s)),
         tb_incidents := AList.update (oc_incident_id c) incident' (tb_incidents (fs_tables s)),
         tb_episodes := AList.update i (outcome_episode c v action incident') (tb_episodes (fs_tables s))\<rparr>))"
    and "find (\<lambda>(i, ep). is_outcome_of (oc_action_id c) ep) (tb_episodes (fs_tables s)) = Some (j, ev) \<Longrightarrow>
      pget (ep_metadata ev) ''outcome'' = PStr (outcome_value recorded) \<Longrightarrow> ep_created_at ev = Some t \<Longrightarrow>
      stage_outcome i c v s = (if recorded \<noteq> oc_outcome c
        then Inl (OutcomeConflict (''Outcome already recorded as '' @ outcome_value recorded @ ''.''))
        else Inr (\<lparr>or_action_id = oc_action_id c, or_transaction_id = ac_transaction_id action,
           or_event_id = j, or_incident_id = oc_incident_id c, or_outcome = recorded,
           or_incident_status = ic_status incident, or_recorded_at = t, or_idempotent_replay = True\<rparr>, None))"
  using assms(1-7)
  by (simp_all add: stage_outcome_def Let_def injected_def incident'_def checkE_def)

lemma stage_outcome_commit:
  assumes "stage_outcome i c v s = Inr (r, Some t)"
  obtains incident action where
    "find (\<lambda>(i, ep). is_outcome_of (oc_action_id c) ep) (tb_episodes (fs_tables s)) = None"
    "map_of (tb_incidents (fs_tables s)) (oc_incident_id c) = Some incident"
    "map_of (tb_actions (fs_tables s)) (oc_action_id c) = Some action"
    "tb_episodes t = AList.update i (outcome_episode c v action incident) (tb_episodes (fs_tables s)) \<or>
     tb_episodes t = AList.update i (outcome_episode c v action
       (incident\<lparr>ic_status := ''resolved'', ic_resolved_at := Some (oc_observed_at c)\<rparr>)) (tb_episodes (fs_tables s))"
    "tb_actions t = AList.update (oc_action_id c) (action\<lparr>ac_outcome := outcome_value (oc_outcome c)\<rparr>)
       (tb_actions (fs_tables s))"
    "tb_services t = tb_services (fs_tables s)" "tb_deploys t = tb_deploys (fs_tables s)"
proof -
  obtain incident action where rows:
    "map_of (tb_incidents (fs_tables s)) (oc_incident_id c) = Some incident" "ic_org_id incident = oc_org_id c"
    "ic_service_id incident = oc_service_id c"
    "map_of (tb_actions (fs_tables s)) (oc_action_id c) = Some action" "ac_org_id action = oc_org_id c"
    "ac_incident_id action = oc_incident_id c" "ac_target_id action = oc_service_id c"
    by (rule stage_outcome_rows [OF assms])
  show thesis
  proof (cases "find (\<lambda>(i, ep). is_outcome_of (oc_action_id c) ep) (tb_episodes (fs_tables s))")
    case (Some p)
    with assms rows show thesis by (cases p) (auto simp: stage_outcome_def Let_def)
  next
    case None
    with assms rows show thesis
      by (intro that [OF None rows(1) rows(4)]) (auto simp: stage_outcome_def Let_def split: if_splits)
  qed
qed

section \<open>Runs of the local store\<close>

text \<open>The operations of a store; the UUIDs drawn are new ones.\<close>

definition fresh_for :: "fresh_ids \<Rightarrow> tables \<Rightarrow> bool" where
  "fresh_for ids t \<longleftrightarrow> map_of (tb_deploys t) (new_deploy_id ids) = None \<and>
     map_of (tb_episodes t) (new_event_id ids) = None \<and> map_of (tb_actions t) (new_action_id ids) = None"

inductive store_step :: "fake_store \<Rightarrow> fake_store \<Rightarrow> bool" where
  step_seed: "store_step s (seed sv ic cited org s)"
| step_fail_at: "store_step s (s\<lparr>fs_fail_at := f\<rparr>)"
| step_remediate: "fresh_for ids (fs_tables s) \<Longrightarrow> store_step s (snd (remediate_and_record ids now c v s))"
| step_outcome: "map_of (tb_episodes (fs_tables s)) i = None \<Longrightarrow> store_step s (snd (record_outcome i c v s))"

inductive store_reach :: "bool \<Rightarrow> fake_store \<Rightarrow> bool" for auto_seed where
  reach_new: "store_reach auto_seed (new_fake_store auto_seed)"
| reach_step: "store_reach auto_seed s \<Longrightarrow> store_step s s' \<Longrightarrow> store_reach auto_seed s'"

text \<open>An action refers to the episode written with it, a service to a deployment of it, and an action
  has at most one outcome on record.\<close>

definition actions_remembered :: "tables \<Rightarrow> bool" where
  "actions_remembered t \<longleftrightarrow> (\<forall>i a. map_of (tb_actions t) i = Some a \<longrightarrow>
     (\<exists>ep. map_of (tb_episodes t) (ac_memory_ref a) = Some ep \<and> ep_event_type ep = ''action'' \<and>
       ep_incident_id ep = ac_incident_id a \<and> ep_service_id ep = ac_target_id a))"

definition deploys_known :: "tables \<Rightarrow> bool" where
  "deploys_known t \<longleftrightarrow> (\<forall>i sv d. map_of (tb_services t) i = Some sv \<longrightarrow> sv_current_deploy_id sv = Some d \<longrightarrow>
     (\<exists>dp. map_of (tb_deploys t) d = Some dp \<and> dp_service_id dp = i))"

definition outcomes_of :: "tables \<Rightarrow> uuid \<Rightarrow> (uuid \<times> episode_row) list" where
  "outcomes_of t a = filter (\<lambda>(i, ep). is_outcome_of a ep) (tb_episodes t)"

definition one_outcome :: "tables \<Rightarrow> bool" where
  "one_outcome t \<longleftrightarrow> (\<forall>a. length (outcomes_of t a) \<le> 1)"

definition store_ok :: "tables \<Rightarrow> bool" where
  "store_ok t \<longleftrightarrow> actions_remembered t \<and> deploys_known t \<and> one_outcome t"

lemma store_ok_new: "store_ok (fs_tables (new_fake_store b))"
  by (simp add: store_ok_def actions_remembered_def deploys_known_def one_outcome_def outcomes_of_def
      new_fake_store_def)

text \<open>Making up rows of services and incidents keeps the invariants: the new rows have no
  deployment.\<close>

lemma store_ok_rows:
  assumes "store_ok t" "tb_deploys t' = tb_deploys t" "tb_episodes t' = tb_episodes t"
    "tb_actions t' = tb_actions t"
    "\<And>i sv. map_of (tb_services t') i = Some sv \<Longrightarrow>
      map_of (tb_services t) i = Some sv \<or> sv_current_deploy_id sv = None"
  shows "store_ok t'"
  using assms unfolding store_ok_def actions_remembered_def one_outcome_def outcomes_of_def
  by (auto simp: deploys_known_def) (metis option.distinct(1))

lemma store_ok_seed: "store_ok (fs_tables s) \<Longrightarrow> store_ok (fs_tables (seed sv ic cited org s))"
  by (rule store_ok_rows [of "fs_tables s"]) (auto simp: seed_def degraded_service_def split: if_splits)

lemma store_ok_seed_missing: "store_ok (fs_tables s) \<Longrightarrow> store_ok (fs_tables (seed_missing c s))"
  by (rule store_ok_rows [of "fs_tables s"]) (auto simp: seed_missing_def degraded_service_def split: if_splits)

lemma fresh_seed_missing: "fresh_for ids (fs_tables s) \<Longrightarrow> fresh_for ids (fs_tables (seed_missing c s))"
  by (simp add: fresh_for_def seed_missing_def)

lemma outcomes_of_append:
  "map_of (tb_episodes t) i = None \<Longrightarrow> tb_episodes t' = AList.update i ep (tb_episodes t) \<Longrightarrow>
   outcomes_of t' a = outcomes_of t a @ (if is_outcome_of a ep then [(i, ep)] else [])"
  by (simp add: outcomes_of_def dict_update_absent)

lemma store_ok_remediation:
  assumes ok: "store_ok (fs_tables s)" and fresh: "fresh_for ids (fs_tables s)"
    and stage: "stage_remediation ids c v s = Inr t"
  shows "store_ok t"
proof -
  obtain service incident where e:
    "tb_services t = AList.update (cmd_service_id c)
      (service\<lparr>sv_status := ''recovering'', sv_current_deploy_id := Some (new_deploy_id ids)\<rparr>) (tb_services (fs_tables s))"
    "tb_deploys t = AList.update (new_deploy_id ids) (new_deploy c) (tb_deploys (fs_tables s))"
    "tb_episodes t = AList.update (new_event_id ids) (action_episode ids c v) (tb_episodes (fs_tables s))"
    "tb_actions t = AList.update (new_action_id ids) (applied_action ids c) (tb_actions (fs_tables s))"
    by (rule stage_remediation_effect [OF stage])
  have "actions_remembered t"
    unfolding actions_remembered_def
  proof (intro allI impI)
    fix i a
    assume a: "map_of (tb_actions t) i = Some a"
    show "\<exists>ep. map_of (tb_episodes t) (ac_memory_ref a) = Some ep \<and> ep_event_type ep = ''action'' \<and>
        ep_incident_id ep = ac_incident_id a \<and> ep_service_id ep = ac_target_id a"
    proof (cases "i = new_action_id ids")
      case True
      with a have "a = applied_action ids c" by (simp add: e)
      then show ?thesis by (simp add: e applied_action_def action_episode_def)
    next
      case False
      with a ok obtain ep where "map_of (tb_episodes (fs_tables s)) (ac_memory_ref a) = Some ep"
          "ep_event_type ep = ''action''" "ep_incident_id ep = ac_incident_id a" "ep_service_id ep = ac_target_id a"
        by (fastforce simp: store_ok_def actions_remembered_def e)
      moreover from this fresh have "ac_memory_ref a \<noteq> new_event_id ids" by (auto simp: fresh_for_def)
      ultimately show ?thesis by (simp add: e)
    qed
  qed
  moreover have "deploys_known t"
    using ok fresh unfolding store_ok_def deploys_known_def e fresh_for_def
    by (auto simp: new_deploy_def) fastforce
  moreover have "one_outcome t"
    using ok fresh unfolding store_ok_def one_outcome_def fresh_for_def
    by (simp add: outcomes_of_append [OF _ e(3)]) (simp add: is_outcome_of_def action_episode_def)
  ultimately show ?thesis by (simp add: store_ok_def)
qed

lemma outcomes_of_none:
  "find (\<lambda>(i, ep). is_outcome_of a ep) (tb_episodes t) = None \<Longrightarrow> is_outcome_of b ep \<Longrightarrow> is_outcome_of a ep \<Longrightarrow>
   outcomes_of t b = []"
  by (auto simp: find_None_iff outcomes_of_def filter_empty_conv is_outcome_of_def)

lemma outcome_episode_is: "is_outcome_of (oc_action_id c) (outcome_episode c v action incident)"
  by (simp add: is_outcome_of_def outcome_episode_def pget_def dict_get_def)

lemma store_ok_outcome:
  assumes ok: "store_ok (fs_tables s)" and fresh: "map_of (tb_episodes (fs_tables s)) i = None"
    and stage: "stage_outcome i c v s = Inr (r, Some t)"
  shows "store_ok t"
proof -
  obtain incident action ep where e:
    "find (\<lambda>(i, ep). is_outcome_of (oc_action_id c) ep) (tb_episodes (fs_tables s)) = None"
    "map_of (tb_actions (fs_tables s)) (oc_action_id c) = Some action"
    "tb_episodes t = AList.update i ep (tb_episodes (fs_tables s))" "is_outcome_of (oc_action_id c) ep"
    "tb_actions t = AList.update (oc_action_id c) (action\<lparr>ac_outcome := outcome_value (oc_outcome c)\<rparr>)
       (tb_actions (fs_tables s))"
    "tb_services t = tb_services (fs_tables s)" "tb_deploys t = tb_deploys (fs_tables s)"
    using stage_outcome_commit [OF stage] outcome_episode_is by metis
  have "actions_remembered t"
    unfolding actions_remembered_def
  proof (intro allI impI)
    fix j a
    assume "map_of (tb_actions t) j = Some a"
    then obtain b where b: "map_of (tb_actions (fs_tables s)) j = Some b" "ac_memory_ref a = ac_memory_ref b"
        "ac_incident_id a = ac_incident_id b" "ac_target_id a = ac_target_id b"
      using e(2) by (auto simp: e(5) split: if_splits)
    then obtain ep' where "map_of (tb_episodes (fs_tables s)) (ac_memory_ref b) = Some ep'"
        "ep_event_type ep' = ''action''" "ep_incident_id ep' = ac_incident_id b" "ep_service_id ep' = ac_target_id b"
      using ok by (fastforce simp: store_ok_def actions_remembered_def)
    with b fresh show "\<exists>ep. map_of (tb_episodes t) (ac_memory_ref a) = Some ep \<and> ep_event_type ep = ''action'' \<and>
        ep_incident_id ep = ac_incident_id a \<and> ep_service_id ep = ac_target_id a"
      by (auto simp: e(3))
  qed
  moreover have "deploys_known t" using ok by (simp add: store_ok_def deploys_known_def e(6,7))
  moreover have "one_outcome t"
    unfolding one_outcome_def
  proof
    fix a
    have "outcomes_of t a = outcomes_of (fs_tables s) a @ (if is_outcome_of a ep then [(i, ep)] else [])"
      by (rule outcomes_of_append [OF fresh e(3)])
    moreover have "is_outcome_of a ep \<Longrightarrow> outcomes_of (fs_tables s) a = []"
      using outcomes_of_none [OF e(1)] e(4) by blast
    ultimately show "length (outcomes_of t a) \<le> 1"
      using ok by (auto simp: store_ok_def one_outcome_def)
  qed
  ultimately show ?thesis by (simp add: store_ok_def)
qed

lemma store_ok_step: "store_step s s' \<Longrightarrow> store_ok (fs_tables s) \<Longrightarrow> store_ok (fs_tables s')"
proof (induction rule: store_step.induct)
  case (step_remediate ids s now c v)
  show ?case
    by (cases rule: remediate_cases [where c = c and v = v and ids = ids and s = s and now = now])
      (use step_remediate store_ok_seed_missing [of s c] fresh_seed_missing [of ids s c] in
        \<open>auto intro: store_ok_remediation\<close>)
next
  case (step_outcome s i c v)
  show ?case
  proof (cases "length v = 1024")
    case True
    then show ?thesis
      by (cases rule: record_outcome_cases [OF True, where i = i and c = c and s = s]) (use step_outcome in \<open>auto intro: store_ok_outcome\<close>)
  next
    case False
    with step_outcome show ?thesis by (simp add: record_outcome_def prog_simps)
  qed
qed (auto intro: store_ok_seed)

lemma store_reach_ok: "store_reach b s \<Longrightarrow> store_ok (fs_tables s)"
  by (induction rule: store_reach.induct) (auto intro: store_ok_new store_ok_step)

end
