(* ===== verification/Be_Runtime.thy ===== *)
theory Be_Runtime
  imports Be_Trace Be_Store
begin

text \<open>
  The local runtime (\<^verbatim>\<open>build_runtime\<close> of \<^verbatim>\<open>backend/src/postmortem_backend/runtime.py\<close> with
  \<open>runtime_mode = "fake"\<close>): the responder and the outcome service wired to the local adapters and
  the event broker. It is the model of the world with a log, and a turn on it goes through.
\<close>

section \<open>The world of the local adapters\<close>

text \<open>\<open>lw_next\<close> counts the UUIDs drawn: \<open>uuid4\<close> and \<open>clock\<close> map it to a UUID and to the time.\<close>

record local_world =
  lw_broker :: broker
  lw_recall :: fake_recall
  lw_store :: fake_store
  lw_next :: nat

definition on_broker :: "(broker, be_error, 'a) prog \<Rightarrow> (local_world, be_error, 'a) prog" where
  "on_broker m = (\<lambda>w. case m (lw_broker w) of (r, b) \<Rightarrow> (r, w\<lparr>lw_broker := b\<rparr>))"

definition on_recall :: "(fake_recall, be_error, 'a) prog \<Rightarrow> (local_world, be_error, 'a) prog" where
  "on_recall m = (\<lambda>w. case m (lw_recall w) of (r, b) \<Rightarrow> (r, w\<lparr>lw_recall := b\<rparr>))"

definition on_store :: "(fake_store, be_error, 'a) prog \<Rightarrow> (local_world, be_error, 'a) prog" where
  "on_store m = (\<lambda>w. case m (lw_store w) of (r, b) \<Rightarrow> (r, w\<lparr>lw_store := b\<rparr>))"

definition draw :: "nat \<Rightarrow> local_world \<Rightarrow> local_world" where
  "draw k w = w\<lparr>lw_next := lw_next w + k\<rparr>"

definition ids_from :: "(nat \<Rightarrow> uuid) \<Rightarrow> nat \<Rightarrow> fresh_ids" where
  "ids_from uuid4 n = \<lparr>new_deploy_id = uuid4 n, new_event_id = uuid4 (n + 1),
     new_action_id = uuid4 (n + 2), new_transaction_id = uuid4 (n + 3)\<rparr>"

definition local_remediate :: "(nat \<Rightarrow> uuid) \<Rightarrow> (nat \<Rightarrow> datetime) \<Rightarrow> command \<Rightarrow> real list \<Rightarrow>
    (local_world, be_error, remediation_result) prog" where
  "local_remediate uuid4 clock c v =
     andThen (reads lw_next) (\<lambda>n.
     andThen (modifies (draw 4)) (\<lambda>_.
     on_store (guarded_remediation (remediate_and_record (ids_from uuid4 n) (clock n)) None c v)))"

definition stamp_next :: "(nat \<Rightarrow> uuid) \<Rightarrow> (nat \<Rightarrow> datetime) \<Rightarrow> local_world \<Rightarrow> (uuid \<times> datetime) \<times> local_world" where
  "stamp_next uuid4 clock w = ((uuid4 (lw_next w), clock (lw_next w)), draw 1 w)"

definition local_ports :: "pylib \<Rightarrow> (nat \<Rightarrow> uuid) \<Rightarrow> (nat \<Rightarrow> datetime) \<Rightarrow> bool \<Rightarrow> local_world ports" where
  "local_ports lib uuid4 clock cold_start = \<lparr>
     p_embed = (\<lambda>t. ret (fake_embed t)),
     p_recall = (\<lambda>q. if cold_start then ret (cold_start_recall True q) else on_recall (fake_recall_run q)),
     p_decide = (\<lambda>s memory. lift_result (fake_decide lib s memory)),
     p_remediate = local_remediate uuid4 clock,
     p_publish = (\<lambda>e. on_broker (publish e)),
     p_stamp = stamp_next uuid4 clock,
     p_now = (\<lambda>w. clock (lw_next w))\<rparr>"

definition local_outcome_ports :: "(nat \<Rightarrow> uuid) \<Rightarrow> (nat \<Rightarrow> datetime) \<Rightarrow> local_world outcome_ports" where
  "local_outcome_ports uuid4 clock = \<lparr>
     o_embed = (\<lambda>t. ret (fake_embed t)),
     o_record = (\<lambda>c v. andThen (reads lw_next) (\<lambda>n.
       andThen (modifies (draw 1)) (\<lambda>_. on_store (record_outcome (uuid4 n) c v)))),
     o_publish = (\<lambda>e. on_broker (publish e)),
     o_stamp = stamp_next uuid4 clock,
     o_now = (\<lambda>w. clock (lw_next w))\<rparr>"

definition new_local_world :: local_world where
  "new_local_world = \<lparr>lw_broker = new_broker default_history_limit default_subscriber_queue_limit,
     lw_recall = \<lparr>fr_bundle = phase_one_demo_memory, fr_queries = []\<rparr>,
     lw_store = new_fake_store True, lw_next = 0\<rparr>"

text \<open>\<open>GET /v1/incidents/{incident_id}\<close>\<close>

definition incident_endpoint :: "registry \<times> local_world \<Rightarrow> uuid \<Rightarrow> incident_view option" where
  "incident_endpoint st i = registry_view (fst st) i (length (history (lw_broker (snd st)) i))"

section \<open>The log\<close>

definition broker_bound :: "nat \<Rightarrow> local_world \<Rightarrow> bool" where
  "broker_bound n w \<longleftrightarrow> br_history_limit (lw_broker w) = int n"

lemma on_store_keeps [simp]:
  "lw_broker (snd (on_store m w)) = lw_broker w" "lw_recall (snd (on_store m w)) = lw_recall w"
  "lw_next (snd (on_store m w)) = lw_next w" "lw_store (snd (on_store m w)) = snd (m (lw_store w))"
  "fst (on_store m w) = fst (m (lw_store w))"
  by (simp_all add: on_store_def case_prod_beta)

lemma on_recall_keeps [simp]:
  "lw_broker (snd (on_recall m w)) = lw_broker w" "lw_store (snd (on_recall m w)) = lw_store w"
  by (simp_all add: on_recall_def case_prod_beta)

lemma draw_keeps [simp]:
  "lw_broker (draw k w) = lw_broker w" "lw_recall (draw k w) = lw_recall w" "lw_store (draw k w) = lw_store w"
  by (simp_all add: draw_def)

lemma publish_returns: "0 \<le> br_history_limit b \<Longrightarrow> fst (publish e b) = Inr ()"
  by (simp add: publish_run)

interpretation local_log: logged_world "local_ports lib uuid4 clock cold" i n
  "\<lambda>w. history (lw_broker w) i" "broker_bound n" for lib uuid4 clock cold i n
proof
  show "fst (p_publish (local_ports lib uuid4 clock cold) e w) = Inr () \<and>
      broker_bound n (snd (p_publish (local_ports lib uuid4 clock cold) e w)) \<and>
      last_n n (history (lw_broker (snd (p_publish (local_ports lib uuid4 clock cold) e w))) i) =
        last_n n (history (lw_broker w) i @ [e])"
    if "broker_bound n w" "aev_incident_id e = i" for w e
    using that publish_returns [of "lw_broker w" e]
    by (simp add: local_ports_def on_broker_def broker_bound_def case_prod_beta history_publish)
  show "broker_bound n (snd (p_remediate (local_ports lib uuid4 clock cold) c v w)) \<and>
      history (lw_broker (snd (p_remediate (local_ports lib uuid4 clock cold) c v w))) i = history (lw_broker w) i"
    if "broker_bound n w" for w c v
    using that by (simp add: local_ports_def local_remediate_def run_step broker_bound_def)
qed (simp_all add: local_ports_def broker_bound_def stamp_next_def run_prog run_lift_result split: if_splits)

section \<open>A turn that goes through\<close>

text \<open>An event changes the broker and draws a UUID; it leaves the store and the recall alone.\<close>

definition same_services :: "local_world \<Rightarrow> local_world \<Rightarrow> bool" where
  "same_services w w' \<longleftrightarrow> lw_store w' = lw_store w \<and> lw_recall w' = lw_recall w \<and>
     br_history_limit (lw_broker w') = br_history_limit (lw_broker w)"

lemma same_services_trans [trans]: "same_services u v \<Longrightarrow> same_services v w \<Longrightarrow> same_services u w"
  by (simp add: same_services_def)

lemma local_event:
  assumes "0 \<le> br_history_limit (lw_broker w)"
  obtains w' where "event (local_ports lib uuid4 clock cold) s ty stage message data (r, w) = (Inr (), (r, w'))"
    "same_services w w'"
proof
  let ?P = "local_ports lib uuid4 clock cold"
  let ?w = "snd (snd (event ?P s ty stage message data (r, w)))"
  show "event ?P s ty stage message data (r, w) = (Inr (), (r, ?w))"
    using assms publish_returns
    by (simp add: event_def run_on_snd run_andThen local_ports_def stamp_next_def on_broker_def case_prod_beta)
  show "same_services w ?w"
    by (simp add: event_def run_on_snd run_andThen local_ports_def stamp_next_def on_broker_def case_prod_beta
        same_services_def)
qed

lemma length_fake_embed [simp]: "length (fake_embed t) = 1024"
proof -
  have "length (foldl (\<lambda>v (i, b). v[i mod fake_dimension := v ! (i mod fake_dimension) + (real b + 1) / 256]) v ps) =
      length v" for v :: "real list" and ps :: "(nat \<times> nat) list"
    by (induction ps arbitrary: v) auto
  then show ?thesis by (simp add: fake_embed_def Let_def fake_dimension_def)
qed

definition demo_runbook :: memory_candidate where
  "demo_runbook = hd (bun_runbooks phase_one_demo_memory)"

definition demo_command :: "pylib \<Rightarrow> signal \<Rightarrow> command" where
  "demo_command lib s = fake_command lib s demo_runbook Rollback"

definition demo_decision :: "pylib \<Rightarrow> signal \<Rightarrow> decision" where
  "demo_decision lib s = \<lparr>dec_kind = Remediate, dec_explanation = cmd_rationale (demo_command lib s),
     dec_cited_memory_id = Some demo_runbook_id, dec_command = Some (demo_command lib s), dec_confidence = 0.94\<rparr>"

lemma demo_decided: "fake_decide lib s phase_one_demo_memory = Inr (demo_decision lib s)"
  by (simp add: fake_decide_def best_candidate_def actionable_def dict_get_def metadata_action_def action_of_str_def
      demo_decision_def demo_command_def demo_runbook_def phase_one_demo_memory_def Let_def)

lemma demo_command_fields:
  "cmd_action (demo_command lib s) = Rollback" "cmd_requires_human_approval (demo_command lib s) = False"
  "cmd_cited_memory_id (demo_command lib s) = demo_runbook_id" "cmd_service_id (demo_command lib s) = sig_service_id s"
  "cmd_incident_id (demo_command lib s) = sig_incident_id s" "cmd_org_id (demo_command lib s) = sig_org_id s"
  by (simp_all add: demo_command_def fake_command_def demo_runbook_def phase_one_demo_memory_def dict_get_def)

lemma demo_recalled: "\<exists>data. recall_completed_data lib s phase_one_demo_memory = Inr data"
  by (simp add: recall_completed_data_def phase_one_demo_memory_def all_candidates_def rejected_count_def
      recall_item_def console_score_def dict_get_def pget_def)

text \<open>A world as the local runtime starts it, but for its events.\<close>

definition fresh_services :: "local_world \<Rightarrow> bool" where
  "fresh_services w \<longleftrightarrow> lw_store w = new_fake_store True \<and> fr_bundle (lw_recall w) = phase_one_demo_memory \<and>
     0 \<le> br_history_limit (lw_broker w)"

lemma fresh_services_same: "same_services w w' \<Longrightarrow> fresh_services w \<Longrightarrow> fresh_services w'"
  by (simp add: same_services_def fresh_services_def)

lemma fresh_new: "fresh_services new_local_world"
  by (simp add: fresh_services_def new_local_world_def new_broker_def default_history_limit_def)

lemma local_event_fresh:
  assumes "fresh_services w"
  obtains w' where "event (local_ports lib uuid4 clock cold) s ty stage message data (r, w) = (Inr (), (r, w'))"
    "fresh_services w'"
proof -
  have "0 \<le> br_history_limit (lw_broker w)" using assms by (simp add: fresh_services_def)
  then obtain w' where "event (local_ports lib uuid4 clock cold) s ty stage message data (r, w) = (Inr (), (r, w'))"
      "same_services w w'" by (rule local_event)
  with assms that show thesis using fresh_services_same by blast
qed

lemma local_recall_phase:
  assumes w: "fresh_services w"
    and warm: "\<not> py_truthy (dict_get (sig_metadata s) ''cold_start'' (PBool False))"
    and guard: "guard_untrusted_recall_bundle lib phase_one_demo_memory = Inr phase_one_demo_memory"
  obtains w' where "recall_phase lib (local_ports lib uuid4 clock False) s (r, w) = (Inr phase_one_demo_memory, (r, w'))"
    "fresh_services w'"
proof -
  let ?P = "local_ports lib uuid4 clock False"
  obtain data where data: "recall_completed_data lib s phase_one_demo_memory = Inr data"
    using demo_recalled by blast
  obtain w1 where w1: "event ?P s Recall_started ''recall'' ''Embedding incident signature.''
      [(''query_summary'', PStr (recall_text s)), (''duration_ms'', PInt 0), (''results'', PList [])] (r, w) = (Inr (), (r, w1))"
      "fresh_services w1"
    by (rule local_event_fresh [OF w])
  let ?q = "\<lparr>qry_org_id = sig_org_id s, qry_agent_id = sig_agent_id s,
       qry_service_id = sig_service_id s, qry_text = recall_text s, qry_embedding = fake_embed (recall_text s),
       qry_k = 8, qry_service_tags = sig_service_tags s, qry_error_signature = sig_error_signature s,
       qry_as_of = sig_observed_at s, qry_cold_start = False, qry_current_incident_id = Some (sig_incident_id s)\<rparr>"
  let ?w2 = "w1\<lparr>lw_recall := (lw_recall w1)\<lparr>fr_queries := fr_queries (lw_recall w1) @ [?q]\<rparr>\<rparr>"
  have "p_recall ?P ?q w1 = (Inr phase_one_demo_memory, ?w2)"
    using w1(2) by (simp add: local_ports_def on_recall_def fake_recall_run_def run_step run_prog fresh_services_def)
  moreover have "p_embed ?P t w' = (Inr (fake_embed t), w')" for t w'
    by (simp add: local_ports_def run_prog)
  moreover have "fresh_services ?w2" using w1(2) by (simp add: fresh_services_def)
  then obtain w3 where "event ?P s Recall_completed ''recall'' ''Recalled scoped organizational memory.'' data (r, ?w2) =
      (Inr (), (r, w3))" "fresh_services w3"
    by (rule local_event_fresh)
  ultimately show thesis
    using w1 warm guard data by (intro that [of w3]) (simp_all add: recall_phase_def run_andThen run_on_snd run_prog)
qed

lemma local_reason_phase:
  assumes w: "fresh_services w"
  obtains w' where "reason_phase (local_ports lib uuid4 clock False) s phase_one_demo_memory (r, w) =
      (Inr (demo_decision lib s), (r, w'))" "fresh_services w'"
proof -
  let ?P = "local_ports lib uuid4 clock False"
  obtain w1 where w1: "event ?P s Reasoning_started ''reason'' ''Selecting a grounded response.'' [] (r, w) = (Inr (), (r, w1))"
      "fresh_services w1" by (rule local_event_fresh [OF w])
  let ?d = "demo_decision lib s"
  obtain w2 where w2: "event ?P s Decision_proposed ''reason'' (dec_explanation ?d)
       [(''decision'', PStr (decision_str (dec_kind ?d))), (''confidence'', PFloat (dec_confidence ?d)),
        (''cited_memory_id'', opt_uuid (dec_cited_memory_id ?d)),
        (''cited_runbook_id'', opt_uuid (case dec_command ?d of None \<Rightarrow> None | Some c \<Rightarrow> cmd_runbook_id c))] (r, w1) =
      (Inr (), (r, w2))" "fresh_services w2" by (rule local_event_fresh [OF w1(2)])
  have "p_decide ?P s phase_one_demo_memory w1 = (Inr ?d, w1)"
    by (simp add: local_ports_def run_lift_result demo_decided)
  with w1 w2 show thesis by (intro that [of w2]) (simp_all add: reason_phase_def run_andThen run_on_snd run_prog)
qed

text \<open>The store of a fresh runtime makes up the rows it needs and commits.\<close>

lemma fresh_store_commits:
  assumes "cmd_action c = Rollback" "\<not> cmd_requires_human_approval c" "length v = 1024"
  shows "\<exists>r s'. remediate_and_record ids now c v (new_fake_store True) = (Inr r, s') \<and> fs_commit_count s' = 1 \<and>
    map fst (tb_actions (fs_tables s')) = [new_action_id ids]"
  using assms
  by (simp add: remediate_and_record_def prog_simps validate_command_def supported_actions_def stage_remediation_def
      seed_missing_def new_fake_store_def dict_setdefault_def degraded_service_def open_incident_row_def injected_def
      Let_def split: option.splits)

text \<open>The command the reasoner proposes for the demo memory.\<close>

lemma demo_authorized:
  assumes "\<not> is_critical_tier_service tags"
  shows "\<exists>a. authorize_action ((demo_command lib s)\<lparr>cmd_approved := approved\<rparr>) approved approver tags now = Inr a"
  using assms by (simp add: authorize_action_iff authorized_def is_high_blast_radius_def demo_command_fields
      high_blast_radius_actions_def)

lemma local_execute:
  assumes w: "fresh_services w" and c: "c = (demo_command lib s)\<lparr>cmd_approved := approved\<rparr>"
    and tags: "\<not> is_critical_tier_service (sig_service_tags s)"
  obtains res w' where "execute lib (local_ports lib uuid4 clock False) s c approver ((r, w), False) =
      (Inr res, ((r, w'), True))" "fs_commit_count (lw_store w') = 1" "0 \<le> br_history_limit (lw_broker w')"
proof -
  let ?P = "local_ports lib uuid4 clock False"
  obtain a where a: "authorize_action c approved approver (sig_service_tags s) (clock (lw_next w)) = Inr a"
    using demo_authorized [OF tags] c by blast
  obtain w1 where w1: "event ?P s Transaction_started ''act+record''
       ''Starting atomic operational action and episodic append.''
       [(''action'', PStr (action_str (cmd_action c))), (''transaction_id'', PStr (uuid_str (cmd_incident_id c))),
        (''authorization'', PDict (approval_dict lib a))] (r, w) = (Inr (), (r, w1))" "fresh_services w1"
    by (rule local_event_fresh [OF w])
  have valid: "cmd_action c = Rollback" "\<not> cmd_requires_human_approval c" "cmd_cited_memory_id c = demo_runbook_id"
    by (simp_all add: c demo_command_fields)
  obtain res st where st: "remediate_and_record (ids_from uuid4 (lw_next w1)) (clock (lw_next w1)) c
      (fake_embed (memory_text c)) (new_fake_store True) = (Inr res, st)" "fs_commit_count st = 1"
    using fresh_store_commits [OF valid(1,2) length_fake_embed, of "ids_from uuid4 (lw_next w1)" "clock (lw_next w1)"]
    by blast
  have grounded: "require_grounded_action c None = Inr ()"
    by (simp add: require_grounded_iff valid(3) demo_runbook_id_def nil_uuid_def)
  let ?w2 = "(draw 4 w1)\<lparr>lw_store := st\<rparr>"
  have rem: "p_remediate ?P c (fake_embed (memory_text c)) w1 = (Inr res, ?w2)"
    using w1(2) st(1) grounded
    by (simp add: local_ports_def local_remediate_def run_step on_store_def guarded_remediation_def fresh_services_def)
  have "0 \<le> br_history_limit (lw_broker ?w2)" using w1(2) by (simp add: fresh_services_def)
  then obtain w3 where w3: "event ?P s Transaction_committed ''act+record''
       ''Operational action and memory committed together.''
       [(''action_id'', PStr (uuid_str (res_action_id res))), (''transaction_id'', PStr (uuid_str (res_transaction_id res))),
        (''deploy_id'', PStr (uuid_str (res_deploy_id res))), (''event_id'', PStr (uuid_str (res_event_id res))),
        (''committed_at'', PStr (lib_isoformat lib (res_committed_at res)))] (r, ?w2) = (Inr (), (r, w3))"
      "same_services ?w2 w3"
    by (rule local_event)
  have now: "p_now ?P w' = clock (lw_next w')" for w'
    by (simp add: local_ports_def)
  have emb: "p_embed ?P t w' = (Inr (fake_embed t), w')" for t w'
    by (simp add: local_ports_def run_prog)
  have appr: "cmd_approved c = approved" by (simp add: c)
  have "execute lib ?P s c approver ((r, w), False) = (Inr res, ((r, w3), True))"
    using a w1(1) rem w3(1)
    by (simp add: execute_def run_andThen run_on_fst run_on_snd run_prog run_lift_result now emb appr)
  moreover have "fs_commit_count (lw_store w3) = 1" "0 \<le> br_history_limit (lw_broker w3)"
    using w3(2) st(2) w1(2) by (simp_all add: same_services_def fresh_services_def)
  ultimately show thesis by (rule that)
qed

lemma local_act_phase:
  assumes w: "fresh_services w" and tags: "\<not> is_critical_tier_service (sig_service_tags s)"
  obtains d res w' where "act_phase lib (local_ports lib uuid4 clock False) s phase_one_demo_memory (demo_decision lib s)
      approved approver ((r, w), False) = (Inr (d, Some res), ((r, w'), True))"
    "fs_commit_count (lw_store w') = 1" "0 \<le> br_history_limit (lw_broker w')"
proof -
  let ?P = "local_ports lib uuid4 clock False"
  let ?c = "(demo_command lib s)\<lparr>cmd_approved := approved\<rparr>"
  obtain w1 where w1: "propose ?P s ?c (r, w) = (Inr (), (r, w1))" "fresh_services w1"
    unfolding propose_def by (rule local_event_fresh [OF w])
  obtain res w2 where w2: "execute lib ?P s ?c approver ((r, w1), False) = (Inr res, ((r, w2), True))"
      "fs_commit_count (lw_store w2) = 1" "0 \<le> br_history_limit (lw_broker w2)"
    by (rule local_execute [OF w1(2) refl tags])
  have grounded: "require_grounded_action ?c (Some (map mem_memory_id (all_candidates phase_one_demo_memory))) = Inr ()"
    by (simp add: require_grounded_iff demo_command_fields all_candidates_def phase_one_demo_memory_def
        demo_runbook_id_def nil_uuid_def)
  have "dec_command (demo_decision lib s) = Some (demo_command lib s)" "dec_kind (demo_decision lib s) = Remediate"
    by (simp_all add: demo_decision_def)
  with w1(1) w2 grounded show thesis
    by (intro that [of "(demo_decision lib s)\<lparr>dec_command := Some ?c\<rparr>" res w2])
      (simp_all add: act_phase_def Let_def resolve_decision_tool_total demo_command_fields run_andThen run_on_fst run_prog run_lift_result)
qed

theorem local_turn_commits:
  assumes clean: "sanitize_signal lib signal = Inr s"
    and w: "fresh_services w"
    and warm: "\<not> py_truthy (dict_get (sig_metadata signal) ''cold_start'' (PBool False))"
    and tags: "\<not> is_critical_tier_service (sig_service_tags s)"
    and guard: "guard_untrusted_recall_bundle lib phase_one_demo_memory = Inr phase_one_demo_memory"
  shows "\<exists>out reg' w'. handle lib (local_ports lib uuid4 clock False) signal approved approver (reg, w) = (Inr out, (reg', w')) \<and>
    rsp_remediation out \<noteq> None \<and> fs_commit_count (lw_store w') = 1"
proof -
  let ?P = "local_ports lib uuid4 clock False"
  have warm': "\<not> py_truthy (dict_get (sig_metadata s) ''cold_start'' (PBool False))"
    using warm sanitize_signal_clean(2) [OF clean] by simp
  obtain w1 where w1: "event ?P s Incident_received ''perceive'' (''Received '' @ sig_severity s @ '' incident.'')
       [(''service'', PStr (uuid_str (sig_service_id s))), (''service_id'', PStr (uuid_str (sig_service_id s))),
        (''severity'', PStr (sig_severity s)), (''status'', PStr ''open''), (''summary'', PStr (sig_summary s))]
       (received s reg, w) = (Inr (), (received s reg, w1))" "fresh_services w1"
    by (rule local_event_fresh [OF w])
  obtain w2 where w2: "recall_phase lib ?P s (received s reg, w1) = (Inr phase_one_demo_memory, (received s reg, w2))"
      "fresh_services w2"
    by (rule local_recall_phase [OF w1(2) warm' guard])
  obtain w3 where w3: "reason_phase ?P s phase_one_demo_memory (received s reg, w2) =
      (Inr (demo_decision lib s), (received s reg, w3))" "fresh_services w3"
    by (rule local_reason_phase [OF w2(2)])
  obtain d res w4 where w4: "act_phase lib ?P s phase_one_demo_memory (demo_decision lib s) approved approver
      ((received s reg, w3), False) = (Inr (d, Some res), ((received s reg, w4), True))"
      "fs_commit_count (lw_store w4) = 1" "0 \<le> br_history_limit (lw_broker w4)"
    by (rule local_act_phase [OF w3(2) tags])
  let ?result = "\<lparr>rsp_incident_id = sig_incident_id s, rsp_decision = d, rsp_remediation = Some res\<rparr>"
  obtain w5 where w5: "complete_phase ?P s d (Some res) (received s reg, w4) =
      (Inr ?result, (completed ?result (received s reg), w5))" "same_services w4 w5"
  proof -
    obtain w5 where "event ?P s Response_completed ''record'' ''Responder turn completed.''
       [(''remediated'', PBool (Some res \<noteq> None)), (''memory_id'', opt_uuid (map_option res_event_id (Some res))),
        (''summary'', PStr (if Some res \<noteq> None
          then ''Action outcome recorded atomically with operational state.'' else dec_explanation d)),
        (''freshness_ms'', PInt 0), (''stale_reads_observed'', PInt 0)] (completed ?result (received s reg), w4) =
        (Inr (), (completed ?result (received s reg), w5))" "same_services w4 w5"
      by (rule local_event [OF w4(3)])
    then show thesis by (intro that [of w5]) (simp_all add: complete_phase_def Let_def run_andThen run_prog)
  qed
  have "turn lib ?P s approved approver ((received s reg, w1), False) =
      (Inr ?result, ((completed ?result (received s reg), w5), True))"
    using w2(1) w3(1) w4(1) w5(1) by (simp add: turn_def run_andThen run_on_fst)
  then have "handle lib ?P signal approved approver (reg, w) = (Inr ?result, (completed ?result (received s reg), w5))"
    using clean w1(1) by (simp add: handle_def guarded_turn_def run_step) (simp add: run_andThen guarded_turn_def)
  moreover have "fs_commit_count (lw_store w5) = 1" using w5(2) w4(2) by (simp add: same_services_def)
  ultimately show ?thesis by simp
qed

end
