(* ===== verification/Be_Claims.thy ===== *)
theory Be_Claims
  imports Be_Runtime
begin

text \<open>
  The properties of the responder: what its ports are asked, which events a turn publishes, what the
  local store promises, what recall admits and chooses, and what the guardrails let through. Each is
  followed by an instance on concrete inputs.
\<close>

section \<open>Concrete inputs\<close>

definition demo_signal :: signal where
  "demo_signal = \<lparr>sig_incident_id = UUID 1, sig_session_id = UUID 2, sig_org_id = UUID 3,
     sig_agent_id = UUID 4, sig_service_id = UUID 5, sig_severity = ''SEV-1'',
     sig_summary = ''5xx spike'', sig_error_signature = Some ''http-500'', sig_service_tags = [''search''],
     sig_observed_at = Zoned 0 0, sig_metadata = []\<rparr>"

definition demo_uuid :: "nat \<Rightarrow> uuid" where
  "demo_uuid k = UUID (1000 + k)"

definition demo_clock :: "nat \<Rightarrow> datetime" where
  "demo_clock k = Zoned (int k) 0"

lemma demo_content:
  "guard_text plain_lib f (''A post-deploy 5xx spike was resolved by rolling back the canary '' @
     ''to the last-known-good version.'') = Inr (''A post-deploy 5xx spike was resolved by rolling back the canary '' @
     ''to the last-known-good version.'')"
  unfolding guard_text_iff by code_simp

lemma demo_texts:
  "guard_text plain_lib f ''CASE-1878'' = Inr ''CASE-1878''"
  "guard_text plain_lib f ''Rollback canary'' = Inr ''Rollback canary''"
  "guard_text plain_lib f ''rollback'' = Inr ''rollback''"
  "guard_text plain_lib f ''1.4.2'' = Inr ''1.4.2''"
  unfolding guard_text_iff by code_simp+

lemma demo_guard:
  "guard_untrusted_recall_bundle plain_lib phase_one_demo_memory = Inr phase_one_demo_memory"
  using demo_content
  by (simp add: guard_untrusted_recall_bundle_def phase_one_demo_memory_def guard_untrusted_memory_candidate_def
      scan_metadata_def demo_texts)

lemma demo_sanitized: "sanitize_signal plain_lib demo_signal = Inr demo_signal"
  by code_simp

lemma demo_signal_incident: "sig_incident_id demo_signal = UUID 1"
  by (simp add: demo_signal_def)

section \<open>The gates of a turn\<close>

text \<open>C1. The remediation port of a turn is asked only for granted commands: replace it by any
  program that agrees with it on the commands whose citation is among the memories the recall port can
  give, that carry the approval of the request, and that need no approval or have that of a named
  human; no turn, whatever its outcome, can tell the difference.\<close>

theorem be_only_granted_commands:
  assumes "\<And>c. granted recalled (map (scrub_control_characters lib) (sig_service_tags signal)) approved approver c \<Longrightarrow>
      f c = p_remediate P c"
    and "\<And>q w b w'. p_recall P q w = (Inr b, w') \<Longrightarrow> mem_memory_id ` set (all_candidates b) \<subseteq> recalled"
  shows "handle lib (P\<lparr>p_remediate := f\<rparr>) signal approved approver = handle lib P signal approved approver"
  using assms
proof (rule handle_granted)
  show "sig_service_tags s = map (scrub_control_characters lib) (sig_service_tags signal)"
    if "sanitize_signal lib signal = Inr s" for s
    using sanitize_signal_clean(2) [OF that] by simp
qed

definition demo_ports :: "local_world ports" where
  "demo_ports = (local_ports plain_lib demo_uuid demo_clock False)\<lparr>p_recall := \<lambda>q. ret phase_one_demo_memory\<rparr>"

definition only_granted :: "command \<Rightarrow> real list \<Rightarrow> (local_world, be_error, remediation_result) prog" where
  "only_granted c = (if granted {demo_runbook_id} [''search''] False None c
     then p_remediate demo_ports c else (\<lambda>_. raise (AtomicRemediationError [])))"

theorem be_only_granted_commands_witness:
  "handle plain_lib (demo_ports\<lparr>p_remediate := only_granted\<rparr>) demo_signal False None =
   handle plain_lib demo_ports demo_signal False None"
proof (rule be_only_granted_commands [of "{demo_runbook_id}"])
  have "scrub_control_characters plain_lib ''search'' = ''search''" by code_simp
  then have tags: "map (scrub_control_characters plain_lib) (sig_service_tags demo_signal) = [''search'']"
    by (simp add: demo_signal_def)
  show "only_granted c = p_remediate demo_ports c"
    if "granted {demo_runbook_id} (map (scrub_control_characters plain_lib) (sig_service_tags demo_signal)) False None c" for c
    using that unfolding tags by (simp add: only_granted_def)
  show "mem_memory_id ` set (all_candidates b) \<subseteq> {demo_runbook_id}" if "p_recall demo_ports q w = (Inr b, w')" for q w b w'
    using that by (auto simp: demo_ports_def run_prog all_candidates_def phase_one_demo_memory_def)
qed



text \<open>C7. The events of a turn: on the local runtime a signal that the screen refuses is answered
  with the refusal and changes nothing: neither the registry of incidents nor the world with its
  histories, so that nothing is published. Every other call of \<open>handle\<close> appends to the history
  of its incident one of the sequences of \<open>handle_events\<close>, decided by the outcome: it starts with
  \<open>incident.received\<close>; a turn that remediates has announced and committed a transaction; a failure ends
  with \<open>transaction.rolled_back\<close> exactly when the transaction had been announced, and with
  \<open>response.failed\<close> otherwise. The history keeps the newest part, up to its bound.\<close>

theorem be_turn_events:
  assumes "0 \<le> br_history_limit (lw_broker w)"
    and "handle lib (local_ports lib uuid4 clock cold) signal approved approver (reg, w) = (out, (reg', w'))"
  shows "case sanitize_signal lib signal of
      Inl e \<Rightarrow> out = Inl e \<and> reg' = reg \<and> w' = w
    | Inr s \<Rightarrow> \<exists>es. handle_events out (map aev_type es) \<and>
        last_n (nat (br_history_limit (lw_broker w))) (history (lw_broker w') (sig_incident_id signal)) =
        last_n (nat (br_history_limit (lw_broker w))) (history (lw_broker w) (sig_incident_id signal) @ es)"
proof -
  let ?n = "nat (br_history_limit (lw_broker w))"
  have "broker_bound ?n w" using assms(1) by (simp add: broker_bound_def)
  from local_log.handle_logged [OF refl this assms(2)] show ?thesis
    by (auto simp: local_log.emits_def split: sum.splits)
qed

theorem be_turn_events_witness:
  "0 \<le> br_history_limit (lw_broker new_local_world) \<and>
   (\<exists>out reg' w' es. handle plain_lib (local_ports plain_lib demo_uuid demo_clock False) demo_signal False None
       (new_registry, new_local_world) = (out, (reg', w')) \<and> handle_events out (map aev_type es) \<and>
     last_n 500 (history (lw_broker w') (UUID 1)) = last_n 500 es)"
proof -
  obtain out reg' w' where run: "handle plain_lib (local_ports plain_lib demo_uuid demo_clock False) demo_signal False None
       (new_registry, new_local_world) = (out, (reg', w'))" by (metis prod.collapse)
  have limit: "br_history_limit (lw_broker new_local_world) = 500" "history (lw_broker new_local_world) i = []" for i
    by (simp_all add: new_local_world_def new_broker_def default_history_limit_def history_def dict_get_def)
  then have "0 \<le> br_history_limit (lw_broker new_local_world)" by simp
  from be_turn_events [OF this run] run this show ?thesis
    by (auto simp: limit demo_sanitized demo_signal_incident)
qed

text \<open>C8. A turn on a fresh local runtime remediates: for every signal that passes the screen, is
  not a cold start and names no critical service, \<open>handle\<close> returns a remediation and the store has
  committed once, whatever the approval given. The library is asked only to leave the demo memory, which
  is ASCII text, as it is.\<close>

theorem be_local_turn_remediates:
  assumes "sanitize_signal lib signal = Inr s" "\<not> is_critical_tier_service (sig_service_tags s)"
    and "\<not> py_truthy (dict_get (sig_metadata signal) ''cold_start'' (PBool False))"
    and "guard_untrusted_recall_bundle lib phase_one_demo_memory = Inr phase_one_demo_memory"
  shows "\<exists>r reg' w'. handle lib (local_ports lib uuid4 clock False) signal approved approver
      (new_registry, new_local_world) = (Inr r, (reg', w')) \<and>
    rsp_remediation r \<noteq> None \<and> fs_commit_count (lw_store w') = 1"
  using assms fresh_new by (intro local_turn_commits) auto

theorem be_local_turn_remediates_witness:
  "sanitize_signal plain_lib demo_signal = Inr demo_signal \<and>
   (\<exists>r reg' w'. handle plain_lib (local_ports plain_lib demo_uuid demo_clock False) demo_signal False None
      (new_registry, new_local_world) = (Inr r, (reg', w')) \<and> rsp_remediation r \<noteq> None \<and> fs_commit_count (lw_store w') = 1)"
proof -
  have "\<not> is_critical_tier_service (sig_service_tags demo_signal)" by code_simp
  moreover have "\<not> py_truthy (dict_get (sig_metadata demo_signal) ''cold_start'' (PBool False))"
    by (simp add: demo_signal_def dict_get_def)
  ultimately show ?thesis
    using be_local_turn_remediates [OF demo_sanitized _ _ demo_guard] demo_sanitized by blast
qed

section \<open>The local store\<close>

text \<open>C11. A remediation of the local store is atomic. Refused, it leaves the deployments, the
  episodes, the audit log, the runbook usage and the number of commits as they were, and every table of
  a store that does not make up rows. Committed, the service recovers with the new deployment, the
  incident is being mitigated, the episode that cites the memory and the audit row that refers to the
  episode are both there, and the cited memory is known to the store.\<close>

theorem be_remediation_atomic:
  "case remediate_and_record ids now c v s of
     (Inl e, s') \<Rightarrow> store_ledger s' = store_ledger s \<and> fs_commit_count s' = fs_commit_count s \<and>
       (fs_auto_seed s \<or> fs_tables s' = fs_tables s)
   | (Inr r, s') \<Rightarrow> fs_commit_count s' = fs_commit_count s + 1 \<and> cmd_cited_memory_id c \<in> set (fs_provenance s') \<and>
       (\<exists>sv ic. map_of (tb_services (fs_tables s')) (cmd_service_id c) = Some sv \<and> sv_status sv = ''recovering'' \<and>
         sv_current_deploy_id sv = Some (res_deploy_id r) \<and>
         map_of (tb_incidents (fs_tables s')) (cmd_incident_id c) = Some ic \<and> ic_status ic = ''mitigating'' \<and>
         ic_runbook_id ic = cmd_runbook_id c) \<and>
       map_of (tb_deploys (fs_tables s')) (res_deploy_id r) = Some (new_deploy c) \<and>
       map_of (tb_episodes (fs_tables s')) (res_event_id r) = Some (action_episode ids c v) \<and>
       map_of (tb_actions (fs_tables s')) (res_action_id r) = Some (applied_action ids c) \<and>
       ac_memory_ref (applied_action ids c) = res_event_id r"
proof (cases rule: remediate_cases [where c = c and v = v and ids = ids and s = s and now = now])
  case (invalid e)
  then show ?thesis by simp
next
  case (rolled_back e)
  then show ?thesis by (simp add: store_ledger_def seed_missing_def)
next
  case (committed t r)
  from committed(2) show ?thesis
    by (rule stage_remediation_effect) (use committed in \<open>auto simp: applied_action_def seed_missing_def split: if_splits\<close>)
qed

text \<open>C12. Every store a run of seedings, injected failures, remediations and outcomes can reach is
  consistent: each audit row refers to an action episode of the same incident and service, each
  deployment a service runs is a known deployment of that service, and an action has at most one
  outcome on record.\<close>

theorem be_store_consistent:
  assumes "store_reach auto_seed s"
  shows "actions_remembered (fs_tables s) \<and> deploys_known (fs_tables s) \<and> one_outcome (fs_tables s)"
  using store_reach_ok [OF assms] by (simp add: store_ok_def)

definition demo_ids :: fresh_ids where
  "demo_ids = \<lparr>new_deploy_id = UUID 11, new_event_id = UUID 12, new_action_id = UUID 13, new_transaction_id = UUID 14\<rparr>"

definition demo_vector :: "real list" where
  "demo_vector = replicate 1024 0"

definition demo_store :: fake_store where
  "demo_store = snd (remediate_and_record demo_ids (Zoned 0 0) (demo_command plain_lib demo_signal) demo_vector (new_fake_store True))"

theorem be_store_consistent_witness:
  "store_reach True demo_store \<and> fs_commit_count demo_store = 1 \<and>
   actions_remembered (fs_tables demo_store) \<and> deploys_known (fs_tables demo_store) \<and> one_outcome (fs_tables demo_store)"
proof -
  have "fresh_for demo_ids (fs_tables (new_fake_store True))"
    by (simp add: fresh_for_def new_fake_store_def)
  then have reach: "store_reach True demo_store"
    unfolding demo_store_def by (intro reach_step [OF reach_new] step_remediate)
  have "fs_commit_count demo_store = 1"
    using fresh_store_commits [of "demo_command plain_lib demo_signal" demo_vector demo_ids "Zoned 0 0"]
    by (auto simp: demo_command_fields demo_vector_def demo_store_def)
  with reach be_store_consistent [OF reach] show ?thesis by simp
qed

lemma find_update:
  "find p d = None \<Longrightarrow> p (k, v) \<Longrightarrow> find p (AList.update k v d) = Some (k, v)"
  by (induction d) (auto split: if_splits)

lemma outcome_of_str_Some: "outcome_of_str t = Some k \<Longrightarrow> t = outcome_value k"
  by (auto simp: outcome_of_str_def split: if_splits)

lemma recorded_outcome:
  assumes "length v = 1024" "record_outcome i c v s = (Inr r, s')"
  obtains incident action ev t where
    "map_of (tb_incidents (fs_tables s')) (oc_incident_id c) = Some incident" "ic_org_id incident = oc_org_id c"
    "ic_service_id incident = oc_service_id c"
    "map_of (tb_actions (fs_tables s')) (oc_action_id c) = Some action" "ac_org_id action = oc_org_id c"
    "ac_incident_id action = oc_incident_id c" "ac_target_id action = oc_service_id c"
    "find (\<lambda>(i, ep). is_outcome_of (oc_action_id c) ep) (tb_episodes (fs_tables s')) = Some (or_event_id r, ev)"
    "pget (ep_metadata ev) ''outcome'' = PStr (outcome_value (oc_outcome c))" "ep_created_at ev = Some t"
  using assms(1)
proof (cases rule: record_outcome_cases [where i = i and c = c and s = s])
  case (rolled_back e)
  with assms(2) show thesis by simp
next
  case (replayed r')
  with assms(2) have r: "r' = r" "s' = s" by auto
  obtain incident action where rows:
    "map_of (tb_incidents (fs_tables s)) (oc_incident_id c) = Some incident" "ic_org_id incident = oc_org_id c"
    "ic_service_id incident = oc_service_id c"
    "map_of (tb_actions (fs_tables s)) (oc_action_id c) = Some action" "ac_org_id action = oc_org_id c"
    "ac_incident_id action = oc_incident_id c" "ac_target_id action = oc_service_id c"
    by (rule stage_outcome_rows [OF replayed(1)])
  show thesis
  proof (cases "find (\<lambda>(i, ep). is_outcome_of (oc_action_id c) ep) (tb_episodes (fs_tables s))")
    case None
    with replayed(1) rows show thesis by (auto simp: stage_outcome_def Let_def)
  next
    case (Some p)
    obtain j ev where p: "p = (j, ev)" by fastforce
    obtain o' where o': "pget (ep_metadata ev) ''outcome'' = PStr o'" "outcome_of_str o' = Some (oc_outcome c)"
        "or_event_id r = j" "ep_created_at ev \<noteq> None"
      using replayed(1) rows Some p r by (auto simp: stage_outcome_def Let_def split: pyval.splits)
    then have "o' = outcome_value (oc_outcome c)"
      using outcome_of_str_Some by blast
    with o' Some p rows r show thesis by (intro that [of incident action ev "the (ep_created_at ev)"]) auto
  qed
next
  case (committed r' t)
  with assms(2) have r: "r' = r" "fs_tables s' = t" by auto
  obtain incident action where rows:
    "map_of (tb_incidents (fs_tables s)) (oc_incident_id c) = Some incident" "ic_org_id incident = oc_org_id c"
    "ic_service_id incident = oc_service_id c"
    "map_of (tb_actions (fs_tables s)) (oc_action_id c) = Some action" "ac_org_id action = oc_org_id c"
    "ac_incident_id action = oc_incident_id c" "ac_target_id action = oc_service_id c"
    by (rule stage_outcome_rows [OF committed(1)])
  define incident' where "incident' = (if oc_outcome c = Succeeded
    then incident\<lparr>ic_status := ''resolved'', ic_resolved_at := Some (oc_observed_at c)\<rparr> else incident)"
  have none: "find (\<lambda>(i, ep). is_outcome_of (oc_action_id c) ep) (tb_episodes (fs_tables s)) = None"
    by (rule stage_outcome_commit [OF committed(1)])
  have t: "or_event_id r = i" "tb_actions t = AList.update (oc_action_id c) (action\<lparr>ac_outcome := outcome_value (oc_outcome c)\<rparr>)
        (tb_actions (fs_tables s))" "tb_incidents t = AList.update (oc_incident_id c) incident' (tb_incidents (fs_tables s))"
      "tb_episodes t = AList.update i (outcome_episode c v action incident') (tb_episodes (fs_tables s))"
    using committed(1) rows none r(1) by (auto simp: stage_outcome_def Let_def incident'_def)
  show thesis
  proof (rule that [of incident' "action\<lparr>ac_outcome := outcome_value (oc_outcome c)\<rparr>" "outcome_episode c v action incident'"])
    show "find (\<lambda>(i, ep). is_outcome_of (oc_action_id c) ep) (tb_episodes (fs_tables s')) =
        Some (or_event_id r, outcome_episode c v action incident')"
      unfolding r t by (rule find_update [OF none]) (simp add: outcome_episode_is)
  qed (use rows in \<open>simp_all add: r t incident'_def outcome_episode_def pget_def dict_get_def\<close>)
qed

text \<open>Recording an outcome again is idempotent and never contradicts the record: after an
  outcome has been recorded, the same command with the same outcome returns the event on record, marked
  as a replay, and changes nothing; with another outcome it is refused as a conflict and the tables stay
  as they were.\<close>

theorem be_outcome_idempotent:
  assumes "length v = 1024" "length v' = 1024" "record_outcome i c v s = (Inr r, s')"
  shows "let (out, s'') = record_outcome j (c\<lparr>oc_outcome := again\<rparr>) v' s' in
    if again = oc_outcome c
    then s'' = s' \<and> (\<exists>r'. out = Inr r' \<and> or_event_id r' = or_event_id r \<and> or_idempotent_replay r' \<and> or_outcome r' = again)
    else fs_tables s'' = fs_tables s' \<and> (\<exists>m. out = Inl (OutcomeConflict m))"
proof -
  obtain incident action ev t where rows:
    "map_of (tb_incidents (fs_tables s')) (oc_incident_id c) = Some incident" "ic_org_id incident = oc_org_id c"
    "ic_service_id incident = oc_service_id c"
    "map_of (tb_actions (fs_tables s')) (oc_action_id c) = Some action" "ac_org_id action = oc_org_id c"
    "ac_incident_id action = oc_incident_id c" "ac_target_id action = oc_service_id c"
    "find (\<lambda>(i, ep). is_outcome_of (oc_action_id c) ep) (tb_episodes (fs_tables s')) = Some (or_event_id r, ev)"
    "pget (ep_metadata ev) ''outcome'' = PStr (outcome_value (oc_outcome c))" "ep_created_at ev = Some t"
    by (rule recorded_outcome [OF assms(1,3)])
  let ?c = "c\<lparr>oc_outcome := again\<rparr>"
  have "stage_outcome j ?c v' s' = (if oc_outcome c \<noteq> oc_outcome ?c
        then Inl (OutcomeConflict (''Outcome already recorded as '' @ outcome_value (oc_outcome c) @ ''.''))
        else Inr (\<lparr>or_action_id = oc_action_id ?c, or_transaction_id = ac_transaction_id action,
           or_event_id = or_event_id r, or_incident_id = oc_incident_id ?c, or_outcome = oc_outcome c,
           or_incident_status = ic_status incident, or_recorded_at = t, or_idempotent_replay = True\<rparr>, None))"
    by (rule stage_outcome_eq(2) [where incident = incident and action = action and ev = ev])
      (use rows in simp_all)
  then show ?thesis
    using assms(2) by (cases "again = oc_outcome c") (simp_all add: record_outcome_def run_andThen run_require run_prog)
qed

definition demo_outcome :: outcome_command where
  "demo_outcome = \<lparr>oc_org_id = UUID 3, oc_agent_id = UUID 4, oc_incident_id = UUID 1, oc_service_id = UUID 5,
     oc_action_id = UUID 13, oc_outcome = Succeeded, oc_summary = ''recovered'', oc_error_signature = None,
     oc_observed_at = Zoned 0 0\<rparr>"

lemma demo_outcome_recorded:
  "\<exists>r s'. record_outcome (UUID 21) demo_outcome demo_vector demo_store = (Inr r, s') \<and> \<not> or_idempotent_replay r"
proof -
  let ?c = "demo_command plain_lib demo_signal" and ?s = "seed_missing (demo_command plain_lib demo_signal) (new_fake_store True)"
  have vec: "length demo_vector = 1024" by (simp add: demo_vector_def)
  obtain r s' where "remediate_and_record demo_ids (Zoned 0 0) ?c demo_vector (new_fake_store True) = (Inr r, s')"
    using fresh_store_commits [OF _ _ vec, of ?c demo_ids "Zoned 0 0"] by (auto simp: demo_command_fields)
  then obtain t where t: "stage_remediation demo_ids ?c demo_vector ?s = Inr t" "fs_tables demo_store = t"
      "fs_fail_at demo_store = None"
    unfolding demo_store_def
    by (cases rule: remediate_cases [where c = ?c and v = demo_vector and ids = demo_ids and s = "new_fake_store True"
          and now = "Zoned 0 0"]) (auto simp: new_fake_store_def)
  obtain incident where e: "ic_org_id incident = cmd_org_id ?c" "ic_service_id incident = cmd_service_id ?c"
      "tb_incidents t = AList.update (cmd_incident_id ?c)
        (incident\<lparr>ic_status := ''mitigating'', ic_runbook_id := cmd_runbook_id ?c\<rparr>) (tb_incidents (fs_tables ?s))"
      "tb_episodes t = AList.update (new_event_id demo_ids) (action_episode demo_ids ?c demo_vector) (tb_episodes (fs_tables ?s))"
      "tb_actions t = AList.update (new_action_id demo_ids) (applied_action demo_ids ?c) (tb_actions (fs_tables ?s))"
    by (rule stage_remediation_effect [OF t(1)])
  have none: "find (\<lambda>(i, ep). is_outcome_of (oc_action_id demo_outcome) ep) (tb_episodes (fs_tables demo_store)) = None"
    by (simp add: t(2) e(4) seed_missing_def new_fake_store_def is_outcome_of_def action_episode_def)
  have fields: "cmd_org_id ?c = UUID 3" "cmd_service_id ?c = UUID 5" "cmd_incident_id ?c = UUID 1" "new_action_id demo_ids = UUID 13"
    by (simp_all add: demo_command_fields demo_signal_def demo_ids_def)
  have rows: "map_of (tb_incidents (fs_tables demo_store)) (oc_incident_id demo_outcome) =
        Some (incident\<lparr>ic_status := ''mitigating'', ic_runbook_id := cmd_runbook_id ?c\<rparr>)"
      "map_of (tb_actions (fs_tables demo_store)) (oc_action_id demo_outcome) = Some (applied_action demo_ids ?c)"
    by (simp_all add: t(2) e(3,5) demo_outcome_def fields)
  have org: "ic_org_id (incident\<lparr>ic_status := ''mitigating'', ic_runbook_id := cmd_runbook_id ?c\<rparr>) = oc_org_id demo_outcome"
      "ic_service_id (incident\<lparr>ic_status := ''mitigating'', ic_runbook_id := cmd_runbook_id ?c\<rparr>) = oc_service_id demo_outcome"
      "ac_org_id (applied_action demo_ids ?c) = oc_org_id demo_outcome"
      "ac_incident_id (applied_action demo_ids ?c) = oc_incident_id demo_outcome"
      "ac_target_id (applied_action demo_ids ?c) = oc_service_id demo_outcome"
    by (simp_all add: e(1,2) fields demo_outcome_def applied_action_def)
  show ?thesis
    using stage_outcome_eq(1) [OF rows(1) org(1,2) rows(2) org(3-5) none t(3), of "UUID 21" demo_vector] vec
    by (simp add: record_outcome_def run_andThen run_require run_prog)
qed

theorem be_outcome_idempotent_witness:
  "\<exists>r r' s'. record_outcome (UUID 21) demo_outcome demo_vector demo_store = (Inr r, s') \<and> \<not> or_idempotent_replay r \<and>
    record_outcome (UUID 22) demo_outcome demo_vector s' = (Inr r', s') \<and> or_idempotent_replay r' \<and>
    (\<exists>m. fst (record_outcome (UUID 22) (demo_outcome\<lparr>oc_outcome := Failed\<rparr>) demo_vector s') = Inl (OutcomeConflict m))"
proof -
  obtain r s' where run: "record_outcome (UUID 21) demo_outcome demo_vector demo_store = (Inr r, s')"
      "\<not> or_idempotent_replay r"
    using demo_outcome_recorded by blast
  have vec: "length demo_vector = 1024" by (simp add: demo_vector_def)
  have same: "demo_outcome\<lparr>oc_outcome := Succeeded\<rparr> = demo_outcome" "oc_outcome demo_outcome = Succeeded"
    by (simp_all add: demo_outcome_def)
  from be_outcome_idempotent [OF vec vec run(1), of "UUID 22" Succeeded]
    be_outcome_idempotent [OF vec vec run(1), of "UUID 22" Failed] run
  show ?thesis by (auto simp: same Let_def split: prod.splits)
qed

end
