(* ===== verification/Be_Policy_Claims.thy ===== *)
theory Be_Policy_Claims
  imports Be_Recall Be_Injection Be_Guardrails Be_Events
begin

text \<open>
  The properties of the responder's policies: what recall admits and how it chooses, what the
  guardrails let through, and what a stream of events delivers. Each is followed by an instance on
  concrete inputs.
\<close>

section \<open>Recall\<close>

text \<open>A memory of the query's tenant, agent and service, or of none in particular.\<close>

definition in_scope :: "recall_query \<Rightarrow> memory_candidate \<Rightarrow> bool" where
  "in_scope q m \<longleftrightarrow> mem_org_id m \<in> {None, Some (qry_org_id q)} \<and> mem_agent_id m \<in> {None, Some (qry_agent_id q)} \<and>
     mem_service_id m \<in> {None, Some (qry_service_id q)}"

text \<open>A memory that holds at the instant of the query, was recorded by then and is not of its future.\<close>

definition at_most :: "datetime option \<Rightarrow> datetime \<Rightarrow> bool" where
  "at_most t u \<longleftrightarrow> (case t of None \<Rightarrow> True | Some v \<Rightarrow> instant v \<le> instant u)"

definition in_force :: "recall_query \<Rightarrow> memory_candidate \<Rightarrow> bool" where
  "in_force q m \<longleftrightarrow> at_most (mem_valid_from m) (qry_as_of q) \<and> at_most (mem_recorded_at m) (qry_as_of q) \<and>
     at_most (mem_occurred_at m) (qry_as_of q) \<and>
     (case mem_valid_to m of None \<Rightarrow> True | Some v \<Rightarrow> instant (qry_as_of q) < instant v)"

lemma instant_aware [simp]: "instant (aware t) = instant t"
  by (cases t) simp_all

lemma scope_valid_iff: "scope_valid q m \<longleftrightarrow> in_scope q m"
  by (auto simp: scope_valid_def in_scope_def)

lemma temporally_valid_iff: "temporally_valid q m \<longleftrightarrow> in_force q m"
  by (auto simp: temporally_valid_def in_force_def at_most_def Let_def split: option.splits)

text \<open>Recall returns only memories the policy admits: each returned candidate is one of the
  candidates given, with only its rank and the metadata of the rank added; it is of its kind, of the
  scope of the query, in force at its instant and similar enough. A returned fact is believed enough; a
  returned runbook succeeds and is used often enough, has enough positive provenance and its
  counterexamples keep below their share.\<close>

theorem be_recall_admits:
  assumes "rank lib pol q es fs rs = Inr b"
  shows "(\<forall>c \<in> set (bun_episodes b). \<exists>m \<in> set es. same_memory m c \<and> mem_kind m = Episodic \<and> in_scope q m \<and>
      in_force q m \<and> pol_min_episode_similarity pol \<le> mem_similarity m \<and>
      (case mem_occurred_at m of None \<Rightarrow> True | Some t \<Rightarrow> instant (qry_as_of q) - instant t \<le> pol_max_episode_age pol)) \<and>
    (\<forall>c \<in> set (bun_facts b). \<exists>m \<in> set fs. same_memory m c \<and> mem_kind m = Semantic \<and> in_scope q m \<and>
      in_force q m \<and> pol_min_fact_similarity pol \<le> mem_similarity m \<and> pol_min_fact_confidence pol \<le> mem_confidence m) \<and>
    (\<forall>c \<in> set (bun_runbooks b). \<exists>m \<in> set rs. same_memory m c \<and> mem_kind m = Procedural \<and> in_scope q m \<and>
      in_force q m \<and> pol_min_runbook_similarity pol \<le> mem_similarity m \<and>
      pol_min_runbook_success_rate pol \<le> mem_success_rate m \<and>
      (\<exists>used pos neg. meta_count lib m ''usage_count'' = Inr used \<and> pol_min_runbook_usage_count pol \<le> used \<and>
        meta_count lib m ''positive_provenance_count'' = Inr pos \<and> pol_min_positive_provenance pol \<le> pos \<and>
        meta_count lib m ''counterexample_count'' = Inr neg \<and>
        real_of_int neg / real_of_int (max (pos + neg) 1) \<le> pol_max_counterexample_ratio pol))"
  using assms
proof (cases rule: rank_cases)
  case cold
  then show ?thesis by (simp add: cold_bundle_def)
next
  case (warm ae af ar)
  have "\<exists>m \<in> set es. same_memory m c \<and> episode_eligible pol q m" if "c \<in> set (bun_episodes b)" for c
    using episode_channel.chosen_sound [OF warm(2)] that unfolding warm(5) by fastforce
  moreover have "\<exists>m \<in> set fs. same_memory m c \<and> fact_eligible pol q m" if "c \<in> set (bun_facts b)" for c
    using fact_channel.chosen_sound [OF warm(3)] that unfolding warm(6) by fastforce
  moreover have "\<exists>m \<in> set rs. same_memory m c \<and> runbook_eligible lib pol q m = Inr True" if "c \<in> set (bun_runbooks b)" for c
    using runbook_channel.chosen_sound [OF warm(4)] that unfolding warm(7) by fastforce
  moreover have "episode_eligible pol q m \<Longrightarrow> mem_kind m = Episodic \<and> in_scope q m \<and> in_force q m \<and>
      pol_min_episode_similarity pol \<le> mem_similarity m \<and>
      (case mem_occurred_at m of None \<Rightarrow> True | Some t \<Rightarrow> instant (qry_as_of q) - instant t \<le> pol_max_episode_age pol)" for m
    by (auto simp: episode_eligible_def scope_valid_iff temporally_valid_iff split: if_splits option.splits)
  moreover have "fact_eligible pol q m \<Longrightarrow> mem_kind m = Semantic \<and> in_scope q m \<and> in_force q m \<and>
      pol_min_fact_similarity pol \<le> mem_similarity m \<and> pol_min_fact_confidence pol \<le> mem_confidence m" for m
    by (simp add: fact_eligible_def scope_valid_iff temporally_valid_iff)
  moreover have "runbook_eligible lib pol q m = Inr True \<Longrightarrow> mem_kind m = Procedural \<and> in_scope q m \<and> in_force q m \<and>
      pol_min_runbook_similarity pol \<le> mem_similarity m \<and> pol_min_runbook_success_rate pol \<le> mem_success_rate m \<and>
      (\<exists>used pos neg. meta_count lib m ''usage_count'' = Inr used \<and> pol_min_runbook_usage_count pol \<le> used \<and>
        meta_count lib m ''positive_provenance_count'' = Inr pos \<and> pol_min_positive_provenance pol \<le> pos \<and>
        meta_count lib m ''counterexample_count'' = Inr neg \<and>
        real_of_int neg / real_of_int (max (pos + neg) 1) \<le> pol_max_counterexample_ratio pol)" for m
    by (auto simp: runbook_eligible_def scope_valid_iff temporally_valid_iff not_less split: if_splits)
  ultimately show ?thesis by meson
qed

definition demo_query :: recall_query where
  "demo_query = \<lparr>qry_org_id = UUID 3, qry_agent_id = UUID 4, qry_service_id = UUID 5, qry_text = ''spike'',
     qry_embedding = [], qry_k = 8, qry_service_tags = [''search''], qry_error_signature = None,
     qry_as_of = Zoned 0 0, qry_cold_start = False, qry_current_incident_id = None\<rparr>"

definition demo_fact :: "nat \<Rightarrow> real \<Rightarrow> memory_candidate" where
  "demo_fact i sim = \<lparr>mem_memory_id = UUID i, mem_kind = Semantic, mem_content = ''fact'', mem_similarity = sim,
     mem_success_rate = 0, mem_occurred_at = None, mem_service_id = None, mem_runbook_id = None, mem_steps = [],
     mem_metadata = [], mem_org_id = Some (UUID 3), mem_agent_id = None, mem_confidence = 1, mem_valid_from = None,
     mem_valid_to = None, mem_recorded_at = None, mem_provenance_ids = [], mem_ranking_score = 0\<rparr>"

lemma demo_rank:
  "\<exists>b c. rank plain_lib default_policy demo_query [] [demo_fact 1 (1 / 2), demo_fact 2 (3 / 4)] [] = Inr b \<and>
     bun_facts b = [c] \<and> mem_memory_id c = UUID 2"
  by (simp add: rank_def demo_query_def fact_eligible_def demo_fact_def scope_valid_def temporally_valid_def
      default_policy_def score_fact_def recency_def ranked_def rank_components_def dict_merge_def diverse_def
      sorted_reverse_def Let_def)

theorem be_recall_admits_witness:
  "\<exists>b c. rank plain_lib default_policy demo_query [] [demo_fact 1 (1 / 2), demo_fact 2 (3 / 4)] [] = Inr b \<and>
     bun_facts b = [c] \<and> same_memory (demo_fact 2 (3 / 4)) c \<and> in_scope demo_query (demo_fact 2 (3 / 4))"
proof -
  obtain b c where b: "rank plain_lib default_policy demo_query [] [demo_fact 1 (1 / 2), demo_fact 2 (3 / 4)] [] = Inr b"
      "bun_facts b = [c]" "mem_memory_id c = UUID 2"
    using demo_rank by blast
  from be_recall_admits [OF b(1)] b(2) obtain m where m: "m \<in> {demo_fact 1 (1 / 2), demo_fact 2 (3 / 4)}"
      "same_memory m c" "in_scope demo_query m" by auto
  then have "m = demo_fact 2 (3 / 4)" using b(3) same_memory_fields(1) [OF m(2)] by (auto simp: demo_fact_def)
  with b m show ?thesis by auto
qed

text \<open>\<open>chosen\<close> is a best choice of at most \<open>limit\<close> of the \<open>given\<close> candidates.\<close>

definition best_choice :: "int \<Rightarrow> (memory_candidate \<Rightarrow> 'k) \<Rightarrow> (memory_candidate \<Rightarrow> be_error + bool) \<Rightarrow>
    (memory_candidate \<Rightarrow> be_error + memory_candidate) \<Rightarrow> memory_candidate list \<Rightarrow> memory_candidate list \<Rightarrow> bool" where
  "best_choice limit key eligible score given chosen \<longleftrightarrow>
     int (length chosen) \<le> max limit 1 \<and> distinct (map key chosen) \<and>
     sorted_wrt (\<lambda>a b. rank_key b \<le> rank_key a) chosen \<and>
     (\<forall>m \<in> set given. eligible m = Inr True \<longrightarrow> (\<exists>c. score m = Inr c \<and>
       ((\<exists>d \<in> set chosen. key d = key m \<and> rank_key c \<le> rank_key d) \<or>
        (limit \<le> int (length chosen) \<and> (\<forall>d \<in> set chosen. rank_key c \<le> rank_key d)))))"

text \<open>C38. Of each kind recall makes the best choice: at most the limit (one, if the limit is not
  positive), in descending rank, no two with the same diversity key; and an eligible memory that is not
  returned is beaten by a returned one with its key, or by the limit full of memories that all rank at
  least as high.\<close>

theorem be_recall_chooses_best:
  assumes "rank lib pol q es fs rs = Inr b" "\<not> qry_cold_start q"
  shows "best_choice (min (qry_k q) (pol_max_episodes pol)) (episode_key lib)
      (\<lambda>m. Inr (episode_eligible pol q m)) (score_episode pol q) es (bun_episodes b) \<and>
    best_choice (pol_max_facts pol) (fact_key lib) (\<lambda>m. Inr (fact_eligible pol q m)) (score_fact pol q) fs (bun_facts b) \<and>
    best_choice (pol_max_runbooks pol) (runbook_key lib) (runbook_eligible lib pol q) (score_runbook lib pol q) rs (bun_runbooks b)"
  using assms(1)
proof (cases rule: rank_cases)
  case cold
  with assms(2) show ?thesis by simp
next
  case (warm ae af ar)
  show ?thesis
    unfolding best_choice_def warm
    by (intro conjI ballI impI diverse_length diverse_distinct diverse_sorted)
      (metis episode_channel.chosen_complete [OF warm(2)] fact_channel.chosen_complete [OF warm(3)]
        runbook_channel.chosen_complete [OF warm(4)])+
qed

theorem be_recall_chooses_best_witness:
  "\<exists>b. rank plain_lib default_policy demo_query [] [demo_fact 1 (1 / 2), demo_fact 2 (3 / 4)] [] = Inr b \<and>
     best_choice 10 (fact_key plain_lib) (\<lambda>m. Inr (fact_eligible default_policy demo_query m))
       (score_fact default_policy demo_query) [demo_fact 1 (1 / 2), demo_fact 2 (3 / 4)] (bun_facts b)"
proof -
  obtain b where b: "rank plain_lib default_policy demo_query [] [demo_fact 1 (1 / 2), demo_fact 2 (3 / 4)] [] = Inr b"
    using demo_rank by blast
  have "\<not> qry_cold_start demo_query" "pol_max_facts default_policy = 10"
    by (simp_all add: demo_query_def default_policy_def)
  with be_recall_chooses_best [OF b] b show ?thesis by metis
qed

text \<open>Ranking scores are between 0 and 1: for candidates whose similarity, success rate and
  confidence are, and a policy with a positive half-life, every returned candidate ranks between 0 and
  1, because the weights of each kind add up to 1.\<close>

theorem be_ranks_are_shares:
  assumes "rank lib pol q es fs rs = Inr b" "list_all unit_measures (es @ fs @ rs)"
    "0 < pol_recency_half_life pol" "0 \<le> pol_min_positive_provenance pol"
  shows "list_all (\<lambda>c. 0 \<le> mem_ranking_score c \<and> mem_ranking_score c \<le> 1) (all_candidates b)"
  using assms(1)
proof (cases rule: rank_cases)
  case cold
  then show ?thesis by (simp add: cold_bundle_def all_candidates_def)
next
  case (warm ae af ar)
  have unit: "unit_measures m" if "m \<in> set es \<or> m \<in> set fs \<or> m \<in> set rs" for m
    using assms(2) that by (auto simp: list_all_iff)
  have "0 \<le> mem_ranking_score c \<and> mem_ranking_score c \<le> 1" if "c \<in> set (bun_episodes b)" for c
    using episode_channel.chosen_sound [OF warm(2)] that score_episode_unit unit assms(3) unfolding warm(5) by metis
  moreover have "0 \<le> mem_ranking_score c \<and> mem_ranking_score c \<le> 1" if "c \<in> set (bun_facts b)" for c
    using fact_channel.chosen_sound [OF warm(3)] that score_fact_unit unit assms(3) unfolding warm(6) by metis
  moreover have "0 \<le> mem_ranking_score c \<and> mem_ranking_score c \<le> 1" if "c \<in> set (bun_runbooks b)" for c
    using runbook_channel.chosen_sound [OF warm(4)] that score_runbook_unit unit assms(3,4) unfolding warm(7) by metis
  ultimately show ?thesis by (auto simp: list_all_iff all_candidates_def)
qed

theorem be_ranks_are_shares_witness:
  "\<exists>b. rank plain_lib default_policy demo_query [] [demo_fact 1 (1 / 2), demo_fact 2 (3 / 4)] [] = Inr b \<and>
     list_all (\<lambda>c. 0 \<le> mem_ranking_score c \<and> mem_ranking_score c \<le> 1) (all_candidates b)"
proof -
  obtain b where b: "rank plain_lib default_policy demo_query [] [demo_fact 1 (1 / 2), demo_fact 2 (3 / 4)] [] = Inr b"
    using demo_rank by blast
  have "list_all unit_measures ([] @ [demo_fact 1 (1 / 2), demo_fact 2 (3 / 4)] @ [])"
    by (simp add: unit_measures_def demo_fact_def)
  with be_ranks_are_shares [OF b] b show ?thesis by (auto simp: default_policy_def days_def)
qed

section \<open>Guardrails\<close>

definition state_changing_tools :: "string list" where
  "state_changing_tools = [''remediate_and_record'', ''scale_data_tier'', ''update_incident_state'', ''record_episode'']"

text \<open>A call of a state-changing tool cannot be smuggled through a screened field: whatever
  surrounds it, in whatever letter case and with whatever white space before the parenthesis, a text
  whose scrubbed form contains the call, not glued to a preceding word, is refused.\<close>

theorem be_tool_call_refused:
  assumes "scrub_control_characters lib t = before @ call @ gap @ ''('' @ after"
    and "same_letters call tool" "tool \<in> set state_changing_tools" "list_all white gap"
    and "before = [] \<or> \<not> word_char (last before)"
  shows "\<exists>m. guard_text lib field t = Inl (PromptInjectionDetected m)"
proof -
  let ?t = "before @ call @ gap @ ''('' @ after"
  let ?r = "seqs [Word_edge, alts state_changing_tools, Many white, Lit ''('']"
  let ?i = "length before" and ?j = "length before + length call"
  have tool: "call \<noteq> []" "word_char (hd tool)"
    using assms(2,3) same_letters_length [of call tool]
    by (auto simp: state_changing_tools_def word_char_def Let_def)
  then have "word_char (hd call)" using same_letters_word [OF assms(2)] by simp
  with tool(1) have "word_at ?t ?i" by (cases call) (simp_all add: word_at_def nth_append)
  moreover have "\<not> word_before ?t ?i"
    using assms(5) by (cases before rule: rev_cases) (auto simp: word_before_def word_at_def nth_append)
  ultimately have edge: "rx_match Word_edge ?t ?i ?i" by simp
  have name: "rx_match (alts state_changing_tools) ?t ?i ?j"
    by (rule rx_match_alts [OF assms(3)]) (rule match_lit_at [OF assms(2)])
  have space: "rx_match (Many white) ?t ?j (?j + length gap)"
    using assms(4) by (auto simp: nth_append list_all_length)
  have "rx_match (Lit ''('') ((before @ call @ gap) @ ''('' @ after) (length (before @ call @ gap))
      (length (before @ call @ gap) + length ''('')"
    by (rule match_lit_at) (simp add: same_letters_def)
  then have paren: "rx_match (Lit ''('') ?t (?j + length gap) (Suc (?j + length gap))"
    by (simp add: add.assoc)
  have "rx_match ?r ?t ?i (Suc (?j + length gap))"
    unfolding seqs.simps by (intro match_seq [OF edge] match_seq [OF name] match_seq [OF space] paren)
  moreover have "?i \<le> length ?t" by simp
  ultimately have "rx_search ?r ?t" unfolding rx_search_match by blast
  moreover have "?r \<in> set injection_patterns"
    by (simp add: injection_patterns_def state_changing_tools_def)
  moreover have "?t \<noteq> []" by simp
  ultimately have "contains_tool_call_injection ?t"
    unfolding contains_tool_call_injection_def list_ex_iff by (metis (no_types, lifting))
  then show ?thesis using assms(1) by (auto simp: guard_text_def Let_def)
qed

theorem be_tool_call_refused_witness:
  "\<exists>m. guard_text plain_lib ''summary'' ''please Remediate_And_RECORD  (1)'' = Inl (PromptInjectionDetected m)"
proof (rule be_tool_call_refused)
  show "scrub_control_characters plain_lib ''please Remediate_And_RECORD  (1)'' =
      ''please '' @ ''Remediate_And_RECORD'' @ ''  '' @ ''('' @ ''1)''" by code_simp
  show "same_letters ''Remediate_And_RECORD'' ''remediate_and_record''" by code_simp
  show "''remediate_and_record'' \<in> set state_changing_tools" by (simp add: state_changing_tools_def)
  show "list_all white ''  ''" by code_simp
  show "''please '' = [] \<or> \<not> word_char (last ''please '')" by code_simp
qed

text \<open>C39. What may run without a human is decided by the server: an action is authorised exactly
  when it is a rollback or restart, of a service with no critical tag (trimmed, in any letter case),
  for which the model asked no approval, or when a human with a name that is not blank approved it. The
  model's flag can only add caution: what is authorised with the flag is authorised without it.\<close>

theorem be_authorization_server_side:
  "(\<exists>r. authorize_action c human approver tags now = Inr r) =
     (if cmd_action c \<in> {Rollback, Restart} \<and> \<not> cmd_requires_human_approval c \<and>
         set (map (\<lambda>t. str_lower (str_strip t)) tags) \<inter>
           {''checkout'', ''payments'', ''payment'', ''billing'', ''invoicing''} = {}
      then True else human \<and> (case approver of None \<Rightarrow> False | Some name \<Rightarrow> str_strip name \<noteq> [])) \<and>
   ({r. authorize_action (c\<lparr>cmd_requires_human_approval := True\<rparr>) human approver tags now = Inr r} = {} \<or>
     (\<exists>r. authorize_action (c\<lparr>cmd_requires_human_approval := False\<rparr>) human approver tags now = Inr r))"
proof -
  have kinds: "a \<in> {Rollback, Restart} \<longleftrightarrow> a \<notin> {Scale, Feature_flag}" for a by (cases a) auto
  have high: "is_high_blast_radius c tags \<longleftrightarrow> \<not> (cmd_action c \<in> {Rollback, Restart} \<and> \<not> cmd_requires_human_approval c \<and>
      set (map (\<lambda>t. str_lower (str_strip t)) tags) \<inter>
        {''checkout'', ''payments'', ''payment'', ''billing'', ''invoicing''} = {})" for c
    using kinds [of "cmd_action c"]
    by (auto simp: is_high_blast_radius_def is_critical_tier_service_def high_blast_radius_actions_def
        critical_service_gated_actions_def critical_service_tags_def Let_def)
  define alone where "alone \<longleftrightarrow> cmd_action c \<in> {Rollback, Restart} \<and> \<not> cmd_requires_human_approval c \<and>
      set (map (\<lambda>t. str_lower (str_strip t)) tags) \<inter>
        {''checkout'', ''payments'', ''payment'', ''billing'', ''invoicing''} = {}"
  have "(\<exists>r. authorize_action c human approver tags now = Inr r) =
     (if cmd_action c \<in> {Rollback, Restart} \<and> \<not> cmd_requires_human_approval c \<and>
         set (map (\<lambda>t. str_lower (str_strip t)) tags) \<inter>
           {''checkout'', ''payments'', ''payment'', ''billing'', ''invoicing''} = {}
      then True else human \<and> (case approver of None \<Rightarrow> False | Some name \<Rightarrow> str_strip name \<noteq> []))"
    unfolding authorize_action_iff authorized_def high alone_def [symmetric] by (auto split: option.splits)
  moreover have "authorized (c\<lparr>cmd_requires_human_approval := True\<rparr>) human approver tags \<Longrightarrow>
      authorized (c\<lparr>cmd_requires_human_approval := False\<rparr>) human approver tags"
    by (auto simp: authorized_def is_high_blast_radius_def)
  ultimately show ?thesis
    using authorize_action_iff [of "c\<lparr>cmd_requires_human_approval := True\<rparr>" human approver tags now]
      authorize_action_iff [of "c\<lparr>cmd_requires_human_approval := False\<rparr>" human approver tags now] by blast
qed

lemma strip_prefix_cases:
  "strip_signature_prefix ps h = d \<Longrightarrow> h = d \<or> (\<exists>q \<in> set ps. starts_with q (str_lower h) \<and> drop (length q) h = d)"
  by (induction ps) (auto split: if_splits)

text \<open>The webhook is authenticated by the digest alone: with a secret configured, and a digest of
  hexadecimal digits, a header is accepted exactly when, trimmed, it is the digest of the body under the
  secret, alone or after \<open>sha256=\<close> or \<open>sha256:\<close> in any letter case. Without a secret nothing is
  accepted.\<close>

theorem be_webhook_digest:
  assumes "hex_text (hmac secret body)" "hmac secret body \<noteq> []"
  shows "(authenticate hmac (new_authenticator (Some secret)) body (Some header) = Inr ()) =
     (secret \<noteq> [] \<and> (\<exists>p. str_lower p \<in> {[], ''sha256='', ''sha256:''} \<and> str_strip header = p @ hmac secret body)) \<and>
   authenticate hmac (new_authenticator None) body (Some header) \<noteq> Inr ()"
proof -
  let ?d = "hmac secret body" and ?h = "str_strip header"
  have lower_nil: "str_lower p = [] \<longleftrightarrow> p = []" for p by (simp add: str_lower_def)
  have prefix: "strip_signature_prefix signature_prefixes ?h = ?d \<longleftrightarrow>
      (\<exists>p. str_lower p \<in> {[], ''sha256='', ''sha256:''} \<and> ?h = p @ ?d)"
  proof
    assume a: "strip_signature_prefix signature_prefixes ?h = ?d"
    have split: "str_lower (take (length q) ?h) = q" if "starts_with q (str_lower ?h)" for q
      using that by (simp add: starts_with_def str_lower_def take_map)
    consider q where "q \<in> set signature_prefixes" "starts_with q (str_lower ?h)" "drop (length q) ?h = ?d" | "?h = ?d"
      using strip_prefix_cases [OF a] by blast
    then show "\<exists>p. str_lower p \<in> {[], ''sha256='', ''sha256:''} \<and> ?h = p @ ?d"
    proof cases
      case (1 q)
      with split [of q] have "str_lower (take (length q) ?h) \<in> {[], ''sha256='', ''sha256:''}"
        by (auto simp: signature_prefixes_def)
      moreover have "?h = take (length q) ?h @ ?d" using 1(3) by (metis append_take_drop_id)
      ultimately show ?thesis by blast
    next
      case 2
      then show ?thesis by (intro exI [of _ "[]"]) (simp add: str_lower_def)
    qed
  next
    assume "\<exists>p. str_lower p \<in> {[], ''sha256='', ''sha256:''} \<and> ?h = p @ ?d"
    then obtain p where p: "str_lower p \<in> {[], ''sha256='', ''sha256:''}" "?h = p @ ?d" by blast
    have len: "length (str_lower p) = length p" by (simp add: str_lower_def)
    have low: "str_lower (p @ ?d) = str_lower p @ str_lower ?d" by (simp add: str_lower_def)
    show "strip_signature_prefix signature_prefixes ?h = ?d"
    proof (cases "p = []")
      case True
      with p(2) hex_no_prefix [OF assms(1)] show ?thesis by simp
    next
      case False
      with p(1) lower_nil have "str_lower p = ''sha256='' \<or> str_lower p = ''sha256:''" by auto
      then show ?thesis using len by (auto simp: signature_prefixes_def starts_with_def low p(2))
    qed
  qed
  have empty: "header = [] \<Longrightarrow> \<nexists>p. ?h = p @ ?d" using assms(2) by (simp add: str_strip_def)
  have "(authenticate hmac (new_authenticator (Some secret)) body (Some header) = Inr ()) =
     (secret \<noteq> [] \<and> header \<noteq> [] \<and> strip_signature_prefix signature_prefixes ?h = ?d)"
    using hex_text_ascii [OF assms(1)]
    by (auto simp: authenticate_def new_authenticator_def verify_hmac_iff nonempty_def)
  moreover have "authenticate hmac (new_authenticator None) body (Some header) \<noteq> Inr ()"
    by (simp add: authenticate_def new_authenticator_def verify_hmac_signature_def nonempty_def)
  ultimately show ?thesis unfolding prefix using empty by blast
qed

definition demo_hmac :: "string \<Rightarrow> string \<Rightarrow> string" where
  "demo_hmac secret body = nat_str (length secret) @ nat_str (length body)"

theorem be_webhook_digest_witness:
  "authenticate demo_hmac (new_authenticator (Some ''secret'')) ''body'' (Some '' SHA256=64'') = Inr () \<and>
   authenticate demo_hmac (new_authenticator None) ''body'' (Some '' SHA256=64'') \<noteq> Inr ()"
proof -
  have d: "demo_hmac ''secret'' ''body'' = ''64''" by code_simp
  have "hex_text (demo_hmac ''secret'' ''body'')" "demo_hmac ''secret'' ''body'' \<noteq> []"
    unfolding d by code_simp+
  moreover have "str_strip '' SHA256=64'' = ''SHA256='' @ ''64''" "str_lower ''SHA256='' = ''sha256=''" by code_simp+
  ultimately show ?thesis
    using be_webhook_digest [of demo_hmac "''secret''" "''body''" "'' SHA256=64''"] d by fastforce
qed

section \<open>Event streams\<close>

text \<open>A stream delivers the history it was opened with and then everything published for its
  incident, in order, without a gap and without a repeat: whatever else happens to the broker, what the
  stream has yielded and what it still holds add up to that sequence, as long as its queue has room for
  what is published (a bound that is not positive is no bound).\<close>

theorem be_stream_complete:
  assumes "subscribed b" "0 \<le> br_history_limit b" "map_of (br_streams b) s = None"
    and "fresh_opens ps (open_stream i s b)" "list_all (\<lambda>p. p \<noteq> Close s) ps"
    and "br_queue_limit b \<le> 0 \<or> int (length (published i ps)) \<le> br_queue_limit b"
  shows "yielded s ps (open_stream i s b) @ pending s (broker_run ps (open_stream i s b)) =
    history b i @ published i ps"
proof -
  let ?st = "\<lparr>str_incident_id = i, str_backlog = history b i, str_queue = []\<rparr>"
  have st: "map_of (br_streams (open_stream i s b)) s = Some ?st" by (simp add: open_stream_def)
  have limits: "br_history_limit (open_stream i s b) = br_history_limit b" "br_queue_limit (open_stream i s b) = br_queue_limit b"
    by (simp_all add: open_stream_def)
  have "pending s (open_stream i s b) = history b i" by (simp add: pending_def st)
  moreover have "Close s \<notin> set ps" using assms(5) by (auto simp: list_all_iff)
  ultimately show ?thesis
    using stream_accounts [OF _ subscribed_open [OF assms(1,3)] st _ assms(4), of i] assms(2,6) limits by simp
qed

definition demo_event :: "nat \<Rightarrow> nat \<Rightarrow> agent_event" where
  "demo_event i k = \<lparr>aev_incident_id = UUID i, aev_type = Incident_received, aev_stage = ''perceive'',
     aev_message = [], aev_data = [], aev_event_id = UUID k, aev_occurred_at = Zoned 0 0\<rparr>"

definition demo_broker :: broker where
  "demo_broker = snd (publish (demo_event 1 1) (new_broker 500 1000))"

theorem be_stream_complete_witness:
  "let ps = [Publish (demo_event 1 2), Next 7, Publish (demo_event 2 3), Next 7, Open (UUID 2) 8, Publish (demo_event 1 4)] in
   yielded 7 ps (open_stream (UUID 1) 7 demo_broker) @ pending 7 (broker_run ps (open_stream (UUID 1) 7 demo_broker)) =
     [demo_event 1 1, demo_event 1 2, demo_event 1 4]"
proof -
  let ?ps = "[Publish (demo_event 1 2), Next 7, Publish (demo_event 2 3), Next 7, Open (UUID 2) 8, Publish (demo_event 1 4)]"
  have ok: "0 \<le> br_history_limit (new_broker 500 1000)" by (simp add: new_broker_def)
  have sub: "subscribed demo_broker" unfolding demo_broker_def by (rule subscribed_publish [OF ok subscribed_new])
  have h: "history demo_broker (UUID 1) = [demo_event 1 1]"
    by (simp add: demo_broker_def history_publish [OF ok]) (simp add: new_broker_def history_def dict_get_def demo_event_def)
  have none: "map_of (br_streams demo_broker) k = None" for k
    by (simp add: demo_broker_def publish_stream [OF ok subscribed_new]) (simp add: new_broker_def)
  have fresh: "fresh_opens ?ps (open_stream (UUID 1) 7 demo_broker)" by code_simp
  have "br_history_limit demo_broker = 500" "br_queue_limit demo_broker = 1000"
    by (simp_all add: demo_broker_def) (simp_all add: new_broker_def)
  then have "yielded 7 ?ps (open_stream (UUID 1) 7 demo_broker) @
      pending 7 (broker_run ?ps (open_stream (UUID 1) 7 demo_broker)) = history demo_broker (UUID 1) @ published (UUID 1) ?ps"
    by (intro be_stream_complete sub none fresh) (simp_all add: demo_event_def)
  then show ?thesis by (simp only: Let_def h) (simp add: demo_event_def)
qed

end
