(* ===== verification/Be_Bedrock.thy ===== *)
theory Be_Bedrock
  imports Be_Fakes
begin

text \<open>
  The reasoner over Amazon Bedrock (\<^verbatim>\<open>backend/src/postmortem_backend/adapters/bedrock.py\<close>): the
  input built from the signal and the recalled memory, the parsing of the model's answer into a
  decision, and the embedding. The clients are arguments; \<open>json.loads\<close> and \<open>json.dumps\<close> are
  fields of the library; the depth of the input that is written is not modelled.
\<close>

section \<open>The input of the model\<close>

definition memory_item :: "memory_candidate \<Rightarrow> pyval" where
  "memory_item c = PDict
     [(''memory_id'', PStr (uuid_str (mem_memory_id c))),
      (''kind'', PStr (memory_kind_str (mem_kind c))),
      (''content'', PStr (mem_content c)), (''similarity'', PFloat (mem_similarity c)),
      (''success_rate'', PFloat (mem_success_rate c)), (''confidence'', PFloat (mem_confidence c)),
      (''ranking_score'', PFloat (mem_ranking_score c)),
      (''provenance_ids'', PList (map (\<lambda>u. PStr (uuid_str u)) (mem_provenance_ids c))),
      (''actionable'', dict_get (mem_metadata c) ''actionable'' (PBool True)),
      (''runbook_id'', case mem_runbook_id c of None \<Rightarrow> PNone | Some r \<Rightarrow> PStr (uuid_str r)),
      (''steps'', PList (mem_steps c)), (''metadata'', PDict (mem_metadata c))]"

definition reasoning_input :: "pylib \<Rightarrow> signal \<Rightarrow> recall_bundle \<Rightarrow> string" where
  "reasoning_input lib s memory = lib_dumps lib (PDict
     [(''incident'', PDict
        [(''incident_id'', PStr (uuid_str (sig_incident_id s))),
         (''service_id'', PStr (uuid_str (sig_service_id s))), (''severity'', PStr (sig_severity s)),
         (''summary'', PStr (sig_summary s)), (''error_signature'', opt_str (sig_error_signature s))]),
      (''retrieved_memory'', PList (map memory_item (all_candidates memory)))])"

section \<open>The answer of the model\<close>

definition decision_of_str :: "string \<Rightarrow> decision_kind option" where
  "decision_of_str s = find (\<lambda>k. decision_str k = s) [Remediate, Propose, Ask_human, Escalate]"

text \<open>\<open>value[key]\<close>\<close>

fun py_item :: "pyval \<Rightarrow> string \<Rightarrow> be_error + pyval" where
  "py_item (PDict d) k = needE (PortError ''KeyError'' k) (map_of d k)"
| "py_item _ k = Inl (TypeFault ''object is not subscriptable'')"

text \<open>\<open>UUID(cited_raw) if cited_raw else None\<close>; on a value that is no text \<open>UUID\<close> fails on the
  missing method \<open>replace\<close>.\<close>

definition cited_uuid :: "pyval \<Rightarrow> be_error + uuid option" where
  "cited_uuid v = (if \<not> py_truthy v then Inr None
     else case v of
       PStr t \<Rightarrow> map_sum id Some (needE (ValueFault ''badly formed hexadecimal UUID string'') (uuid_of_str t))
     | _ \<Rightarrow> Inl (AttributeFault ''object has no attribute replace''))"

record answer =
  ans_payload :: pydict
  ans_kind :: decision_kind
  ans_confidence :: real
  ans_explanation :: string
  ans_cited :: "uuid option"

text \<open>The first \<open>try\<close> block.\<close>

definition read_answer :: "pylib \<Rightarrow> string \<Rightarrow> be_error + answer" where
  "read_answer lib raw =
     bindE (needE (ValueFault ''substring not found'') (json_slice raw)) (\<lambda>text.
     bindE (py_loads lib text) (\<lambda>value.
     bindE (py_item value ''decision'') (\<lambda>decision.
     case value of PDict payload \<Rightarrow>
       bindE (needE (ValueFault ''not a valid DecisionKind'')
         (case decision of PStr d \<Rightarrow> decision_of_str d | _ \<Rightarrow> None)) (\<lambda>kind.
       bindE (py_float lib (dict_get payload ''confidence'' (PFloat 0))) (\<lambda>confidence.
       bindE (cited_uuid (pget payload ''cited_memory_id'')) (\<lambda>cited.
       Inr \<lparr>ans_payload = payload, ans_kind = kind, ans_confidence = confidence,
         ans_explanation = str_strip (py_str (lib_repr lib) (dict_get payload ''explanation'' (PStr []))),
         ans_cited = cited\<rparr>)))
     | _ \<Rightarrow> Inl (AttributeFault ''object has no attribute get''))))"

text \<open>\<open>except (ValueError, KeyError, TypeError)\<close>\<close>

definition caught :: "be_error \<Rightarrow> bool" where
  "caught e \<longleftrightarrow> (case e of ValueFault _ \<Rightarrow> True | TypeFault _ \<Rightarrow> True | PortError c _ \<Rightarrow> c = ''KeyError'' | _ \<Rightarrow> False)"

definition guarded :: "string \<Rightarrow> be_error + 'a \<Rightarrow> be_error + 'a" where
  "guarded message r = (case r of Inl e \<Rightarrow> Inl (if caught e then ReasoningError message else e) | Inr x \<Rightarrow> Inr x)"

text \<open>\<open>known\<close>: of two candidates with one id the later one is kept.\<close>

definition known_memory :: "recall_bundle \<Rightarrow> (uuid, memory_candidate) dict" where
  "known_memory memory = foldl (\<lambda>d c. AList.update (mem_memory_id c) c d) [] (all_candidates memory)"

text \<open>The second \<open>try\<close> block.\<close>

definition read_remediation :: "pylib \<Rightarrow> pydict \<Rightarrow> be_error + action_kind \<times> string \<times> bool" where
  "read_remediation lib payload =
     bindE (py_item (PDict payload) ''action'') (\<lambda>action.
     bindE (metadata_action action) (\<lambda>kind.
     Inr (kind, str_strip (py_str (lib_repr lib) (orelse (pget payload ''target_version'') (PStr []))),
       py_truthy (dict_get payload ''requires_human_approval'' (PBool False)))))"

definition model_command :: "signal \<Rightarrow> memory_candidate \<Rightarrow> answer \<Rightarrow> action_kind \<Rightarrow> string \<Rightarrow> bool \<Rightarrow> command" where
  "model_command s c a action target_version requires = \<lparr>cmd_org_id = sig_org_id s, cmd_agent_id = sig_agent_id s,
     cmd_incident_id = sig_incident_id s, cmd_session_id = sig_session_id s,
     cmd_service_id = sig_service_id s, cmd_action = action, cmd_target_version = target_version,
     cmd_cited_memory_id = mem_memory_id c,
     cmd_runbook_id = (if mem_kind c = Procedural then Some (mem_memory_id c) else mem_runbook_id c),
     cmd_rationale = ans_explanation a, cmd_outcome_stub = ''remediation_started'',
     cmd_requires_human_approval = requires, cmd_approved = False, cmd_idempotency_key = None\<rparr>"

definition parse_remediation :: "pylib \<Rightarrow> signal \<Rightarrow> recall_bundle \<Rightarrow> answer \<Rightarrow> be_error + decision" where
  "parse_remediation lib s memory a =
     bindE (needE (ReasoningError ''Remediation citation was absent from recalled memory.'')
       (Option.bind (ans_cited a) (map_of (known_memory memory)))) (\<lambda>c.
     bindE (checkE (actionable c)
       (ReasoningError ''Cited memory failed the recall provenance or confidence safety gate.'')) (\<lambda>_.
     bindE (guarded ''Reasoner returned a malformed remediation payload.''
       (read_remediation lib (ans_payload a))) (\<lambda>(action, target_version, requires).
     bindE (checkE (action \<in> {Rollback, Restart})
       (ReasoningError ''Reasoner selected an action outside the Phase 1 allowlist.'')) (\<lambda>_.
     bindE (checkE (target_version \<noteq> [])
       (ReasoningError ''Reasoner omitted target_version for remediation.'')) (\<lambda>_.
     Inr \<lparr>dec_kind = ans_kind a, dec_explanation = ans_explanation a, dec_cited_memory_id = ans_cited a,
       dec_command = Some (model_command s c a action target_version requires),
       dec_confidence = ans_confidence a\<rparr>)))))"

definition parse_decision :: "pylib \<Rightarrow> string \<Rightarrow> signal \<Rightarrow> recall_bundle \<Rightarrow> be_error + decision" where
  "parse_decision lib raw s memory =
     bindE (guarded ''Reasoner did not return the typed decision contract.'' (read_answer lib raw)) (\<lambda>a.
     if ans_kind a \<noteq> Remediate
     then Inr \<lparr>dec_kind = ans_kind a, dec_explanation = ans_explanation a, dec_cited_memory_id = ans_cited a,
       dec_command = None, dec_confidence = ans_confidence a\<rparr>
     else parse_remediation lib s memory a)"

section \<open>Adapters\<close>

text \<open>\<open>client\<close> is called with the input; its response is read as
  \<open>response["output"]["message"]["content"]\<close>, whose blocks' texts are joined.\<close>

definition block_text :: "pyval \<Rightarrow> be_error + string" where
  "block_text b = (case b of
     PDict d \<Rightarrow> (case dict_get d ''text'' (PStr []) of PStr t \<Rightarrow> Inr t
       | _ \<Rightarrow> Inl (TypeFault ''sequence item: expected str instance''))
   | _ \<Rightarrow> Inl (AttributeFault ''object has no attribute get''))"

definition response_text :: "pyval \<Rightarrow> be_error + string" where
  "response_text response =
     bindE (py_item response ''output'') (\<lambda>output.
     bindE (py_item output ''message'') (\<lambda>message.
     bindE (py_item message ''content'') (\<lambda>content.
     bindE (py_iter content) (\<lambda>blocks.
     bindE (mapE block_text blocks) (\<lambda>texts. Inr (concat texts))))))"

definition bedrock_decide :: "pylib \<Rightarrow> (string \<Rightarrow> ('w, be_error, pyval) prog) \<Rightarrow> signal \<Rightarrow> recall_bundle \<Rightarrow>
    ('w, be_error, decision) prog" where
  "bedrock_decide lib client s memory =
     andThen (client (reasoning_input lib s memory)) (\<lambda>response.
     lift_result (bindE (response_text response) (\<lambda>text. parse_decision lib text s memory)))"

definition strands_decide :: "pylib \<Rightarrow> (string \<Rightarrow> ('w, be_error, pyval) prog) \<Rightarrow> signal \<Rightarrow> recall_bundle \<Rightarrow>
    ('w, be_error, decision) prog" where
  "strands_decide lib agent s memory =
     andThen (agent (reasoning_input lib s memory)) (\<lambda>result.
     lift_result (parse_decision lib (py_str (lib_repr lib) result) s memory))"

definition titan_dimension :: nat where
  "titan_dimension = 1024"

text \<open>\<open>invoke\<close> gives the text of the response body.\<close>

definition titan_invoke :: "pylib \<Rightarrow> (string \<Rightarrow> ('w, be_error, string) prog) \<Rightarrow> string \<Rightarrow> ('w, be_error, real list) prog" where
  "titan_invoke lib invoke t =
     andThen (invoke (lib_dumps lib (PDict [(''inputText'', PStr t),
       (''dimensions'', PInt (int titan_dimension)), (''normalize'', PBool True)]))) (\<lambda>body.
     lift_result (
       bindE (py_loads lib body) (\<lambda>payload.
       bindE (py_item payload ''embedding'') (\<lambda>values.
       bindE (py_iter values) (\<lambda>items.
       bindE (mapE (py_float lib) items) (\<lambda>embedding.
       bindE (checkE (length embedding = titan_dimension)
         (ReasoningError (''Titan returned '' @ nat_str (length embedding) @ '' dimensions; expected '' @
           nat_str titan_dimension @ ''.''))) (\<lambda>_.
       Inr embedding)))))))"

section \<open>What is accepted\<close>

lemma map_of_known: "map_of (known_memory memory) i = find (\<lambda>c. mem_memory_id c = i) (rev (all_candidates memory))"
proof -
  have "map_of (foldl (\<lambda>d c. AList.update (mem_memory_id c) c d) [] cs) i = find (\<lambda>c. mem_memory_id c = i) (rev cs)" for cs
    by (induction cs rule: rev_induct) auto
  then show ?thesis by (simp add: known_memory_def)
qed

lemma known_memory_cited:
  "map_of (known_memory memory) i = Some c \<Longrightarrow> c \<in> set (all_candidates memory) \<and> mem_memory_id c = i"
  by (auto simp: map_of_known find_Some_iff in_set_conv_nth dest: nth_mem)
    (metis length_rev nth_mem set_rev in_set_conv_nth)

text \<open>A command the model may give: grounded in the recalled memory, of an allowed kind, with a
  version, addressed to the incident of the signal and not approved.\<close>

definition grounded_command :: "signal \<Rightarrow> recall_bundle \<Rightarrow> command \<Rightarrow> bool" where
  "grounded_command s memory c \<longleftrightarrow>
     (\<exists>m \<in> set (all_candidates memory). mem_memory_id m = cmd_cited_memory_id c \<and> actionable m \<and>
        cmd_runbook_id c = (if mem_kind m = Procedural then Some (mem_memory_id m) else mem_runbook_id m)) \<and>
     cmd_action c \<in> {Rollback, Restart} \<and> str_strip (cmd_target_version c) \<noteq> [] \<and> \<not> cmd_approved c \<and>
     cmd_org_id c = sig_org_id s \<and> cmd_agent_id c = sig_agent_id s \<and> cmd_incident_id c = sig_incident_id s \<and>
     cmd_session_id c = sig_session_id s \<and> cmd_service_id c = sig_service_id s"

lemma str_strip_idem [simp]: "str_strip (str_strip t) = str_strip t"
  by (rule str_strip_trimmed) simp

lemma parse_remediation_grounded:
  assumes "parse_remediation lib s memory a = Inr d"
  shows "\<exists>c. dec_command d = Some c \<and> grounded_command s memory c \<and> dec_cited_memory_id d = Some (cmd_cited_memory_id c)"
proof -
  obtain i m action v req where a: "ans_cited a = Some i" "map_of (known_memory memory) i = Some m" "actionable m"
      "guarded ''Reasoner returned a malformed remediation payload.'' (read_remediation lib (ans_payload a)) =
        Inr (action, v, req)"
      "action \<in> {Rollback, Restart}" "v \<noteq> []"
      "d = \<lparr>dec_kind = ans_kind a, dec_explanation = ans_explanation a, dec_cited_memory_id = ans_cited a,
        dec_command = Some (model_command s m a action v req), dec_confidence = ans_confidence a\<rparr>"
    using assms unfolding parse_remediation_def
    by (auto simp: bind_eq_Some_conv checkE_def split: if_splits)
  have "str_strip v = v"
    using a(4) by (auto simp: guarded_def read_remediation_def split: sum.splits)
  with a known_memory_cited [OF a(2)] show ?thesis
    by (auto simp: grounded_command_def model_command_def)
qed

lemma guarded_errors:
  "guarded m r = Inl e \<Longrightarrow> e = ReasoningError m \<or> (r = Inl e \<and> \<not> caught e)"
  by (auto simp: guarded_def split: sum.splits if_splits)

lemma py_float_caught: "py_float lib v = Inl e \<Longrightarrow> caught e \<or> (\<exists>i. v = PInt i \<and> float_bound \<le> \<bar>i\<bar> \<and> e = float_overflow)"
  by (cases "(lib, v)" rule: py_float.cases) (auto simp: caught_def needE_def split: option.splits if_splits)

lemma py_item_caught: "py_item v k = Inl e \<Longrightarrow> caught e"
  by (cases "(v, k)" rule: py_item.cases) (auto simp: caught_def needE_def split: option.splits)

lemma metadata_action_caught: "metadata_action v = Inl e \<Longrightarrow> caught e"
  by (auto simp: metadata_action_def needE_def caught_def split: option.splits)

lemma read_remediation_caught: "read_remediation lib p = Inl e \<Longrightarrow> caught e"
  by (auto simp: read_remediation_def bindE_Inl_iff simp del: py_item.simps
      dest: py_item_caught metadata_action_caught)

text \<open>The failures of the first block that are not caught: a citation that is no text, a confidence
  that is an integer no float reaches, and an answer that nests too deeply for the JSON parser.\<close>

definition answered_json :: "pylib \<Rightarrow> string \<Rightarrow> pydict option" where
  "answered_json lib raw = (case json_slice raw of None \<Rightarrow> None | Some t \<Rightarrow>
     (case lib_loads lib t of Inr (PDict d) \<Rightarrow> Some d | _ \<Rightarrow> None))"

definition untyped_citation :: "pylib \<Rightarrow> string \<Rightarrow> bool" where
  "untyped_citation lib raw \<longleftrightarrow> (case answered_json lib raw of
     Some d \<Rightarrow> py_truthy (pget d ''cited_memory_id'') \<and> py_as_str (pget d ''cited_memory_id'') = None
   | None \<Rightarrow> False)"

definition huge_confidence :: "pylib \<Rightarrow> string \<Rightarrow> bool" where
  "huge_confidence lib raw \<longleftrightarrow> (case answered_json lib raw of
     Some d \<Rightarrow> (case pget d ''confidence'' of PInt i \<Rightarrow> float_bound \<le> \<bar>i\<bar> | _ \<Rightarrow> False)
   | None \<Rightarrow> False)"

definition deep_answer :: "pylib \<Rightarrow> string \<Rightarrow> bool" where
  "deep_answer lib raw \<longleftrightarrow> (case json_slice raw of None \<Rightarrow> False | Some t \<Rightarrow> lib_loads lib t = Inl Deep_json)"

definition escapes :: "pylib \<Rightarrow> string \<Rightarrow> be_error \<Rightarrow> bool" where
  "escapes lib raw e \<longleftrightarrow> (untyped_citation lib raw \<and> e = AttributeFault ''object has no attribute replace'') \<or>
     (huge_confidence lib raw \<and> e = float_overflow) \<or> (deep_answer lib raw \<and> e = json_error Deep_json)"

lemma needE_caught: "needE (ValueFault m) r = Inl e \<Longrightarrow> caught e"
  by (auto simp: needE_def caught_def split: option.splits)

lemma cited_uuid_uncaught:
  "cited_uuid v = Inl e \<Longrightarrow> caught e \<or>
     (py_truthy v \<and> py_as_str v = None \<and> e = AttributeFault ''object has no attribute replace'')"
  by (cases v) (auto simp: cited_uuid_def needE_def caught_def split: if_splits option.splits)

lemma read_answer_errors:
  assumes "read_answer lib raw = Inl e"
  shows "caught e \<or> escapes lib raw e"
proof (cases "json_slice raw")
  case None
  with assms show ?thesis by (auto simp: read_answer_def needE_def caught_def)
next
  case sliced: (Some t)
  show ?thesis
  proof (cases "lib_loads lib t")
    case (Inl f)
    with assms sliced have "e = json_error f" by (simp add: read_answer_def py_loads_def)
    with sliced Inl show ?thesis by (cases f) (simp_all add: caught_def escapes_def deep_answer_def)
  next
    case (Inr v)
    show ?thesis
    proof (cases v)
      case (PDict d)
      have conf: "dict_get d ''confidence'' (PFloat 0) = PInt i \<Longrightarrow> pget d ''confidence'' = PInt i" for i
        by (auto simp: dict_get_def pget_def split: option.splits)
      from assms sliced Inr PDict show ?thesis
        by (auto simp: read_answer_def py_loads_def bindE_Inl_iff escapes_def untyped_citation_def huge_confidence_def
          answered_json_def conf simp del: py_item.simps
          dest!: needE_caught py_item_caught py_float_caught cited_uuid_uncaught)
    qed (use assms sliced Inr in \<open>auto simp: read_answer_def py_loads_def caught_def\<close>)
  qed
qed

lemma parse_decision_errors:
  assumes "parse_decision lib raw s memory = Inl e"
  shows "(\<exists>m. e = ReasoningError m) \<or> escapes lib raw e"
proof (cases "guarded ''Reasoner did not return the typed decision contract.'' (read_answer lib raw)")
  case (Inl e')
  with assms have "e = e'" by (simp add: parse_decision_def)
  with guarded_errors [OF Inl] read_answer_errors [of lib raw e'] show ?thesis by blast
next
  case (Inr a)
  with assms show ?thesis
    by (auto simp: parse_decision_def parse_remediation_def bindE_Inl_iff checkE_def needE_def
        split: if_splits option.splits dest!: guarded_errors read_remediation_caught)
qed

lemma escapes_cases:
  assumes "(\<exists>m. e = ReasoningError m) \<or> escapes lib raw e"
  shows "(\<exists>m. e = ReasoningError m) \<or> (\<exists>t. json_slice raw = Some t \<and> (case lib_loads lib t of
         Inl f \<Rightarrow> f = Deep_json \<and> error_type e = ''RecursionError''
       | Inr (PDict d) \<Rightarrow>
           (\<exists>i. pget d ''confidence'' = PInt i \<and> 2 ^ 1024 - 2 ^ 970 \<le> \<bar>i\<bar> \<and> error_type e = ''OverflowError'') \<or>
           (py_truthy (pget d ''cited_memory_id'') \<and> py_as_str (pget d ''cited_memory_id'') = None \<and>
              error_type e = ''AttributeError'')
       | Inr _ \<Rightarrow> False))"
  using assms
proof
  assume "escapes lib raw e"
  then show ?thesis
    by (auto simp: escapes_def untyped_citation_def huge_confidence_def deep_answer_def answered_json_def float_overflow_def
        float_bound_def split: option.splits sum.splits pyval.splits)
qed simp

lemma parse_decision_grounded:
  assumes "parse_decision lib raw s memory = Inr d"
  shows "case dec_command d of
      None \<Rightarrow> dec_kind d \<noteq> Remediate
    | Some c \<Rightarrow> dec_kind d = Remediate \<and> grounded_command s memory c \<and> dec_cited_memory_id d = Some (cmd_cited_memory_id c)"
proof -
  obtain a where "guarded ''Reasoner did not return the typed decision contract.'' (read_answer lib raw) = Inr a"
      and a: "(if ans_kind a \<noteq> Remediate
      then Inr \<lparr>dec_kind = ans_kind a, dec_explanation = ans_explanation a, dec_cited_memory_id = ans_cited a,
        dec_command = None, dec_confidence = ans_confidence a\<rparr>
      else parse_remediation lib s memory a) = Inr d"
    using assms unfolding parse_decision_def bindE_Inr_iff by blast
  show ?thesis
  proof (cases "ans_kind a = Remediate")
    case True
    with a have "parse_remediation lib s memory a = Inr d" by simp
    moreover from this have "dec_kind d = Remediate" using True by (auto simp: parse_remediation_def)
    ultimately show ?thesis using parse_remediation_grounded by fastforce
  qed (use a in auto)
qed

section \<open>A decision written as the contract asks\<close>

definition contract_payload :: "decision \<Rightarrow> command \<Rightarrow> pyval" where
  "contract_payload d c = PDict
     [(''decision'', PStr (decision_str (dec_kind d))), (''explanation'', PStr (dec_explanation d)),
      (''cited_memory_id'', PStr (uuid_str (cmd_cited_memory_id c))),
      (''action'', PStr (action_str (cmd_action c))), (''target_version'', PStr (cmd_target_version c)),
      (''requires_human_approval'', PBool (cmd_requires_human_approval c)),
      (''confidence'', PFloat (dec_confidence d))]"

lemma decision_of_str [simp]: "decision_of_str (decision_str k) = Some k"
  by (cases k) (simp_all add: decision_of_str_def)

lemma parse_decision_contract:
  assumes ans: "json_slice raw = Some t" "lib_loads lib t = Inr (contract_payload d c)"
    and d: "dec_kind d = Remediate" "dec_command d = Some c" "dec_cited_memory_id d = Some (cmd_cited_memory_id c)"
      "dec_explanation d = cmd_rationale c" "trimmed (cmd_rationale c)"
    and c: "grounded_command s memory c" "trimmed (cmd_target_version c)" "uuid_int (cmd_cited_memory_id c) < 2 ^ 128"
      "cmd_outcome_stub c = ''remediation_started''" "cmd_idempotency_key c = None"
    and known: "distinct (map mem_memory_id (all_candidates memory))"
  shows "parse_decision lib raw s memory = Inr d"
proof -
  obtain m where m: "m \<in> set (all_candidates memory)" "mem_memory_id m = cmd_cited_memory_id c" "actionable m"
      "cmd_runbook_id c = (if mem_kind m = Procedural then Some (mem_memory_id m) else mem_runbook_id m)"
    using c(1) by (auto simp: grounded_command_def)
  have k: "map_of (known_memory memory) (cmd_cited_memory_id c) = Some m"
  proof (cases "map_of (known_memory memory) (cmd_cited_memory_id c)")
    case None
    then show ?thesis using m(1,2) by (simp add: map_of_known find_None_iff)
  next
    case (Some m')
    with known_memory_cited [OF Some] m(1,2) known show ?thesis by (auto simp: distinct_map inj_on_def)
  qed
  have v: "cmd_target_version c \<noteq> []" "cmd_action c \<in> {Rollback, Restart}"
    using c(1) by (auto simp: grounded_command_def str_strip_def)
  have a: "read_answer lib raw = Inr \<lparr>ans_payload = the_payload, ans_kind = Remediate, ans_confidence = dec_confidence d,
      ans_explanation = dec_explanation d, ans_cited = Some (cmd_cited_memory_id c)\<rparr>"
    if "contract_payload d c = PDict the_payload" for the_payload
    using that d ans c(3)
    by (auto simp: read_answer_def py_loads_def contract_payload_def dict_get_def pget_def cited_uuid_def needE_def str_strip_trimmed
        decision_of_str [of Remediate, simplified])
  have r: "read_remediation lib the_payload = Inr (cmd_action c, cmd_target_version c, cmd_requires_human_approval c)"
    if "contract_payload d c = PDict the_payload" for the_payload
    using that c(2) v(1)
    by (auto simp: read_remediation_def contract_payload_def dict_get_def pget_def orelse_def metadata_action_def
        str_strip_trimmed simp del: action_str.simps)
  obtain the_payload where p: "contract_payload d c = PDict the_payload" by (simp add: contract_payload_def)
  have "model_command s m \<lparr>ans_payload = the_payload, ans_kind = Remediate, ans_confidence = dec_confidence d,
      ans_explanation = dec_explanation d, ans_cited = Some (cmd_cited_memory_id c)\<rparr>
      (cmd_action c) (cmd_target_version c) (cmd_requires_human_approval c) = c"
    using c m d by (auto simp: model_command_def grounded_command_def)
  with a [OF p] r [OF p] k m v d show ?thesis
    by (auto simp: parse_decision_def parse_remediation_def guarded_def)
qed

end
