(* ===== verification/Be_Transport.thy ===== *)
theory Be_Transport
  imports Be_Turn
begin

text \<open>
  What the console is sent (\<^verbatim>\<open>backend/src/postmortem_backend/transport.py\<close> and the event stream of
  \<^verbatim>\<open>api.py\<close>): the envelope of an event with its payload, one of the alternatives of
  \<^verbatim>\<open>web/lib/events.ts\<close>, and the server-sent messages of a stream.
\<close>

section \<open>Payloads\<close>

text \<open>\<open>dict(v)\<close> of a dictionary; the services publish no other value for it.\<close>

fun py_dict :: "pyval \<Rightarrow> be_error + pydict" where
  "py_dict (PDict d) = Inr d"
| "py_dict _ = Inl (TypeFault ''cannot convert to a dictionary'')"

definition console_severity :: "pylib \<Rightarrow> pyval \<Rightarrow> string" where
  "console_severity lib v = (let
     normalized = str_replace_all ''--'' ''-'' (str_replace_all ''SEV'' ''SEV-''
       (str_upper (py_str (lib_repr lib) (orelse v (PStr ''SEV-3''))))) in
     if normalized \<in> {''SEV-1'', ''SEV-2'', ''SEV-3''} then normalized else ''SEV-3'')"

definition console_statement :: "string \<Rightarrow> string \<Rightarrow> string \<Rightarrow> string \<Rightarrow> pyval" where
  "console_statement operation target role summary = PDict [(''operation'', PStr operation), (''target'', PStr target),
     (''role'', PStr role), (''summary'', PStr summary)]"

definition transaction_statements :: "pyval list" where
  "transaction_statements =
     [console_statement ''INSERT'' ''deploys'' ''action'' ''Record and apply the operational deployment action.'',
      console_statement ''UPDATE'' ''services, incidents'' ''action'' ''Move the service and incident into recovery.'',
      console_statement ''INSERT'' ''episodic_events'' ''memory'' ''Append the grounded action memory.'',
      console_statement ''INSERT'' ''remediation_actions'' ''audit'' ''Link action provenance to the episodic memory.'']"

text \<open>\<open>str(data.get(key, fallback))\<close>\<close>

definition text_or :: "pylib \<Rightarrow> pydict \<Rightarrow> string \<Rightarrow> pyval \<Rightarrow> pyval" where
  "text_or lib d k v = PStr (py_str (lib_repr lib) (dict_get d k v))"

definition cited_texts :: "pylib \<Rightarrow> pyval \<Rightarrow> pyval" where
  "cited_texts lib v = PList (if py_truthy v then [PStr (py_str (lib_repr lib) v)] else [])"

definition incident_payload :: "pylib \<Rightarrow> agent_event \<Rightarrow> pydict" where
  "incident_payload lib e = (let data = aev_data e in
     [(''service'', text_or lib data ''service'' (dict_get data ''service_id'' (PStr ''unknown''))),
      (''severity'', PStr (console_severity lib (pget data ''severity''))), (''status'', PStr ''open''),
      (''summary'', text_or lib data ''summary'' (PStr (aev_message e)))])"

definition recall_payload :: "pylib \<Rightarrow> agent_event \<Rightarrow> be_error + pydict" where
  "recall_payload lib e = (let data = aev_data e in
     bindE (py_int lib (dict_get data ''duration_ms'' (PInt 0))) (\<lambda>duration.
     bindE (py_int lib (dict_get data ''rejected_count'' (PInt 0))) (\<lambda>rejected.
     bindE (py_iter (dict_get data ''results'' (PList []))) (\<lambda>results.
     Inr [(''querySummary'', text_or lib data ''query_summary'' (PStr (aev_message e))),
       (''provider'', text_or lib data ''provider'' (PStr ''c-spann+mcp'')),
       (''mode'', PStr (if py_truthy (pget data ''cold_start'') then ''cold'' else ''memory'')),
       (''durationMs'', PInt duration), (''rejectedCount'', PInt rejected), (''results'', PList results)]))))"

definition reason_payload :: "pylib \<Rightarrow> agent_event \<Rightarrow> pydict" where
  "reason_payload lib e = (let data = aev_data e in
     [(''message'', text_or lib data ''message'' (PStr (aev_message e))),
      (''citedMemoryIds'', cited_texts lib (pget data ''cited_memory_id'')),
      (''citedRunbookIds'', cited_texts lib (pget data ''cited_runbook_id''))])"

definition act_payload :: "pylib \<Rightarrow> agent_event \<Rightarrow> be_error + pydict" where
  "act_payload lib e = (let data = aev_data e; event_id = PUuid (aev_event_id e) in
     bindE (py_dict (dict_get data ''arguments'' (PDict []))) (\<lambda>arguments.
     Inr [(''actionId'', text_or lib data ''action_id'' event_id), (''status'', PStr ''proposed''),
       (''tool'', text_or lib data ''tool'' (PStr ''remediate_and_record'')), (''arguments'', PDict arguments),
       (''target'', text_or lib data ''target'' (PStr ''unknown'')),
       (''requiresApproval'', PBool (py_truthy (dict_get data ''requires_approval''
         (PBool (aev_type e = Approval_required))))),
       (''citedMemoryId'', text_or lib data ''cited_memory_id'' event_id)]))"

fun transaction_state :: "event_type \<Rightarrow> string" where
  "transaction_state Transaction_started = ''begun''"
| "transaction_state Transaction_committed = ''committed''"
| "transaction_state _ = ''rolled_back''"

definition transaction_payload :: "pylib \<Rightarrow> agent_event \<Rightarrow> be_error + pydict" where
  "transaction_payload lib e = (let data = aev_data e; state = transaction_state (aev_type e) in
     bindE (py_iter (dict_get data ''statements'' (PList transaction_statements))) (\<lambda>statements.
     Inr ([(''transactionId'', text_or lib data ''transaction_id'' (PUuid (aev_event_id e))),
         (''state'', PStr state), (''statements'', PList statements)] @
       (if state = ''committed''
        then [(''committedAt'', text_or lib data ''committed_at'' (PStr (lib_isoformat lib (aev_occurred_at e))))]
        else []))))"

definition record_payload :: "pylib \<Rightarrow> agent_event \<Rightarrow> be_error + pydict" where
  "record_payload lib e = (let data = aev_data e in
     bindE (py_int lib (dict_get data ''freshness_ms'' (PInt 0))) (\<lambda>freshness.
     bindE (py_int lib (dict_get data ''stale_reads_observed'' (PInt 0))) (\<lambda>stale.
     Inr [(''memoryId'', PStr (py_str (lib_repr lib) (pget data ''memory_id''))),
       (''memoryKind'', text_or lib data ''memory_kind'' (PStr ''episodic'')),
       (''summary'', text_or lib data ''summary'' (PStr (aev_message e))),
       (''freshnessMs'', PInt freshness), (''staleReadsObserved'', PInt stale)])))"

definition message_payload :: "agent_event \<Rightarrow> pydict" where
  "message_payload e = [(''message'', PStr (aev_message e)), (''citedMemoryIds'', PList []),
     (''citedRunbookIds'', PList [])]"

text \<open>\<open>_payload\<close>\<close>

definition payload :: "pylib \<Rightarrow> agent_event \<Rightarrow> be_error + string \<times> pydict" where
  "payload lib e = (let tagged = (\<lambda>ty r. map_sum id (Pair ty) r) in
     if aev_type e = Incident_received then Inr (''incident'', incident_payload lib e)
     else if aev_type e \<in> {Recall_started, Recall_completed} then tagged ''recall'' (recall_payload lib e)
     else if aev_type e \<in> {Reasoning_started, Decision_proposed, Response_failed}
       then Inr (''reason'', reason_payload lib e)
     else if aev_type e \<in> {Action_proposed, Approval_required} then tagged ''act'' (act_payload lib e)
     else if aev_type e \<in> {Transaction_started, Transaction_committed, Transaction_rolled_back}
       then tagged ''transaction'' (transaction_payload lib e)
     else if aev_type e \<in> {Response_completed, Outcome_recorded} \<and> py_truthy (pget (aev_data e) ''memory_id'')
       then tagged ''record'' (record_payload lib e)
     else Inr (''reason'', message_payload e))"

section \<open>Envelope and stream\<close>

definition console_event :: "pylib \<Rightarrow> string \<Rightarrow> string \<Rightarrow> nat \<Rightarrow> agent_event \<Rightarrow> be_error + string \<times> pydict" where
  "console_event lib agent_id region sequence e =
     bindE (payload lib e) (\<lambda>(ty, p). Inr (ty,
       [(''id'', PStr (uuid_str (aev_event_id e))), (''sequence'', PInt (int sequence)),
        (''occurredAt'', PStr (lib_isoformat lib (aev_occurred_at e))),
        (''caseId'', PStr (uuid_str (aev_incident_id e))),
        (''agent'', PDict [(''id'', PStr agent_id), (''region'', PStr region)]),
        (''type'', PStr ty), (''payload'', PDict p)]))"

definition console_region :: "string \<Rightarrow> string" where
  "console_region aws_region = (if starts_with ''us-west'' aws_region then ''us-west''
     else if starts_with ''eu-west'' aws_region then ''eu-west'' else ''us-east'')"

definition newline :: string where
  "newline = [CHR 0x0A]"

definition sse_message :: "pylib \<Rightarrow> string \<Rightarrow> string \<Rightarrow> nat \<Rightarrow> agent_event \<Rightarrow> be_error + string" where
  "sse_message lib agent_id region sequence e =
     bindE (console_event lib agent_id region sequence e) (\<lambda>(ty, envelope). Inr (
       ''id: '' @ uuid_str (aev_event_id e) @ newline @ ''event: '' @ ty @ newline @
       ''data: '' @ lib_dumps lib (PDict envelope) @ newline @ newline))"

text \<open>The generator behind \<open>GET /v1/incidents/{incident_id}/events\<close>: an item of the broker's stream
  is an event, or nothing when its time is up.\<close>

fun event_messages :: "pylib \<Rightarrow> string \<Rightarrow> string \<Rightarrow> nat \<Rightarrow> agent_event option list \<Rightarrow> be_error + string list" where
  "event_messages lib agent_id region sequence [] = Inr []"
| "event_messages lib agent_id region sequence (None # items) =
     bindE (event_messages lib agent_id region sequence items) (\<lambda>ms. Inr (('': heartbeat'' @ newline @ newline) # ms))"
| "event_messages lib agent_id region sequence (Some e # items) =
     bindE (sse_message lib agent_id region (Suc sequence) e) (\<lambda>m.
     bindE (event_messages lib agent_id region (Suc sequence) items) (\<lambda>ms. Inr (m # ms)))"

section \<open>The alternatives of the console\<close>

text \<open>The required fields of \<^verbatim>\<open>web/lib/events.ts\<close>, with their types and literals.\<close>

definition texts :: "pyval \<Rightarrow> bool" where
  "texts v \<longleftrightarrow> (case v of PList xs \<Rightarrow> list_all is_str xs | _ \<Rightarrow> False)"

definition one_of :: "string list \<Rightarrow> pyval \<Rightarrow> bool" where
  "one_of words v \<longleftrightarrow> (case v of PStr s \<Rightarrow> s \<in> set words | _ \<Rightarrow> False)"

definition is_number :: "pyval \<Rightarrow> bool" where
  "is_number v \<longleftrightarrow> (case v of PInt _ \<Rightarrow> True | _ \<Rightarrow> False)"

definition is_list :: "pyval \<Rightarrow> bool" where
  "is_list v \<longleftrightarrow> (case v of PList _ \<Rightarrow> True | _ \<Rightarrow> False)"

definition is_dict :: "pyval \<Rightarrow> bool" where
  "is_dict v \<longleftrightarrow> (case v of PDict _ \<Rightarrow> True | _ \<Rightarrow> False)"

definition is_flag :: "pyval \<Rightarrow> bool" where
  "is_flag v \<longleftrightarrow> (case v of PBool _ \<Rightarrow> True | _ \<Rightarrow> False)"

definition union_fields :: "string \<Rightarrow> (string \<times> (pyval \<Rightarrow> bool)) list option" where
  "union_fields ty = map_of
     [(''incident'', [(''service'', is_str), (''severity'', one_of [''SEV-1'', ''SEV-2'', ''SEV-3'']),
         (''status'', one_of [''open'', ''resolved'']), (''summary'', is_str)]),
      (''recall'', [(''querySummary'', is_str), (''provider'', is_str), (''mode'', one_of [''memory'', ''cold'']),
         (''durationMs'', is_number), (''rejectedCount'', is_number), (''results'', is_list)]),
      (''reason'', [(''message'', is_str), (''citedMemoryIds'', texts), (''citedRunbookIds'', texts)]),
      (''act'', [(''actionId'', is_str),
         (''status'', one_of [''proposed'', ''approved'', ''running'', ''committed'', ''failed'']), (''tool'', is_str),
         (''arguments'', is_dict), (''target'', is_str), (''requiresApproval'', is_flag), (''citedMemoryId'', is_str)]),
      (''record'', [(''memoryId'', is_str), (''memoryKind'', is_str), (''summary'', is_str),
         (''freshnessMs'', is_number), (''staleReadsObserved'', is_number)]),
      (''transaction'', [(''transactionId'', is_str), (''state'', one_of [''begun'', ''committed'', ''rolled_back'']),
         (''statements'', is_list)])] ty"

definition union_ok :: "string \<Rightarrow> pydict \<Rightarrow> bool" where
  "union_ok ty p \<longleftrightarrow> (case union_fields ty of None \<Rightarrow> False
     | Some fs \<Rightarrow> list_all (\<lambda>(k, ok). case map_of p k of None \<Rightarrow> False | Some v \<Rightarrow> ok v) fs)"

definition console_ok :: "pylib \<Rightarrow> agent_event \<Rightarrow> bool" where
  "console_ok lib e \<longleftrightarrow> (case payload lib e of Inl _ \<Rightarrow> False | Inr (ty, p) \<Rightarrow> union_ok ty p)"

lemmas field_defs = is_str_def one_of_def is_number_def is_list_def is_dict_def is_flag_def texts_def text_or_def
  cited_texts_def

lemma severity_ok: "console_severity lib v \<in> {''SEV-1'', ''SEV-2'', ''SEV-3''}"
  by (simp add: console_severity_def Let_def)

text \<open>A payload that could be built is one of the alternatives, whatever the event held.\<close>

lemma payload_union: "payload lib e = Inr (ty, p) \<Longrightarrow> union_ok ty p"
proof -
  have inc: "union_ok ''incident'' (incident_payload lib e)"
    using severity_ok [of lib "pget (aev_data e) ''severity''"]
    by (simp add: union_ok_def union_fields_def incident_payload_def Let_def field_defs)
  have rec: "union_ok ''recall'' p" if "recall_payload lib e = Inr p" for p
    using that by (auto simp: union_ok_def union_fields_def recall_payload_def Let_def field_defs)
  have rea: "union_ok ''reason'' (reason_payload lib e)" "union_ok ''reason'' (message_payload e)"
    by (simp_all add: union_ok_def union_fields_def reason_payload_def message_payload_def Let_def field_defs)
  have act: "union_ok ''act'' p" if "act_payload lib e = Inr p" for p
    using that by (auto simp: union_ok_def union_fields_def act_payload_def Let_def field_defs)
  have tra: "union_ok ''transaction'' p" if "transaction_payload lib e = Inr p" for p
    using that by (cases "aev_type e")
      (auto simp: union_ok_def union_fields_def transaction_payload_def Let_def field_defs)
  have don: "union_ok ''record'' p" if "record_payload lib e = Inr p" for p
    using that by (auto simp: union_ok_def union_fields_def record_payload_def Let_def field_defs)
  have tagged: "map_sum id (Pair t) r = Inr (ty, p) \<Longrightarrow> ty = t \<and> r = Inr p" for t and r :: "be_error + pydict"
    by (cases r) auto
  show "payload lib e = Inr (ty, p) \<Longrightarrow> union_ok ty p"
    unfolding payload_def Let_def
    by (auto split: if_splits dest!: tagged intro: inc rec rea act tra don)
qed

lemma console_ok_iff: "console_ok lib e \<longleftrightarrow> (\<exists>r. payload lib e = Inr r)"
  using payload_union by (auto simp: console_ok_def split: sum.splits)

section \<open>Every event of a turn reaches the console\<close>

definition shown :: "pylib \<Rightarrow> event_type \<Rightarrow> pydict \<Rightarrow> bool" where
  "shown lib ty data \<longleftrightarrow> (\<forall>i stage message event_id t. console_ok lib \<lparr>aev_incident_id = i, aev_type = ty,
     aev_stage = stage, aev_message = message, aev_data = data, aev_event_id = event_id, aev_occurred_at = t\<rparr>)"

lemma event_publish:
  assumes "\<And>e. console_ok lib e \<Longrightarrow> g e = p_publish P e" "shown lib ty data"
  shows "event (P\<lparr>p_publish := g\<rparr>) s ty stage message data = event P s ty stage message data"
  using assms by (simp add: event_def shown_def)

lemmas payload_defs = payload_def recall_payload_def act_payload_def transaction_payload_def record_payload_def

lemma shown_reason: "shown lib ty data" if "ty \<in> {Incident_received, Reasoning_started, Decision_proposed, Response_failed}"
  using that by (auto simp: shown_def console_ok_iff payload_def)

lemma shown_transaction: "shown lib ty data"
  if "ty \<in> {Transaction_started, Transaction_committed, Transaction_rolled_back}" "map_of data ''statements'' = None"
  using that by (auto simp: shown_def console_ok_iff payload_def transaction_payload_def dict_get_def Let_def)

lemma shown_act: "shown lib ty data"
  if "ty \<in> {Action_proposed, Approval_required}" "map_of data ''arguments'' = Some (PDict d)"
  using that by (auto simp: shown_def console_ok_iff payload_def act_payload_def dict_get_def Let_def)

lemma shown_recall: "shown lib ty data"
  if "ty \<in> {Recall_started, Recall_completed}" "map_of data ''duration_ms'' = Some (PInt i)"
    "map_of data ''rejected_count'' \<in> {None} \<union> Some ` range PInt" "map_of data ''results'' = Some (PList xs)"
  using that by (auto simp: shown_def console_ok_iff payload_def recall_payload_def dict_get_def Let_def)

lemma shown_record: "shown lib ty data"
  if "ty \<in> {Response_completed, Outcome_recorded}" "map_of data ''freshness_ms'' = Some (PInt i)"
    "map_of data ''stale_reads_observed'' = Some (PInt j)"
  using that by (auto simp: shown_def console_ok_iff payload_def record_payload_def dict_get_def Let_def)

definition agree_shown :: "pylib \<Rightarrow> (agent_event \<Rightarrow> ('w, be_error, unit) prog) \<Rightarrow> 'w ports \<Rightarrow> bool" where
  "agree_shown lib g P \<longleftrightarrow> (\<forall>e. console_ok lib e \<longrightarrow> g e = p_publish P e)"

lemma event_shown [simp]:
  "agree_shown lib g P \<Longrightarrow> shown lib ty data \<Longrightarrow>
   event (P\<lparr>p_publish := g\<rparr>) s ty stage message data = event P s ty stage message data"
  by (rule event_publish) (auto simp: agree_shown_def)

lemma recall_completed_shown:
  "recall_completed_data lib s memory = Inr data \<Longrightarrow> shown lib Recall_completed data"
  by (auto simp: recall_completed_data_def intro!: shown_recall)

lemma recall_phase_shown:
  assumes "agree_shown lib g P"
  shows "recall_phase lib (P\<lparr>p_publish := g\<rparr>) s = recall_phase lib P s"
proof -
  have "shown lib Recall_started
      [(''query_summary'', PStr (recall_text s)), (''duration_ms'', PInt 0), (''results'', PList [])]"
    by (rule shown_recall) auto
  moreover have "andThen (lift_result (recall_completed_data lib s memory)) (\<lambda>data.
      andThen (event (P\<lparr>p_publish := g\<rparr>) s Recall_completed stage message data) k) =
    andThen (lift_result (recall_completed_data lib s memory)) (\<lambda>data.
      andThen (event P s Recall_completed stage message data) k)"
    for memory stage message and k :: "unit \<Rightarrow> ('a responder, be_error, recall_bundle) prog"
  proof (cases "recall_completed_data lib s memory")
    case (Inr data)
    then have "event (P\<lparr>p_publish := g\<rparr>) s Recall_completed stage message data = event P s Recall_completed stage message data"
      using assms by (intro event_shown recall_completed_shown)
    with Inr show ?thesis by simp
  qed simp
  ultimately show ?thesis using assms by (simp add: recall_phase_def)
qed

lemma reason_phase_shown: "agree_shown lib g P \<Longrightarrow> reason_phase (P\<lparr>p_publish := g\<rparr>) s memory = reason_phase P s memory"
  by (simp add: reason_phase_def shown_reason)

lemma propose_shown: "agree_shown lib g P \<Longrightarrow> propose (P\<lparr>p_publish := g\<rparr>) s c = propose P s c"
  by (simp add: propose_def command_arguments_def shown_act)

lemma pause_shown: "agree_shown lib g P \<Longrightarrow> pause (P\<lparr>p_publish := g\<rparr>) s c = pause P s c"
  by (simp add: pause_def command_arguments_def shown_act)

lemma execute_shown: "agree_shown lib g P \<Longrightarrow> execute lib (P\<lparr>p_publish := g\<rparr>) s c approver = execute lib P s c approver"
  by (simp add: execute_def shown_transaction)

lemma act_phase_shown:
  "agree_shown lib g P \<Longrightarrow> act_phase lib (P\<lparr>p_publish := g\<rparr>) s memory d approved approver =
    act_phase lib P s memory d approved approver"
  by (simp add: act_phase_def propose_shown pause_shown execute_shown Let_def split: option.split)

lemma complete_phase_shown:
  "agree_shown lib g P \<Longrightarrow> complete_phase (P\<lparr>p_publish := g\<rparr>) s d r = complete_phase P s d r"
  by (simp add: complete_phase_def shown_record)

lemma report_failure_shown:
  "agree_shown lib g P \<Longrightarrow> report_failure (P\<lparr>p_publish := g\<rparr>) s started e = report_failure P s started e"
  by (simp add: report_failure_def shown_reason shown_transaction)

lemma handle_shown:
  assumes "agree_shown lib g P"
  shows "handle lib (P\<lparr>p_publish := g\<rparr>) signal approved approver = handle lib P signal approved approver"
proof -
  have "guarded_turn lib (P\<lparr>p_publish := g\<rparr>) s approved approver = guarded_turn lib P s approved approver" for s
    by (simp add: fun_eq_iff guarded_turn_def turn_def recall_phase_shown [OF assms] reason_phase_shown [OF assms]
        act_phase_shown [OF assms] complete_phase_shown [OF assms] report_failure_shown [OF assms]
        split: prod.split sum.split)
  then show ?thesis by (simp add: handle_def event_shown [OF assms] shown_reason)
qed

lemma outcome_shown: "console_ok lib (outcome_event c r ms event_id t)"
  using shown_record [of Outcome_recorded "aev_data (outcome_event c r ms event_id t)" ms 0 lib]
  by (simp add: shown_def outcome_event_def)

lemma record_and_publish_shown:
  assumes "\<And>e. console_ok lib e \<Longrightarrow> g e = o_publish P e"
  shows "record_and_publish (P\<lparr>o_publish := g\<rparr>) c = record_and_publish P c"
  by (simp add: record_and_publish_def assms outcome_shown cong: if_cong)

section \<open>Framing\<close>

text \<open>A reader of server-sent events cuts the stream at its blank lines. As \<open>json.dumps\<close> writes a
  value on one line, the messages of a stream are the blocks a reader finds, in order.\<close>

definition nl :: char where
  "nl = CHR 0x0A"

fun blocks :: "string \<Rightarrow> string \<Rightarrow> string list" where
  "blocks acc [] = (if acc = [] then [] else [rev acc])"
| "blocks acc [c] = [rev (c # acc)]"
| "blocks acc (c # d # cs) = (if c = nl \<and> d = nl then rev acc # blocks [] cs else blocks (c # acc) (d # cs))"

fun no_blank_line :: "string \<Rightarrow> bool" where
  "no_blank_line (c # d # cs) = (\<not> (c = nl \<and> d = nl) \<and> no_blank_line (d # cs))"
| "no_blank_line _ = True"

definition message_body :: "string \<Rightarrow> bool" where
  "message_body b \<longleftrightarrow> b \<noteq> [] \<and> last b \<noteq> nl \<and> no_blank_line b"

lemma message_body_Cons: "message_body (c # b) \<Longrightarrow> b \<noteq> [] \<Longrightarrow> message_body b \<and> \<not> (c = nl \<and> hd b = nl)"
  by (cases b) (auto simp: message_body_def)

lemma blocks_message: "message_body b \<Longrightarrow> blocks acc (b @ nl # nl # rest) = rev (rev b @ acc) # blocks [] rest"
proof (induction b arbitrary: acc)
  case (Cons c b)
  show ?case
  proof (cases b)
    case Nil
    with Cons.prems have "c \<noteq> nl" by (simp add: message_body_def)
    with Nil show ?thesis by simp
  next
    case (Cons d b')
    with message_body_Cons [OF Cons.prems] have b: "message_body b" "\<not> (c = nl \<and> d = nl)" by auto
    then have "blocks acc ((c # b) @ nl # nl # rest) = blocks (c # acc) (b @ nl # nl # rest)" using Cons by auto
    also have "\<dots> = rev (rev b @ c # acc) # blocks [] rest" by (rule Cons.IH [OF b(1)])
    finally show ?thesis by simp
  qed
qed (simp add: message_body_def)

lemma blocks_stream: "list_all message_body bs \<Longrightarrow> blocks [] (concat (map (\<lambda>b. b @ [nl, nl]) bs)) = bs"
  by (induction bs) (simp_all add: blocks_message)

lemma message_body_line: "t \<noteq> [] \<Longrightarrow> nl \<notin> set t \<Longrightarrow> message_body t"
proof -
  have "nl \<notin> set t \<Longrightarrow> no_blank_line t" by (induction t rule: no_blank_line.induct) auto
  then show "t \<noteq> [] \<Longrightarrow> nl \<notin> set t \<Longrightarrow> message_body t" by (auto simp: message_body_def dest: last_in_set)
qed

lemma message_body_lines:
  "t \<noteq> [] \<Longrightarrow> nl \<notin> set t \<Longrightarrow> message_body b \<Longrightarrow> hd b \<noteq> nl \<Longrightarrow> message_body (t @ nl # b)"
proof -
  assume b: "message_body b" "hd b \<noteq> nl"
  then obtain d b' where b': "b = d # b'" "d \<noteq> nl" by (cases b) (auto simp: message_body_def)
  have "nl \<notin> set t \<Longrightarrow> no_blank_line (t @ nl # b)"
  proof (induction t)
    case (Cons c t)
    then show ?case using b' by (cases t) auto
  qed (use b b' in \<open>auto simp: message_body_def\<close>)
  with b show "t \<noteq> [] \<Longrightarrow> nl \<notin> set t \<Longrightarrow> message_body (t @ nl # b)" by (auto simp: message_body_def)
qed

lemma uuid_no_newline: "nl \<notin> set (uuid_str u)"
proof -
  have "\<not> plain_hex nl" by code_simp
  then have "nl \<notin> set (hex_digits 32 (uuid_int u))" using hex_digits_plain by blast
  then show ?thesis by (auto simp: uuid_str_def Let_def nl_def dest!: in_set_takeD in_set_dropD)
qed

lemma payload_type_line: "payload lib e = Inr (ty, p) \<Longrightarrow> nl \<notin> set ty"
proof -
  assume "payload lib e = Inr (ty, p)"
  then have "union_fields ty \<noteq> None" using payload_union by (fastforce simp: union_ok_def split: option.splits)
  then show "nl \<notin> set ty" by (auto simp: union_fields_def nl_def split: if_splits)
qed

lemma sse_message_body:
  assumes "\<And>v. nl \<notin> set (lib_dumps lib v)" "sse_message lib a r n e = Inr m"
  shows "\<exists>b. m = b @ [nl, nl] \<and> message_body b"
proof -
  obtain ty p envelope where p: "payload lib e = Inr (ty, p)"
      and m: "m = (''id: '' @ uuid_str (aev_event_id e)) @ nl # (''event: '' @ ty) @ nl #
        (''data: '' @ lib_dumps lib (PDict envelope)) @ [nl, nl]"
    using assms(2) by (auto simp: sse_message_def console_event_def newline_def nl_def)
  have "message_body (''data: '' @ lib_dumps lib (PDict envelope))"
    using assms(1) by (intro message_body_line) (auto simp: nl_def)
  moreover have "nl \<notin> set (''event: '' @ ty)" using payload_type_line [OF p] by (simp add: nl_def)
  ultimately have two: "message_body ((''event: '' @ ty) @ nl # (''data: '' @ lib_dumps lib (PDict envelope)))"
    by (intro message_body_lines) (simp_all add: nl_def)
  have one: "nl \<notin> set (''id: '' @ uuid_str (aev_event_id e))" using uuid_no_newline by (simp add: nl_def)
  have "message_body ((''id: '' @ uuid_str (aev_event_id e)) @ nl # (''event: '' @ ty) @ nl #
      (''data: '' @ lib_dumps lib (PDict envelope)))"
    by (rule message_body_lines [OF _ one two]) (simp_all add: nl_def)
  then show ?thesis unfolding m by (intro exI conjI) (simp_all only: append.assoc append_Cons append_Nil)
qed

lemma event_messages_bodies:
  assumes "\<And>v. nl \<notin> set (lib_dumps lib v)" "event_messages lib a r n items = Inr ms"
  obtains bs where "ms = map (\<lambda>b. b @ [nl, nl]) bs" "list_all message_body bs" "length bs = length items"
proof -
  have "\<exists>bs. ms = map (\<lambda>b. b @ [nl, nl]) bs \<and> list_all message_body bs \<and> length bs = length items"
    using assms(2)
  proof (induction items arbitrary: n ms)
    case (Cons item items)
    show ?case
    proof (cases item)
      case None
      with Cons.prems obtain ms' where ms: "event_messages lib a r n items = Inr ms'" "ms = ('': heartbeat'' @ [nl, nl]) # ms'"
        by (auto simp: newline_def nl_def)
      with Cons.IH obtain bs where "ms' = map (\<lambda>b. b @ [nl, nl]) bs" "list_all message_body bs" "length bs = length items"
        by blast
      moreover have "message_body '': heartbeat''" by (rule message_body_line) (simp_all add: nl_def)
      ultimately show ?thesis using ms(2) by (intro exI [of _ "'': heartbeat'' # bs"]) simp
    next
      case (Some e)
      with Cons.prems obtain m ms' where ms: "sse_message lib a r (Suc n) e = Inr m"
          "event_messages lib a r (Suc n) items = Inr ms'" "ms = m # ms'"
        by auto
      with Cons.IH obtain bs where "ms' = map (\<lambda>b. b @ [nl, nl]) bs" "list_all message_body bs" "length bs = length items"
        by blast
      moreover obtain b where "m = b @ [nl, nl]" "message_body b"
        using sse_message_body [OF assms(1) ms(1)] by blast
      ultimately show ?thesis using ms(3) by (intro exI [of _ "b # bs"]) simp
    qed
  qed simp
  with that show thesis by blast
qed

end
