(* ===== verification/Be_Facts.thy ===== *)
theory Be_Facts
  imports Be_Recall
begin

text \<open>
  Bitemporal facts (\<open>transition_fact\<close> and \<open>fact_history\<close> of
  \<^verbatim>\<open>backend/src/postmortem_backend/adapters/recall.py\<close>): the table \<open>semantic_facts\<close>, the three
  statements of a transition under the constraints of its schema (\<^verbatim>\<open>db/migrations\<close>), and the retry
  of the whole transaction. A transaction takes effect as a whole; what the cluster answers to an
  attempt it does not confirm, whether it committed it nevertheless, and what others do between two
  attempts, are arguments.
\<close>

section \<open>The table\<close>

record fact_row =
  sf_fact_id :: uuid
  sf_org_id :: uuid
  sf_agent_id :: uuid
  sf_subject :: string
  sf_predicate :: string
  sf_object :: string
  sf_confidence :: real
  sf_source :: "string option"
  sf_embedding :: string
  sf_valid_from :: int
  sf_valid_to :: "int option"
  sf_recorded_at :: int
  sf_superseded_by :: "uuid option"

type_synonym fact_table = "fact_row list"

definition fact_name :: "fact_row \<Rightarrow> uuid \<times> string \<times> string" where
  "fact_name r = (sf_org_id r, sf_subject r, sf_predicate r)"

text \<open>The parameters of the statements.\<close>

record transition =
  tr_new_fact_id :: uuid
  tr_org_id :: uuid
  tr_agent_id :: uuid
  tr_subject :: string
  tr_predicate :: string
  tr_object :: string
  tr_confidence :: real
  tr_source :: "string option"
  tr_embedding :: string
  tr_transition_at :: int

definition transition_name :: "transition \<Rightarrow> uuid \<times> string \<times> string" where
  "transition_name p = (tr_org_id p, tr_subject p, tr_predicate p)"

record transition_result =
  tres_new_fact_id :: uuid
  tres_valid_from :: int
  tres_recorded_at :: int
  tres_superseded_fact_id :: "uuid option"

section \<open>The statements\<close>

text \<open>A statement gives the \<open>SQLSTATE\<close> it fails with, or its effect. \<open>23514\<close> is a check
  constraint, \<open>23505\<close> a unique index.\<close>

definition open_fact :: "transition \<Rightarrow> fact_row \<Rightarrow> bool" where
  "open_fact p r \<longleftrightarrow> fact_name r = transition_name p \<and> sf_valid_to r = None"

definition close_superseded :: "transition \<Rightarrow> fact_table \<Rightarrow> string + fact_table \<times> uuid option" where
  "close_superseded p rows =
     (if list_all (\<lambda>r. open_fact p r \<longrightarrow> sf_valid_from r < tr_transition_at p) rows
      then Inr (map (\<lambda>r. if open_fact p r then r\<lparr>sf_valid_to := Some (tr_transition_at p)\<rparr> else r) rows,
        map_option sf_fact_id (find (open_fact p) rows))
      else Inl ''23514'')"

definition new_fact :: "transition \<Rightarrow> int \<Rightarrow> fact_row" where
  "new_fact p now = \<lparr>sf_fact_id = tr_new_fact_id p, sf_org_id = tr_org_id p, sf_agent_id = tr_agent_id p,
     sf_subject = tr_subject p, sf_predicate = tr_predicate p, sf_object = tr_object p,
     sf_confidence = tr_confidence p, sf_source = tr_source p, sf_embedding = tr_embedding p,
     sf_valid_from = tr_transition_at p, sf_valid_to = None, sf_recorded_at = now, sf_superseded_by = None\<rparr>"

definition insert_transitioned :: "transition \<Rightarrow> int \<Rightarrow> fact_table \<Rightarrow> string + fact_table" where
  "insert_transitioned p now rows =
     bindE (checkE (0 \<le> tr_confidence p \<and> tr_confidence p \<le> 1) ''23514'') (\<lambda>_.
     bindE (checkE (tr_new_fact_id p \<notin> sf_fact_id ` set rows \<and> \<not> list_ex (open_fact p) rows) ''23505'') (\<lambda>_.
     Inr (rows @ [new_fact p now])))"

definition link_superseded :: "transition \<Rightarrow> uuid \<Rightarrow> fact_table \<Rightarrow> string + fact_table" where
  "link_superseded p old_fact_id rows = (let
     linked = (\<lambda>r. sf_org_id r = tr_org_id p \<and> sf_fact_id r = old_fact_id) in
     if list_all (\<lambda>r. linked r \<longrightarrow> sf_valid_to r \<noteq> None) rows
     then Inr (map (\<lambda>r. if linked r then r\<lparr>sf_superseded_by := Some (tr_new_fact_id p)\<rparr> else r) rows)
     else Inl ''23514'')"

text \<open>\<open>_transition_fact_once\<close>: the transaction. \<open>now\<close> is the database's clock.\<close>

definition transition_once :: "transition \<Rightarrow> int \<Rightarrow> fact_table \<Rightarrow> string + fact_table \<times> transition_result" where
  "transition_once p now rows =
     bindE (close_superseded p rows) (\<lambda>(closed, old_fact_id).
     bindE (insert_transitioned p now closed) (\<lambda>inserted.
     bindE (case old_fact_id of None \<Rightarrow> Inr inserted | Some i \<Rightarrow> link_superseded p i inserted) (\<lambda>linked.
     Inr (linked, \<lparr>tres_new_fact_id = tr_new_fact_id p, tres_valid_from = tr_transition_at p,
       tres_recorded_at = now, tres_superseded_fact_id = old_fact_id\<rparr>))))"

section \<open>Retries\<close>

text \<open>A failure the caller of a transaction sees: its \<open>SQLSTATE\<close> (empty when the exception has none) and
  whether the transaction was committed nevertheless, as when the answer to the commit is lost or its
  result is ambiguous (\<open>40003\<close>). A serialization failure (\<open>40001\<close>) and a unique violation (\<open>23505\<close>)
  report that it was not.\<close>

type_synonym refusal = "string \<times> bool"

definition committed_anyway :: "refusal \<Rightarrow> bool" where
  "committed_anyway r \<longleftrightarrow> snd r \<and> fst r \<notin> {''40001'', ''23505''}"

text \<open>\<open>refusal i\<close> is the failure of attempt \<open>i\<close> if the cluster does not confirm it, \<open>others i\<close> what
  happens to the table before the next one; the second component of the state lists the pauses.\<close>

type_synonym cluster = "(nat \<Rightarrow> refusal option) \<times> (nat \<Rightarrow> fact_table \<Rightarrow> fact_table) \<times> (nat \<Rightarrow> int)"

definition attempt_transition :: "refusal option \<Rightarrow> transition \<Rightarrow> int \<Rightarrow> fact_table \<Rightarrow> (string + transition_result) \<times> fact_table" where
  "attempt_transition refusal p now rows = (case refusal of
     None \<Rightarrow> (case transition_once p now rows of
         Inl state \<Rightarrow> (Inl state, rows)
       | Inr (rows', result) \<Rightarrow> (Inr result, rows'))
   | Some r \<Rightarrow> (Inl (fst r), case transition_once p now rows of
         Inl state \<Rightarrow> rows
       | Inr (rows', result) \<Rightarrow> if committed_anyway r then rows' else rows))"

fun transition_attempts :: "cluster \<Rightarrow> transition \<Rightarrow> nat \<Rightarrow> nat \<Rightarrow>
    (fact_table \<times> real list, be_error, transition_result) prog" where
  "transition_attempts (refusal, others, clock) p attempt 0 =
     raise (PortError ''AssertionError'' ''serialization retry loop must return or raise'')"
| "transition_attempts (refusal, others, clock) p attempt (Suc left) = (\<lambda>(rows, pauses).
     case attempt_transition (refusal attempt) p (clock attempt) rows of
       (Inr result, rows') \<Rightarrow> (Inr result, (rows', pauses))
     | (Inl state, rows') \<Rightarrow> if state \<notin> {''40001'', ''23505''} \<or> left = 0
         then (Inl (RecallError ''Bitemporal fact transition failed.''), (rows', pauses))
         else transition_attempts (refusal, others, clock) p (Suc attempt) left
           (others attempt rows', pauses @ [0.025 * 2 ^ attempt]))"

text \<open>\<open>format(value, ".9g")\<close> of every component\<close>

definition embedding_literal :: "pylib \<Rightarrow> real list \<Rightarrow> string" where
  "embedding_literal lib v = ''['' @ str_join '','' (map (lib_g9 lib) v) @ '']''"

text \<open>The parameters; \<open>json.dumps\<close> of the object fails before any attempt is made.\<close>

definition transition_params :: "pylib \<Rightarrow> uuid \<Rightarrow> datetime \<Rightarrow> uuid \<Rightarrow> uuid \<Rightarrow> string \<Rightarrow> string \<Rightarrow> pyval \<Rightarrow>
    real list \<Rightarrow> real \<Rightarrow> string option \<Rightarrow> datetime option \<Rightarrow> be_error + transition" where
  "transition_params lib new_id now org agent subject predicate object_value embedding confidence source transition_at =
     bindE (py_dumps lib object_value) (\<lambda>t. Inr
     \<lparr>tr_new_fact_id = new_id, tr_org_id = org, tr_agent_id = agent, tr_subject = subject,
      tr_predicate = predicate, tr_object = t, tr_confidence = confidence,
      tr_source = source, tr_embedding = embedding_literal lib embedding,
      tr_transition_at = instant (case transition_at of None \<Rightarrow> now | Some t \<Rightarrow> t)\<rparr>)"

definition transition_fact :: "pylib \<Rightarrow> cluster \<Rightarrow> uuid \<Rightarrow> datetime \<Rightarrow> uuid \<Rightarrow> uuid \<Rightarrow> string \<Rightarrow> string \<Rightarrow> pyval \<Rightarrow>
    real list \<Rightarrow> real \<Rightarrow> string option \<Rightarrow> datetime option \<Rightarrow> int \<Rightarrow>
    (fact_table \<times> real list, be_error, transition_result) prog" where
  "transition_fact lib cluster new_id now org agent subject predicate object_value embedding confidence source
     transition_at max_serialization_retries =
     (if length embedding \<noteq> 1024 then raise (RecallError ''Fact embedding must have exactly 1024 dimensions.'')
      else andThen (lift_result (transition_params lib new_id now org agent subject predicate object_value embedding
          confidence source transition_at))
        (\<lambda>p. transition_attempts cluster p 0 (nat (max_serialization_retries + 1))))"

section \<open>History\<close>

record history_entry =
  he_fact_id :: uuid
  he_object :: pyval
  he_confidence :: real
  he_source :: "string option"
  he_valid_from :: int
  he_valid_to :: "int option"
  he_recorded_at :: int
  he_superseded_by :: "uuid option"

text \<open>\<open>column\<close> is how the database driver presents a JSON column; \<open>_json_value\<close> parses a text when
  it can, and catches only \<open>JSONDecodeError\<close>.\<close>

definition parsed_json :: "pylib \<Rightarrow> pyval \<Rightarrow> be_error + pyval" where
  "parsed_json lib v = (case v of
     PStr s \<Rightarrow> (case lib_loads lib s of Inr x \<Rightarrow> Inr x | Inl Bad_json \<Rightarrow> Inr v | Inl f \<Rightarrow> Inl (json_error f))
   | _ \<Rightarrow> Inr v)"

text \<open>\<open>FACT_HISTORY_SQL\<close>\<close>

definition history_rows :: "uuid \<Rightarrow> string \<Rightarrow> string \<Rightarrow> fact_table \<Rightarrow> fact_row list" where
  "history_rows org subject predicate rows =
     sort_key sf_recorded_at (filter (\<lambda>r. fact_name r = (org, subject, predicate)) rows)"

definition history_of :: "pylib \<Rightarrow> (string \<Rightarrow> pyval) \<Rightarrow> fact_row list \<Rightarrow> be_error + history_entry list" where
  "history_of lib column rows =
     mapE (\<lambda>r. bindE (parsed_json lib (column (sf_object r))) (\<lambda>object_value. Inr
       \<lparr>he_fact_id = sf_fact_id r, he_object = object_value,
        he_confidence = sf_confidence r, he_source = sf_source r, he_valid_from = sf_valid_from r,
        he_valid_to = sf_valid_to r, he_recorded_at = sf_recorded_at r, he_superseded_by = sf_superseded_by r\<rparr>)) rows"

text \<open>\<open>_run_read_only\<close>: only a serialization failure is tried again; the failure of the last attempt
  is raised.\<close>

fun read_attempts :: "(nat \<Rightarrow> string option) \<Rightarrow> (nat \<Rightarrow> 'a) \<Rightarrow> nat \<Rightarrow> nat \<Rightarrow> string + 'a" where
  "read_attempts refusal read attempt 0 = Inl ''AssertionError''"
| "read_attempts refusal read attempt (Suc left) = (case refusal attempt of
     None \<Rightarrow> Inr (read attempt)
   | Some state \<Rightarrow> if state \<noteq> ''40001'' \<or> left = 0 then Inl state else read_attempts refusal read (Suc attempt) left)"

text \<open>\<open>snapshot i\<close> is the table attempt \<open>i\<close> reads.\<close>

definition fact_history :: "pylib \<Rightarrow> (string \<Rightarrow> pyval) \<Rightarrow> (nat \<Rightarrow> string option) \<Rightarrow> (nat \<Rightarrow> fact_table) \<Rightarrow> uuid \<Rightarrow> string \<Rightarrow> string \<Rightarrow>
    be_error + history_entry list" where
  "fact_history lib column refusal snapshot org subject predicate =
     (case read_attempts refusal (\<lambda>i. history_rows org subject predicate (snapshot i)) 0 4 of
       Inl state \<Rightarrow> Inl (RecallError ''Fact history lookup failed.'')
     | Inr rows \<Rightarrow> history_of lib column rows)"

section \<open>Beliefs\<close>

text \<open>The rows of one fact, in the order they were opened, form a chain: each is closed at the
  instant the next one opens and points to it, and the last one is open.\<close>

fun chain :: "fact_row list \<Rightarrow> bool" where
  "chain [] = True"
| "chain [r] = (sf_valid_to r = None \<and> sf_superseded_by r = None)"
| "chain (r # s # rs) = (sf_valid_to r = Some (sf_valid_from s) \<and> sf_valid_from r < sf_valid_from s \<and>
     sf_superseded_by r = Some (sf_fact_id s) \<and> chain (s # rs))"

definition rows_named :: "fact_table \<Rightarrow> uuid \<times> string \<times> string \<Rightarrow> fact_row list" where
  "rows_named rows k = filter (\<lambda>r. fact_name r = k) rows"

definition facts_ok :: "fact_table \<Rightarrow> bool" where
  "facts_ok rows \<longleftrightarrow> distinct (map sf_fact_id rows) \<and> (\<forall>k. chain (rows_named rows k))"

text \<open>The bitemporal gate of the recall queries.\<close>

definition valid_at :: "int \<Rightarrow> fact_row \<Rightarrow> bool" where
  "valid_at t r \<longleftrightarrow> sf_valid_from r \<le> t \<and> (case sf_valid_to r of None \<Rightarrow> True | Some u \<Rightarrow> t < u)"

definition believed :: "fact_table \<Rightarrow> uuid \<times> string \<times> string \<Rightarrow> int \<Rightarrow> fact_row list" where
  "believed rows k t = filter (valid_at t) (rows_named rows k)"

text \<open>What is believed, without the marks a later transition leaves on the row.\<close>

definition content :: "fact_row \<Rightarrow> fact_row" where
  "content r = r\<lparr>sf_valid_to := None, sf_superseded_by := None\<rparr>"

definition latest :: "'a list \<Rightarrow> 'a list" where
  "latest ss = (if ss = [] then [] else [last ss])"

lemma latest_simps [simp]: "latest [] = []" "latest (ss @ [s]) = [s]"
  by (simp_all add: latest_def)

lemma latest_Cons: "ss \<noteq> [] \<Longrightarrow> latest (s # ss) = latest ss"
  by (simp add: latest_def)

lemma chain_Cons: "chain (r # rs) \<Longrightarrow> chain rs"
  by (cases rs) auto

lemma chain_later: "chain (r # rs) \<Longrightarrow> s \<in> set rs \<Longrightarrow> sf_valid_from r < sf_valid_from s"
proof (induction rs arbitrary: r)
  case (Cons x rs)
  then show ?case by (cases "s = x") (auto dest: order_less_trans)
qed simp

lemma chain_closed: "chain (xs @ [r]) \<Longrightarrow> s \<in> set xs \<Longrightarrow> sf_valid_to s \<noteq> None \<and> sf_superseded_by s \<noteq> None"
proof (induction xs)
  case (Cons x xs)
  then show ?case by (cases xs) auto
qed simp

lemma chain_last: "chain (xs @ [r]) \<Longrightarrow> sf_valid_to r = None \<and> sf_superseded_by r = None"
  by (induction xs rule: chain.induct) auto

text \<open>At each instant at most one row of a chain is valid: the last one that had opened.\<close>

lemma chain_believed: "chain rs \<Longrightarrow> filter (valid_at t) rs = latest (filter (\<lambda>r. sf_valid_from r \<le> t) rs)"
proof (induction rs)
  case (Cons r rs)
  note IH = Cons.IH [OF chain_Cons [OF Cons.prems]]
  show ?case
  proof (cases rs)
    case Nil
    with Cons.prems show ?thesis by (simp add: valid_at_def latest_def)
  next
    case (Cons s ss)
    have chain: "sf_valid_to r = Some (sf_valid_from s)" "sf_valid_from r < sf_valid_from s" "chain (s # ss)"
      using \<open>chain (r # rs)\<close> Cons by auto
    show ?thesis
    proof (cases "sf_valid_from s \<le> t")
      case True
      then have "\<not> valid_at t r" "sf_valid_from r \<le> t" using chain by (auto simp: valid_at_def)
      moreover have "filter (\<lambda>r. sf_valid_from r \<le> t) rs \<noteq> []" using True Cons by simp
      ultimately show ?thesis using IH by (simp add: latest_Cons)
    next
      case False
      then have none: "filter (\<lambda>r. sf_valid_from r \<le> t) rs = []"
        using chain_later [OF chain(3)] Cons by (auto simp: filter_empty_conv) force
      with IH False chain show ?thesis by (auto simp: valid_at_def latest_def)
    qed
  qed
qed simp

section \<open>What a transition does\<close>

lemma open_unique:
  assumes "facts_ok rows" "r \<in> set rows" "s \<in> set rows" "open_fact p r" "open_fact p s"
  shows "r = s"
proof -
  let ?rs = "rows_named rows (transition_name p)"
  have in_rs: "r \<in> set ?rs" "s \<in> set ?rs" using assms by (auto simp: rows_named_def open_fact_def)
  then obtain xs l where rs: "?rs = xs @ [l]" by (metis append_butlast_last_id list.set_cases list.distinct(1))
  have "chain (xs @ [l])" using assms(1) rs by (metis facts_ok_def)
  note closed = chain_closed [OF this]
  have "r = l" using closed [of r] in_rs(1) assms(4) unfolding rs open_fact_def by auto
  moreover have "s = l" using closed [of s] in_rs(2) assms(5) unfolding rs open_fact_def by auto
  ultimately show ?thesis by simp
qed

definition superseded :: "transition \<Rightarrow> fact_row \<Rightarrow> fact_row" where
  "superseded p r = (if open_fact p r then r\<lparr>sf_valid_to := Some (tr_transition_at p),
     sf_superseded_by := Some (tr_new_fact_id p)\<rparr> else r)"

lemma transition_effect:
  assumes ok: "facts_ok rows" and t: "transition_once p now rows = Inr (rows', res)"
  shows "rows' = map (superseded p) rows @ [new_fact p now]" "tr_new_fact_id p \<notin> sf_fact_id ` set rows"
    "\<And>r. r \<in> set rows \<Longrightarrow> open_fact p r \<Longrightarrow> sf_valid_from r < tr_transition_at p"
    "res = \<lparr>tres_new_fact_id = tr_new_fact_id p, tres_valid_from = tr_transition_at p, tres_recorded_at = now,
      tres_superseded_fact_id = map_option sf_fact_id (find (open_fact p) rows)\<rparr>"
    "0 \<le> tr_confidence p \<and> tr_confidence p \<le> 1"
proof -
  let ?close = "\<lambda>r. if open_fact p r then r\<lparr>sf_valid_to := Some (tr_transition_at p)\<rparr> else r"
  let ?old = "map_option sf_fact_id (find (open_fact p) rows)"
  have before: "list_all (\<lambda>r. open_fact p r \<longrightarrow> sf_valid_from r < tr_transition_at p) rows"
    using t by (auto simp: transition_once_def close_superseded_def split: if_splits)
  then have close: "close_superseded p rows = Inr (map ?close rows, ?old)" by (simp add: close_superseded_def)
  obtain inserted where ins: "insert_transitioned p now (map ?close rows) = Inr inserted"
      and link: "(case ?old of None \<Rightarrow> Inr inserted | Some i \<Rightarrow> link_superseded p i inserted) = Inr rows'"
      and res: "res = \<lparr>tres_new_fact_id = tr_new_fact_id p, tres_valid_from = tr_transition_at p,
        tres_recorded_at = now, tres_superseded_fact_id = ?old\<rparr>"
    using t close by (auto simp: transition_once_def)
  have "map sf_fact_id (map ?close rows) = map sf_fact_id rows" by simp
  then have ids: "sf_fact_id ` set (map ?close rows) = sf_fact_id ` set rows"
    by (metis list.set_map)
  from ins have inserted: "inserted = map ?close rows @ [new_fact p now]" "tr_new_fact_id p \<notin> sf_fact_id ` set rows"
      "0 \<le> tr_confidence p \<and> tr_confidence p \<le> 1"
    unfolding insert_transitioned_def ids by auto
  show "tr_new_fact_id p \<notin> sf_fact_id ` set rows" "0 \<le> tr_confidence p \<and> tr_confidence p \<le> 1"
    "res = \<lparr>tres_new_fact_id = tr_new_fact_id p, tres_valid_from = tr_transition_at p, tres_recorded_at = now,
      tres_superseded_fact_id = ?old\<rparr>" by fact+
  show "\<And>r. r \<in> set rows \<Longrightarrow> open_fact p r \<Longrightarrow> sf_valid_from r < tr_transition_at p"
    using before by (auto simp: list_all_iff)
  show "rows' = map (superseded p) rows @ [new_fact p now]"
  proof (cases "find (open_fact p) rows")
    case None
    then have "map ?close rows = map (superseded p) rows" by (auto simp: find_None_iff superseded_def)
    with None link inserted show ?thesis by simp
  next
    case (Some r)
    then have r: "r \<in> set rows" "open_fact p r" by (auto simp: find_Some_iff)
    have same: "s = r" if "s \<in> set rows" "sf_fact_id s = sf_fact_id r" for s
      using ok that r(1) unfolding facts_ok_def by (auto simp: distinct_map inj_on_def)
    have "rows' = map (\<lambda>r'. if sf_org_id r' = tr_org_id p \<and> sf_fact_id r' = sf_fact_id r
        then r'\<lparr>sf_superseded_by := Some (tr_new_fact_id p)\<rparr> else r') (map ?close rows @ [new_fact p now])"
      using link Some inserted(1) by (auto simp: link_superseded_def Let_def split: if_splits)
    moreover have "(if sf_org_id (?close s) = tr_org_id p \<and> sf_fact_id (?close s) = sf_fact_id r
        then (?close s)\<lparr>sf_superseded_by := Some (tr_new_fact_id p)\<rparr> else ?close s) = superseded p s"
      if s: "s \<in> set rows" for s
    proof (cases "open_fact p s")
      case True
      then have "s = r" by (rule open_unique [OF ok s r(1) _ r(2)])
      with True show ?thesis by (simp add: superseded_def open_fact_def fact_name_def transition_name_def)
    next
      case False
      with same [OF s] r(2) show ?thesis by (auto simp: superseded_def)
    qed
    moreover have "sf_fact_id (new_fact p now) \<noteq> sf_fact_id r" using inserted(2) r(1) by (auto simp: new_fact_def)
    ultimately show ?thesis by simp
  qed
qed

lemma superseded_fields [simp]:
  "fact_name (superseded p r) = fact_name r" "sf_fact_id (superseded p r) = sf_fact_id r"
  "sf_valid_from (superseded p r) = sf_valid_from r" "content (superseded p r) = content r"
  "sf_recorded_at (superseded p r) = sf_recorded_at r"
  by (simp_all add: superseded_def fact_name_def content_def)

lemma new_fact_fields [simp]:
  "fact_name (new_fact p now) = transition_name p" "sf_fact_id (new_fact p now) = tr_new_fact_id p"
  "sf_valid_from (new_fact p now) = tr_transition_at p" "content (new_fact p now) = new_fact p now"
  "sf_valid_to (new_fact p now) = None" "sf_superseded_by (new_fact p now) = None"
  by (simp_all add: new_fact_def fact_name_def transition_name_def content_def)

lemma rows_named_transition:
  "rows_named (map (superseded p) rows @ [new_fact p now]) k =
    map (superseded p) (rows_named rows k) @ (if k = transition_name p then [new_fact p now] else [])"
  by (simp add: rows_named_def filter_map comp_def)

lemma superseded_other: "k \<noteq> transition_name p \<Longrightarrow> map (superseded p) (rows_named rows k) = rows_named rows k"
  by (rule map_idI) (auto simp: rows_named_def superseded_def open_fact_def)

lemma chain_extend:
  assumes "chain rs" "list_all (\<lambda>r. fact_name r = transition_name p) rs"
    "list_all (\<lambda>r. sf_valid_to r = None \<longrightarrow> sf_valid_from r < tr_transition_at p) rs"
  shows "chain (map (superseded p) rs @ [new_fact p now])"
  using assms
proof (induction rs rule: chain.induct)
  case (2 r)
  then show ?case by (simp add: superseded_def open_fact_def)
next
  case (3 r s rs)
  have "superseded p r = r" using 3(2) by (simp add: superseded_def open_fact_def)
  with 3 show ?case by simp
qed simp

lemma facts_ok_transition:
  assumes ok: "facts_ok rows" and t: "transition_once p now rows = Inr (rows', res)"
  shows "facts_ok rows'"
proof -
  note effect = transition_effect [OF ok t]
  have "distinct (map sf_fact_id rows')"
    using ok effect(1,2) by (simp add: facts_ok_def comp_def)
  moreover have "chain (rows_named rows' k)" for k
  proof (cases "k = transition_name p")
    case True
    have "chain (rows_named rows k)" using ok unfolding facts_ok_def by blast
    moreover have "list_all (\<lambda>r. fact_name r = transition_name p) (rows_named rows k)"
      "list_all (\<lambda>r. sf_valid_to r = None \<longrightarrow> sf_valid_from r < tr_transition_at p) (rows_named rows k)"
      using True effect(3) by (auto simp: list_all_iff rows_named_def open_fact_def)
    ultimately show ?thesis
      using True chain_extend [of "rows_named rows k" p now] by (simp add: effect(1) rows_named_transition)
  next
    case False
    moreover have "chain (rows_named rows k)" using ok unfolding facts_ok_def by blast
    ultimately show ?thesis by (simp add: effect(1) rows_named_transition superseded_other)
  qed
  ultimately show ?thesis unfolding facts_ok_def by blast
qed

lemma believed_transition:
  assumes ok: "facts_ok rows" and t: "transition_once p now rows = Inr (rows', res)"
  shows "map content (believed rows' k t) =
    (if k = transition_name p \<and> tr_transition_at p \<le> t then [new_fact p now] else map content (believed rows k t))"
proof (cases "k = transition_name p")
  case False
  then show ?thesis
    by (simp add: believed_def transition_effect(1) [OF ok t] rows_named_transition superseded_other)
next
  case True
  note effect = transition_effect [OF ok t]
  let ?rs = "rows_named rows k"
  have chain: "chain ?rs" using ok unfolding facts_ok_def by blast
  have rows': "rows_named rows' k = map (superseded p) ?rs @ [new_fact p now]"
    using True by (simp add: effect(1) rows_named_transition)
  have chain': "chain (map (superseded p) ?rs @ [new_fact p now])"
    using facts_ok_transition [OF ok t] rows' by (metis facts_ok_def)
  show ?thesis
  proof (cases "tr_transition_at p \<le> t")
    case at: True
    then have "filter (valid_at t) (rows_named rows' k) = [new_fact p now]"
      unfolding rows' chain_believed [OF chain'] by simp
    with True at show ?thesis by (simp add: believed_def)
  next
    case False
    have "filter (valid_at t) (rows_named rows' k) = latest (map (superseded p) (filter (\<lambda>r. sf_valid_from r \<le> t) ?rs))"
      unfolding rows' chain_believed [OF chain'] using False by (simp add: filter_map comp_def)
    moreover have "filter (valid_at t) ?rs = latest (filter (\<lambda>r. sf_valid_from r \<le> t) ?rs)"
      by (rule chain_believed [OF chain])
    ultimately have "map content (filter (valid_at t) (rows_named rows' k)) = map content (filter (valid_at t) ?rs)"
      by (cases "filter (\<lambda>r. sf_valid_from r \<le> t) ?rs" rule: rev_cases) simp_all
    with False show ?thesis by (simp add: believed_def)
  qed
qed

section \<open>Attempts\<close>

text \<open>The state an attempt meets: what was there at first, after what others did before each earlier
  attempt was repeated.\<close>

definition table_at :: "(nat \<Rightarrow> 's \<Rightarrow> 's) \<Rightarrow> nat \<Rightarrow> nat \<Rightarrow> 's \<Rightarrow> 's" where
  "table_at others a i rows = fold others [a..<i] rows"

lemma table_at_same [simp]: "table_at others a a rows = rows"
  by (simp add: table_at_def)

lemma table_at_Suc: "a < i \<Longrightarrow> table_at others (Suc a) i (others a rows) = table_at others a i rows"
  by (simp add: table_at_def upt_rec [of a i])

lemma table_at_keeps:
  assumes "\<And>i t. I t \<Longrightarrow> I (others i t)" "I rows"
  shows "I (table_at others a i rows)"
proof -
  have "I (fold others is rows)" for "is"
    using assms by (induction "is" arbitrary: rows) auto
  then show ?thesis by (simp add: table_at_def)
qed

definition pauses_of :: "nat \<Rightarrow> nat \<Rightarrow> real list" where
  "pauses_of a i = map (\<lambda>j. 0.025 * 2 ^ j) [a..<i]"

lemma pauses_of_same [simp]: "pauses_of a a = []"
  by (simp add: pauses_of_def)

lemma pauses_of_Suc: "a < i \<Longrightarrow> (0.025 * 2 ^ a) # pauses_of (Suc a) i = pauses_of a i"
  by (simp add: pauses_of_def upt_rec [of a i])

text \<open>The retry loops of the adapters: an attempt settles the call, and the last one always does, or
  it is repeated after a pause. Then one of the allowed attempts has settled it, on the state it met.\<close>

locale retry_loop =
  fixes loop :: "nat \<Rightarrow> nat \<Rightarrow> ('s \<times> real list, 'e, 'a) prog"
    and settle :: "nat \<Rightarrow> bool \<Rightarrow> 's \<Rightarrow> (('e + 'a) \<times> 's) option"
    and others :: "nat \<Rightarrow> 's \<Rightarrow> 's"
  assumes loop_Suc: "loop a (Suc left) (t, pauses) = (case settle a (left = 0) t of
      Some (r, t') \<Rightarrow> (r, (t', pauses))
    | None \<Rightarrow> loop (Suc a) left (others a t, pauses @ [0.025 * 2 ^ a]))"
    and settle_last: "settle a True t \<noteq> None"
begin

lemma settled:
  assumes "left \<noteq> 0" "loop a left (t, pauses) = (r, t', pauses')"
  shows "\<exists>i final. a \<le> i \<and> i < a + left \<and> pauses' = pauses @ pauses_of a i \<and>
    settle i final (table_at others a i t) = Some (r, t')"
  using assms
proof (induction left arbitrary: a t pauses)
  case (Suc left)
  show ?case
  proof (cases "settle a (left = 0) t")
    case (Some x)
    with Suc.prems(2) show ?thesis by (intro exI [of _ a] exI [of _ "left = 0"]) (auto simp: loop_Suc split: prod.splits)
  next
    case None
    then have "left \<noteq> 0" using settle_last by (cases left) auto
    moreover have "loop (Suc a) left (others a t, pauses @ [0.025 * 2 ^ a]) = (r, t', pauses')"
      using None Suc.prems(2) by (simp add: loop_Suc)
    ultimately obtain i final where "Suc a \<le> i" "i < Suc a + left" "pauses' = (pauses @ [0.025 * 2 ^ a]) @ pauses_of (Suc a) i"
        "settle i final (table_at others (Suc a) i (others a t)) = Some (r, t')"
      using Suc.IH by blast
    then show ?thesis
      using table_at_Suc [of a i others t] pauses_of_Suc [of a i] by (intro exI [of _ i] exI [of _ final]) simp
  qed
qed simp

end

definition transition_settle :: "(nat \<Rightarrow> refusal option) \<Rightarrow> (nat \<Rightarrow> int) \<Rightarrow> transition \<Rightarrow> nat \<Rightarrow> bool \<Rightarrow> fact_table \<Rightarrow>
    ((be_error + transition_result) \<times> fact_table) option" where
  "transition_settle refusal clock p i final rows =
     (case attempt_transition (refusal i) p (clock i) rows of
       (Inr result, rows') \<Rightarrow> Some (Inr result, rows')
     | (Inl state, rows') \<Rightarrow> if state \<notin> {''40001'', ''23505''} \<or> final
         then Some (Inl (RecallError ''Bitemporal fact transition failed.''), rows') else None)"

lemma attempt_refused:
  assumes "attempt_transition refusal p now rows = (Inl state, rows')"
  shows "rows' = rows \<or> (state \<notin> {''40001'', ''23505''} \<and> refusal = Some (state, True) \<and>
    (\<exists>result. transition_once p now rows = Inr (rows', result)))"
  using assms by (auto simp: attempt_transition_def committed_anyway_def split: option.splits sum.splits if_splits)

interpretation transition_retry: retry_loop "transition_attempts (refusal, others, clock) p"
    "transition_settle refusal clock p" others for refusal others clock p
  by unfold_locales (auto simp: transition_settle_def dest: attempt_refused split: sum.splits prod.splits)

text \<open>Whatever the cluster answers, one of the allowed attempts settles the transition: it commits
  its transaction on the table it met, confirmed or not, or it leaves that table as it is.\<close>

lemma transition_attempts_cases:
  assumes "left \<noteq> 0"
    and "transition_attempts (refusal, others, clock) p a left (rows, pauses) = (result, rows', pauses')"
  shows "\<exists>i. a \<le> i \<and> i < a + left \<and> pauses' = pauses @ pauses_of a i \<and>
    (case result of
       Inl e \<Rightarrow> e = RecallError ''Bitemporal fact transition failed.'' \<and>
         (rows' = table_at others a i rows \<or> (\<exists>state res. refusal i = Some (state, True) \<and> state \<notin> {''40001'', ''23505''} \<and>
           transition_once p (clock i) (table_at others a i rows) = Inr (rows', res)))
     | Inr res \<Rightarrow> refusal i = None \<and> transition_once p (clock i) (table_at others a i rows) = Inr (rows', res))"
proof -
  obtain i final where i: "a \<le> i" "i < a + left" "pauses' = pauses @ pauses_of a i"
      and settle: "transition_settle refusal clock p i final (table_at others a i rows) = Some (result, rows')"
    using transition_retry.settled [OF assms] by blast
  obtain o' u where once: "attempt_transition (refusal i) p (clock i) (table_at others a i rows) = (o', u)" by fastforce
  show ?thesis
  proof (cases o')
    case (Inl state)
    with settle once attempt_refused [of "refusal i" p "clock i" "table_at others a i rows" state u] i
    show ?thesis by (intro exI [of _ i]) (auto simp: transition_settle_def split: if_splits)
  next
    case (Inr res)
    with settle once have "result = Inr res" "rows' = u" by (simp_all add: transition_settle_def)
    with once Inr i show ?thesis
      by (intro exI [of _ i]) (auto simp: attempt_transition_def split: option.splits sum.splits)
  qed
qed

section \<open>Reachable tables\<close>

text \<open>Tables written by transitions only, under a clock that does not run back.\<close>

inductive facts_reach :: "int \<Rightarrow> fact_table \<Rightarrow> bool" where
  facts_start: "facts_reach now []"
| facts_step: "facts_reach now rows \<Longrightarrow> now \<le> now' \<Longrightarrow> transition_once p now' rows = Inr (rows', res) \<Longrightarrow>
    facts_reach now' rows'"

lemma facts_reach_ok: "facts_reach now rows \<Longrightarrow> facts_ok rows"
proof (induction rule: facts_reach.induct)
  case (facts_start now)
  show ?case by (simp add: facts_ok_def rows_named_def)
qed (rule facts_ok_transition)

lemma facts_reach_recorded:
  "facts_reach now rows \<Longrightarrow> sorted (map sf_recorded_at rows) \<and> (\<forall>r\<in>set rows. sf_recorded_at r \<le> now)"
proof (induction rule: facts_reach.induct)
  case (facts_step now rows now' p rows' res)
  note effect = transition_effect(1) [OF facts_reach_ok [OF facts_step(1)] facts_step(3)]
  have "sf_recorded_at (new_fact p now') = now'" by (simp add: new_fact_def)
  with facts_step show ?case unfolding effect by (auto simp: sorted_append comp_def)
qed simp

lemma reached_history: "facts_reach now rows \<Longrightarrow>
    sort_key sf_recorded_at (filter (\<lambda>r. fact_name r = k) rows) = rows_named rows k"
  by (simp add: rows_named_def sorted_sort_id sort_key_id_if_sorted sorted_filter facts_reach_recorded)

lemma read_attempts_cases:
  "left \<noteq> 0 \<Longrightarrow> \<exists>i. a \<le> i \<and> i < a + left \<and> read_attempts refusal read a left =
    (case refusal i of None \<Rightarrow> Inr (read i) | Some state \<Rightarrow> Inl state)"
proof (induction left arbitrary: a)
  case (Suc left)
  show ?case
  proof (cases "refusal a = None \<or> (\<exists>state. refusal a = Some state \<and> (state \<noteq> ''40001'' \<or> left = 0))")
    case True
    then show ?thesis by (intro exI [of _ a]) auto
  next
    case False
    then have left: "left \<noteq> 0" and again: "read_attempts refusal read a (Suc left) = read_attempts refusal read (Suc a) left"
      by (auto split: option.splits)
    from Suc.IH [OF left, of "Suc a"] obtain i where "Suc a \<le> i" "i < Suc a + left"
        "read_attempts refusal read (Suc a) left = (case refusal i of None \<Rightarrow> Inr (read i) | Some state \<Rightarrow> Inl state)"
      by blast
    with again show ?thesis by (intro exI [of _ i]) simp
  qed
qed simp

text \<open>A history in which each belief ends where the next one begins.\<close>

fun history_chain :: "history_entry list \<Rightarrow> bool" where
  "history_chain [] = True"
| "history_chain [h] = (he_valid_to h = None \<and> he_superseded_by h = None)"
| "history_chain (h # k # hs) = (he_valid_to h = Some (he_valid_from k) \<and> he_valid_from h < he_valid_from k \<and>
     he_superseded_by h = Some (he_fact_id k) \<and> history_chain (k # hs))"

definition entry_of :: "fact_row \<Rightarrow> history_entry \<Rightarrow> bool" where
  "entry_of r h \<longleftrightarrow> he_fact_id h = sf_fact_id r \<and> he_valid_from h = sf_valid_from r \<and> he_valid_to h = sf_valid_to r \<and>
     he_superseded_by h = sf_superseded_by r"

lemma history_chain_entries: "list_all2 entry_of rs hs \<Longrightarrow> history_chain hs = chain rs"
proof (induction rs arbitrary: hs rule: chain.induct)
  case (3 r s rs)
  then obtain h k hs' where hs: "hs = h # k # hs'" "entry_of r h" "list_all2 entry_of (s # rs) (k # hs')"
    by (auto simp: list_all2_Cons1)
  with 3(1) [OF hs(3)] show ?case by (auto simp: entry_of_def)
qed (auto simp: list_all2_Cons1 entry_of_def)

lemma history_entries: "history_of lib column rows = Inr hs \<Longrightarrow> list_all2 entry_of rows hs"
  unfolding history_of_def by (induction rows arbitrary: hs) (auto simp: entry_of_def)

lemma history_fails: "history_of lib column rows = Inl e \<Longrightarrow> \<exists>r\<in>set rows. parsed_json lib (column (sf_object r)) = Inl e"
  unfolding history_of_def by (induction rows) (auto simp: bindE_Inl_iff)

lemma history_of_reached:
  assumes "facts_reach now rows" "history_of lib column (history_rows org subject predicate rows) = Inr hs"
  shows "history_chain hs" "map he_fact_id hs = map sf_fact_id (rows_named rows (org, subject, predicate))"
proof -
  have rows: "history_rows org subject predicate rows = rows_named rows (org, subject, predicate)"
    by (simp add: history_rows_def reached_history [OF assms(1)])
  note entries = history_entries [OF assms(2), unfolded rows]
  show "history_chain hs"
    using facts_reach_ok [OF assms(1)] history_chain_entries [OF entries] by (simp add: facts_ok_def)
  have "list_all2 entry_of rs hs \<Longrightarrow> map he_fact_id hs = map sf_fact_id rs" for rs
    by (induction rule: list_all2_induct) (auto simp: entry_of_def)
  with entries show "map he_fact_id hs = map sf_fact_id (rows_named rows (org, subject, predicate))" by blast
qed

end
