(* ===== verification/Be_Adapter_Claims.thy ===== *)
theory Be_Adapter_Claims
  imports Be_Bedrock Be_Transport Be_Facts Be_Runtime
begin

text \<open>
  The properties of the adapters around the responder: what the model's answer can become, what the
  console is sent, and what a transition of a fact does to what is believed. Each is followed by an
  instance on concrete inputs.
\<close>

section \<open>The reasoner\<close>


text \<open>C18. The answer format of the prompt is the one the parser reads: a grounded remediation written
  as the JSON object the prompt asks for, with any prose without braces around it, is parsed back to
  the same decision, command included.\<close>

theorem be_model_contract_roundtrip:
  assumes json: "lib_loads lib t = Inr (contract_payload d c)" "t = CHR ''{'' # body @ ''}''"
    and prose: "CHR ''{'' \<notin> set before" "CHR ''}'' \<notin> set after"
    and d: "dec_kind d = Remediate" "dec_command d = Some c" "dec_cited_memory_id d = Some (cmd_cited_memory_id c)"
      "dec_explanation d = cmd_rationale c" "trimmed (cmd_rationale c)"
    and c: "grounded_command s memory c" "trimmed (cmd_target_version c)" "uuid_int (cmd_cited_memory_id c) < 2 ^ 128"
      "cmd_outcome_stub c = ''remediation_started''" "cmd_idempotency_key c = None"
    and known: "distinct (map mem_memory_id (all_candidates memory))"
  shows "parse_decision lib (before @ t @ after) s memory = Inr d"
  by (rule parse_decision_contract [OF json_slice_text [OF prose json(2)] json(1) d c known])

definition adapter_signal :: signal where
  "adapter_signal = \<lparr>sig_incident_id = UUID 1, sig_session_id = UUID 2, sig_org_id = UUID 3,
     sig_agent_id = UUID 4, sig_service_id = UUID 5, sig_severity = ''SEV-1'',
     sig_summary = ''5xx spike'', sig_error_signature = Some ''http-500'', sig_service_tags = [''search''],
     sig_observed_at = Zoned 0 0, sig_metadata = []\<rparr>"

definition model_answer :: decision where
  "model_answer = \<lparr>dec_kind = Remediate, dec_explanation = ''Matches case 1878.'',
     dec_cited_memory_id = Some demo_runbook_id, dec_command = Some
       \<lparr>cmd_org_id = UUID 3, cmd_agent_id = UUID 4, cmd_incident_id = UUID 1, cmd_session_id = UUID 2,
        cmd_service_id = UUID 5, cmd_action = Rollback, cmd_target_version = ''1.4.2'',
        cmd_cited_memory_id = demo_runbook_id, cmd_runbook_id = Some demo_runbook_id,
        cmd_rationale = ''Matches case 1878.'', cmd_outcome_stub = ''remediation_started'',
        cmd_requires_human_approval = True, cmd_approved = False, cmd_idempotency_key = None\<rparr>,
     dec_confidence = 0.8\<rparr>"

definition model_lib :: pylib where
  "model_lib = plain_lib\<lparr>lib_loads := \<lambda>t. Inr (contract_payload model_answer (the (dec_command model_answer)))\<rparr>"

theorem be_model_contract_roundtrip_witness:
  "parse_decision model_lib (''Sure: '' @ ''{...}'' @ '' Done.'') adapter_signal phase_one_demo_memory = Inr model_answer"
proof (rule be_model_contract_roundtrip [where c = "the (dec_command model_answer)" and body = "''...''"])
  show "grounded_command adapter_signal phase_one_demo_memory (the (dec_command model_answer))"
    by (auto simp: grounded_command_def phase_one_demo_memory_def model_answer_def adapter_signal_def all_candidates_def
        actionable_def dict_get_def demo_runbook_id_def str_strip_def is_space_def)
qed (auto simp: model_lib_def model_answer_def trimmed_def is_space_def demo_runbook_id_def phase_one_demo_memory_def
    all_candidates_def)

section \<open>The console\<close>

text \<open>Every event the responder and the outcome service publish can be shown: replace what they
  publish with by any program that agrees with it on the events the transport maps to one of the
  alternatives of the console's union, with its required fields and literals; no turn and no
  recording of an outcome, whatever its end, can tell the difference.\<close>

theorem be_console_total:
  assumes "\<And>e. console_ok lib e \<Longrightarrow> g e = p_publish P e" "\<And>e. console_ok lib e \<Longrightarrow> h e = o_publish Q e"
  shows "handle lib (P\<lparr>p_publish := g\<rparr>) signal approved approver = handle lib P signal approved approver \<and>
    record_and_publish (Q\<lparr>o_publish := h\<rparr>) c = record_and_publish Q c"
proof
  show "handle lib (P\<lparr>p_publish := g\<rparr>) signal approved approver = handle lib P signal approved approver"
    by (rule handle_shown) (simp add: agree_shown_def assms(1))
  show "record_and_publish (Q\<lparr>o_publish := h\<rparr>) c = record_and_publish Q c"
    by (rule record_and_publish_shown [OF assms(2)])
qed

definition adapter_ports :: "local_world ports" where
  "adapter_ports = local_ports plain_lib (\<lambda>k. UUID (1000 + k)) (\<lambda>k. Zoned (int k) 0) False"

definition adapter_outcome_ports :: "local_world outcome_ports" where
  "adapter_outcome_ports = local_outcome_ports (\<lambda>k. UUID (1000 + k)) (\<lambda>k. Zoned (int k) 0)"

definition only_shown :: "(agent_event \<Rightarrow> (local_world, be_error, unit) prog) \<Rightarrow> agent_event \<Rightarrow> (local_world, be_error, unit) prog" where
  "only_shown f e = (if console_ok plain_lib e then f e else raise (PortError ''KeyError'' ''no alternative''))"

definition adapter_outcome :: outcome_command where
  "adapter_outcome = \<lparr>oc_org_id = UUID 3, oc_agent_id = UUID 4, oc_incident_id = UUID 1, oc_service_id = UUID 5,
     oc_action_id = UUID 9, oc_outcome = Succeeded, oc_summary = ''recovered'', oc_error_signature = None,
     oc_observed_at = Zoned 0 0\<rparr>"

theorem be_console_total_witness:
  "handle plain_lib (adapter_ports\<lparr>p_publish := only_shown (p_publish adapter_ports)\<rparr>) adapter_signal True None =
     handle plain_lib adapter_ports adapter_signal True None \<and>
   record_and_publish (adapter_outcome_ports\<lparr>o_publish := only_shown (o_publish adapter_outcome_ports)\<rparr>) adapter_outcome =
     record_and_publish adapter_outcome_ports adapter_outcome"
  by (rule be_console_total [where lib = plain_lib]) (simp_all add: only_shown_def)

text \<open>The framing of the event stream loses nothing: as \<open>json.dumps\<close> writes no line break, a
  reader that cuts what was sent at its blank lines finds exactly the messages that were sent, in order,
  one for each event and each heartbeat.\<close>

theorem be_stream_framing:
  assumes "\<And>v. nl \<notin> set (lib_dumps lib v)" "event_messages lib agent_id region sequence items = Inr ms"
  shows "length ms = length items \<and> blocks [] (concat ms) = map (\<lambda>m. take (length m - 2) m) ms"
proof -
  obtain bs where bs: "ms = map (\<lambda>b. b @ [nl, nl]) bs" "list_all message_body bs" "length bs = length items"
    by (rule event_messages_bodies [OF assms])
  have "map (\<lambda>m. take (length m - 2) m) ms = bs" by (simp add: bs(1) comp_def)
  with blocks_stream [OF bs(2)] bs(1,3) show ?thesis by simp
qed

definition adapter_event :: agent_event where
  "adapter_event = \<lparr>aev_incident_id = UUID 1, aev_type = Reasoning_started, aev_stage = ''reason'',
     aev_message = ''Reasoning.'', aev_data = [], aev_event_id = UUID 7, aev_occurred_at = Zoned 0 0\<rparr>"

definition adapter_messages :: "string list" where
  "adapter_messages = ['': heartbeat'' @ [nl, nl],
     ''id: 00000000-0000-0000-0000-000000000007'' @ [nl] @ ''event: reason'' @ [nl] @ ''data: '' @ [nl, nl]]"

theorem be_stream_framing_witness:
  "length adapter_messages = 2 \<and>
   blocks [] (concat adapter_messages) = map (\<lambda>m. take (length m - 2) m) adapter_messages"
proof -
  have "event_messages plain_lib ''agent'' ''us-east'' 0 [None, Some adapter_event] = Inr adapter_messages"
    by code_simp
  from be_stream_framing [OF _ this] show ?thesis by (simp add: plain_lib_def)
qed

section \<open>Facts\<close>


definition busy_once :: "nat \<Rightarrow> string option" where
  "busy_once i = (if i = 0 then Some ''40001'' else None)"


definition owner_transition :: "uuid \<Rightarrow> int \<Rightarrow> string \<Rightarrow> transition" where
  "owner_transition new_id now team = projr (transition_params plain_lib new_id (Zoned now 0) (UUID 3) (UUID 4) ''service:search''
     ''owner'' (PStr team) (replicate 1024 0) 1 None None)"


text \<open>The history of a fact is the record of its beliefs: when every table that is read was
  written by transitions, a reading gives, oldest first, exactly the rows of the fact, each valid until the
  instant the next one begins and pointing to it, the last one still open; or it raises \<open>RecallError\<close>,
  and then one of the four attempts was refused, or an object on record is one \<open>json.loads\<close> fails on with
  another failure than \<open>JSONDecodeError\<close>.\<close>

theorem be_fact_history:
  assumes "\<And>i. \<exists>now. facts_reach now (snapshot i)"
  shows "\<exists>i<4. case fact_history lib column refusal snapshot org subject predicate of
      Inl e \<Rightarrow> (e = RecallError ''Fact history lookup failed.'' \<and> refusal i \<noteq> None) \<or>
        (refusal i = None \<and> (\<exists>r\<in>set (snapshot i). parsed_json lib (column (sf_object r)) = Inl e))
    | Inr hs \<Rightarrow> refusal i = None \<and> history_chain hs \<and>
        map he_fact_id hs = map sf_fact_id (rows_named (snapshot i) (org, subject, predicate))"
proof -
  let ?read = "\<lambda>i. history_rows org subject predicate (snapshot i)"
  obtain i where i: "i < 4" "read_attempts refusal ?read 0 4 =
      (case refusal i of None \<Rightarrow> Inr (?read i) | Some state \<Rightarrow> Inl state)"
    using read_attempts_cases [of 4 0 refusal ?read] by auto
  obtain now where now: "facts_reach now (snapshot i)" using assms by blast
  have rows: "set (?read i) \<subseteq> set (snapshot i)" by (auto simp: history_rows_def)
  show ?thesis
  proof (intro exI [of _ i] conjI i(1))
    show "case fact_history lib column refusal snapshot org subject predicate of
      Inl e \<Rightarrow> (e = RecallError ''Fact history lookup failed.'' \<and> refusal i \<noteq> None) \<or>
        (refusal i = None \<and> (\<exists>r\<in>set (snapshot i). parsed_json lib (column (sf_object r)) = Inl e))
    | Inr hs \<Rightarrow> refusal i = None \<and> history_chain hs \<and>
        map he_fact_id hs = map sf_fact_id (rows_named (snapshot i) (org, subject, predicate))"
      using i(2) rows history_of_reached [OF now] history_fails [of lib column "?read i"]
      by (cases "refusal i") (fastforce simp: fact_history_def split: sum.splits)+
  qed
qed

definition first_owner :: transition where
  "first_owner = owner_transition (UUID 8) 50 ''team-a''"

definition second_owner :: transition where
  "second_owner = owner_transition (UUID 9) 70 ''team-b''"

lemma owner_transition_fields: "owner_transition new_id now team = \<lparr>tr_new_fact_id = new_id, tr_org_id = UUID 3,
    tr_agent_id = UUID 4, tr_subject = ''service:search'', tr_predicate = ''owner'', tr_object = [], tr_confidence = 1,
    tr_source = None, tr_embedding = embedding_literal plain_lib (replicate 1024 0), tr_transition_at = instant (Zoned now 0)\<rparr>"
  by (simp add: owner_transition_def transition_params_def py_dumps_def plain_lib_def)

definition owner_rows :: fact_table where
  "owner_rows = [superseded second_owner (new_fact first_owner 51), new_fact second_owner 71]"

lemma owner_rows_reached: "facts_reach 71 owner_rows"
proof -
  have "\<exists>res. transition_once first_owner 51 [] = Inr ([new_fact first_owner 51], res)"
    by (simp add: transition_once_def close_superseded_def insert_transitioned_def first_owner_def owner_transition_fields)
  then obtain res where "transition_once first_owner 51 [] = Inr ([new_fact first_owner 51], res)" by blast
  from facts_step [OF facts_start _ this, of 0] have one: "facts_reach 51 [new_fact first_owner 51]" by simp
  have "\<exists>res. transition_once second_owner 71 [new_fact first_owner 51] = Inr (owner_rows, res)"
    by (simp add: transition_once_def close_superseded_def insert_transitioned_def link_superseded_def Let_def
        owner_rows_def superseded_def open_fact_def fact_name_def transition_name_def new_fact_def
        first_owner_def second_owner_def owner_transition_fields)
  then obtain res where "transition_once second_owner 71 [new_fact first_owner 51] = Inr (owner_rows, res)" by blast
  from facts_step [OF one _ this] show ?thesis by simp
qed

theorem be_fact_history_witness:
  "\<exists>i<4. case fact_history plain_lib PStr busy_once (\<lambda>_. owner_rows) (UUID 3) ''service:search'' ''owner'' of
      Inl e \<Rightarrow> (e = RecallError ''Fact history lookup failed.'' \<and> busy_once i \<noteq> None) \<or>
        (busy_once i = None \<and> (\<exists>r\<in>set owner_rows. parsed_json plain_lib (PStr (sf_object r)) = Inl e))
    | Inr hs \<Rightarrow> busy_once i = None \<and> history_chain hs \<and>
        map he_fact_id hs = map sf_fact_id (rows_named owner_rows (UUID 3, ''service:search'', ''owner''))"
  by (rule be_fact_history) (blast intro: owner_rows_reached)

end
