(* ===== verification/Be_Cockroach.thy ===== *)
theory Be_Cockroach
  imports Be_Store Be_Facts
begin

text \<open>
  The stores over CockroachDB (\<^verbatim>\<open>backend/src/postmortem_backend/adapters/cockroach.py\<close> and
  \<^verbatim>\<open>outcome.py\<close>): the effect of the two statements on the tables they read and write, under the
  constraints of the schema (\<^verbatim>\<open>db/migrations\<close>), and the retry loops around them. A statement takes
  effect as a whole. What the cluster answers to an attempt it refuses, and what others do between
  two attempts, are arguments; so are the reading of a vector literal and of a time span in seconds.
\<close>

section \<open>Tables\<close>

record database =
  db_vector :: "string \<Rightarrow> real list"
  db_seconds :: "int \<Rightarrow> int"

record sql_service =
  qs_org_id :: uuid
  qs_health :: string
  qs_current_version :: string
  qs_current_deploy_id :: "uuid option"
  qs_updated_at :: int

record sql_incident =
  qi_org_id :: uuid
  qi_service_id :: uuid
  qi_status :: string
  qi_runbook_id :: "uuid option"
  qi_opened_at :: int
  qi_resolved_at :: "int option"
  qi_mttr_seconds :: "int option"

record sql_action =
  qa_org_id :: uuid
  qa_incident_id :: uuid
  qa_action_type :: string
  qa_target_id :: uuid
  qa_params :: pydict
  qa_applied_by :: string
  qa_outcome :: string
  qa_memory_ref :: "uuid option"
  qa_transaction_id :: uuid
  qa_idempotency_key :: string
  qa_applied_at :: int

record sql_runbook =
  qr_org_id :: uuid
  qr_status :: string
  qr_usage_count :: int
  qr_last_used_at :: "int option"

text \<open>The rows of deployments and episodes have the columns of the local store; the times of an
  episode are always set.\<close>

record sql_tables =
  qt_services :: "(uuid, sql_service) dict"
  qt_incidents :: "(uuid, sql_incident) dict"
  qt_deploys :: "(uuid, deploy_row) dict"
  qt_episodes :: "(uuid, episode_row) dict"
  qt_actions :: "(uuid, sql_action) dict"
  qt_runbooks :: "(uuid, sql_runbook) dict"

definition db_time :: "int \<Rightarrow> datetime" where
  "db_time t = Zoned t 0"

section \<open>Remediation\<close>

text \<open>The common table expressions \<open>provenance\<close>, \<open>target\<close> and \<open>runbook_gate\<close>: whether they have
  a row.\<close>

definition row_with :: "('v \<Rightarrow> bool) \<Rightarrow> ('k, 'v) dict \<Rightarrow> 'k \<Rightarrow> bool" where
  "row_with p d k \<longleftrightarrow> (case map_of d k of None \<Rightarrow> False | Some r \<Rightarrow> p r)"

definition sql_provenance :: "command \<Rightarrow> sql_tables \<Rightarrow> bool" where
  "sql_provenance c t \<longleftrightarrow>
     row_with (\<lambda>ep. ep_org_id ep = cmd_org_id c) (qt_episodes t) (cmd_cited_memory_id c) \<or>
     row_with (\<lambda>rb. qr_org_id rb = cmd_org_id c) (qt_runbooks t) (cmd_cited_memory_id c)"

definition sql_target :: "command \<Rightarrow> sql_tables \<Rightarrow> bool" where
  "sql_target c t \<longleftrightarrow>
     row_with (\<lambda>i. qi_org_id i = cmd_org_id c \<and> qi_service_id i = cmd_service_id c \<and>
       qi_status i \<in> {''open'', ''mitigating''}) (qt_incidents t) (cmd_incident_id c) \<and>
     row_with (\<lambda>s. qs_org_id s = cmd_org_id c) (qt_services t) (cmd_service_id c)"

definition runbook_gate :: "command \<Rightarrow> sql_tables \<Rightarrow> bool" where
  "runbook_gate c t \<longleftrightarrow> (case cmd_runbook_id c of None \<Rightarrow> True
   | Some r \<Rightarrow> row_with (\<lambda>rb. qr_org_id rb = cmd_org_id c \<and> qr_status rb = ''active'') (qt_runbooks t) r)"

definition action_type_of :: "command \<Rightarrow> string" where
  "action_type_of c = (if cmd_action c = Rollback then ''rollback_deploy'' else ''restart_service'')"

definition sql_episode :: "pylib \<Rightarrow> database \<Rightarrow> fresh_ids \<Rightarrow> int \<Rightarrow> command \<Rightarrow> real list \<Rightarrow> episode_row" where
  "sql_episode lib db ids now c v = \<lparr>ep_org_id = cmd_org_id c, ep_agent_id = cmd_agent_id c,
     ep_incident_id = cmd_incident_id c, ep_session_id = Some (cmd_session_id c),
     ep_service_id = cmd_service_id c, ep_event_type = ''action'', ep_content = memory_text c,
     ep_metadata = [(''deploy_id'', PStr (uuid_str (new_deploy_id ids))),
       (''cited_memory_id'', PStr (uuid_str (cmd_cited_memory_id c))),
       (''outcome'', PStr (cmd_outcome_stub c))],
     ep_runbook_id = cmd_runbook_id c, ep_importance = 0.9, ep_embedding = db_vector db (embedding_literal lib v),
     ep_occurred_at = Some (db_time now), ep_created_at = Some (db_time now)\<rparr>"

definition sql_record_action :: "fresh_ids \<Rightarrow> int \<Rightarrow> command \<Rightarrow> sql_action" where
  "sql_record_action ids now c = \<lparr>qa_org_id = cmd_org_id c, qa_incident_id = cmd_incident_id c,
     qa_action_type = action_type_of c, qa_target_id = cmd_service_id c,
     qa_params = [(''target_version'', PStr (cmd_target_version c))],
     qa_applied_by = ''agent:'' @ uuid_str (cmd_agent_id c), qa_outcome = ''success'',
     qa_memory_ref = Some (new_event_id ids), qa_transaction_id = new_transaction_id ids,
     qa_idempotency_key = effective_idempotency_key c, qa_applied_at = now\<rparr>"

definition has_key :: "uuid \<Rightarrow> string \<Rightarrow> sql_action \<Rightarrow> bool" where
  "has_key org key a \<longleftrightarrow> qa_org_id a = org \<and> qa_idempotency_key a = key"

record remediation_row =
  rr_deploy_id :: uuid
  rr_event_id :: uuid
  rr_action_id :: uuid
  rr_transaction_id :: uuid
  rr_committed_at :: int

text \<open>\<open>REMEDIATE_AND_RECORD_SQL\<close>: the \<open>SQLSTATE\<close> it fails with, or its row, if any, and its effect.\<close>

definition remediate_sql :: "pylib \<Rightarrow> database \<Rightarrow> fresh_ids \<Rightarrow> int \<Rightarrow> command \<Rightarrow> real list \<Rightarrow> sql_tables \<Rightarrow>
    string + sql_tables \<times> remediation_row option" where
  "remediate_sql lib db ids now c v t =
     (if \<not> (sql_target c t \<and> sql_provenance c t \<and> runbook_gate c t) then Inr (t, None)
      else if list_ex (\<lambda>(i, a). has_key (cmd_org_id c) (effective_idempotency_key c) a) (qt_actions t)
      then Inl ''23505''
      else Inr (t\<lparr>
        qt_deploys := AList.update (new_deploy_id ids) (new_deploy c) (qt_deploys t),
        qt_services := AList.update (cmd_service_id c) ((the (map_of (qt_services t) (cmd_service_id c)))
          \<lparr>qs_health := ''recovering'', qs_current_version := cmd_target_version c,
           qs_current_deploy_id := Some (new_deploy_id ids), qs_updated_at := now\<rparr>) (qt_services t),
        qt_incidents := AList.update (cmd_incident_id c) ((the (map_of (qt_incidents t) (cmd_incident_id c)))
          \<lparr>qi_status := ''mitigating'', qi_runbook_id := cmd_runbook_id c\<rparr>) (qt_incidents t),
        qt_episodes := AList.update (new_event_id ids) (sql_episode lib db ids now c v) (qt_episodes t),
        qt_actions := AList.update (new_action_id ids) (sql_record_action ids now c) (qt_actions t),
        qt_runbooks := (case cmd_runbook_id c of None \<Rightarrow> qt_runbooks t
          | Some r \<Rightarrow> AList.update r ((the (map_of (qt_runbooks t) r))
              \<lparr>qr_usage_count := qr_usage_count (the (map_of (qt_runbooks t) r)) + 1, qr_last_used_at := Some now\<rparr>)
              (qt_runbooks t))\<rparr>,
        Some \<lparr>rr_deploy_id = new_deploy_id ids, rr_event_id = new_event_id ids, rr_action_id = new_action_id ids,
          rr_transaction_id = new_transaction_id ids, rr_committed_at = now\<rparr>))"

definition validate_sql :: "command \<Rightarrow> real list \<Rightarrow> be_error + unit" where
  "validate_sql c v =
     bindE (checkE (cmd_action c \<in> set supported_actions)
       (UnsupportedAction (action_str (cmd_action c) @ '' is outside the Phase 1 SQL allowlist.''))) (\<lambda>_.
     bindE (checkE (\<not> (cmd_requires_human_approval c \<and> \<not> cmd_approved c))
       (ApprovalRequired ''This remediation requires explicit SRE approval.'')) (\<lambda>_.
     bindE (checkE (length v = 1024)
       (AtomicRemediationError ''Titan embedding must have exactly 1024 dimensions.'')) (\<lambda>_.
     checkE (str_strip (cmd_target_version c) \<noteq> [])
       (AtomicRemediationError ''target_version cannot be blank.''))))"

text \<open>How an attempt ends: a value, an exception with no \<open>SQLSTATE\<close> in sight, or one with it.\<close>

datatype 'a attempt = Done 'a | Rejected be_error | Refused string

text \<open>A result may lack the deployment: a replay reads it from the episode.\<close>

record sql_result =
  sr_action_id :: uuid
  sr_transaction_id :: uuid
  sr_deploy_id :: "uuid option"
  sr_event_id :: uuid
  sr_committed_at :: datetime

text \<open>\<open>_execute_once\<close>; \<open>refusal\<close> is the failure of an attempt the cluster does not confirm. Its
  transaction may have been committed nevertheless: then the tables are those after the statement,
  although the code reports a rollback.\<close>

definition execute_once :: "pylib \<Rightarrow> database \<Rightarrow> refusal option \<Rightarrow> fresh_ids \<Rightarrow> int \<Rightarrow> command \<Rightarrow> real list \<Rightarrow>
    sql_tables \<Rightarrow> sql_result attempt \<times> sql_tables" where
  "execute_once lib db refusal ids now c v t = (case refusal of
     Some r \<Rightarrow> (Refused (fst r), case remediate_sql lib db ids now c v t of
         Inr (t', Some row) \<Rightarrow> if committed_anyway r then t' else t
       | _ \<Rightarrow> t)
   | None \<Rightarrow> (case remediate_sql lib db ids now c v t of
       Inl state \<Rightarrow> (Refused state, t)
     | Inr (t', None) \<Rightarrow> (Rejected (ProvenanceError (''Atomic action rejected: incident, service, or cited memory '' @
         ''did not satisfy the provenance gate.'')), t)
     | Inr (t', Some r) \<Rightarrow> (Done \<lparr>sr_action_id = rr_action_id r, sr_transaction_id = rr_transaction_id r,
         sr_deploy_id = Some (rr_deploy_id r), sr_event_id = rr_event_id r,
         sr_committed_at = db_time (rr_committed_at r)\<rparr>, t')))"

text \<open>\<open>_replay\<close>: nothing when the lookup fails or finds no row. The deployment is the JSON text in the
  episode the action refers to; an action whose episode is gone has no event to return.\<close>

definition replayed_deploy :: "sql_tables \<Rightarrow> sql_action \<Rightarrow> uuid option" where
  "replayed_deploy t a = Option.bind (qa_memory_ref a) (\<lambda>e. Option.bind (map_of (qt_episodes t) e) (\<lambda>ep.
     if ep_org_id ep \<noteq> qa_org_id a then None
     else case pget (ep_metadata ep) ''deploy_id'' of PStr d \<Rightarrow> uuid_of_str d | _ \<Rightarrow> None))"

definition replay :: "bool \<Rightarrow> command \<Rightarrow> sql_tables \<Rightarrow> be_error + sql_result option" where
  "replay unreadable c t = (if unreadable then Inr None
     else case find (\<lambda>(i, a). has_key (cmd_org_id c) (effective_idempotency_key c) a) (qt_actions t) of
       None \<Rightarrow> Inr None
     | Some (i, a) \<Rightarrow> bindE (needE (ValueFault ''badly formed hexadecimal UUID string'') (qa_memory_ref a)) (\<lambda>event_id.
         Inr (Some \<lparr>sr_action_id = i, sr_transaction_id = qa_transaction_id a, sr_deploy_id = replayed_deploy t a,
           sr_event_id = event_id, sr_committed_at = db_time (qa_applied_at a)\<rparr>)))"

text \<open>The retry loop. \<open>rc_refusal\<close> and \<open>rc_unreadable\<close> are the cluster's failures in an attempt and in a
  lookup, \<open>rc_others\<close> what happens to the tables before the next attempt, \<open>rc_ids\<close> and \<open>rc_clock\<close> the
  database's UUIDs and clock.\<close>

record cockroach =
  rc_refusal :: "nat \<Rightarrow> refusal option"
  rc_unreadable :: "nat \<Rightarrow> bool"
  rc_others :: "nat \<Rightarrow> sql_tables \<Rightarrow> sql_tables"
  rc_ids :: "nat \<Rightarrow> fresh_ids"
  rc_clock :: "nat \<Rightarrow> int"

definition driver_error :: "string \<Rightarrow> be_error" where
  "driver_error state = PortError ''SerializationFailure'' state"

fun remediate_attempts :: "pylib \<Rightarrow> database \<Rightarrow> cockroach \<Rightarrow> command \<Rightarrow> real list \<Rightarrow> nat \<Rightarrow> nat \<Rightarrow>
    (sql_tables \<times> real list, be_error, sql_result) prog" where
  "remediate_attempts lib db env c v attempt 0 =
     raise (PortError ''AssertionError'' ''serialization retry loop must return or raise'')"
| "remediate_attempts lib db env c v attempt (Suc left) = (\<lambda>(t, pauses).
     case execute_once lib db (rc_refusal env attempt) (rc_ids env attempt) (rc_clock env attempt) c v t of
       (Done r, t') \<Rightarrow> (Inr r, (t', pauses))
     | (Rejected e, t') \<Rightarrow> (Inl e, (t', pauses))
     | (Refused state, t') \<Rightarrow>
         if state = ''23505''
         then (case replay (rc_unreadable env attempt) c t' of
             Inl e \<Rightarrow> (Inl e, (t', pauses))
           | Inr (Some r) \<Rightarrow> (Inr r, (t', pauses))
           | Inr None \<Rightarrow> (Inl (AtomicRemediationError ''CockroachDB rolled back remediate_and_record.''), (t', pauses)))
         else if state \<noteq> ''40001''
         then (Inl (AtomicRemediationError ''CockroachDB rolled back remediate_and_record.''), (t', pauses))
         else if left = 0 then (Inl (driver_error state), (t', pauses))
         else remediate_attempts lib db env c v (Suc attempt) left
           (rc_others env attempt t', pauses @ [0.025 * 2 ^ attempt]))"

definition sql_remediate :: "pylib \<Rightarrow> database \<Rightarrow> cockroach \<Rightarrow> int \<Rightarrow> command \<Rightarrow> real list \<Rightarrow>
    (sql_tables \<times> real list, be_error, sql_result) prog" where
  "sql_remediate lib db env max_serialization_retries c v =
     andThen (lift_result (validate_sql c v)) (\<lambda>_.
     remediate_attempts lib db env c v 0 (nat (max_serialization_retries + 1)))"

section \<open>Outcomes\<close>

text \<open>\<open>target\<close> and \<open>existing\<close>; of several outcomes the oldest.\<close>

definition outcome_target :: "outcome_command \<Rightarrow> sql_tables \<Rightarrow> (sql_action \<times> sql_incident) option" where
  "outcome_target c t = (case (map_of (qt_actions t) (oc_action_id c), map_of (qt_incidents t) (oc_incident_id c),
       map_of (qt_services t) (oc_service_id c)) of
     (Some a, Some i, Some s) \<Rightarrow>
       if qa_org_id a = oc_org_id c \<and> qa_incident_id a = oc_incident_id c \<and> qa_target_id a = oc_service_id c \<and>
         qi_org_id i = oc_org_id c \<and> qi_service_id i = oc_service_id c \<and> qs_org_id s = oc_org_id c
       then Some (a, i) else None
   | _ \<Rightarrow> None)"

definition outcome_event_of :: "outcome_command \<Rightarrow> episode_row \<Rightarrow> bool" where
  "outcome_event_of c ep \<longleftrightarrow> ep_org_id ep = oc_org_id c \<and> ep_incident_id ep = oc_incident_id c \<and>
     ep_service_id ep = oc_service_id c \<and> is_outcome_of (oc_action_id c) ep"

definition created_instant :: "episode_row \<Rightarrow> int" where
  "created_instant ep = (case ep_created_at ep of Some t \<Rightarrow> instant t | None \<Rightarrow> 0)"

definition existing_outcome :: "outcome_command \<Rightarrow> sql_tables \<Rightarrow> (uuid \<times> episode_row) option" where
  "existing_outcome c t = (case sort_key (\<lambda>(i, ep). created_instant ep)
       (filter (\<lambda>(i, ep). outcome_event_of c ep) (qt_episodes t)) of [] \<Rightarrow> None | x # _ \<Rightarrow> Some x)"

text \<open>\<open>incident_update\<close>\<close>

definition resolve_sql :: "database \<Rightarrow> outcome_command \<Rightarrow> sql_incident \<Rightarrow> sql_incident" where
  "resolve_sql db c i = (if oc_outcome c \<noteq> Succeeded then i
     else i\<lparr>qi_status := ''resolved'',
       qi_resolved_at := Some (case qi_resolved_at i of Some r \<Rightarrow> r | None \<Rightarrow> instant (oc_observed_at c)),
       qi_mttr_seconds := Some (case qi_mttr_seconds i of Some m \<Rightarrow> m
         | None \<Rightarrow> max 0 (db_seconds db (instant (oc_observed_at c) - qi_opened_at i)))\<rparr>)"

text \<open>The check constraint \<open>incident_time_order\<close>\<close>

definition incident_time_order :: "sql_incident \<Rightarrow> bool" where
  "incident_time_order i \<longleftrightarrow> (case qi_resolved_at i of None \<Rightarrow> True | Some r \<Rightarrow> qi_opened_at i \<le> r)"

definition sql_outcome_episode :: "pylib \<Rightarrow> database \<Rightarrow> int \<Rightarrow> outcome_command \<Rightarrow> real list \<Rightarrow> sql_action \<Rightarrow>
    sql_incident \<Rightarrow> episode_row" where
  "sql_outcome_episode lib db now c v a i = \<lparr>ep_org_id = oc_org_id c, ep_agent_id = oc_agent_id c,
     ep_incident_id = oc_incident_id c, ep_session_id = None, ep_service_id = oc_service_id c,
     ep_event_type = ''outcome'', ep_content = outcome_text c,
     ep_metadata = [(''outcome'', PStr (outcome_value (oc_outcome c))),
       (''action_id'', PStr (uuid_str (oc_action_id c))),
       (''transaction_id'', PStr (uuid_str (qa_transaction_id a))),
       (''action_type'', PStr (qa_action_type a)), (''params'', PDict (qa_params a)),
       (''service_id'', PStr (uuid_str (oc_service_id c))),
       (''error_signature'', opt_str (oc_error_signature c)),
       (''consolidation_ready'', PBool True), (''source'', PStr ''responder_outcome'')],
     ep_runbook_id = qi_runbook_id i, ep_importance = 0.95, ep_embedding = db_vector db (embedding_literal lib v),
     ep_occurred_at = Some (db_time (instant (oc_observed_at c))), ep_created_at = Some (db_time now)\<rparr>"

record outcome_row =
  ow_event_id :: uuid
  ow_recorded_at :: int
  ow_transaction_id :: uuid
  ow_incident_status :: string
  ow_recorded_outcome :: pyval
  ow_idempotent_replay :: bool

text \<open>\<open>RECORD_OUTCOME_SQL\<close>\<close>

definition outcome_sql :: "pylib \<Rightarrow> database \<Rightarrow> uuid \<Rightarrow> int \<Rightarrow> outcome_command \<Rightarrow> real list \<Rightarrow> sql_tables \<Rightarrow>
    string + sql_tables \<times> outcome_row option" where
  "outcome_sql lib db event_id now c v t = (case outcome_target c t of
     None \<Rightarrow> Inr (t, None)
   | Some (a, i) \<Rightarrow> (case existing_outcome c t of
       Some (e, ep) \<Rightarrow> Inr (t, Some \<lparr>ow_event_id = e, ow_recorded_at = created_instant ep,
         ow_transaction_id = qa_transaction_id a, ow_incident_status = qi_status i,
         ow_recorded_outcome = pget (ep_metadata ep) ''outcome'', ow_idempotent_replay = True\<rparr>)
     | None \<Rightarrow> if \<not> incident_time_order (resolve_sql db c i) then Inl ''23514''
         else Inr (t\<lparr>
           qt_actions := AList.update (oc_action_id c) (a\<lparr>qa_outcome := outcome_value (oc_outcome c)\<rparr>) (qt_actions t),
           qt_incidents := AList.update (oc_incident_id c) (resolve_sql db c i) (qt_incidents t),
           qt_episodes := AList.update event_id (sql_outcome_episode lib db now c v a i) (qt_episodes t)\<rparr>,
           Some \<lparr>ow_event_id = event_id, ow_recorded_at = now, ow_transaction_id = qa_transaction_id a,
             ow_incident_status = qi_status (resolve_sql db c i),
             ow_recorded_outcome = PStr (outcome_value (oc_outcome c)), ow_idempotent_replay = False\<rparr>)))"

text \<open>\<open>str(recorded_outcome)\<close>, of a column that is a text or \<open>NULL\<close>\<close>

definition column_text :: "pyval \<Rightarrow> string" where
  "column_text v = (case v of PStr s \<Rightarrow> s | _ \<Rightarrow> ''None'')"

definition outcome_once :: "pylib \<Rightarrow> database \<Rightarrow> refusal option \<Rightarrow> uuid \<Rightarrow> int \<Rightarrow> outcome_command \<Rightarrow> real list \<Rightarrow>
    sql_tables \<Rightarrow> outcome_result attempt \<times> sql_tables" where
  "outcome_once lib db refusal event_id now c v t = (case refusal of
     Some r \<Rightarrow> (Refused (fst r), case outcome_sql lib db event_id now c v t of
         Inr (t', Some w) \<Rightarrow> if committed_anyway r \<and> column_text (ow_recorded_outcome w) = outcome_value (oc_outcome c)
           then t' else t
       | _ \<Rightarrow> t)
   | None \<Rightarrow> (case outcome_sql lib db event_id now c v t of
       Inl state \<Rightarrow> (Refused state, t)
     | Inr (t', None) \<Rightarrow>
         (Rejected (ProvenanceError ''Outcome rejected: action does not belong to the org, incident, and service.''), t)
     | Inr (t', Some r) \<Rightarrow>
         if column_text (ow_recorded_outcome r) \<noteq> outcome_value (oc_outcome c)
         then (Rejected (OutcomeConflict (''An outcome is already recorded for this action as '' @
           column_text (ow_recorded_outcome r) @ ''.'')), t)
         else (Done \<lparr>or_action_id = oc_action_id c, or_transaction_id = ow_transaction_id r,
           or_event_id = ow_event_id r, or_incident_id = oc_incident_id c, or_outcome = oc_outcome c,
           or_incident_status = ow_incident_status r, or_recorded_at = db_time (ow_recorded_at r),
           or_idempotent_replay = ow_idempotent_replay r\<rparr>, t')))"

fun outcome_attempts :: "pylib \<Rightarrow> database \<Rightarrow> cockroach \<Rightarrow> outcome_command \<Rightarrow> real list \<Rightarrow> nat \<Rightarrow> nat \<Rightarrow>
    (sql_tables \<times> real list, be_error, outcome_result) prog" where
  "outcome_attempts lib db env c v attempt 0 =
     raise (PortError ''AssertionError'' ''serialization retry loop must return or raise'')"
| "outcome_attempts lib db env c v attempt (Suc left) = (\<lambda>(t, pauses).
     case outcome_once lib db (rc_refusal env attempt) (new_event_id (rc_ids env attempt)) (rc_clock env attempt) c v t of
       (Done r, t') \<Rightarrow> (Inr r, (t', pauses))
     | (Rejected e, t') \<Rightarrow> (Inl e, (t', pauses))
     | (Refused state, t') \<Rightarrow>
         if state \<noteq> ''40001''
         then (Inl (OutcomeRecordingError ''CockroachDB rolled back outcome recording.''), (t', pauses))
         else if left = 0 then (Inl (driver_error state), (t', pauses))
         else outcome_attempts lib db env c v (Suc attempt) left
           (rc_others env attempt t', pauses @ [0.025 * 2 ^ attempt]))"

definition sql_record_outcome :: "pylib \<Rightarrow> database \<Rightarrow> cockroach \<Rightarrow> int \<Rightarrow> outcome_command \<Rightarrow> real list \<Rightarrow>
    (sql_tables \<times> real list, be_error, outcome_result) prog" where
  "sql_record_outcome lib db env max_serialization_retries c v =
     andThen (require (length v = 1024)
       (OutcomeRecordingError ''Outcome embedding must have exactly 1024 dimensions.'')) (\<lambda>_.
     outcome_attempts lib db env c v 0 (nat (max_serialization_retries + 1)))"

end
