(* ===== verification/Be_Sql_Store.thy ===== *)
theory Be_Sql_Store
  imports Be_Cockroach
begin

text \<open>
  What the stores over CockroachDB promise: a statement that commits does to the view of the tables
  what the local store does, an idempotency key has at most one action, an action has at most one
  outcome, and a retry loop settles a call by one attempt on the tables that attempt met.
\<close>

section \<open>The local store is what the statement does\<close>

text \<open>The view of the tables as the tables of the local store, without the times the database adds.\<close>

definition map_rows :: "('v \<Rightarrow> 'w) \<Rightarrow> ('k, 'v) dict \<Rightarrow> ('k, 'w) dict" where
  "map_rows f d = map (\<lambda>(k, v). (k, f v)) d"

lemma map_of_map_rows [simp]: "map_of (map_rows f d) k = map_option f (map_of d k)"
  by (induction d) (auto simp: map_rows_def)

lemma map_rows_update [simp]: "map_rows f (AList.update k v d) = AList.update k (f v) (map_rows f d)"
  by (induction d) (auto simp: map_rows_def)

definition abs_service :: "sql_service \<Rightarrow> service_row" where
  "abs_service s = \<lparr>sv_org_id = qs_org_id s, sv_status = qs_health s, sv_current_deploy_id = qs_current_deploy_id s\<rparr>"

definition abs_incident :: "sql_incident \<Rightarrow> incident_row" where
  "abs_incident i = \<lparr>ic_org_id = qi_org_id i, ic_service_id = qi_service_id i, ic_status = qi_status i,
     ic_runbook_id = qi_runbook_id i, ic_resolved_at = map_option db_time (qi_resolved_at i)\<rparr>"

text \<open>The local store gives no times to the episodes of actions.\<close>

definition timeless :: "episode_row \<Rightarrow> episode_row" where
  "timeless ep = ep\<lparr>ep_occurred_at := None, ep_created_at := None\<rparr>"

definition untimed :: "episode_row \<Rightarrow> episode_row" where
  "untimed ep = (if ep_event_type ep = ''action'' then timeless ep else ep)"

definition abs_action :: "sql_action \<Rightarrow> action_row" where
  "abs_action a = \<lparr>ac_org_id = qa_org_id a, ac_incident_id = qa_incident_id a, ac_action_type = qa_action_type a,
     ac_target_id = qa_target_id a, ac_params = qa_params a, ac_applied_by = qa_applied_by a,
     ac_outcome = qa_outcome a, ac_memory_ref = (case qa_memory_ref a of Some m \<Rightarrow> m | None \<Rightarrow> nil_uuid),
     ac_transaction_id = qa_transaction_id a, ac_idempotency_key = qa_idempotency_key a\<rparr>"

definition abs_tables :: "sql_tables \<Rightarrow> tables" where
  "abs_tables t = \<lparr>tb_services = map_rows abs_service (qt_services t),
     tb_incidents = map_rows abs_incident (qt_incidents t), tb_deploys = qt_deploys t,
     tb_episodes = map_rows untimed (qt_episodes t), tb_actions = map_rows abs_action (qt_actions t),
     tb_runbook_usage = map_rows qr_usage_count (qt_runbooks t)\<rparr>"

definition cited_rows :: "uuid \<Rightarrow> sql_tables \<Rightarrow> uuid list" where
  "cited_rows org t = filter (row_with (\<lambda>ep. ep_org_id ep = org) (qt_episodes t)) (map fst (qt_episodes t)) @
     filter (row_with (\<lambda>rb. qr_org_id rb = org) (qt_runbooks t)) (map fst (qt_runbooks t))"

definition abs_store :: "uuid \<Rightarrow> sql_tables \<Rightarrow> fake_store" where
  "abs_store org t = (new_fake_store False)\<lparr>fs_tables := abs_tables t, fs_provenance := cited_rows org t\<rparr>"

lemma row_with_Some: "row_with p d k \<longleftrightarrow> (\<exists>r. map_of d k = Some r \<and> p r)"
  by (simp add: row_with_def split: option.split)

lemma row_with_key: "row_with p d k \<Longrightarrow> k \<in> fst ` set d"
  by (auto simp: row_with_Some dest!: map_of_SomeD intro: rev_image_eqI)

lemma cited_rows_iff: "cmd_cited_memory_id c \<in> set (cited_rows (cmd_org_id c) t) \<longleftrightarrow> sql_provenance c t"
  by (auto simp: cited_rows_def sql_provenance_def dest: row_with_key)

lemma abs_store_fields [simp]:
  "fs_tables (abs_store org t) = abs_tables t" "fs_fail_at (abs_store org t) = None"
  "set (fs_provenance (abs_store org t)) = set (cited_rows org t)"
  by (simp_all add: abs_store_def new_fake_store_def)

lemma abs_tables_fields [simp]:
  "tb_services (abs_tables t) = map_rows abs_service (qt_services t)"
  "tb_incidents (abs_tables t) = map_rows abs_incident (qt_incidents t)" "tb_deploys (abs_tables t) = qt_deploys t"
  "tb_episodes (abs_tables t) = map_rows untimed (qt_episodes t)"
  "tb_actions (abs_tables t) = map_rows abs_action (qt_actions t)"
  "tb_runbook_usage (abs_tables t) = map_rows qr_usage_count (qt_runbooks t)"
  by (simp_all add: abs_tables_def)

lemma abs_rows [simp]:
  "sv_org_id (abs_service s) = qs_org_id s" "ic_org_id (abs_incident i) = qi_org_id i"
  "ic_service_id (abs_incident i) = qi_service_id i"
  by (simp_all add: abs_service_def abs_incident_def)

lemma remediate_sql_commit:
  assumes "remediate_sql lib db ids now c v t = Inr (t', Some r)"
  obtains i s where "map_of (qt_incidents t) (cmd_incident_id c) = Some i" "qi_org_id i = cmd_org_id c"
    "qi_service_id i = cmd_service_id c" "qi_status i \<in> {''open'', ''mitigating''}"
    "map_of (qt_services t) (cmd_service_id c) = Some s" "qs_org_id s = cmd_org_id c"
    "sql_provenance c t" "runbook_gate c t"
    "\<not> list_ex (\<lambda>(i, a). has_key (cmd_org_id c) (effective_idempotency_key c) a) (qt_actions t)"
    "qt_deploys t' = AList.update (new_deploy_id ids) (new_deploy c) (qt_deploys t)"
    "qt_services t' = AList.update (cmd_service_id c)
      (s\<lparr>qs_health := ''recovering'', qs_current_version := cmd_target_version c,
         qs_current_deploy_id := Some (new_deploy_id ids), qs_updated_at := now\<rparr>) (qt_services t)"
    "qt_incidents t' = AList.update (cmd_incident_id c)
      (i\<lparr>qi_status := ''mitigating'', qi_runbook_id := cmd_runbook_id c\<rparr>) (qt_incidents t)"
    "qt_episodes t' = AList.update (new_event_id ids) (sql_episode lib db ids now c v) (qt_episodes t)"
    "qt_actions t' = AList.update (new_action_id ids) (sql_record_action ids now c) (qt_actions t)"
    "qt_runbooks t' = (case cmd_runbook_id c of None \<Rightarrow> qt_runbooks t
      | Some r \<Rightarrow> AList.update r ((the (map_of (qt_runbooks t) r))
          \<lparr>qr_usage_count := qr_usage_count (the (map_of (qt_runbooks t) r)) + 1, qr_last_used_at := Some now\<rparr>)
          (qt_runbooks t))"
    "r = \<lparr>rr_deploy_id = new_deploy_id ids, rr_event_id = new_event_id ids, rr_action_id = new_action_id ids,
      rr_transaction_id = new_transaction_id ids, rr_committed_at = now\<rparr>"
proof -
  from assms have gates: "sql_target c t" "sql_provenance c t" "runbook_gate c t"
    "\<not> list_ex (\<lambda>(i, a). has_key (cmd_org_id c) (effective_idempotency_key c) a) (qt_actions t)"
    by (auto simp: remediate_sql_def split: if_splits)
  obtain i s where rows: "map_of (qt_incidents t) (cmd_incident_id c) = Some i" "qi_org_id i = cmd_org_id c"
    "qi_service_id i = cmd_service_id c" "qi_status i \<in> {''open'', ''mitigating''}"
    "map_of (qt_services t) (cmd_service_id c) = Some s" "qs_org_id s = cmd_org_id c"
    using gates(1) by (auto simp: sql_target_def row_with_Some)
  show thesis
    using assms gates rows by (intro that [OF rows gates(2,3,4)]) (auto simp: remediate_sql_def)
qed

lemma untimed_sql_episode: "untimed (sql_episode lib db ids now c v) = action_episode ids c (db_vector db (embedding_literal lib v))"
  by (simp add: untimed_def timeless_def sql_episode_def action_episode_def)

lemma abs_sql_action: "abs_action (sql_record_action ids now c) = applied_action ids c"
  by (simp add: abs_action_def sql_record_action_def applied_action_def action_type_of_def)

lemma stage_of_commit:
  assumes "remediate_sql lib db ids now c v t = Inr (t', Some r)"
  shows "stage_remediation ids c (db_vector db (embedding_literal lib v)) (abs_store (cmd_org_id c) t) = Inr (abs_tables t')"
proof -
  obtain i s where e: "map_of (qt_incidents t) (cmd_incident_id c) = Some i" "qi_org_id i = cmd_org_id c"
    "qi_service_id i = cmd_service_id c"
    "map_of (qt_services t) (cmd_service_id c) = Some s" "qs_org_id s = cmd_org_id c"
    "sql_provenance c t" "runbook_gate c t"
    "qt_deploys t' = AList.update (new_deploy_id ids) (new_deploy c) (qt_deploys t)"
    "qt_services t' = AList.update (cmd_service_id c)
      (s\<lparr>qs_health := ''recovering'', qs_current_version := cmd_target_version c,
         qs_current_deploy_id := Some (new_deploy_id ids), qs_updated_at := now\<rparr>) (qt_services t)"
    "qt_incidents t' = AList.update (cmd_incident_id c)
      (i\<lparr>qi_status := ''mitigating'', qi_runbook_id := cmd_runbook_id c\<rparr>) (qt_incidents t)"
    "qt_episodes t' = AList.update (new_event_id ids) (sql_episode lib db ids now c v) (qt_episodes t)"
    "qt_actions t' = AList.update (new_action_id ids) (sql_record_action ids now c) (qt_actions t)"
    "qt_runbooks t' = (case cmd_runbook_id c of None \<Rightarrow> qt_runbooks t
      | Some r \<Rightarrow> AList.update r ((the (map_of (qt_runbooks t) r))
          \<lparr>qr_usage_count := qr_usage_count (the (map_of (qt_runbooks t) r)) + 1, qr_last_used_at := Some now\<rparr>)
          (qt_runbooks t))"
    by (rule remediate_sql_commit [OF assms])
  have usage: "tb_runbook_usage (abs_tables t') = (case cmd_runbook_id c of None \<Rightarrow> tb_runbook_usage (abs_tables t)
      | Some r \<Rightarrow> AList.update r (dict_get (tb_runbook_usage (abs_tables t)) r 0 + 1) (tb_runbook_usage (abs_tables t)))"
    using e(7) by (auto simp: e(13) runbook_gate_def row_with_Some dict_get_def split: option.splits)
  show ?thesis
    using e usage
    by (simp add: stage_remediation_def Let_def injected_def cited_rows_iff abs_service_def abs_incident_def
        untimed_sql_episode abs_sql_action split: option.split)
qed

definition incident_over :: "command \<Rightarrow> sql_tables \<Rightarrow> bool" where
  "incident_over c t \<longleftrightarrow>
     \<not> row_with (\<lambda>i. qi_status i \<in> {''open'', ''mitigating''}) (qt_incidents t) (cmd_incident_id c)"

definition runbook_withheld :: "command \<Rightarrow> sql_tables \<Rightarrow> bool" where
  "runbook_withheld c t \<longleftrightarrow> \<not> runbook_gate c t"

text \<open>When the statement changes nothing, the local store refuses too, or the incident is over, or the
  runbook is not in force.\<close>

lemma stage_of_nothing:
  assumes "remediate_sql lib db ids now c v t = Inr (t', None)"
  shows "t' = t \<and> ((\<exists>e. stage_remediation ids c w (abs_store (cmd_org_id c) t) = Inl e) \<or>
    incident_over c t \<or> runbook_withheld c t)"
proof -
  from assms have "t' = t" and fails: "\<not> (sql_target c t \<and> sql_provenance c t \<and> runbook_gate c t)"
    by (auto simp: remediate_sql_def split: if_splits)
  moreover have "sql_target c t \<and> sql_provenance c t"
    if "stage_remediation ids c w (abs_store (cmd_org_id c) t) = Inr staged"
      "row_with (\<lambda>i. qi_status i \<in> {''open'', ''mitigating''}) (qt_incidents t) (cmd_incident_id c)" for staged
    using that(2) by (rule_tac stage_remediation_effect [OF that(1)])
      (auto simp: sql_target_def row_with_Some cited_rows_iff)
  ultimately show ?thesis unfolding incident_over_def runbook_withheld_def by (meson sum.exhaust)
qed

section \<open>Attempts\<close>

definition key_rows :: "command \<Rightarrow> sql_tables \<Rightarrow> (uuid \<times> sql_action) list" where
  "key_rows c t = filter (\<lambda>(i, a). has_key (cmd_org_id c) (effective_idempotency_key c) a) (qt_actions t)"

lemma find_filter: "find p xs = (case filter p xs of [] \<Rightarrow> None | x # _ \<Rightarrow> Some x)"
  by (induction xs) auto

text \<open>How the attempt that ends the loop can end it.\<close>

definition replayed :: "command \<Rightarrow> sql_tables \<Rightarrow> sql_result \<Rightarrow> bool" where
  "replayed c t r \<longleftrightarrow> (\<exists>a rest. key_rows c t = (sr_action_id r, a) # rest \<and> qa_memory_ref a = Some (sr_event_id r) \<and>
     sr_transaction_id r = qa_transaction_id a \<and> sr_deploy_id r = replayed_deploy t a \<and>
     sr_committed_at r = db_time (qa_applied_at a))"

lemma replay_replayed: "replay b c t = Inr (Some r) \<Longrightarrow> replayed c t r"
  by (auto simp: replay_def replayed_def key_rows_def find_filter split: if_splits list.splits)

definition remediate_settle :: "pylib \<Rightarrow> database \<Rightarrow> cockroach \<Rightarrow> command \<Rightarrow> real list \<Rightarrow> nat \<Rightarrow> bool \<Rightarrow> sql_tables \<Rightarrow>
    ((be_error + sql_result) \<times> sql_tables) option" where
  "remediate_settle lib db env c v i final t =
     (case execute_once lib db (rc_refusal env i) (rc_ids env i) (rc_clock env i) c v t of
       (Done r, t') \<Rightarrow> Some (Inr r, t')
     | (Rejected e, t') \<Rightarrow> Some (Inl e, t')
     | (Refused state, t') \<Rightarrow>
         if state = ''23505'' then Some (case replay (rc_unreadable env i) c t' of
             Inl e \<Rightarrow> Inl e
           | Inr (Some r) \<Rightarrow> Inr r
           | Inr None \<Rightarrow> Inl (AtomicRemediationError ''CockroachDB rolled back remediate_and_record.''), t')
         else if state \<noteq> ''40001''
         then Some (Inl (AtomicRemediationError ''CockroachDB rolled back remediate_and_record.''), t')
         else if final then Some (Inl (driver_error state), t') else None)"

text \<open>An attempt without a result leaves the tables as they are, unless its commit was not confirmed.\<close>

lemma execute_once_kept:
  assumes "execute_once lib db refusal ids now c v t = (o', u)" "\<nexists>r. o' = Done r"
  shows "u = t \<or> (\<exists>state row. o' = Refused state \<and> state \<notin> {''40001'', ''23505''} \<and> refusal = Some (state, True) \<and>
    remediate_sql lib db ids now c v t = Inr (u, Some row))"
  using assms by (auto simp: execute_once_def committed_anyway_def split: option.splits sum.splits prod.splits if_splits)

interpretation remediate_retry: retry_loop "remediate_attempts lib db env c v" "remediate_settle lib db env c v"
    "rc_others env" for lib db env c v
proof
  show "remediate_attempts lib db env c v a (Suc left) (t, pauses) =
      (case remediate_settle lib db env c v a (left = 0) t of
        Some (r, t') \<Rightarrow> (r, (t', pauses))
      | None \<Rightarrow> remediate_attempts lib db env c v (Suc a) left (rc_others env a t, pauses @ [0.025 * 2 ^ a]))"
    for a left t pauses
    using execute_once_kept [of lib db "rc_refusal env a" "rc_ids env a" "rc_clock env a" c v t]
    by (auto simp: remediate_settle_def split: prod.splits attempt.splits sum.splits option.splits)
  show "remediate_settle lib db env c v a True t \<noteq> None" for a t
    by (auto simp: remediate_settle_def split: prod.splits attempt.splits)
qed

lemma remediate_attempts_cases:
  assumes "left \<noteq> 0"
    and "remediate_attempts lib db env c v a left (t, pauses) = (result, t', pauses')"
  shows "\<exists>i. a \<le> i \<and> i < a + left \<and> pauses' = pauses @ pauses_of a i \<and>
    ((\<exists>row. remediate_sql lib db (rc_ids env i) (rc_clock env i) c v (table_at (rc_others env) a i t) = Inr (t', Some row) \<and>
        result = Inr \<lparr>sr_action_id = rr_action_id row, sr_transaction_id = rr_transaction_id row,
          sr_deploy_id = Some (rr_deploy_id row), sr_event_id = rr_event_id row,
          sr_committed_at = db_time (rr_committed_at row)\<rparr>) \<or>
     (\<exists>state row. rc_refusal env i = Some (state, True) \<and> state \<notin> {''40001'', ''23505''} \<and>
        remediate_sql lib db (rc_ids env i) (rc_clock env i) c v (table_at (rc_others env) a i t) = Inr (t', Some row) \<and>
        result = Inl (AtomicRemediationError ''CockroachDB rolled back remediate_and_record.'')) \<or>
     t' = table_at (rc_others env) a i t \<and> (case result of Inl e \<Rightarrow> True | Inr r \<Rightarrow> replayed c t' r))"
proof -
  obtain i final where i: "a \<le> i" "i < a + left" "pauses' = pauses @ pauses_of a i"
      and settle: "remediate_settle lib db env c v i final (table_at (rc_others env) a i t) = Some (result, t')"
    using remediate_retry.settled [OF assms] by blast
  let ?t = "table_at (rc_others env) a i t"
  obtain outcome u where once: "execute_once lib db (rc_refusal env i) (rc_ids env i) (rc_clock env i) c v ?t = (outcome, u)"
    by fastforce
  note kept = execute_once_kept [OF once]
  have "(\<exists>row. remediate_sql lib db (rc_ids env i) (rc_clock env i) c v ?t = Inr (t', Some row) \<and>
        result = Inr \<lparr>sr_action_id = rr_action_id row, sr_transaction_id = rr_transaction_id row,
          sr_deploy_id = Some (rr_deploy_id row), sr_event_id = rr_event_id row,
          sr_committed_at = db_time (rr_committed_at row)\<rparr>) \<or>
     (\<exists>state row. rc_refusal env i = Some (state, True) \<and> state \<notin> {''40001'', ''23505''} \<and>
        remediate_sql lib db (rc_ids env i) (rc_clock env i) c v ?t = Inr (t', Some row) \<and>
        result = Inl (AtomicRemediationError ''CockroachDB rolled back remediate_and_record.'')) \<or>
     t' = ?t \<and> (case result of Inl e \<Rightarrow> True | Inr r \<Rightarrow> replayed c t' r)"
  proof (cases outcome)
    case (Done r)
    then have "result = Inr r" "t' = u" using settle once by (simp_all add: remediate_settle_def)
    with once Done show ?thesis by (auto simp: execute_once_def split: option.splits sum.splits prod.splits)
  next
    case (Rejected e)
    then show ?thesis using settle once kept by (auto simp: remediate_settle_def)
  next
    case (Refused state)
    then have "u = ?t \<or> (\<exists>row. state \<notin> {''40001'', ''23505''} \<and> rc_refusal env i = Some (state, True) \<and>
        remediate_sql lib db (rc_ids env i) (rc_clock env i) c v ?t = Inr (u, Some row))"
      using kept by auto
    then show ?thesis
    proof
      assume "u = ?t"
      with Refused settle once show ?thesis
        by (auto simp: remediate_settle_def dest: replay_replayed split: if_splits sum.splits option.splits)
    next
      assume "\<exists>row. state \<notin> {''40001'', ''23505''} \<and> rc_refusal env i = Some (state, True) \<and>
        remediate_sql lib db (rc_ids env i) (rc_clock env i) c v ?t = Inr (u, Some row)"
      with Refused settle once show ?thesis by (auto simp: remediate_settle_def)
    qed
  qed
  with i show ?thesis by blast
qed

section \<open>One action per key\<close>

text \<open>The unique constraint \<open>remediation_idempotency_key\<close>.\<close>

definition one_action_per_key :: "sql_tables \<Rightarrow> bool" where
  "one_action_per_key t \<longleftrightarrow> (\<forall>org key. length (filter (\<lambda>(i, a). has_key org key a) (qt_actions t)) \<le> 1)"

lemma length_filter_update:
  "length (filter p (AList.update k v d)) \<le> length (filter p d) + (if p (k, v) then 1 else 0)"
  by (induction d) auto

lemma filter_update_new:
  "filter p d = [] \<Longrightarrow> filter p (AList.update k v d) = (if p (k, v) then [(k, v)] else [])"
  by (induction d) (auto split: if_splits)

lemma key_rows_commit:
  assumes "remediate_sql lib db ids now c v t = Inr (t', Some r)"
  shows "key_rows c t' = [(new_action_id ids, sql_record_action ids now c)]"
proof -
  obtain none: "\<not> list_ex (\<lambda>(i, a). has_key (cmd_org_id c) (effective_idempotency_key c) a) (qt_actions t)"
    and actions: "qt_actions t' = AList.update (new_action_id ids) (sql_record_action ids now c) (qt_actions t)"
    by (rule remediate_sql_commit [OF assms])
  then have none: "key_rows c t = []" by (auto simp: key_rows_def list_ex_iff filter_empty_conv)
  have "has_key (cmd_org_id c) (effective_idempotency_key c) (sql_record_action ids now c)"
    by (simp add: has_key_def sql_record_action_def)
  then show ?thesis using none by (simp add: key_rows_def actions filter_update_new)
qed

lemma one_action_commit:
  assumes "remediate_sql lib db ids now c v t = Inr (t', Some r)" "one_action_per_key t"
  shows "one_action_per_key t'"
  unfolding one_action_per_key_def
proof (intro allI)
  fix org key
  let ?p = "\<lambda>(i :: uuid, a). has_key org key a"
  have actions: "qt_actions t' = AList.update (new_action_id ids) (sql_record_action ids now c) (qt_actions t)"
    by (rule remediate_sql_commit [OF assms(1)])
  show "length (filter ?p (qt_actions t')) \<le> 1"
  proof (cases "org = cmd_org_id c \<and> key = effective_idempotency_key c")
    case True
    with key_rows_commit [OF assms(1)] show ?thesis by (simp add: key_rows_def)
  next
    case False
    then have "\<not> ?p (new_action_id ids, sql_record_action ids now c)" by (auto simp: has_key_def sql_record_action_def)
    then have "length (filter ?p (qt_actions t')) \<le> length (filter ?p (qt_actions t))"
      using length_filter_update [of ?p "new_action_id ids" "sql_record_action ids now c" "qt_actions t"]
      by (simp add: actions)
    moreover have "length (filter ?p (qt_actions t)) \<le> 1"
      using assms(2) unfolding one_action_per_key_def by blast
    ultimately show ?thesis by linarith
  qed
qed

section \<open>Doing it again\<close>

lemma row_with_update:
  "row_with p (AList.update k v d) k' \<longleftrightarrow> (if k = k' then p v else row_with p d k')"
  by (simp add: row_with_def)

text \<open>After a commit the gates of the statement still let the command through, so that the unique
  constraint stops it.\<close>

lemma commit_key_taken:
  assumes "remediate_sql lib db ids now c v t = Inr (t', Some r)"
  shows "remediate_sql lib db ids' now' c v t' = Inl ''23505''"
proof -
  obtain i s where e: "map_of (qt_incidents t) (cmd_incident_id c) = Some i" "qi_org_id i = cmd_org_id c"
    "qi_service_id i = cmd_service_id c"
    "map_of (qt_services t) (cmd_service_id c) = Some s" "qs_org_id s = cmd_org_id c"
    "sql_provenance c t" "runbook_gate c t"
    "qt_services t' = AList.update (cmd_service_id c)
      (s\<lparr>qs_health := ''recovering'', qs_current_version := cmd_target_version c,
         qs_current_deploy_id := Some (new_deploy_id ids), qs_updated_at := now\<rparr>) (qt_services t)"
    "qt_incidents t' = AList.update (cmd_incident_id c)
      (i\<lparr>qi_status := ''mitigating'', qi_runbook_id := cmd_runbook_id c\<rparr>) (qt_incidents t)"
    "qt_episodes t' = AList.update (new_event_id ids) (sql_episode lib db ids now c v) (qt_episodes t)"
    "qt_runbooks t' = (case cmd_runbook_id c of None \<Rightarrow> qt_runbooks t
      | Some r \<Rightarrow> AList.update r ((the (map_of (qt_runbooks t) r))
          \<lparr>qr_usage_count := qr_usage_count (the (map_of (qt_runbooks t) r)) + 1, qr_last_used_at := Some now\<rparr>)
          (qt_runbooks t))"
    by (rule remediate_sql_commit [OF assms])
  have "sql_target c t'" using e(2,3,5) by (simp add: sql_target_def e(8,9) row_with_update)
  moreover have "runbook_gate c t'"
    using e(7) by (auto simp: runbook_gate_def e(11) row_with_Some split: option.splits)
  moreover have "sql_provenance c t'"
    using e(6) e(7) by (auto simp: sql_provenance_def e(10,11) row_with_Some runbook_gate_def sql_episode_def split: option.splits)
  moreover have "key_rows c t' \<noteq> []" using key_rows_commit [OF assms] by simp
  ultimately show ?thesis by (auto simp: remediate_sql_def key_rows_def list_ex_iff filter_empty_conv)
qed

lemma commit_replay:
  assumes "remediate_sql lib db ids now c v t = Inr (t', Some r)" "uuid_int (new_deploy_id ids) < 2 ^ 128"
  shows "replay False c t' = Inr (Some \<lparr>sr_action_id = new_action_id ids, sr_transaction_id = new_transaction_id ids,
    sr_deploy_id = Some (new_deploy_id ids), sr_event_id = new_event_id ids, sr_committed_at = db_time now\<rparr>)"
proof -
  obtain ep: "qt_episodes t' = AList.update (new_event_id ids) (sql_episode lib db ids now c v) (qt_episodes t)"
    by (rule remediate_sql_commit [OF assms(1)])
  have "find (\<lambda>(i, a). has_key (cmd_org_id c) (effective_idempotency_key c) a) (qt_actions t') =
      Some (new_action_id ids, sql_record_action ids now c)"
    using key_rows_commit [OF assms(1)] by (simp add: find_filter key_rows_def)
  then show ?thesis
    using assms(2) by (simp add: replay_def replayed_deploy_def ep sql_record_action_def sql_episode_def pget_def dict_get_def)
qed

section \<open>Runs of the database\<close>

text \<open>Services, incidents and runbooks come from elsewhere, with no history of actions; each
  statement that commits is a step, with new identifiers.\<close>

definition sql_fresh :: "fresh_ids \<Rightarrow> sql_tables \<Rightarrow> bool" where
  "sql_fresh ids t \<longleftrightarrow> map_of (qt_deploys t) (new_deploy_id ids) = None \<and>
     map_of (qt_episodes t) (new_event_id ids) = None \<and> map_of (qt_actions t) (new_action_id ids) = None \<and>
     uuid_int (new_action_id ids) < 2 ^ 128"

definition seeded :: "sql_tables \<Rightarrow> bool" where
  "seeded t \<longleftrightarrow> qt_deploys t = [] \<and> qt_episodes t = [] \<and> qt_actions t = [] \<and>
     list_all (\<lambda>(k, s). qs_current_deploy_id s = None) (qt_services t) \<and>
     list_all (\<lambda>(k, i). incident_time_order i \<and>
       row_with (\<lambda>s. qs_org_id s = qi_org_id i) (qt_services t) (qi_service_id i)) (qt_incidents t)"

inductive sql_reach :: "pylib \<Rightarrow> database \<Rightarrow> sql_tables \<Rightarrow> bool" for lib db where
  sql_start: "seeded t \<Longrightarrow> sql_reach lib db t"
| sql_remediated: "sql_reach lib db t \<Longrightarrow> sql_fresh ids t \<Longrightarrow>
    remediate_sql lib db ids now c v t = Inr (t', Some r) \<Longrightarrow> sql_reach lib db t'"
| sql_recorded: "sql_reach lib db t \<Longrightarrow> map_of (qt_episodes t) e = None \<Longrightarrow>
    outcome_sql lib db e now oc v t = Inr (t', Some w) \<Longrightarrow> sql_reach lib db t'"

text \<open>The outcome on record for an action is of its incident and service, and is the one in the column
  of the action; the rows refer to each other as in the local store.\<close>

definition outcome_on_record :: "(uuid, sql_action) dict \<Rightarrow> episode_row \<Rightarrow> bool" where
  "outcome_on_record actions ep \<longleftrightarrow> (ep_event_type ep \<noteq> ''outcome'' \<or>
     (\<exists>i a k. map_of actions i = Some a \<and> is_outcome_of i ep \<and> ep_org_id ep = qa_org_id a \<and>
       ep_incident_id ep = qa_incident_id a \<and> ep_service_id ep = qa_target_id a \<and>
       qa_outcome a = outcome_value k \<and> pget (ep_metadata ep) ''outcome'' = PStr (qa_outcome a)))"

definition services_known :: "sql_tables \<Rightarrow> bool" where
  "services_known t \<longleftrightarrow> (\<forall>k i. map_of (qt_incidents t) k = Some i \<longrightarrow> incident_time_order i \<and>
     row_with (\<lambda>s. qs_org_id s = qi_org_id i) (qt_services t) (qi_service_id i))"

definition sql_consistent :: "sql_tables \<Rightarrow> bool" where
  "sql_consistent t \<longleftrightarrow> store_ok (abs_tables t) \<and> (\<forall>x\<in>set (qt_episodes t). outcome_on_record (qt_actions t) (snd x)) \<and>
     services_known t \<and> (\<forall>i a. map_of (qt_actions t) i = Some a \<longrightarrow> uuid_int i < 2 ^ 128)"

lemma time_order_mitigating: "incident_time_order (i\<lparr>qi_status := s, qi_runbook_id := r\<rparr>) = incident_time_order i"
  by (cases "qi_resolved_at i") (simp_all add: incident_time_order_def)

lemma sql_consistent_seeded: "seeded t \<Longrightarrow> sql_consistent t"
  by (auto simp: seeded_def sql_consistent_def store_ok_def actions_remembered_def deploys_known_def one_outcome_def
      outcomes_of_def services_known_def abs_service_def list_all_iff map_rows_def [where d = "[]"] dest!: map_of_SomeD)

lemma sql_consistent_remediation:
  assumes ok: "sql_consistent t" and fresh: "sql_fresh ids t" and commit: "remediate_sql lib db ids now c v t = Inr (t', Some r)"
  shows "sql_consistent t'"
proof -
  obtain i s where e: "map_of (qt_incidents t) (cmd_incident_id c) = Some i"
    "map_of (qt_services t) (cmd_service_id c) = Some s" "qs_org_id s = cmd_org_id c"
    "qt_services t' = AList.update (cmd_service_id c)
      (s\<lparr>qs_health := ''recovering'', qs_current_version := cmd_target_version c,
         qs_current_deploy_id := Some (new_deploy_id ids), qs_updated_at := now\<rparr>) (qt_services t)"
    "qt_incidents t' = AList.update (cmd_incident_id c)
      (i\<lparr>qi_status := ''mitigating'', qi_runbook_id := cmd_runbook_id c\<rparr>) (qt_incidents t)"
    "qt_episodes t' = AList.update (new_event_id ids) (sql_episode lib db ids now c v) (qt_episodes t)"
    "qt_actions t' = AList.update (new_action_id ids) (sql_record_action ids now c) (qt_actions t)"
    by (rule remediate_sql_commit [OF commit])
  have "store_ok (abs_tables t')"
  proof (rule store_ok_remediation [OF _ _ stage_of_commit [OF commit]])
    show "store_ok (fs_tables (abs_store (cmd_org_id c) t))" using ok by (simp add: sql_consistent_def)
    show "fresh_for ids (fs_tables (abs_store (cmd_org_id c) t))" using fresh by (simp add: sql_fresh_def fresh_for_def)
  qed
  moreover have "outcome_on_record (qt_actions t') (snd x)" if x: "x \<in> set (qt_episodes t')" for x
  proof (cases "x \<in> set (qt_episodes t)")
    case True
    have "map_of (qt_actions t') j = Some a" if "map_of (qt_actions t) j = Some a" for j a
      using that fresh by (auto simp: e(7) sql_fresh_def)
    with ok True show ?thesis unfolding sql_consistent_def outcome_on_record_def by meson
  next
    case False
    with x have "snd x = sql_episode lib db ids now c v" using set_dict_update [of "new_event_id ids" "sql_episode lib db ids now c v" "qt_episodes t"] by (auto simp: e(6))
    then show ?thesis by (simp add: outcome_on_record_def sql_episode_def)
  qed
  moreover have "services_known t'"
    unfolding services_known_def
  proof (intro allI impI)
    fix k j
    assume "map_of (qt_incidents t') k = Some j"
    then obtain j0 where j0: "map_of (qt_incidents t) k = Some j0" "qi_org_id j = qi_org_id j0"
        "qi_service_id j = qi_service_id j0" "incident_time_order j = incident_time_order j0"
      using e(1) by (auto simp: e(5) time_order_mitigating split: if_splits)
    then have "incident_time_order j0" "row_with (\<lambda>s. qs_org_id s = qi_org_id j0) (qt_services t) (qi_service_id j0)"
      using ok unfolding sql_consistent_def services_known_def by blast+
    then show "incident_time_order j \<and> row_with (\<lambda>s. qs_org_id s = qi_org_id j) (qt_services t') (qi_service_id j)"
      using j0 e(2) by (auto simp: e(4) row_with_update row_with_Some)
  qed
  moreover have "\<forall>i a. map_of (qt_actions t') i = Some a \<longrightarrow> uuid_int i < 2 ^ 128"
    using ok fresh by (auto simp: sql_consistent_def e(7) sql_fresh_def split: if_splits)
  ultimately show ?thesis by (simp add: sql_consistent_def)
qed

lemma uuid_str_inject:
  assumes "uuid_str a = uuid_str b" "uuid_int a < 2 ^ 128" "uuid_int b < 2 ^ 128"
  shows "a = b"
  using assms by (metis option.inject uuid_of_str)

lemma outcome_target_rows:
  assumes "outcome_target c t = Some (a, i)"
  shows "map_of (qt_actions t) (oc_action_id c) = Some a" "map_of (qt_incidents t) (oc_incident_id c) = Some i"
    "row_with (\<lambda>s. qs_org_id s = oc_org_id c) (qt_services t) (oc_service_id c)"
    "qa_org_id a = oc_org_id c" "qa_incident_id a = oc_incident_id c" "qa_target_id a = oc_service_id c"
    "qi_org_id i = oc_org_id c" "qi_service_id i = oc_service_id c"
  using assms by (auto simp: outcome_target_def row_with_Some split: option.splits if_splits)

lemma is_outcome_untimed [simp]: "is_outcome_of a (untimed ep) \<longleftrightarrow> is_outcome_of a ep"
  by (simp add: untimed_def timeless_def is_outcome_of_def)

lemma find_map_rows:
  "find (\<lambda>(i, ep). p ep) (map_rows f d) = map_option (\<lambda>(i, ep). (i, f ep)) (find (\<lambda>(i, ep). p (f ep)) d)"
  by (induction d) (auto simp: map_rows_def)

lemma filter_map_rows: "filter (\<lambda>(i, ep). p ep) (map_rows f d) = map_rows f (filter (\<lambda>(i, ep). p (f ep)) d)"
  by (induction d) (auto simp: map_rows_def)

lemma record_matches:
  assumes ok: "sql_consistent t" and target: "outcome_target c t = Some (a, i)" and x: "x \<in> set (qt_episodes t)"
    and out: "is_outcome_of (oc_action_id c) (snd x)"
  shows "outcome_event_of c (snd x) \<and> (\<exists>k. qa_outcome a = outcome_value k \<and>
    pget (ep_metadata (snd x)) ''outcome'' = PStr (outcome_value k))"
proof -
  note rows = outcome_target_rows [OF target]
  have "outcome_on_record (qt_actions t) (snd x)" using ok x by (simp add: sql_consistent_def)
  then obtain j b k where j: "map_of (qt_actions t) j = Some b" "is_outcome_of j (snd x)" "ep_org_id (snd x) = qa_org_id b"
      "ep_incident_id (snd x) = qa_incident_id b" "ep_service_id (snd x) = qa_target_id b"
      "qa_outcome b = outcome_value k" "pget (ep_metadata (snd x)) ''outcome'' = PStr (qa_outcome b)"
    using out by (auto simp: outcome_on_record_def is_outcome_of_def)
  have "uuid_str (oc_action_id c) = uuid_str j" using out j(2) by (simp add: is_outcome_of_def)
  moreover have "uuid_int (oc_action_id c) < 2 ^ 128" "uuid_int j < 2 ^ 128"
    using ok rows(1) j(1) unfolding sql_consistent_def by blast+
  ultimately have "oc_action_id c = j" by (rule uuid_str_inject)
  with j rows out show ?thesis by (auto simp: outcome_event_of_def)
qed

text \<open>The outcome the statement finds is the one the local store finds.\<close>

lemma existing_find:
  assumes ok: "sql_consistent t" and target: "outcome_target c t = Some (a, i)"
  shows "existing_outcome c t = find (\<lambda>(i, ep). is_outcome_of (oc_action_id c) ep) (qt_episodes t)"
proof -
  let ?p = "\<lambda>(i :: uuid, ep). is_outcome_of (oc_action_id c) ep"
  have same: "filter (\<lambda>(i, ep). outcome_event_of c ep) (qt_episodes t) = filter ?p (qt_episodes t)"
    using record_matches [OF ok target] by (intro filter_cong) (auto simp: outcome_event_of_def)
  have "length (filter ?p (qt_episodes t)) \<le> 1"
  proof -
    have "length (outcomes_of (abs_tables t) (oc_action_id c)) \<le> 1"
      using ok unfolding sql_consistent_def store_ok_def one_outcome_def by blast
    then show ?thesis by (simp add: outcomes_of_def filter_map_rows) (simp add: map_rows_def)
  qed
  then obtain x where "filter ?p (qt_episodes t) = [] \<or> filter ?p (qt_episodes t) = [x]"
    by (cases "filter ?p (qt_episodes t)") auto
  then show ?thesis by (auto simp: existing_outcome_def same find_filter)
qed

definition timeless_tables :: "tables \<Rightarrow> tables" where
  "timeless_tables t = t\<lparr>tb_episodes := map_rows timeless (tb_episodes t),
     tb_incidents := map_rows (\<lambda>i. i\<lparr>ic_resolved_at := None\<rparr>) (tb_incidents t)\<rparr>"

text \<open>An outcome the statement records, in the tables.\<close>

lemma outcome_sql_commit:
  assumes "outcome_target c t = Some (a, i)" "existing_outcome c t = None" "incident_time_order (resolve_sql db c i)"
  shows "outcome_sql lib db e now c v t = Inr (t\<lparr>
      qt_actions := AList.update (oc_action_id c) (a\<lparr>qa_outcome := outcome_value (oc_outcome c)\<rparr>) (qt_actions t),
      qt_incidents := AList.update (oc_incident_id c) (resolve_sql db c i) (qt_incidents t),
      qt_episodes := AList.update e (sql_outcome_episode lib db now c v a i) (qt_episodes t)\<rparr>,
    Some \<lparr>ow_event_id = e, ow_recorded_at = now, ow_transaction_id = qa_transaction_id a,
      ow_incident_status = qi_status (resolve_sql db c i),
      ow_recorded_outcome = PStr (outcome_value (oc_outcome c)), ow_idempotent_replay = False\<rparr>)"
  using assms by (simp add: outcome_sql_def)

lemma resolve_sql_fields [simp]:
  "qi_org_id (resolve_sql db c i) = qi_org_id i" "qi_service_id (resolve_sql db c i) = qi_service_id i"
  "qi_runbook_id (resolve_sql db c i) = qi_runbook_id i"
  by (simp_all add: resolve_sql_def)

lemma abs_outcome_action: "abs_action (a\<lparr>qa_outcome := o'\<rparr>) = (abs_action a)\<lparr>ac_outcome := o'\<rparr>"
  by (simp add: abs_action_def)

lemma timeless_outcome_episode:
  "ic_runbook_id j = qi_runbook_id i \<Longrightarrow> timeless (sql_outcome_episode lib db now c v a i) =
    timeless (outcome_episode c (db_vector db (embedding_literal lib v)) (abs_action a) j)"
  by (simp add: timeless_def sql_outcome_episode_def outcome_episode_def abs_action_def)

lemma timeless_untimed [simp]: "timeless (untimed ep) = timeless ep"
  by (simp add: timeless_def untimed_def)

text \<open>The local store, asked for the same outcome on the view of the tables.\<close>

lemma stage_outcome_view:
  assumes "outcome_target c t = Some (a, i)"
  shows "map_of (tb_incidents (fs_tables (abs_store org t))) (oc_incident_id c) = Some (abs_incident i)"
    "ic_org_id (abs_incident i) = oc_org_id c" "ic_service_id (abs_incident i) = oc_service_id c"
    "map_of (tb_actions (fs_tables (abs_store org t))) (oc_action_id c) = Some (abs_action a)"
    "ac_org_id (abs_action a) = oc_org_id c" "ac_incident_id (abs_action a) = oc_incident_id c"
    "ac_target_id (abs_action a) = oc_service_id c"
  using outcome_target_rows [OF assms] by (simp_all add: abs_action_def)

definition local_outcome :: "pylib \<Rightarrow> database \<Rightarrow> uuid \<Rightarrow> outcome_command \<Rightarrow> real list \<Rightarrow> sql_tables \<Rightarrow>
    be_error + outcome_result \<times> tables option" where
  "local_outcome lib db e c v t = stage_outcome e c (db_vector db (embedding_literal lib v)) (abs_store (oc_org_id c) t)"

lemma local_outcome_commit:
  assumes ok: "sql_consistent t" and target: "outcome_target c t = Some (a, i)" and none: "existing_outcome c t = None"
    and time: "incident_time_order (resolve_sql db c i)" and fresh: "map_of (qt_episodes t) e = None"
    and t': "outcome_sql lib db e now c v t = Inr (t', Some w)"
  obtains res staged where "local_outcome lib db e c v t = Inr (res, Some staged)"
    "timeless_tables staged = timeless_tables (abs_tables t')" "or_event_id res = e"
    "or_transaction_id res = ow_transaction_id w" "or_incident_status res = ow_incident_status w"
    "\<not> or_idempotent_replay res" "or_outcome res = oc_outcome c" "or_action_id res = oc_action_id c"
    "or_incident_id res = oc_incident_id c"
proof -
  let ?j = "if oc_outcome c = Succeeded
    then (abs_incident i)\<lparr>ic_status := ''resolved'', ic_resolved_at := Some (oc_observed_at c)\<rparr> else abs_incident i"
  have find: "find (\<lambda>(i, ep). is_outcome_of (oc_action_id c) ep) (tb_episodes (fs_tables (abs_store (oc_org_id c) t))) = None"
    using none existing_find [OF ok target] by (simp add: find_map_rows)
  note sql = outcome_sql_commit [OF target none time, of lib e now v]
  have w: "w = \<lparr>ow_event_id = e, ow_recorded_at = now, ow_transaction_id = qa_transaction_id a,
      ow_incident_status = qi_status (resolve_sql db c i),
      ow_recorded_outcome = PStr (outcome_value (oc_outcome c)), ow_idempotent_replay = False\<rparr>"
    and t'_eq: "t' = t\<lparr>
      qt_actions := AList.update (oc_action_id c) (a\<lparr>qa_outcome := outcome_value (oc_outcome c)\<rparr>) (qt_actions t),
      qt_incidents := AList.update (oc_incident_id c) (resolve_sql db c i) (qt_incidents t),
      qt_episodes := AList.update e (sql_outcome_episode lib db now c v a i) (qt_episodes t)\<rparr>"
    using sql t' by auto
  have i: "(abs_incident (resolve_sql db c i))\<lparr>ic_resolved_at := None\<rparr> = ?j\<lparr>ic_resolved_at := None\<rparr>"
    "ic_status ?j = qi_status (resolve_sql db c i)" "ic_runbook_id ?j = qi_runbook_id i"
    by (simp_all add: abs_incident_def resolve_sql_def)
  let ?staged = "(abs_tables t)\<lparr>
      tb_actions := AList.update (oc_action_id c) ((abs_action a)\<lparr>ac_outcome := outcome_value (oc_outcome c)\<rparr>) (tb_actions (abs_tables t)),
      tb_incidents := AList.update (oc_incident_id c) ?j (tb_incidents (abs_tables t)),
      tb_episodes := AList.update e (outcome_episode c (db_vector db (embedding_literal lib v)) (abs_action a) ?j)
        (tb_episodes (abs_tables t))\<rparr>"
  have same: "timeless_tables ?staged = timeless_tables (abs_tables t')"
    using i timeless_outcome_episode [OF i(3), of lib db now c v a]
    by (simp add: timeless_tables_def abs_tables_def t'_eq abs_outcome_action)
  have "local_outcome lib db e c v t = Inr (\<lparr>or_action_id = oc_action_id c, or_transaction_id = ac_transaction_id (abs_action a),
      or_event_id = e, or_incident_id = oc_incident_id c, or_outcome = oc_outcome c, or_incident_status = ic_status ?j,
      or_recorded_at = oc_observed_at c, or_idempotent_replay = False\<rparr>, Some ?staged)"
    unfolding local_outcome_def
    using stage_outcome_eq(1) [OF stage_outcome_view [OF target] find, of e "db_vector db (embedding_literal lib v)"]
    unfolding abs_store_fields by blast
  from that [OF this same] show thesis unfolding i(2) by (simp add: w abs_action_def)
qed

lemma timeless_fields [simp]:
  "ep_event_type (timeless ep) = ep_event_type ep" "ep_incident_id (timeless ep) = ep_incident_id ep"
  "ep_service_id (timeless ep) = ep_service_id ep" "is_outcome_of a (timeless ep) = is_outcome_of a ep"
  by (simp_all add: timeless_def is_outcome_of_def)

lemma store_ok_timeless: "store_ok (timeless_tables t) \<longleftrightarrow> store_ok t"
proof -
  have "length (outcomes_of (timeless_tables t) a) = length (outcomes_of t a)" for a
    by (simp add: outcomes_of_def timeless_tables_def filter_map_rows) (simp add: map_rows_def)
  then have "one_outcome (timeless_tables t) \<longleftrightarrow> one_outcome t" by (simp add: one_outcome_def)
  moreover have "deploys_known (timeless_tables t) \<longleftrightarrow> deploys_known t"
    by (simp add: deploys_known_def timeless_tables_def)
  moreover have "actions_remembered (timeless_tables t) \<longleftrightarrow> actions_remembered t"
    by (auto simp: actions_remembered_def timeless_tables_def) (metis timeless_fields)+
  ultimately show ?thesis by (simp add: store_ok_def)
qed

lemma outcome_sql_cases:
  assumes "outcome_sql lib db e now c v t = Inr (t', Some w)"
  obtains (recorded) a i where "outcome_target c t = Some (a, i)" "existing_outcome c t = None"
      "incident_time_order (resolve_sql db c i)"
      "t' = t\<lparr>
        qt_actions := AList.update (oc_action_id c) (a\<lparr>qa_outcome := outcome_value (oc_outcome c)\<rparr>) (qt_actions t),
        qt_incidents := AList.update (oc_incident_id c) (resolve_sql db c i) (qt_incidents t),
        qt_episodes := AList.update e (sql_outcome_episode lib db now c v a i) (qt_episodes t)\<rparr>"
  | (found) a i f ep where "outcome_target c t = Some (a, i)" "existing_outcome c t = Some (f, ep)" "t' = t"
      "w = \<lparr>ow_event_id = f, ow_recorded_at = created_instant ep, ow_transaction_id = qa_transaction_id a,
        ow_incident_status = qi_status i, ow_recorded_outcome = pget (ep_metadata ep) ''outcome'',
        ow_idempotent_replay = True\<rparr>"
  using assms by (auto simp: outcome_sql_def split: option.splits if_splits)

lemma record_kept:
  assumes "outcome_on_record actions ep" "map_of actions k = Some a" "\<not> is_outcome_of k ep"
  shows "outcome_on_record (AList.update k (a\<lparr>qa_outcome := o'\<rparr>) actions) ep"
  using assms unfolding outcome_on_record_def map_of_update by (metis (no_types))

lemma sql_consistent_outcome:
  assumes ok: "sql_consistent t" and fresh: "map_of (qt_episodes t) e = None"
    and commit: "outcome_sql lib db e now c v t = Inr (t', Some w)"
  shows "sql_consistent t'"
proof (cases rule: outcome_sql_cases [OF commit, case_names recorded found])
  case (found a i f ep)
  with ok show ?thesis by simp
next
  case (recorded a i)
  note rows = outcome_target_rows [OF recorded(1)]
  obtain res staged where staged: "local_outcome lib db e c v t = Inr (res, Some staged)"
      "timeless_tables staged = timeless_tables (abs_tables t')"
    by (rule local_outcome_commit [OF ok recorded(1,2,3) fresh commit])
  have "store_ok (fs_tables (abs_store (oc_org_id c) t))" using ok by (simp add: sql_consistent_def)
  moreover have "map_of (tb_episodes (fs_tables (abs_store (oc_org_id c) t))) e = None" using fresh by simp
  ultimately have "store_ok staged" by (rule store_ok_outcome [OF _ _ staged(1) [unfolded local_outcome_def]])
  then have "store_ok (abs_tables t')" using staged(2) store_ok_timeless by metis
  moreover have "outcome_on_record (qt_actions t') (snd x)" if x: "x \<in> set (qt_episodes t')" for x
  proof (cases "x \<in> set (qt_episodes t)")
    case True
    have "\<not> is_outcome_of (oc_action_id c) (snd x)"
      using recorded(2) existing_find [OF ok recorded(1)] True by (cases x) (auto simp: find_None_iff)
    moreover have "outcome_on_record (qt_actions t) (snd x)" using ok True by (simp add: sql_consistent_def)
    ultimately show ?thesis using record_kept [OF _ rows(1)] by (simp add: recorded(4))
  next
    case False
    with x have "snd x = sql_outcome_episode lib db now c v a i"
      using set_dict_update [of e "sql_outcome_episode lib db now c v a i" "qt_episodes t"] by (auto simp: recorded(4))
    with rows show ?thesis
      by (auto simp: outcome_on_record_def recorded(4) sql_outcome_episode_def is_outcome_of_def pget_def dict_get_def)
  qed
  moreover have "services_known t'"
    using ok rows(2) recorded(3) unfolding sql_consistent_def services_known_def by (auto simp: recorded(4) split: if_splits)
  moreover have "\<forall>i a. map_of (qt_actions t') i = Some a \<longrightarrow> uuid_int i < 2 ^ 128"
    using ok rows(1) unfolding sql_consistent_def by (auto simp: recorded(4) split: if_splits)
  ultimately show ?thesis by (simp add: sql_consistent_def)
qed

lemma sql_reach_ok: "sql_reach lib db t \<Longrightarrow> sql_consistent t"
  by (induction rule: sql_reach.induct) (blast intro: sql_consistent_seeded sql_consistent_remediation sql_consistent_outcome)+

section \<open>Recording an outcome\<close>

lemma timeless_recorded: "find (\<lambda>(i, ep). is_outcome_of a ep) d = Some (f, ep) \<Longrightarrow> (f, ep) \<in> set d \<and> is_outcome_of a ep"
  by (auto simp: find_Some_iff) (metis nth_mem)

lemma existing_known:
  assumes ok: "sql_consistent t" and target: "outcome_target c t = Some (a, i)" and found: "existing_outcome c t = Some (f, ep)"
  obtains k where "qa_outcome a = outcome_value k" "pget (ep_metadata ep) ''outcome'' = PStr (outcome_value k)"
    "is_outcome_of (oc_action_id c) ep" "(f, ep) \<in> set (qt_episodes t)"
proof -
  have "(f, ep) \<in> set (qt_episodes t)" "is_outcome_of (oc_action_id c) ep"
    using timeless_recorded [of "oc_action_id c" "qt_episodes t" f ep] found
    unfolding existing_find [OF ok target] by auto
  with record_matches [OF ok target] that show thesis by fastforce
qed

text \<open>What the local store answers to the same request.\<close>

definition outcome_refused :: "be_error + outcome_result \<times> tables option \<Rightarrow> string \<Rightarrow> bool" where
  "outcome_refused r class \<longleftrightarrow> (case r of Inl e \<Rightarrow> error_type e = class | Inr _ \<Rightarrow> False)"

definition outcome_agrees :: "outcome_result \<Rightarrow> outcome_result \<Rightarrow> bool" where
  "outcome_agrees r s \<longleftrightarrow> or_action_id r = or_action_id s \<and> or_transaction_id r = or_transaction_id s \<and>
     or_event_id r = or_event_id s \<and> or_incident_id r = or_incident_id s \<and> or_outcome r = or_outcome s \<and>
     or_incident_status r = or_incident_status s \<and> or_idempotent_replay r = or_idempotent_replay s"

definition outcome_accepted :: "be_error + outcome_result \<times> tables option \<Rightarrow> outcome_result \<Rightarrow> sql_tables \<Rightarrow> sql_tables \<Rightarrow> bool" where
  "outcome_accepted l r t t' \<longleftrightarrow> (case l of Inl _ \<Rightarrow> False
   | Inr (s, None) \<Rightarrow> outcome_agrees r s \<and> t' = t
   | Inr (s, Some staged) \<Rightarrow> outcome_agrees r s \<and> timeless_tables staged = timeless_tables (abs_tables t'))"

lemma outcome_text_injective [simp]: "outcome_value k = outcome_value k' \<longleftrightarrow> k = k'"
  by (cases k; cases k') simp_all

lemma local_outcome_foreign:
  assumes ok: "sql_consistent t" and none: "outcome_target c t = None"
  shows "local_outcome lib db e c v t = Inl (ProvenanceError ''Outcome action does not belong to the org, incident, and service.'')"
proof -
  have "\<not> (map_of (qt_incidents t) (oc_incident_id c) = Some i \<and> qi_org_id i = oc_org_id c \<and> qi_service_id i = oc_service_id c \<and>
      map_of (qt_actions t) (oc_action_id c) = Some a \<and> qa_org_id a = oc_org_id c \<and> qa_incident_id a = oc_incident_id c \<and>
      qa_target_id a = oc_service_id c)" for i a
  proof
    assume *: "map_of (qt_incidents t) (oc_incident_id c) = Some i \<and> qi_org_id i = oc_org_id c \<and> qi_service_id i = oc_service_id c \<and>
      map_of (qt_actions t) (oc_action_id c) = Some a \<and> qa_org_id a = oc_org_id c \<and> qa_incident_id a = oc_incident_id c \<and>
      qa_target_id a = oc_service_id c"
    then have "row_with (\<lambda>s. qs_org_id s = qi_org_id i) (qt_services t) (qi_service_id i)"
      using ok unfolding sql_consistent_def services_known_def by blast
    with * none show False by (auto simp: outcome_target_def row_with_Some)
  qed
  then show ?thesis
    by (auto simp: local_outcome_def stage_outcome_def Let_def needE_def checkE_def abs_action_def split: option.splits)
qed

lemma local_outcome_found:
  assumes ok: "sql_consistent t" and target: "outcome_target c t = Some (a, i)" and found: "existing_outcome c t = Some (f, ep)"
    and k: "pget (ep_metadata ep) ''outcome'' = PStr (outcome_value k)" "is_outcome_of (oc_action_id c) ep"
    and time: "ep_created_at ep = Some tm"
  shows "local_outcome lib db e c v t = (if k \<noteq> oc_outcome c
    then Inl (OutcomeConflict (''Outcome already recorded as '' @ outcome_value k @ ''.''))
    else Inr (\<lparr>or_action_id = oc_action_id c, or_transaction_id = qa_transaction_id a, or_event_id = f,
      or_incident_id = oc_incident_id c, or_outcome = k, or_incident_status = qi_status i, or_recorded_at = tm,
      or_idempotent_replay = True\<rparr>, None))"
proof -
  have "untimed ep = ep" using k(2) by (simp add: untimed_def is_outcome_of_def)
  then have "find (\<lambda>(i, ep). is_outcome_of (oc_action_id c) ep) (tb_episodes (fs_tables (abs_store (oc_org_id c) t))) = Some (f, ep)"
    using found existing_find [OF ok target] by (simp add: find_map_rows)
  from stage_outcome_eq(2) [OF stage_outcome_view [OF target] this k(1) time] show ?thesis
    by (simp add: local_outcome_def abs_action_def abs_incident_def)
qed

lemma time_order_resolved:
  assumes "incident_time_order i" "\<not> incident_time_order (resolve_sql db c i)"
  shows "oc_outcome c = Succeeded \<and> instant (oc_observed_at c) < qi_opened_at i"
  using assms by (auto simp: resolve_sql_def incident_time_order_def split: if_splits option.splits)

lemma outcome_sql_agrees:
  assumes ok: "sql_consistent t" and fresh: "map_of (qt_episodes t) e = None"
    and timed: "\<forall>x\<in>set (qt_episodes t). ep_created_at (snd x) \<noteq> None"
  shows "case outcome_once lib db None e now c v t of
      (Done r, t') \<Rightarrow> outcome_accepted (local_outcome lib db e c v t) r t t'
    | (Rejected err, t') \<Rightarrow> t' = t \<and> outcome_refused (local_outcome lib db e c v t) (error_type err)
    | (Refused state, t') \<Rightarrow> t' = t \<and> oc_outcome c = Succeeded \<and>
        row_with (\<lambda>i. instant (oc_observed_at c) < qi_opened_at i) (qt_incidents t) (oc_incident_id c)"
proof (cases "outcome_target c t")
  case None
  then show ?thesis
    by (simp add: outcome_once_def outcome_sql_def outcome_refused_def local_outcome_foreign [OF ok None])
next
  case (Some x)
  then obtain a i where target: "outcome_target c t = Some (a, i)" by (cases x) auto
  show ?thesis
  proof (cases "existing_outcome c t")
    case found: (Some y)
    then obtain f ep where found: "existing_outcome c t = Some (f, ep)" by (cases y) auto
    obtain k where k: "pget (ep_metadata ep) ''outcome'' = PStr (outcome_value k)" "is_outcome_of (oc_action_id c) ep"
        "(f, ep) \<in> set (qt_episodes t)"
      by (rule existing_known [OF ok target found])
    obtain tm where tm: "ep_created_at ep = Some tm" using timed k(3) by fastforce
    show ?thesis
      using target found k(1) local_outcome_found [OF ok target found k(1,2) tm, of lib db e v]
      by (auto simp: outcome_once_def outcome_sql_def column_text_def outcome_accepted_def outcome_agrees_def
          outcome_refused_def)
  next
    case none: None
    show ?thesis
    proof (cases "incident_time_order (resolve_sql db c i)")
      case True
      note sql = outcome_sql_commit [OF target none True, of lib e now v]
      from local_outcome_commit [OF ok target none True fresh sql] obtain res staged where
        "local_outcome lib db e c v t = Inr (res, Some staged)"
        "timeless_tables staged = timeless_tables (abs_tables (t\<lparr>
          qt_actions := AList.update (oc_action_id c) (a\<lparr>qa_outcome := outcome_value (oc_outcome c)\<rparr>) (qt_actions t),
          qt_incidents := AList.update (oc_incident_id c) (resolve_sql db c i) (qt_incidents t),
          qt_episodes := AList.update e (sql_outcome_episode lib db now c v a i) (qt_episodes t)\<rparr>))"
        "or_event_id res = e" "or_transaction_id res = qa_transaction_id a"
        "or_incident_status res = qi_status (resolve_sql db c i)" "\<not> or_idempotent_replay res" "or_outcome res = oc_outcome c"
        "or_action_id res = oc_action_id c" "or_incident_id res = oc_incident_id c"
        by auto
      then show ?thesis
        by (simp add: outcome_once_def sql column_text_def outcome_accepted_def outcome_agrees_def)
    next
      case False
      have "incident_time_order i"
        using ok outcome_target_rows(2) [OF target] unfolding sql_consistent_def services_known_def by blast
      with False time_order_resolved have "oc_outcome c = Succeeded \<and> instant (oc_observed_at c) < qi_opened_at i" by blast
      then show ?thesis
        using outcome_target_rows(2) [OF target] by (simp add: outcome_once_def outcome_sql_def target none False row_with_Some)
    qed
  qed
qed

lemma sql_reach_timed: "sql_reach lib db t \<Longrightarrow> \<forall>x\<in>set (qt_episodes t). ep_created_at (snd x) \<noteq> None"
proof (induction rule: sql_reach.induct)
  case (sql_start t)
  then show ?case by (simp add: seeded_def)
next
  case (sql_remediated t ids now c v t' r)
  obtain ep: "qt_episodes t' = AList.update (new_event_id ids) (sql_episode lib db ids now c v) (qt_episodes t)"
    by (rule remediate_sql_commit [OF sql_remediated(3)])
  show ?case
  proof
    fix x
    assume "x \<in> set (qt_episodes t')"
    then have "x = (new_event_id ids, sql_episode lib db ids now c v) \<or> x \<in> set (qt_episodes t)"
      using set_dict_update unfolding ep by fastforce
    with sql_remediated(4) show "ep_created_at (snd x) \<noteq> None" by (auto simp: sql_episode_def)
  qed
next
  case (sql_recorded t e now oc v t' w)
  show ?case
  proof (cases rule: outcome_sql_cases [OF sql_recorded(3), case_names recorded found])
    case (recorded a i)
    show ?thesis
    proof
      fix x
      assume "x \<in> set (qt_episodes t')"
      then have "x = (e, sql_outcome_episode lib db now oc v a i) \<or> x \<in> set (qt_episodes t)"
        using set_dict_update [of e "sql_outcome_episode lib db now oc v a i" "qt_episodes t"] by (auto simp: recorded(4))
      with sql_recorded(4) show "ep_created_at (snd x) \<noteq> None" by (auto simp: sql_outcome_episode_def)
    qed
  next
    case (found a i f ep)
    with sql_recorded show ?thesis by simp
  qed
qed

definition outcome_settle :: "pylib \<Rightarrow> database \<Rightarrow> cockroach \<Rightarrow> outcome_command \<Rightarrow> real list \<Rightarrow> nat \<Rightarrow> bool \<Rightarrow> sql_tables \<Rightarrow>
    ((be_error + outcome_result) \<times> sql_tables) option" where
  "outcome_settle lib db env c v i final t =
     (case outcome_once lib db (rc_refusal env i) (new_event_id (rc_ids env i)) (rc_clock env i) c v t of
       (Done r, t') \<Rightarrow> Some (Inr r, t')
     | (Rejected e, t') \<Rightarrow> Some (Inl e, t')
     | (Refused state, t') \<Rightarrow>
         if state \<noteq> ''40001'' then Some (Inl (OutcomeRecordingError ''CockroachDB rolled back outcome recording.''), t')
         else if final then Some (Inl (driver_error state), t') else None)"

lemma outcome_once_kept:
  assumes "outcome_once lib db refusal e now c v t = (o', u)" "\<nexists>r. o' = Done r"
  shows "u = t \<or> (\<exists>state. o' = Refused state \<and> state \<notin> {''40001'', ''23505''} \<and> refusal = Some (state, True) \<and>
    (\<exists>r. outcome_once lib db None e now c v t = (Done r, u)))"
  using assms by (auto simp: outcome_once_def committed_anyway_def split: option.splits sum.splits prod.splits if_splits)

interpretation outcome_retry: retry_loop "outcome_attempts lib db env c v" "outcome_settle lib db env c v"
    "rc_others env" for lib db env c v
proof
  show "outcome_attempts lib db env c v a (Suc left) (t, pauses) =
      (case outcome_settle lib db env c v a (left = 0) t of
        Some (r, t') \<Rightarrow> (r, (t', pauses))
      | None \<Rightarrow> outcome_attempts lib db env c v (Suc a) left (rc_others env a t, pauses @ [0.025 * 2 ^ a]))"
    for a left t pauses
    using outcome_once_kept [of lib db "rc_refusal env a" "new_event_id (rc_ids env a)" "rc_clock env a" c v t]
    by (auto simp: outcome_settle_def split: prod.splits attempt.splits)
  show "outcome_settle lib db env c v a True t \<noteq> None" for a t
    by (auto simp: outcome_settle_def split: prod.splits attempt.splits)
qed

lemma outcome_done:
  assumes "outcome_once lib db refusal e now c v t = (Done r, t')"
  shows "refusal = None \<and> (\<exists>w. outcome_sql lib db e now c v t = Inr (t', Some w) \<and>
    column_text (ow_recorded_outcome w) = outcome_value (oc_outcome c) \<and>
    r = \<lparr>or_action_id = oc_action_id c, or_transaction_id = ow_transaction_id w, or_event_id = ow_event_id w,
      or_incident_id = oc_incident_id c, or_outcome = oc_outcome c, or_incident_status = ow_incident_status w,
      or_recorded_at = db_time (ow_recorded_at w), or_idempotent_replay = ow_idempotent_replay w\<rparr>)"
  using assms by (auto simp: outcome_once_def split: option.splits sum.splits prod.splits if_splits)

lemma outcome_attempts_cases:
  assumes "left \<noteq> 0" "outcome_attempts lib db env c v a left (t, pauses) = (result, t', pauses')"
  shows "\<exists>i. a \<le> i \<and> i < a + left \<and> pauses' = pauses @ pauses_of a i \<and>
    (case result of
       Inl e \<Rightarrow> t' = table_at (rc_others env) a i t \<or> (\<exists>state r. rc_refusal env i = Some (state, True) \<and>
         outcome_once lib db None (new_event_id (rc_ids env i)) (rc_clock env i) c v
           (table_at (rc_others env) a i t) = (Done r, t'))
     | Inr r \<Rightarrow> outcome_once lib db None (new_event_id (rc_ids env i)) (rc_clock env i) c v
         (table_at (rc_others env) a i t) = (Done r, t'))"
proof -
  obtain i final where i: "a \<le> i" "i < a + left" "pauses' = pauses @ pauses_of a i"
      and settle: "outcome_settle lib db env c v i final (table_at (rc_others env) a i t) = Some (result, t')"
    using outcome_retry.settled [OF assms] by blast
  obtain o' u where once: "outcome_once lib db (rc_refusal env i) (new_event_id (rc_ids env i)) (rc_clock env i) c v
      (table_at (rc_others env) a i t) = (o', u)" by fastforce
  have "case result of
       Inl e \<Rightarrow> t' = table_at (rc_others env) a i t \<or> (\<exists>state r. rc_refusal env i = Some (state, True) \<and>
         outcome_once lib db None (new_event_id (rc_ids env i)) (rc_clock env i) c v
           (table_at (rc_others env) a i t) = (Done r, t'))
     | Inr r \<Rightarrow> outcome_once lib db None (new_event_id (rc_ids env i)) (rc_clock env i) c v
         (table_at (rc_others env) a i t) = (Done r, t')"
  proof (cases o')
    case (Done r)
    then have "result = Inr r" "t' = u" using settle once by (simp_all add: outcome_settle_def)
    moreover have "rc_refusal env i = None" using outcome_done once Done by blast
    ultimately show ?thesis using once Done by simp
  qed (use settle once outcome_once_kept [OF once] in \<open>auto simp: outcome_settle_def split: if_splits\<close>)
  with i show ?thesis by blast
qed

lemma find_update_new:
  "find p d = None \<Longrightarrow> p (k, v) \<Longrightarrow> find p (AList.update k v d) = Some (k, v)"
  by (induction d) (auto split: if_splits)

text \<open>After a recording, the outcome of the action is the one that was asked for.\<close>

lemma outcome_recorded:
  assumes ok: "sql_consistent t" and fresh: "map_of (qt_episodes t) e = None"
    and recorded_once: "outcome_once lib db None e now c v t = (Done r, t')"
  shows "sql_consistent t' \<and> or_outcome r = oc_outcome c \<and> (or_idempotent_replay r \<longrightarrow> t' = t) \<and>
    (\<exists>a i ep. outcome_target c t' = Some (a, i) \<and> existing_outcome c t' = Some (or_event_id r, ep) \<and>
      pget (ep_metadata ep) ''outcome'' = PStr (outcome_value (oc_outcome c)) \<and>
      qa_outcome a = outcome_value (oc_outcome c) \<and> or_incident_status r = qi_status i \<and>
      (\<not> or_idempotent_replay r \<longrightarrow> oc_outcome c = Succeeded \<longrightarrow> qi_status i = ''resolved''))"
proof -
  obtain w where commit: "outcome_sql lib db e now c v t = Inr (t', Some w)"
      "column_text (ow_recorded_outcome w) = outcome_value (oc_outcome c)"
    and r: "r = \<lparr>or_action_id = oc_action_id c, or_transaction_id = ow_transaction_id w, or_event_id = ow_event_id w,
      or_incident_id = oc_incident_id c, or_outcome = oc_outcome c, or_incident_status = ow_incident_status w,
      or_recorded_at = db_time (ow_recorded_at w), or_idempotent_replay = ow_idempotent_replay w\<rparr>"
    using outcome_done [OF recorded_once] by blast
  have ok': "sql_consistent t'" by (rule sql_consistent_outcome [OF ok fresh commit(1)])
  show ?thesis
  proof (cases rule: outcome_sql_cases [OF commit(1), case_names recorded found])
    case (recorded a i)
    note rows = outcome_target_rows [OF recorded(1)]
    let ?a = "a\<lparr>qa_outcome := outcome_value (oc_outcome c)\<rparr>" and ?i = "resolve_sql db c i"
    have w: "w = \<lparr>ow_event_id = e, ow_recorded_at = now, ow_transaction_id = qa_transaction_id a,
        ow_incident_status = qi_status ?i, ow_recorded_outcome = PStr (outcome_value (oc_outcome c)),
        ow_idempotent_replay = False\<rparr>"
      using outcome_sql_commit [OF recorded(1,2,3), of lib e now v] commit(1) by simp
    have target: "outcome_target c t' = Some (?a, ?i)"
      using rows by (auto simp: outcome_target_def recorded(4) row_with_Some)
    have "is_outcome_of (oc_action_id c) (sql_outcome_episode lib db now c v a i)"
      by (simp add: is_outcome_of_def sql_outcome_episode_def pget_def dict_get_def)
    then have "existing_outcome c t' = Some (e, sql_outcome_episode lib db now c v a i)"
      using recorded(2) unfolding existing_find [OF ok' target] existing_find [OF ok recorded(1)]
      by (simp add: recorded(4) find_update_new)
    with target show ?thesis
      using ok' by (simp add: r w) (simp add: sql_outcome_episode_def pget_def dict_get_def resolve_sql_def)
  next
    case (found a i f ep)
    obtain k where "qa_outcome a = outcome_value k" "pget (ep_metadata ep) ''outcome'' = PStr (outcome_value k)"
      by (rule existing_known [OF ok found(1,2)])
    with found ok' commit(2) show ?thesis by (auto simp: r column_text_def)
  qed
qed

end
