(* ===== verification/Be_Sql_Claims.thy ===== *)
theory Be_Sql_Claims
  imports Be_Sql_Store
begin

text \<open>
  The properties of the stores over CockroachDB: they do what the local store does, a remediation
  happens once for a key, and an outcome once for an action, whatever attempts the cluster refuses.
  Each is followed by an instance on concrete inputs.
\<close>

section \<open>Remediations\<close>

text \<open>C4. The one statement of a remediation refines the local store. When it gives a row, the local
  store, run on the view of the tables, commits too and ends in the view of the tables after the
  statement, with the same identifiers. When it gives none, it has changed nothing, and the local
  store refuses as well, or the incident is no longer open, or the cited runbook is not in force. It
  fails only when the idempotency key is taken.\<close>

theorem be_sql_refines_local:
  "case remediate_sql lib db ids now c v t of
     Inl state \<Rightarrow> state = ''23505'' \<and> key_rows c t \<noteq> []
   | Inr (t', None) \<Rightarrow> t' = t \<and>
       ((\<exists>e. stage_remediation ids c (db_vector db (embedding_literal lib v)) (abs_store (cmd_org_id c) t) = Inl e) \<or>
        incident_over c t \<or> runbook_withheld c t)
   | Inr (t', Some r) \<Rightarrow>
       stage_remediation ids c (db_vector db (embedding_literal lib v)) (abs_store (cmd_org_id c) t) = Inr (abs_tables t') \<and>
       r = \<lparr>rr_deploy_id = new_deploy_id ids, rr_event_id = new_event_id ids, rr_action_id = new_action_id ids,
         rr_transaction_id = new_transaction_id ids, rr_committed_at = now\<rparr>"
proof (cases "remediate_sql lib db ids now c v t")
  case (Inl state)
  then show ?thesis
    by (auto simp: remediate_sql_def key_rows_def list_ex_iff filter_empty_conv split: if_splits)
next
  case (Inr x)
  then obtain t' r where x: "remediate_sql lib db ids now c v t = Inr (t', r)" by (cases x) auto
  show ?thesis
  proof (cases r)
    case None
    with x show ?thesis using stage_of_nothing [of lib db ids now c v t t'] by auto
  next
    case (Some row)
    with x have commit: "remediate_sql lib db ids now c v t = Inr (t', Some row)" by simp
    obtain "row = \<lparr>rr_deploy_id = new_deploy_id ids, rr_event_id = new_event_id ids, rr_action_id = new_action_id ids,
        rr_transaction_id = new_transaction_id ids, rr_committed_at = now\<rparr>"
      by (rule remediate_sql_commit [OF commit])
    with x Some stage_of_commit [OF commit] show ?thesis by simp
  qed
qed


definition sql_command :: command where
  "sql_command = \<lparr>cmd_org_id = UUID 3, cmd_agent_id = UUID 4, cmd_incident_id = UUID 1, cmd_session_id = UUID 2,
     cmd_service_id = UUID 5, cmd_action = Rollback, cmd_target_version = ''1.4.2'',
     cmd_cited_memory_id = UUID 7, cmd_runbook_id = Some (UUID 7), cmd_rationale = ''Matches case 1878.'',
     cmd_outcome_stub = ''remediation_started'', cmd_requires_human_approval = True, cmd_approved = True,
     cmd_idempotency_key = None\<rparr>"

definition sql_seed :: sql_tables where
  "sql_seed = \<lparr>qt_services = [(UUID 5, \<lparr>qs_org_id = UUID 3, qs_health = ''degraded'', qs_current_version = ''1.4.3'',
       qs_current_deploy_id = None, qs_updated_at = 10\<rparr>)],
     qt_incidents = [(UUID 1, \<lparr>qi_org_id = UUID 3, qi_service_id = UUID 5, qi_status = ''open'', qi_runbook_id = None,
       qi_opened_at = 20, qi_resolved_at = None, qi_mttr_seconds = None\<rparr>)],
     qt_deploys = [], qt_episodes = [], qt_actions = [],
     qt_runbooks = [(UUID 7, \<lparr>qr_org_id = UUID 3, qr_status = ''active'', qr_usage_count = 4, qr_last_used_at = None\<rparr>)]\<rparr>"

definition sql_database :: database where
  "sql_database = \<lparr>db_vector = (\<lambda>_. replicate 1024 0), db_seconds = (\<lambda>d. d div 1000000)\<rparr>"

definition sql_ids :: "nat \<Rightarrow> fresh_ids" where
  "sql_ids i = \<lparr>new_deploy_id = UUID (100 + i), new_event_id = UUID (200 + i), new_action_id = UUID (300 + i),
     new_transaction_id = UUID (400 + i)\<rparr>"

definition sql_cluster :: "refusal option \<Rightarrow> cockroach" where
  "sql_cluster first = \<lparr>rc_refusal = (\<lambda>i. if i = 0 then first else None), rc_unreadable = (\<lambda>_. False),
     rc_others = (\<lambda>_. id), rc_ids = sql_ids, rc_clock = (\<lambda>i. 1000 + int i)\<rparr>"

definition sql_vector :: "real list" where
  "sql_vector = replicate 1024 0"



text \<open>Calling again after a lost answer gives the first answer: on the tables a commit left, the same
  command, even with another embedding and with other identifiers, returns the result of the action
  that is there and changes nothing. Once the gates of the statement no longer hold, as when the
  incident has been resolved meanwhile, the same call is refused with \<open>ProvenanceError\<close> instead.\<close>

theorem be_sql_replay:
  assumes commit: "remediate_sql lib db ids now c v t = Inr (t', Some row)" and id: "uuid_int (new_deploy_id ids) < 2 ^ 128"
    and valid: "validate_sql c w = Inr ()" and up: "rc_refusal env 0 = None" "\<not> rc_unreadable env 0" "0 \<le> max_retries"
    and late: "\<not> sql_target c t''"
  shows "sql_remediate lib db env max_retries c w (t', []) =
      (Inr \<lparr>sr_action_id = new_action_id ids, sr_transaction_id = new_transaction_id ids,
        sr_deploy_id = Some (new_deploy_id ids), sr_event_id = new_event_id ids, sr_committed_at = db_time now\<rparr>, t', []) \<and>
    (\<exists>m. sql_remediate lib db env max_retries c w (t'', []) = (Inl (ProvenanceError m), t'', []))"
proof -
  obtain n where n: "nat (max_retries + 1) = Suc n" using up(3) by (metis Suc_nat_eq_nat_zadd1 add.commute)
  have "remediate_sql lib db (rc_ids env 0) (rc_clock env 0) c w t' = Inl ''23505''"
  proof -
    have "remediate_sql lib db (rc_ids env 0) (rc_clock env 0) c v t' = Inl ''23505''"
      by (rule commit_key_taken [OF commit])
    then show ?thesis by (auto simp: remediate_sql_def split: if_splits)
  qed
  with commit_replay [OF commit id] up n valid
  have "sql_remediate lib db env max_retries c w (t', []) =
      (Inr \<lparr>sr_action_id = new_action_id ids, sr_transaction_id = new_transaction_id ids,
        sr_deploy_id = Some (new_deploy_id ids), sr_event_id = new_event_id ids, sr_committed_at = db_time now\<rparr>, t', [])"
    by (simp add: sql_remediate_def prog_simps execute_once_def)
  moreover have "remediate_sql lib db (rc_ids env 0) (rc_clock env 0) c w t'' = Inr (t'', None)"
    using late by (simp add: remediate_sql_def)
  then have "\<exists>m. sql_remediate lib db env max_retries c w (t'', []) = (Inl (ProvenanceError m), t'', [])"
    using up n valid by (simp add: sql_remediate_def prog_simps execute_once_def)
  ultimately show ?thesis by blast
qed

definition sql_resolved :: sql_tables where
  "sql_resolved = sql_seed\<lparr>qt_incidents := [(UUID 1, \<lparr>qi_org_id = UUID 3, qi_service_id = UUID 5,
     qi_status = ''resolved'', qi_runbook_id = Some (UUID 7), qi_opened_at = 20, qi_resolved_at = Some 2000,
     qi_mttr_seconds = Some 0\<rparr>)]\<rparr>"

theorem be_sql_replay_witness:
  "\<exists>t'. sql_remediate plain_lib sql_database (sql_cluster None) 3 sql_command sql_vector (t', []) =
      (Inr \<lparr>sr_action_id = UUID 309, sr_transaction_id = UUID 409, sr_deploy_id = Some (UUID 109),
        sr_event_id = UUID 209, sr_committed_at = db_time 990\<rparr>, t', []) \<and>
    (\<exists>m. sql_remediate plain_lib sql_database (sql_cluster None) 3 sql_command sql_vector (sql_resolved, []) =
      (Inl (ProvenanceError m), sql_resolved, []))"
proof -
  have "\<exists>t' row. remediate_sql plain_lib sql_database (sql_ids 9) 990 sql_command sql_vector sql_seed = Inr (t', Some row)"
    by (simp add: remediate_sql_def sql_target_def sql_provenance_def runbook_gate_def row_with_def sql_seed_def sql_command_def)
  then obtain t' row where commit:
    "remediate_sql plain_lib sql_database (sql_ids 9) 990 sql_command sql_vector sql_seed = Inr (t', Some row)" by blast
  have "validate_sql sql_command sql_vector = Inr ()"
    by (simp add: validate_sql_def sql_command_def sql_vector_def supported_actions_def str_strip_def is_space_def)
  from be_sql_replay [OF commit _ this, of "sql_cluster None" 3 sql_resolved] show ?thesis
    by (intro exI [of _ t']) (simp add: sql_ids_def sql_cluster_def sql_target_def row_with_def sql_resolved_def)
qed

section \<open>Outcomes\<close>

text \<open>C13. On every state the two statements reach from seeded tables, the rows refer to each other, each
  recorded outcome is the one in the column of its action, and recording an outcome refines the local
  store: an accepted outcome, new or a replay, is accepted there with the same result and leaves the view
  of the same tables, up to times; a rejected one is rejected there with the same kind of failure; and
  the statement itself fails only when the incident would be resolved before it was opened.\<close>

theorem be_sql_outcome_agrees:
  assumes "sql_reach lib db t" "map_of (qt_episodes t) e = None"
  shows "sql_consistent t \<and> (case outcome_once lib db None e now c v t of
      (Done r, t') \<Rightarrow> outcome_accepted (local_outcome lib db e c v t) r t t'
    | (Rejected err, t') \<Rightarrow> t' = t \<and> outcome_refused (local_outcome lib db e c v t) (error_type err)
    | (Refused state, t') \<Rightarrow> t' = t \<and> oc_outcome c = Succeeded \<and>
        row_with (\<lambda>i. instant (oc_observed_at c) < qi_opened_at i) (qt_incidents t) (oc_incident_id c))"
  using sql_reach_ok [OF assms(1)] outcome_sql_agrees [OF sql_reach_ok [OF assms(1)] assms(2) sql_reach_timed [OF assms(1)]]
  by (rule conjI)

definition sql_outcome :: outcome_command where
  "sql_outcome = \<lparr>oc_org_id = UUID 3, oc_agent_id = UUID 4, oc_incident_id = UUID 1, oc_service_id = UUID 5,
     oc_action_id = UUID 309, oc_outcome = Succeeded, oc_summary = ''recovered'', oc_error_signature = None,
     oc_observed_at = Zoned 2000 0\<rparr>"

definition sql_remediated_tables :: sql_tables where
  "sql_remediated_tables = fst (projr (remediate_sql plain_lib sql_database (sql_ids 9) 990 sql_command sql_vector sql_seed))"

lemma sql_demo_commit:
  "\<exists>row. remediate_sql plain_lib sql_database (sql_ids 9) 990 sql_command sql_vector sql_seed = Inr (sql_remediated_tables, Some row)"
  by (simp add: sql_remediated_tables_def remediate_sql_def sql_target_def sql_provenance_def runbook_gate_def
      row_with_def sql_seed_def sql_command_def)

lemma sql_demo_reach: "sql_reach plain_lib sql_database sql_remediated_tables"
proof -
  have "seeded sql_seed" by (simp add: seeded_def sql_seed_def incident_time_order_def row_with_def)
  moreover have "sql_fresh (sql_ids 9) sql_seed" by (simp add: sql_fresh_def sql_seed_def sql_ids_def)
  ultimately show ?thesis using sql_demo_commit sql_start sql_remediated by blast
qed

lemma sql_demo_episode: "map_of (qt_episodes sql_remediated_tables) (UUID 500) = None"
proof -
  obtain row where commit:
    "remediate_sql plain_lib sql_database (sql_ids 9) 990 sql_command sql_vector sql_seed = Inr (sql_remediated_tables, Some row)"
    using sql_demo_commit by blast
  obtain "qt_episodes sql_remediated_tables = AList.update (new_event_id (sql_ids 9))
      (sql_episode plain_lib sql_database (sql_ids 9) 990 sql_command sql_vector) (qt_episodes sql_seed)"
    by (rule remediate_sql_commit [OF commit])
  then show ?thesis by (simp add: sql_ids_def sql_seed_def)
qed

theorem be_sql_outcome_agrees_witness:
  "sql_consistent sql_remediated_tables \<and>
    (case outcome_once plain_lib sql_database None (UUID 500) 3000 sql_outcome sql_vector sql_remediated_tables of
      (Done r, t') \<Rightarrow> outcome_accepted (local_outcome plain_lib sql_database (UUID 500) sql_outcome sql_vector sql_remediated_tables)
        r sql_remediated_tables t'
    | (Rejected err, t') \<Rightarrow> t' = sql_remediated_tables \<and>
        outcome_refused (local_outcome plain_lib sql_database (UUID 500) sql_outcome sql_vector sql_remediated_tables) (error_type err)
    | (Refused state, t') \<Rightarrow> t' = sql_remediated_tables \<and> oc_outcome sql_outcome = Succeeded \<and>
        row_with (\<lambda>i. instant (oc_observed_at sql_outcome) < qi_opened_at i) (qt_incidents sql_remediated_tables)
          (oc_incident_id sql_outcome))"
  by (rule be_sql_outcome_agrees [OF sql_demo_reach sql_demo_episode])

text \<open>An outcome is recorded at most once for its action, whatever attempts the cluster refuses, and
  whatever others do to the tables between attempts, as long as they keep the invariant: when the call
  returns, the outcome on record for the action is the one that was asked for, the action carries it, the
  result names its event and the incident's status, a replay has changed nothing, and a new success has
  resolved the incident; when it raises, the tables are those the last attempt met, or those after its
  commit when the answer to it was lost.\<close>

theorem be_sql_outcome_once:
  assumes "sql_consistent t" "\<And>i u. sql_consistent u \<Longrightarrow> sql_consistent (rc_others env i u)" "0 \<le> max_retries"
    and "\<And>i. map_of (qt_episodes (table_at (rc_others env) 0 i t)) (new_event_id (rc_ids env i)) = None"
  shows "case sql_record_outcome lib db env max_retries c v (t, []) of (result, t', pauses) \<Rightarrow>
    sql_consistent t' \<and> (\<exists>i. int i \<le> max_retries \<and> pauses = pauses_of 0 i \<and>
      (case result of
        Inl e \<Rightarrow> t' = table_at (rc_others env) 0 i t \<or> (\<exists>state ep. rc_refusal env i = Some (state, True) \<and>
          existing_outcome c t' = Some ep)
      | Inr r \<Rightarrow> or_outcome r = oc_outcome c \<and> (\<not> or_idempotent_replay r \<or> t' = table_at (rc_others env) 0 i t) \<and>
          (\<exists>a inc ep. outcome_target c t' = Some (a, inc) \<and> existing_outcome c t' = Some (or_event_id r, ep) \<and>
            pget (ep_metadata ep) ''outcome'' = PStr (outcome_value (oc_outcome c)) \<and>
            qa_outcome a = outcome_value (oc_outcome c) \<and> or_incident_status r = qi_status inc \<and>
            (or_idempotent_replay r \<or> oc_outcome c \<noteq> Succeeded \<or> qi_status inc = ''resolved''))))"
proof (cases "length v = 1024")
  case False
  with assms show ?thesis by (auto simp: sql_record_outcome_def prog_simps intro!: exI [of _ "0 :: nat"])
next
  case True
  obtain result t' pauses where run: "outcome_attempts lib db env c v 0 (nat (max_retries + 1)) (t, []) = (result, t', pauses)"
    by (metis prod_cases3)
  have eq: "sql_record_outcome lib db env max_retries c v (t, []) = (result, t', pauses)"
    using True run by (simp add: sql_record_outcome_def prog_simps)
  have "nat (max_retries + 1) \<noteq> 0" using assms(3) by simp
  from outcome_attempts_cases [OF this run] obtain i where i: "i < nat (max_retries + 1)" "pauses = pauses_of 0 i"
      "case result of
         Inl e \<Rightarrow> t' = table_at (rc_others env) 0 i t \<or> (\<exists>state r. rc_refusal env i = Some (state, True) \<and>
           outcome_once lib db None (new_event_id (rc_ids env i)) (rc_clock env i) c v
             (table_at (rc_others env) 0 i t) = (Done r, t'))
       | Inr r \<Rightarrow> outcome_once lib db None (new_event_id (rc_ids env i)) (rc_clock env i) c v
           (table_at (rc_others env) 0 i t) = (Done r, t')"
    by auto
  have bound: "int i \<le> max_retries" using i(1) by linarith
  have met: "sql_consistent (table_at (rc_others env) 0 i t)" by (rule table_at_keeps) (use assms in auto)
  show ?thesis
  proof (cases result)
    case (Inl e)
    with i(3) have "t' = table_at (rc_others env) 0 i t \<or> (\<exists>state r. rc_refusal env i = Some (state, True) \<and>
        outcome_once lib db None (new_event_id (rc_ids env i)) (rc_clock env i) c v
          (table_at (rc_others env) 0 i t) = (Done r, t'))" by simp
    then show ?thesis
    proof
      assume "t' = table_at (rc_others env) 0 i t"
      with Inl i(2) met bound show ?thesis unfolding eq by auto
    next
      assume "\<exists>state r. rc_refusal env i = Some (state, True) \<and>
        outcome_once lib db None (new_event_id (rc_ids env i)) (rc_clock env i) c v
          (table_at (rc_others env) 0 i t) = (Done r, t')"
      then obtain state r where "rc_refusal env i = Some (state, True)" "outcome_once lib db None (new_event_id (rc_ids env i))
          (rc_clock env i) c v (table_at (rc_others env) 0 i t) = (Done r, t')" by blast
      with outcome_recorded [OF met assms(4) this(2)] Inl i(2) bound show ?thesis
        unfolding eq by (auto intro!: exI [of _ i])
    qed
  next
    case (Inr r)
    with i(3) have "outcome_once lib db None (new_event_id (rc_ids env i)) (rc_clock env i) c v
        (table_at (rc_others env) 0 i t) = (Done r, t')" by simp
    from outcome_recorded [OF met assms(4) this] Inr i(2) bound show ?thesis
      unfolding eq by (auto intro!: exI [of _ i])
  qed
qed

definition outcome_cluster :: cockroach where
  "outcome_cluster = (sql_cluster (Some (''40001'', False)))\<lparr>rc_ids := \<lambda>i. (sql_ids i)\<lparr>new_event_id := UUID 500\<rparr>\<rparr>"

theorem be_sql_outcome_once_witness:
  "case sql_record_outcome plain_lib sql_database outcome_cluster 3 sql_outcome sql_vector (sql_remediated_tables, []) of
    (result, t', pauses) \<Rightarrow>
    sql_consistent t' \<and> (\<exists>i. int i \<le> 3 \<and> pauses = pauses_of 0 i \<and>
      (case result of
        Inl e \<Rightarrow> t' = table_at (rc_others outcome_cluster) 0 i sql_remediated_tables \<or>
          (\<exists>state ep. rc_refusal outcome_cluster i = Some (state, True) \<and> existing_outcome sql_outcome t' = Some ep)
      | Inr r \<Rightarrow> or_outcome r = oc_outcome sql_outcome \<and>
          (\<not> or_idempotent_replay r \<or> t' = table_at (rc_others outcome_cluster) 0 i sql_remediated_tables) \<and>
          (\<exists>a inc ep. outcome_target sql_outcome t' = Some (a, inc) \<and> existing_outcome sql_outcome t' = Some (or_event_id r, ep) \<and>
            pget (ep_metadata ep) ''outcome'' = PStr (outcome_value (oc_outcome sql_outcome)) \<and>
            qa_outcome a = outcome_value (oc_outcome sql_outcome) \<and> or_incident_status r = qi_status inc \<and>
            (or_idempotent_replay r \<or> oc_outcome sql_outcome \<noteq> Succeeded \<or> qi_status inc = ''resolved''))))"
proof (rule be_sql_outcome_once)
  have others: "rc_others outcome_cluster = (\<lambda>_. id)" by (simp add: outcome_cluster_def sql_cluster_def)
  show "sql_consistent sql_remediated_tables" by (rule sql_reach_ok [OF sql_demo_reach])
  show "sql_consistent (rc_others outcome_cluster i u)" if "sql_consistent u" for i u using that by (simp add: others)
  show "map_of (qt_episodes (table_at (rc_others outcome_cluster) 0 i sql_remediated_tables))
      (new_event_id (rc_ids outcome_cluster i)) = None" for i
  proof -
    have "table_at (\<lambda>_. id) 0 i sql_remediated_tables = sql_remediated_tables"
      by (rule table_at_keeps [where I = "\<lambda>u. u = sql_remediated_tables"]) simp_all
    then show ?thesis using sql_demo_episode by (simp add: others) (simp add: outcome_cluster_def)
  qed
qed simp

end
