(* ===== verification/Be_Rows.thy ===== *)
theory Be_Rows
  imports Be_Facts
begin

text \<open>
  Recall from the database (\<^verbatim>\<open>backend/src/postmortem_backend/adapters/recall.py\<close>): the conversion of the
  rows of the three queries into memory, and \<open>recall\<close>. A row is a dictionary of column values as the
  driver presents them; what the queries answer is an argument, since their order is that of a vector
  index.
\<close>

section \<open>Columns\<close>

definition db_uuid :: "pylib \<Rightarrow> pyval \<Rightarrow> be_error + uuid" where
  "db_uuid lib v = (case v of PUuid u \<Rightarrow> Inr u
   | _ \<Rightarrow> needE (ValueFault ''badly formed hexadecimal UUID string'') (uuid_of_str (py_str (lib_repr lib) v)))"

text \<open>\<open>f(value) if value else None\<close>\<close>

definition if_truthy :: "(pyval \<Rightarrow> be_error + 'a) \<Rightarrow> pyval \<Rightarrow> be_error + 'a option" where
  "if_truthy f v = (if py_truthy v then bindE (f v) (\<lambda>x. Inr (Some x)) else Inr None)"

definition db_optional_uuid :: "pylib \<Rightarrow> pyval \<Rightarrow> be_error + uuid option" where
  "db_optional_uuid lib v = if_truthy (db_uuid lib) v"

definition db_uuid_tuple :: "pylib \<Rightarrow> pyval \<Rightarrow> be_error + uuid list" where
  "db_uuid_tuple lib v = (if \<not> py_truthy v then Inr []
     else bindE (py_iter v) (\<lambda>xs. mapE (db_uuid lib) (filter py_truthy xs)))"

definition column_str :: "pylib \<Rightarrow> pyval \<Rightarrow> pyval" where
  "column_str lib v = (if v = PNone then PNone else PStr (py_str (lib_repr lib) v))"

text \<open>\<open>str(v or "")\<close>, \<open>float(v or 0.0)\<close>, \<open>int(v or 0)\<close> and \<open>row[key]\<close>.\<close>

definition text_of :: "pylib \<Rightarrow> pyval \<Rightarrow> string" where
  "text_of lib v = py_str (lib_repr lib) (orelse v (PStr []))"

definition float_of :: "pylib \<Rightarrow> pyval \<Rightarrow> be_error + real" where
  "float_of lib v = py_float lib (orelse v (PFloat 0))"

definition count_of :: "pylib \<Rightarrow> pyval \<Rightarrow> be_error + pyval" where
  "count_of lib v = bindE (py_int lib (orelse v (PInt 0))) (\<lambda>n. Inr (PInt n))"

definition row_item :: "pydict \<Rightarrow> string \<Rightarrow> be_error + pyval" where
  "row_item row k = needE (PortError ''KeyError'' k) (map_of row k)"

definition db_json_object :: "pylib \<Rightarrow> pyval \<Rightarrow> be_error + pydict" where
  "db_json_object lib v = bindE (parsed_json lib v) (\<lambda>w. Inr (case w of PDict d \<Rightarrow> d | _ \<Rightarrow> []))"

section \<open>Rows\<close>

definition blank_memory :: "uuid \<Rightarrow> memory_kind \<Rightarrow> string \<Rightarrow> real \<Rightarrow> memory_candidate" where
  "blank_memory i kind txt similarity = \<lparr>mem_memory_id = i, mem_kind = kind, mem_content = txt,
     mem_similarity = similarity, mem_success_rate = 0, mem_occurred_at = None, mem_service_id = None,
     mem_runbook_id = None, mem_steps = [], mem_metadata = [], mem_org_id = None, mem_agent_id = None,
     mem_confidence = 0, mem_valid_from = None, mem_valid_to = None, mem_recorded_at = None,
     mem_provenance_ids = [], mem_ranking_score = 0\<rparr>"

definition episode_metadata :: "pylib \<Rightarrow> pydict \<Rightarrow> pydict \<Rightarrow> pydict" where
  "episode_metadata lib row metadata = dict_merge metadata
     [(''incident_id'', column_str lib (pget row ''incident_id'')),
      (''source_case_id'', column_str lib (pget row ''source_case_id'')),
      (''action_id'', column_str lib (pget row ''action_id'')),
      (''successful_action'', pget row ''successful_action''), (''outcome'', pget row ''outcome''),
      (''transaction_id'', column_str lib (pget row ''transaction_id'')),
      (''learned_at'', column_str lib (pget row ''created_at''))]"

definition episode_of_row :: "pylib \<Rightarrow> pydict \<Rightarrow> be_error + memory_candidate" where
  "episode_of_row lib row =
     bindE (db_json_object lib (pget row ''metadata'')) (\<lambda>stored.
     bindE (bindE (row_item row ''event_id'') (db_uuid lib)) (\<lambda>memory_id.
     bindE (float_of lib (pget row ''similarity'')) (\<lambda>similarity.
     bindE (to_datetime lib (pget row ''occurred_at'')) (\<lambda>occurred_at.
     bindE (db_optional_uuid lib (pget row ''service_id'')) (\<lambda>service_id.
     bindE (db_optional_uuid lib (pget row ''runbook_id'')) (\<lambda>runbook_id.
     bindE (db_optional_uuid lib (pget row ''org_id'')) (\<lambda>org_id.
     bindE (db_optional_uuid lib (pget row ''agent_id'')) (\<lambda>agent_id.
     bindE (to_datetime lib (pget row ''created_at'')) (\<lambda>recorded_at.
     bindE (db_optional_uuid lib (pget row ''action_id'')) (\<lambda>action_id.
     bindE (db_optional_uuid lib (pget row ''transaction_id'')) (\<lambda>transaction_id.
     Inr ((blank_memory memory_id Episodic (text_of lib (pget row ''content'')) similarity)
       \<lparr>mem_occurred_at := occurred_at, mem_service_id := service_id, mem_runbook_id := runbook_id,
        mem_metadata := episode_metadata lib row stored, mem_org_id := org_id, mem_agent_id := agent_id,
        mem_recorded_at := recorded_at,
        mem_provenance_ids := List.map_filter id [action_id, transaction_id]\<rparr>))))))))))))"

definition str_of :: "pylib \<Rightarrow> pydict \<Rightarrow> string \<Rightarrow> string" where
  "str_of lib row k = py_str (lib_repr lib) (pget row k)"

definition fact_of_row :: "pylib \<Rightarrow> pydict \<Rightarrow> be_error + memory_candidate" where
  "fact_of_row lib row =
     bindE (parsed_json lib (pget row ''object'')) (\<lambda>object_value.
     bindE (parsed_json lib (pget row ''predecessor'')) (\<lambda>predecessor.
     let metadata =
       [(''subject'', pget row ''subject''), (''predicate'', pget row ''predicate''), (''object'', object_value),
        (''source'', pget row ''source''), (''valid_from'', column_str lib (pget row ''valid_from'')),
        (''valid_to'', column_str lib (pget row ''valid_to'')), (''learned_at'', column_str lib (pget row ''recorded_at'')),
        (''superseded_by'', column_str lib (pget row ''superseded_by'')),
        (''superseded_predecessor'', case predecessor of PDict d \<Rightarrow> PDict d | _ \<Rightarrow> PNone)] in
     bindE (bindE (row_item row ''fact_id'') (db_uuid lib)) (\<lambda>memory_id.
     bindE (float_of lib (pget row ''similarity'')) (\<lambda>similarity.
     bindE (db_optional_uuid lib (pget row ''org_id'')) (\<lambda>org_id.
     bindE (db_optional_uuid lib (pget row ''agent_id'')) (\<lambda>agent_id.
     bindE (db_optional_uuid lib (pget row ''scoped_service_id'')) (\<lambda>service_id.
     bindE (float_of lib (pget row ''confidence'')) (\<lambda>confidence.
     bindE (to_datetime lib (pget row ''valid_from'')) (\<lambda>valid_from.
     bindE (to_datetime lib (pget row ''valid_to'')) (\<lambda>valid_to.
     bindE (to_datetime lib (pget row ''recorded_at'')) (\<lambda>recorded_at.
     bindE (db_uuid_tuple lib (pget row ''provenance_ids'')) (\<lambda>provenance_ids.
     Inr ((blank_memory memory_id Semantic
         (str_of lib row ''subject'' @ '' '' @ str_of lib row ''predicate'' @ '': '' @ py_str (lib_repr lib) object_value) similarity)
       \<lparr>mem_metadata := metadata, mem_org_id := org_id, mem_agent_id := agent_id, mem_service_id := service_id,
        mem_confidence := confidence, mem_valid_from := valid_from, mem_valid_to := valid_to,
        mem_recorded_at := recorded_at, mem_provenance_ids := provenance_ids\<rparr>)))))))))))))"

text \<open>\<open>tuple(v or ())\<close> and \<open>_json_value(v) or []\<close>\<close>

definition json_or_empty :: "pylib \<Rightarrow> pyval \<Rightarrow> be_error + pyval" where
  "json_or_empty lib v = bindE (parsed_json lib v) (\<lambda>w. Inr (orelse w (PList [])))"

definition tuple_of :: "pyval \<Rightarrow> be_error + pyval" where
  "tuple_of v = bindE (py_iter (orelse v (PTuple []))) (\<lambda>xs. Inr (PTuple xs))"

definition runbook_of_row :: "pylib \<Rightarrow> pydict \<Rightarrow> be_error + memory_candidate" where
  "runbook_of_row lib row =
     bindE (json_or_empty lib (pget row ''steps'')) (\<lambda>steps.
     bindE (json_or_empty lib (pget row ''preconditions'')) (\<lambda>preconditions.
     bindE (json_or_empty lib (pget row ''postconditions'')) (\<lambda>postconditions.
     bindE (tuple_of (pget row ''applicable_service_tags'')) (\<lambda>tags.
     bindE (tuple_of (pget row ''applicable_error_signatures'')) (\<lambda>signatures.
     bindE (count_of lib (pget row ''usage_count'')) (\<lambda>usage_count.
     bindE (count_of lib (pget row ''success_count'')) (\<lambda>success_count.
     bindE (count_of lib (pget row ''failure_count'')) (\<lambda>failure_count.
     bindE (count_of lib (pget row ''positive_provenance_count'')) (\<lambda>positive.
     bindE (count_of lib (pget row ''counterexample_count'')) (\<lambda>counterexamples.
     bindE (bindE (row_item row ''runbook_id'') (db_uuid lib)) (\<lambda>memory_id.
     bindE (float_of lib (pget row ''similarity'')) (\<lambda>similarity.
     bindE (float_of lib (pget row ''success_rate'')) (\<lambda>success_rate.
     bindE (py_iter steps) (\<lambda>step_list.
     bindE (db_optional_uuid lib (pget row ''org_id'')) (\<lambda>org_id.
     bindE (db_optional_uuid lib (pget row ''agent_id'')) (\<lambda>agent_id.
     bindE (to_datetime lib (pget row ''created_at'')) (\<lambda>recorded_at.
     bindE (db_uuid_tuple lib (pget row ''provenance_ids'')) (\<lambda>provenance_ids.
     Inr ((blank_memory memory_id Procedural (text_of lib (orelse (pget row ''trigger_desc'') (pget row ''name''))) similarity)
       \<lparr>mem_success_rate := success_rate, mem_runbook_id := Some memory_id, mem_steps := step_list,
        mem_metadata :=
          [(''name'', pget row ''name''), (''version'', pget row ''version''),
           (''preconditions'', preconditions), (''postconditions'', postconditions),
           (''applicable_service_tags'', tags), (''applicable_error_signatures'', signatures),
           (''usage_count'', usage_count), (''success_count'', success_count), (''failure_count'', failure_count),
           (''positive_provenance_count'', positive), (''counterexample_count'', counterexamples),
           (''last_used_at'', column_str lib (pget row ''last_used_at'')), (''created_by'', pget row ''created_by''),
           (''learned_at'', column_str lib (pget row ''created_at''))],
        mem_org_id := org_id, mem_agent_id := agent_id, mem_recorded_at := recorded_at,
        mem_provenance_ids := provenance_ids\<rparr>)))))))))))))))))))"

section \<open>Recall\<close>

text \<open>What a cursor fetches: dictionaries, or tuples under the names of the columns.\<close>

datatype fetched = Dicts "pydict list" | Tuples "string list" "pyval list list"

fun fetched_rows :: "fetched \<Rightarrow> be_error + pydict list" where
  "fetched_rows (Dicts rows) = Inr rows"
| "fetched_rows (Tuples columns rows) = mapE (\<lambda>row. bindE (checkE (length row = length columns)
     (ValueFault ''zip() argument 2 is not as long as argument 1'')) (\<lambda>_. Inr (dict_merge [] (zip columns row)))) rows"

record recall_params =
  rp_org_id :: uuid
  rp_agent_id :: uuid
  rp_service_id :: uuid
  rp_current_incident_id :: uuid
  rp_as_of :: datetime
  rp_embedding :: string
  rp_candidate_limit :: int

definition recall_params_of :: "pylib \<Rightarrow> recall_policy \<Rightarrow> recall_query \<Rightarrow> recall_params" where
  "recall_params_of lib pol q = \<lparr>rp_org_id = qry_org_id q, rp_agent_id = qry_agent_id q, rp_service_id = qry_service_id q,
     rp_current_incident_id = (case qry_current_incident_id q of Some i \<Rightarrow> i | None \<Rightarrow> nil_uuid),
     rp_as_of = qry_as_of q, rp_embedding = embedding_literal lib (qry_embedding q),
     rp_candidate_limit = candidate_limit pol (qry_k q)\<rparr>"

text \<open>What the three queries of attempt \<open>i\<close> fetch.\<close>

type_synonym queries = "recall_params \<Rightarrow> nat \<Rightarrow> fetched \<times> fetched \<times> fetched"

definition fetch_all :: "fetched \<times> fetched \<times> fetched \<Rightarrow> be_error + pydict list \<times> pydict list \<times> pydict list" where
  "fetch_all f = (case f of (a, b, c) \<Rightarrow>
     bindE (fetched_rows a) (\<lambda>episodes. bindE (fetched_rows b) (\<lambda>facts. bindE (fetched_rows c) (\<lambda>runbooks.
     Inr (episodes, facts, runbooks)))))"

text \<open>\<open>replace(result, diagnostics={**result.diagnostics, "provider": name})\<close>\<close>

definition provided_by :: "string \<Rightarrow> recall_bundle \<Rightarrow> recall_bundle" where
  "provided_by name b = b\<lparr>bun_diagnostics := AList.update ''provider'' (PStr name) (bun_diagnostics b)\<rparr>"

definition sql_recall :: "pylib \<Rightarrow> recall_policy \<Rightarrow> (nat \<Rightarrow> string option) \<Rightarrow> queries \<Rightarrow> recall_query \<Rightarrow> be_error + recall_bundle" where
  "sql_recall lib pol refusal answers q =
     (if qry_cold_start q then rank lib pol q [] [] []
      else bindE (checkE (length (qry_embedding q) = 1024) (RecallError ''Recall embedding must have exactly 1024 dimensions.'')) (\<lambda>_.
        case read_attempts refusal (\<lambda>i. fetch_all (answers (recall_params_of lib pol q) i)) 0 4 of
          Inr (Inr (episodes, facts, runbooks)) \<Rightarrow>
            bindE (mapE (episode_of_row lib) episodes) (\<lambda>es.
            bindE (mapE (fact_of_row lib) facts) (\<lambda>fs.
            bindE (mapE (runbook_of_row lib) runbooks) (\<lambda>rs.
            bindE (rank lib pol q es fs rs) (\<lambda>b. Inr (provided_by ''c-spann+sql'' b)))))
        | _ \<Rightarrow> Inl (RecallError ''Direct CockroachDB memory recall failed.'')))"

end
