(* ===== verification/Be_Mcp.thy ===== *)
theory Be_Mcp
  imports Be_Rows
begin

text \<open>
  Recall over the managed MCP endpoint (\<^verbatim>\<open>backend/src/postmortem_backend/adapters/mcp.py\<close>): the
  JSON-RPC session over HTTP, the unwrapping of a tool's answer, the text of the three statements, the
  conversion of rows, and \<open>recall\<close>. The server answers a request knowing all requests so far, in any
  way; identifiers of requests are an argument.
\<close>

section \<open>The session\<close>

record http_request =
  hr_url :: string
  hr_body :: string
  hr_headers :: "(string \<times> string) list"

text \<open>The session header of the response, and its body unless reading it fails.\<close>

record http_reply =
  hp_session :: "string option"
  hp_body :: "string option"

record mcp_peer =
  pe_endpoint :: string
  pe_token :: string
  pe_uuid4 :: "nat \<Rightarrow> uuid"
  pe_serve :: "http_request list \<Rightarrow> http_reply option"

text \<open>The session the server named last, and the requests made so far.\<close>

record mcp_session =
  ms_session_id :: "string option"
  ms_sent :: "http_request list"

definition event_data :: "string \<Rightarrow> string" where
  "event_data body = (if starts_with ''data:'' (dropWhile is_space body)
     then str_join [CHR 0x0A] (map (\<lambda>line. str_strip (drop 5 line)) (filter (starts_with ''data:'') (split_lines False [] body)))
     else body)"

text \<open>\<open>"error" in payload\<close>, \<open>payload["error"]\<close> and \<open>payload.get("result")\<close> on what \<open>json.loads\<close> gives.\<close>

fun rpc_payload :: "pylib \<Rightarrow> pyval \<Rightarrow> be_error + pyval" where
  "rpc_payload lib (PDict d) = (case map_of d ''error'' of
     Some e \<Rightarrow> Inl (RecallError (''Managed MCP error: '' @ py_str (lib_repr lib) e))
   | None \<Rightarrow> Inr (pget d ''result''))"
| "rpc_payload lib (PList xs) = (if PStr ''error'' \<in> set xs then Inl (TypeFault ''list indices must be integers or slices, not str'')
     else Inl (AttributeFault ''object has no attribute get''))"
| "rpc_payload lib (PStr s) = (if contains_text ''error'' s then Inl (TypeFault ''string indices must be integers, not str'')
     else Inl (AttributeFault ''object has no attribute get''))"
| "rpc_payload lib _ = Inl (TypeFault ''argument is not iterable'')"

definition rpc_request :: "pylib \<Rightarrow> mcp_peer \<Rightarrow> mcp_session \<Rightarrow> string \<Rightarrow> pydict option \<Rightarrow> bool \<Rightarrow> http_request" where
  "rpc_request lib peer s method params notification = \<lparr>hr_url = pe_endpoint peer,
     hr_body = lib_dumps lib (PDict ([(''jsonrpc'', PStr ''2.0''), (''method'', PStr method)] @
       (case params of None \<Rightarrow> [] | Some p \<Rightarrow> [(''params'', PDict p)]) @
       (if notification then [] else [(''id'', PStr (uuid_str (pe_uuid4 peer (length (ms_sent s)))))]))),
     hr_headers = [(''Authorization'', ''Bearer '' @ pe_token peer), (''Content-Type'', ''application/json''),
       (''Accept'', ''application/json, text/event-stream'')] @
       (case ms_session_id s of None \<Rightarrow> [] | Some i \<Rightarrow> if i = [] then [] else [(''Mcp-Session-Id'', i)])\<rparr>"

definition request_failed :: be_error where
  "request_failed = RecallError ''CockroachDB Managed MCP request failed.''"

definition rpc :: "pylib \<Rightarrow> mcp_peer \<Rightarrow> string \<Rightarrow> pydict option \<Rightarrow> bool \<Rightarrow> (mcp_session, be_error, pyval) prog" where
  "rpc lib peer method params notification =
     andThen (reads (\<lambda>s. rpc_request lib peer s method params notification)) (\<lambda>request.
     andThen (modifies (\<lambda>s. s\<lparr>ms_sent := ms_sent s @ [request]\<rparr>)) (\<lambda>_.
     andThen (reads (\<lambda>s. pe_serve peer (ms_sent s))) (\<lambda>reply. case reply of
       None \<Rightarrow> raise request_failed
     | Some r \<Rightarrow>
         andThen (modifies (\<lambda>s. case hp_session r of None \<Rightarrow> s | Some i \<Rightarrow> s\<lparr>ms_session_id := Some i\<rparr>)) (\<lambda>_.
         andThen (the_or request_failed (hp_body r)) (\<lambda>body.
         if notification \<or> body = [] then ret PNone
         else andThen (lift_result (py_loads lib (event_data body))) (\<lambda>payload.
           lift_result (rpc_payload lib payload)))))))"

definition initialize :: "pylib \<Rightarrow> mcp_peer \<Rightarrow> (mcp_session, be_error, unit) prog" where
  "initialize lib peer =
     andThen (rpc lib peer ''initialize'' (Some [(''protocolVersion'', PStr ''2025-03-26''), (''capabilities'', PDict []),
       (''clientInfo'', PDict [(''name'', PStr ''postmortem-backend''), (''version'', PStr ''0.1.0'')])]) False) (\<lambda>_.
     andThen (rpc lib peer ''notifications/initialized'' None True) (\<lambda>_. ret ()))"

definition new_session :: mcp_session where
  "new_session = \<lparr>ms_session_id = None, ms_sent = []\<rparr>"

definition call_tool :: "pylib \<Rightarrow> mcp_peer \<Rightarrow> string \<Rightarrow> pydict \<Rightarrow> (mcp_session, be_error, pyval) prog" where
  "call_tool lib peer name arguments =
     rpc lib peer ''tools/call'' (Some [(''name'', PStr name), (''arguments'', PDict arguments)]) False"

section \<open>Statements\<close>

text \<open>The pieces of an f-string between its values; a quote is written \<open>^\<close> and a line break \<open>~\<close>.\<close>

definition sql_char :: "char \<Rightarrow> char" where
  "sql_char c = (if c = CHR ''^'' then CHR 0x27 else if c = CHR ''~'' then CHR 0x0A else c)"

definition sql_text :: "string \<Rightarrow> string" where
  "sql_text s = map sql_char s"

fun fstring :: "string list \<Rightarrow> string list \<Rightarrow> string" where
  "fstring (p # ps) (v # vs) = p @ v @ fstring ps vs"
| "fstring ps _ = concat ps"

definition episodic_pieces :: "string list" where
  "episodic_pieces = map sql_text [
      ''WITH nearest AS (~  SELECT event_id, org_id, agent_id, incident_id, service_id, occurred_at,~'' @
      ''         content, metadata, runbook_id, created_at,~         1 - (embedding <=> ^'',
      ''^::VECTOR(1024)) AS similarity~  FROM episodic_events~  WHERE org_id = ^'',
      ''^ AND agent_id = ^'',
      ''^~    AND embedding IS NOT NULL~    AND occurred_at <= ^'',
      ''^::TIMESTAMPTZ~    AND (incident_id IS NULL OR incident_id != ^'',
      ''^)~  ORDER BY embedding <=> ^'',
      ''^::VECTOR(1024)~  LIMIT '',
      ''~)~SELECT nearest.*, nearest.incident_id AS source_case_id,~'' @
      ''       action.action_id, action.action_type AS successful_action,~'' @
      ''       action.outcome, action.transaction_id~FROM nearest~LEFT JOIN LATERAL (~'' @
      ''  SELECT action_id, action_type, outcome, transaction_id~  FROM remediation_actions~'' @
      ''  WHERE org_id = ^'',
      ''^ AND memory_ref = nearest.event_id~  ORDER BY applied_at DESC LIMIT 1~) AS action ON true~'' @
      ''WHERE nearest.service_id = ^'',
      ''^ OR nearest.service_id IS NULL'']"

definition semantic_pieces :: "string list" where
  "semantic_pieces = map sql_text [
      ''WITH nearest AS (~  SELECT fact_id, org_id, agent_id, subject, predicate, object, confidence,~'' @
      ''         source, valid_from, valid_to, recorded_at,~         1 - (embedding <=> ^'',
      ''^::VECTOR(1024)) AS similarity~  FROM semantic_facts~  WHERE org_id = ^'',
      ''^ AND agent_id = ^'',
      ''^~    AND embedding IS NOT NULL~    AND valid_from <= ^'',
      ''^::TIMESTAMPTZ~    AND (valid_to IS NULL OR valid_to > ^'',
      ''^::TIMESTAMPTZ)~    AND recorded_at <= ^'',
      ''^::TIMESTAMPTZ~  ORDER BY embedding <=> ^'',
      ''^::VECTOR(1024)~  LIMIT '',
      ''~)~SELECT nearest.*,~       CASE WHEN nearest.subject LIKE ^service:%^ THEN ^'',
      ''^~            ELSE NULL END AS scoped_service_id,~       COALESCE((~'' @
      ''         SELECT array_agg(episodic_event_id)~         FROM semantic_fact_provenance~'' @
      ''         WHERE org_id = nearest.org_id AND fact_id = nearest.fact_id~'' @
      ''           AND episodic_event_id IS NOT NULL~'' @
      ''           AND role IN (^source^, ^reinforcement^)~'' @
      ''       ), ARRAY[]::UUID[]) AS provenance_ids~FROM nearest~WHERE nearest.subject LIKE ^org:%^~'' @
      ''   OR nearest.subject IN (~     SELECT ^service:^ || name FROM services~     WHERE org_id = ^'',
      ''^ AND service_id = ^'',
      ''^~     UNION ALL~     SELECT ^service:^ || service_id::STRING FROM services~'' @
      ''     WHERE org_id = ^'',
      ''^ AND service_id = ^'',
      ''^~   )'']"

definition procedural_pieces :: "string list" where
  "procedural_pieces = map sql_text [
      ''WITH nearest AS (~  SELECT runbook_id, org_id, agent_id, name, version, trigger_desc,~'' @
      ''         preconditions, steps, postconditions, success_rate, usage_count,~'' @
      ''         success_count, failure_count, last_used_at, created_at, created_by,~'' @
      ''         applicable_service_tags, applicable_error_signatures,~         1 - (embedding <=> ^'',
      ''^::VECTOR(1024)) AS similarity~  FROM procedural_memory~  WHERE org_id = ^'',
      ''^ AND status = ^active^~    AND agent_id = ^'',
      ''^ AND embedding IS NOT NULL~    AND created_at <= ^'',
      ''^::TIMESTAMPTZ~  ORDER BY embedding <=> ^'',
      ''^::VECTOR(1024)~  LIMIT '',
      ''~)~SELECT nearest.*,~       COALESCE((SELECT count(*) FROM runbook_provenance~'' @
      ''                 WHERE runbook_id = nearest.runbook_id~'' @
      ''                   AND role IN (^source^, ^reinforcement^)), 0)~'' @
      ''         AS positive_provenance_count,~'' @
      ''       COALESCE((SELECT count(*) FROM runbook_provenance~'' @
      ''                 WHERE runbook_id = nearest.runbook_id~'' @
      ''                   AND role = ^counterexample^), 0)~         AS counterexample_count,~'' @
      ''       COALESCE((SELECT array_agg(episodic_event_id) FROM runbook_provenance~'' @
      ''                 WHERE runbook_id = nearest.runbook_id~'' @
      ''                   AND role IN (^source^, ^reinforcement^)~'' @
      ''                   AND episodic_event_id IS NOT NULL), ARRAY[]::UUID[])~'' @
      ''         AS provenance_ids~FROM nearest'']"

text \<open>\<open>_vector_literal\<close>\<close>

definition mcp_vector :: "pylib \<Rightarrow> real list \<Rightarrow> be_error + string" where
  "mcp_vector lib v = bindE (checkE (length v = 1024) (RecallError ''Recall embedding must have exactly 1024 dimensions.''))
     (\<lambda>_. Inr (embedding_literal lib v))"

definition episodic_sql :: "pylib \<Rightarrow> recall_query \<Rightarrow> string \<Rightarrow> recall_policy \<Rightarrow> string" where
  "episodic_sql lib q vector pol = (let
     org = uuid_str (qry_org_id q);
     current_incident = uuid_str (case qry_current_incident_id q of Some i \<Rightarrow> i | None \<Rightarrow> nil_uuid);
     limit = int_str (candidate_limit pol (qry_k q)) in
     fstring episodic_pieces [vector, org, uuid_str (qry_agent_id q), lib_isoformat lib (qry_as_of q), current_incident,
       vector, limit, org, uuid_str (qry_service_id q)])"

definition semantic_sql :: "pylib \<Rightarrow> recall_query \<Rightarrow> string \<Rightarrow> recall_policy \<Rightarrow> string" where
  "semantic_sql lib q vector pol = (let
     org = uuid_str (qry_org_id q); service = uuid_str (qry_service_id q); as_of = lib_isoformat lib (qry_as_of q);
     limit = int_str (candidate_limit pol (qry_k q)) in
     fstring semantic_pieces [vector, org, uuid_str (qry_agent_id q), as_of, as_of, as_of, vector, limit,
       service, org, service, org, service])"

definition procedural_sql :: "pylib \<Rightarrow> recall_query \<Rightarrow> string \<Rightarrow> recall_policy \<Rightarrow> string" where
  "procedural_sql lib q vector pol = (let limit = int_str (candidate_limit pol (qry_k q)) in
     fstring procedural_pieces [vector, uuid_str (qry_org_id q), uuid_str (qry_agent_id q), lib_isoformat lib (qry_as_of q),
       vector, limit])"

section \<open>Answers of the tool\<close>

text \<open>The texts of the content blocks, joined; a text that is no string raises.\<close>

definition block_texts :: "pyval list \<Rightarrow> be_error + string list" where
  "block_texts blocks = mapE (\<lambda>b. case b of
     PDict d \<Rightarrow> needE (TypeFault ''sequence item: expected str instance'') (py_as_str (dict_get d ''text'' (PStr [])))
   | _ \<Rightarrow> Inr []) blocks"

definition unwrap :: "pylib \<Rightarrow> pyval \<Rightarrow> be_error + pyval" where
  "unwrap lib result = (case result of
     PDict d \<Rightarrow> (case map_of d ''content'' of
       None \<Rightarrow> Inr result
     | Some found \<Rightarrow>
         bindE (py_iter (orelse found (PList []))) (\<lambda>blocks.
         bindE (block_texts blocks) (\<lambda>texts. let text = str_strip (concat texts) in
         if text = [] then Inr (PList [])
         else case lib_loads lib text of
             Inr v \<Rightarrow> Inr v
           | Inl Bad_json \<Rightarrow> Inl (RecallError ''Managed MCP returned non-JSON tool content.'')
           | Inl f \<Rightarrow> Inl (json_error f))))
   | _ \<Rightarrow> Inr result)"

definition answer_rows :: "pyval \<Rightarrow> be_error + pydict list" where
  "answer_rows payload = (let
     rows = (case payload of
       PDict d \<Rightarrow> orelse (orelse (orelse (pget d ''rows'') (pget d ''data'')) (pget d ''result'')) (PList [])
     | _ \<Rightarrow> payload) in
     case rows of
       PList xs \<Rightarrow> Inr (List.map_filter (\<lambda>x. case x of PDict d \<Rightarrow> Some d | _ \<Rightarrow> None) xs)
     | _ \<Rightarrow> Inl (RecallError ''Managed MCP select_query returned an unexpected row envelope.''))"

definition select_rows :: "pylib \<Rightarrow> mcp_peer \<Rightarrow> string \<Rightarrow> (mcp_session, be_error, pydict list) prog" where
  "select_rows lib peer sql =
     andThen (call_tool lib peer ''select_query'' [(''query'', PStr sql)]) (\<lambda>result.
     lift_result (bindE (unwrap lib result) answer_rows))"

section \<open>Rows\<close>

definition mcp_uuid :: "pylib \<Rightarrow> pyval \<Rightarrow> be_error + uuid" where
  "mcp_uuid lib v = needE (ValueFault ''badly formed hexadecimal UUID string'') (uuid_of_str (py_str (lib_repr lib) v))"

definition mcp_optional_uuid :: "pylib \<Rightarrow> pyval \<Rightarrow> be_error + uuid option" where
  "mcp_optional_uuid lib v = if_truthy (mcp_uuid lib) v"

text \<open>\<open>json.loads(v) if isinstance(v, str) else v\<close>\<close>

definition loaded :: "pylib \<Rightarrow> pyval \<Rightarrow> be_error + pyval" where
  "loaded lib v = (case v of PStr s \<Rightarrow> py_loads lib s | _ \<Rightarrow> Inr v)"

definition mcp_uuid_tuple :: "pylib \<Rightarrow> pyval \<Rightarrow> be_error + uuid list" where
  "mcp_uuid_tuple lib v = (if \<not> py_truthy v then Inr []
     else bindE (loaded lib v) (\<lambda>w. bindE (py_iter w) (\<lambda>xs. mapE (mcp_uuid lib) (filter py_truthy xs))))"

definition mcp_json_object :: "pylib \<Rightarrow> pyval \<Rightarrow> be_error + pydict" where
  "mcp_json_object lib v = (case v of
     PDict d \<Rightarrow> Inr d
   | PStr s \<Rightarrow> bindE (loaded lib v) (\<lambda>w. Inr (case w of PDict d \<Rightarrow> d | _ \<Rightarrow> [(''value'', w)]))
   | _ \<Rightarrow> Inr [])"

definition mcp_episode :: "pylib \<Rightarrow> pydict \<Rightarrow> be_error + memory_candidate" where
  "mcp_episode lib row =
     bindE (mcp_json_object lib (pget row ''metadata'')) (\<lambda>stored.
     bindE (bindE (row_item row ''event_id'') (mcp_uuid lib)) (\<lambda>memory_id.
     bindE (float_of lib (pget row ''similarity'')) (\<lambda>similarity.
     bindE (to_datetime lib (pget row ''occurred_at'')) (\<lambda>occurred_at.
     bindE (mcp_optional_uuid lib (pget row ''service_id'')) (\<lambda>service_id.
     bindE (mcp_optional_uuid lib (pget row ''runbook_id'')) (\<lambda>runbook_id.
     bindE (mcp_optional_uuid lib (pget row ''org_id'')) (\<lambda>org_id.
     bindE (mcp_optional_uuid lib (pget row ''agent_id'')) (\<lambda>agent_id.
     bindE (to_datetime lib (pget row ''created_at'')) (\<lambda>recorded_at.
     bindE (mcp_optional_uuid lib (pget row ''action_id'')) (\<lambda>action_id.
     bindE (mcp_optional_uuid lib (pget row ''transaction_id'')) (\<lambda>transaction_id.
     Inr ((blank_memory memory_id Episodic (text_of lib (pget row ''content'')) similarity)
       \<lparr>mem_occurred_at := occurred_at, mem_service_id := service_id, mem_runbook_id := runbook_id,
        mem_metadata := episode_metadata lib row stored, mem_org_id := org_id, mem_agent_id := agent_id,
        mem_recorded_at := recorded_at,
        mem_provenance_ids := List.map_filter id [action_id, transaction_id]\<rparr>))))))))))))"

definition mcp_fact :: "pylib \<Rightarrow> pydict \<Rightarrow> be_error + memory_candidate" where
  "mcp_fact lib row =
     bindE (bindE (row_item row ''fact_id'') (mcp_uuid lib)) (\<lambda>memory_id.
     bindE (float_of lib (pget row ''similarity'')) (\<lambda>similarity.
     bindE (float_of lib (pget row ''confidence'')) (\<lambda>confidence.
     bindE (mcp_optional_uuid lib (pget row ''org_id'')) (\<lambda>org_id.
     bindE (mcp_optional_uuid lib (pget row ''agent_id'')) (\<lambda>agent_id.
     bindE (mcp_optional_uuid lib (pget row ''scoped_service_id'')) (\<lambda>service_id.
     bindE (to_datetime lib (pget row ''valid_from'')) (\<lambda>valid_from.
     bindE (to_datetime lib (pget row ''valid_to'')) (\<lambda>valid_to.
     bindE (to_datetime lib (pget row ''recorded_at'')) (\<lambda>recorded_at.
     bindE (mcp_uuid_tuple lib (pget row ''provenance_ids'')) (\<lambda>provenance_ids.
     Inr ((blank_memory memory_id Semantic
         (str_of lib row ''subject'' @ '' '' @ str_of lib row ''predicate'' @ '': '' @ str_of lib row ''object'') similarity)
       \<lparr>mem_success_rate := confidence,
        mem_metadata := [(''subject'', pget row ''subject''), (''predicate'', pget row ''predicate''),
          (''object'', pget row ''object''), (''source'', pget row ''source''),
          (''valid_from'', column_str lib (pget row ''valid_from'')),
          (''learned_at'', column_str lib (pget row ''recorded_at''))],
        mem_org_id := org_id, mem_agent_id := agent_id, mem_service_id := service_id, mem_confidence := confidence,
        mem_valid_from := valid_from, mem_valid_to := valid_to, mem_recorded_at := recorded_at,
        mem_provenance_ids := provenance_ids\<rparr>)))))))))))"

definition mcp_runbook :: "pylib \<Rightarrow> pydict \<Rightarrow> be_error + memory_candidate" where
  "mcp_runbook lib row =
     bindE (loaded lib (orelse (pget row ''steps'') (PList []))) (\<lambda>steps.
     bindE (bindE (row_item row ''runbook_id'') (mcp_uuid lib)) (\<lambda>memory_id.
     bindE (float_of lib (pget row ''similarity'')) (\<lambda>similarity.
     bindE (float_of lib (pget row ''success_rate'')) (\<lambda>success_rate.
     bindE (py_iter steps) (\<lambda>step_list.
     bindE (count_of lib (pget row ''usage_count'')) (\<lambda>usage_count.
     bindE (count_of lib (pget row ''success_count'')) (\<lambda>success_count.
     bindE (count_of lib (pget row ''failure_count'')) (\<lambda>failure_count.
     bindE (count_of lib (pget row ''positive_provenance_count'')) (\<lambda>positive.
     bindE (count_of lib (pget row ''counterexample_count'')) (\<lambda>counterexamples.
     bindE (mcp_optional_uuid lib (pget row ''org_id'')) (\<lambda>org_id.
     bindE (mcp_optional_uuid lib (pget row ''agent_id'')) (\<lambda>agent_id.
     bindE (to_datetime lib (pget row ''created_at'')) (\<lambda>recorded_at.
     bindE (mcp_uuid_tuple lib (pget row ''provenance_ids'')) (\<lambda>provenance_ids.
     Inr ((blank_memory memory_id Procedural (text_of lib (orelse (pget row ''trigger_desc'') (pget row ''name''))) similarity)
       \<lparr>mem_success_rate := success_rate, mem_runbook_id := Some memory_id, mem_steps := step_list,
        mem_metadata :=
          [(''name'', pget row ''name''), (''version'', pget row ''version''), (''preconditions'', pget row ''preconditions''),
           (''applicable_service_tags'', pget row ''applicable_service_tags''),
           (''applicable_error_signatures'', pget row ''applicable_error_signatures''),
           (''usage_count'', usage_count), (''success_count'', success_count), (''failure_count'', failure_count),
           (''positive_provenance_count'', positive), (''counterexample_count'', counterexamples),
           (''last_used_at'', column_str lib (pget row ''last_used_at'')),
           (''learned_at'', column_str lib (pget row ''created_at''))],
        mem_org_id := org_id, mem_agent_id := agent_id, mem_recorded_at := recorded_at,
        mem_provenance_ids := provenance_ids\<rparr>)))))))))))))))"

section \<open>Recall\<close>

definition mcp_recall :: "pylib \<Rightarrow> mcp_peer \<Rightarrow> recall_policy \<Rightarrow> recall_query \<Rightarrow> (mcp_session, be_error, recall_bundle) prog" where
  "mcp_recall lib peer pol q =
     (if qry_cold_start q then lift_result (rank lib pol q [] [] [])
      else andThen (lift_result (mcp_vector lib (qry_embedding q))) (\<lambda>vector.
        andThen (select_rows lib peer (episodic_sql lib q vector pol)) (\<lambda>episodes.
        andThen (select_rows lib peer (semantic_sql lib q vector pol)) (\<lambda>facts.
        andThen (select_rows lib peer (procedural_sql lib q vector pol)) (\<lambda>runbooks.
        lift_result (
          bindE (mapE (mcp_episode lib) episodes) (\<lambda>es.
          bindE (mapE (mcp_fact lib) facts) (\<lambda>fs.
          bindE (mapE (mcp_runbook lib) runbooks) (\<lambda>rs.
          bindE (rank lib pol q es fs rs) (\<lambda>b. Inr (provided_by ''c-spann+mcp'' b)))))))))))"

end
