(* ===== verification/Be_Mcp_Claims.thy ===== *)
theory Be_Mcp_Claims
  imports Be_Mcp
begin

text \<open>
  The properties of recall from the database, directly and over the MCP endpoint: what a recalled memory
  rests on, that values cannot change a statement, and what the session sends.
\<close>

section \<open>Providers of memory\<close>

text \<open>\<open>c\<close> is one of the memories \<open>ms\<close>, ranked, of the query's scope and in force.\<close>

definition rests_on :: "recall_query \<Rightarrow> memory_candidate list \<Rightarrow> memory_candidate \<Rightarrow> bool" where
  "rests_on q ms c \<longleftrightarrow> (\<exists>m \<in> set ms. same_memory m c \<and> scope_valid q m \<and> temporally_valid q m)"

text \<open>A provider ranks the memory of the three kinds it has \<open>given\<close> for the query.\<close>

locale memory_provider =
  fixes lib :: pylib and pol :: recall_policy
    and provide :: "'w \<Rightarrow> recall_query \<Rightarrow> be_error + recall_bundle"
    and given :: "'w \<Rightarrow> recall_query \<Rightarrow> memory_candidate list \<Rightarrow> memory_candidate list \<Rightarrow> memory_candidate list \<Rightarrow> bool"
  assumes ranks: "provide w q = Inr b \<Longrightarrow> \<exists>es fs rs b' name. rank lib pol q es fs rs = Inr b' \<and>
      (if qry_cold_start q then b = b' else b = provided_by name b' \<and> given w q es fs rs)"
begin

lemma admitted:
  assumes "provide w q = Inr b" "\<not> qry_cold_start q"
  shows "\<exists>es fs rs. given w q es fs rs \<and> list_all (rests_on q es) (bun_episodes b) \<and>
    list_all (rests_on q fs) (bun_facts b) \<and> list_all (rests_on q rs) (bun_runbooks b)"
proof -
  from ranks [OF assms(1)] assms(2) obtain es fs rs b' name where r: "rank lib pol q es fs rs = Inr b'"
    and b: "b = provided_by name b'" and given: "given w q es fs rs" by auto
  from r show ?thesis
  proof (cases rule: rank_cases)
    case cold
    with assms(2) show ?thesis by simp
  next
    case (warm ae af ar)
    have "list_all (rests_on q es) (bun_episodes b')"
      using episode_channel.chosen_sound [OF warm(2)] unfolding warm(5) list_all_iff rests_on_def
      by (fastforce simp: episode_eligible_def split: if_splits)
    moreover have "list_all (rests_on q fs) (bun_facts b')"
      using fact_channel.chosen_sound [OF warm(3)] unfolding warm(6) list_all_iff rests_on_def
      by (fastforce simp: fact_eligible_def)
    moreover have "list_all (rests_on q rs) (bun_runbooks b')"
      using runbook_channel.chosen_sound [OF warm(4)] unfolding warm(7) list_all_iff rests_on_def
      by (fastforce simp: runbook_eligible_def split: if_splits)
    ultimately show ?thesis using given by (auto simp: b provided_by_def)
  qed
qed

lemma cold: "provide w q = Inr b \<Longrightarrow> qry_cold_start q \<Longrightarrow> all_candidates b = []"
  by (drule ranks) (auto simp: rank_def cold_bundle_def all_candidates_def)

end

text \<open>What SQL gives: the rows of one attempt, converted.\<close>

definition sql_given :: "pylib \<Rightarrow> recall_policy \<Rightarrow> (nat \<Rightarrow> string option) \<times> queries \<Rightarrow> recall_query \<Rightarrow>
    memory_candidate list \<Rightarrow> memory_candidate list \<Rightarrow> memory_candidate list \<Rightarrow> bool" where
  "sql_given lib pol w q es fs rs \<longleftrightarrow> (\<exists>i<4. \<exists>episodes facts runbooks. fst w i = None \<and>
     fetch_all (snd w (recall_params_of lib pol q) i) = Inr (episodes, facts, runbooks) \<and>
     mapE (episode_of_row lib) episodes = Inr es \<and> mapE (fact_of_row lib) facts = Inr fs \<and>
     mapE (runbook_of_row lib) runbooks = Inr rs)"

text \<open>What MCP gives: the rows answered to the three statements, sent one after the other.\<close>

definition mcp_answers :: "pylib \<Rightarrow> recall_policy \<Rightarrow> mcp_peer \<Rightarrow> recall_query \<Rightarrow> mcp_session \<Rightarrow>
    pydict list \<times> pydict list \<times> pydict list \<Rightarrow> mcp_session \<Rightarrow> bool" where
  "mcp_answers lib pol peer q s rows s' \<longleftrightarrow> (case rows of (episodes, facts, runbooks) \<Rightarrow> \<exists>s1 s2.
     select_rows lib peer (episodic_sql lib q (embedding_literal lib (qry_embedding q)) pol) s = (Inr episodes, s1) \<and>
     select_rows lib peer (semantic_sql lib q (embedding_literal lib (qry_embedding q)) pol) s1 = (Inr facts, s2) \<and>
     select_rows lib peer (procedural_sql lib q (embedding_literal lib (qry_embedding q)) pol) s2 = (Inr runbooks, s'))"

definition mcp_given :: "pylib \<Rightarrow> recall_policy \<Rightarrow> mcp_peer \<times> mcp_session \<Rightarrow> recall_query \<Rightarrow>
    memory_candidate list \<Rightarrow> memory_candidate list \<Rightarrow> memory_candidate list \<Rightarrow> bool" where
  "mcp_given lib pol w q es fs rs \<longleftrightarrow> (\<exists>episodes facts runbooks.
     mcp_answers lib pol (fst w) q (snd w) (episodes, facts, runbooks) (snd (mcp_recall lib (fst w) pol q (snd w))) \<and>
     mapE (mcp_episode lib) episodes = Inr es \<and> mapE (mcp_fact lib) facts = Inr fs \<and>
     mapE (mcp_runbook lib) runbooks = Inr rs)"

lemma sql_recall_ranks:
  assumes "sql_recall lib pol refusal answers q = Inr b"
  shows "\<exists>es fs rs b' name. rank lib pol q es fs rs = Inr b' \<and>
    (if qry_cold_start q then b = b' else b = provided_by name b' \<and> sql_given lib pol (refusal, answers) q es fs rs)"
proof (cases "qry_cold_start q")
  case True
  with assms show ?thesis by (auto simp: sql_recall_def)
next
  case False
  let ?read = "\<lambda>i. fetch_all (answers (recall_params_of lib pol q) i)"
  from assms False obtain episodes facts runbooks es fs rs b' where
    read: "read_attempts refusal ?read 0 4 = Inr (Inr (episodes, facts, runbooks))"
    and conv: "mapE (episode_of_row lib) episodes = Inr es" "mapE (fact_of_row lib) facts = Inr fs"
      "mapE (runbook_of_row lib) runbooks = Inr rs"
    and b: "rank lib pol q es fs rs = Inr b'" "b = provided_by ''c-spann+sql'' b'"
    by (auto simp: sql_recall_def split: sum.splits)
  from read_attempts_cases [of 4 0 refusal ?read] read obtain i where "i < 4" "refusal i = None"
      "?read i = Inr (episodes, facts, runbooks)"
    by (auto split: option.splits)
  with conv have "sql_given lib pol (refusal, answers) q es fs rs" unfolding sql_given_def by auto
  with b False show ?thesis
    by (intro exI [of _ es] exI [of _ fs] exI [of _ rs] exI [of _ b'] exI [of _ "''c-spann+sql''"]) simp
qed

lemma mcp_recall_ranks:
  assumes "mcp_recall lib peer pol q s = (Inr b, s')"
  shows "\<exists>es fs rs b' name. rank lib pol q es fs rs = Inr b' \<and>
    (if qry_cold_start q then b = b' else b = provided_by name b' \<and> mcp_given lib pol (peer, s) q es fs rs)"
proof (cases "qry_cold_start q")
  case True
  with assms show ?thesis by (auto simp: mcp_recall_def run_lift_result)
next
  case False
  let ?v = "embedding_literal lib (qry_embedding q)"
  from assms False obtain episodes facts runbooks s1 s2 where
    rows: "select_rows lib peer (episodic_sql lib q ?v pol) s = (Inr episodes, s1)"
      "select_rows lib peer (semantic_sql lib q ?v pol) s1 = (Inr facts, s2)"
      "select_rows lib peer (procedural_sql lib q ?v pol) s2 = (Inr runbooks, s')"
    and last: "bindE (mapE (mcp_episode lib) episodes) (\<lambda>es. bindE (mapE (mcp_fact lib) facts) (\<lambda>fs.
      bindE (mapE (mcp_runbook lib) runbooks) (\<lambda>rs. bindE (rank lib pol q es fs rs)
      (\<lambda>b. Inr (provided_by ''c-spann+mcp'' b))))) = Inr b"
    by (auto simp: mcp_recall_def mcp_vector_def run_lift_result elim!: andThen_Inr)
  from last obtain es fs rs b' where
    conv: "mapE (mcp_episode lib) episodes = Inr es" "mapE (mcp_fact lib) facts = Inr fs" "mapE (mcp_runbook lib) runbooks = Inr rs"
    and b: "rank lib pol q es fs rs = Inr b'" "b = provided_by ''c-spann+mcp'' b'" by auto
  have "mcp_given lib pol (peer, s) q es fs rs"
    using conv rows assms unfolding mcp_given_def mcp_answers_def by auto
  with b False show ?thesis
    by (intro exI [of _ es] exI [of _ fs] exI [of _ rs] exI [of _ b'] exI [of _ "''c-spann+mcp''"]) simp
qed

interpretation sql: memory_provider lib pol "\<lambda>w. sql_recall lib pol (fst w) (snd w)" "sql_given lib pol" for lib pol
  by unfold_locales (metis sql_recall_ranks prod.collapse)

interpretation mcp: memory_provider lib pol "\<lambda>w q. fst (mcp_recall lib (fst w) pol q (snd w))" "mcp_given lib pol" for lib pol
  by unfold_locales (metis mcp_recall_ranks prod.collapse)

section \<open>What a recalled memory rests on\<close>

text \<open>A column that is set converts to the identifier.\<close>

definition names :: "(pyval \<Rightarrow> be_error + uuid) \<Rightarrow> pydict \<Rightarrow> string \<Rightarrow> uuid \<Rightarrow> bool" where
  "names conv row column u \<longleftrightarrow> \<not> py_truthy (pget row column) \<or> conv (pget row column) = Inr u"

definition row_in_scope :: "(pyval \<Rightarrow> be_error + uuid) \<Rightarrow> recall_query \<Rightarrow> pydict \<Rightarrow> bool" where
  "row_in_scope conv q row \<longleftrightarrow> names conv row ''org_id'' (qry_org_id q) \<and> names conv row ''agent_id'' (qry_agent_id q)"

text \<open>In force at the instant of the query: begun, not ended, recorded and observed by then.\<close>

definition in_force :: "recall_query \<Rightarrow> memory_candidate \<Rightarrow> bool" where
  "in_force q m \<longleftrightarrow> (let inst = (\<lambda>t. instant (aware t)); now = inst (qry_as_of q) in
     pred_option (\<lambda>t. inst t \<le> now) (mem_valid_from m) \<and> pred_option (\<lambda>t. now < inst t) (mem_valid_to m) \<and>
     pred_option (\<lambda>t. inst t \<le> now) (mem_recorded_at m) \<and> pred_option (\<lambda>t. inst t \<le> now) (mem_occurred_at m))"

lemma in_force_valid: "temporally_valid q m \<Longrightarrow> in_force q m"
  by (auto simp: temporally_valid_def in_force_def Let_def split: if_splits option.splits)

text \<open>\<open>c\<close> is one of the rows, converted and ranked.\<close>

definition from_row :: "(pyval \<Rightarrow> be_error + uuid) \<Rightarrow> (pydict \<Rightarrow> be_error + memory_candidate) \<Rightarrow> string option \<Rightarrow> recall_query \<Rightarrow>
    pydict list \<Rightarrow> memory_candidate \<Rightarrow> bool" where
  "from_row conv convert service q rows c \<longleftrightarrow> (\<exists>row \<in> set rows. \<exists>m. convert row = Inr m \<and> same_memory m c \<and>
     in_force q m \<and> row_in_scope conv q row \<and>
     (case service of None \<Rightarrow> True | Some column \<Rightarrow> names conv row column (qry_service_id q)))"

lemma names_optional: "if_truthy conv (pget row column) = Inr x \<Longrightarrow> x = None \<or> x = Some u \<Longrightarrow> names conv row column u"
  by (auto simp: if_truthy_def names_def split: if_splits)

lemma columns_scope:
  assumes "if_truthy conv (pget row ''org_id'') = Inr (mem_org_id m)" "if_truthy conv (pget row ''agent_id'') = Inr (mem_agent_id m)"
    "scope_valid q m"
  shows "row_in_scope conv q row"
  using assms by (auto simp: row_in_scope_def scope_valid_def intro!: names_optional split: if_splits)

lemma sql_columns:
  "episode_of_row lib row = Inr m \<Longrightarrow> if_truthy (db_uuid lib) (pget row ''org_id'') = Inr (mem_org_id m) \<and>
     if_truthy (db_uuid lib) (pget row ''agent_id'') = Inr (mem_agent_id m) \<and>
     if_truthy (db_uuid lib) (pget row ''service_id'') = Inr (mem_service_id m)"
  "fact_of_row lib row = Inr m \<Longrightarrow> if_truthy (db_uuid lib) (pget row ''org_id'') = Inr (mem_org_id m) \<and>
     if_truthy (db_uuid lib) (pget row ''agent_id'') = Inr (mem_agent_id m) \<and>
     if_truthy (db_uuid lib) (pget row ''scoped_service_id'') = Inr (mem_service_id m)"
  "runbook_of_row lib row = Inr m \<Longrightarrow> if_truthy (db_uuid lib) (pget row ''org_id'') = Inr (mem_org_id m) \<and>
     if_truthy (db_uuid lib) (pget row ''agent_id'') = Inr (mem_agent_id m)"
  by (auto simp: episode_of_row_def fact_of_row_def runbook_of_row_def db_optional_uuid_def Let_def)

lemma mcp_columns:
  "mcp_episode lib row = Inr m \<Longrightarrow> if_truthy (mcp_uuid lib) (pget row ''org_id'') = Inr (mem_org_id m) \<and>
     if_truthy (mcp_uuid lib) (pget row ''agent_id'') = Inr (mem_agent_id m) \<and>
     if_truthy (mcp_uuid lib) (pget row ''service_id'') = Inr (mem_service_id m)"
  "mcp_fact lib row = Inr m \<Longrightarrow> if_truthy (mcp_uuid lib) (pget row ''org_id'') = Inr (mem_org_id m) \<and>
     if_truthy (mcp_uuid lib) (pget row ''agent_id'') = Inr (mem_agent_id m) \<and>
     if_truthy (mcp_uuid lib) (pget row ''scoped_service_id'') = Inr (mem_service_id m)"
  "mcp_runbook lib row = Inr m \<Longrightarrow> if_truthy (mcp_uuid lib) (pget row ''org_id'') = Inr (mem_org_id m) \<and>
     if_truthy (mcp_uuid lib) (pget row ''agent_id'') = Inr (mem_agent_id m)"
  by (auto simp: mcp_episode_def mcp_fact_def mcp_runbook_def mcp_optional_uuid_def)

lemma from_rowI:
  assumes "mapE convert rows = Inr ms" "\<exists>m \<in> set ms. same_memory m c \<and> scope_valid q m \<and> temporally_valid q m"
    and "\<And>row m. convert row = Inr m \<Longrightarrow> if_truthy conv (pget row ''org_id'') = Inr (mem_org_id m) \<and>
      if_truthy conv (pget row ''agent_id'') = Inr (mem_agent_id m) \<and>
      (case service of None \<Rightarrow> True | Some column \<Rightarrow> if_truthy conv (pget row column) = Inr (mem_service_id m))"
  shows "from_row conv convert service q rows c"
proof -
  from assms(2) obtain m where m: "m \<in> set ms" "same_memory m c" "scope_valid q m" "temporally_valid q m" by blast
  from mapE_Inr_set [OF assms(1) m(1)] obtain row where row: "row \<in> set rows" "convert row = Inr m" by blast
  have "mem_service_id m = None \<or> mem_service_id m = Some (qry_service_id q)"
    using m(3) by (auto simp: scope_valid_def split: if_splits)
  with assms(3) [OF row(2)] have "case service of None \<Rightarrow> True | Some column \<Rightarrow> names conv row column (qry_service_id q)"
    by (auto intro: names_optional split: option.splits)
  moreover have "row_in_scope conv q row" using m(3) assms(3) [OF row(2)] by (blast intro: columns_scope)
  ultimately show ?thesis using row m in_force_valid unfolding from_row_def by blast
qed

lemma sql_from_rows:
  "mapE (episode_of_row lib) rows = Inr ms \<Longrightarrow> list_all (rests_on q ms) cs \<Longrightarrow>
     list_all (from_row (db_uuid lib) (episode_of_row lib) (Some ''service_id'') q rows) cs"
  "mapE (fact_of_row lib) rows = Inr ms \<Longrightarrow> list_all (rests_on q ms) cs \<Longrightarrow>
     list_all (from_row (db_uuid lib) (fact_of_row lib) (Some ''scoped_service_id'') q rows) cs"
  "mapE (runbook_of_row lib) rows = Inr ms \<Longrightarrow> list_all (rests_on q ms) cs \<Longrightarrow>
     list_all (from_row (db_uuid lib) (runbook_of_row lib) None q rows) cs"
  by (erule list.pred_mono_strong, rule from_rowI, assumption, simp add: rests_on_def, simp add: sql_columns)+

lemma mcp_from_rows:
  "mapE (mcp_episode lib) rows = Inr ms \<Longrightarrow> list_all (rests_on q ms) cs \<Longrightarrow>
     list_all (from_row (mcp_uuid lib) (mcp_episode lib) (Some ''service_id'') q rows) cs"
  "mapE (mcp_fact lib) rows = Inr ms \<Longrightarrow> list_all (rests_on q ms) cs \<Longrightarrow>
     list_all (from_row (mcp_uuid lib) (mcp_fact lib) (Some ''scoped_service_id'') q rows) cs"
  "mapE (mcp_runbook lib) rows = Inr ms \<Longrightarrow> list_all (rests_on q ms) cs \<Longrightarrow>
     list_all (from_row (mcp_uuid lib) (mcp_runbook lib) None q rows) cs"
  by (erule list.pred_mono_strong, rule from_rowI, assumption, simp add: rests_on_def, simp add: mcp_columns)+

text \<open>C14. Whatever the database or the MCP server answers, what recall returns rests on the answered rows: each
  recalled episode, fact and runbook is one of the rows of its own query, converted and ranked, the row is in force at
  the query's instant, and where it names an organisation, an agent or a service, it names the query's. Over SQL the
  three sets of rows are those of one and the same attempt, an attempt that was not refused, of at most four; over MCP
  they are the answers to the three statements this call sent, one after the other, from the session it was given to
  the one it leaves. A cold start returns nothing, and over MCP sends nothing.\<close>

theorem be_recall_from_rows:
  "(case sql_recall lib pol refusal answers q of
      Inr b \<Rightarrow> if qry_cold_start q then all_candidates b = []
        else \<exists>i<4. \<exists>episodes facts runbooks. refusal i = None \<and>
          fetch_all (answers (recall_params_of lib pol q) i) = Inr (episodes, facts, runbooks) \<and>
          list_all (from_row (db_uuid lib) (episode_of_row lib) (Some ''service_id'') q episodes) (bun_episodes b) \<and>
          list_all (from_row (db_uuid lib) (fact_of_row lib) (Some ''scoped_service_id'') q facts) (bun_facts b) \<and>
          list_all (from_row (db_uuid lib) (runbook_of_row lib) None q runbooks) (bun_runbooks b)
    | Inl _ \<Rightarrow> True) \<and>
   (case mcp_recall lib peer pol q s of
      (Inr b, s') \<Rightarrow> if qry_cold_start q then all_candidates b = [] \<and> s' = s
        else \<exists>episodes facts runbooks. mcp_answers lib pol peer q s (episodes, facts, runbooks) s' \<and>
          list_all (from_row (mcp_uuid lib) (mcp_episode lib) (Some ''service_id'') q episodes) (bun_episodes b) \<and>
          list_all (from_row (mcp_uuid lib) (mcp_fact lib) (Some ''scoped_service_id'') q facts) (bun_facts b) \<and>
          list_all (from_row (mcp_uuid lib) (mcp_runbook lib) None q runbooks) (bun_runbooks b)
    | (Inl _, _) \<Rightarrow> True)"
proof (intro conjI)
  show "case sql_recall lib pol refusal answers q of
      Inr b \<Rightarrow> if qry_cold_start q then all_candidates b = []
        else \<exists>i<4. \<exists>episodes facts runbooks. refusal i = None \<and>
          fetch_all (answers (recall_params_of lib pol q) i) = Inr (episodes, facts, runbooks) \<and>
          list_all (from_row (db_uuid lib) (episode_of_row lib) (Some ''service_id'') q episodes) (bun_episodes b) \<and>
          list_all (from_row (db_uuid lib) (fact_of_row lib) (Some ''scoped_service_id'') q facts) (bun_facts b) \<and>
          list_all (from_row (db_uuid lib) (runbook_of_row lib) None q runbooks) (bun_runbooks b)
    | Inl _ \<Rightarrow> True"
  proof (cases "sql_recall lib pol refusal answers q")
    case (Inr b)
    show ?thesis
    proof (cases "qry_cold_start q")
      case True
      with Inr sql.cold [of lib pol "(refusal, answers)" q b] show ?thesis by simp
    next
      case False
      from sql.admitted [of lib pol "(refusal, answers)" q b] Inr False obtain es fs rs where
        "sql_given lib pol (refusal, answers) q es fs rs" "list_all (rests_on q es) (bun_episodes b)"
        "list_all (rests_on q fs) (bun_facts b)" "list_all (rests_on q rs) (bun_runbooks b)" by auto
      then obtain i episodes facts runbooks where i: "i < 4" "refusal i = None"
          "fetch_all (answers (recall_params_of lib pol q) i) = Inr (episodes, facts, runbooks)"
        and rows: "list_all (from_row (db_uuid lib) (episode_of_row lib) (Some ''service_id'') q episodes) (bun_episodes b)"
          "list_all (from_row (db_uuid lib) (fact_of_row lib) (Some ''scoped_service_id'') q facts) (bun_facts b)"
          "list_all (from_row (db_uuid lib) (runbook_of_row lib) None q runbooks) (bun_runbooks b)"
        unfolding sql_given_def fst_conv snd_conv using sql_from_rows by meson
      with Inr False show ?thesis by auto
    qed
  qed simp
  show "case mcp_recall lib peer pol q s of
      (Inr b, s') \<Rightarrow> if qry_cold_start q then all_candidates b = [] \<and> s' = s
        else \<exists>episodes facts runbooks. mcp_answers lib pol peer q s (episodes, facts, runbooks) s' \<and>
          list_all (from_row (mcp_uuid lib) (mcp_episode lib) (Some ''service_id'') q episodes) (bun_episodes b) \<and>
          list_all (from_row (mcp_uuid lib) (mcp_fact lib) (Some ''scoped_service_id'') q facts) (bun_facts b) \<and>
          list_all (from_row (mcp_uuid lib) (mcp_runbook lib) None q runbooks) (bun_runbooks b)
    | (Inl _, _) \<Rightarrow> True"
  proof (cases "mcp_recall lib peer pol q s")
    case run: (Pair out s')
    show ?thesis
    proof (cases out)
      case (Inr b)
      show ?thesis
      proof (cases "qry_cold_start q")
        case True
        with run Inr mcp.cold [where lib = lib and pol = pol and w = "(peer, s)" and q = q and b = b] show ?thesis by (auto simp: mcp_recall_def run_lift_result)
      next
        case False
        from mcp.admitted [where lib = lib and pol = pol and w = "(peer, s)" and q = q and b = b] run Inr False obtain es fs rs where
          "mcp_given lib pol (peer, s) q es fs rs" "list_all (rests_on q es) (bun_episodes b)"
          "list_all (rests_on q fs) (bun_facts b)" "list_all (rests_on q rs) (bun_runbooks b)" by auto
        then obtain episodes facts runbooks where
            "mcp_answers lib pol peer q s (episodes, facts, runbooks) (snd (mcp_recall lib peer pol q s))"
            "list_all (from_row (mcp_uuid lib) (mcp_episode lib) (Some ''service_id'') q episodes) (bun_episodes b)"
            "list_all (from_row (mcp_uuid lib) (mcp_fact lib) (Some ''scoped_service_id'') q facts) (bun_facts b)"
            "list_all (from_row (mcp_uuid lib) (mcp_runbook lib) None q runbooks) (bun_runbooks b)"
          unfolding mcp_given_def fst_conv snd_conv using mcp_from_rows by meson
        with run Inr False show ?thesis by auto
      qed
    qed (use run in simp)
  qed
qed

section \<open>Statements and their values\<close>

text \<open>A statement cut at its quotes: the flag says that a part is inside them.\<close>

fun quoted_parts :: "bool \<Rightarrow> string \<Rightarrow> string \<Rightarrow> (bool \<times> string) list" where
  "quoted_parts inside acc [] = [(inside, rev acc)]"
| "quoted_parts inside acc (c # cs) = (if c = CHR 0x27 then (inside, rev acc) # quoted_parts (\<not> inside) [] cs
     else quoted_parts inside (c # acc) cs)"

definition sql_skeleton :: "string \<Rightarrow> string list" where
  "sql_skeleton sql = map snd (filter (\<lambda>p. \<not> fst p) (quoted_parts False [] sql))"

definition sql_literals :: "string \<Rightarrow> string list" where
  "sql_literals sql = map snd (filter fst (quoted_parts False [] sql))"

lemma quoted_value: "CHR 0x27 \<notin> set v \<Longrightarrow> quoted_parts inside acc (v @ cs) = quoted_parts inside (rev v @ acc) cs"
  by (induction v arbitrary: acc) auto

lemma hex_digits_no_quote: "CHR 0x27 \<notin> set (hex_digits k n)"
proof (induction k arbitrary: n)
  case (Suc k)
  have "hex_char d \<noteq> CHR 0x27" if "d < 16" for d
    using hex_char_val [OF that] by (auto simp: hex_val_def)
  from this [of "n mod 16"] Suc show ?case by (simp add: eq_commute)
qed simp

lemma uuid_no_quote: "CHR 0x27 \<notin> set (uuid_str u)"
  using hex_digits_no_quote
  by (auto simp: uuid_str_def Let_def dest!: in_set_takeD in_set_dropD)

lemma int_str_no_quote: "CHR 0x27 \<notin> set (int_str i)"
  by (auto simp: int_str_def is_digit_def dest!: nat_str_digits)

lemma join_no_quote: "CHR 0x27 \<notin> set sep \<Longrightarrow> (\<And>x. x \<in> set xs \<Longrightarrow> CHR 0x27 \<notin> set x) \<Longrightarrow> CHR 0x27 \<notin> set (str_join sep xs)"
  by (induction sep xs rule: str_join.induct) auto

lemma vector_no_quote: "(\<And>x. CHR 0x27 \<notin> set (lib_g9 lib x)) \<Longrightarrow> CHR 0x27 \<notin> set (embedding_literal lib v)"
  using join_no_quote [of "'',''" "map (lib_g9 lib) v"] by (auto simp: embedding_literal_def)

text \<open>The values of a query: the vector, identifiers and instants.\<close>

definition query_values :: "pylib \<Rightarrow> recall_query \<Rightarrow> string \<times> string \<times> string \<times> string \<times> string \<times> string" where
  "query_values lib q = (embedding_literal lib (qry_embedding q), uuid_str (qry_org_id q), uuid_str (qry_agent_id q),
     uuid_str (qry_service_id q), lib_isoformat lib (qry_as_of q),
     uuid_str (case qry_current_incident_id q of Some i \<Rightarrow> i | None \<Rightarrow> nil_uuid))"

text \<open>A statement is its template, where a control character stands for each value, with the values put in.\<close>

definition put_value :: "string \<times> string \<times> string \<times> string \<times> string \<times> string \<Rightarrow> string \<Rightarrow> char \<Rightarrow> string" where
  "put_value vs limit c = (case vs of (v, org, agent, service, as_of, current) \<Rightarrow>
     if c = CHR 0x08 then v else if c = CHR 0x02 then org else if c = CHR 0x03 then agent
     else if c = CHR 0x04 then service else if c = CHR 0x05 then as_of else if c = CHR 0x06 then current
     else if c = CHR 0x07 then limit else [c])"

definition put_values :: "string \<times> string \<times> string \<times> string \<times> string \<times> string \<Rightarrow> string \<Rightarrow> string \<Rightarrow> string" where
  "put_values vs limit s = concat (map (put_value vs limit) s)"

definition no_marker :: "string \<Rightarrow> bool" where
  "no_marker s \<longleftrightarrow> list_all (\<lambda>c. c \<notin> {CHR 0x08, CHR 0x02, CHR 0x03, CHR 0x04, CHR 0x05, CHR 0x06, CHR 0x07}) s"

lemma put_values_append [simp]: "put_values vs limit (s @ t) = put_values vs limit s @ put_values vs limit t"
  by (simp add: put_values_def)

lemma put_values_id: "no_marker s \<Longrightarrow> put_values vs limit s = s"
  by (induction s) (auto simp: put_values_def no_marker_def put_value_def split: prod.splits)

lemma put_values_fstring:
  "list_all no_marker ps \<Longrightarrow> put_values vs limit (fstring ps ms) = fstring ps (map (put_values vs limit) ms)"
  by (induction ps ms rule: fstring.induct) (auto simp: put_values_id put_values_def no_marker_def list_all_iff concat_map_singleton
      simp flip: put_values_def intro!: put_values_id [unfolded put_values_def])

definition quote_free :: "string \<times> string \<times> string \<times> string \<times> string \<times> string \<Rightarrow> bool" where
  "quote_free vs \<longleftrightarrow> (case vs of (v, org, agent, service, as_of, current) \<Rightarrow>
     list_all (\<lambda>x. CHR 0x27 \<notin> set x) [v, org, agent, service, as_of, current])"

lemma put_value_quote:
  assumes "quote_free vs" "CHR 0x27 \<notin> set limit"
  shows "put_value vs limit (CHR 0x27) = [CHR 0x27]" "c \<noteq> CHR 0x27 \<Longrightarrow> CHR 0x27 \<notin> set (put_value vs limit c)"
  using assms by (auto simp: put_value_def quote_free_def split: prod.splits if_splits)

lemma quoted_put_values:
  assumes "quote_free vs" "CHR 0x27 \<notin> set limit"
  shows "quoted_parts b (rev (put_values vs limit (rev acc))) (put_values vs limit s) =
    map (\<lambda>(i, p). (i, put_values vs limit p)) (quoted_parts b acc s)"
proof (induction s arbitrary: b acc)
  case (Cons c s)
  show ?case
  proof (cases "c = CHR 0x27")
    case True
    then have "put_values vs limit (c # s) = CHR 0x27 # put_values vs limit s"
      using put_value_quote [OF assms] by (simp add: put_values_def)
    with True Cons [of "\<not> b" "[]"] show ?thesis by (simp add: put_values_def)
  next
    case False
    have "put_values vs limit (c # s) = put_value vs limit c @ put_values vs limit s" by (simp add: put_values_def)
    moreover have "rev (put_values vs limit (rev (c # acc))) = rev (put_value vs limit c) @ rev (put_values vs limit (rev acc))"
      by (simp add: put_values_def)
    ultimately show ?thesis
      using False Cons [of b "c # acc"] put_value_quote(2) [OF assms False] by (simp add: quoted_value)
  qed
qed (simp add: put_values_def)

lemma parts_put_values:
  assumes "quote_free vs" "CHR 0x27 \<notin> set limit"
  shows "sql_literals (put_values vs limit s) = map (put_values vs limit) (sql_literals s)"
    "sql_skeleton (put_values vs limit s) = map (put_values vs limit) (sql_skeleton s)"
  using quoted_put_values [OF assms, of False "[]" s]
  by (simp_all add: sql_literals_def sql_skeleton_def put_values_def filter_map o_def case_prod_beta)

definition hole :: "nat \<Rightarrow> string" where
  "hole n = [char_of n]"

definition episodic_template :: string where
  "episodic_template = fstring episodic_pieces (map hole [8, 2, 3, 5, 6, 8, 7, 2, 4])"

definition semantic_template :: string where
  "semantic_template = fstring semantic_pieces (map hole [8, 2, 3, 5, 5, 5, 8, 7, 4, 2, 4, 2, 4])"

definition procedural_template :: string where
  "procedural_template = fstring procedural_pieces (map hole [8, 2, 3, 5, 8, 7])"

lemma pieces_no_marker: "list_all no_marker episodic_pieces" "list_all no_marker semantic_pieces" "list_all no_marker procedural_pieces"
  by code_simp+

text \<open>\<open>quoted_parts\<close> of an f-string, piece by piece: \<open>glue\<close> puts a value after the last part.\<close>

fun glue :: "(bool \<times> string) list \<Rightarrow> string \<Rightarrow> (bool \<times> string) list \<times> bool \<times> string" where
  "glue [(b, s)] v = ([], b, s @ v)"
| "glue (p # ps) v = (case glue ps v of (qs, r) \<Rightarrow> (p # qs, r))"
| "glue [] v = ([], False, v)"

fun weave :: "bool \<Rightarrow> string \<Rightarrow> string list \<Rightarrow> string list \<Rightarrow> (bool \<times> string) list" where
  "weave b s (p # ps) (v # vs) = (case glue (quoted_parts b (rev s) p) v of (qs, c, t) \<Rightarrow> qs @ weave c t ps vs)"
| "weave b s ps _ = quoted_parts b (rev s) (concat ps)"

lemma quoted_parts_nonempty: "quoted_parts b acc s \<noteq> []"
  by (induction s arbitrary: b acc) auto

lemma glue_parts:
  "CHR 0x27 \<notin> set v \<Longrightarrow> glue (quoted_parts b acc p) v = (qs, c, t) \<Longrightarrow>
   quoted_parts b acc (p @ v @ cs) = qs @ quoted_parts c (rev t) cs"
proof (induction p arbitrary: b acc qs)
  case (Cons x p)
  show ?case
  proof (cases "x = CHR 0x27")
    case True
    obtain y ys where "quoted_parts (\<not> b) [] p = y # ys" using quoted_parts_nonempty by (metis neq_Nil_conv)
    with True Cons.prems obtain qs' where "glue (quoted_parts (\<not> b) [] p) v = (qs', c, t)" "qs = (b, rev acc) # qs'"
      by (auto split: prod.splits)
    with True Cons.IH [OF Cons.prems(1), of "\<not> b" "[]" qs'] show ?thesis by simp
  qed (use Cons in simp)
qed (auto simp: quoted_value)

lemma quoted_weave: "list_all (\<lambda>v. CHR 0x27 \<notin> set v) vs \<Longrightarrow> quoted_parts b (rev s) (fstring ps vs) = weave b s ps vs"
proof (induction b s ps vs rule: weave.induct)
  case (1 b s p ps v vs)
  obtain qs c t where g: "glue (quoted_parts b (rev s) p) v = (qs, c, t)" by (metis prod.collapse)
  have "CHR 0x27 \<notin> set v" using "1.prems" by simp
  from glue_parts [OF this g, of "fstring ps vs"] show ?case
    using "1.IH" [OF g [symmetric] refl] "1.prems" g by simp
qed auto

lemma holes_no_quote: "n < 9 \<Longrightarrow> CHR 0x27 \<notin> set (hole n)"
proof -
  have "list_all (\<lambda>n. CHR 0x27 \<notin> set (hole n)) [0..<9]" by code_simp
  then show "n < 9 \<Longrightarrow> CHR 0x27 \<notin> set (hole n)" by (simp add: list_all_iff)
qed

text \<open>The literals of a template, and that outside its quotes there is no value but the limit.\<close>

definition only_limit :: "string \<Rightarrow> bool" where
  "only_limit s \<longleftrightarrow> list_all (\<lambda>c. c \<notin> {CHR 0x08, CHR 0x02, CHR 0x03, CHR 0x04, CHR 0x05, CHR 0x06}) s"

definition has_parts :: "(bool \<times> string) list \<Rightarrow> string list \<Rightarrow> bool" where
  "has_parts parts literals \<longleftrightarrow> map snd (filter fst parts) = literals \<and>
     list_all (\<lambda>p. fst p \<or> only_limit (snd p)) parts"

lemma woven:
  "has_parts (weave False [] episodic_pieces (map hole [8, 2, 3, 5, 6, 8, 7, 2, 4])) (map hole [8, 2, 3, 5, 6, 8, 2, 4])"
  "has_parts (weave False [] semantic_pieces (map hole [8, 2, 3, 5, 5, 5, 8, 7, 4, 2, 4, 2, 4]))
     (map hole [8, 2, 3, 5, 5, 5, 8] @ [''service:%'', hole 4, ''source'', ''reinforcement'',
      ''org:%'', ''service:'', hole 2, hole 4, ''service:'', hole 2, hole 4])"
  "has_parts (weave False [] procedural_pieces (map hole [8, 2, 3, 5, 8, 7]))
     [hole 8, hole 2, ''active'', hole 3, hole 5, hole 8, ''source'', ''reinforcement'', ''counterexample'', ''source'', ''reinforcement'']"
  by code_simp+

lemma has_parts_template:
  assumes "has_parts (weave False [] ps (map hole ns)) literals" "list_all (\<lambda>n. n < 9) ns"
  shows "sql_literals (fstring ps (map hole ns)) = literals" "list_all only_limit (sql_skeleton (fstring ps (map hole ns)))"
proof -
  have "list_all (\<lambda>v. CHR 0x27 \<notin> set v) (map hole ns)" using assms(2) by (auto simp: list_all_iff holes_no_quote)
  from quoted_weave [OF this, of False "[]" ps]
  have "quoted_parts False [] (fstring ps (map hole ns)) = weave False [] ps (map hole ns)" by simp
  with assms(1) show "sql_literals (fstring ps (map hole ns)) = literals" "list_all only_limit (sql_skeleton (fstring ps (map hole ns)))"
    by (auto simp: has_parts_def sql_literals_def sql_skeleton_def list_all_iff)
qed

lemma template_literals:
  "sql_literals episodic_template = map hole [8, 2, 3, 5, 6, 8, 2, 4]"
  "sql_literals semantic_template = map hole [8, 2, 3, 5, 5, 5, 8] @ [''service:%'', hole 4, ''source'', ''reinforcement'',
     ''org:%'', ''service:'', hole 2, hole 4, ''service:'', hole 2, hole 4]"
  "sql_literals procedural_template = [hole 8, hole 2, ''active'', hole 3, hole 5, hole 8, ''source'', ''reinforcement'',
     ''counterexample'', ''source'', ''reinforcement'']"
  unfolding episodic_template_def semantic_template_def procedural_template_def
  by (rule woven [THEN has_parts_template(1)]; simp)+

lemma template_skeletons:
  "list_all only_limit (sql_skeleton episodic_template)" "list_all only_limit (sql_skeleton semantic_template)"
  "list_all only_limit (sql_skeleton procedural_template)"
  unfolding episodic_template_def semantic_template_def procedural_template_def
  by (rule woven [THEN has_parts_template(2)]; simp)+

lemma put_values_only_limit: "only_limit s \<Longrightarrow> put_values vs limit s = put_values vs' limit s"
  by (induction s) (auto simp: put_values_def only_limit_def put_value_def split: prod.splits)

lemma skeleton_same:
  assumes "quote_free vs" "quote_free vs'" "CHR 0x27 \<notin> set limit" "list_all only_limit (sql_skeleton s)"
  shows "sql_skeleton (put_values vs limit s) = sql_skeleton (put_values vs' limit s)"
  using assms by (auto simp: parts_put_values list_all_iff intro: put_values_only_limit)

lemma hole_chars:
  "hole 8 = [CHR 0x08]" "hole 2 = [CHR 0x02]" "hole 3 = [CHR 0x03]" "hole 4 = [CHR 0x04]" "hole 5 = [CHR 0x05]"
  "hole 6 = [CHR 0x06]" "hole 7 = [CHR 0x07]"
  by code_simp+

lemma put_hole:
  "put_values (v, org, agent, service, as_of, current) limit (hole 8) = v"
  "put_values (v, org, agent, service, as_of, current) limit (hole 2) = org"
  "put_values (v, org, agent, service, as_of, current) limit (hole 3) = agent"
  "put_values (v, org, agent, service, as_of, current) limit (hole 4) = service"
  "put_values (v, org, agent, service, as_of, current) limit (hole 5) = as_of"
  "put_values (v, org, agent, service, as_of, current) limit (hole 6) = current"
  "put_values (v, org, agent, service, as_of, current) limit (hole 7) = limit"
  by (simp_all add: put_values_def hole_chars put_value_def)

lemma statement_templates:
  fixes lib q pol
  defines "vs \<equiv> query_values lib q" and "limit \<equiv> int_str (candidate_limit pol (qry_k q))"
  shows "episodic_sql lib q (fst vs) pol = put_values vs limit episodic_template"
    "semantic_sql lib q (fst vs) pol = put_values vs limit semantic_template"
    "procedural_sql lib q (fst vs) pol = put_values vs limit procedural_template"
  by (simp_all add: vs_def limit_def query_values_def episodic_sql_def semantic_sql_def procedural_sql_def Let_def
      episodic_template_def semantic_template_def procedural_template_def put_values_fstring [OF pieces_no_marker(1)]
      put_values_fstring [OF pieces_no_marker(2)] put_values_fstring [OF pieces_no_marker(3)] put_hole)

text \<open>C15. No value of a query can change what a statement sent over MCP says: when instants and floats print without a
  quote, each statement cut at its quotes has exactly the query's values (and the fixed texts) as its literals, and
  outside them it is the same for every query with the same limit of candidates.\<close>

theorem be_mcp_no_injection:
  assumes "\<And>t. CHR 0x27 \<notin> set (lib_isoformat lib t)" "\<And>x. CHR 0x27 \<notin> set (lib_g9 lib x)"
    and "query_values lib q = (v, org, agent, service, as_of, current)" "query_values lib q' = (v', r')"
    and "candidate_limit pol (qry_k q) = candidate_limit pol' (qry_k q')"
  shows "sql_literals (episodic_sql lib q v pol) = [v, org, agent, as_of, current, v, org, service] \<and>
    sql_literals (semantic_sql lib q v pol) = [v, org, agent, as_of, as_of, as_of, v, ''service:%'', service,
      ''source'', ''reinforcement'', ''org:%'', ''service:'', org, service, ''service:'', org, service] \<and>
    sql_literals (procedural_sql lib q v pol) = [v, org, ''active'', agent, as_of, v, ''source'', ''reinforcement'',
      ''counterexample'', ''source'', ''reinforcement''] \<and>
    sql_skeleton (episodic_sql lib q v pol) = sql_skeleton (episodic_sql lib q' v' pol') \<and>
    sql_skeleton (semantic_sql lib q v pol) = sql_skeleton (semantic_sql lib q' v' pol') \<and>
    sql_skeleton (procedural_sql lib q v pol) = sql_skeleton (procedural_sql lib q' v' pol')"
proof -
  let ?vs = "query_values lib q" and ?vs' = "query_values lib q'" and ?limit = "int_str (candidate_limit pol (qry_k q))"
  have free: "quote_free (query_values lib r)" for r
    using assms(1,2) by (simp add: query_values_def quote_free_def uuid_no_quote vector_no_quote)
  note limit = int_str_no_quote [of "candidate_limit pol (qry_k q)"]
  have stmt: "episodic_sql lib q v pol = put_values ?vs ?limit episodic_template"
      "semantic_sql lib q v pol = put_values ?vs ?limit semantic_template"
      "procedural_sql lib q v pol = put_values ?vs ?limit procedural_template"
      "episodic_sql lib q' v' pol' = put_values ?vs' ?limit episodic_template"
      "semantic_sql lib q' v' pol' = put_values ?vs' ?limit semantic_template"
      "procedural_sql lib q' v' pol' = put_values ?vs' ?limit procedural_template"
    using statement_templates [of lib q pol] statement_templates [of lib q' pol'] assms(3-5) by simp_all
  have fixed: "put_values ?vs ?limit t = t" if "t \<in> set [''service:%'', ''source'', ''reinforcement'', ''org:%'', ''service:'',
      ''active'', ''counterexample'']" for t
    using that by (intro put_values_id) (auto simp: no_marker_def)
  show ?thesis
    unfolding stmt using skeleton_same [OF free free limit] template_skeletons
    by (simp add: parts_put_values [OF free limit] template_literals fixed, simp add: assms(3) put_hole)
qed

definition probe_query :: "nat \<Rightarrow> recall_query" where
  "probe_query n = \<lparr>qry_org_id = UUID n, qry_agent_id = UUID (n + 1), qry_service_id = UUID (n + 2), qry_text = [],
     qry_embedding = [], qry_k = 1, qry_service_tags = [], qry_error_signature = None, qry_as_of = Zoned 0 0,
     qry_cold_start = False, qry_current_incident_id = None\<rparr>"

theorem be_mcp_no_injection_witness:
  "sql_skeleton (semantic_sql plain_lib (probe_query 1) ''[]'' default_policy) =
     sql_skeleton (semantic_sql plain_lib (probe_query 2) ''[]'' default_policy) \<and>
   sql_literals (procedural_sql plain_lib (probe_query 1) ''[]'' default_policy) = [''[]'', uuid_str (UUID 1), ''active'',
     uuid_str (UUID 2), ''1970-01-01T00:00:00+00:00'', ''[]'', ''source'', ''reinforcement'', ''counterexample'', ''source'',
     ''reinforcement'']"
proof -
  have q: "query_values plain_lib (probe_query n) = (''[]'', uuid_str (UUID n), uuid_str (UUID (n + 1)), uuid_str (UUID (n + 2)),
      ''1970-01-01T00:00:00+00:00'', uuid_str nil_uuid)" for n
    by (simp add: query_values_def probe_query_def embedding_literal_def plain_lib_def)
  show ?thesis
    using be_mcp_no_injection [of plain_lib, OF _ _ q [of 1] q [of 2], of default_policy default_policy]
    by (simp add: plain_lib_def probe_query_def numeral_2_eq_2)
qed

end
