(* ===== verification/Be_Mcp_Session.thy ===== *)
theory Be_Mcp_Session
  imports Be_Mcp
begin

text \<open>
  What the MCP client sends: its requests, the session they are made in, and what a recall asks for.
\<close>

section \<open>Requests and sessions\<close>

text \<open>The session that the replies to the requests so far named last.\<close>

fun last_named :: "mcp_peer \<Rightarrow> http_request list \<Rightarrow> http_request list \<Rightarrow> string option \<Rightarrow> string option" where
  "last_named peer sent [] named = named"
| "last_named peer sent (r # rs) named = last_named peer (sent @ [r]) rs
     (case Option.bind (pe_serve peer (sent @ [r])) hp_session of None \<Rightarrow> named | Some i \<Rightarrow> Some i)"

definition named_session :: "mcp_peer \<Rightarrow> http_request list \<Rightarrow> string option" where
  "named_session peer sent = last_named peer [] sent None"

lemma last_named_append:
  "last_named peer sent (rs @ [r]) named = (case Option.bind (pe_serve peer (sent @ rs @ [r])) hp_session of
     None \<Rightarrow> last_named peer sent rs named | Some i \<Rightarrow> Some i)"
  by (induction peer sent rs named rule: last_named.induct) (auto split: option.split)

lemma named_session_append:
  "named_session peer (rs @ [r]) = (case Option.bind (pe_serve peer (rs @ [r])) hp_session of
     None \<Rightarrow> named_session peer rs | Some i \<Rightarrow> Some i)"
  by (simp add: named_session_def last_named_append split: option.split)

definition session_header :: "string option \<Rightarrow> (string \<times> string) list" where
  "session_header named = (case named of None \<Rightarrow> [] | Some i \<Rightarrow> if i = [] then [] else [(''Mcp-Session-Id'', i)])"

text \<open>Every request goes to the endpoint with the token, in the session named last before it.\<close>

definition proper_request :: "mcp_peer \<Rightarrow> http_request list \<Rightarrow> http_request \<Rightarrow> bool" where
  "proper_request peer before r \<longleftrightarrow> hr_url r = pe_endpoint peer \<and>
     hr_headers r = [(''Authorization'', ''Bearer '' @ pe_token peer), (''Content-Type'', ''application/json''),
       (''Accept'', ''application/json, text/event-stream'')] @ session_header (named_session peer before)"

definition session_ok :: "mcp_peer \<Rightarrow> mcp_session \<Rightarrow> bool" where
  "session_ok peer s \<longleftrightarrow> ms_session_id s = named_session peer (ms_sent s) \<and>
     list_all (\<lambda>j. proper_request peer (take j (ms_sent s)) (ms_sent s ! j)) [0..<length (ms_sent s)]"

lemma session_ok_send:
  assumes "session_ok peer s" "proper_request peer (ms_sent s) r"
  shows "list_all (\<lambda>j. proper_request peer (take j (ms_sent s @ [r])) ((ms_sent s @ [r]) ! j)) [0..<length (ms_sent s @ [r])]"
  using assms by (auto simp: session_ok_def list_all_iff nth_append less_Suc_eq)

text \<open>A request is sent, and the session is the one its reply names, or the one before.\<close>

lemma rpc_state:
  "snd (rpc lib peer method params notification s) = (let r = rpc_request lib peer s method params notification in
     \<lparr>ms_session_id = (case Option.bind (pe_serve peer (ms_sent s @ [r])) hp_session of None \<Rightarrow> ms_session_id s | Some i \<Rightarrow> Some i),
      ms_sent = ms_sent s @ [r]\<rparr>)"
  by (auto simp: rpc_def prog_simps Let_def split: option.splits sum.splits)

lemma rpc_ok: "keeps (session_ok peer) (rpc lib peer method params notification)"
proof (rule keepsI)
  fix s assume ok: "session_ok peer s"
  let ?r = "rpc_request lib peer s method params notification"
  have "proper_request peer (ms_sent s) ?r"
    using ok by (simp add: proper_request_def rpc_request_def session_header_def session_ok_def)
  from session_ok_send [OF ok this] ok show "session_ok peer (snd (rpc lib peer method params notification s))"
    by (simp add: rpc_state Let_def session_ok_def named_session_append del: upt_Suc split: option.split)
qed

text \<open>What a read sends: calls of \<open>select_query\<close> with the first of the statements, in order.\<close>

definition select_body :: "pylib \<Rightarrow> mcp_peer \<Rightarrow> nat \<Rightarrow> string \<Rightarrow> string" where
  "select_body lib peer n sql = lib_dumps lib (PDict [(''jsonrpc'', PStr ''2.0''), (''method'', PStr ''tools/call''),
     (''params'', PDict [(''name'', PStr ''select_query''), (''arguments'', PDict [(''query'', PStr sql)])]),
     (''id'', PStr (uuid_str (pe_uuid4 peer n)))])"

definition sends :: "pylib \<Rightarrow> mcp_peer \<Rightarrow> mcp_session \<Rightarrow> string list \<Rightarrow> mcp_session \<Rightarrow> bool" where
  "sends lib peer s sqls s' \<longleftrightarrow> (\<exists>rs. ms_sent s' = ms_sent s @ rs \<and>
     map hr_body rs = map (\<lambda>(n, sql). select_body lib peer (length (ms_sent s) + n) sql) (enumerate 0 sqls))"

lemma select_rows_state: "snd (select_rows lib peer sql s) = snd (call_tool lib peer ''select_query'' [(''query'', PStr sql)] s)"
  by (simp add: select_rows_def prog_simps split: prod.splits sum.splits)

lemma select_rows_sends: "sends lib peer s [sql] (snd (select_rows lib peer sql s))"
  by (simp add: sends_def select_rows_state call_tool_def rpc_state Let_def rpc_request_def select_body_def)

lemma sends_trans: "sends lib peer s xs t \<Longrightarrow> sends lib peer t ys u \<Longrightarrow> sends lib peer s (xs @ ys) u"
proof -
  assume "sends lib peer s xs t" "sends lib peer t ys u"
  then obtain rs qs where r: "ms_sent t = ms_sent s @ rs" "ms_sent u = ms_sent t @ qs"
    "map hr_body rs = map (\<lambda>(n, sql). select_body lib peer (length (ms_sent s) + n) sql) (enumerate 0 xs)"
    "map hr_body qs = map (\<lambda>(n, sql). select_body lib peer (length (ms_sent t) + n) sql) (enumerate 0 ys)"
    by (auto simp: sends_def)
  from r(3) have len: "length rs = length xs" by (metis length_map length_enumerate)
  have "map (\<lambda>(n, sql). select_body lib peer (length (ms_sent s) + n) sql) (enumerate (length xs) ys) = map hr_body qs"
    unfolding r(4) by (rule nth_equalityI) (simp_all add: nth_enumerate_eq r(1) len add.assoc)
  with r show ?thesis by (auto simp: sends_def enumerate_append_eq)
qed

lemma sends_nil: "sends lib peer s [] s"
  by (simp add: sends_def)

text \<open>A recall that is not cold, statement by statement.\<close>

lemma mcp_recall_sends:
  fixes lib :: pylib
  assumes "\<not> qry_cold_start q" "length (qry_embedding q) = 1024"
  defines "v \<equiv> embedding_literal lib (qry_embedding q)"
  shows "\<exists>n \<le> 3. sends lib peer s (take n [episodic_sql lib q v pol, semantic_sql lib q v pol, procedural_sql lib q v pol])
      (snd (mcp_recall lib peer pol q s)) \<and> (n = 3 \<or> (\<exists>e. fst (mcp_recall lib peer pol q s) = Inl e))"
proof -
  let ?a = "episodic_sql lib q v pol" and ?b = "semantic_sql lib q v pol" and ?c = "procedural_sql lib q v pol"
  obtain x1 s1 where 1: "select_rows lib peer ?a s = (x1, s1)" by fastforce
  obtain x2 s2 where 2: "select_rows lib peer ?b s1 = (x2, s2)" by fastforce
  obtain x3 s3 where 3: "select_rows lib peer ?c s2 = (x3, s3)" by fastforce
  have a: "sends lib peer s [?a] s1" using select_rows_sends [of lib peer s ?a] 1 by simp
  have b: "sends lib peer s [?a, ?b] s2" using sends_trans [OF a, of "[?b]" s2] select_rows_sends [of lib peer s1 ?b] 2 by simp
  have c: "sends lib peer s [?a, ?b, ?c] s3" using sends_trans [OF b, of "[?c]" s3] select_rows_sends [of lib peer s2 ?c] 3 by simp
  have run: "mcp_recall lib peer pol q s = (case x1 of Inl e \<Rightarrow> (Inl e, s1) | Inr es \<Rightarrow>
      case x2 of Inl e \<Rightarrow> (Inl e, s2) | Inr fs \<Rightarrow> case x3 of Inl e \<Rightarrow> (Inl e, s3) | Inr rs \<Rightarrow>
      (fst (mcp_recall lib peer pol q s), s3))"
    using assms(1,2) by (simp add: mcp_recall_def mcp_vector_def prog_simps 1 2 3 v_def [symmetric] split: sum.split)
  show ?thesis
  proof (cases x1)
    case Inl
    with run a show ?thesis by (intro exI [of _ 1]) simp
  next
    case x1: (Inr es)
    show ?thesis
    proof (cases x2)
      case Inl
      with x1 run b show ?thesis by (intro exI [of _ 2]) (simp add: numeral_2_eq_2)
    next
      case Inr
      with x1 have "snd (mcp_recall lib peer pol q s) = s3" using run by (cases x3) (metis old.sum.simps(5,6) snd_conv)+
      with c show ?thesis by (intro exI [of _ 3]) (simp add: numeral_3_eq_3)
    qed
  qed
qed

lemma select_rows_ok [keeps_intros]: "keeps (session_ok peer) (select_rows lib peer sql)"
  using rpc_ok by (simp add: keeps_def select_rows_state call_tool_def)

text \<open>C16. Recall over MCP only reads: whatever the server does, it sends at most three requests, each a call of
  \<open>select_query\<close> with the episodic, semantic and procedural statement in that order, and all three when it
  returns memory; a cold start or a vector of the wrong dimension sends none. Opening the client and recalling keep
  that every request went to the endpoint with the token and, once a reply has named a session, in the one named
  last.\<close>

theorem be_mcp_only_reads:
  "(let v = embedding_literal lib (qry_embedding q); r = mcp_recall lib peer pol q s in
     \<exists>n. sends lib peer s (take n [episodic_sql lib q v pol, semantic_sql lib q v pol, procedural_sql lib q v pol]) (snd r) \<and>
       (if \<not> qry_cold_start q \<and> length (qry_embedding q) = 1024
        then n = 3 \<or> (n < 3 \<and> (\<exists>e. fst r = Inl e)) else n = 0)) \<and>
   session_ok peer new_session \<and> keeps (session_ok peer) (initialize lib peer) \<and>
   keeps (session_ok peer) (mcp_recall lib peer pol q)"
proof (intro conjI)
  show "let v = embedding_literal lib (qry_embedding q); r = mcp_recall lib peer pol q s in
     \<exists>n. sends lib peer s (take n [episodic_sql lib q v pol, semantic_sql lib q v pol, procedural_sql lib q v pol]) (snd r) \<and>
       (if \<not> qry_cold_start q \<and> length (qry_embedding q) = 1024
        then n = 3 \<or> (n < 3 \<and> (\<exists>e. fst r = Inl e)) else n = 0)"
  proof (cases "qry_cold_start q \<or> length (qry_embedding q) \<noteq> 1024")
    case True
    then have "snd (mcp_recall lib peer pol q s) = s"
      by (auto simp: mcp_recall_def mcp_vector_def checkE_def prog_simps)
    with True show ?thesis by (auto simp: Let_def sends_nil)
  next
    case False
    with mcp_recall_sends [of q lib peer s pol] show ?thesis by (auto simp: Let_def le_less)
  qed
  show "session_ok peer new_session" by (simp add: session_ok_def new_session_def named_session_def)
  show "keeps (session_ok peer) (initialize lib peer)"
    unfolding initialize_def by (intro keeps_intros rpc_ok)
  show "keeps (session_ok peer) (mcp_recall lib peer pol q)"
    unfolding mcp_recall_def by (intro keeps_intros)
qed

end
