(* ===== verification/Be_Config.thy ===== *)
theory Be_Config
  imports Be_Guardrails
begin

text \<open>
  Configuration (\<^verbatim>\<open>backend/src/postmortem_backend/config.py\<close>) and the composition of the AWS mode
  (\<open>build_runtime\<close> and \<open>verify_distinct_database_identities\<close> of \<^verbatim>\<open>runtime.py\<close>): settings read from the
  environment and validated, and which adapter gets which pool and identity of the database. What opening
  a client or a pool answers, and the user name of a URL, are the services of a record; all may fail.
\<close>

section \<open>Settings\<close>













section \<open>The AWS mode\<close>









text \<open>\<open>str(row[0]) if row else ""\<close>, from the row each connection answers to \<open>SELECT current_user\<close>.\<close>

definition verify_identities :: "string option \<Rightarrow> string option \<Rightarrow> be_error + unit" where
  "verify_identities reader_row writer_row = (let
     name = (\<lambda>row. case row of None \<Rightarrow> [] | Some u \<Rightarrow> u) in
     if name reader_row \<noteq> [] \<and> name reader_row = name writer_row
     then Inl (RoleScopeViolation (''Reader and writer pools both authenticate as '' @ [CHR 0x27] @ name reader_row @ [CHR 0x27] @
       '' (audit C3): role separation is cosmetic when both roles share one DB principal, even with distinct DSNs.''))
     else Inr ())"

section \<open>Properties\<close>



lemma py_int_value_fault: "py_int lib (PStr t) = Inl e \<Longrightarrow> \<exists>m. e = ValueFault m"
  by (auto simp: needE_def split: option.splits)










end
