(* ===== verification/Ev_Responders.thy ===== *)
theory Ev_Responders
  imports Sim_Models
begin

text \<open>
  The deterministic responders of the benchmark
  (\<^verbatim>\<open>evaluation/postmortem_eval/contracts.py\<close>, \<^verbatim>\<open>responders.py\<close>, and the bitemporal responder of
  \<^verbatim>\<open>runner.py\<close>): tokens, similarity, ranking, the choice of a memory and the plan it gives. A memory
  corpus is taken after JSON decoding; \<open>round6\<close> is \<open>round(_, 6)\<close>. Decision times are whole seconds
  here, which they are for these responders.
\<close>

section \<open>Contracts\<close>

record action_plan =
  pl_action_type :: string
  pl_target_service :: string
  pl_params :: "(string, pyval) dict"

record retrieval_hit =
  hit_memory_id :: string
  hit_score :: real

record responder_decision =
  rd_actions :: "action_plan list"
  rd_retrieved :: "retrieval_hit list"
  rd_token_proxy :: int
  rd_abstained :: bool
  rd_authorized_memory_id :: "string option"
  rd_decision_seconds :: int

definition default_match_threshold :: real where
  "default_match_threshold = 15 / 100"

definition decision_latency_not_measured :: int where
  "decision_latency_not_measured = 0"

section \<open>Tokens\<close>

definition token_char :: "char \<Rightarrow> bool" where
  "token_char c \<longleftrightarrow> (let n = of_char c :: nat in (97 \<le> n \<and> n \<le> 122) \<or> (48 \<le> n \<and> n \<le> 57))"

text \<open>\<open>TOKEN_RE.findall\<close>: the maximal runs of letters and digits.\<close>

fun token_runs :: "string \<Rightarrow> string \<Rightarrow> string list" where
  "token_runs acc [] = (if acc = [] then [] else [rev acc])"
| "token_runs acc (c # cs) = (if token_char c then token_runs (c # acc) cs
     else if acc = [] then token_runs [] cs else rev acc # token_runs [] cs)"

definition stop_words :: "string set" where
  "stop_words = {''a'', ''after'', ''and'', ''are'', ''checkout'', ''causes'', ''error'', ''errors'', ''incident'',
     ''is'', ''payment'', ''service'', ''the'', ''to'', ''with''}"

definition tokenize :: "string \<Rightarrow> string set" where
  "tokenize t = set (token_runs [] (str_lower t)) - stop_words"

section \<open>Procedural memory\<close>

record memory_record =
  mr_memory_id :: string
  mr_family_id :: string
  mr_text :: string
  mr_actions :: "action_plan list"

text \<open>An item of a memory corpus; a missing key of the file is its default (\<open>gold\<close> false, no actions, no
  window).\<close>

record corpus_item =
  ci_memory_id :: string
  ci_family_id :: string
  ci_gold :: bool
  ci_text :: string
  ci_actions :: "action_plan list"
  ci_valid_from :: "int option"
  ci_valid_to :: "int option"

record memory_responder =
  mp_records :: "memory_record list"
  mp_retrieval_k :: nat
  mp_match_threshold :: real

definition new_memory_responder :: "corpus_item list \<Rightarrow> nat \<Rightarrow> real \<Rightarrow> memory_responder" where
  "new_memory_responder items k threshold = \<lparr>
     mp_records = map (\<lambda>i. \<lparr>mr_memory_id = ci_memory_id i, mr_family_id = ci_family_id i, mr_text = ci_text i,
       mr_actions = ci_actions i\<rparr>) items,
     mp_retrieval_k = k, mp_match_threshold = threshold\<rparr>"

definition similarity :: "string set \<Rightarrow> string set \<Rightarrow> real" where
  "similarity query memory = (if query = {} \<or> memory = {} then 0
     else real (card (query \<inter> memory)) / sqrt (real (card query * card memory)))"

definition observation_query :: "observation \<Rightarrow> string set" where
  "observation_query obs = tokenize (obs_title obs @ '' '' @ obs_signal obs)"

type_synonym scored = "real \<times> string \<times> memory_record"

definition score_key :: "scored \<Rightarrow> real \<times> string" where
  "score_key x = (- fst x, fst (snd x))"

definition rank_records :: "string set \<Rightarrow> memory_record list \<Rightarrow> scored list" where
  "rank_records query records =
     sort_key score_key (map (\<lambda>r. (similarity query (tokenize (mr_text r)), mr_memory_id r, r)) records)"

definition render_value :: "observation \<Rightarrow> pyval \<Rightarrow> pyval" where
  "render_value obs v = (if py_eq v (PStr ''$incident.previous_stable_version'')
     then (case obs_previous_stable_version obs of None \<Rightarrow> PNone | Some x \<Rightarrow> PStr x) else v)"

definition render_action :: "observation \<Rightarrow> action_plan \<Rightarrow> action_plan" where
  "render_action obs a = \<lparr>pl_action_type = pl_action_type a,
     pl_target_service = (if pl_target_service a = ''$incident.service'' then obs_service obs else pl_target_service a),
     pl_params = map (\<lambda>(k, v). (k, render_value obs v)) (pl_params a)\<rparr>"

definition page_human :: "observation \<Rightarrow> action_plan" where
  "page_human obs = \<lparr>pl_action_type = ''no_op_page_human'', pl_target_service = obs_service obs, pl_params = []\<rparr>"

text \<open>The body of \<open>decide\<close>, on the records that are ranked.\<close>

definition may_act :: "memory_responder \<Rightarrow> scored \<Rightarrow> bool" where
  "may_act m x \<longleftrightarrow> mp_match_threshold m \<le> fst x \<and> mr_actions (snd (snd x)) \<noteq> []"

definition decide_from :: "(real \<Rightarrow> real) \<Rightarrow> memory_responder \<Rightarrow> memory_record list \<Rightarrow> observation \<Rightarrow> responder_decision" where
  "decide_from round6 m records obs = (let
     query = observation_query obs;
     top = take (mp_retrieval_k m) (rank_records query records);
     hits = map (\<lambda>(score, i, _). \<lparr>hit_memory_id = i, hit_score = round6 score\<rparr>) top;
     retrieval_tokens = sum_list (map (\<lambda>(_, _, r). card (tokenize (mr_text r))) top);
     base_tokens = 220 + int (card query) * 3 + int retrieval_tokens in
     case find (may_act m) top of
       None \<Rightarrow> \<lparr>rd_actions = [page_human obs], rd_retrieved = hits, rd_token_proxy = base_tokens + 80,
         rd_abstained = True, rd_authorized_memory_id = None, rd_decision_seconds = decision_latency_not_measured\<rparr>
     | Some (score, i, r) \<Rightarrow> let rendered = map (render_action obs) (mr_actions r) in
         \<lparr>rd_actions = rendered, rd_retrieved = hits, rd_token_proxy = base_tokens + 70 * int (length rendered),
          rd_abstained = False, rd_authorized_memory_id = Some i, rd_decision_seconds = decision_latency_not_measured\<rparr>)"

definition memory_decide :: "(real \<Rightarrow> real) \<Rightarrow> memory_responder \<Rightarrow> observation \<Rightarrow> responder_decision" where
  "memory_decide round6 m obs = decide_from round6 m (mp_records m) obs"

section \<open>Valid time\<close>

type_synonym window = "int option \<times> int option"

definition is_valid_at :: "window \<Rightarrow> int option \<Rightarrow> bool" where
  "is_valid_at w as_of = (case as_of of None \<Rightarrow> True
   | Some t \<Rightarrow> (case fst w of Some f \<Rightarrow> f \<le> t | None \<Rightarrow> True) \<and> (case snd w of Some u \<Rightarrow> t < u | None \<Rightarrow> True))"

definition validity_of :: "corpus_item list \<Rightarrow> (string, window) dict" where
  "validity_of items = foldl (\<lambda>d i. AList.update (ci_memory_id i) (ci_valid_from i, ci_valid_to i) d) [] items"

definition temporal_decide :: "(real \<Rightarrow> real) \<Rightarrow> memory_responder \<Rightarrow> (string, window) dict \<Rightarrow> observation \<Rightarrow> responder_decision" where
  "temporal_decide round6 m validity obs = decide_from round6 m
     (filter (\<lambda>r. is_valid_at (dict_get validity (mr_memory_id r) (None, None)) (Some (obs_observed_at obs))) (mp_records m)) obs"

section \<open>The baseline without memory\<close>

definition plan :: "string \<Rightarrow> string \<Rightarrow> (string, pyval) dict \<Rightarrow> action_plan" where
  "plan kind target params = \<lparr>pl_action_type = kind, pl_target_service = target, pl_params = params\<rparr>"

definition opt_text :: "string option \<Rightarrow> pyval" where
  "opt_text x = (case x of None \<Rightarrow> PNone | Some s \<Rightarrow> PStr s)"

definition first_line_remediation :: "string \<Rightarrow> string \<Rightarrow> observation \<Rightarrow> action_plan list" where
  "first_line_remediation signal target obs =
     (if contains_text ''after deploy'' signal
      then [plan ''rollback_deploy'' target [(''target_version'', opt_text (obs_previous_stable_version obs))]]
      else if contains_text ''too many connections'' signal
      then [plan ''set_config'' target [(''key'', PStr ''db_pool_size''), (''value'', PInt 80)], plan ''restart_service'' target []]
      else if contains_text ''cache timeout cascade'' signal
      then [plan ''failover_dependency'' target [(''dependency_key'', PStr ''checkout-cache''),
        (''to_service'', PStr ''redis-cluster-v2-replica'')]]
      else if contains_text ''traffic spike saturated'' signal
      then [plan ''scale_service'' target [(''capacity_units'', PInt 8)],
        plan ''throttle_traffic'' target [(''traffic_percent'', PInt 75)]]
      else if contains_text ''retry storm'' signal
      then [plan ''throttle_traffic'' target [(''traffic_percent'', PInt 60)]]
      else if contains_text ''memory leak'' signal then [plan ''restart_service'' target []]
      else if contains_text ''config flag'' signal
      then [plan ''set_config'' target [(''key'', PStr ''express_checkout_enabled''), (''value'', PBool False)]]
      else if contains_text ''datastore primary'' signal
      then [plan ''failover_dependency'' target [(''dependency_key'', PStr ''checkout-orders''),
        (''to_service'', PStr ''orders-db-replica'')]]
      else if contains_text ''payment provider'' signal
      then [plan ''failover_dependency'' target [(''dependency_key'', PStr ''payment-provider''),
        (''to_service'', PStr ''payment-provider-secondary'')], plan ''throttle_traffic'' target [(''traffic_percent'', PInt 50)]]
      else [plan ''no_op_page_human'' target []])"

definition baseline_decide :: "observation \<Rightarrow> responder_decision" where
  "baseline_decide obs = (let
     actions = first_line_remediation (str_lower (obs_signal obs)) (obs_service obs) obs in
     \<lparr>rd_actions = actions, rd_retrieved = [],
      rd_token_proxy = 280 + int (card (observation_query obs)) * 4 + int (length actions) * 70,
      rd_abstained = (pl_action_type (last actions) = ''no_op_page_human''),
      rd_authorized_memory_id = None, rd_decision_seconds = decision_latency_not_measured\<rparr>)"

section \<open>What memory authorizes\<close>

text \<open>A record is at most as good as another when it is less similar, or equally similar with a later
  identifier.\<close>

definition usable :: "memory_responder \<Rightarrow> observation \<Rightarrow> memory_record \<Rightarrow> bool" where
  "usable m obs r \<longleftrightarrow> mp_match_threshold m \<le> similarity (observation_query obs) (tokenize (mr_text r)) \<and> mr_actions r \<noteq> []"

definition preference :: "observation \<Rightarrow> memory_record \<Rightarrow> real \<times> string" where
  "preference obs r = (- similarity (observation_query obs) (tokenize (mr_text r)), mr_memory_id r)"

lemma find_sorted_first:
  assumes "sorted (map f xs)" "find p xs = Some x"
  shows "x \<in> set xs \<and> p x \<and> (\<forall>y\<in>set xs. p y \<longrightarrow> f x \<le> f y)"
  using assms
proof (induction xs)
  case (Cons a xs)
  then show ?case by (cases "p a") auto
qed simp

lemma sorted_take_least:
  assumes "sorted (map f xs)" "x \<in> set (take k xs)" "y \<in> set xs" "y \<notin> set (take k xs)"
  shows "f x \<le> f y"
proof -
  have "xs = take k xs @ drop k xs" by simp
  with assms(1) have "sorted (map f (take k xs) @ map f (drop k xs))" by (metis map_append)
  moreover have "y \<in> set (drop k xs)" using assms(3,4) by (metis Un_iff append_take_drop_id set_append)
  ultimately show ?thesis using assms(2) by (auto simp: sorted_append)
qed

lemma find_in_top:
  assumes "sorted (map f xs)" "find p (take k xs) = Some x"
  shows "x \<in> set xs \<and> p x \<and> (\<forall>y\<in>set xs. p y \<longrightarrow> f x \<le> f y)"
proof -
  have "sorted (map f (take k xs))" using assms(1) sorted_wrt_take by (metis take_map)
  from find_sorted_first [OF this assms(2)] have x: "x \<in> set (take k xs)" "p x"
    "\<forall>y\<in>set (take k xs). p y \<longrightarrow> f x \<le> f y" by auto
  moreover have "f x \<le> f y" if "y \<in> set xs" "p y" for y
    using x sorted_take_least [OF assms(1) x(1) that(1)] that(2) by (cases "y \<in> set (take k xs)") auto
  ultimately show ?thesis by (auto dest: in_set_takeD)
qed

lemma sorted_rank: "sorted (map score_key (rank_records query records))"
  by (simp add: rank_records_def)

lemma set_rank: "set (rank_records query records) =
    (\<lambda>r. (similarity query (tokenize (mr_text r)), mr_memory_id r, r)) ` set records"
  by (simp add: rank_records_def)

lemma decide_from_cases:
  obtains (acts) r where "r \<in> set records" "usable m obs r"
      "\<And>r'. r' \<in> set records \<Longrightarrow> usable m obs r' \<Longrightarrow> preference obs r \<le> preference obs r'"
      "rd_actions (decide_from round6 m records obs) = map (render_action obs) (mr_actions r)"
      "rd_authorized_memory_id (decide_from round6 m records obs) = Some (mr_memory_id r)"
      "\<not> rd_abstained (decide_from round6 m records obs)"
  | (pages) "rd_actions (decide_from round6 m records obs) = [page_human obs]"
      "rd_authorized_memory_id (decide_from round6 m records obs) = None"
      "rd_abstained (decide_from round6 m records obs)"
      "\<And>r. length records \<le> mp_retrieval_k m \<Longrightarrow> r \<in> set records \<Longrightarrow> \<not> usable m obs r"
proof (cases "find (may_act m) (take (mp_retrieval_k m) (rank_records (observation_query obs) records))")
  case (Some x)
  let ?q = "observation_query obs"
  from find_in_top [OF sorted_rank Some] have x: "x \<in> set (rank_records ?q records)" "may_act m x"
    "\<forall>y\<in>set (rank_records ?q records). may_act m y \<longrightarrow> score_key x \<le> score_key y" by auto
  then obtain r where r: "r \<in> set records" "x = (similarity ?q (tokenize (mr_text r)), mr_memory_id r, r)"
    by (auto simp: set_rank)
  have "preference obs r \<le> preference obs r'" if "r' \<in> set records" "usable m obs r'" for r'
    using x(3) that r(2) by (auto simp: set_rank may_act_def usable_def score_key_def preference_def)
  with r x(2) Some show thesis
    by (intro acts [of r]) (auto simp: decide_from_def Let_def may_act_def usable_def)
next
  case None
  have "\<not> usable m obs r" if "length records \<le> mp_retrieval_k m" "r \<in> set records" for r
  proof
    assume "usable m obs r"
    let ?x = "(similarity (observation_query obs) (tokenize (mr_text r)), mr_memory_id r, r)"
    have "take (mp_retrieval_k m) (rank_records (observation_query obs) records) = rank_records (observation_query obs) records"
      using that(1) by (simp add: rank_records_def)
    moreover have "?x \<in> set (rank_records (observation_query obs) records)" using that(2) by (simp add: set_rank)
    moreover have "may_act m ?x" using \<open>usable m obs r\<close> by (simp add: may_act_def usable_def)
    ultimately show False using None by (auto simp: find_None_iff)
  qed
  with None show thesis by (intro pages) (auto simp: decide_from_def Let_def)
qed

lemma temporal_unbounded:
  assumes "\<And>r. r \<in> set (mp_records m) \<Longrightarrow> dict_get validity (mr_memory_id r) (None, None) = (None, None)"
  shows "temporal_decide round6 m validity obs = memory_decide round6 m obs"
proof -
  have "filter (\<lambda>r. is_valid_at (dict_get validity (mr_memory_id r) (None, None)) (Some (obs_observed_at obs))) (mp_records m) =
      mp_records m"
    using assms by (intro filter_True) (simp add: is_valid_at_def)
  then show ?thesis by (simp add: temporal_decide_def memory_decide_def)
qed

end
