(* ===== verification/Ev_Runner.thy ===== *)
theory Ev_Runner
  imports Ev_Responders Sim_Actions
begin

text \<open>
  The benchmark (\<^verbatim>\<open>evaluation/postmortem_eval/runner.py\<close>): the replay of one arm over the simulator,
  the comparison of two arms, and the figures of the report. A responder is a function of the
  observation. A failure is one of the simulator, a failed assertion, the exception of an
  arithmetic over no values, that of a report that cannot be read, or that of a value nested too deeply.
\<close>

datatype eval_error =
    Sim_failure sim_error
  | Assertion_failure string
  | Zero_division
  | No_data
  | Index_failure
  | Missing_file string
  | Not_measured string
  | Missing_key string
  | Not_a_mapping
  | Value_failure string
  | Recursion_failure
  | Client_failure string

definition in_sim :: "'a sim \<Rightarrow> (conductor, eval_error, 'a) prog" where
  "in_sim m = (\<lambda>c. case m c of (Inl e, c') \<Rightarrow> (Inl (Sim_failure e), c') | (Inr x, c') \<Rightarrow> (Inr x, c'))"

section \<open>One arm\<close>

record incident_result =
  ir_scenario_id :: string
  ir_incident_id :: string
  ir_family_id :: string
  ir_variant_id :: string
  ir_occurrence :: nat
  ir_mttr_seconds :: int
  ir_actions :: nat
  ir_wrong_actions :: nat
  ir_first_action_correct :: bool
  ir_failed_orders :: nat
  ir_failed_order_value_cents :: int
  ir_escalated :: bool
  ir_abstained :: bool
  ir_token_proxy :: int
  ir_retrieved_memory_ids :: "string list"
  ir_top_retrieval_score :: "real option"
  ir_authorized_memory_id :: "string option"

text \<open>The actions are applied until one resolves the incident.\<close>

fun play :: "(string \<Rightarrow> string) \<Rightarrow> string \<Rightarrow> string option \<Rightarrow> action_plan list \<Rightarrow> action_result list sim" where
  "play uuid5 iid memory_ref [] = ret []"
| "play uuid5 iid memory_ref (a # as) =
     andThen (apply_action uuid5 iid (pl_action_type a) (pl_target_service a) (pl_params a) ''agent:postmortem'' memory_ref) (\<lambda>r.
     if res_resolved r then ret [r]
     else andThen (play uuid5 iid memory_ref as) (\<lambda>rs. ret (r # rs)))"

definition memory_ref_of :: "responder_decision \<Rightarrow> string option" where
  "memory_ref_of d = (case rd_authorized_memory_id d of None \<Rightarrow> None
   | Some i \<Rightarrow> if i = [] then None else Some (''memory:'' @ i))"

definition result_of :: "incident \<Rightarrow> nat \<Rightarrow> responder_decision \<Rightarrow> string list \<Rightarrow> int \<Rightarrow> order list \<Rightarrow>
    remediation_action list \<Rightarrow> incident_result" where
  "result_of inc occurrence d outcomes mttr orders actions = \<lparr>
     ir_scenario_id = inc_scenario_id inc, ir_incident_id = inc_id inc, ir_family_id = inc_family_id inc,
     ir_variant_id = inc_variant_id inc, ir_occurrence = occurrence, ir_mttr_seconds = mttr,
     ir_actions = length actions,
     ir_wrong_actions = length (filter (\<lambda>x. x = ''no_effect'') outcomes),
     ir_first_action_correct = (case outcomes of [] \<Rightarrow> False | x # _ \<Rightarrow> x = ''success''),
     ir_failed_orders = length orders, ir_failed_order_value_cents = sum_list (map ord_amount_cents orders),
     ir_escalated = list_ex (\<lambda>a. act_type a \<in> {''no_op_page_human'', ''escalate''}) actions,
     ir_abstained = rd_abstained d, ir_token_proxy = rd_token_proxy d,
     ir_retrieved_memory_ids = map hit_memory_id (rd_retrieved d),
     ir_top_retrieval_score = (case rd_retrieved d of [] \<Rightarrow> None | h # _ \<Rightarrow> Some (hit_score h)),
     ir_authorized_memory_id = rd_authorized_memory_id d\<rparr>"

text \<open>The body of the loop; the number of incidents of each family so far is threaded through.\<close>

type_synonym counts = "(string, nat) dict"

definition run_incident :: "(string \<Rightarrow> string) \<Rightarrow> string \<Rightarrow> (observation \<Rightarrow> responder_decision) \<Rightarrow> counts \<Rightarrow>
    (conductor, eval_error, incident_result \<times> counts) prog" where
  "run_incident uuid5 name decide occurrences =
     andThen (reads cd_state) (\<lambda>before.
     andThen (in_sim (inject_next uuid5)) (\<lambda>inc. let
       iid = inc_id inc;
       occurrence = dict_get occurrences (inc_family_id inc) 0 + 1 in
     andThen (in_sim (observe_incident iid)) (\<lambda>obs. let d = decide obs in
     andThen (in_sim (advance_time (rd_decision_seconds d))) (\<lambda>_.
     andThen (in_sim (play uuid5 iid (memory_ref_of d) (rd_actions d))) (\<lambda>rs.
     andThen (reads cd_state) (\<lambda>w.
     case Option.bind (map_of (w_incidents w) iid) inc_mttr_seconds of
       None \<Rightarrow> raise (Assertion_failure (name @ '' failed to resolve '' @ inc_scenario_id inc))
     | Some mttr \<Rightarrow> ret (result_of inc occurrence d (map res_outcome rs) mttr
         (filter (\<lambda>x. ord_incident_id x = iid) (drop (length (w_orders before)) (w_orders w)))
         (filter (\<lambda>a. act_incident_id a = iid) (drop (length (w_actions before)) (w_actions w))),
         AList.update (inc_family_id inc) occurrence occurrences)))))))"

text \<open>\<open>while conductor.remaining_scenarios\<close>; each round consumes a scenario, so as many rounds as
  scenarios remain are enough.\<close>

fun run_rounds :: "(string \<Rightarrow> string) \<Rightarrow> string \<Rightarrow> (observation \<Rightarrow> responder_decision) \<Rightarrow> nat \<Rightarrow> counts \<Rightarrow>
    (conductor, eval_error, incident_result list) prog" where
  "run_rounds uuid5 name decide 0 occurrences = ret []"
| "run_rounds uuid5 name decide (Suc n) occurrences = andThen (reads remaining_scenarios) (\<lambda>remaining.
     if remaining = 0 then ret []
     else andThen (run_incident uuid5 name decide occurrences) (\<lambda>(r, occurrences').
       andThen (run_rounds uuid5 name decide n occurrences') (\<lambda>rs. ret (r # rs))))"

definition run_arm :: "(string \<Rightarrow> string) \<Rightarrow> string \<Rightarrow> (observation \<Rightarrow> responder_decision) \<Rightarrow>
    (conductor, eval_error, incident_result list \<times> int) prog" where
  "run_arm uuid5 name decide =
     andThen (reads remaining_scenarios) (\<lambda>n.
     andThen (run_rounds uuid5 name decide n []) (\<lambda>rs.
     andThen (reads cd_seed) (\<lambda>seed. ret (rs, seed))))"

text \<open>The start of \<open>run\<close>: both arms on conductors built from the same files, and its assertions.\<close>

definition run_both :: "(string \<Rightarrow> string) \<Rightarrow> conductor \<Rightarrow> (observation \<Rightarrow> responder_decision) \<Rightarrow>
    (observation \<Rightarrow> responder_decision) \<Rightarrow> eval_error + incident_result list \<times> incident_result list \<times> int" where
  "run_both uuid5 c0 memory baseline =
     bindE (fst (run_arm uuid5 ''with_memory'' memory c0)) (\<lambda>(memory_results, memory_seed).
     bindE (fst (run_arm uuid5 ''competent_baseline'' baseline c0)) (\<lambda>(baseline_results, baseline_seed).
     bindE (checkE (memory_seed = baseline_seed) (Assertion_failure ''arms did not use the same simulator seed'')) (\<lambda>_.
     bindE (checkE (map ir_scenario_id memory_results = map ir_scenario_id baseline_results)
       (Assertion_failure ''arms did not replay the same scenario stream'')) (\<lambda>_.
     bindE (checkE (map ir_incident_id memory_results = map ir_incident_id baseline_results)
       (Assertion_failure ''arms produced different deterministic IDs'')) (\<lambda>_.
     Inr (memory_results, baseline_results, memory_seed))))))"

section \<open>Retrieval metrics\<close>

record labels =
  lb_gold :: "(string, string list) dict"
  lb_hard_negatives :: "string list"
  lb_distractors :: "string list"

definition label :: "corpus_item \<Rightarrow> labels \<Rightarrow> labels" where
  "label item l = (if ci_gold item
     then l\<lparr>lb_gold := AList.update (ci_family_id item)
       (List.insert (ci_memory_id item) (dict_get (lb_gold l) (ci_family_id item) [])) (lb_gold l)\<rparr>
     else if ci_family_id item = ''HARD_NEGATIVE''
     then l\<lparr>lb_hard_negatives := List.insert (ci_memory_id item) (lb_hard_negatives l)\<rparr>
     else l\<lparr>lb_distractors := List.insert (ci_memory_id item) (lb_distractors l)\<rparr>)"

definition labels_of :: "corpus_item list \<Rightarrow> labels" where
  "labels_of items = foldl (\<lambda>l item. label item l) \<lparr>lb_gold = [], lb_hard_negatives = [], lb_distractors = []\<rparr> items"

definition gold_of :: "labels \<Rightarrow> incident_result \<Rightarrow> string set" where
  "gold_of l r = set (dict_get (lb_gold l) (ir_family_id r) [])"

definition scored_results :: "labels \<Rightarrow> incident_result list \<Rightarrow> incident_result list" where
  "scored_results l results = filter (\<lambda>r. map_of (lb_gold l) (ir_family_id r) \<noteq> None \<and>
     ir_variant_id r \<noteq> ''red-herring-slow-query'') results"

definition hits_at :: "labels \<Rightarrow> nat \<Rightarrow> incident_result list \<Rightarrow> nat" where
  "hits_at l k scored = length (filter (\<lambda>r. set (take k (ir_retrieved_memory_ids r)) \<inter> gold_of l r \<noteq> {}) scored)"

definition mean :: "real list \<Rightarrow> eval_error + real" where
  "mean xs = (if xs = [] then Inl No_data else Inr (sum_list xs / real (length xs)))"

definition share :: "bool list \<Rightarrow> eval_error + real" where
  "share bs = mean (map of_bool bs)"

definition gain :: "nat \<Rightarrow> real" where
  "gain rank = 1 / log 2 (real rank + 2)"

definition dcg :: "string set \<Rightarrow> string list \<Rightarrow> real" where
  "dcg gold retrieved = (\<Sum>rank\<leftarrow>filter (\<lambda>i. retrieved ! i \<in> gold) [0..<length retrieved]. gain rank)"

definition ideal_dcg :: "string set \<Rightarrow> real" where
  "ideal_dcg gold = (\<Sum>rank\<leftarrow>[0..<min (card gold) 10]. gain rank)"

definition precision_of :: "labels \<Rightarrow> incident_result \<Rightarrow> real" where
  "precision_of l r = real (card (set (take 10 (ir_retrieved_memory_ids r)) \<inter> gold_of l r)) / 10"

definition ndcg_of :: "labels \<Rightarrow> incident_result \<Rightarrow> real" where
  "ndcg_of l r = (if ideal_dcg (gold_of l r) = 0 then 0
     else dcg (gold_of l r) (take 10 (ir_retrieved_memory_ids r)) / ideal_dcg (gold_of l r))"

record retrieval_metrics =
  rm_queries :: nat
  rm_recall_at_1 :: real
  rm_recall_at_5 :: real
  rm_recall_at_10 :: real
  rm_precision_at_10 :: real
  rm_ndcg_at_10 :: real
  rm_novel_queries :: nat
  rm_abstention_accuracy :: real
  rm_near_miss_queries :: nat
  rm_near_miss_safe_rejection_accuracy :: real
  rm_pool_runbook_near_miss_authorization_rate :: real

definition retrieval_metrics_of :: "(real \<Rightarrow> real) \<Rightarrow> labels \<Rightarrow> incident_result list \<Rightarrow> eval_error + retrieval_metrics" where
  "retrieval_metrics_of round6 l results = (let
     scored = scored_results l results;
     recall = (\<lambda>k. real (hits_at l k scored) / real (length scored));
     novel = filter (\<lambda>r. ir_family_id r = ''F10_NOVEL'') results;
     near_miss = filter (\<lambda>r. ir_variant_id r = ''red-herring-slow-query'') results;
     pool = (\<lambda>r. ir_authorized_memory_id r = Some ''mem-f2-pool'') in
     bindE (checkE (scored \<noteq> []) Zero_division) (\<lambda>_.
     bindE (mean (map (precision_of l) scored)) (\<lambda>precision.
     bindE (mean (map (ndcg_of l) scored)) (\<lambda>ndcg.
     bindE (share (map ir_abstained novel)) (\<lambda>abstention.
     bindE (share (map (\<lambda>r. ir_abstained r \<and> \<not> pool r) near_miss)) (\<lambda>rejection.
     bindE (share (map pool near_miss)) (\<lambda>authorization.
     Inr \<lparr>rm_queries = length scored, rm_recall_at_1 = round6 (recall 1), rm_recall_at_5 = round6 (recall 5),
       rm_recall_at_10 = round6 (recall 10), rm_precision_at_10 = round6 precision, rm_ndcg_at_10 = round6 ndcg,
       rm_novel_queries = length novel, rm_abstention_accuracy = round6 abstention,
       rm_near_miss_queries = length near_miss, rm_near_miss_safe_rejection_accuracy = round6 rejection,
       rm_pool_runbook_near_miss_authorization_rate = round6 authorization\<rparr>)))))))"

end
