(* ===== verification/Ev_Replay.thy ===== *)
theory Ev_Replay
  imports Ev_Runner
begin

text \<open>
  The replay of an arm: what the injection of an incident leaves, what a plan does to the ledgers of
  the world, and how the record of an incident accounts for both.
\<close>

section \<open>Orders\<close>

definition own_orders :: "string \<Rightarrow> order list \<Rightarrow> bool" where
  "own_orders iid os \<longleftrightarrow> list_all (\<lambda>x. ord_incident_id x = iid) os"

lemma own_orders_append [simp]: "own_orders iid (xs @ ys) \<longleftrightarrow> own_orders iid xs \<and> own_orders iid ys"
  by (simp add: own_orders_def)

lemma foldl_own_orders:
  obtains os where "foldl (\<lambda>w i. w\<lparr>w_orders := w_orders w @ [failed_order uuid5 seed inc err w i]\<rparr>) w ns =
      w\<lparr>w_orders := w_orders w @ os\<rparr>" and "own_orders (inc_id inc) os" and "length os = length ns"
proof (induction ns arbitrary: w thesis)
  case Nil
  then show ?case by (simp add: own_orders_def)
next
  case (Cons i ns)
  show ?case
    by (rule Cons.IH [of "w\<lparr>w_orders := w_orders w @ [failed_order uuid5 seed inc err w i]\<rparr>"])
      (rule Cons.prems [of "failed_order uuid5 seed inc err w i # os" for os];
        simp add: own_orders_def failed_order_def)
qed

lemma add_failed_orders_own:
  obtains os where "add_failed_orders uuid5 inc n err c =
      (Inr (), c\<lparr>cd_state := (cd_state c)\<lparr>w_orders := w_orders (cd_state c) @ os\<rparr>\<rparr>)"
    and "own_orders (inc_id inc) os" and "length os = nat n"
  by (rule foldl_own_orders [of uuid5 "cd_seed c" inc err "cd_state c" "[0..<nat n]"])
    (simp add: add_failed_orders_def run_prog)

text \<open>The orders since \<open>base\<close> are those of one incident.\<close>

definition orders_since :: "order list \<Rightarrow> string \<Rightarrow> conductor \<Rightarrow> bool" where
  "orders_since base iid c \<longleftrightarrow> (\<exists>os. w_orders (cd_state c) = base @ os \<and> own_orders iid os)"

lemma orders_since_refl [simp]: "orders_since (w_orders (cd_state c)) iid c"
  by (simp add: orders_since_def own_orders_def)

lemma orders_since_trans:
  "orders_since base iid c \<Longrightarrow> orders_since (w_orders (cd_state c)) iid d \<Longrightarrow> orders_since base iid d"
  by (auto simp: orders_since_def)

interpretation since: action_invariant uuid5 "orders_since base iid" for uuid5 base iid
proof unfold_locales
  show "keeps (orders_since base iid) (set_config uuid5 svc key v source)" for svc key v source
    by (rule keepsI) (simp add: set_config_def on_world_def run_step run_prog Let_def orders_since_def)
qed (auto simp: orders_since_def core_def)

lemma add_orders_since: "keeps (orders_since base (inc_id inc)) (add_failed_orders uuid5 inc n err)"
proof (rule keepsI)
  fix c assume "orders_since base (inc_id inc) c"
  moreover obtain os where "add_failed_orders uuid5 inc n err c =
      (Inr (), c\<lparr>cd_state := (cd_state c)\<lparr>w_orders := w_orders (cd_state c) @ os\<rparr>\<rparr>)"
    and "own_orders (inc_id inc) os" by (rule add_failed_orders_own)
  ultimately show "orders_since base (inc_id inc) (snd (add_failed_orders uuid5 inc n err c))"
    by (auto simp: orders_since_def)
qed

lemma settle_since: "keeps (orders_since base (inc_id inc)) (settle_action uuid5 iid inc p b kind t ps who mem)"
  unfolding settle_action_def record_action_def resolve_def change_incident_def Let_def
  by (intro keeps_intros keeps_on_world since.set_health since.clear add_orders_since)
    (auto simp: orders_since_def split: option.split)

lemma action_orders:
  assumes "apply_action uuid5 iid kind t ps who mem c = (Inr r, c')"
    and "find_incident c iid = Some inc" and "inc_id inc = iid"
  shows "orders_since (w_orders (cd_state c)) iid c'"
  using assms(1)
proof (rule apply_action_Inr)
  fix inc2 p d
  assume "find_incident c iid = Some inc2" and d: "ledgers d = ledgers c"
    and run: "settle_action uuid5 iid inc2 p (is_expected_now p inc2 kind t ps c) kind t ps who mem d = (Inr r, c')"
  then have "inc2 = inc" using assms(2) by simp
  moreover have "orders_since (w_orders (cd_state c)) iid d"
    using d by (simp add: ledgers_def Let_def orders_since_def own_orders_def)
  ultimately show ?thesis
    using keepsD [OF settle_since [of _ inc], of _ d] run assms(3) by (metis snd_conv)
qed

section \<open>The plan\<close>

text \<open>The entries of the action log that a plan added.\<close>

definition log_of :: "string \<Rightarrow> action_result list \<Rightarrow> remediation_action list \<Rightarrow> bool" where
  "log_of iid rs as \<longleftrightarrow> list_all2 (\<lambda>r a. act_incident_id a = iid \<and> act_outcome a = res_outcome r) rs as"

text \<open>Only a resolved incident has an MTTR.\<close>

definition mttr_when_resolved :: "incident \<Rightarrow> bool" where
  "mttr_when_resolved inc \<longleftrightarrow> inc_mttr_seconds inc = None \<or> inc_status inc = Resolved"

lemma incident_after_mttr:
  "mttr_when_resolved inc \<Longrightarrow> inc_status inc \<noteq> Resolved \<Longrightarrow> mttr_when_resolved (incident_after p b now inc)"
  by (auto simp: mttr_when_resolved_def incident_after_def resolved_at_def progressed_def Let_def)

lemma incident_after_names [simp]:
  "inc_id (incident_after p b now inc) = inc_id inc"
  "inc_variant_id (incident_after p b now inc) = inc_variant_id inc"
  by (simp_all add: incident_after_def resolved_at_def progressed_def Let_def)

text \<open>What a plan leaves: \<open>settled\<close> relates the incident before to the one after.\<close>

definition same_case :: "incident \<Rightarrow> incident \<Rightarrow> bool" where
  "same_case inc inc' \<longleftrightarrow> inc_id inc' = inc_id inc \<and> inc_scenario_id inc' = inc_scenario_id inc \<and>
     inc_family_id inc' = inc_family_id inc \<and> inc_variant_id inc' = inc_variant_id inc"

definition settled :: "oracle_policy \<Rightarrow> string \<Rightarrow> incident \<Rightarrow> conductor \<Rightarrow> action_result list \<Rightarrow> conductor \<Rightarrow> bool" where
  "settled p iid inc c rs c' \<longleftrightarrow> accounted p iid inc c rs c' \<and>
     (\<exists>inc'. find_incident c' iid = Some inc' \<and> same_case inc inc' \<and> mttr_when_resolved inc') \<and>
     orders_since (w_orders (cd_state c)) iid c' \<and>
     (\<exists>as. w_actions (cd_state c') = w_actions (cd_state c) @ as \<and> log_of iid rs as) \<and>
     schedule c' = schedule c"

lemma settled_none:
  assumes "find_incident c iid = Some inc" and "mttr_when_resolved inc"
  shows "settled p iid inc c [] c"
  using assms by (auto simp: settled_def accounted_def matched_def missed_def cost_def sec_def log_of_def same_case_def)

lemma settled_one:
  assumes run: "apply_action uuid5 iid kind t ps who mem c = (Inr r, c')"
    and inc: "find_incident c iid = Some inc" and pol: "policy_of c inc = Some p"
    and "inc_id inc = iid" and mttr: "mttr_when_resolved inc"
  shows "settled p iid inc c [r] c'"
proof -
  have "accounted p iid inc c [r] c'" using accounted_one [OF run inc pol] by blast
  moreover have "orders_since (w_orders (cd_state c)) iid c'"
    by (rule action_orders [OF run inc assms(4)])
  moreover from run have "(\<exists>inc'. find_incident c' iid = Some inc' \<and> same_case inc inc' \<and> mttr_when_resolved inc') \<and>
     (\<exists>as. w_actions (cd_state c') = w_actions (cd_state c) @ as \<and> log_of iid [r] as) \<and> schedule c' = schedule c"
  proof (rule apply_action_ledgers)
    fix inc2 q b now
    assume i: "find_incident c iid = Some inc2" "inc_status inc2 \<noteq> Resolved"
      and w: "w_incidents (cd_state c') = AList.update iid (incident_after q b now inc2) (w_incidents (cd_state c))"
      and a: "\<exists>a. w_actions (cd_state c') = w_actions (cd_state c) @ [a] \<and> act_incident_id a = iid \<and>
        act_type a = kind \<and> act_target a = t \<and> act_params a = ps \<and> act_applied_at a = now \<and>
        act_applied_by a = who \<and> act_memory_ref a = mem \<and> act_outcome a = res_outcome r \<and>
        act_id a = res_action_id r"
      and s: "schedule c' = schedule c"
    have "inc2 = inc" using i(1) inc by simp
    with incident_after_mttr [OF mttr] i(2) have "mttr_when_resolved (incident_after q b now inc)" by simp
    with w a s show ?thesis using \<open>inc2 = inc\<close>
      by (auto simp: find_incident_def same_case_def log_of_def)
  qed
  ultimately show ?thesis by (simp add: settled_def)
qed

lemma settled_Cons:
  assumes one: "settled p iid inc c [r] d" and rest: "settled p iid inc2 d rs c'"
    and "find_incident d iid = Some inc2" and none: "rs = [] \<Longrightarrow> c' = d"
  shows "settled p iid inc c (r # rs) c'"
proof -
  have "accounted p iid inc c (r # rs) c'"
    using one rest assms(3) none unfolding settled_def by (blast intro: accounted_Cons)
  moreover have "same_case inc inc2"
    using one assms(3) by (auto simp: settled_def)
  moreover have "log_of iid (r # rs) (as @ bs)" if "log_of iid [r] as" "log_of iid rs bs" for as bs
    using list_all2_appendI [OF that [unfolded log_of_def]] by (simp add: log_of_def)
  ultimately show ?thesis using one rest unfolding settled_def
    by (auto simp: same_case_def intro: orders_since_trans)
qed

lemma policy_of_same:
  assumes "schedule d = schedule c" and "same_case inc inc2"
  shows "policy_of d inc2 = policy_of c inc"
  using assms by (simp add: policy_of_def schedule_def same_case_def)

lemma play_settled:
  assumes "play uuid5 iid mem as c = (Inr rs, c')" and "find_incident c iid = Some inc"
    and "policy_of c inc = Some p" and "inc_id inc = iid" and "mttr_when_resolved inc"
  shows "settled p iid inc c rs c' \<and> length rs \<le> length as \<and> (as = [] \<or> rs \<noteq> [])"
  using assms
proof (induction as arbitrary: c inc rs)
  case Nil
  then show ?case by (auto simp: run_prog settled_none)
next
  case (Cons a as)
  from Cons.prems(1) obtain r d where r: "apply_action uuid5 iid (pl_action_type a) (pl_target_service a)
      (pl_params a) ''agent:postmortem'' mem c = (Inr r, d)"
    and rest: "(if res_resolved r then ret [r]
      else andThen (play uuid5 iid mem as) (\<lambda>rs. ret (r # rs))) d = (Inr rs, c')"
    by (auto elim!: andThen_Inr)
  note one = settled_one [OF r Cons.prems(2-5)]
  show ?case
  proof (cases "res_resolved r")
    case True
    with rest one show ?thesis by (auto simp: run_prog)
  next
    case False
    with rest obtain rs2 where run: "play uuid5 iid mem as d = (Inr rs2, c')" and rs: "rs = r # rs2"
      by (auto simp: run_prog elim!: andThen_Inr)
    from one obtain inc2 where inc2: "find_incident d iid = Some inc2" "same_case inc inc2" "mttr_when_resolved inc2"
      and sched: "schedule d = schedule c" by (auto simp: settled_def)
    have pol: "policy_of d inc2 = Some p" using policy_of_same [OF sched inc2(2)] Cons.prems(3) by simp
    have "inc_id inc2 = iid" using inc2(2) Cons.prems(4) by (simp add: same_case_def)
    from Cons.IH [OF run inc2(1) pol this inc2(3)] have IH: "settled p iid inc2 d rs2 c'"
      "length rs2 \<le> length as" "as = [] \<or> rs2 \<noteq> []" by simp_all
    have "rs2 = [] \<Longrightarrow> c' = d" using run IH(3) by (auto simp: run_prog)
    from settled_Cons [OF one IH(1) inc2(1) this] IH(2) rs show ?thesis by simp
  qed
qed

section \<open>The injection\<close>

definition lost_at_start :: "scenario \<Rightarrow> nat" where
  "lost_at_start sc = nat (case scn_failed_orders sc of None \<Rightarrow> 5 | Some n \<Rightarrow> n)"

definition opened :: "(string \<Rightarrow> string) \<Rightarrow> scenario \<Rightarrow> conductor \<Rightarrow> incident \<Rightarrow> conductor \<Rightarrow> bool" where
  "opened uuid5 sc c inc c' \<longleftrightarrow> inc = new_incident uuid5 (cd_seed c) sc (w_now (cd_state c)) \<and>
     find_incident c' (inc_id inc) = Some inc \<and> w_now (cd_state c') = w_now (cd_state c) \<and>
     (\<exists>os. w_orders (cd_state c') = w_orders (cd_state c) @ os \<and> own_orders (inc_id inc) os \<and>
        length os = lost_at_start sc) \<and>
     w_actions (cd_state c') = w_actions (cd_state c) \<and> schedule c' = schedule c"

definition opens :: "(string \<Rightarrow> string) \<Rightarrow> scenario \<Rightarrow> incident sim \<Rightarrow> bool" where
  "opens uuid5 sc m \<longleftrightarrow> (\<forall>c inc c'. m c = (Inr inc, c') \<longrightarrow> opened uuid5 sc c inc c')"

named_theorems opens_intros \<open>rules that show an injector opens an incident\<close>

lemma opened_ledgers: "ledgers d = ledgers c \<Longrightarrow> opened uuid5 sc d inc c' = opened uuid5 sc c inc c'"
  by (simp add: opened_def ledgers_def schedule_def Let_def)

lemma opens_andThen [opens_intros]:
  assumes "\<And>K. keeps (\<lambda>d. ledgers d = K) m" and "\<And>x. opens uuid5 sc (f x)"
  shows "opens uuid5 sc (andThen m f)"
  unfolding opens_def
proof (intro allI impI)
  fix c :: conductor and inc c'
  assume "andThen m f c = (Inr inc, c')"
  then obtain x d where "m c = (Inr x, d)" "f x d = (Inr inc, c')" by (rule andThen_Inr)
  moreover from this(1) have "ledgers d = ledgers c" using keeps_ledgers [OF assms(1), of c] by simp
  ultimately show "opened uuid5 sc c inc c'" using assms(2) opened_ledgers by (metis opens_def)
qed

lemma opens_raise [opens_intros]: "opens uuid5 sc (raise e)"
  by (simp add: opens_def run_prog)

lemma opens_if [opens_intros]: "opens uuid5 sc m \<Longrightarrow> opens uuid5 sc n \<Longrightarrow> opens uuid5 sc (if b then m else n)"
  by simp

lemma opens_open [opens_intros]: "opens uuid5 sc (open_incident uuid5 sc kind v sig err)"
  unfolding opens_def
proof (intro allI impI)
  fix c :: conductor and inc c'
  let ?inc = "new_incident uuid5 (cd_seed c) sc (w_now (cd_state c))"
  let ?put = "put_incident (inc_id ?inc) ?inc c"
  assume "open_incident uuid5 sc kind v sig err c = (Inr inc, c')"
  then have "announce_incident uuid5 sc ?inc kind v sig err ?put = (Inr inc, c')"
    by (simp add: open_incident_def run_step on_world_def put_incident_def)
  then obtain x d where slo: "change_slo (inc_service ?inc, kind) (\<lambda>s. s\<lparr>slo_current_value := v,
        slo_burn_rate := (case flt_burn_rate (scn_fault sc) of None \<Rightarrow> 8 | Some r \<Rightarrow> r),
        slo_status := Breaching\<rparr>) ?put = (Inr x, d)"
    and rest: "andThen (modifies (\<lambda>c. let w = cd_state c; aid = sim_id uuid5 (cd_seed c) ''alert'' (scn_id sc)
        in c\<lparr>cd_state := w\<lparr>w_alerts := AList.update aid
          \<lparr>alr_id = aid, alr_incident = inc_id ?inc, alr_service = inc_service ?inc,
           alr_slo_kind = kind, alr_signal = sig, alr_fired_at = w_now w,
           alr_cleared_at = None\<rparr> (w_alerts w)\<rparr>\<rparr>)) (\<lambda>_.
     andThen (add_failed_orders uuid5 ?inc
        (case scn_failed_orders sc of None \<Rightarrow> 5 | Some n \<Rightarrow> n) err) (\<lambda>_. ret ?inc)) d = (Inr inc, c')"
    unfolding announce_incident_def by (rule andThen_Inr)
  let ?n = "case scn_failed_orders sc of None \<Rightarrow> 5 | Some n \<Rightarrow> n"
  obtain e where e: "ledgers e = ledgers d"
    and run: "andThen (add_failed_orders uuid5 ?inc ?n err) (\<lambda>_. ret ?inc) e = (Inr inc, c')"
  proof (rule that)
    show "andThen (add_failed_orders uuid5 ?inc ?n err) (\<lambda>_. ret ?inc) (d\<lparr>cd_state := (cd_state d)\<lparr>w_alerts :=
        AList.update (sim_id uuid5 (cd_seed d) ''alert'' (scn_id sc))
          \<lparr>alr_id = sim_id uuid5 (cd_seed d) ''alert'' (scn_id sc), alr_incident = inc_id ?inc,
           alr_service = inc_service ?inc, alr_slo_kind = kind, alr_signal = sig,
           alr_fired_at = w_now (cd_state d), alr_cleared_at = None\<rparr> (w_alerts (cd_state d))\<rparr>\<rparr>) = (Inr inc, c')"
      using rest by (simp only: run_step Let_def)
  qed (simp add: ledgers_def Let_def schedule_def)
  obtain os where os: "add_failed_orders uuid5 ?inc ?n err e =
      (Inr (), e\<lparr>cd_state := (cd_state e)\<lparr>w_orders := w_orders (cd_state e) @ os\<rparr>\<rparr>)"
    "own_orders (inc_id ?inc) os" "length os = nat ?n" by (rule add_failed_orders_own)
  from run os(1) have c': "c' = e\<lparr>cd_state := (cd_state e)\<lparr>w_orders := w_orders (cd_state e) @ os\<rparr>\<rparr>"
    and inc: "inc = ?inc" by (simp_all add: run_andThen run_prog)
  have "ledgers d = ledgers ?put" using keeps_ledgers [OF same_ledgers.change_slo] slo by (metis snd_conv)
  with e have "ledgers e = ledgers ?put" by simp
  with os(2,3) show "opened uuid5 sc c inc c'"
    by (simp add: opened_def inc c' ledgers_def put_incident_def find_incident_def schedule_def Let_def lost_at_start_def)
qed

lemma same_ledgers_deployments [keeps_intros]:
  "keeps (\<lambda>d. ledgers d = K) (modifies (\<lambda>c. c\<lparr>cd_state := (cd_state c)\<lparr>w_deployments := f c\<rparr>\<rparr>))"
  by (rule keeps_modifies) (simp add: ledgers_def schedule_def Let_def)

lemma opens_family: "opens uuid5 sc (inject_family uuid5 sc)"
  unfolding inject_family_def Let_def inject_bad_deploy_def inject_pool_exhaustion_def
    inject_cache_outage_def inject_traffic_saturation_def
    inject_retry_storm_def inject_memory_leak_def inject_config_regression_def
    inject_datastore_failover_def inject_payment_provider_outage_def inject_novel_def
    inject_pool_driver_migration_def inject_cache_topology_migration_def
  by (intro opens_intros keeps_intros same_ledgers.set_health same_ledgers.change_service
    same_ledgers.change_dependency same_ledgers.degrade same_ledgers.config)

lemma inject_next_opened:
  assumes "inject_next uuid5 c = (Inr inc, c')"
  obtains sc d where "cd_next_scenario c < length (cd_scenarios c)" and "sc = cd_scenarios c ! cd_next_scenario c"
    and "opened uuid5 sc d inc c'" and "w_orders (cd_state d) = w_orders (cd_state c)"
    and "w_actions (cd_state d) = w_actions (cd_state c)"
    and "schedule d = schedule (c\<lparr>cd_next_scenario := Suc (cd_next_scenario c)\<rparr>)"
proof -
  let ?sc = "cd_scenarios c ! cd_next_scenario c" and ?w = "cd_state c"
  let ?d = "c\<lparr>cd_next_scenario := Suc (cd_next_scenario c), cd_state := ?w\<lparr>w_now :=
    max (w_now ?w) (cd_start_time c + sec (scn_inject_at_seconds ?sc))\<rparr>\<rparr>"
  from assms have "cd_next_scenario c < length (cd_scenarios c)" "inject_family uuid5 ?sc ?d = (Inr inc, c')"
    by (auto simp: inject_next_def Let_def split: if_splits)
  with opens_family [of uuid5 ?sc] show thesis
    by (intro that [of ?sc ?d]) (auto simp: opens_def schedule_def)
qed

end
