(* ===== verification/Ev_Arms.thy ===== *)
theory Ev_Arms
  imports Ev_Replay
begin

text \<open>
  The runs of an arm: each record of an incident accounts for its scenario, the policy of the oracle and
  the decision of the responder, and the records of two arms differ only in what the responder did.
\<close>

section \<open>One incident\<close>

text \<open>What identifies a record; the number of earlier incidents of its family is threaded through.\<close>

definition case_of :: "incident_result \<Rightarrow> string \<times> string \<times> string \<times> string \<times> nat" where
  "case_of r = (ir_scenario_id r, ir_incident_id r, ir_family_id r, ir_variant_id r, ir_occurrence r)"

definition scenario_case :: "(string \<Rightarrow> string) \<Rightarrow> int \<Rightarrow> scenario \<Rightarrow> nat \<Rightarrow>
    string \<times> string \<times> string \<times> string \<times> nat" where
  "scenario_case uuid5 seed sc n = (scn_id sc, sim_id uuid5 seed ''incident'' (scn_id sc),
     scn_family_id sc, scn_variant_id sc, n)"

definition policy_for :: "conductor \<Rightarrow> scenario \<Rightarrow> oracle_policy option" where
  "policy_for c sc = map_option (dict_get (cd_scenario_oracle c) (scn_id sc)) (map_of (cd_oracle c) (scn_family_id sc))"

text \<open>The decision was taken on an observation of this incident; the plan ended with the last required
  action, so every applied action is a required one or a miss.\<close>

definition accounts :: "conductor \<Rightarrow> (observation \<Rightarrow> responder_decision) \<Rightarrow> scenario \<Rightarrow> incident_result \<Rightarrow> bool" where
  "accounts c decide sc r \<longleftrightarrow> (\<exists>p obs. policy_for c sc = Some p \<and>
     obs_incident_id obs = ir_incident_id r \<and> obs_title obs = scn_title sc \<and>
     obs_service obs = scn_target_service sc \<and> 0 \<le> rd_decision_seconds (decide obs) \<and>
     ir_actions r = length (pol_required_actions p) + ir_wrong_actions r \<and>
     ir_actions r \<le> length (rd_actions (decide obs)) \<and>
     ir_mttr_seconds r = rd_decision_seconds (decide obs) +
       int (length (pol_required_actions p)) * pol_action_seconds p +
       int (ir_wrong_actions r) * pol_wrong_action_penalty_seconds p \<and>
     ir_failed_orders r = lost_at_start sc + 2 * ir_wrong_actions r \<and>
     ir_abstained r = rd_abstained (decide obs) \<and>
     ir_retrieved_memory_ids r = map hit_memory_id (rd_retrieved (decide obs)) \<and>
     ir_authorized_memory_id r = rd_authorized_memory_id (decide obs))"

lemma accounts_schedule:
  "cd_oracle d = cd_oracle c \<Longrightarrow> cd_scenario_oracle d = cd_scenario_oracle c \<Longrightarrow> accounts d = accounts c"
  by (intro ext) (simp add: accounts_def policy_for_def)

lemma in_sim_Inr: "in_sim m c = (Inr x, c') \<longleftrightarrow> m c = (Inr x, c')"
  by (auto simp: in_sim_def split: prod.splits sum.splits)

lemma observe_Inr:
  assumes "observe_incident iid c = (Inr obs, c')"
  obtains inc where "c' = c" "find_incident c iid = Some inc" "obs_incident_id obs = inc_id inc"
    "obs_title obs = inc_title inc" "obs_service obs = inc_service inc"
  using assms by (auto simp: observe_incident_def prog_simps of_world_def get_slo_def get_service_def
      find_incident_def split: option.splits)

lemma whole_seconds_sec [simp]: "whole_seconds (sec n) = n"
proof -
  have "- (n * 1000000) div 1000000 = - n" by (simp add: mult_minus_left [symmetric] del: mult_minus_left)
  then show ?thesis by (simp add: whole_seconds_def sec_def)
qed

lemma own_filter: "own_orders iid os \<Longrightarrow> filter (\<lambda>x. ord_incident_id x = iid) os = os"
  by (simp add: own_orders_def list_all_iff filter_id_conv)

lemma log_filter: "log_of iid rs as \<Longrightarrow> filter (\<lambda>a. act_incident_id a = iid) as = as"
  unfolding log_of_def by (induction rule: list_all2_induct) auto

lemma log_length: "log_of iid rs as \<Longrightarrow> length as = length rs"
  unfolding log_of_def by (simp add: list_all2_lengthD)

lemma outcomes_of: "apply_action uuid5 iid kind t ps who mem c = (Inr r, c') \<Longrightarrow>
    res_outcome r \<in> {''success'', ''no_effect''}"
  by (erule apply_action_ledgers) auto

lemma play_outcomes:
  "play uuid5 iid mem as c = (Inr rs, c') \<Longrightarrow> r \<in> set rs \<Longrightarrow> res_outcome r \<in> {''success'', ''no_effect''}"
proof (induction as arbitrary: c rs)
  case (Cons a as)
  from Cons.prems(1) obtain r0 d where "apply_action uuid5 iid (pl_action_type a) (pl_target_service a)
      (pl_params a) ''agent:postmortem'' mem c = (Inr r0, d)"
    and rest: "(if res_resolved r0 then ret [r0]
      else andThen (play uuid5 iid mem as) (\<lambda>rs. ret (r0 # rs))) d = (Inr rs, c')"
    by (auto elim!: andThen_Inr)
  note first = outcomes_of [OF this(1)]
  show ?case
  proof (cases "res_resolved r0")
    case True
    with rest first Cons.prems(2) show ?thesis by (auto simp: run_prog)
  next
    case False
    with rest obtain rs2 where "play uuid5 iid mem as d = (Inr rs2, c')" "rs = r0 # rs2"
      by (auto simp: run_prog elim!: andThen_Inr)
    with Cons.IH Cons.prems(2) first show ?thesis by auto
  qed
qed (simp add: run_prog)

lemma missed_outcomes:
  "(\<And>r. r \<in> set rs \<Longrightarrow> res_outcome r \<in> {''success'', ''no_effect''}) \<Longrightarrow>
   length (filter (\<lambda>x. x = ''no_effect'') (map res_outcome rs)) = missed rs"
proof (induction rs)
  case Nil
  show ?case by (simp add: missed_def)
next
  case (Cons r rs)
  from Cons.prems [of r] have "res_outcome r = ''success'' \<or> res_outcome r = ''no_effect''" by simp
  with Cons show ?case by (auto simp: missed_Cons)
qed

lemma advance_Inr: "advance_time n c = (Inr x, c') \<longleftrightarrow>
    0 \<le> n \<and> c' = set_now (w_now (cd_state c) + sec n) c"
  by (auto simp: advance_time_def prog_simps on_world_def set_now_def)

lemma run_incident_Inr:
  assumes "run_incident uuid5 name decide occ c = (Inr (r, occ'), c')"
  obtains inc obs c1 rs mttr where "inject_next uuid5 c = (Inr inc, c1)"
    and "observe_incident (inc_id inc) c1 = (Inr obs, c1)"
    and "0 \<le> rd_decision_seconds (decide obs)"
    and "play uuid5 (inc_id inc) (memory_ref_of (decide obs)) (rd_actions (decide obs))
      (set_now (w_now (cd_state c1) + sec (rd_decision_seconds (decide obs))) c1) = (Inr rs, c')"
    and "Option.bind (find_incident c' (inc_id inc)) inc_mttr_seconds = Some mttr"
    and "r = result_of inc (dict_get occ (inc_family_id inc) 0 + 1) (decide obs) (map res_outcome rs) mttr
         (filter (\<lambda>x. ord_incident_id x = inc_id inc) (drop (length (w_orders (cd_state c))) (w_orders (cd_state c'))))
         (filter (\<lambda>a. act_incident_id a = inc_id inc) (drop (length (w_actions (cd_state c))) (w_actions (cd_state c'))))"
    and "occ' = AList.update (inc_family_id inc) (dict_get occ (inc_family_id inc) 0 + 1) occ"
proof -
  from assms [unfolded run_incident_def Let_def run_step] show thesis
  proof (elim andThen_Inr, unfold in_sim_Inr advance_Inr)
    fix inc :: incident and c1 c2 c3 c4 :: conductor and obs rs
    let ?mttr = "Option.bind (map_of (w_incidents (cd_state c4)) (inc_id inc)) inc_mttr_seconds"
    assume inject: "inject_next uuid5 c = (Inr inc, c1)" and obs: "observe_incident (inc_id inc) c1 = (Inr obs, c2)"
      and "0 \<le> rd_decision_seconds (decide obs) \<and> c3 = set_now (w_now (cd_state c2) + sec (rd_decision_seconds (decide obs))) c2"
      and "play uuid5 (inc_id inc) (memory_ref_of (decide obs)) (rd_actions (decide obs)) c3 = (Inr rs, c4)"
      and "(case Option.bind (map_of (w_incidents (cd_state c4)) (inc_id inc)) inc_mttr_seconds of
         None \<Rightarrow> raise (Assertion_failure (name @ '' failed to resolve '' @ inc_scenario_id inc))
       | Some mttr \<Rightarrow> ret (result_of inc (dict_get occ (inc_family_id inc) 0 + 1) (decide obs) (map res_outcome rs) mttr
           (filter (\<lambda>x. ord_incident_id x = inc_id inc) (drop (length (w_orders (cd_state c))) (w_orders (cd_state c4))))
           (filter (\<lambda>a. act_incident_id a = inc_id inc) (drop (length (w_actions (cd_state c))) (w_actions (cd_state c4)))),
           AList.update (inc_family_id inc) (dict_get occ (inc_family_id inc) 0 + 1) occ)) c4 = (Inr (r, occ'), c')"
    moreover have "c2 = c1" using obs by (rule observe_Inr)
    ultimately show thesis
      by (intro that [of inc c1 obs rs "the ?mttr"]) (auto simp: run_prog find_incident_def split: option.splits)
  qed
qed

text \<open>A plan that was played on a freshly injected incident, \<open>dt\<close> after its opening.\<close>

definition case_mttr :: "conductor \<Rightarrow> string \<Rightarrow> int option" where
  "case_mttr c iid = Option.bind (find_incident c iid) inc_mttr_seconds"

definition case_outcome :: "conductor \<Rightarrow> scenario \<Rightarrow> int \<Rightarrow> action_result list \<Rightarrow> int option \<Rightarrow> bool" where
  "case_outcome c sc dt rs mttr \<longleftrightarrow> (if rs = [] then mttr = None
     else \<exists>p. policy_for c sc = Some p \<and> mttr = (if matched rs = length (pol_required_actions p)
       then Some (whole_seconds (dt + sec (cost p rs))) else None))"

lemma played_case:
  assumes inj: "inject_next uuid5 c = (Inr inc, c1)"
    and play: "play uuid5 (inc_id inc) mem as (set_now (w_now (cd_state c1) + dt) c1) = (Inr rs, c')"
  obtains sc os log now where "cd_next_scenario c < length (cd_scenarios c)"
    and "sc = cd_scenarios c ! cd_next_scenario c" and "inc = new_incident uuid5 (cd_seed c) sc now"
    and "find_incident c1 (inc_id inc) = Some inc"
    and "schedule c' = schedule (c\<lparr>cd_next_scenario := Suc (cd_next_scenario c)\<rparr>)"
    and "w_orders (cd_state c') = w_orders (cd_state c) @ os" and "own_orders (inc_id inc) os"
    and "length os = lost_at_start sc + 2 * missed rs"
    and "w_actions (cd_state c') = w_actions (cd_state c) @ log" and "log_of (inc_id inc) rs log"
    and "length rs \<le> length as" and "case_outcome c sc dt rs (case_mttr c' (inc_id inc))"
proof -
  from inj obtain sc d where sc: "cd_next_scenario c < length (cd_scenarios c)" "sc = cd_scenarios c ! cd_next_scenario c"
    and op: "opened uuid5 sc d inc c1" and d: "w_orders (cd_state d) = w_orders (cd_state c)"
      "w_actions (cd_state d) = w_actions (cd_state c)"
      "schedule d = schedule (c\<lparr>cd_next_scenario := Suc (cd_next_scenario c)\<rparr>)" by (rule inject_next_opened)
  define i where "i = inc_id inc"
  define c2 where "c2 = set_now (w_now (cd_state c1) + dt) c1"
  have d2: "cd_seed d = cd_seed c" "cd_oracle d = cd_oracle c" "cd_scenario_oracle d = cd_scenario_oracle c"
    using d(3) by (simp_all add: schedule_def)
  have inc: "inc = new_incident uuid5 (cd_seed c) sc (w_now (cd_state d))" using op d2 by (simp add: opened_def)
  have f1: "find_incident c1 i = Some inc" and sched1: "schedule c1 = schedule d" using op unfolding opened_def i_def by blast+
  have f2: "find_incident c2 i = Some inc" and sched2: "schedule c2 = schedule d"
    using f1 sched1 by (simp_all add: c2_def set_now_def find_incident_def)
  have fresh: "inc_mttr_seconds inc = None" "inc_oracle_step inc = 0" "inc_status inc = Open_incident"
    "inc_scenario_id inc = scn_id sc" "inc_family_id inc = scn_family_id sc" "inc_opened_at inc = w_now (cd_state c1)"
    using op by (simp_all add: opened_def inc new_incident_def)
  have pol2: "policy_of c2 inc = policy_for c sc"
    using sched2 d2 by (simp add: policy_of_def policy_for_def fresh schedule_def)
  obtain os1 where os1: "w_orders (cd_state c2) = w_orders (cd_state c) @ os1" "own_orders i os1"
      "length os1 = lost_at_start sc" and acts: "w_actions (cd_state c2) = w_actions (cd_state c)"
    using op d(1,2) by (auto simp: opened_def i_def c2_def set_now_def)
  have wr: "mttr_when_resolved inc" by (simp add: mttr_when_resolved_def fresh)
  note play' = play [folded i_def c2_def]
  note found = that [OF sc inc f1 [unfolded i_def]]
  show thesis
  proof (cases "policy_for c sc")
    case None
    have "as = []"
    proof (cases as)
      case (Cons a as')
      obtain e where "apply_action uuid5 i (pl_action_type a) (pl_target_service a) (pl_params a)
          ''agent:postmortem'' mem c2 = (Inl e, c2)"
        using apply_action_guard [of c2 i] f2 None pol2 by metis
      then show ?thesis using play' Cons by (simp add: run_andThen)
    qed simp
    then have "rs = []" "c' = c2" using play' by (simp_all add: run_prog)
    then show thesis using f2 os1 acts fresh(1) sched2 d(3)
      by (intro found [where os = os1 and log = "[]"])
        (simp_all add: case_mttr_def i_def case_outcome_def log_of_def missed_def)
  next
    case (Some p)
    from play_settled [OF play' f2 _ _ wr, of p] Some pol2
    have st: "settled p i inc c2 rs c'" "length rs \<le> length as" by (simp_all add: i_def)
    then obtain inc' os log where acc: "accounted p i inc c2 rs c'"
      and inc': "find_incident c' i = Some inc'" "mttr_when_resolved inc'"
      and os: "w_orders (cd_state c') = w_orders (cd_state c2) @ os" "own_orders i os"
      and log: "w_actions (cd_state c') = w_actions (cd_state c2) @ log" "log_of i rs log"
      and sched: "schedule c' = schedule c2"
      by (auto simp: settled_def orders_since_def)
    have now2: "w_now (cd_state c2) = w_now (cd_state c1) + dt" by (simp add: c2_def set_now_def)
    have lost: "length os = 2 * missed rs" using acc os(1) by (auto simp: accounted_def)
    have out: "case_outcome c sc dt rs (case_mttr c' i)"
    proof (cases "rs = []")
      case True
      with play_settled [OF play' f2 _ _ wr, of p] Some pol2 have "as = []" by (auto simp: i_def)
      with play' f2 fresh(1) True show ?thesis by (simp add: run_prog case_outcome_def case_mttr_def)
    next
      case False
      with acc inc'(1) have "inc_status inc' = Resolved \<longleftrightarrow> matched rs = length (pol_required_actions p)"
        "inc_status inc' = Resolved \<longrightarrow> inc_mttr_seconds inc' = Some (whole_seconds (dt + sec (cost p rs)))"
        by (auto simp: accounted_def fresh now2)
      with inc' False Some show ?thesis by (auto simp: case_outcome_def case_mttr_def mttr_when_resolved_def)
    qed
    show thesis
      by (rule found [where os = "os1 @ os" and log = log])
        (use os os1 log acts lost sched sched2 d(3) st(2) out in \<open>simp_all add: i_def\<close>)
  qed
qed

lemma run_incident_accounts:
  assumes run: "run_incident uuid5 name decide occ c = (Inr (r, occ'), c')"
  obtains sc where "cd_next_scenario c < length (cd_scenarios c)" "sc = cd_scenarios c ! cd_next_scenario c"
    "accounts c decide sc r" "case_of r = scenario_case uuid5 (cd_seed c) sc (dict_get occ (scn_family_id sc) 0 + 1)"
    "occ' = AList.update (scn_family_id sc) (dict_get occ (scn_family_id sc) 0 + 1) occ"
    "schedule c' = schedule (c\<lparr>cd_next_scenario := Suc (cd_next_scenario c)\<rparr>)"
proof -
  from run obtain inc obs c1 rs mttr where inj: "inject_next uuid5 c = (Inr inc, c1)"
    and obs: "observe_incident (inc_id inc) c1 = (Inr obs, c1)" and s: "0 \<le> rd_decision_seconds (decide obs)"
    and play: "play uuid5 (inc_id inc) (memory_ref_of (decide obs)) (rd_actions (decide obs))
      (set_now (w_now (cd_state c1) + sec (rd_decision_seconds (decide obs))) c1) = (Inr rs, c')"
    and mttr: "Option.bind (find_incident c' (inc_id inc)) inc_mttr_seconds = Some mttr"
    and r: "r = result_of inc (dict_get occ (inc_family_id inc) 0 + 1) (decide obs) (map res_outcome rs) mttr
         (filter (\<lambda>x. ord_incident_id x = inc_id inc) (drop (length (w_orders (cd_state c))) (w_orders (cd_state c'))))
         (filter (\<lambda>a. act_incident_id a = inc_id inc) (drop (length (w_actions (cd_state c))) (w_actions (cd_state c'))))"
    and occ': "occ' = AList.update (inc_family_id inc) (dict_get occ (inc_family_id inc) 0 + 1) occ"
    by (rule run_incident_Inr)
  obtain sc os log now where sc: "cd_next_scenario c < length (cd_scenarios c)" "sc = cd_scenarios c ! cd_next_scenario c"
    and inc: "inc = new_incident uuid5 (cd_seed c) sc now" and f1: "find_incident c1 (inc_id inc) = Some inc"
    and sched: "schedule c' = schedule (c\<lparr>cd_next_scenario := Suc (cd_next_scenario c)\<rparr>)"
    and os: "w_orders (cd_state c') = w_orders (cd_state c) @ os" "own_orders (inc_id inc) os"
      "length os = lost_at_start sc + 2 * missed rs"
    and log: "w_actions (cd_state c') = w_actions (cd_state c) @ log" "log_of (inc_id inc) rs log"
    and len: "length rs \<le> length (rd_actions (decide obs))"
    and out: "case_outcome c sc (sec (rd_decision_seconds (decide obs))) rs (case_mttr c' (inc_id inc))"
    by (rule played_case [OF inj play])
  from out mttr obtain p where p: "policy_for c sc = Some p" "matched rs = length (pol_required_actions p)"
    and m: "mttr = rd_decision_seconds (decide obs) + cost p rs"
    by (auto simp: case_outcome_def case_mttr_def split: if_splits simp flip: sec_add)
  have "length (filter (\<lambda>x. x = ''no_effect'') (map res_outcome rs)) = missed rs"
    by (rule missed_outcomes) (rule play_outcomes [OF play])
  then have fields: "ir_actions r = length rs" "ir_wrong_actions r = missed rs"
    "ir_failed_orders r = lost_at_start sc + 2 * missed rs"
    "ir_mttr_seconds r = rd_decision_seconds (decide obs) + cost p rs"
    using log_length [OF log(2)] log_filter [OF log(2)] own_filter [OF os(2)] os log(1) m
    by (simp_all add: r result_of_def)
  have total: "length rs = matched rs + missed rs" using matched_le [of rs] by (simp add: missed_def)
  have "obs_incident_id obs = inc_id inc" "obs_title obs = scn_title sc" "obs_service obs = scn_target_service sc"
    using observe_Inr [OF obs] f1 by (auto simp: inc new_incident_def)
  with fields p s len total have "accounts c decide sc r"
    unfolding accounts_def
    by (intro exI [of _ p] exI [of _ obs]) (simp add: cost_def r result_of_def)
  moreover have "case_of r = scenario_case uuid5 (cd_seed c) sc (dict_get occ (scn_family_id sc) 0 + 1)"
    by (simp add: case_of_def scenario_case_def r result_of_def inc new_incident_def)
  ultimately show thesis
    using sc occ' sched by (intro that) (simp_all add: inc new_incident_def)
qed

section \<open>The whole stream\<close>

fun cases_from :: "(string \<Rightarrow> string) \<Rightarrow> int \<Rightarrow> counts \<Rightarrow> scenario list \<Rightarrow>
    (string \<times> string \<times> string \<times> string \<times> nat) list" where
  "cases_from uuid5 seed occ [] = []"
| "cases_from uuid5 seed occ (sc # scs) = (let n = dict_get occ (scn_family_id sc) 0 + 1 in
     scenario_case uuid5 seed sc n # cases_from uuid5 seed (AList.update (scn_family_id sc) n occ) scs)"

text \<open>The same by position: the occurrence of an incident counts those of its family up to it.\<close>

definition occurrence_at :: "scenario list \<Rightarrow> nat \<Rightarrow> nat" where
  "occurrence_at scs j = length (filter (\<lambda>sc. scn_family_id sc = scn_family_id (scs ! j)) (take (Suc j) scs))"

lemma cases_from_positions:
  "cases_from uuid5 seed occ scs = map (\<lambda>j. scenario_case uuid5 seed (scs ! j)
     (dict_get occ (scn_family_id (scs ! j)) 0 + occurrence_at scs j)) [0..<length scs]"
proof (induction scs arbitrary: occ)
  case (Cons sc scs)
  have "occurrence_at (sc # scs) (Suc j) =
      (if scn_family_id sc = scn_family_id (scs ! j) then 1 else 0) + occurrence_at scs j" for j
    by (simp add: occurrence_at_def)
  moreover have "occurrence_at (sc # scs) 0 = 1" by (simp add: occurrence_at_def)
  ultimately show ?case
    unfolding cases_from.simps Let_def Cons length_Cons upt_conv_Cons [OF zero_less_Suc] map_Suc_upt [symmetric]
    by (auto simp: dict_get_update)
qed simp

lemma run_rounds_accounts:
  assumes "run_rounds uuid5 name decide n occ c = (Inr rs, c')" and "remaining_scenarios c \<le> n"
  shows "list_all2 (accounts c decide) (drop (cd_next_scenario c) (cd_scenarios c)) rs \<and>
    map case_of rs = cases_from uuid5 (cd_seed c) occ (drop (cd_next_scenario c) (cd_scenarios c)) \<and>
    remaining_scenarios c' = 0 \<and> cd_seed c' = cd_seed c"
  using assms
proof (induction n arbitrary: occ c rs)
  case 0
  then show ?case by (auto simp: run_prog remaining_scenarios_def)
next
  case (Suc n)
  show ?case
  proof (cases "remaining_scenarios c = 0")
    case True
    with Suc.prems(1) show ?thesis by (auto simp: run_step run_prog remaining_scenarios_def)
  next
    case False
    with Suc.prems(1) obtain r occ' d rs2 where r: "run_incident uuid5 name decide occ c = (Inr (r, occ'), d)"
      and rest: "run_rounds uuid5 name decide n occ' d = (Inr rs2, c')" and rs: "rs = r # rs2"
      by (auto simp: run_step run_prog elim!: andThen_Inr)
    from r obtain sc where sc: "cd_next_scenario c < length (cd_scenarios c)" "sc = cd_scenarios c ! cd_next_scenario c"
      and acc: "accounts c decide sc r"
      and case_r: "case_of r = scenario_case uuid5 (cd_seed c) sc (dict_get occ (scn_family_id sc) 0 + 1)"
      and occ': "occ' = AList.update (scn_family_id sc) (dict_get occ (scn_family_id sc) 0 + 1) occ"
      and sched: "schedule d = schedule (c\<lparr>cd_next_scenario := Suc (cd_next_scenario c)\<rparr>)"
      by (rule run_incident_accounts)
    from sched have d: "cd_scenarios d = cd_scenarios c" "cd_next_scenario d = Suc (cd_next_scenario c)"
      "cd_seed d = cd_seed c" "accounts d decide = accounts c decide"
      by (auto simp: schedule_def intro!: accounts_schedule [THEN fun_cong])
    have "remaining_scenarios d \<le> n" using Suc.prems(2) False d by (simp add: remaining_scenarios_def)
    from Suc.IH [OF rest this] d acc case_r occ' rs Cons_nth_drop_Suc [OF sc(1), symmetric] sc(2)
    show ?thesis by (simp add: Let_def)
  qed
qed

lemma run_arm_accounts:
  assumes "run_arm uuid5 name decide c = (Inr (rs, seed), c')"
  shows "list_all2 (accounts c decide) (drop (cd_next_scenario c) (cd_scenarios c)) rs \<and>
    map case_of rs = cases_from uuid5 (cd_seed c) [] (drop (cd_next_scenario c) (cd_scenarios c)) \<and>
    remaining_scenarios c' = 0 \<and> seed = cd_seed c"
proof -
  from assms have "run_rounds uuid5 name decide (remaining_scenarios c) [] c = (Inr rs, c') \<and> seed = cd_seed c'"
    unfolding run_arm_def run_step by (elim andThen_Inr) (simp add: run_step run_prog)
  then show ?thesis using run_rounds_accounts [of uuid5 name decide "remaining_scenarios c" "[]" c rs c'] by simp
qed

text \<open>The identities of the records, read off \<open>case_of\<close>.\<close>

lemma case_parts:
  "map ir_scenario_id rs = map fst (map case_of rs)"
  "map ir_incident_id rs = map (fst \<circ> snd) (map case_of rs)"
  "map ir_family_id rs = map (fst \<circ> snd \<circ> snd) (map case_of rs)"
  "map ir_variant_id rs = map (fst \<circ> snd \<circ> snd \<circ> snd) (map case_of rs)"
  "map ir_occurrence rs = map (snd \<circ> snd \<circ> snd \<circ> snd) (map case_of rs)"
  by (simp_all add: case_of_def)

end
