(* ===== verification/Ev_Bench.thy ===== *)
theory Ev_Bench
  imports Ev_Arms
begin

text \<open>A stream of one incident on which an arm runs, evaluated once for the concrete instances.\<close>

definition bench_fault :: fault where
  "bench_fault = \<lparr>flt_bad_version = None, flt_error_rate = None, flt_p99_ms = None,
     flt_availability = None, flt_utilization = None, flt_memory_utilization = Some 1,
     flt_near_miss = False, flt_environment_migrated = False, flt_dependency_key = None,
     flt_failed_service = None, flt_key = None, flt_bad_value = None, flt_burn_rate = None\<rparr>"

definition bench_fixture :: fixture where
  "bench_fixture = \<lparr>fx_seed = 7, fx_start_time = 0,
     fx_services = [\<lparr>si_name = ''c'', si_tier = ''1'', si_owner_team = ''pay'',
       si_current_version = ''v2'', si_previous_stable_version = Some ''v1'',
       si_capacity_units = Some 2\<rparr>],
     fx_dependencies = [],
     fx_slos = [\<lparr>li_service = ''c'', li_kind = ''saturation'', li_threshold = 1,
       li_window_seconds = 300, li_baseline = 0\<rparr>],
     fx_configs = [],
     fx_scenarios = [\<lparr>scn_id = ''s1'', scn_title = ''hot'', scn_target_service = ''c'',
       scn_severity = ''SEV2'', scn_family_id = ''F6_MEMORY_LEAK'', scn_variant_id = ''a'',
       scn_inject_at_seconds = 60, scn_fault = bench_fault, scn_failed_orders = Some 1\<rparr>]\<rparr>"

definition bench_policy :: oracle_policy where
  "bench_policy = \<lparr>pol_required_actions =
      [\<lparr>exp_action_type = ''restart_service'', exp_target_service = ''$incident.service'', exp_params = []\<rparr>],
     pol_action_seconds = 30, pol_wrong_action_penalty_seconds = 90\<rparr>"

definition bench_conductor :: conductor where
  "bench_conductor = new_conductor id bench_fixture [(''F6_MEMORY_LEAK'', bench_policy)] []"



definition restart_first :: "observation \<Rightarrow> responder_decision" where
  "restart_first obs = \<lparr>rd_actions = [plan ''restart_service'' (obs_service obs) [], page_human obs], rd_retrieved = [],
     rd_token_proxy = 0, rd_abstained = False, rd_authorized_memory_id = None, rd_decision_seconds = 5\<rparr>"

definition bench_run :: "(eval_error + incident_result list \<times> int) \<times> conductor" where
  "bench_run = run_arm id ''scripted'' restart_first bench_conductor"

lemma bench_evaluated: "(case bench_run of (Inr (rs, seed), c') \<Rightarrow> map ir_mttr_seconds rs = [35] | _ \<Rightarrow> False)"
  by code_simp

lemma bench_result:
  obtains rs seed c' where "run_arm id ''scripted'' restart_first bench_conductor = (Inr (rs, seed), c')"
    and "map ir_mttr_seconds rs = [35]"
  using bench_evaluated that by (auto simp: bench_run_def split: prod.splits sum.splits)

end
