(* ===== verification/Ev_Validity.thy ===== *)
theory Ev_Validity
  imports Ev_Runner
begin

text \<open>
  The temporal part of the benchmark (\<^verbatim>\<open>evaluation/postmortem_eval/runner.py\<close>): which memory the
  oracle expects for a scenario, and the replay that compares it with the one the bitemporal responder
  used.
\<close>

section \<open>Valid time\<close>

text \<open>\<open>_hashable\<close>: a dict becomes the tuple of its items in the order of their keys, a list a tuple.\<close>

fun hashed :: "pyval \<Rightarrow> pyval" where
  "hashed (PDict d) = PTuple (map (\<lambda>(k, v). PTuple [PStr k, v]) (sort_key fst (map (\<lambda>(k, v). (k, hashed v)) d)))"
| "hashed (PList xs) = PTuple (map hashed xs)"
| "hashed v = v"

type_synonym signature = "string \<times> pyval"

definition action_signature :: "string \<Rightarrow> (string, pyval) dict \<Rightarrow> signature" where
  "action_signature kind params = (kind, hashed (PDict params))"

text \<open>\<open>==\<close> on lists of signatures.\<close>

definition same_signatures :: "signature list \<Rightarrow> signature list \<Rightarrow> bool" where
  "same_signatures xs ys \<longleftrightarrow> list_all2 (\<lambda>(k, p) (l, q). k = l \<and> py_eq p q) xs ys"

type_synonym oracle_file = "(string, oracle_policy) dict \<times> (string, oracle_policy) dict"

definition oracle_required_signature :: "oracle_file \<Rightarrow> string \<Rightarrow> string \<Rightarrow> eval_error + signature list" where
  "oracle_required_signature oracle scenario family =
     (case (case map_of (snd oracle) scenario of Some p \<Rightarrow> Some p | None \<Rightarrow> map_of (fst oracle) family) of
        None \<Rightarrow> Inl (Sim_failure (SimKeyError family))
      | Some p \<Rightarrow> Inr (map (\<lambda>e. action_signature (exp_action_type e) (exp_params e)) (pol_required_actions p)))"

definition candidate_actions :: "corpus_item list \<Rightarrow> (string, signature list) dict" where
  "candidate_actions items = foldl (\<lambda>d i. if ci_gold i
     then AList.update (ci_memory_id i) (map (\<lambda>a. action_signature (pl_action_type a) (pl_params a)) (ci_actions i)) d
     else d) [] items"

definition candidate_families :: "corpus_item list \<Rightarrow> (string, string list) dict" where
  "candidate_families items = foldl (\<lambda>d i. if ci_gold i
     then AList.update (ci_family_id i) (dict_get d (ci_family_id i) [] @ [ci_memory_id i]) d else d) [] items"

definition expected_memory :: "corpus_item list \<Rightarrow> oracle_file \<Rightarrow> string \<Rightarrow> string \<Rightarrow> eval_error + string option" where
  "expected_memory items oracle scenario family =
     bindE (oracle_required_signature oracle scenario family) (\<lambda>required.
     Inr (find (\<lambda>m. case map_of (candidate_actions items) m of None \<Rightarrow> False | Some s \<Rightarrow> same_signatures s required)
       (dict_get (candidate_families items) family [])))"

record validity_record =
  tv_scenario_id :: string
  tv_family_id :: string
  tv_variant_id :: string
  tv_observed_at :: int
  tv_authorized_memory_id :: "string option"
  tv_expected_memory_id :: "string option"
  tv_applied_currently_valid_fix :: bool
  tv_applied_stale_fact :: bool
  tv_resolved :: bool
  tv_mttr_seconds :: "int option"

definition validity_record_of :: "incident \<Rightarrow> observation \<Rightarrow> string list \<Rightarrow> string option \<Rightarrow> string option \<Rightarrow>
    int option \<Rightarrow> validity_record" where
  "validity_record_of inc obs candidates expected chosen mttr = \<lparr>
     tv_scenario_id = inc_scenario_id inc, tv_family_id = inc_family_id inc, tv_variant_id = inc_variant_id inc,
     tv_observed_at = obs_observed_at obs, tv_authorized_memory_id = chosen, tv_expected_memory_id = expected,
     tv_applied_currently_valid_fix = (chosen = expected),
     tv_applied_stale_fact = (case chosen of None \<Rightarrow> False
       | Some a \<Rightarrow> a \<in> set (filter (\<lambda>m. Some m \<noteq> expected) candidates)),
     tv_resolved = (mttr \<noteq> None), tv_mttr_seconds = mttr\<rparr>"

definition validity_incident :: "(string \<Rightarrow> string) \<Rightarrow> corpus_item list \<Rightarrow> oracle_file \<Rightarrow> (observation \<Rightarrow> responder_decision) \<Rightarrow>
    (conductor, eval_error, validity_record) prog" where
  "validity_incident uuid5 items oracle decide =
     andThen (in_sim (inject_next uuid5)) (\<lambda>inc. let iid = inc_id inc in
     andThen (in_sim (observe_incident iid)) (\<lambda>obs. let d = decide obs in
     andThen (in_sim (advance_time (rd_decision_seconds d))) (\<lambda>_.
     andThen (in_sim (play uuid5 iid (memory_ref_of d) (rd_actions d))) (\<lambda>_.
     andThen (lift_result (expected_memory items oracle (inc_scenario_id inc) (inc_family_id inc))) (\<lambda>expected.
     andThen (reads (\<lambda>c. Option.bind (map_of (w_incidents (cd_state c)) iid) inc_mttr_seconds)) (\<lambda>mttr.
     ret (validity_record_of inc obs (dict_get (candidate_families items) (inc_family_id inc) []) expected
       (rd_authorized_memory_id d) mttr)))))))"

fun validity_rounds :: "(string \<Rightarrow> string) \<Rightarrow> corpus_item list \<Rightarrow> oracle_file \<Rightarrow> (observation \<Rightarrow> responder_decision) \<Rightarrow> nat \<Rightarrow>
    (conductor, eval_error, validity_record list) prog" where
  "validity_rounds uuid5 items oracle decide 0 = ret []"
| "validity_rounds uuid5 items oracle decide (Suc n) = andThen (reads remaining_scenarios) (\<lambda>remaining.
     if remaining = 0 then ret []
     else andThen (validity_incident uuid5 items oracle decide) (\<lambda>r.
       andThen (validity_rounds uuid5 items oracle decide n) (\<lambda>rs. ret (r # rs))))"

record validity_report =
  vr_families :: "string list"
  vr_incidents_evaluated :: nat
  vr_accuracy :: real
  vr_stale_fact_applications :: nat
  vr_meets_target :: bool
  vr_incidents :: "validity_record list"

definition temporal_validity_target :: real where
  "temporal_validity_target = 9 / 10"

definition stale_fact_target :: nat where
  "stale_fact_target = 0"

definition validity_report_of :: "(real \<Rightarrow> real) \<Rightarrow> corpus_item list \<Rightarrow> validity_record list \<Rightarrow> validity_report" where
  "validity_report_of round6 items records = (let
     total = length records;
     correct = length (filter tv_applied_currently_valid_fix records);
     stale = length (filter tv_applied_stale_fact records);
     accuracy = (if total \<noteq> 0 then round6 (real correct / real total) else 0) in
     \<lparr>vr_families = sort (map fst (candidate_families items)), vr_incidents_evaluated = total, vr_accuracy = accuracy,
      vr_stale_fact_applications = stale,
      vr_meets_target = (temporal_validity_target \<le> accuracy \<and> stale = stale_fact_target), vr_incidents = records\<rparr>)"

text \<open>The conductor is built from the fixture and the oracle that the expected memories are read from.\<close>

definition run_temporal_validity :: "(string \<Rightarrow> string) \<Rightarrow> (real \<Rightarrow> real) \<Rightarrow> nat \<Rightarrow> corpus_item list \<Rightarrow> fixture \<Rightarrow> oracle_file \<Rightarrow>
    eval_error + validity_report" where
  "run_temporal_validity uuid5 round6 k items fx oracle = (let
     c = new_conductor uuid5 fx (fst oracle) (snd oracle);
     decide = temporal_decide round6 (new_memory_responder items k default_match_threshold) (validity_of items) in
     bindE (fst (validity_rounds uuid5 items oracle decide (remaining_scenarios c) c))
       (\<lambda>records. Inr (validity_report_of round6 items records)))"

end
