(* ===== verification/Ev_Report.thy ===== *)
theory Ev_Report
  imports Ev_Validity
begin

text \<open>
  The report of the benchmark (\<^verbatim>\<open>evaluation/postmortem_eval/runner.py\<close>): summaries of an arm, the
  decision-quality block and the whole run. \<open>rnd n\<close> is \<open>round(_, n)\<close>.
\<close>

section \<open>Summaries\<close>

definition percentile :: "int list \<Rightarrow> real \<Rightarrow> eval_error + int" where
  "percentile values quantile = (let ordered = sort values;
     index = max 0 (\<lceil>quantile * real (length ordered)\<rceil> - 1) in
     if nat index < length ordered then Inr (ordered ! nat index) else Inl Index_failure)"

definition median :: "int list \<Rightarrow> eval_error + real" where
  "median values = (let ordered = sort values; n = length ordered in
     if n = 0 then Inl No_data
     else if odd n then Inr (real_of_int (ordered ! (n div 2)))
     else Inr (real_of_int (ordered ! (n div 2 - 1) + ordered ! (n div 2)) / 2))"

record summary =
  sm_incidents :: nat
  sm_resolved :: nat
  sm_median_mttr :: real
  sm_p90_mttr :: int
  sm_mean_actions :: real
  sm_first_action_accuracy :: real
  sm_wrong_actions :: nat
  sm_escalations :: nat
  sm_failed_orders :: nat
  sm_failed_order_value_cents :: int
  sm_token_proxy_total :: int
  sm_token_proxy_mean :: real
  sm_incidents_detail :: "incident_result list"

definition count_true :: "bool list \<Rightarrow> nat" where
  "count_true bs = length (filter (\<lambda>b. b) bs)"

definition summarize :: "(nat \<Rightarrow> real \<Rightarrow> real) \<Rightarrow> incident_result list \<Rightarrow> eval_error + summary" where
  "summarize rnd results = (let
     mttr = map ir_mttr_seconds results;
     tokens = sum_list (map ir_token_proxy results) in
     bindE (median mttr) (\<lambda>med.
     bindE (percentile mttr (9 / 10)) (\<lambda>p90.
     bindE (mean (map (\<lambda>r. real (ir_actions r)) results)) (\<lambda>actions.
     bindE (share (map ir_first_action_correct results)) (\<lambda>accuracy.
     bindE (checkE (results \<noteq> []) Zero_division) (\<lambda>_.
     Inr \<lparr>sm_incidents = length results, sm_resolved = length results, sm_median_mttr = med, sm_p90_mttr = p90,
       sm_mean_actions = rnd 3 actions, sm_first_action_accuracy = rnd 6 accuracy,
       sm_wrong_actions = sum_list (map ir_wrong_actions results),
       sm_escalations = count_true (map ir_escalated results),
       sm_failed_orders = sum_list (map ir_failed_orders results),
       sm_failed_order_value_cents = sum_list (map ir_failed_order_value_cents results),
       sm_token_proxy_total = tokens, sm_token_proxy_mean = rnd 3 (real_of_int tokens / real (length results)),
       sm_incidents_detail = results\<rparr>))))))"

section \<open>Decision quality\<close>

record mechanism_check =
  mc_deterministic_ids_match :: bool
  mc_both_arms_resolved_all_incidents :: bool
  mc_baseline_played_no_wrong_first_action :: bool
  mc_with_memory :: summary
  mc_competent_baseline :: summary

datatype decision_quality = Pending_run mechanism_check | Measured_run "(string, pyval) dict"

text \<open>The measured report: \<open>reports\<close> maps a path to the JSON value of the file, if there is one; the block
  of a report is a dictionary.\<close>

definition load_measured :: "(string \<Rightarrow> pyval option) \<Rightarrow> string option \<Rightarrow>
    eval_error + (string, pyval) dict option" where
  "load_measured reports path = (case path of None \<Rightarrow> Inr None
   | Some file \<Rightarrow> (case reports file of
       None \<Rightarrow> Inl (Missing_file file)
     | Some (PDict report) \<Rightarrow>
         if pget report ''status'' \<noteq> PStr ''measured'' then Inl (Not_measured file)
         else (case map_of report ''decision_quality'' of
           None \<Rightarrow> Inl (Missing_key ''decision_quality'')
         | Some (PDict block) \<Rightarrow> Inr (Some (foldl (\<lambda>d (k, v). AList.update k v d) block
             [(''status'', PStr ''measured''), (''measured'', PBool True), (''produced_by'', pget report ''produced_by''),
              (''source_report'', PStr file), (''method'', pget report ''method''), (''arms'', pget report ''arms'')]))
         | Some _ \<Rightarrow> Inl Not_a_mapping)
     | Some _ \<Rightarrow> Inl Not_a_mapping))"

definition decision_quality_of :: "(nat \<Rightarrow> real \<Rightarrow> real) \<Rightarrow> (string \<Rightarrow> pyval option) \<Rightarrow> string option \<Rightarrow>
    incident_result list \<Rightarrow> incident_result list \<Rightarrow> eval_error + decision_quality" where
  "decision_quality_of rnd reports path memory baseline =
     bindE (load_measured reports path) (\<lambda>measured. case measured of
       Some block \<Rightarrow> Inr (Measured_run block)
     | None \<Rightarrow>
         bindE (summarize rnd memory) (\<lambda>with_memory.
         bindE (summarize rnd baseline) (\<lambda>competent_baseline.
         Inr (Pending_run \<lparr>
           mc_deterministic_ids_match = (map ir_incident_id memory = map ir_incident_id baseline),
           mc_both_arms_resolved_all_incidents =
             (list_all (\<lambda>r. Some (ir_mttr_seconds r) \<noteq> None) memory \<and> list_all (\<lambda>r. Some (ir_mttr_seconds r) \<noteq> None) baseline),
           mc_baseline_played_no_wrong_first_action = list_all (\<lambda>r. ir_first_action_correct r \<or> ir_abstained r) baseline,
           mc_with_memory = with_memory, mc_competent_baseline = competent_baseline\<rparr>))))"

section \<open>The run\<close>

record report =
  rp_seed :: int
  rp_retrieval_k :: nat
  rp_gold_memories :: nat
  rp_hard_negatives :: nat
  rp_distractors :: nat
  rp_retrieval :: retrieval_metrics
  rp_temporal_validity :: validity_report
  rp_decision_quality :: decision_quality

record harness =
  hn_fixture :: fixture
  hn_oracle :: oracle_file
  hn_corpus :: "corpus_item list"
  hn_drift_fixture :: fixture
  hn_drift_oracle :: oracle_file
  hn_drift_corpus :: "corpus_item list"
  hn_retrieval_k :: nat
  hn_decision_quality_path :: "string option"

definition run_report :: "(string \<Rightarrow> string) \<Rightarrow> (nat \<Rightarrow> real \<Rightarrow> real) \<Rightarrow> (string \<Rightarrow> pyval option) \<Rightarrow> harness \<Rightarrow>
    eval_error + report" where
  "run_report uuid5 rnd reports h = (let
     l = labels_of (hn_corpus h);
     c = new_conductor uuid5 (hn_fixture h) (fst (hn_oracle h)) (snd (hn_oracle h));
     memory = memory_decide (rnd 6) (new_memory_responder (hn_corpus h) (hn_retrieval_k h) default_match_threshold) in
     bindE (run_both uuid5 c memory baseline_decide) (\<lambda>(memory_results, baseline_results, seed).
     bindE (retrieval_metrics_of (rnd 6) l memory_results) (\<lambda>retrieval.
     bindE (run_temporal_validity uuid5 (rnd 6) (hn_retrieval_k h) (hn_drift_corpus h) (hn_drift_fixture h) (hn_drift_oracle h)) (\<lambda>validity.
     bindE (decision_quality_of rnd reports (hn_decision_quality_path h) memory_results baseline_results) (\<lambda>quality.
     Inr \<lparr>rp_seed = seed, rp_retrieval_k = hn_retrieval_k h,
       rp_gold_memories = sum_list (map (length \<circ> snd) (lb_gold l)), rp_hard_negatives = length (lb_hard_negatives l),
       rp_distractors = length (lb_distractors l), rp_retrieval = retrieval, rp_temporal_validity = validity,
       rp_decision_quality = quality\<rparr>)))))"

end
