(* ===== verification/Ev_Figures.thy ===== *)
theory Ev_Figures
  imports Ev_Report Ev_Arms
begin

text \<open>
  Facts about the figures of the benchmark: ranks of sorted values, means of shares, discounted gains, and the
  replay of the temporal part.
\<close>

section \<open>Ranks\<close>

lemma count_sorted:
  fixes xs :: "'a::linorder list"
  shows "length (filter p (sort xs)) = length (filter p xs)"
  by (simp add: filter_sort)

lemma sorted_le_count:
  assumes "sorted xs" "k < length xs"
  shows "Suc k \<le> length (filter (\<lambda>x. x \<le> xs ! k) xs)"
proof -
  have "filter (\<lambda>x. x \<le> xs ! k) (take (Suc k) xs) = take (Suc k) xs"
    using assms by (auto simp: filter_id_conv in_set_conv_nth intro!: sorted_nth_mono)
  then have "Suc k = length (filter (\<lambda>x. x \<le> xs ! k) (take (Suc k) xs))" using assms(2) by simp
  also have "\<dots> \<le> length (filter (\<lambda>x. x \<le> xs ! k) (take (Suc k) xs @ drop (Suc k) xs))"
    unfolding filter_append by simp
  finally show ?thesis by simp
qed

lemma sorted_less_count:
  assumes "sorted xs" "k < length xs"
  shows "length (filter (\<lambda>x. x < xs ! k) xs) \<le> k"
proof -
  have "filter (\<lambda>x. x < xs ! k) (drop k xs) = []"
    using assms by (auto simp: filter_empty_conv in_set_conv_nth not_less intro!: sorted_nth_mono)
  then have "filter (\<lambda>x. x < xs ! k) (take k xs @ drop k xs) = filter (\<lambda>x. x < xs ! k) (take k xs)"
    unfolding filter_append by simp
  then show ?thesis by simp (metis length_filter_le length_take min.absorb2 assms(2) less_imp_le)
qed

lemma sorted_greater_count:
  assumes "sorted xs" "k < length xs"
  shows "length (filter (\<lambda>x. xs ! k < x) xs) + Suc k \<le> length xs"
proof -
  have "length (filter (\<lambda>x. xs ! k < x) xs) + length (filter (\<lambda>x. \<not> xs ! k < x) xs) = length xs"
    by (rule sum_length_filter_compl)
  moreover have "Suc k \<le> length (filter (\<lambda>x. \<not> xs ! k < x) xs)"
    using sorted_le_count [OF assms] by (simp add: not_less)
  ultimately show ?thesis by linarith
qed

text \<open>The nearest-rank percentile: at least the fraction \<open>q\<close> of the values is at most it, and less than that
  is below it.\<close>

definition nearest_rank :: "real \<Rightarrow> int list \<Rightarrow> int \<Rightarrow> bool" where
  "nearest_rank q values v \<longleftrightarrow> v \<in> set values \<and>
     q * real (length values) \<le> real (length (filter (\<lambda>x. x \<le> v) values)) \<and>
     real (length (filter (\<lambda>x. x < v) values)) < q * real (length values)"

lemma percentile_rank:
  assumes "values \<noteq> []" "0 < q" "q \<le> 1"
  shows "\<exists>v. percentile values q = Inr v \<and> nearest_rank q values v"
proof -
  let ?n = "real (length values)" and ?xs = "sort values"
  define k where "k = nat (\<lceil>q * ?n\<rceil> - 1)"
  have pos: "0 < q * ?n" using assms by simp
  then have "0 < \<lceil>q * ?n\<rceil>" by simp
  then have k: "real k = of_int \<lceil>q * ?n\<rceil> - 1" "nat (max 0 (\<lceil>q * ?n\<rceil> - 1)) = k" by (simp_all add: k_def)
  have "q * ?n \<le> ?n" using mult_right_mono [OF assms(3), of ?n] by simp
  then have "\<lceil>q * ?n\<rceil> \<le> int (length values)" by (simp add: ceiling_le_iff)
  with k(1) have len: "k < length ?xs" by simp
  have "q * ?n \<le> real (Suc k)" "real k < q * ?n" using k(1) by (simp_all, linarith+)
  moreover have "Suc k \<le> length (filter (\<lambda>x. x \<le> ?xs ! k) values)"
    using sorted_le_count [OF sorted_sort len] by (simp only: count_sorted)
  moreover have "length (filter (\<lambda>x. x < ?xs ! k) values) \<le> k"
    using sorted_less_count [OF sorted_sort len] by (simp only: count_sorted)
  moreover have "?xs ! k \<in> set values" using nth_mem [OF len] by simp
  moreover have "percentile values q = Inr (?xs ! k)" using len k(2) by (simp add: percentile_def Let_def)
  ultimately show ?thesis by (intro exI [of _ "?xs ! k"]) (simp add: nearest_rank_def)
qed

text \<open>The median: at most half of the values are below it and at most half above.\<close>

definition halves :: "int list \<Rightarrow> real \<Rightarrow> bool" where
  "halves values m \<longleftrightarrow> 2 * length (filter (\<lambda>x. real_of_int x < m) values) \<le> length values \<and>
     2 * length (filter (\<lambda>x. m < real_of_int x) values) \<le> length values"

lemma length_filter_mono: "(\<And>x. p x \<Longrightarrow> q x) \<Longrightarrow> length (filter p xs) \<le> length (filter q xs)"
  by (induction xs) auto

lemma median_halves:
  assumes "values \<noteq> []"
  shows "\<exists>m. median values = Inr m \<and> halves values m"
proof -
  let ?xs = "sort values" and ?n = "length values"
  have n: "0 < ?n" "?xs \<noteq> []" using assms by (simp, metis length_0_conv length_sort)
  show ?thesis
  proof (cases "odd ?n")
    case True
    let ?k = "?n div 2"
    have k: "?k < length ?xs" using n by simp
    have "length (filter (\<lambda>x. x < ?xs ! ?k) values) \<le> ?k" "length (filter (\<lambda>x. ?xs ! ?k < x) values) + Suc ?k \<le> ?n"
      using sorted_less_count [OF sorted_sort k] sorted_greater_count [OF sorted_sort k]
      by (simp_all only: count_sorted length_sort)
    with True have "halves values (real_of_int (?xs ! ?k))" unfolding halves_def by (simp, presburger)
    with True n show ?thesis by (auto simp: median_def Let_def)
  next
    case False
    let ?k = "?n div 2"
    have "2 \<le> ?n" using n(1) False by presburger
    then have k: "?k < length ?xs" "?k - 1 < length ?xs" "0 < ?k" by simp_all
    let ?m = "real_of_int (?xs ! (?k - 1) + ?xs ! ?k) / 2"
    have le: "?xs ! (?k - 1) \<le> ?xs ! ?k" using k by (intro sorted_nth_mono) simp_all
    have "length (filter (\<lambda>x. real_of_int x < ?m) values) \<le> length (filter (\<lambda>x. x < ?xs ! ?k) values)"
      using le by (intro length_filter_mono) (simp add: field_simps)
    moreover have "length (filter (\<lambda>x. ?m < real_of_int x) values) \<le> length (filter (\<lambda>x. ?xs ! (?k - 1) < x) values)"
      using le by (intro length_filter_mono) (simp add: field_simps)
    moreover have "length (filter (\<lambda>x. x < ?xs ! ?k) values) \<le> ?k"
      "length (filter (\<lambda>x. ?xs ! (?k - 1) < x) values) + Suc (?k - 1) \<le> ?n"
      using sorted_less_count [OF sorted_sort k(1)] sorted_greater_count [OF sorted_sort k(2)]
      by (simp_all only: count_sorted length_sort)
    ultimately have "halves values ?m" using False k(3) unfolding halves_def by presburger
    with False n show ?thesis by (intro exI [of _ ?m]) (simp add: median_def Let_def)
  qed
qed

section \<open>Means\<close>

lemma mean_some: "xs \<noteq> [] \<Longrightarrow> mean xs = Inr (sum_list xs / real (length xs))"
  by (simp add: mean_def)

lemma mean_bounds:
  assumes "mean xs = Inr x" "\<And>y. y \<in> set xs \<Longrightarrow> 0 \<le> y \<and> y \<le> 1"
  shows "0 \<le> x \<and> x \<le> 1"
proof -
  have x: "xs \<noteq> []" "x = sum_list xs / real (length xs)" using assms(1) by (auto simp: mean_def split: if_splits)
  have "0 \<le> sum_list xs" using assms(2) by (simp add: sum_list_nonneg)
  moreover have "sum_list xs \<le> real (length xs)"
    using assms(2) by (induction xs) (auto simp: add.commute intro!: add_mono)
  ultimately show ?thesis using x by (simp add: divide_le_eq)
qed

lemma share_bounds: "share bs = Inr x \<Longrightarrow> 0 \<le> x \<and> x \<le> 1"
  unfolding share_def by (erule mean_bounds) auto

lemma summarize_returns:
  assumes "results \<noteq> []"
  shows "\<exists>s. summarize rnd results = Inr s \<and> nearest_rank (9 / 10) (map ir_mttr_seconds results) (sm_p90_mttr s) \<and>
    halves (map ir_mttr_seconds results) (sm_median_mttr s) \<and> sm_incidents s = length results"
proof -
  let ?ms = "map ir_mttr_seconds results"
  obtain m where m: "median ?ms = Inr m" "halves ?ms m" using median_halves [of ?ms] assms by auto
  obtain p where p: "percentile ?ms (9 / 10) = Inr p" "nearest_rank (9 / 10) ?ms p"
    using percentile_rank [of ?ms "9 / 10"] assms by auto
  show ?thesis using m p assms
    by (simp add: summarize_def Let_def mean_some share_def checkE_def)
qed

section \<open>Gains\<close>

lemma gain_pos: "0 < gain n"
  by (simp add: gain_def)

lemma gain_antimono: "m \<le> n \<Longrightarrow> gain n \<le> gain m"
  by (simp add: gain_def frac_le)

text \<open>A decreasing sequence sums highest over an initial segment.\<close>

lemma sum_initial_segment:
  fixes f :: "nat \<Rightarrow> real"
  assumes "finite A" "\<And>m n. m \<le> n \<Longrightarrow> f n \<le> f m"
  shows "sum f A \<le> sum f {..<card A}"
  using assms(1)
proof (induction "card A" arbitrary: A)
  case (Suc n)
  then have ne: "A \<noteq> {}" by auto
  let ?m = "Max A"
  have m: "?m \<in> A" using Suc.prems ne by simp
  have "A \<subseteq> {..?m}" using Suc.prems by auto
  from card_mono [OF _ this] Suc.hyps(2) have "n \<le> ?m" by simp
  then have "f ?m \<le> f n" by (rule assms(2))
  moreover have "sum f (A - {?m}) \<le> sum f {..<n}"
  proof -
    have "n = card (A - {?m})" using Suc.hyps(2) Suc.prems m by simp
    from Suc.hyps(1) [OF this] Suc.prems this show ?thesis by simp
  qed
  ultimately have "sum f A \<le> sum f {..<Suc n}"
    using sum.remove [OF Suc.prems m, of f] by simp
  then show ?case using Suc.hyps(2) by simp
qed simp

lemma dcg_bounds:
  assumes "finite gold" "distinct retrieved" "length retrieved \<le> 10"
  shows "0 \<le> dcg gold retrieved \<and> dcg gold retrieved \<le> ideal_dcg gold"
proof -
  let ?A = "{i. i < length retrieved \<and> retrieved ! i \<in> gold}"
  have dcg: "dcg gold retrieved = sum gain ?A"
    unfolding dcg_def by (subst sum_list_distinct_conv_sum_set) (auto intro: sum.cong)
  have "inj_on (\<lambda>i. retrieved ! i) ?A" using assms(2) by (auto simp: inj_on_def nth_eq_iff_index_eq)
  then have "card ?A \<le> card gold" by (rule card_inj_on_le) (auto simp: assms(1))
  moreover have "card ?A \<le> length retrieved"
    using card_mono [of "{..<length retrieved}" ?A] by auto
  ultimately have le: "card ?A \<le> min (card gold) 10" using assms(3) by simp
  have "sum gain ?A \<le> sum gain {..<card ?A}" by (rule sum_initial_segment) (simp_all add: gain_antimono)
  also have "\<dots> \<le> sum gain {..<min (card gold) 10}"
    by (rule sum_mono2) (use le gain_pos in \<open>auto intro: less_imp_le\<close>)
  also have "\<dots> = ideal_dcg gold"
    unfolding ideal_dcg_def by (subst sum_list_distinct_conv_sum_set) (auto simp: atLeast0LessThan)
  finally show ?thesis using dcg gain_pos by (simp add: sum_nonneg less_imp_le)
qed

lemma ndcg_bounds:
  assumes "distinct (ir_retrieved_memory_ids r)"
  shows "0 \<le> ndcg_of l r \<and> ndcg_of l r \<le> 1"
proof -
  have "finite (gold_of l r)" by (simp add: gold_of_def)
  from dcg_bounds [OF this, of "take 10 (ir_retrieved_memory_ids r)"] assms
  show ?thesis by (simp add: ndcg_of_def divide_le_eq)
qed

lemma precision_bounds: "0 \<le> precision_of l r \<and> precision_of l r \<le> 1"
proof -
  have "card (set (take 10 (ir_retrieved_memory_ids r)) \<inter> gold_of l r) \<le> card (set (take 10 (ir_retrieved_memory_ids r)))"
    by (simp add: card_mono)
  also have "\<dots> \<le> 10" by (rule order_trans [OF card_length]) simp
  finally show ?thesis by (simp add: precision_of_def)
qed

lemma hits_at_mono:
  assumes "j \<le> k"
  shows "hits_at l j rs \<le> hits_at l k rs"
proof -
  have "set (take j xs) \<subseteq> set (take k xs)" for xs :: "string list" using assms by (rule set_take_subset_set_take)
  then show ?thesis unfolding hits_at_def by (intro length_filter_mono) blast
qed

lemma hits_at_le: "hits_at l k rs \<le> length rs"
  by (simp add: hits_at_def)

section \<open>The temporal replay\<close>

lemma play_schedule: "play uuid5 iid mem as c = (Inr rs, c') \<Longrightarrow> schedule c' = schedule c"
proof (induction as arbitrary: c rs)
  case (Cons a as)
  from Cons.prems obtain r d where r: "apply_action uuid5 iid (pl_action_type a) (pl_target_service a)
      (pl_params a) ''agent:postmortem'' mem c = (Inr r, d)"
    and rest: "(if res_resolved r then ret [r]
      else andThen (play uuid5 iid mem as) (\<lambda>rs. ret (r # rs))) d = (Inr rs, c')"
    by (auto elim!: andThen_Inr)
  have "schedule d = schedule c" using r by (rule apply_action_ledgers)
  with rest Cons.IH show ?case by (auto simp: run_prog split: if_splits elim!: andThen_Inr)
qed (simp add: run_prog)

text \<open>A gold memory fits a policy when its actions are those the policy requires, in order and up to the order of their
  parameters; of several gold items with the id the last counts.\<close>

definition fits :: "corpus_item list \<Rightarrow> oracle_policy \<Rightarrow> string \<Rightarrow> bool" where
  "fits items p m \<longleftrightarrow> (\<exists>before i after. items = before @ i # after \<and> ci_gold i \<and> ci_memory_id i = m \<and>
     list_all (\<lambda>j. \<not> (ci_gold j \<and> ci_memory_id j = m)) after \<and>
     list_all2 (\<lambda>a e. pl_action_type a = exp_action_type e \<and> py_eq (hashed (PDict (pl_params a))) (hashed (PDict (exp_params e))))
       (ci_actions i) (pol_required_actions p))"

text \<open>The memory a scenario expects: the first gold one of its family, in the order of the corpus, that fits the policy
  of the scenario, or else of the family.\<close>

definition expects :: "corpus_item list \<Rightarrow> oracle_file \<Rightarrow> scenario \<Rightarrow> string option \<Rightarrow> bool" where
  "expects items oracle sc expected \<longleftrightarrow> (\<exists>p.
     (case map_of (snd oracle) (scn_id sc) of Some q \<Rightarrow> p = q | None \<Rightarrow> map_of (fst oracle) (scn_family_id sc) = Some p) \<and>
     (let golds = map ci_memory_id (filter (\<lambda>i. ci_gold i \<and> ci_family_id i = scn_family_id sc) items) in
      case expected of
        None \<Rightarrow> list_all (\<lambda>m. \<not> fits items p m) golds
      | Some m \<Rightarrow> fits items p m \<and> (\<exists>before after. golds = before @ m # after \<and> list_all (\<lambda>m'. \<not> fits items p m') before)))"

lemma candidate_families_golds:
  "dict_get (candidate_families items) family [] = map ci_memory_id (filter (\<lambda>i. ci_gold i \<and> ci_family_id i = family) items)"
  by (induction items arbitrary: family rule: rev_induct)
    (auto simp: candidate_families_def dict_get_def split: option.splits)

lemma candidate_actions_last:
  "map_of (candidate_actions items) m = Some s \<longleftrightarrow> (\<exists>before i after. items = before @ i # after \<and> ci_gold i \<and> ci_memory_id i = m \<and>
     list_all (\<lambda>j. \<not> (ci_gold j \<and> ci_memory_id j = m)) after \<and>
     s = map (\<lambda>a. action_signature (pl_action_type a) (pl_params a)) (ci_actions i))"
proof (induction items rule: rev_induct)
  case Nil
  then show ?case by (simp add: candidate_actions_def)
next
  case (snoc x items)
  let ?s = "map (\<lambda>a. action_signature (pl_action_type a) (pl_params a)) (ci_actions x)"
  have step: "candidate_actions (items @ [x]) =
      (if ci_gold x then AList.update (ci_memory_id x) ?s (candidate_actions items) else candidate_actions items)"
    by (simp add: candidate_actions_def)
  show ?case
  proof (cases "ci_gold x \<and> ci_memory_id x = m")
    case True
    then have "map_of (candidate_actions (items @ [x])) m = Some ?s" by (simp add: step)
    moreover have "i = x" if "items @ [x] = before @ i # after" "list_all (\<lambda>j. \<not> (ci_gold j \<and> ci_memory_id j = m)) after"
      for before i after
      using that True by (cases after rule: rev_cases) auto
    ultimately show ?thesis using True by fastforce
  next
    case False
    then have "map_of (candidate_actions (items @ [x])) m = map_of (candidate_actions items) m"
      by (auto simp: step)
    moreover have "(\<exists>before i after. items @ [x] = before @ i # after \<and> ci_gold i \<and> ci_memory_id i = m \<and>
        list_all (\<lambda>j. \<not> (ci_gold j \<and> ci_memory_id j = m)) after \<and> P i) \<longleftrightarrow>
      (\<exists>before i after. items = before @ i # after \<and> ci_gold i \<and> ci_memory_id i = m \<and>
        list_all (\<lambda>j. \<not> (ci_gold j \<and> ci_memory_id j = m)) after \<and> P i)" (is "?l \<longleftrightarrow> ?r") for P
    proof
      assume ?l
      then obtain before i after where l: "items @ [x] = before @ i # after" "ci_gold i" "ci_memory_id i = m"
          "list_all (\<lambda>j. \<not> (ci_gold j \<and> ci_memory_id j = m)) after" "P i" by blast
      with False obtain rest where "after = rest @ [x]" by (cases after rule: rev_cases) auto
      with l show ?r by auto
    next
      assume ?r
      then obtain before i after where "items = before @ i # after" "ci_gold i" "ci_memory_id i = m"
          "list_all (\<lambda>j. \<not> (ci_gold j \<and> ci_memory_id j = m)) after" "P i" by blast
      with False show ?l by (intro exI [of _ before] exI [of _ i] exI [of _ "after @ [x]"]) simp
    qed
    ultimately show ?thesis using snoc.IH by simp
  qed
qed

lemma find_first: "find P xs = Some x \<Longrightarrow> P x \<and> (\<exists>before after. xs = before @ x # after \<and> list_all (\<lambda>y. \<not> P y) before)"
proof (induction xs)
  case (Cons y ys)
  show ?case
  proof (cases "P y")
    case True
    with Cons.prems show ?thesis by (intro conjI exI [of _ "[]"] exI [of _ ys]) simp_all
  next
    case False
    with Cons obtain before after where "P x" "ys = before @ x # after" "list_all (\<lambda>y. \<not> P y) before" by auto
    with False show ?thesis by (intro conjI exI [of _ "y # before"] exI [of _ after]) simp_all
  qed
qed simp

lemma fits_signature:
  "(case map_of (candidate_actions items) m of None \<Rightarrow> False
    | Some s \<Rightarrow> same_signatures s (map (\<lambda>e. action_signature (exp_action_type e) (exp_params e)) (pol_required_actions p)))
   \<longleftrightarrow> fits items p m"
proof -
  have same: "same_signatures (map (\<lambda>a. action_signature (pl_action_type a) (pl_params a)) xs)
      (map (\<lambda>e. action_signature (exp_action_type e) (exp_params e)) es) \<longleftrightarrow>
    list_all2 (\<lambda>a e. pl_action_type a = exp_action_type e \<and> py_eq (hashed (PDict (pl_params a))) (hashed (PDict (exp_params e)))) xs es" for xs es
    by (simp add: same_signatures_def action_signature_def list.rel_map)
  let ?required = "map (\<lambda>e. action_signature (exp_action_type e) (exp_params e)) (pol_required_actions p)"
  have "fits items p m \<longleftrightarrow> (\<exists>s. map_of (candidate_actions items) m = Some s \<and> same_signatures s ?required)"
  proof
    assume "fits items p m"
    then obtain before i after where i: "items = before @ i # after \<and> ci_gold i \<and> ci_memory_id i = m \<and>
        list_all (\<lambda>j. \<not> (ci_gold j \<and> ci_memory_id j = m)) after"
      and plays: "same_signatures (map (\<lambda>a. action_signature (pl_action_type a) (pl_params a)) (ci_actions i)) ?required"
      unfolding fits_def same by blast
    from i have "map_of (candidate_actions items) m = Some (map (\<lambda>a. action_signature (pl_action_type a) (pl_params a)) (ci_actions i))"
      unfolding candidate_actions_last by blast
    with plays show "\<exists>s. map_of (candidate_actions items) m = Some s \<and> same_signatures s ?required" by blast
  next
    assume "\<exists>s. map_of (candidate_actions items) m = Some s \<and> same_signatures s ?required"
    then obtain s where "map_of (candidate_actions items) m = Some s" and plays: "same_signatures s ?required" by blast
    then obtain before i after where i: "items = before @ i # after \<and> ci_gold i \<and> ci_memory_id i = m \<and>
        list_all (\<lambda>j. \<not> (ci_gold j \<and> ci_memory_id j = m)) after"
      and "s = map (\<lambda>a. action_signature (pl_action_type a) (pl_params a)) (ci_actions i)"
      unfolding candidate_actions_last by blast
    with plays have "same_signatures (map (\<lambda>a. action_signature (pl_action_type a) (pl_params a)) (ci_actions i)) ?required" by simp
    with i show "fits items p m" unfolding fits_def same by blast
  qed
  then show ?thesis by (cases "map_of (candidate_actions items) m") simp_all
qed

lemma expected_memory_expects:
  assumes "expected_memory items oracle (scn_id sc) (scn_family_id sc) = Inr expected"
  shows "expects items oracle sc expected"
proof -
  from assms obtain p where p: "case map_of (snd oracle) (scn_id sc) of Some q \<Rightarrow> p = q
      | None \<Rightarrow> map_of (fst oracle) (scn_family_id sc) = Some p"
    and e: "expected = find (fits items p) (map ci_memory_id (filter (\<lambda>i. ci_gold i \<and> ci_family_id i = scn_family_id sc) items))"
    by (auto simp: expected_memory_def oracle_required_signature_def fits_signature candidate_families_golds split: option.splits)
  show ?thesis
  proof (cases expected)
    case None
    with e have "list_all (\<lambda>m. \<not> fits items p m) (map ci_memory_id (filter (\<lambda>i. ci_gold i \<and> ci_family_id i = scn_family_id sc) items))"
      by (metis find_None_iff list_all_iff)
    with p None show ?thesis unfolding expects_def by (intro exI [of _ p]) simp
  next
    case (Some m)
    with find_first [OF e [unfolded Some, symmetric]] p show ?thesis unfolding expects_def by (intro exI [of _ p]) simp
  qed
qed

definition score_ok :: "corpus_item list \<Rightarrow> oracle_file \<Rightarrow> scenario \<Rightarrow> validity_record \<Rightarrow> bool" where
  "score_ok items oracle sc r \<longleftrightarrow> tv_scenario_id r = scn_id sc \<and> tv_family_id r = scn_family_id sc \<and>
     tv_variant_id r = scn_variant_id sc \<and> expects items oracle sc (tv_expected_memory_id r) \<and>
     (tv_applied_currently_valid_fix r \<longleftrightarrow> tv_authorized_memory_id r = tv_expected_memory_id r) \<and>
     (tv_applied_stale_fact r \<longleftrightarrow> (\<exists>i\<in>set items. ci_gold i \<and> ci_family_id i = scn_family_id sc \<and>
        tv_authorized_memory_id r = Some (ci_memory_id i) \<and> tv_expected_memory_id r \<noteq> Some (ci_memory_id i)))"

lemma inject_next_new:
  assumes "inject_next uuid5 c = (Inr inc, c')"
  shows "\<exists>seed now. inc = new_incident uuid5 seed (cd_scenarios c ! cd_next_scenario c) now"
    and "cd_next_scenario c < length (cd_scenarios c)"
    and "schedule c' = schedule (c\<lparr>cd_next_scenario := Suc (cd_next_scenario c)\<rparr>)"
proof -
  show *: "cd_next_scenario c < length (cd_scenarios c)" using assms by (auto simp: inject_next_def split: if_splits)
  show "\<exists>seed now. inc = new_incident uuid5 seed (cd_scenarios c ! cd_next_scenario c) now"
    using assms returns_family [of uuid5 "cd_scenarios c ! cd_next_scenario c"]
    by (fastforce simp: inject_next_def Let_def returns_def split: if_splits)
  show "schedule c' = schedule (c\<lparr>cd_next_scenario := Suc (cd_next_scenario c)\<rparr>)"
    using inject_schedule [OF *, of uuid5] assms by simp
qed

lemma validity_incident_score:
  assumes "validity_incident uuid5 items oracle decide c = (Inr r, c')"
  shows "cd_next_scenario c < length (cd_scenarios c) \<and>
    score_ok items oracle (cd_scenarios c ! cd_next_scenario c) r \<and>
    schedule c' = schedule (c\<lparr>cd_next_scenario := Suc (cd_next_scenario c)\<rparr>)"
  using assms unfolding validity_incident_def Let_def
proof (elim andThen_Inr, unfold in_sim_Inr advance_Inr run_lift_result)
  fix inc :: incident and c1 c2 c3 c4 c5 c6 :: conductor and obs rs expected mttr
  assume inj: "inject_next uuid5 c = (Inr inc, c1)" and "observe_incident (inc_id inc) c1 = (Inr obs, c2)"
    and "0 \<le> rd_decision_seconds (decide obs) \<and> c3 = set_now (w_now (cd_state c2) + sec (rd_decision_seconds (decide obs))) c2"
    and play: "play uuid5 (inc_id inc) (memory_ref_of (decide obs)) (rd_actions (decide obs)) c3 = (Inr rs, c4)"
    and e: "(expected_memory items oracle (inc_scenario_id inc) (inc_family_id inc), c4) = (Inr expected, c5)"
    and "reads (\<lambda>c. Option.bind (map_of (w_incidents (cd_state c)) (inc_id inc)) inc_mttr_seconds) c5 = (Inr mttr, c6)"
    and r: "ret (validity_record_of inc obs (dict_get (candidate_families items) (inc_family_id inc) []) expected
      (rd_authorized_memory_id (decide obs)) mttr) c6 = (Inr r, c')"
  moreover have "c2 = c1" using calculation(2) by (rule observe_Inr)
  moreover have "schedule c4 = schedule c3" using play by (rule play_schedule)
  ultimately have "schedule c' = schedule c1" by (auto simp: run_prog set_now_def schedule_def)
  moreover obtain seed now where "inc = new_incident uuid5 seed (cd_scenarios c ! cd_next_scenario c) now"
    using inject_next_new(1) [OF inj] by blast
  moreover have "r = validity_record_of inc obs (dict_get (candidate_families items) (inc_family_id inc) []) expected
      (rd_authorized_memory_id (decide obs)) mttr" using r by (simp add: run_prog)
  moreover have "expects items oracle (cd_scenarios c ! cd_next_scenario c) expected"
    by (rule expected_memory_expects) (use \<open>inc = new_incident uuid5 seed (cd_scenarios c ! cd_next_scenario c) now\<close> e
      in \<open>simp add: new_incident_def\<close>)
  ultimately show ?thesis
    using inject_next_new(2,3) [OF inj]
    by (auto simp: score_ok_def validity_record_of_def new_incident_def candidate_families_golds split: option.splits)
qed

lemma validity_rounds_scores:
  assumes "validity_rounds uuid5 items oracle decide n c = (Inr rs, c')" and "remaining_scenarios c \<le> n"
  shows "list_all2 (score_ok items oracle) (drop (cd_next_scenario c) (cd_scenarios c)) rs"
  using assms
proof (induction n arbitrary: c rs)
  case 0
  then show ?case by (auto simp: run_prog remaining_scenarios_def)
next
  case (Suc n)
  show ?case
  proof (cases "remaining_scenarios c = 0")
    case True
    with Suc.prems(1) show ?thesis by (auto simp: run_step run_prog remaining_scenarios_def)
  next
    case False
    with Suc.prems(1) obtain r d rs2 where r: "validity_incident uuid5 items oracle decide c = (Inr r, d)"
      and rest: "validity_rounds uuid5 items oracle decide n d = (Inr rs2, c')" and rs: "rs = r # rs2"
      by (auto simp: run_step run_prog elim!: andThen_Inr)
    note one = validity_incident_score [OF r]
    then have d: "cd_scenarios d = cd_scenarios c" "cd_next_scenario d = Suc (cd_next_scenario c)"
      by (simp_all add: schedule_def)
    have "remaining_scenarios d \<le> n" using Suc.prems(2) False d by (simp add: remaining_scenarios_def)
    from Suc.IH [OF rest this] one d rs
      Cons_nth_drop_Suc [of "cd_next_scenario c" "cd_scenarios c", symmetric]
    show ?thesis by simp
  qed
qed

text \<open>The figures of the report against its records.\<close>

definition report_ok :: "(real \<Rightarrow> real) \<Rightarrow> validity_report \<Rightarrow> bool" where
  "report_ok round6 p \<longleftrightarrow> vr_incidents_evaluated p = length (vr_incidents p) \<and>
     vr_stale_fact_applications p + length (filter tv_applied_currently_valid_fix (vr_incidents p)) \<le> vr_incidents_evaluated p \<and>
     vr_accuracy p = (if vr_incidents p = [] then 0 else round6
       (real (length (filter tv_applied_currently_valid_fix (vr_incidents p))) / real (vr_incidents_evaluated p))) \<and>
     (vr_meets_target p \<longleftrightarrow> 9 / 10 \<le> vr_accuracy p \<and> vr_stale_fact_applications p = 0)"

lemma validity_report_ok:
  assumes "list_all2 (score_ok items oracle) scs rs"
  shows "report_ok round6 (validity_report_of round6 items rs)"
proof -
  have "\<not> (tv_applied_stale_fact r \<and> tv_applied_currently_valid_fix r)" if "r \<in> set rs" for r
  proof -
    from that obtain sc where "score_ok items oracle sc r"
      using assms by (metis in_set_conv_nth list_all2_conv_all_nth)
    then show ?thesis by (auto simp: score_ok_def)
  qed
  then have "filter tv_applied_stale_fact rs = filter (\<lambda>r. tv_applied_stale_fact r \<and> \<not> tv_applied_currently_valid_fix r) rs"
    by (intro filter_cong) auto
  moreover have "length (filter (\<lambda>r. tv_applied_stale_fact r \<and> \<not> tv_applied_currently_valid_fix r) rs)
      \<le> length (filter (\<lambda>r. \<not> tv_applied_currently_valid_fix r) rs)" by (intro length_filter_mono) simp
  ultimately have "length (filter tv_applied_stale_fact rs) + length (filter tv_applied_currently_valid_fix rs) \<le> length rs"
    using sum_length_filter_compl [of tv_applied_currently_valid_fix rs] by simp
  then show ?thesis
    by (simp add: report_ok_def validity_report_of_def Let_def temporal_validity_target_def stale_fact_target_def)
qed

end
