(* ===== verification/Ev_Claims.thy ===== *)
theory Ev_Claims
  imports Ev_Bench Ev_Figures "HOL-Library.Multiset"
begin

text \<open>
  The properties of the deterministic benchmark: what a record of an arm accounts for, what two arms share,
  which memory a responder acts on, the independence of the expected memory, and the ranges of the figures.
\<close>

section \<open>The arms\<close>

lemma new_conductor_schedule:
  "cd_scenarios (new_conductor uuid5 fx families scenarios) =
     sort_key (\<lambda>s. (scn_inject_at_seconds s, scn_id s)) (fx_scenarios fx)"
  "cd_next_scenario (new_conductor uuid5 fx families scenarios) = 0"
  "cd_seed (new_conductor uuid5 fx families scenarios) = fx_seed fx"
  by (simp_all add: new_conductor_def)

text \<open>C29. An arm that returns has replayed every scenario of the fixture once, in the order of their
  instants, and each of its records accounts exactly for its scenario: the responder decided on an observation
  of this incident; every applied action is one of the actions the oracle requires, all of which were matched,
  or a miss; the MTTR is the time of the decision plus the policy's action time for each required action and
  its penalty for each miss; the orders lost are those of the injection and two per miss; abstention,
  retrieved memories and authorization are those of the decision.\<close>

theorem ev_arm_accounts:
  assumes "run_arm uuid5 name decide (new_conductor uuid5 fx families scenarios) = (Inr (rs, seed), c')"
  shows "\<exists>scs. mset scs = mset (fx_scenarios fx) \<and>
    sorted (map (\<lambda>s. (scn_inject_at_seconds s, scn_id s)) scs) \<and>
    list_all2 (accounts (new_conductor uuid5 fx families scenarios) decide) scs rs \<and>
    map ir_occurrence rs = map (occurrence_at scs) [0..<length scs] \<and>
    seed = fx_seed fx \<and> remaining_scenarios c' = 0"
proof -
  let ?scs = "sort_key (\<lambda>s. (scn_inject_at_seconds s, scn_id s)) (fx_scenarios fx)"
  note run = run_arm_accounts [OF assms]
  have "map case_of rs = cases_from uuid5 (fx_seed fx) [] ?scs"
    using run by (simp add: new_conductor_schedule)
  then have "map ir_occurrence rs = map (occurrence_at ?scs) [0..<length ?scs]"
    unfolding case_parts(5) by (simp add: cases_from_positions scenario_case_def dict_get_def)
  with run show ?thesis
    by (intro exI [of _ ?scs]) (simp add: new_conductor_schedule)
qed

theorem ev_arm_accounts_witness:
  "\<exists>rs seed c'. bench_run = (Inr (rs, seed), c') \<and> map ir_mttr_seconds rs = [35] \<and> seed = 7 \<and>
     list_all2 (accounts bench_conductor restart_first) (fx_scenarios bench_fixture) rs"
proof (rule bench_result)
  fix rs seed c'
  assume run: "run_arm id ''scripted'' restart_first bench_conductor = (Inr (rs, seed), c')"
    and "map ir_mttr_seconds rs = [35]"
  from ev_arm_accounts [OF run [unfolded bench_conductor_def]] obtain scs where
    "mset scs = mset (fx_scenarios bench_fixture)" "list_all2 (accounts bench_conductor restart_first) scs rs"
    "seed = fx_seed bench_fixture" unfolding bench_conductor_def by blast
  moreover from this(1) have "scs = fx_scenarios bench_fixture" by (simp add: bench_fixture_def)
  ultimately show ?thesis
    using run \<open>map ir_mttr_seconds rs = [35]\<close> by (auto simp: bench_run_def bench_fixture_def)
qed

text \<open>C30. The arms are comparable whatever the two responders do: when both return, the run's assertions
  hold (same seed, same scenarios, same incident ids) and it returns their records, which also agree in
  families, variants and occurrences; an arm that fails ends the run with its failure.\<close>

theorem ev_arms_comparable:
  "case (fst (run_arm uuid5 ''with_memory'' memory c0), fst (run_arm uuid5 ''competent_baseline'' baseline c0)) of
     (Inr (ms, s), Inr (bs, t)) \<Rightarrow> run_both uuid5 c0 memory baseline = Inr (ms, bs, s) \<and> s = t \<and>
       map case_of ms = map case_of bs \<and> length ms = remaining_scenarios c0
   | (Inr _, Inl e) \<Rightarrow> run_both uuid5 c0 memory baseline = Inl e
   | (Inl e, _) \<Rightarrow> run_both uuid5 c0 memory baseline = Inl e"
proof -
  obtain m c1 where m: "run_arm uuid5 ''with_memory'' memory c0 = (m, c1)" by fastforce
  obtain b c2 where b: "run_arm uuid5 ''competent_baseline'' baseline c0 = (b, c2)" by fastforce
  show ?thesis
  proof (cases m; cases b)
    fix x y assume xy: "m = Inr x" "b = Inr y"
    obtain ms s bs t where x: "x = (ms, s)" and y: "y = (bs, t)" by (cases x, cases y) auto
    from run_arm_accounts [OF m [unfolded xy x]] run_arm_accounts [OF b [unfolded xy y]]
    have same: "map case_of ms = map case_of bs" and st: "s = t"
      and len: "length ms = length (drop (cd_next_scenario c0) (cd_scenarios c0))"
      by (auto dest: list_all2_lengthD)
    have "map ir_scenario_id ms = map ir_scenario_id bs" "map ir_incident_id ms = map ir_incident_id bs"
      unfolding case_parts(1,2) same by simp_all
    with m b xy x y same st len show ?thesis
      by (simp add: run_both_def checkE_def remaining_scenarios_def)
  qed (use m b in \<open>simp_all add: run_both_def split: prod.splits\<close>)
qed

section \<open>The choice of a memory\<close>

text \<open>The similarity of a memory to an incident: the words they share over the geometric mean of the numbers of their words.\<close>

definition likeness :: "observation \<Rightarrow> memory_record \<Rightarrow> real" where
  "likeness obs r = (let query = tokenize (obs_title obs @ '' '' @ obs_signal obs); words = tokenize (mr_text r) in
     real (card (query \<inter> words)) / sqrt (real (card query * card words)))"

lemma similarity_likeness: "similarity (observation_query obs) (tokenize (mr_text r)) = likeness obs r"
  by (auto simp: similarity_def likeness_def observation_query_def Let_def)

text \<open>The memory a decision acts on is eligible - it has actions and is similar enough - and the best of the eligible ones,
  and the plan is its actions with the two placeholders filled in from the incident; a decision without one pages
  a human, and then none of the memories ranked is eligible.\<close>

definition acts_on_best :: "memory_responder \<Rightarrow> memory_record list \<Rightarrow> observation \<Rightarrow> responder_decision \<Rightarrow> bool" where
  "acts_on_best m records obs d \<longleftrightarrow> length (rd_retrieved d) \<le> mp_retrieval_k m \<and>
     (let eligible = filter (\<lambda>r. mp_match_threshold m \<le> likeness obs r \<and> mr_actions r \<noteq> []) records in
      case rd_authorized_memory_id d of
        Some i \<Rightarrow> \<not> rd_abstained d \<and> (\<exists>r\<in>set eligible. mr_memory_id r = i \<and>
          rd_actions d = map (\<lambda>a. \<lparr>pl_action_type = pl_action_type a,
            pl_target_service = (if pl_target_service a = ''$incident.service'' then obs_service obs else pl_target_service a),
            pl_params = map (\<lambda>(k, v). (k, if py_eq v (PStr ''$incident.previous_stable_version'')
              then case obs_previous_stable_version obs of None \<Rightarrow> PNone | Some t \<Rightarrow> PStr t else v)) (pl_params a)\<rparr>) (mr_actions r) \<and>
          list_all (\<lambda>r'. (- likeness obs r, mr_memory_id r) \<le> (- likeness obs r', mr_memory_id r')) eligible)
      | None \<Rightarrow> rd_abstained d \<and> (length records \<le> mp_retrieval_k m \<longrightarrow> eligible = []) \<and>
          rd_actions d = [\<lparr>pl_action_type = ''no_op_page_human'', pl_target_service = obs_service obs, pl_params = []\<rparr>])"

lemma decide_from_acts: "acts_on_best m records obs (decide_from round6 m records obs)"
proof -
  have "length (rd_retrieved (decide_from round6 m records obs)) \<le> mp_retrieval_k m"
    by (simp add: decide_from_def Let_def split: option.splits)
  moreover have "render_action obs = (\<lambda>a. \<lparr>pl_action_type = pl_action_type a,
      pl_target_service = (if pl_target_service a = ''$incident.service'' then obs_service obs else pl_target_service a),
      pl_params = map (\<lambda>(k, v). (k, if py_eq v (PStr ''$incident.previous_stable_version'')
        then case obs_previous_stable_version obs of None \<Rightarrow> PNone | Some t \<Rightarrow> PStr t else v)) (pl_params a)\<rparr>)"
    by (auto simp: fun_eq_iff render_action_def render_value_def)
  ultimately show ?thesis
    by (cases rule: decide_from_cases [of records m obs round6])
      (auto simp: acts_on_best_def usable_def preference_def similarity_likeness page_human_def list_all_iff Let_def)
qed

text \<open>C31. A memory responder, with or without valid time, acts on a memory only when it has actions and its
  similarity to the incident reaches the threshold, and then on the most similar of these (ties broken by
  id), playing exactly its actions, with the placeholders for the service and the previous stable version filled in; the
  bitemporal one only on memories whose window covers the instant of the observation: from its start, if it has one,
  up to but not including its end, if it has one. In every other case it pages a human and says that it abstained.\<close>

theorem ev_memory_choice:
  "acts_on_best m (mp_records m) obs (memory_decide round6 m obs) \<and>
   acts_on_best m (filter (\<lambda>r. case dict_get validity (mr_memory_id r) (None, None) of (valid_from, valid_to) \<Rightarrow>
       (case valid_from of None \<Rightarrow> True | Some start \<Rightarrow> start \<le> obs_observed_at obs) \<and>
       (case valid_to of None \<Rightarrow> True | Some end \<Rightarrow> obs_observed_at obs < end)) (mp_records m))
     obs (temporal_decide round6 m validity obs)"
proof -
  have window: "(\<lambda>r. is_valid_at (dict_get validity (mr_memory_id r) (None, None)) (Some (obs_observed_at obs))) =
      (\<lambda>r. case dict_get validity (mr_memory_id r) (None, None) of (valid_from, valid_to) \<Rightarrow>
        (case valid_from of None \<Rightarrow> True | Some start \<Rightarrow> start \<le> obs_observed_at obs) \<and>
        (case valid_to of None \<Rightarrow> True | Some end \<Rightarrow> obs_observed_at obs < end))"
    by (auto simp: fun_eq_iff is_valid_at_def split: prod.split option.split)
  show ?thesis unfolding memory_decide_def temporal_decide_def window by (intro conjI decide_from_acts)
qed

section \<open>Valid time\<close>


section \<open>The figures\<close>

text \<open>C37. When the retrieval metrics are defined, and rounding is monotone and keeps 0 and 1, every figure is a
  share: recall grows with the cut-off (recall@1, recall@5, recall@10, at most 1), precision@10 and nDCG@10
  lie between 0 and 1 - the gain of a ranking without repetitions never exceeds the ideal one - and so do
  the abstention and near-miss rates.\<close>

theorem ev_metrics_bounds:
  assumes "retrieval_metrics_of round6 l results = Inr m" and "mono round6" and "round6 0 = 0" and "round6 1 = 1"
    and "list_all (\<lambda>r. distinct (ir_retrieved_memory_ids r)) results"
  shows "0 \<le> rm_recall_at_1 m \<and> rm_recall_at_1 m \<le> rm_recall_at_5 m \<and> rm_recall_at_5 m \<le> rm_recall_at_10 m \<and>
    rm_recall_at_10 m \<le> 1 \<and> rm_precision_at_10 m \<in> {0..1} \<and> rm_ndcg_at_10 m \<in> {0..1} \<and>
    rm_abstention_accuracy m \<in> {0..1} \<and> rm_near_miss_safe_rejection_accuracy m \<in> {0..1} \<and>
    rm_pool_runbook_near_miss_authorization_rate m \<in> {0..1}"
proof -
  let ?scored = "scored_results l results"
  have bounds: "round6 x \<in> {0..1}" if "0 \<le> x \<and> x \<le> 1" for x
    using monoD [OF assms(2), of 0 x] monoD [OF assms(2), of x 1] that assms(3,4) by simp
  have r: "round6 (real (hits_at l j ?scored) / real n) \<le> round6 (real (hits_at l k ?scored) / real n)" if "j \<le> k" for j k n
    by (intro monoD [OF assms(2)] divide_right_mono) (simp_all add: hits_at_mono that)
  have h: "0 \<le> real (hits_at l k ?scored) / real (length ?scored) \<and> real (hits_at l k ?scored) / real (length ?scored) \<le> 1" for k
    using hits_at_le [of l k ?scored] by (simp add: divide_le_eq)
  have nd: "0 \<le> y \<and> y \<le> 1" if "mean (map (ndcg_of l) ?scored) = Inr y" for y
    by (rule mean_bounds [OF that]) (use assms(5) ndcg_bounds in \<open>auto simp: scored_results_def list_all_iff\<close>)
  have pr: "0 \<le> y \<and> y \<le> 1" if "mean (map (precision_of l) ?scored) = Inr y" for y
    by (rule mean_bounds [OF that]) (use precision_bounds in auto)
  from assms(1) show ?thesis
    unfolding retrieval_metrics_of_def Let_def
    using r [of 1 5 "length ?scored"] r [of 5 10 "length ?scored"] bounds [OF h, of 1] bounds [OF h, of 10]
      bounds [OF pr] bounds [OF nd] bounds [OF share_bounds]
    by (auto simp: checkE_def split: if_splits)
qed

text \<open>Every arm with at least one record has a summary. Its 90th percentile is the nearest-rank one: an
  observed MTTR with at least nine tenths of the incidents at or below it and fewer than that below it; its
  median has at most half of them on either side.\<close>

theorem ev_summary_ranks:
  assumes "results \<noteq> []"
  shows "\<exists>s. summarize rnd results = Inr s \<and> nearest_rank (9 / 10) (map ir_mttr_seconds results) (sm_p90_mttr s) \<and>
    halves (map ir_mttr_seconds results) (sm_median_mttr s) \<and> sm_incidents s = length results"
  using assms by (rule summarize_returns)

definition bench_record :: "string \<Rightarrow> string \<Rightarrow> bool \<Rightarrow> string list \<Rightarrow> incident_result" where
  "bench_record family variant abstained ids = \<lparr>ir_scenario_id = ''s'', ir_incident_id = ''i'', ir_family_id = family,
     ir_variant_id = variant, ir_occurrence = 1, ir_mttr_seconds = 30, ir_actions = 1, ir_wrong_actions = 0,
     ir_first_action_correct = True, ir_failed_orders = 0, ir_failed_order_value_cents = 0, ir_escalated = False,
     ir_abstained = abstained, ir_token_proxy = 0, ir_retrieved_memory_ids = ids, ir_top_retrieval_score = None,
     ir_authorized_memory_id = None\<rparr>"

definition bench_records :: "incident_result list" where
  "bench_records = [bench_record ''F2'' ''a'' False [''m1'', ''m2''], bench_record ''F10_NOVEL'' ''a'' True [],
     bench_record ''F2'' ''red-herring-slow-query'' True [''m2'']]"

theorem ev_summary_ranks_witness:
  "\<exists>s. summarize (\<lambda>n x. x) bench_records = Inr s \<and> sm_incidents s = 3"
  using ev_summary_ranks [of bench_records "\<lambda>n x. x"] by (auto simp: bench_records_def)

theorem ev_metrics_bounds_witness:
  "\<exists>m. retrieval_metrics_of id \<lparr>lb_gold = [(''F2'', [''m2''])], lb_hard_negatives = [], lb_distractors = []\<rparr> bench_records = Inr m \<and>
     rm_recall_at_1 m = 0 \<and> rm_recall_at_5 m = 1 \<and> rm_ndcg_at_10 m \<in> {0..1}"
proof -
  let ?l = "\<lparr>lb_gold = [(''F2'', [''m2''])], lb_hard_negatives = [], lb_distractors = []\<rparr>"
  have "\<exists>m. retrieval_metrics_of id ?l bench_records = Inr m \<and> rm_recall_at_1 m = 0 \<and> rm_recall_at_5 m = 1"
    by (simp add: retrieval_metrics_of_def Let_def scored_results_def bench_records_def bench_record_def mean_def
        share_def checkE_def hits_at_def gold_of_def dict_get_def)
  then obtain m where m: "retrieval_metrics_of id ?l bench_records = Inr m" "rm_recall_at_1 m = 0" "rm_recall_at_5 m = 1"
    by blast
  from ev_metrics_bounds [OF m(1)] m show ?thesis
    by (auto simp: bench_records_def bench_record_def mono_def)
qed

end
