(* ===== verification/Ev_Agent.thy ===== *)
theory Ev_Agent
  imports Ev_Report
begin

text \<open>
  The comparison with the real model (\<^verbatim>\<open>evaluation/postmortem_eval/real_agent.py\<close>): the question
  asked in each arm, the plan read from the answer, the replay that records what the model did, and the
  paired comparison of the arms. The client of the model is a function of the number of the call and of
  the request, so its answers may be any sequence; how long it took is part of its answer. Rendering of
  JSON, instants and values, \<open>round\<close>, the conversion of a float to microseconds and \<open>dict(v)\<close> of a value that is
  not a dictionary are fields of \<open>agent_lib\<close>; the fixed texts of the prompts are those of \<open>prompt_texts\<close>.
\<close>

text \<open>\<open>json.loads\<close> raises a \<open>ValueError\<close> for a text that is no JSON, and a \<open>RecursionError\<close> for one nested too deeply.\<close>

datatype json_failure = Not_json | Too_deep

record agent_lib =
  al_dumps :: "pyval \<Rightarrow> string"
  al_loads :: "string \<Rightarrow> json_failure + pyval"
  al_isoformat :: "int \<Rightarrow> string"
  al_repr :: "pyval \<Rightarrow> string"
  al_round :: "nat \<Rightarrow> real \<Rightarrow> real"
  al_micros :: "real \<Rightarrow> int"
  al_dict :: "pyval \<Rightarrow> (string, pyval) dict option"

record prompt_texts =
  pt_system :: string
  pt_action_schema :: string
  pt_memory_rules :: string
  pt_no_memory_rules :: string

section \<open>The question\<close>

fun health_str :: "health \<Rightarrow> string" where
  "health_str Healthy = ''healthy''"
| "health_str Degraded = ''degraded''"
| "health_str Down = ''down''"
| "health_str Recovering = ''recovering''"

definition catalog :: "agent_lib \<Rightarrow> conductor \<Rightarrow> string" where
  "catalog lib c = al_dumps lib (PDict [
     (''services'', PList (map (\<lambda>s. PDict [(''name'', PStr (svc_name s)), (''tier'', PStr (svc_tier s)),
        (''health'', PStr (health_str (svc_health s))), (''current_version'', PStr (svc_current_version s)),
        (''previous_stable_version'', opt_text (svc_previous_stable_version s)),
        (''capacity_units'', PInt (svc_capacity_units s))])
        (sort_key svc_name (map snd (w_services (cd_state c)))))),
     (''dependencies'', PList (map (\<lambda>d. PDict [(''dependency_key'', PStr (dep_key d)),
        (''from_service'', PStr (dep_from d)), (''currently_pointing_at'', PStr (dep_to d)),
        (''criticality'', PStr (dep_criticality d))])
        (sort_key dep_key (map snd (w_dependencies (cd_state c))))))])"

definition incident_block :: "agent_lib \<Rightarrow> observation \<Rightarrow> string" where
  "incident_block lib obs = al_dumps lib (PDict [(''title'', PStr (obs_title obs)), (''service'', PStr (obs_service obs)),
     (''severity'', PStr (obs_severity obs)), (''alert_signal'', PStr (obs_signal obs)),
     (''slo_kind'', PStr (obs_slo_kind obs)), (''slo_current_value'', PFloat (obs_slo_current_value obs)),
     (''slo_threshold'', PFloat (obs_slo_threshold obs)), (''current_version'', PStr (obs_current_version obs)),
     (''previous_stable_version'', opt_text (obs_previous_stable_version obs)),
     (''observed_at'', PStr (al_isoformat lib (obs_observed_at obs)))])"

definition plan_payload :: "action_plan \<Rightarrow> pyval" where
  "plan_payload a = PDict [(''action_type'', PStr (pl_action_type a)), (''target_service'', PStr (pl_target_service a)),
     (''params'', PDict (pl_params a))]"

definition memory_block :: "agent_lib \<Rightarrow> scored list \<Rightarrow> observation \<Rightarrow> string" where
  "memory_block lib best obs = al_dumps lib (PList (map (\<lambda>(score, i, r). PDict [(''memory_id'', PStr i),
     (''similarity'', PFloat (al_round lib 4 score)), (''description'', PStr (mr_text r)),
     (''runbook_actions'', PList (map (\<lambda>a. plan_payload (render_action obs a)) (mr_actions r)))]) best))"

record agent_responder =
  ag_memory :: memory_responder
  ag_uses_memory :: bool
  ag_model_id :: string
  ag_catalog :: string

definition arm_name :: "agent_responder \<Rightarrow> string" where
  "arm_name g = (if ag_uses_memory g then ''with_memory'' else ''no_memory'')"

text \<open>The constructor; \<open>k\<close> memories are retrieved.\<close>

definition new_agent :: "string \<Rightarrow> string \<Rightarrow> string \<Rightarrow> corpus_item list \<Rightarrow> nat \<Rightarrow> eval_error + agent_responder" where
  "new_agent arm model_id cat items k =
     bindE (checkE (arm \<in> {''with_memory'', ''no_memory''}) (Value_failure (''unknown arm: '' @ arm))) (\<lambda>_.
     Inr \<lparr>ag_memory = new_memory_responder items k default_match_threshold, ag_uses_memory = (arm = ''with_memory''),
       ag_model_id = model_id, ag_catalog = cat\<rparr>)"

definition retrieve :: "agent_responder \<Rightarrow> observation \<Rightarrow> scored list" where
  "retrieve g obs = take (mp_retrieval_k (ag_memory g)) (rank_records (observation_query obs) (mp_records (ag_memory g)))"

definition retrieved :: "agent_responder \<Rightarrow> observation \<Rightarrow> scored list" where
  "retrieved g obs = (if ag_uses_memory g then retrieve g obs else [])"

definition common_sections :: "agent_lib \<Rightarrow> prompt_texts \<Rightarrow> agent_responder \<Rightarrow> observation \<Rightarrow> string list" where
  "common_sections lib texts g obs = [''## Open incident'', incident_block lib obs, [], ''## Service catalog'',
     ag_catalog g, [], ''## Remediation actions'', pt_action_schema texts, []]"

definition memory_sections :: "agent_lib \<Rightarrow> prompt_texts \<Rightarrow> agent_responder \<Rightarrow> observation \<Rightarrow> string list" where
  "memory_sections lib texts g obs = (if ag_uses_memory g
     then [''## Retrieved prior incidents'', pt_memory_rules texts, memory_block lib (retrieved g obs) obs]
     else [''## Prior incidents'', pt_no_memory_rules texts])"

record agent_request =
  rq_model_id :: string
  rq_system :: string
  rq_text :: string
  rq_max_tokens :: int
  rq_temperature :: real

definition line_break :: string where
  "line_break = [CHR 0x0A]"

definition request_of :: "agent_lib \<Rightarrow> prompt_texts \<Rightarrow> agent_responder \<Rightarrow> observation \<Rightarrow> agent_request" where
  "request_of lib texts g obs = \<lparr>rq_model_id = ag_model_id g, rq_system = pt_system texts,
     rq_text = str_join line_break (common_sections lib texts g obs @ memory_sections lib texts g obs),
     rq_max_tokens = 1200, rq_temperature = 0\<rparr>"

section \<open>The answer\<close>

text \<open>The text of each content block, the reported token counts and the seconds the call took.\<close>

record agent_answer =
  an_blocks :: "string list"
  an_input_tokens :: int
  an_output_tokens :: int
  an_elapsed :: real

type_synonym client = "nat \<Rightarrow> agent_request \<Rightarrow> eval_error + agent_answer"

datatype plan_failure = Unusable string | Crash eval_error

definition parse_plan :: "agent_lib \<Rightarrow> string \<Rightarrow> plan_failure + (pyval list \<times> string option \<times> string)" where
  "parse_plan lib raw = (case (case json_slice raw of None \<Rightarrow> Inl Not_json | Some t \<Rightarrow> al_loads lib t) of
     Inl Not_json \<Rightarrow> Inl (Unusable ''model did not return a JSON object'')
   | Inl Too_deep \<Rightarrow> Inl (Crash Recursion_failure)
   | Inr (PDict payload) \<Rightarrow> (case pget payload ''actions'' of
       PList (a # as) \<Rightarrow> (let cited = pget payload ''cited_memory_id'' in
         Inr (a # as, if py_truthy cited then Some (py_str (al_repr lib) cited) else None,
           str_strip (py_str (al_repr lib) (dict_get payload ''reasoning'' (PStr [])))))
     | _ \<Rightarrow> Inl (Unusable ''model returned no actions''))
   | Inr _ \<Rightarrow> Inl (Crash Not_a_mapping))"

record agent_decision =
  ad_actions :: "action_plan list"
  ad_retrieved :: "retrieval_hit list"
  ad_abstained :: bool
  ad_authorized_memory_id :: "string option"
  ad_decision_seconds :: real
  ad_input_tokens :: int
  ad_output_tokens :: int
  ad_model_id :: string
  ad_invalid_plan :: bool

definition dict_value :: "agent_lib \<Rightarrow> pyval \<Rightarrow> eval_error + (string, pyval) dict" where
  "dict_value lib v = (case v of PDict d \<Rightarrow> Inr d | _ \<Rightarrow> needE Not_a_mapping (al_dict lib v))"

text \<open>\<open>item.get(...)\<close> with the defaults of the code; steps that are no object are dropped.\<close>

definition model_action :: "agent_lib \<Rightarrow> observation \<Rightarrow> (string, pyval) dict \<Rightarrow> eval_error + action_plan" where
  "model_action lib obs item =
     bindE (let params = pget item ''params'' in dict_value lib (if py_truthy params then params else PDict [])) (\<lambda>params.
     Inr \<lparr>pl_action_type = py_str (al_repr lib) (dict_get item ''action_type'' (PStr [])),
       pl_target_service = (let t = pget item ''target_service'' in
         if py_truthy t then py_str (al_repr lib) t else obs_service obs),
       pl_params = params\<rparr>)"

fun model_actions :: "agent_lib \<Rightarrow> observation \<Rightarrow> pyval list \<Rightarrow> eval_error + action_plan list" where
  "model_actions lib obs [] = Inr []"
| "model_actions lib obs (PDict item # items) = bindE (model_action lib obs item) (\<lambda>a.
     bindE (model_actions lib obs items) (\<lambda>as. Inr (a # as)))"
| "model_actions lib obs (_ # items) = model_actions lib obs items"

definition is_page :: "action_plan \<Rightarrow> bool" where
  "is_page a \<longleftrightarrow> pl_action_type a \<in> {''no_op_page_human'', ''escalate''}"

definition agent_hits :: "agent_lib \<Rightarrow> agent_responder \<Rightarrow> observation \<Rightarrow> retrieval_hit list" where
  "agent_hits lib g obs = map (\<lambda>(score, i, _). \<lparr>hit_memory_id = i, hit_score = al_round lib 6 score\<rparr>) (retrieved g obs)"

text \<open>What \<open>decide\<close> makes of the answer.\<close>

definition read_decision :: "agent_lib \<Rightarrow> agent_responder \<Rightarrow> observation \<Rightarrow> agent_answer \<Rightarrow> eval_error + agent_decision" where
  "read_decision lib g obs answer = (let
     decision = \<lparr>ad_actions = [page_human obs], ad_retrieved = agent_hits lib g obs, ad_abstained = True,
       ad_authorized_memory_id = None, ad_decision_seconds = an_elapsed answer,
       ad_input_tokens = an_input_tokens answer, ad_output_tokens = an_output_tokens answer,
       ad_model_id = ag_model_id g, ad_invalid_plan = True\<rparr> in
     case parse_plan lib (concat (an_blocks answer)) of
       Inl (Unusable _) \<Rightarrow> Inr decision
     | Inl (Crash e) \<Rightarrow> Inl e
     | Inr (raw_actions, cited, _) \<Rightarrow>
         bindE (model_actions lib obs raw_actions) (\<lambda>proposed. let
           actions = (if proposed = [] then [page_human obs] else proposed);
           known = map (fst \<circ> snd) (retrieved g obs) in
         Inr (decision\<lparr>ad_actions := actions, ad_abstained := is_page (hd actions), ad_invalid_plan := False,
           ad_authorized_memory_id := (case cited of Some i \<Rightarrow> if i \<in> set known then Some i else None | None \<Rightarrow> None)\<rparr>)))"

definition agent_decide :: "agent_lib \<Rightarrow> prompt_texts \<Rightarrow> client \<Rightarrow> nat \<Rightarrow> agent_responder \<Rightarrow> observation \<Rightarrow>
    eval_error + agent_decision" where
  "agent_decide lib texts client n g obs =
     bindE (client n (request_of lib texts g obs)) (\<lambda>answer. read_decision lib g obs answer)"

end
