(* ===== verification/Ev_Compare.thy ===== *)
theory Ev_Compare
  imports Ev_Agent
begin

text \<open>
  The replay of an arm with the real model and the comparison of two arms
  (\<^verbatim>\<open>evaluation/postmortem_eval/real_agent.py\<close>). A step the simulator refuses is counted and skipped;
  an incident that stays open is a record without MTTR.
\<close>

section \<open>One arm\<close>

record agent_result =
  ar_scenario_id :: string
  ar_incident_id :: string
  ar_family_id :: string
  ar_variant_id :: string
  ar_resolved :: bool
  ar_mttr_seconds :: "int option"
  ar_decision_seconds :: real
  ar_actions_applied :: nat
  ar_wrong_actions :: nat
  ar_invalid_actions :: nat
  ar_first_action_correct :: bool
  ar_abstained :: bool
  ar_escalated :: bool
  ar_failed_orders :: nat
  ar_failed_order_value_cents :: int
  ar_input_tokens :: int
  ar_output_tokens :: int
  ar_retrieved_memory_ids :: "string list"
  ar_authorized_memory_id :: "string option"
  ar_invalid_plan :: bool

text \<open>\<open>advance_time\<close> with a float of seconds.\<close>

definition advance_float :: "agent_lib \<Rightarrow> real \<Rightarrow> unit sim" where
  "advance_float lib seconds =
     andThen (require (0 \<le> seconds) (SimulationError ''simulation time cannot move backwards''))
     (\<lambda>_. on_world (\<lambda>w. w\<lparr>w_now := w_now w + al_micros lib seconds\<rparr>))"

text \<open>\<open>except SimulationError\<close>\<close>

definition attempt_step :: "'a sim \<Rightarrow> 'a option sim" where
  "attempt_step m = (\<lambda>c. case m c of
     (Inr x, c') \<Rightarrow> (Inr (Some x), c')
   | (Inl (SimulationError _), c') \<Rightarrow> (Inr None, c')
   | (Inl e, c') \<Rightarrow> (Inl e, c'))"

text \<open>The results of the steps that ran, and the number of those that were refused.\<close>

fun attempt_plan :: "(string \<Rightarrow> string) \<Rightarrow> string \<Rightarrow> string option \<Rightarrow> action_plan list \<Rightarrow>
    (action_result list \<times> nat) sim" where
  "attempt_plan uuid5 iid memory_ref [] = ret ([], 0)"
| "attempt_plan uuid5 iid memory_ref (a # as) =
     andThen (attempt_step (apply_action uuid5 iid (pl_action_type a) (pl_target_service a) (pl_params a)
       ''agent:postmortem'' memory_ref)) (\<lambda>r. case r of
       None \<Rightarrow> andThen (attempt_plan uuid5 iid memory_ref as) (\<lambda>(rs, n). ret (rs, Suc n))
     | Some r \<Rightarrow> if res_resolved r then ret ([r], 0)
         else andThen (attempt_plan uuid5 iid memory_ref as) (\<lambda>(rs, n). ret (r # rs, n)))"

definition agent_memory_ref :: "agent_decision \<Rightarrow> string option" where
  "agent_memory_ref d = (case ad_authorized_memory_id d of None \<Rightarrow> None
   | Some i \<Rightarrow> if i = [] then None else Some (''memory:'' @ i))"

definition agent_result_of :: "agent_lib \<Rightarrow> incident \<Rightarrow> agent_decision \<Rightarrow> string list \<Rightarrow> nat \<Rightarrow> int option \<Rightarrow>
    order list \<Rightarrow> agent_result" where
  "agent_result_of lib inc d outcomes invalid mttr orders = \<lparr>
     ar_scenario_id = inc_scenario_id inc, ar_incident_id = inc_id inc, ar_family_id = inc_family_id inc,
     ar_variant_id = inc_variant_id inc, ar_resolved = (mttr \<noteq> None), ar_mttr_seconds = mttr,
     ar_decision_seconds = al_round lib 3 (ad_decision_seconds d), ar_actions_applied = length outcomes,
     ar_wrong_actions = length (filter (\<lambda>x. x = ''no_effect'') outcomes), ar_invalid_actions = invalid,
     ar_first_action_correct = (case outcomes of [] \<Rightarrow> False | x # _ \<Rightarrow> x = ''success''),
     ar_abstained = ad_abstained d, ar_escalated = list_ex is_page (ad_actions d),
     ar_failed_orders = length orders, ar_failed_order_value_cents = sum_list (map ord_amount_cents orders),
     ar_input_tokens = ad_input_tokens d, ar_output_tokens = ad_output_tokens d,
     ar_retrieved_memory_ids = map hit_memory_id (ad_retrieved d),
     ar_authorized_memory_id = ad_authorized_memory_id d, ar_invalid_plan = ad_invalid_plan d\<rparr>"

type_synonym decider = "nat \<Rightarrow> observation \<Rightarrow> eval_error + agent_decision"

definition agent_incident :: "agent_lib \<Rightarrow> (string \<Rightarrow> string) \<Rightarrow> decider \<Rightarrow> nat \<Rightarrow>
    (conductor, eval_error, agent_result) prog" where
  "agent_incident lib uuid5 decide n =
     andThen (reads (\<lambda>c. length (w_orders (cd_state c)))) (\<lambda>order_mark.
     andThen (in_sim (inject_next uuid5)) (\<lambda>inc. let iid = inc_id inc in
     andThen (in_sim (observe_incident iid)) (\<lambda>obs.
     andThen (lift_result (decide n obs)) (\<lambda>d.
     andThen (in_sim (advance_float lib (ad_decision_seconds d))) (\<lambda>_.
     andThen (in_sim (attempt_plan uuid5 iid (agent_memory_ref d) (ad_actions d))) (\<lambda>(rs, invalid).
     andThen (reads cd_state) (\<lambda>w.
     ret (agent_result_of lib inc d (map res_outcome rs) invalid
       (Option.bind (map_of (w_incidents w) iid) inc_mttr_seconds)
       (filter (\<lambda>x. ord_incident_id x = iid) (drop order_mark (w_orders w)))))))))))"

text \<open>\<open>while conductor.remaining_scenarios\<close>: the \<open>n\<close>-th round asks the client for the \<open>n\<close>-th time.\<close>

fun agent_rounds :: "agent_lib \<Rightarrow> (string \<Rightarrow> string) \<Rightarrow> decider \<Rightarrow> nat \<Rightarrow> nat \<Rightarrow>
    (conductor, eval_error, agent_result list) prog" where
  "agent_rounds lib uuid5 decide n 0 = ret []"
| "agent_rounds lib uuid5 decide n (Suc rounds) = andThen (reads remaining_scenarios) (\<lambda>remaining.
     if remaining = 0 then ret []
     else andThen (agent_incident lib uuid5 decide n) (\<lambda>r.
       andThen (agent_rounds lib uuid5 decide (Suc n) rounds) (\<lambda>rs. ret (r # rs))))"

definition agent_arm :: "agent_lib \<Rightarrow> (string \<Rightarrow> string) \<Rightarrow> decider \<Rightarrow> nat \<Rightarrow>
    (conductor, eval_error, agent_result list) prog" where
  "agent_arm lib uuid5 decide n = andThen (reads remaining_scenarios) (agent_rounds lib uuid5 decide n)"

section \<open>Summaries\<close>

record agent_summary =
  as_incidents :: nat
  as_resolved :: nat
  as_resolution_rate :: real
  as_median_mttr :: "real option"
  as_mean_mttr :: "real option"
  as_first_action_accuracy :: real
  as_wrong_actions :: nat
  as_invalid_actions :: nat
  as_invalid_plans :: nat
  as_escalations :: nat
  as_failed_orders :: nat
  as_failed_order_value_cents :: int
  as_mean_decision_seconds :: real
  as_input_tokens_total :: int
  as_output_tokens_total :: int
  as_incidents_detail :: "agent_result list"

text \<open>The MTTR of a record that is used as a number.\<close>

definition mttr_value :: "agent_result \<Rightarrow> eval_error + int" where
  "mttr_value r = needE No_data (ar_mttr_seconds r)"

definition agent_summarize :: "agent_lib \<Rightarrow> agent_result list \<Rightarrow> eval_error + agent_summary" where
  "agent_summarize lib results = (let
     resolved = filter ar_resolved results; n = length results in
     bindE (mapE mttr_value resolved) (\<lambda>mttr.
     bindE (if mttr = [] then Inr None else bindE (median mttr) (\<lambda>x. Inr (Some x))) (\<lambda>med.
     bindE (if mttr = [] then Inr None else bindE (mean (map real_of_int mttr)) (\<lambda>x. Inr (Some (al_round lib 3 x)))) (\<lambda>avg.
     bindE (if results = [] then Inr 0 else bindE (share (map ar_first_action_correct results)) (\<lambda>x. Inr (al_round lib 6 x))) (\<lambda>accuracy.
     bindE (if results = [] then Inr 0 else bindE (mean (map ar_decision_seconds results)) (\<lambda>x. Inr (al_round lib 3 x))) (\<lambda>seconds.
     Inr \<lparr>as_incidents = n, as_resolved = length resolved,
       as_resolution_rate = (if results = [] then 0 else al_round lib 6 (real (length resolved) / real n)),
       as_median_mttr = med, as_mean_mttr = avg, as_first_action_accuracy = accuracy,
       as_wrong_actions = sum_list (map ar_wrong_actions results),
       as_invalid_actions = sum_list (map ar_invalid_actions results),
       as_invalid_plans = count_true (map ar_invalid_plan results), as_escalations = count_true (map ar_escalated results),
       as_failed_orders = sum_list (map ar_failed_orders results),
       as_failed_order_value_cents = sum_list (map ar_failed_order_value_cents results),
       as_mean_decision_seconds = seconds, as_input_tokens_total = sum_list (map ar_input_tokens results),
       as_output_tokens_total = sum_list (map ar_output_tokens results), as_incidents_detail = results\<rparr>))))))"

section \<open>The paired comparison\<close>

definition by_scenario :: "agent_result list \<Rightarrow> (string, agent_result) dict" where
  "by_scenario results = foldl (\<lambda>d r. AList.update (ar_scenario_id r) r d) [] results"

definition shared_scenarios :: "(string, agent_result) dict \<Rightarrow> (string, agent_result) dict \<Rightarrow> string list" where
  "shared_scenarios xs ys = sort (filter (\<lambda>s. s \<in> set (map fst ys)) (map fst xs))"

definition resolved_in :: "(string, agent_result) dict \<Rightarrow> string \<Rightarrow> bool" where
  "resolved_in d s = (case map_of d s of None \<Rightarrow> False | Some r \<Rightarrow> ar_resolved r)"

definition mttrs_of :: "(string, agent_result) dict \<Rightarrow> string list \<Rightarrow> eval_error + int list" where
  "mttrs_of d = mapE (\<lambda>s. bindE (needE (Missing_key s) (map_of d s)) mttr_value)"

text \<open>The time to recover without the time the model took.\<close>

definition acting_times :: "(string, agent_result) dict \<Rightarrow> string list \<Rightarrow> eval_error + real list" where
  "acting_times d = mapE (\<lambda>s. bindE (needE (Missing_key s) (map_of d s)) (\<lambda>r.
     bindE (mttr_value r) (\<lambda>m. Inr (real_of_int m - ar_decision_seconds r))))"

definition reduction :: "agent_lib \<Rightarrow> real list \<Rightarrow> real list \<Rightarrow> eval_error + real option" where
  "reduction lib with_memory without = (if with_memory = [] then Inr None
     else bindE (mean with_memory) (\<lambda>mean_with. bindE (mean without) (\<lambda>mean_without.
       Inr (if mean_without = 0 then None
         else Some (al_round lib 3 ((mean_without - mean_with) / mean_without * 100))))))"

definition rounded_mean :: "agent_lib \<Rightarrow> real list \<Rightarrow> eval_error + real option" where
  "rounded_mean lib xs = (if xs = [] then Inr None else bindE (mean xs) (\<lambda>x. Inr (Some (al_round lib 3 x))))"

record paired_delta =
  pd_incidents_in_stream :: nat
  pd_resolved_by_both :: nat
  pd_resolved_by_memory_only :: "string list"
  pd_resolved_by_baseline_only :: "string list"
  pd_resolution_rate_delta_points :: "real option"
  pd_mttr_with_memory :: "real option"
  pd_mttr_no_memory :: "real option"
  pd_mttr_reduction_percent :: "real option"
  pd_mttr_reduction_excluding_latency :: "real option"
  pd_first_action_accuracy_delta :: "real option"
  pd_wrong_action_delta :: int
  pd_failed_orders_avoided :: int
  pd_failed_order_value_avoided_cents :: int

definition paired_delta_of :: "agent_lib \<Rightarrow> agent_result list \<Rightarrow> agent_result list \<Rightarrow> eval_error + paired_delta" where
  "paired_delta_of lib memory baseline = (let
     by_memory = by_scenario memory; by_baseline = by_scenario baseline;
     shared = shared_scenarios by_memory by_baseline;
     both = filter (\<lambda>s. resolved_in by_memory s \<and> resolved_in by_baseline s) shared;
     total = (\<lambda>f rs. int (sum_list (map f rs))) in
     bindE (mttrs_of by_memory both) (\<lambda>memory_mttr.
     bindE (mttrs_of by_baseline both) (\<lambda>baseline_mttr.
     bindE (acting_times by_memory both) (\<lambda>memory_act.
     bindE (acting_times by_baseline both) (\<lambda>baseline_act.
     bindE (rounded_mean lib (map real_of_int memory_mttr)) (\<lambda>memory_mean.
     bindE (rounded_mean lib (map real_of_int baseline_mttr)) (\<lambda>baseline_mean.
     bindE (reduction lib (map real_of_int memory_mttr) (map real_of_int baseline_mttr)) (\<lambda>mttr_reduction.
     bindE (reduction lib memory_act baseline_act) (\<lambda>act_reduction.
     bindE (if memory \<noteq> [] \<and> baseline \<noteq> []
       then bindE (share (map ar_first_action_correct memory)) (\<lambda>x. bindE (share (map ar_first_action_correct baseline)) (\<lambda>y.
         Inr (Some (al_round lib 6 (x - y)))))
       else Inr None) (\<lambda>accuracy_delta.
     Inr \<lparr>pd_incidents_in_stream = length shared, pd_resolved_by_both = length both,
       pd_resolved_by_memory_only = filter (\<lambda>s. resolved_in by_memory s \<and> \<not> resolved_in by_baseline s) shared,
       pd_resolved_by_baseline_only = filter (\<lambda>s. resolved_in by_baseline s \<and> \<not> resolved_in by_memory s) shared,
       pd_resolution_rate_delta_points = (if shared = [] then None else Some (al_round lib 3
         (real_of_int (int (count_true (map ar_resolved memory)) - int (count_true (map ar_resolved baseline))) / real (length shared) * 100))),
       pd_mttr_with_memory = memory_mean, pd_mttr_no_memory = baseline_mean,
       pd_mttr_reduction_percent = mttr_reduction, pd_mttr_reduction_excluding_latency = act_reduction,
       pd_first_action_accuracy_delta = accuracy_delta,
       pd_wrong_action_delta = total ar_wrong_actions memory - total ar_wrong_actions baseline,
       pd_failed_orders_avoided = total ar_failed_orders baseline - total ar_failed_orders memory,
       pd_failed_order_value_avoided_cents = sum_list (map ar_failed_order_value_cents baseline) -
         sum_list (map ar_failed_order_value_cents memory)\<rparr>))))))))))"

section \<open>The run\<close>

record agent_report =
  rr_model_id :: string
  rr_retrieval_k :: nat
  rr_with_memory :: agent_summary
  rr_no_memory :: agent_summary
  rr_decision_quality :: paired_delta

text \<open>Both arms replay conductors built from the same files; the second one continues the calls of the
  first.\<close>

definition run_agent :: "agent_lib \<Rightarrow> prompt_texts \<Rightarrow> (string \<Rightarrow> string) \<Rightarrow> client \<Rightarrow> string \<Rightarrow> nat \<Rightarrow> corpus_item list \<Rightarrow>
    conductor \<Rightarrow> eval_error + agent_report" where
  "run_agent lib texts uuid5 client model_id k items c0 = (let
     cat = catalog lib c0;
     arm = (\<lambda>name n. bindE (new_agent name model_id cat items k) (\<lambda>g.
       fst (agent_arm lib uuid5 (\<lambda>i obs. agent_decide lib texts client i g obs) n c0))) in
     bindE (arm ''with_memory'' 0) (\<lambda>memory_results.
     bindE (arm ''no_memory'' (length memory_results)) (\<lambda>baseline_results.
     bindE (checkE (map ar_scenario_id memory_results = map ar_scenario_id baseline_results)
       (Assertion_failure ''arms did not replay the same scenario stream'')) (\<lambda>_.
     bindE (agent_summarize lib memory_results) (\<lambda>with_memory.
     bindE (agent_summarize lib baseline_results) (\<lambda>no_memory.
     bindE (paired_delta_of lib memory_results baseline_results) (\<lambda>quality.
     Inr \<lparr>rr_model_id = model_id, rr_retrieval_k = k, rr_with_memory = with_memory, rr_no_memory = no_memory,
       rr_decision_quality = quality\<rparr>)))))))"

end
