(* ===== verification/Ev_Agent_Runs.thy ===== *)
theory Ev_Agent_Runs
  imports Ev_Compare Ev_Arms "HOL-Library.Sublist"
begin

text \<open>
  The comparison with the real model: what a decision may rest on, what the refused steps of a plan leave, and
  what a record accounts for.
\<close>

section \<open>Decisions\<close>

text \<open>A decision plays at least one step; a memory is authorized only when it was retrieved, so never in the arm
  without memory; an answer that gives no plan pages a human without any authorization.\<close>

definition grounded_decision :: "agent_responder \<Rightarrow> observation \<Rightarrow> agent_decision \<Rightarrow> bool" where
  "grounded_decision g obs d \<longleftrightarrow> ad_actions d \<noteq> [] \<and>
     map hit_memory_id (ad_retrieved d) = map (fst \<circ> snd) (retrieved g obs) \<and>
     set_option (ad_authorized_memory_id d) \<subseteq> hit_memory_id ` set (ad_retrieved d) \<and>
     (if ag_uses_memory g then length (ad_retrieved d) \<le> mp_retrieval_k (ag_memory g)
      else ad_retrieved d = [] \<and> ad_authorized_memory_id d = None) \<and>
     (ad_abstained d \<longleftrightarrow> pl_action_type (hd (ad_actions d)) \<in> {''no_op_page_human'', ''escalate''}) \<and>
     (ad_invalid_plan d \<longrightarrow> ad_authorized_memory_id d = None \<and>
       ad_actions d = [\<lparr>pl_action_type = ''no_op_page_human'', pl_target_service = obs_service obs, pl_params = []\<rparr>])"

lemma hits_ids: "map hit_memory_id (agent_hits lib g obs) = map (fst \<circ> snd) (retrieved g obs)"
  by (simp add: agent_hits_def case_prod_beta o_def)

lemma read_decision_grounded:
  assumes "read_decision lib g obs answer = Inr d"
  shows "grounded_decision g obs d"
proof -
  have ids: "hit_memory_id ` set (agent_hits lib g obs) = (fst \<circ> snd) ` set (retrieved g obs)"
    using hits_ids [of lib g obs] by (metis list.set_map)
  have known: "i \<in> hit_memory_id ` set (agent_hits lib g obs)" if "(s, i, m) \<in> set (retrieved g obs)" for s i m
    unfolding ids using that by force
  have "length (agent_hits lib g obs) = length (retrieved g obs)" by (simp add: agent_hits_def)
  moreover have "length (retrieved g obs) \<le> mp_retrieval_k (ag_memory g)" by (simp add: retrieved_def retrieve_def)
  moreover have "\<not> ag_uses_memory g \<Longrightarrow> retrieved g obs = []" by (simp add: retrieved_def)
  ultimately show ?thesis
    using assms hits_ids [of lib g obs]
    by (auto simp: read_decision_def Let_def grounded_decision_def is_page_def page_human_def
        split: sum.splits plan_failure.splits option.splits if_splits) (rule known, assumption)+
qed

text \<open>An answer gives no decision when it is nested too deeply to be parsed, or has no dictionary where one is taken.\<close>

definition too_deep :: "agent_lib \<Rightarrow> agent_answer \<Rightarrow> bool" where
  "too_deep lib answer \<longleftrightarrow> (\<exists>t. json_slice (concat (an_blocks answer)) = Some t \<and> al_loads lib t = Inl Too_deep)"

lemma model_action_Inl: "model_action lib obs item = Inl e \<Longrightarrow> e = Not_a_mapping"
  by (auto simp: model_action_def bindE_Inl_iff dict_value_def needE_def Let_def split: pyval.splits option.splits if_splits)

lemma model_actions_Inl: "model_actions lib obs items = Inl e \<Longrightarrow> e = Not_a_mapping"
  by (induction lib obs items rule: model_actions.induct) (auto simp: bindE_Inl_iff dest: model_action_Inl)

lemma parse_plan_crash:
  "parse_plan lib (concat (an_blocks answer)) = Inl (Crash e) \<Longrightarrow> (e = Recursion_failure \<and> too_deep lib answer) \<or> e = Not_a_mapping"
  by (auto simp: parse_plan_def too_deep_def Let_def
      split: option.splits sum.splits json_failure.splits pyval.splits list.splits)

lemma read_decision_Inl:
  "read_decision lib g obs answer = Inl e \<Longrightarrow> (e = Recursion_failure \<and> too_deep lib answer) \<or> e = Not_a_mapping"
  by (auto simp: read_decision_def Let_def bindE_Inl_iff dest: model_actions_Inl parse_plan_crash
      split: sum.splits plan_failure.splits)

section \<open>Refused steps\<close>

text \<open>A plan with refused steps runs as the plan without them, up to the step that resolved the incident.\<close>

lemma attempt_step_None: "attempt_step m c = (Inr None, c') \<Longrightarrow> \<exists>msg. m c = (Inl (SimulationError msg), c')"
  by (auto simp: attempt_step_def split: prod.splits sum.splits sim_error.splits)

lemma attempt_step_Some: "attempt_step m c = (Inr (Some x), c') \<longleftrightarrow> m c = (Inr x, c')"
  by (auto simp: attempt_step_def split: prod.splits sum.splits sim_error.splits)

lemma attempt_plan_play:
  assumes "attempt_plan uuid5 iid mem as c = (Inr (rs, n), c')"
  shows "\<exists>bs. subseq bs as \<and> length bs = length rs \<and> length bs + n \<le> length as \<and>
    play uuid5 iid mem bs c = (Inr rs, c')"
  using assms
proof (induction as arbitrary: c rs n)
  case Nil
  then show ?case by (auto simp: run_prog)
next
  case (Cons a as)
  let ?m = "apply_action uuid5 iid (pl_action_type a) (pl_target_service a) (pl_params a) ''agent:postmortem'' mem"
  from Cons.prems obtain r d where r: "attempt_step ?m c = (Inr r, d)"
    and rest: "(case r of
       None \<Rightarrow> andThen (attempt_plan uuid5 iid mem as) (\<lambda>(rs, n). ret (rs, Suc n))
     | Some r \<Rightarrow> if res_resolved r then ret ([r], 0)
         else andThen (attempt_plan uuid5 iid mem as) (\<lambda>(rs, n). ret (r # rs, n))) d = (Inr (rs, n), c')"
    by (auto elim!: andThen_Inr)
  show ?case
  proof (cases r)
    case None
    with r attempt_step_None apply_action_refused have "d = c" by metis
    with rest None obtain m where "attempt_plan uuid5 iid mem as c = (Inr (rs, m), c')" "n = Suc m"
      by (auto simp: run_prog elim!: andThen_Inr)
    with Cons.IH obtain bs where "subseq bs as" "length bs = length rs" "length bs + m \<le> length as"
      "play uuid5 iid mem bs c = (Inr rs, c')" by blast
    with \<open>n = Suc m\<close> show ?thesis by (intro exI [of _ bs]) auto
  next
    case (Some r0)
    with r have run: "?m c = (Inr r0, d)" by (simp add: attempt_step_Some)
    show ?thesis
    proof (cases "res_resolved r0")
      case True
      with rest Some run show ?thesis by (intro exI [of _ "[a]"]) (auto simp: run_prog run_andThen)
    next
      case False
      with rest Some obtain rs2 where "attempt_plan uuid5 iid mem as d = (Inr (rs2, n), c')" and rs: "rs = r0 # rs2"
        by (auto simp: run_prog elim!: andThen_Inr)
      with Cons.IH obtain bs where "subseq bs as" "length bs = length rs2" "length bs + n \<le> length as"
        "play uuid5 iid mem bs d = (Inr rs2, c')" by blast
      with run False rs show ?thesis by (intro exI [of _ "a # bs"]) (auto simp: run_andThen run_prog)
    qed
  qed
qed

section \<open>Records\<close>

definition agent_accounts :: "agent_lib \<Rightarrow> conductor \<Rightarrow> decider \<Rightarrow> nat \<times> scenario \<Rightarrow> agent_result \<Rightarrow> bool" where
  "agent_accounts lib c decide job r \<longleftrightarrow> (\<exists>obs d. decide (fst job) obs = Inr d \<and>
     obs_incident_id obs = ar_incident_id r \<and> obs_title obs = scn_title (snd job) \<and>
     obs_service obs = scn_target_service (snd job) \<and> ar_scenario_id r = scn_id (snd job) \<and>
     0 \<le> ad_decision_seconds d \<and>
     ar_actions_applied r + ar_invalid_actions r \<le> length (ad_actions d) \<and>
     ar_wrong_actions r \<le> ar_actions_applied r \<and>
     ar_failed_orders r = lost_at_start (snd job) + 2 * ar_wrong_actions r \<and>
     (ar_resolved r \<longleftrightarrow> ar_mttr_seconds r \<noteq> None) \<and>
     (if ar_actions_applied r = 0 then \<not> ar_resolved r
      else \<exists>p. policy_for c (snd job) = Some p \<and> ar_mttr_seconds r =
        (if ar_actions_applied r - ar_wrong_actions r = length (pol_required_actions p)
         then Some (whole_seconds (al_micros lib (ad_decision_seconds d) +
           sec (int (ar_actions_applied r - ar_wrong_actions r) * pol_action_seconds p +
             int (ar_wrong_actions r) * pol_wrong_action_penalty_seconds p)))
         else None)) \<and>
     ar_authorized_memory_id r = ad_authorized_memory_id d \<and> ar_invalid_plan r = ad_invalid_plan d)"

lemma agent_accounts_schedule:
  "cd_oracle d = cd_oracle c \<Longrightarrow> cd_scenario_oracle d = cd_scenario_oracle c \<Longrightarrow>
   agent_accounts lib d decide = agent_accounts lib c decide"
  by (intro ext) (simp add: agent_accounts_def policy_for_def)

lemma advance_float_Inr: "advance_float lib s c = (Inr x, c') \<longleftrightarrow>
    0 \<le> s \<and> c' = set_now (w_now (cd_state c) + al_micros lib s) c"
  by (auto simp: advance_float_def prog_simps on_world_def set_now_def)

lemma agent_incident_accounts:
  assumes "agent_incident lib uuid5 decide n c = (Inr r, c')"
  shows "cd_next_scenario c < length (cd_scenarios c) \<and>
    agent_accounts lib c decide (n, cd_scenarios c ! cd_next_scenario c) r \<and>
    ar_incident_id r = sim_id uuid5 (cd_seed c) ''incident'' (ar_scenario_id r) \<and>
    schedule c' = schedule (c\<lparr>cd_next_scenario := Suc (cd_next_scenario c)\<rparr>)"
  using assms unfolding agent_incident_def Let_def run_step
proof (elim andThen_Inr, unfold in_sim_Inr advance_float_Inr run_lift_result)
  fix inc :: incident and c1 c2 c3 c4 c5 c6 :: conductor and obs d out
  assume inj: "inject_next uuid5 c = (Inr inc, c1)" and obs: "observe_incident (inc_id inc) c1 = (Inr obs, c2)"
    and d: "(decide n obs, c2) = (Inr d, c3)"
    and adv: "0 \<le> ad_decision_seconds d \<and> c4 = set_now (w_now (cd_state c3) + al_micros lib (ad_decision_seconds d)) c3"
    and plan: "attempt_plan uuid5 (inc_id inc) (agent_memory_ref d) (ad_actions d) c4 = (Inr out, c5)"
    and fin: "(case out of (rs, invalid) \<Rightarrow> \<lambda>s. ret (agent_result_of lib inc d (map res_outcome rs) invalid
       (Option.bind (map_of (w_incidents (cd_state s)) (inc_id inc)) inc_mttr_seconds)
       (filter (\<lambda>x. ord_incident_id x = inc_id inc) (drop (length (w_orders (cd_state c))) (w_orders (cd_state s))))) s) c5 = (Inr r, c')"
  obtain rs invalid where o: "out = (rs, invalid)" by (cases out)
  have c1: "c2 = c1" using obs by (rule observe_Inr)
  with d have c3: "c3 = c1" and dec: "decide n obs = Inr d" by simp_all
  from attempt_plan_play [OF plan [unfolded o]] obtain bs where
    bs: "length bs = length rs" "length bs + invalid \<le> length (ad_actions d)"
    and play: "play uuid5 (inc_id inc) (agent_memory_ref d) bs
      (set_now (w_now (cd_state c1) + al_micros lib (ad_decision_seconds d)) c1) = (Inr rs, c5)"
    using adv c3 by auto
  obtain sc os log now where sc: "cd_next_scenario c < length (cd_scenarios c)" "sc = cd_scenarios c ! cd_next_scenario c"
    and inc: "inc = new_incident uuid5 (cd_seed c) sc now" and f1: "find_incident c1 (inc_id inc) = Some inc"
    and sched: "schedule c5 = schedule (c\<lparr>cd_next_scenario := Suc (cd_next_scenario c)\<rparr>)"
    and os: "w_orders (cd_state c5) = w_orders (cd_state c) @ os" "own_orders (inc_id inc) os"
      "length os = lost_at_start sc + 2 * missed rs"
    and case_out: "case_outcome c sc (al_micros lib (ad_decision_seconds d)) rs (case_mttr c5 (inc_id inc))"
    by (rule played_case [OF inj play])
  have r: "c' = c5" "r = agent_result_of lib inc d (map res_outcome rs) invalid (case_mttr c5 (inc_id inc)) os"
    using fin own_filter [OF os(2)] os(1) by (auto simp: o run_step run_prog case_mttr_def find_incident_def)
  have "length (filter (\<lambda>x. x = ''no_effect'') (map res_outcome rs)) = missed rs"
    by (rule missed_outcomes) (rule play_outcomes [OF play])
  then have fields: "ar_actions_applied r = length rs" "ar_wrong_actions r = missed rs"
    "ar_invalid_actions r = invalid" "ar_failed_orders r = lost_at_start sc + 2 * missed rs"
    "ar_mttr_seconds r = case_mttr c5 (inc_id inc)" "ar_resolved r \<longleftrightarrow> ar_mttr_seconds r \<noteq> None"
    using os(3) by (simp_all add: r(2) agent_result_of_def)
  have total: "length rs - missed rs = matched rs" "missed rs \<le> length rs"
    using matched_le [of rs] by (simp_all add: missed_def)
  have "obs_incident_id obs = inc_id inc" "obs_title obs = scn_title sc" "obs_service obs = scn_target_service sc"
    using observe_Inr [OF obs] f1 by (auto simp: inc new_incident_def c1)
  with dec bs adv case_out have "agent_accounts lib c decide (n, sc) r"
    unfolding agent_accounts_def fields case_outcome_def
    by (intro exI [of _ obs] exI [of _ d])
      (auto simp: total cost_def r(2) agent_result_of_def inc new_incident_def split: if_splits)
  moreover have "ar_incident_id r = sim_id uuid5 (cd_seed c) ''incident'' (ar_scenario_id r)"
    by (simp add: r(2) agent_result_of_def inc new_incident_def)
  ultimately show ?thesis using sc sched r(1) by simp
qed

lemma agent_rounds_accounts:
  assumes "agent_rounds lib uuid5 decide n k c = (Inr rs, c')" and "remaining_scenarios c \<le> k"
  shows "list_all2 (agent_accounts lib c decide) (enumerate n (drop (cd_next_scenario c) (cd_scenarios c))) rs \<and>
    map ar_incident_id rs = map (sim_id uuid5 (cd_seed c) ''incident'') (map ar_scenario_id rs) \<and>
    remaining_scenarios c' = 0"
  using assms
proof (induction k arbitrary: n c rs)
  case 0
  then show ?case by (auto simp: run_prog remaining_scenarios_def)
next
  case (Suc k)
  show ?case
  proof (cases "remaining_scenarios c = 0")
    case True
    with Suc.prems(1) show ?thesis by (auto simp: run_step run_prog remaining_scenarios_def)
  next
    case False
    with Suc.prems(1) obtain r d rs2 where r: "agent_incident lib uuid5 decide n c = (Inr r, d)"
      and rest: "agent_rounds lib uuid5 decide (Suc n) k d = (Inr rs2, c')" and rs: "rs = r # rs2"
      by (auto simp: run_step run_prog elim!: andThen_Inr)
    note one = agent_incident_accounts [OF r]
    then have d: "cd_scenarios d = cd_scenarios c" "cd_next_scenario d = Suc (cd_next_scenario c)"
      "cd_seed d = cd_seed c" "agent_accounts lib d decide = agent_accounts lib c decide"
      by (auto simp: schedule_def intro!: agent_accounts_schedule)
    have "remaining_scenarios d \<le> k" using Suc.prems(2) False d by (simp add: remaining_scenarios_def)
    from Suc.IH [OF rest this] one d rs
      Cons_nth_drop_Suc [of "cd_next_scenario c" "cd_scenarios c", symmetric]
    show ?thesis by simp
  qed
qed

lemma agent_arm_accounts:
  assumes "agent_arm lib uuid5 decide n c = (Inr rs, c')"
  shows "list_all2 (agent_accounts lib c decide) (enumerate n (drop (cd_next_scenario c) (cd_scenarios c))) rs \<and>
    map ar_incident_id rs = map (sim_id uuid5 (cd_seed c) ''incident'') (map ar_scenario_id rs) \<and>
    remaining_scenarios c' = 0"
  using agent_rounds_accounts [of lib uuid5 decide n "remaining_scenarios c" c rs c'] assms
  by (simp add: agent_arm_def run_step)

lemma agent_scenarios:
  assumes "list_all2 (agent_accounts lib c decide) (enumerate n scs) rs"
  shows "map ar_scenario_id rs = map scn_id scs"
  using assms
  by (auto simp: list_all2_conv_all_nth agent_accounts_def nth_enumerate_eq intro!: nth_equalityI)

end
