(* ===== verification/Ev_Paired.thy ===== *)
theory Ev_Paired
  imports Ev_Compare "HOL-Library.Multiset"
begin

text \<open>Facts about the paired comparison of two arms.\<close>

section \<open>Tables of records\<close>

lemma distinct_by_scenario: "distinct (map fst (by_scenario results))"
proof -
  have "distinct (map fst (foldl (\<lambda>d r. AList.update (ar_scenario_id r) r d) d results))" if "distinct (map fst d)" for d
    using that by (induction results arbitrary: d) (simp_all add: distinct_update)
  then show ?thesis by (simp add: by_scenario_def)
qed

lemma shared_sym: "shared_scenarios xs ys = shared_scenarios ys xs" if "distinct (map fst xs)" "distinct (map fst ys)"
proof (rule sorted_distinct_set_unique)
  show "set (shared_scenarios xs ys) = set (shared_scenarios ys xs)" by (auto simp: shared_scenarios_def)
qed (use that in \<open>simp_all add: shared_scenarios_def\<close>)

lemma distinct_shared: "distinct (map fst xs) \<Longrightarrow> distinct (shared_scenarios xs ys)"
  by (simp add: shared_scenarios_def)

lemma update_new: "k \<notin> fst ` set d \<Longrightarrow> AList.update k v d = d @ [(k, v)]"
  by (induction d) auto

lemma by_scenario_distinct:
  assumes "distinct (map ar_scenario_id results)"
  shows "by_scenario results = map (\<lambda>r. (ar_scenario_id r, r)) results"
proof -
  have "foldl (\<lambda>d r. AList.update (ar_scenario_id r) r d) d rs = d @ map (\<lambda>r. (ar_scenario_id r, r)) rs"
    if "distinct (map ar_scenario_id rs)" "fst ` set d \<inter> ar_scenario_id ` set rs = {}" for d rs
    using that by (induction rs arbitrary: d) (auto simp: update_new)
  from this [of results "[]"] assms show ?thesis by (simp add: by_scenario_def)
qed

lemma lookup_scenario:
  assumes "distinct (map ar_scenario_id results)" "r \<in> set results"
  shows "map_of (by_scenario results) (ar_scenario_id r) = Some r"
proof (rule map_of_is_SomeI)
  show "distinct (map fst (by_scenario results))" by (rule distinct_by_scenario)
  show "(ar_scenario_id r, r) \<in> set (by_scenario results)" using assms by (simp add: by_scenario_distinct)
qed

section \<open>Parts of the comparison\<close>

lemma reduction_returns: "length xs = length ys \<Longrightarrow> \<exists>x. reduction lib xs ys = Inr x"
  by (auto simp: reduction_def mean_def)

lemma rounded_mean_returns: "\<exists>x. rounded_mean lib xs = Inr x"
  by (auto simp: rounded_mean_def mean_def)

lemma mapE_length: "mapE f xs = Inr ys \<Longrightarrow> length ys = length xs"
  by (induction xs arbitrary: ys) auto

definition both_resolved :: "agent_result list \<Rightarrow> agent_result list \<Rightarrow> string list" where
  "both_resolved memory baseline = filter (\<lambda>s. resolved_in (by_scenario memory) s \<and> resolved_in (by_scenario baseline) s)
     (shared_scenarios (by_scenario memory) (by_scenario baseline))"

definition only_resolved :: "agent_result list \<Rightarrow> agent_result list \<Rightarrow> string list" where
  "only_resolved memory baseline = filter (\<lambda>s. resolved_in (by_scenario memory) s \<and> \<not> resolved_in (by_scenario baseline) s)
     (shared_scenarios (by_scenario memory) (by_scenario baseline))"

definition accuracy_delta :: "agent_lib \<Rightarrow> agent_result list \<Rightarrow> agent_result list \<Rightarrow> real option" where
  "accuracy_delta lib memory baseline = (if memory \<noteq> [] \<and> baseline \<noteq> []
     then Some (al_round lib 6 (sum_list (map (of_bool \<circ> ar_first_action_correct) memory) / real (length memory) -
       sum_list (map (of_bool \<circ> ar_first_action_correct) baseline) / real (length baseline))) else None)"

definition rate_delta :: "agent_lib \<Rightarrow> agent_result list \<Rightarrow> agent_result list \<Rightarrow> real option" where
  "rate_delta lib memory baseline = (if shared_scenarios (by_scenario memory) (by_scenario baseline) = [] then None
     else Some (al_round lib 3 (real_of_int (int (count_true (map ar_resolved memory)) - int (count_true (map ar_resolved baseline))) /
       real (length (shared_scenarios (by_scenario memory) (by_scenario baseline))) * 100)))"

definition total_of :: "(agent_result \<Rightarrow> nat) \<Rightarrow> agent_result list \<Rightarrow> int" where
  "total_of f rs = int (sum_list (map f rs))"

text \<open>The comparison read part by part.\<close>

definition compares :: "agent_lib \<Rightarrow> agent_result list \<Rightarrow> agent_result list \<Rightarrow> paired_delta \<Rightarrow> bool" where
  "compares lib memory baseline p \<longleftrightarrow>
     pd_incidents_in_stream p = length (shared_scenarios (by_scenario memory) (by_scenario baseline)) \<and>
     pd_resolved_by_both p = length (both_resolved memory baseline) \<and>
     pd_resolved_by_memory_only p = only_resolved memory baseline \<and>
     pd_resolved_by_baseline_only p = filter (\<lambda>s. resolved_in (by_scenario baseline) s \<and> \<not> resolved_in (by_scenario memory) s)
       (shared_scenarios (by_scenario memory) (by_scenario baseline)) \<and>
     pd_resolution_rate_delta_points p = rate_delta lib memory baseline \<and>
     pd_first_action_accuracy_delta p = accuracy_delta lib memory baseline \<and>
     pd_wrong_action_delta p = total_of ar_wrong_actions memory - total_of ar_wrong_actions baseline \<and>
     pd_failed_orders_avoided p = total_of ar_failed_orders baseline - total_of ar_failed_orders memory \<and>
     pd_failed_order_value_avoided_cents p = sum_list (map ar_failed_order_value_cents baseline) -
       sum_list (map ar_failed_order_value_cents memory)"

lemma share_sum: "xs \<noteq> [] \<Longrightarrow> share (map f xs) = Inr (sum_list (map (of_bool \<circ> f) xs) / real (length xs))"
  by (simp add: share_def mean_def)

lemma paired_delta_parts:
  "paired_delta_of lib memory baseline = Inr p \<longleftrightarrow> (\<exists>mm bm ma ba.
     mttrs_of (by_scenario memory) (both_resolved memory baseline) = Inr mm \<and>
     mttrs_of (by_scenario baseline) (both_resolved memory baseline) = Inr bm \<and>
     acting_times (by_scenario memory) (both_resolved memory baseline) = Inr ma \<and>
     acting_times (by_scenario baseline) (both_resolved memory baseline) = Inr ba \<and>
     rounded_mean lib (map real_of_int mm) = Inr (pd_mttr_with_memory p) \<and>
     rounded_mean lib (map real_of_int bm) = Inr (pd_mttr_no_memory p) \<and>
     reduction lib (map real_of_int mm) (map real_of_int bm) = Inr (pd_mttr_reduction_percent p) \<and>
     reduction lib ma ba = Inr (pd_mttr_reduction_excluding_latency p) \<and>
     compares lib memory baseline p)"
  (is "?l \<longleftrightarrow> ?r")
proof
  assume ?l
  then show ?r
    unfolding paired_delta_of_def Let_def both_resolved_def [symmetric]
    by (auto simp: compares_def only_resolved_def both_resolved_def rate_delta_def accuracy_delta_def total_of_def share_sum
        split: if_splits)
next
  assume ?r
  then show ?l
    unfolding paired_delta_of_def Let_def both_resolved_def [symmetric]
    by (elim exE conjE, cases p)
      (simp add: compares_def only_resolved_def both_resolved_def rate_delta_def accuracy_delta_def total_of_def share_sum)
qed

end
