(* ===== verification/Ev_Agent_Claims.thy ===== *)
theory Ev_Agent_Claims
  imports Ev_Agent_Runs Ev_Paired Ev_Bench
begin

text \<open>
  The properties of the comparison with the real model: what its decisions rest on, what a record accounts for
  when steps are refused or the incident stays open, that only the memory separates the arms, and what the
  paired comparison says.
\<close>

section \<open>Decisions and records\<close>


text \<open>C34. An arm with the real model that returns has one record per scenario of the fixture in the order of the
  stream, asking the model once for each, and each record accounts for what the model did: applied and refused
  steps together are at most the steps of the decision; refused steps took no time and lost no order, so the
  orders lost are those of the injection and two per miss; the incident is resolved exactly when the applied
  steps contain every required action, and then its MTTR is the thinking time, the action times and the
  penalties in whole seconds; otherwise it has none.\<close>

theorem ev_agent_accounts:
  assumes "agent_arm lib uuid5 decide n (new_conductor uuid5 fx families scenarios) = (Inr rs, c')"
  shows "\<exists>scs. mset scs = mset (fx_scenarios fx) \<and>
    sorted (map (\<lambda>s. (scn_inject_at_seconds s, scn_id s)) scs) \<and>
    list_all2 (agent_accounts lib (new_conductor uuid5 fx families scenarios) decide) (enumerate n scs) rs \<and>
    map ar_incident_id rs = map (\<lambda>s. sim_id uuid5 (fx_seed fx) ''incident'' (scn_id s)) scs \<and>
    remaining_scenarios c' = 0"
proof -
  let ?scs = "sort_key (\<lambda>s. (scn_inject_at_seconds s, scn_id s)) (fx_scenarios fx)"
  from agent_arm_accounts [OF assms] have run: "list_all2 (agent_accounts lib (new_conductor uuid5 fx families scenarios) decide) (enumerate n ?scs) rs"
    "map ar_incident_id rs = map (sim_id uuid5 (fx_seed fx) ''incident'') (map ar_scenario_id rs)"
    "remaining_scenarios c' = 0" by (simp_all add: new_conductor_def)
  with agent_scenarios [OF run(1)] show ?thesis by (intro exI [of _ ?scs]) simp
qed

definition plain_agent_lib :: agent_lib where
  "plain_agent_lib = \<lparr>al_dumps = (\<lambda>v. []), al_loads = (\<lambda>s. Inl Not_json), al_isoformat = (\<lambda>t. []), al_repr = (\<lambda>v. []),
     al_round = (\<lambda>n x. x), al_micros = (\<lambda>s. \<lfloor>s * 1000000\<rfloor>), al_dict = (\<lambda>v. None)\<rparr>"

definition scripted_answer :: decider where
  "scripted_answer n obs = Inr \<lparr>ad_actions = [plan ''reboot'' (obs_service obs) [], plan ''restart_service'' (obs_service obs) []],
     ad_retrieved = [], ad_abstained = False, ad_authorized_memory_id = None, ad_decision_seconds = 5, ad_input_tokens = 1,
     ad_output_tokens = 1, ad_model_id = ''m'', ad_invalid_plan = False\<rparr>"

definition agent_bench_run :: "(eval_error + agent_result list) \<times> conductor" where
  "agent_bench_run = agent_arm plain_agent_lib id scripted_answer 0 bench_conductor"

lemma agent_bench_evaluated:
  "(case agent_bench_run of (Inr rs, c') \<Rightarrow> map (\<lambda>r. (ar_mttr_seconds r, ar_invalid_actions r)) rs = [(Some 35, 1)] | _ \<Rightarrow> False)"
  by code_simp

theorem ev_agent_accounts_witness:
  "\<exists>rs c'. agent_bench_run = (Inr rs, c') \<and> map ar_mttr_seconds rs = [Some 35] \<and>
     map ar_incident_id rs = map (\<lambda>s. sim_id id 7 ''incident'' (scn_id s)) (fx_scenarios bench_fixture)"
proof -
  obtain rs c' where run: "agent_arm plain_agent_lib id scripted_answer 0 bench_conductor = (Inr rs, c')"
    and m: "map (\<lambda>r. (ar_mttr_seconds r, ar_invalid_actions r)) rs = [(Some 35, 1)]"
    using agent_bench_evaluated by (auto simp: agent_bench_run_def split: prod.splits sum.splits)
  from ev_agent_accounts [OF run [unfolded bench_conductor_def]] obtain scs where
    "mset scs = mset (fx_scenarios bench_fixture)"
    "map ar_incident_id rs = map (\<lambda>s. sim_id id (fx_seed bench_fixture) ''incident'' (scn_id s)) scs" by blast
  moreover from this(1) have "scs = fx_scenarios bench_fixture" by (simp add: bench_fixture_def)
  ultimately show ?thesis using run m by (auto simp: agent_bench_run_def bench_fixture_def)
qed

section \<open>The two arms\<close>

lemma str_join_append: "xs \<noteq> [] \<Longrightarrow> ys \<noteq> [] \<Longrightarrow> str_join sep (xs @ ys) = str_join sep xs @ sep @ str_join sep ys"
proof (induction sep xs rule: str_join.induct)
  case (2 sep x)
  then show ?case by (cases ys) auto
qed auto

text \<open>C35. The arms differ in the retrieved memory only. On the same observation both ask the same model with the same
  system prompt and limits, and the two questions agree up to the section on prior incidents: the arm
  without memory has a fixed text there, which depends neither on the corpus nor on the incident. And whatever the
  two responders do, the arms that return have recorded the same scenarios under the same incident ids, so the
  run's assertion holds.\<close>

theorem ev_agent_arms:
  "(case (new_agent ''with_memory'' model cat items k, new_agent ''no_memory'' model cat items k) of
      (Inr g, Inr h) \<Rightarrow>
        request_of lib texts g obs = (request_of lib texts h obs)\<lparr>rq_text := rq_text (request_of lib texts g obs)\<rparr> \<and>
        (\<exists>common. rq_text (request_of lib texts g obs) = common @ str_join line_break
             [''## Retrieved prior incidents'', pt_memory_rules texts, memory_block lib (retrieve g obs) obs] \<and>
           rq_text (request_of lib texts h obs) = common @ str_join line_break
             [''## Prior incidents'', pt_no_memory_rules texts])
    | _ \<Rightarrow> False) \<and>
   (case (fst (agent_arm lib uuid5 decide n c0), fst (agent_arm lib uuid5 decide' n' c0)) of
      (Inr ms, Inr bs) \<Rightarrow> map ar_scenario_id ms = map ar_scenario_id bs \<and> map ar_incident_id ms = map ar_incident_id bs
    | _ \<Rightarrow> True)"
proof (intro conjI)
  obtain g h where gh: "new_agent ''with_memory'' model cat items k = Inr g" "new_agent ''no_memory'' model cat items k = Inr h"
    and g: "ag_uses_memory g" and h: "\<not> ag_uses_memory h" and same: "ag_model_id h = ag_model_id g" "ag_catalog h = ag_catalog g"
    by (auto simp: new_agent_def checkE_def)
  let ?common = "str_join line_break (common_sections lib texts g obs) @ line_break"
  have eq: "common_sections lib texts h obs = common_sections lib texts g obs" using same by (simp add: common_sections_def)
  have ne: "common_sections lib texts g obs \<noteq> []" by (simp add: common_sections_def)
  have "rq_text (request_of lib texts g obs) = ?common @ str_join line_break
      [''## Retrieved prior incidents'', pt_memory_rules texts, memory_block lib (retrieve g obs) obs]"
    using g ne by (simp add: request_of_def memory_sections_def retrieved_def str_join_append)
  moreover have "rq_text (request_of lib texts h obs) = ?common @ str_join line_break [''## Prior incidents'', pt_no_memory_rules texts]"
    using h ne by (simp add: request_of_def memory_sections_def str_join_append eq)
  ultimately show "(case (new_agent ''with_memory'' model cat items k, new_agent ''no_memory'' model cat items k) of
      (Inr g, Inr h) \<Rightarrow>
        request_of lib texts g obs = (request_of lib texts h obs)\<lparr>rq_text := rq_text (request_of lib texts g obs)\<rparr> \<and>
        (\<exists>common. rq_text (request_of lib texts g obs) = common @ str_join line_break
             [''## Retrieved prior incidents'', pt_memory_rules texts, memory_block lib (retrieve g obs) obs] \<and>
           rq_text (request_of lib texts h obs) = common @ str_join line_break
             [''## Prior incidents'', pt_no_memory_rules texts])
    | _ \<Rightarrow> False)"
    unfolding gh using same by (auto simp: request_of_def)
next
  obtain m c1 where m: "agent_arm lib uuid5 decide n c0 = (m, c1)" by fastforce
  obtain b c2 where b: "agent_arm lib uuid5 decide' n' c0 = (b, c2)" by fastforce
  have "map ar_scenario_id ms = map ar_scenario_id bs \<and> map ar_incident_id ms = map ar_incident_id bs"
    if "m = Inr ms" "b = Inr bs" for ms bs
  proof -
    note run = agent_arm_accounts [OF m [unfolded that]] agent_arm_accounts [OF b [unfolded that]]
    from run have s: "map ar_scenario_id ms = map ar_scenario_id bs"
      by (metis agent_scenarios)
    from run have i: "map ar_incident_id ms = map (sim_id uuid5 (cd_seed c0) ''incident'') (map ar_scenario_id ms)"
      "map ar_incident_id bs = map (sim_id uuid5 (cd_seed c0) ''incident'') (map ar_scenario_id bs)" by (simp_all only:)
    show ?thesis unfolding i s by (simp only: simp_thms)
  qed
  with m b show "case (fst (agent_arm lib uuid5 decide n c0), fst (agent_arm lib uuid5 decide' n' c0)) of
      (Inr ms, Inr bs) \<Rightarrow> map ar_scenario_id ms = map ar_scenario_id bs \<and> map ar_incident_id ms = map ar_incident_id bs
    | _ \<Rightarrow> True"
    by (auto split: sum.split)
qed

section \<open>The paired comparison\<close>

lemma both_sym: "both_resolved baseline memory = both_resolved memory baseline"
  by (simp add: both_resolved_def shared_sym [OF distinct_by_scenario distinct_by_scenario, of baseline memory] conj_commute)

text \<open>C36. The comparison takes no side: exchanging the arms exchanges the scenarios only one of them resolved and the
  two paired means, keeps the stream and the paired incidents, and negates every difference (resolution rate,
  first-action accuracy, wrong actions, failed orders and their value), given that rounding is symmetric.\<close>

theorem ev_paired_swap:
  assumes "paired_delta_of lib memory baseline = Inr p" and odd: "\<And>n x. al_round lib n (- x) = - al_round lib n x"
  shows "\<exists>q. paired_delta_of lib baseline memory = Inr q \<and>
    pd_resolved_by_memory_only q = pd_resolved_by_baseline_only p \<and>
    pd_resolved_by_baseline_only q = pd_resolved_by_memory_only p \<and>
    pd_incidents_in_stream q = pd_incidents_in_stream p \<and> pd_resolved_by_both q = pd_resolved_by_both p \<and>
    pd_mttr_with_memory q = pd_mttr_no_memory p \<and> pd_mttr_no_memory q = pd_mttr_with_memory p \<and>
    pd_resolution_rate_delta_points q = map_option uminus (pd_resolution_rate_delta_points p) \<and>
    pd_first_action_accuracy_delta q = map_option uminus (pd_first_action_accuracy_delta p) \<and>
    pd_wrong_action_delta q = - pd_wrong_action_delta p \<and>
    pd_failed_orders_avoided q = - pd_failed_orders_avoided p \<and>
    pd_failed_order_value_avoided_cents q = - pd_failed_order_value_avoided_cents p"
proof -
  from assms(1) obtain mm bm ma ba where
    parts: "mttrs_of (by_scenario memory) (both_resolved memory baseline) = Inr mm"
      "mttrs_of (by_scenario baseline) (both_resolved memory baseline) = Inr bm"
      "acting_times (by_scenario memory) (both_resolved memory baseline) = Inr ma"
      "acting_times (by_scenario baseline) (both_resolved memory baseline) = Inr ba"
      "rounded_mean lib (map real_of_int mm) = Inr (pd_mttr_with_memory p)"
      "rounded_mean lib (map real_of_int bm) = Inr (pd_mttr_no_memory p)"
    and cmp: "compares lib memory baseline p"
    unfolding paired_delta_parts by blast
  have len: "length bm = length mm" "length ba = length ma"
    using parts(1-4) by (auto simp: mttrs_of_def acting_times_def dest!: mapE_length)
  obtain x where x: "reduction lib (map real_of_int bm) (map real_of_int mm) = Inr x"
    using reduction_returns [of "map real_of_int bm" "map real_of_int mm"] len by auto
  obtain y where y: "reduction lib ba ma = Inr y" using reduction_returns len by blast
  let ?q = "\<lparr>pd_incidents_in_stream = pd_incidents_in_stream p, pd_resolved_by_both = pd_resolved_by_both p,
    pd_resolved_by_memory_only = pd_resolved_by_baseline_only p, pd_resolved_by_baseline_only = pd_resolved_by_memory_only p,
    pd_resolution_rate_delta_points = map_option uminus (pd_resolution_rate_delta_points p),
    pd_mttr_with_memory = pd_mttr_no_memory p, pd_mttr_no_memory = pd_mttr_with_memory p,
    pd_mttr_reduction_percent = x, pd_mttr_reduction_excluding_latency = y,
    pd_first_action_accuracy_delta = map_option uminus (pd_first_action_accuracy_delta p),
    pd_wrong_action_delta = - pd_wrong_action_delta p, pd_failed_orders_avoided = - pd_failed_orders_avoided p,
    pd_failed_order_value_avoided_cents = - pd_failed_order_value_avoided_cents p\<rparr>"
  have "rate_delta lib baseline memory = map_option uminus (rate_delta lib memory baseline)"
    using odd by (simp add: rate_delta_def shared_sym [OF distinct_by_scenario distinct_by_scenario, of baseline memory]
        minus_divide_left [symmetric] flip: odd) (simp add: algebra_simps diff_divide_distrib)
  moreover have "accuracy_delta lib baseline memory = map_option uminus (accuracy_delta lib memory baseline)"
    by (simp add: accuracy_delta_def flip: odd)
  ultimately have "compares lib baseline memory ?q"
    using cmp by (simp add: compares_def both_sym only_resolved_def
        shared_sym [OF distinct_by_scenario distinct_by_scenario, of baseline memory])
  with parts x y have "paired_delta_of lib baseline memory = Inr ?q"
    unfolding paired_delta_parts by (simp add: both_sym)
  then show ?thesis by (intro exI [of _ ?q]) simp
qed

definition sample_result :: "string \<Rightarrow> int option \<Rightarrow> nat \<Rightarrow> agent_result" where
  "sample_result scenario mttr wrong = \<lparr>ar_scenario_id = scenario, ar_incident_id = scenario, ar_family_id = ''f'',
     ar_variant_id = ''v'', ar_resolved = (mttr \<noteq> None), ar_mttr_seconds = mttr, ar_decision_seconds = 1,
     ar_actions_applied = Suc wrong, ar_wrong_actions = wrong, ar_invalid_actions = 0, ar_first_action_correct = (wrong = 0),
     ar_abstained = False, ar_escalated = False, ar_failed_orders = wrong, ar_failed_order_value_cents = 10 * int wrong,
     ar_input_tokens = 1, ar_output_tokens = 1, ar_retrieved_memory_ids = [], ar_authorized_memory_id = None,
     ar_invalid_plan = False\<rparr>"

theorem ev_paired_swap_witness:
  "\<exists>q. paired_delta_of plain_agent_lib [sample_result ''a'' None 1, sample_result ''b'' (Some 30) 2]
       [sample_result ''b'' (Some 20) 0, sample_result ''a'' (Some 10) 0] = Inr q \<and>
     pd_resolved_by_baseline_only q = [''a''] \<and> pd_wrong_action_delta q = 3"
proof -
  let ?m = "[sample_result ''b'' (Some 20) 0, sample_result ''a'' (Some 10) 0]"
  let ?b = "[sample_result ''a'' None 1, sample_result ''b'' (Some 30) 2]"
  obtain p where p: "paired_delta_of plain_agent_lib ?m ?b = Inr p" and only: "pd_resolved_by_memory_only p = [''a'']"
    and wrong: "pd_wrong_action_delta p = - 3"
    by (simp add: paired_delta_of_def by_scenario_def sample_result_def shared_scenarios_def resolved_in_def mttrs_of_def
        acting_times_def rounded_mean_def reduction_def mean_def share_def mttr_value_def needE_def plain_agent_lib_def)
  from ev_paired_swap [OF p] show ?thesis by (auto simp: only wrong plain_agent_lib_def)
qed

end
