(* ===== verification/Re_Lab.thy ===== *)
theory Re_Lab
  imports Prelude
begin

text \<open>
  The resilience harness (\<^verbatim>\<open>resilience/postmortem_resilience\<close>): the topology of the cluster, the
  localities the database reports, and the effects. The harness drives a live cluster through docker,
  SQL connections and the clock; what they answer is a \<open>lab\<close>, a record of functions of all events so far.
  Every effect is appended to the list of events together with its answer, so that a property of a run
  is a property of this list.
\<close>

section \<open>Topology\<close>

record node =
  nd_service :: string
  nd_region :: string
  nd_zone :: string
  nd_host :: string
  nd_sql_port :: int
  nd_http_port :: int

definition layout :: "(string \<times> string \<times> string \<times> int \<times> int) list" where
  "layout = [
    (''crdb-use1-a'', ''us-east-1'', ''a'', 26400, 8090),
    (''crdb-use1-b'', ''us-east-1'', ''b'', 26401, 8091),
    (''crdb-use1-c'', ''us-east-1'', ''c'', 26402, 8092),
    (''crdb-use2-a'', ''us-east-2'', ''a'', 26403, 8093),
    (''crdb-use2-b'', ''us-east-2'', ''b'', 26404, 8094),
    (''crdb-use2-c'', ''us-east-2'', ''c'', 26405, 8095),
    (''crdb-usw2-a'', ''us-west-2'', ''a'', 26406, 8096),
    (''crdb-usw2-b'', ''us-west-2'', ''b'', 26407, 8097),
    (''crdb-usw2-c'', ''us-west-2'', ''c'', 26408, 8098)]"

text \<open>The host is that of \<open>RESILIENCE_DB_HOST\<close>, or \<open>localhost\<close>.\<close>

definition topology :: "string \<Rightarrow> node list" where
  "topology host = map (\<lambda>(service, region, zone, sql_port, http_port).
     \<lparr>nd_service = service, nd_region = region, nd_zone = zone, nd_host = host, nd_sql_port = sql_port,
      nd_http_port = http_port\<rparr>) layout"

definition control_node :: "string \<Rightarrow> node" where
  "control_node host = hd (topology host)"

definition nodes_in_region :: "string \<Rightarrow> node list \<Rightarrow> node list" where
  "nodes_in_region region nodes = filter (\<lambda>n. nd_region n = region) nodes"

definition services_in_region :: "string \<Rightarrow> node list \<Rightarrow> string list" where
  "services_in_region region nodes = map nd_service (nodes_in_region region nodes)"

section \<open>Localities\<close>

definition value_char :: "char \<Rightarrow> bool" where
  "value_char c \<longleftrightarrow> c \<noteq> CHR '','' \<and> c \<noteq> CHR 0x22"

text \<open>The value that \<open>key=([^,"]+)\<close> captures at the start of a text.\<close>

definition captured :: "string \<Rightarrow> string \<Rightarrow> string option" where
  "captured key t = (let v = takeWhile value_char (drop (length key) t) in
     if starts_with key t \<and> v \<noteq> [] then Some v else None)"

text \<open>\<open>re.search\<close>: the first match.\<close>

fun search :: "string \<Rightarrow> string \<Rightarrow> string option" where
  "search key [] = None"
| "search key (c # cs) = (case captured key (c # cs) of Some v \<Rightarrow> Some v | None \<Rightarrow> search key cs)"

text \<open>\<open>re.findall\<close>: all matches, each after the end of the one before; \<open>skip\<close> counts the characters of the last one.\<close>

fun findall :: "string \<Rightarrow> nat \<Rightarrow> string \<Rightarrow> string list" where
  "findall key skip [] = []"
| "findall key (Suc skip) (c # cs) = findall key skip cs"
| "findall key 0 (c # cs) = (case captured key (c # cs) of
     Some v \<Rightarrow> v # findall key (length key + length v - 1) cs | None \<Rightarrow> findall key 0 cs)"

definition region_of :: "string \<Rightarrow> string option" where
  "region_of locality = search ''region='' locality"

definition zone_of :: "string \<Rightarrow> string option" where
  "zone_of locality = search ''zone='' locality"

definition regions_in :: "string \<Rightarrow> string list" where
  "regions_in t = findall ''region='' 0 t"

definition resolve_node_from_locality :: "string \<Rightarrow> node list \<Rightarrow> node option" where
  "resolve_node_from_locality locality nodes = (case (region_of locality, zone_of locality) of
     (Some region, Some zone) \<Rightarrow> find (\<lambda>n. nd_region n = region \<and> nd_zone n = zone) nodes
   | _ \<Rightarrow> None)"

section \<open>Effects\<close>

text \<open>What a service raises - \<open>Driver_error\<close> is an exception of the database driver, by the name of its class -
  and the exceptions of the harness; \<open>Still_running\<close> stands for a loop that has used up its fuel.\<close>

datatype service_fault = Driver_error string | Called_process_error | Timeout_expired

datatype lab_error =
    Service service_fault
  | Value_error string
  | Key_error string
  | Index_error
  | Type_error
  | Assertion_error
  | Runtime_error string
  | Leaseholder_pin_error string
  | Still_running

fun lab_error_name :: "lab_error \<Rightarrow> string" where
  "lab_error_name (Service (Driver_error c)) = c"
| "lab_error_name (Service Called_process_error) = ''CalledProcessError''"
| "lab_error_name (Service Timeout_expired) = ''TimeoutExpired''"
| "lab_error_name (Value_error _) = ''ValueError''"
| "lab_error_name (Key_error _) = ''KeyError''"
| "lab_error_name Index_error = ''IndexError''"
| "lab_error_name Type_error = ''TypeError''"
| "lab_error_name Assertion_error = ''AssertionError''"
| "lab_error_name (Runtime_error _) = ''RuntimeError''"
| "lab_error_name (Leaseholder_pin_error _) = ''LeaseholderPinError''"
| "lab_error_name Still_running = ''''"

text \<open>The statements the harness issues, with the values they bind.\<close>

datatype statement =
    Use_database string
  | Override_zone_config
  | Configure_lease_preference string string
  | Insert_organization string string string
  | Insert_service string string string string
  | Insert_runbook string string string string string string
  | Insert_incident string string string string
  | Insert_event string string string string string string string "string option"
  | Insert_action string string string string string string string
  | Insert_probe string string string "real option" "string option" string

record connection =
  cn_id :: nat
  cn_node :: node
  cn_autocommit :: bool

text \<open>What a query selects, and its \<open>WHERE\<close>: columns with their values.\<close>

record query =
  qr_column :: string
  qr_table :: string
  qr_where :: "(string \<times> string) list"

text \<open>A row of \<open>SHOW RANGES ... WITH DETAILS\<close>: range, lease holder and its locality; the last two may be \<open>NULL\<close>.\<close>

type_synonym lease_row = "int \<times> int option \<times> string option"

datatype lab_event =
    Clock real
  | Counter real
  | Slept real
  | Drew string
  | Composed "string list" real "service_fault + string"
  | Connected node real bool "service_fault + unit"
  | Wrote connection statement "service_fault + unit"
  | Leases connection string "service_fault + lease_row list"
  | Ranges connection string "service_fault + (string \<times> pyval) list list"
  | Selected connection query "service_fault + pyval option"
  | Committed connection "service_fault + unit"
  | Block_entered connection "service_fault + unit"
  | Block_left connection "service_fault + unit"
  | Block_rolled_back connection
  | Closed connection

record lab =
  lb_host :: string
  lb_clock :: "lab_event list \<Rightarrow> real"
  lb_counter :: "lab_event list \<Rightarrow> real"
  lb_uuid :: "lab_event list \<Rightarrow> string"
  lb_now_iso :: "lab_event list \<Rightarrow> string"
  lb_compose :: "lab_event list \<Rightarrow> string list \<Rightarrow> service_fault + string"
  lb_connect :: "lab_event list \<Rightarrow> node \<Rightarrow> service_fault + unit"
  lb_write :: "lab_event list \<Rightarrow> connection \<Rightarrow> statement \<Rightarrow> service_fault + unit"
  lb_leases :: "lab_event list \<Rightarrow> connection \<Rightarrow> string \<Rightarrow> service_fault + lease_row list"
  lb_ranges :: "lab_event list \<Rightarrow> connection \<Rightarrow> string \<Rightarrow> service_fault + (string \<times> pyval) list list"
  lb_select :: "lab_event list \<Rightarrow> connection \<Rightarrow> query \<Rightarrow> service_fault + pyval option"
  lb_commit :: "lab_event list \<Rightarrow> connection \<Rightarrow> service_fault + unit"
  lb_enter :: "lab_event list \<Rightarrow> connection \<Rightarrow> service_fault + unit"
  lb_leave :: "lab_event list \<Rightarrow> connection \<Rightarrow> service_fault + unit"
  lb_int :: "string \<Rightarrow> int option"
  lb_repr :: "pyval \<Rightarrow> string"
  lb_round :: "nat \<Rightarrow> real \<Rightarrow> real"
  lb_dumps :: "pyval \<Rightarrow> string"

text \<open>A row the harness has committed and expects to find again (\<open>_TrackedRow\<close>).\<close>

record tracked_row =
  tk_table :: string
  tk_id_column :: string
  tk_row_id :: string
  tk_org_id :: string
  tk_content_column :: "string option"
  tk_expected_content :: "string option"

text \<open>A run: the events so far and the rows of its tracker.\<close>

record lab_run =
  rn_events :: "lab_event list"
  rn_rows :: "tracked_row list"

type_synonym 'a lab_prog = "(lab_run, lab_error, 'a) prog"

definition happens :: "(lab_event list \<Rightarrow> 'a) \<Rightarrow> ('a \<Rightarrow> lab_event) \<Rightarrow> 'a lab_prog" where
  "happens answer ev = (\<lambda>s. let a = answer (rn_events s) in (Inr a, s\<lparr>rn_events := rn_events s @ [ev a]\<rparr>))"

definition served :: "service_fault + 'a \<Rightarrow> lab_error + 'a" where
  "served r = (case r of Inl f \<Rightarrow> Inl (Service f) | Inr x \<Rightarrow> Inr x)"

definition effect :: "(lab_event list \<Rightarrow> service_fault + 'a) \<Rightarrow> (service_fault + 'a \<Rightarrow> lab_event) \<Rightarrow> 'a lab_prog" where
  "effect answer ev = andThen (happens answer ev) (\<lambda>r. lift_result (served r))"

definition now :: "lab \<Rightarrow> real lab_prog" where
  "now lab = happens (lb_clock lab) Clock"

definition sleep :: "real \<Rightarrow> unit lab_prog" where
  "sleep d = happens (\<lambda>_. ()) (\<lambda>_. Slept d)"

definition draw_uuid :: "lab \<Rightarrow> string lab_prog" where
  "draw_uuid lab = happens (lb_uuid lab) Drew"

definition connect :: "lab \<Rightarrow> node \<Rightarrow> real \<Rightarrow> bool \<Rightarrow> connection lab_prog" where
  "connect lab n timeout autocommit =
     andThen (reads (\<lambda>s. length (rn_events s))) (\<lambda>i.
     andThen (effect (\<lambda>es. lb_connect lab es n) (Connected n timeout autocommit)) (\<lambda>_.
     ret \<lparr>cn_id = i, cn_node = n, cn_autocommit = autocommit\<rparr>))"

definition default_connect_timeout :: real where
  "default_connect_timeout = 2"

definition run_statement :: "lab \<Rightarrow> connection \<Rightarrow> statement \<Rightarrow> unit lab_prog" where
  "run_statement lab c st = effect (\<lambda>es. lb_write lab es c st) (Wrote c st)"

definition fetch_one :: "lab \<Rightarrow> connection \<Rightarrow> query \<Rightarrow> pyval option lab_prog" where
  "fetch_one lab c q = effect (\<lambda>es. lb_select lab es c q) (Selected c q)"

definition commit :: "lab \<Rightarrow> connection \<Rightarrow> unit lab_prog" where
  "commit lab c = effect (\<lambda>es. lb_commit lab es c) (Committed c)"

text \<open>\<open>try: m finally: connection.close()\<close>\<close>

definition closing :: "connection \<Rightarrow> 'a lab_prog \<Rightarrow> 'a lab_prog" where
  "closing c m = (\<lambda>s. case m s of (r, s') \<Rightarrow> (r, s'\<lparr>rn_events := rn_events s' @ [Closed c]\<rparr>))"

text \<open>A connection for the time of a body.\<close>

definition with_connection :: "lab \<Rightarrow> node \<Rightarrow> real \<Rightarrow> bool \<Rightarrow> (connection \<Rightarrow> 'a lab_prog) \<Rightarrow> 'a lab_prog" where
  "with_connection lab n timeout autocommit body = andThen (connect lab n timeout autocommit) (\<lambda>c. closing c (body c))"

text \<open>The outcome of a body as a value, for \<open>except\<close> clauses.\<close>

definition tried :: "'a lab_prog \<Rightarrow> (lab_error + 'a) lab_prog" where
  "tried m = (\<lambda>s. case m s of (r, s') \<Rightarrow> (Inr r, s'))"

text \<open>\<open>with connection.transaction()\<close>: a block that is left when its body ends and rolled back when it raises.\<close>

definition transaction :: "lab \<Rightarrow> connection \<Rightarrow> unit lab_prog \<Rightarrow> unit lab_prog" where
  "transaction lab c body =
     andThen (effect (\<lambda>es. lb_enter lab es c) (Block_entered c)) (\<lambda>_.
     andThen (tried body) (\<lambda>r. case r of
       Inl e \<Rightarrow> andThen (happens (\<lambda>_. ()) (\<lambda>_. Block_rolled_back c)) (\<lambda>_. raise e)
     | Inr _ \<Rightarrow> effect (\<lambda>es. lb_leave lab es c) (Block_left c)))"

definition compose :: "lab \<Rightarrow> string list \<Rightarrow> real \<Rightarrow> string lab_prog" where
  "compose lab args timeout = effect (\<lambda>es. lb_compose lab es args) (Composed args timeout)"

text \<open>A loop that polls until \<open>body\<close> says it is done or the time is up, and tells the time it took;
  \<open>x\<close> is what was observed last.\<close>

fun poll :: "nat \<Rightarrow> lab \<Rightarrow> real \<Rightarrow> real \<Rightarrow> real \<Rightarrow> ('b \<times> bool) lab_prog \<Rightarrow> 'b \<Rightarrow> (bool \<times> real \<times> 'b) lab_prog" where
  "poll 0 lab start timeout interval body x = raise Still_running"
| "poll (Suc n) lab start timeout interval body x =
     andThen (now lab) (\<lambda>t. if t - start < timeout
       then andThen body (\<lambda>(y, finished). if finished
         then andThen (now lab) (\<lambda>u. ret (True, u - start, y))
         else andThen (sleep interval) (\<lambda>_. poll n lab start timeout interval body y))
       else andThen (now lab) (\<lambda>u. ret (False, u - start, x)))"

section \<open>Choice of a node\<close>

text \<open>Whether a node accepts a connection and answers \<open>SELECT 1\<close>.\<close>

definition can_connect :: "lab \<Rightarrow> node \<Rightarrow> bool lab_prog" where
  "can_connect lab n =
     andThen (tried (connect lab n (3 / 2) False)) (\<lambda>r. case r of
       Inl _ \<Rightarrow> ret False
     | Inr c \<Rightarrow> closing c (andThen (tried (fetch_one lab c \<lparr>qr_column = ''1'', qr_table = [], qr_where = []\<rparr>)) (\<lambda>a.
         ret (case a of Inl _ \<Rightarrow> False | Inr _ \<Rightarrow> True))))"

text \<open>The first node whose attempt succeeds; \<open>raised\<close> is the exception raised last.\<close>

fun try_nodes_in_order :: "node list \<Rightarrow> (node \<Rightarrow> 'a lab_prog) \<Rightarrow> lab_error option \<Rightarrow> (node \<times> 'a) lab_prog" where
  "try_nodes_in_order [] attempt raised = raise (case raised of None \<Rightarrow> Assertion_error | Some e \<Rightarrow> e)"
| "try_nodes_in_order (n # ns) attempt raised =
     andThen (tried (attempt n)) (\<lambda>r. case r of
       Inl e \<Rightarrow> try_nodes_in_order ns attempt (Some e)
     | Inr x \<Rightarrow> ret (n, x))"

end
