(* ===== verification/Re_Cluster.thy ===== *)
theory Re_Cluster
  imports Re_Lab
begin

text \<open>
  The cluster under test: pinning the leases of the probed tables into the region to be killed and
  verifying that they moved (\<^verbatim>\<open>leaseholders.py\<close>), killing and restoring a region and reading the
  liveness of the nodes (\<^verbatim>\<open>region_control.py\<close>), and the distribution of ranges (\<^verbatim>\<open>ranges.py\<close>).
\<close>

section \<open>Leaseholders\<close>

definition set_lease_preference :: "lab \<Rightarrow> node \<Rightarrow> string \<Rightarrow> string \<Rightarrow> unit lab_prog" where
  "set_lease_preference lab n table region =
     with_connection lab n default_connect_timeout True (\<lambda>c.
       andThen (run_statement lab c (Use_database ''postmortem'')) (\<lambda>_.
       andThen (run_statement lab c Override_zone_config) (\<lambda>_.
       run_statement lab c (Configure_lease_preference table region))))"

text \<open>Rows of \<open>SHOW RANGES ... WITH DETAILS\<close>: range, lease holder and its locality.\<close>

definition lease_rows :: "lease_row list \<Rightarrow> (int \<times> int option \<times> string) list" where
  "lease_rows rows = map (\<lambda>(range_id, holder, locality). (range_id, holder, case locality of None \<Rightarrow> [] | Some t \<Rightarrow> t)) rows"

definition fetch_lease_rows :: "lab \<Rightarrow> node \<Rightarrow> string \<Rightarrow> (int \<times> int option \<times> string) list lab_prog" where
  "fetch_lease_rows lab n table =
     with_connection lab n default_connect_timeout True (\<lambda>c.
       andThen (run_statement lab c (Use_database ''postmortem'')) (\<lambda>_.
       andThen (effect (\<lambda>es. lb_leases lab es c table) (Leases c table)) (\<lambda>rows. ret (lease_rows rows))))"

record verification =
  vf_table :: string
  vf_target_region :: string
  vf_verified :: bool
  vf_elapsed_seconds :: real
  vf_ranges_total :: nat
  vf_ranges_in_region :: nat
  vf_leaseholder_store_ids :: "int option list"
  vf_sample_leaseholder_locality :: "string option"

definition in_region :: "string \<Rightarrow> (int \<times> int option \<times> string) list \<Rightarrow> nat" where
  "in_region region rows = length (filter (\<lambda>(_, _, locality). region_of locality = Some region) rows)"

definition converged :: "string \<Rightarrow> (int \<times> int option \<times> string) list \<Rightarrow> bool" where
  "converged region rows \<longleftrightarrow> 0 < length rows \<and> in_region region rows = length rows"

text \<open>\<open>sorted\<close> of the set of lease holders: \<open>None\<close> is not comparable with a number.\<close>

definition sorted_store_ids :: "int option list \<Rightarrow> lab_error + int option list" where
  "sorted_store_ids holders = (let ids = sorted_list_of_set (set (List.map_filter id holders)) in
     if None \<notin> set holders then Inr (map Some ids) else if ids = [] then Inr [None] else Inl Type_error)"

definition verification_of ::
    "string \<Rightarrow> string \<Rightarrow> bool \<times> real \<times> (int \<times> int option \<times> string) list \<Rightarrow> lab_error + verification" where
  "verification_of table region r = (case r of (verified, elapsed, rows) \<Rightarrow>
     bindE (sorted_store_ids (map (\<lambda>(_, holder, _). holder) rows)) (\<lambda>ids. Inr
     \<lparr>vf_table = table, vf_target_region = region, vf_verified = verified, vf_elapsed_seconds = elapsed,
      vf_ranges_total = length rows, vf_ranges_in_region = in_region region rows,
      vf_leaseholder_store_ids = ids,
      vf_sample_leaseholder_locality = (case rows of [] \<Rightarrow> None | (_, _, locality) # _ \<Rightarrow> Some locality)\<rparr>))"

definition lease_body :: "lab \<Rightarrow> node \<Rightarrow> string \<Rightarrow> string \<Rightarrow> ((int \<times> int option \<times> string) list \<times> bool) lab_prog" where
  "lease_body lab n table region = andThen (fetch_lease_rows lab n table) (\<lambda>rows. ret (rows, converged region rows))"

definition verify_leaseholders_in_region ::
    "nat \<Rightarrow> lab \<Rightarrow> node \<Rightarrow> string \<Rightarrow> string \<Rightarrow> real \<Rightarrow> real \<Rightarrow> verification lab_prog" where
  "verify_leaseholders_in_region fuel lab n table region timeout interval =
     andThen (now lab) (\<lambda>start.
     andThen (poll fuel lab start timeout interval (lease_body lab n table region) []) (\<lambda>r.
     lift_result (verification_of table region r)))"

definition verification_dict :: "lab \<Rightarrow> verification \<Rightarrow> (string \<times> pyval) list" where
  "verification_dict lab v = [
     (''table'', PStr (vf_table v)), (''target_region'', PStr (vf_target_region v)),
     (''verified'', PBool (vf_verified v)), (''elapsed_seconds'', PFloat (lb_round lab 2 (vf_elapsed_seconds v))),
     (''ranges_total'', PInt (int (vf_ranges_total v))), (''ranges_in_region'', PInt (int (vf_ranges_in_region v))),
     (''leaseholder_store_ids'', PList (map (\<lambda>i. case i of None \<Rightarrow> PNone | Some k \<Rightarrow> PInt k) (vf_leaseholder_store_ids v))),
     (''sample_leaseholder_locality'',
       case vf_sample_leaseholder_locality v of None \<Rightarrow> PNone | Some t \<Rightarrow> PStr t)]"

text \<open>The message of the exception; \<open>repr\<close> is that of the lab.\<close>

definition pin_message :: "lab \<Rightarrow> string \<Rightarrow> string list \<Rightarrow> (string \<times> pyval) list \<Rightarrow> string" where
  "pin_message lab region unverified out =
     ''leaseholder pin did not converge on '' @ lb_repr lab (PStr region) @ '' for table(s) '' @
     lb_repr lab (PList (map PStr unverified)) @ '' within the timeout -- refusing to proceed to a '' @
     ''region-kill that would not exercise a real failover. Last observed state: '' @ py_str (lb_repr lab) (PDict out)"

fun verify_tables ::
    "nat \<Rightarrow> lab \<Rightarrow> node \<Rightarrow> string list \<Rightarrow> string \<Rightarrow> real \<Rightarrow> real \<Rightarrow> (string, verification) dict \<Rightarrow>
     (string, verification) dict lab_prog" where
  "verify_tables fuel lab n [] region timeout interval results = ret results"
| "verify_tables fuel lab n (table # tables) region timeout interval results =
     andThen (verify_leaseholders_in_region fuel lab n table region timeout interval) (\<lambda>v.
     verify_tables fuel lab n tables region timeout interval (AList.update table v results))"

definition pin_and_verify ::
    "nat \<Rightarrow> lab \<Rightarrow> node \<Rightarrow> string list \<Rightarrow> string \<Rightarrow> real \<Rightarrow> real \<Rightarrow> (string \<times> pyval) list lab_prog" where
  "pin_and_verify fuel lab n tables region timeout interval =
     andThen (for_each tables (\<lambda>table. set_lease_preference lab n table region)) (\<lambda>_.
     andThen (verify_tables fuel lab n tables region timeout interval []) (\<lambda>results.
     let unverified = map fst (filter (\<lambda>(_, v). \<not> vf_verified v) results);
       out = map (\<lambda>(table, v). (table, PDict (verification_dict lab v))) results in
     if unverified \<noteq> [] then raise (Leaseholder_pin_error (pin_message lab region unverified out))
     else ret out))"

section \<open>Regions\<close>

definition compose_timeout :: real where
  "compose_timeout = 60"

definition kill_region :: "lab \<Rightarrow> string \<Rightarrow> real lab_prog" where
  "kill_region lab region = (let services = services_in_region region (topology (lb_host lab)) in
     andThen (require (services \<noteq> []) (Value_error (''no nodes configured for region '' @ lb_repr lab (PStr region)))) (\<lambda>_.
     andThen (compose lab (''kill'' # services) compose_timeout) (\<lambda>_. now lab)))"

definition restore_region :: "lab \<Rightarrow> string \<Rightarrow> real lab_prog" where
  "restore_region lab region = (let services = services_in_region region (topology (lb_host lab)) in
     andThen (require (services \<noteq> []) (Value_error (''no nodes configured for region '' @ lb_repr lab (PStr region)))) (\<lambda>_.
     andThen (compose lab (''start'' # services) compose_timeout) (\<lambda>_. now lab)))"

record node_liveness =
  nl_node_id :: int
  nl_address :: string
  nl_locality :: string
  nl_is_available :: bool
  nl_is_live :: bool

text \<open>The region of a locality: the part after the first \<open>region=\<close> among its parts.\<close>

definition liveness_region :: "node_liveness \<Rightarrow> string" where
  "liveness_region r = (case find (starts_with ''region='') (str_split (CHR '','') [] (nl_locality r)) of
     None \<Rightarrow> [] | Some part \<Rightarrow> drop 7 part)"

text \<open>\<open>cols[idx[name]]\<close>: the last column of that name in the header.\<close>

definition column :: "string list \<Rightarrow> string list \<Rightarrow> string \<Rightarrow> lab_error + string" where
  "column header cols name =
     bindE (needE (Key_error name) (map_of (rev (zip header [0..<length header])) name)) (\<lambda>i.
     if i < length cols then Inr (cols ! i) else Inl Index_error)"

definition status_row :: "lab \<Rightarrow> string list \<Rightarrow> string \<Rightarrow> lab_error + node_liveness" where
  "status_row lab header line = (let cols = str_split (CHR 0x09) [] line in
     bindE (column header cols ''id'') (\<lambda>i.
     bindE (needE (Value_error ''invalid literal for int() with base 10'') (lb_int lab i)) (\<lambda>node_id.
     bindE (column header cols ''address'') (\<lambda>address.
     bindE (column header cols ''locality'') (\<lambda>locality.
     bindE (column header cols ''is_available'') (\<lambda>available.
     bindE (column header cols ''is_live'') (\<lambda>live.
     Inr \<lparr>nl_node_id = node_id, nl_address = address, nl_locality = locality,
       nl_is_available = (str_lower (str_strip available) = ''true''),
       nl_is_live = (str_lower (str_strip live) = ''true'')\<rparr>)))))))"

definition parse_node_status_tsv :: "lab \<Rightarrow> string \<Rightarrow> lab_error + node_liveness list" where
  "parse_node_status_tsv lab output = (case filter (\<lambda>line. str_strip line \<noteq> []) (split_lines False [] output) of
     [] \<Rightarrow> Inr []
   | header # lines \<Rightarrow> mapE (status_row lab (str_split (CHR 0x09) [] header)) lines)"

definition node_status :: "lab \<Rightarrow> node \<Rightarrow> node_liveness list lab_prog" where
  "node_status lab query_node =
     andThen (compose lab [''exec'', ''-T'', nd_service query_node, ''cockroach'', ''node'', ''status'', ''--insecure'',
       ''--host='' @ nd_service query_node @ '':26257'', ''--format=tsv''] 15) (\<lambda>output.
     lift_result (parse_node_status_tsv lab output))"

definition count_live :: "node_liveness list \<Rightarrow> nat" where
  "count_live rows = length (filter nl_is_live rows)"

text \<open>\<open>except subprocess.CalledProcessError: rows = []\<close>\<close>

definition status_or_none :: "lab \<Rightarrow> node \<Rightarrow> node_liveness list lab_prog" where
  "status_or_none lab query_node = andThen (tried (node_status lab query_node)) (\<lambda>r. case r of
     Inl e \<Rightarrow> if e = Service Called_process_error then ret [] else raise e
   | Inr rows \<Rightarrow> ret rows)"

definition status_body :: "lab \<Rightarrow> node \<Rightarrow> (node_liveness list \<Rightarrow> bool) \<Rightarrow> (node_liveness list \<times> bool) lab_prog" where
  "status_body lab n ok = andThen (status_or_none lab n) (\<lambda>rows. ret (rows, ok rows))"

definition region_is_down :: "string \<Rightarrow> nat \<Rightarrow> node_liveness list \<Rightarrow> bool" where
  "region_is_down region expected_survivors rows = (let
     region_rows = filter (\<lambda>r. liveness_region r = region) rows;
     other_rows = filter (\<lambda>r. liveness_region r \<noteq> region) rows in
     region_rows \<noteq> [] \<and> list_all (\<lambda>r. \<not> nl_is_live r) region_rows \<and>
     length other_rows = expected_survivors \<and> list_all nl_is_live other_rows)"

definition wait_for_region_down :: "nat \<Rightarrow> lab \<Rightarrow> string \<Rightarrow> real \<Rightarrow> node \<Rightarrow> (bool \<times> real \<times> node_liveness list) lab_prog" where
  "wait_for_region_down fuel lab region timeout query_node = (let
     nodes = topology (lb_host lab); expected_survivors = length nodes - length (nodes_in_region region nodes) in
     andThen (now lab) (\<lambda>start.
     poll fuel lab start timeout (1 / 2) (status_body lab query_node (region_is_down region expected_survivors)) []))"

definition wait_for_full_liveness :: "nat \<Rightarrow> lab \<Rightarrow> nat \<Rightarrow> real \<Rightarrow> node \<Rightarrow> (bool \<times> real \<times> node_liveness list) lab_prog" where
  "wait_for_full_liveness fuel lab expected_live timeout query_node =
     andThen (now lab) (\<lambda>start.
     poll fuel lab start timeout 2 (status_body lab query_node (\<lambda>rows. expected_live \<le> count_live rows)) [])"

section \<open>Ranges\<close>

text \<open>\<open>Counter\<close>: how often each text occurs, in the order of the first occurrences.\<close>

fun tally :: "string list \<Rightarrow> (string, int) dict \<Rightarrow> (string, int) dict" where
  "tally [] d = d"
| "tally (x # xs) d = tally xs (AList.update x (dict_get d x 0 + 1) d)"

definition row_regions :: "lab \<Rightarrow> string \<Rightarrow> (string \<times> pyval) list list \<Rightarrow> string list" where
  "row_regions lab name rows = concat (map (\<lambda>row. regions_in (py_str (lb_repr lab) (dict_get row name (PStr [])))) rows)"

definition region_counts :: "lab \<Rightarrow> string \<Rightarrow> (string \<times> pyval) list list \<Rightarrow> pyval" where
  "region_counts lab name rows = PDict (map (\<lambda>(region, n). (region, PInt n)) (tally (row_regions lab name rows) []))"

definition range_snapshot :: "lab \<Rightarrow> node \<Rightarrow> pyval lab_prog" where
  "range_snapshot lab n =
     with_connection lab n default_connect_timeout True (\<lambda>c.
       andThen (run_statement lab c (Use_database ''postmortem'')) (\<lambda>_.
       andThen (effect (\<lambda>es. lb_ranges lab es c ''episodic_events'') (Ranges c ''episodic_events'')) (\<lambda>rows.
       ret (PDict [(''table'', PStr ''episodic_events''), (''range_count'', PInt (int (length rows))),
         (''leaseholder_region_counts'', region_counts lab ''lease_holder_locality'' rows),
         (''replica_region_counts'', region_counts lab ''replica_localities'' rows)]))))"

end
