(* ===== verification/Re_Probes.thy ===== *)
theory Re_Probes
  imports Re_Cluster
begin

text \<open>
  The probes (\<^verbatim>\<open>probes/\<close>), their results (\<^verbatim>\<open>report.py\<close>) and the rows they need (\<^verbatim>\<open>seed.py\<close>).
\<close>

section \<open>Results\<close>

record probe_result =
  pb_probe_type :: string
  pb_status :: string
  pb_measured_value :: "real option"
  pb_unit :: "string option"
  pb_details :: "(string \<times> pyval) list"

definition status_of :: "bool \<Rightarrow> string" where
  "status_of ok = (if ok then ''pass'' else ''fail'')"

definition passes :: "probe_result \<Rightarrow> bool" where
  "passes p \<longleftrightarrow> pb_status p = ''pass''"

definition py_opt :: "('a \<Rightarrow> pyval) \<Rightarrow> 'a option \<Rightarrow> pyval" where
  "py_opt f x = (case x of None \<Rightarrow> PNone | Some y \<Rightarrow> f y)"

definition probe_dict :: "probe_result \<Rightarrow> pyval" where
  "probe_dict p = PDict [(''probe_type'', PStr (pb_probe_type p)), (''status'', PStr (pb_status p)),
     (''measured_value'', py_opt PFloat (pb_measured_value p)), (''unit'', py_opt PStr (pb_unit p)),
     (''details'', PDict (pb_details p))]"

definition record_probe :: "lab \<Rightarrow> connection \<Rightarrow> string \<Rightarrow> probe_result \<Rightarrow> unit lab_prog" where
  "record_probe lab c org_id p =
     andThen (run_statement lab c (Insert_probe org_id (pb_probe_type p) (pb_status p) (pb_measured_value p) (pb_unit p)
       (lb_dumps lab (PDict (pb_details p))))) (\<lambda>_.
     if cn_autocommit c then ret () else commit lab c)"

definition overall_from_probes :: "(string, probe_result) dict \<Rightarrow> (string \<times> pyval) list" where
  "overall_from_probes probes = (let failed = map fst (filter (\<lambda>(_, p). \<not> passes p) probes) in
     [(''pass'', PBool (length failed = 0)), (''failed_probes'', PList (map PStr failed)),
      (''summary'', PStr (if failed = []
        then ''all resilience probes passed: RPO=0, RTO<target, freshness=0ms, atomicity holds, cross-agent visibility has no lag''
        else ''probes failed: '' @ str_join '', '' failed))])"

section \<open>Baseline rows\<close>

record seed_context =
  sd_org_id :: string
  sd_agent_id :: string
  sd_service_id :: string
  sd_incident_id :: string
  sd_runbook_id :: string

definition seed_baseline :: "lab \<Rightarrow> connection \<Rightarrow> seed_context lab_prog" where
  "seed_baseline lab c =
     andThen (draw_uuid lab) (\<lambda>org_id. andThen (draw_uuid lab) (\<lambda>agent_id.
     andThen (draw_uuid lab) (\<lambda>service_id. andThen (draw_uuid lab) (\<lambda>incident_id.
     andThen (draw_uuid lab) (\<lambda>runbook_id.
     andThen (run_statement lab c (Insert_organization org_id (''resilience-harness-'' @ take 8 org_id)
       ''Resilience harness (Phase 3, Track A)'')) (\<lambda>_.
     andThen (run_statement lab c (Insert_service service_id org_id ''checkout-resilience-probe'' ''v1'')) (\<lambda>_.
     andThen (run_statement lab c (Insert_runbook runbook_id org_id agent_id ''resilience-harness-runbook''
       ''synthetic runbook used only by the resilience measurement harness''
       (''[{'' @ [CHR 0x22] @ ''step'' @ [CHR 0x22] @ '': '' @ [CHR 0x22] @ ''no_op'' @ [CHR 0x22] @ ''}]''))) (\<lambda>_.
     andThen (run_statement lab c (Insert_incident incident_id org_id service_id ''Resilience harness synthetic incident'')) (\<lambda>_.
     andThen (if cn_autocommit c then ret () else commit lab c) (\<lambda>_.
     ret \<lparr>sd_org_id = org_id, sd_agent_id = agent_id, sd_service_id = service_id, sd_incident_id = incident_id,
       sd_runbook_id = runbook_id\<rparr>))))))))))"

text \<open>An episode inserted by a probe: identifier, kind of event, content and metadata.\<close>

definition insert_event :: "seed_context \<Rightarrow> string \<Rightarrow> string \<Rightarrow> string \<Rightarrow> string option \<Rightarrow> statement" where
  "insert_event seed event_id kind txt metadata =
     Insert_event event_id (sd_org_id seed) (sd_agent_id seed) (sd_incident_id seed) (sd_service_id seed) kind txt metadata"

section \<open>RPO\<close>

definition track :: "tracked_row \<Rightarrow> unit lab_prog" where
  "track r = modifies (\<lambda>s. s\<lparr>rn_rows := rn_rows s @ [r]\<rparr>)"

definition tracked_event :: "string \<Rightarrow> string \<Rightarrow> string \<Rightarrow> tracked_row" where
  "tracked_event event_id org_id txt = \<lparr>tk_table = ''episodic_events'', tk_id_column = ''event_id'', tk_row_id = event_id,
     tk_org_id = org_id, tk_content_column = Some ''content'', tk_expected_content = Some txt\<rparr>"

definition tracked_action :: "string \<Rightarrow> string \<Rightarrow> string \<Rightarrow> tracked_row" where
  "tracked_action action_id org_id key = \<lparr>tk_table = ''remediation_actions'', tk_id_column = ''action_id'', tk_row_id = action_id,
     tk_org_id = org_id, tk_content_column = Some ''idempotency_key'', tk_expected_content = Some key\<rparr>"

text \<open>The query that looks a tracked row up: its content, or \<open>SELECT 1\<close> when no content is expected.\<close>

definition has_content_column :: "tracked_row \<Rightarrow> bool" where
  "has_content_column r \<longleftrightarrow> (case tk_content_column r of None \<Rightarrow> False | Some c \<Rightarrow> c \<noteq> [])"

definition row_query :: "tracked_row \<Rightarrow> query" where
  "row_query r = \<lparr>qr_column = (if has_content_column r then the (tk_content_column r) else ''1''), qr_table = tk_table r,
     qr_where = [(''org_id'', tk_org_id r), (tk_id_column r, tk_row_id r)]\<rparr>"

datatype row_check = Found | Missing | Mismatched

definition row_state :: "tracked_row \<Rightarrow> pyval option \<Rightarrow> row_check" where
  "row_state r answer = (case answer of
     None \<Rightarrow> Missing
   | Some v \<Rightarrow> (case tk_expected_content r of
       Some t \<Rightarrow> if has_content_column r \<and> v \<noteq> PStr t then Mismatched else Found
     | None \<Rightarrow> Found))"

fun check_rows :: "lab \<Rightarrow> connection \<Rightarrow> tracked_row list \<Rightarrow> (tracked_row \<times> row_check) list lab_prog" where
  "check_rows lab c [] = ret []"
| "check_rows lab c (r # rs) =
     andThen (fetch_one lab c (row_query r)) (\<lambda>answer.
     andThen (check_rows lab c rs) (\<lambda>states. ret ((r, row_state r answer) # states)))"

definition rows_in :: "row_check \<Rightarrow> (tracked_row \<times> row_check) list \<Rightarrow> pyval list" where
  "rows_in st states = map (\<lambda>(r, _). PDict [(''table'', PStr (tk_table r)), (''row_id'', PStr (tk_row_id r))])
     (filter (\<lambda>(_, st'). st' = st) states)"

definition rpo_result :: "string \<Rightarrow> tracked_row list \<Rightarrow> (tracked_row \<times> row_check) list \<Rightarrow> probe_result" where
  "rpo_result phase rows states = (let
     missing = rows_in Missing states; mismatched = rows_in Mismatched states;
     rows_lost = length missing + length mismatched in
     \<lparr>pb_probe_type = ''rpo'', pb_status = status_of (rows_lost = 0), pb_measured_value = Some (real rows_lost),
      pb_unit = Some ''rows_lost'',
      pb_details = [(''phase'', PStr phase), (''rows_expected'', PInt (int (length rows))),
        (''rows_found'', PInt (int (length rows) - int (length missing))),
        (''rows_content_checked'', PInt (int (length (filter has_content_column rows)))),
        (''rows_missing'', PList missing), (''rows_content_mismatched'', PList mismatched)]\<rparr>)"

definition probe_rpo :: "lab \<Rightarrow> node \<Rightarrow> string \<Rightarrow> probe_result lab_prog" where
  "probe_rpo lab n phase =
     andThen (reads rn_rows) (\<lambda>rows.
     andThen (with_connection lab n default_connect_timeout False (\<lambda>c. check_rows lab c rows)) (\<lambda>states.
     ret (rpo_result phase rows states)))"

section \<open>Freshness and visibility\<close>

definition event_query :: "(string \<times> string) list \<Rightarrow> query" where
  "event_query conditions = \<lparr>qr_column = ''content'', qr_table = ''episodic_events'', qr_where = conditions\<rparr>"

text \<open>The writing of an event on a connection of its own.\<close>

definition write_event :: "lab \<Rightarrow> node \<Rightarrow> real \<Rightarrow> statement \<Rightarrow> unit lab_prog" where
  "write_event lab n timeout st =
     with_connection lab n timeout False (\<lambda>c. andThen (run_statement lab c st) (\<lambda>_. commit lab c))"

text \<open>\<open>db.timed\<close>: a value and the milliseconds it took.\<close>

definition timed :: "lab \<Rightarrow> 'a lab_prog \<Rightarrow> ('a \<times> real) lab_prog" where
  "timed lab m = andThen (happens (lb_counter lab) Counter) (\<lambda>start. andThen m (\<lambda>value.
     andThen (happens (lb_counter lab) Counter) (\<lambda>u. ret (value, (u - start) * 1000))))"

definition read_event :: "lab \<Rightarrow> node \<Rightarrow> (string \<times> string) list \<Rightarrow> pyval option lab_prog" where
  "read_event lab n conditions =
     with_connection lab n default_connect_timeout False (\<lambda>c. fetch_one lab c (event_query conditions))"

definition probe_freshness :: "lab \<Rightarrow> node \<Rightarrow> node \<Rightarrow> seed_context \<Rightarrow> probe_result lab_prog" where
  "probe_freshness lab write_node read_node seed =
     andThen (draw_uuid lab) (\<lambda>event_id. let marker = ''resilience-freshness-'' @ event_id in
     andThen (write_event lab write_node default_connect_timeout (insert_event seed event_id ''observation'' marker None)) (\<lambda>_.
     andThen (timed lab (read_event lab read_node [(''org_id'', sd_org_id seed), (''event_id'', event_id)])) (\<lambda>(row, elapsed_ms). let
       found = (row \<noteq> None); matches = (row = Some (PStr marker)) in
     ret \<lparr>pb_probe_type = ''read_your_write'', pb_status = status_of (found \<and> matches),
       pb_measured_value = Some (lb_round lab 3 elapsed_ms), pb_unit = Some ''ms'',
       pb_details = [(''event_id'', PStr event_id), (''content'', PStr marker), (''write_node'', PStr (nd_service write_node)),
         (''read_node'', PStr (nd_service read_node)),
         (''same_node'', PBool (nd_service write_node = nd_service read_node)),
         (''found_immediately'', PBool found), (''content_matches'', PBool matches)]\<rparr>)))"

definition node_metadata :: "node \<Rightarrow> string" where
  "node_metadata n = (let q = [CHR 0x22] in
     ''{'' @ q @ ''written_via_node'' @ q @ '': '' @ q @ nd_service n @ q @ '', '' @
     q @ ''written_via_region'' @ q @ '': '' @ q @ nd_region n @ q @ ''}'')"

definition probe_cross_agent_visibility :: "lab \<Rightarrow> node \<Rightarrow> node \<Rightarrow> seed_context \<Rightarrow> probe_result lab_prog" where
  "probe_cross_agent_visibility lab writer_node reader_node seed =
     andThen (draw_uuid lab) (\<lambda>event_id. let marker = ''resilience-cross-agent-'' @ event_id in
     andThen (write_event lab writer_node default_connect_timeout
       (insert_event seed event_id ''observation'' marker (Some (node_metadata writer_node)))) (\<lambda>_.
     andThen (timed lab (read_event lab reader_node
       [(''org_id'', sd_org_id seed), (''agent_id'', sd_agent_id seed), (''event_id'', event_id)])) (\<lambda>(row, elapsed_ms). let
       found = (row \<noteq> None); matches = (row = Some (PStr marker)) in
     ret \<lparr>pb_probe_type = ''cross_agent_visibility'', pb_status = status_of (found \<and> matches),
       pb_measured_value = Some (lb_round lab 3 elapsed_ms), pb_unit = Some ''ms'',
       pb_details = [(''event_id'', PStr event_id), (''content'', PStr marker), (''writer_node'', PStr (nd_service writer_node)),
         (''writer_region'', PStr (nd_region writer_node)), (''reader_node'', PStr (nd_service reader_node)),
         (''reader_region'', PStr (nd_region reader_node)),
         (''cross_region'', PBool (nd_region writer_node \<noteq> nd_region reader_node)),
         (''found_immediately'', PBool found), (''content_matches'', PBool matches)]\<rparr>)))"

section \<open>Atomicity\<close>

definition row_exists :: "lab \<Rightarrow> connection \<Rightarrow> string \<Rightarrow> string \<Rightarrow> string \<Rightarrow> string \<Rightarrow> bool lab_prog" where
  "row_exists lab c table id_column org_id row_id =
     andThen (fetch_one lab c \<lparr>qr_column = ''1'', qr_table = table, qr_where = [(''org_id'', org_id), (id_column, row_id)]\<rparr>)
       (\<lambda>row. ret (row \<noteq> None))"

definition commit_content :: string where
  "commit_content = ''atomicity probe: commit path''"

text \<open>The two inserts of a path, in one transaction.\<close>

definition paired_writes :: "lab \<Rightarrow> connection \<Rightarrow> seed_context \<Rightarrow> string \<Rightarrow> string \<Rightarrow> string \<Rightarrow> string \<Rightarrow> string \<Rightarrow> unit lab_prog" where
  "paired_writes lab c seed event_id action_id txt outcome key =
     transaction lab c (
       andThen (run_statement lab c (insert_event seed event_id ''action'' txt None)) (\<lambda>_.
       run_statement lab c (Insert_action action_id (sd_org_id seed) (sd_incident_id seed) (sd_service_id seed)
         outcome event_id key)))"

definition both_present :: "lab \<Rightarrow> connection \<Rightarrow> seed_context \<Rightarrow> string \<Rightarrow> string \<Rightarrow> (bool \<times> bool) lab_prog" where
  "both_present lab c seed event_id action_id =
     andThen (row_exists lab c ''episodic_events'' ''event_id'' (sd_org_id seed) event_id) (\<lambda>e.
     andThen (row_exists lab c ''remediation_actions'' ''action_id'' (sd_org_id seed) action_id) (\<lambda>a. ret (e, a)))"

definition probe_atomicity :: "lab \<Rightarrow> node \<Rightarrow> seed_context \<Rightarrow> probe_result lab_prog" where
  "probe_atomicity lab n seed =
     andThen (draw_uuid lab) (\<lambda>commit_event_id. andThen (draw_uuid lab) (\<lambda>commit_action_id. let
       commit_key = ''resilience-atomicity-commit-'' @ commit_action_id in
     andThen (draw_uuid lab) (\<lambda>abort_event_id. andThen (draw_uuid lab) (\<lambda>abort_action_id.
     andThen (with_connection lab n default_connect_timeout False (\<lambda>c.
       andThen (paired_writes lab c seed commit_event_id commit_action_id commit_content ''success'' commit_key) (\<lambda>_.
       andThen (both_present lab c seed commit_event_id commit_action_id) (\<lambda>(commit_event, commit_action).
       andThen (tried (paired_writes lab c seed abort_event_id abort_action_id ''atomicity probe: abort path''
         ''not_a_valid_outcome'' (''resilience-atomicity-abort-'' @ abort_action_id))) (\<lambda>r. let
         abort_raised = (case r of Inl _ \<Rightarrow> True | Inr _ \<Rightarrow> False) in
       andThen (both_present lab c seed abort_event_id abort_action_id) (\<lambda>(abort_event, abort_action).
       ret (commit_event, commit_action, abort_raised, abort_event, abort_action))))))) (\<lambda>(commit_event, commit_action, abort_raised, abort_event, abort_action). let
       commit_ok = (commit_event \<and> commit_action);
       abort_ok = (abort_raised \<and> \<not> abort_event \<and> \<not> abort_action); ok = (commit_ok \<and> abort_ok) in
     ret \<lparr>pb_probe_type = ''atomicity'', pb_status = status_of ok, pb_measured_value = Some (if ok then 1 else 0),
       pb_unit = Some ''bool'',
       pb_details = [
         (''commit_path'', PDict [(''event_id'', PStr commit_event_id), (''event_content'', PStr commit_content),
           (''action_id'', PStr commit_action_id), (''action_idempotency_key'', PStr commit_key),
           (''episodic_present'', PBool commit_event), (''action_present'', PBool commit_action), (''pass'', PBool commit_ok)]),
         (''abort_path'', PDict [(''event_id'', PStr abort_event_id), (''action_id'', PStr abort_action_id),
           (''constraint_violation_raised'', PBool abort_raised), (''episodic_present'', PBool abort_event),
           (''action_present'', PBool abort_action), (''pass'', PBool abort_ok)])]\<rparr>)))))"

section \<open>RTO\<close>

definition retry_connect_timeout :: real where
  "retry_connect_timeout = 1"

text \<open>A single write; the event and the content written.\<close>

definition attempt_write :: "lab \<Rightarrow> node \<Rightarrow> seed_context \<Rightarrow> (string \<times> string) lab_prog" where
  "attempt_write lab n seed =
     andThen (draw_uuid lab) (\<lambda>event_id. let txt = ''resilience-rto-probe-'' @ event_id in
     andThen (write_event lab n retry_connect_timeout (insert_event seed event_id ''observation'' txt None)) (\<lambda>_.
     ret (event_id, txt)))"

record write_attempt =
  wa_node :: node
  wa_elapsed_ms :: real
  wa_error :: "string option"

definition attempt_dict :: "write_attempt \<Rightarrow> pyval" where
  "attempt_dict a = PDict ([(''node'', PStr (nd_service (wa_node a))), (''region'', PStr (nd_region (wa_node a))),
     (''ok'', PBool (wa_error a = None)), (''elapsed_ms'', PFloat (wa_elapsed_ms a))] @
     (case wa_error a of None \<Rightarrow> [] | Some e \<Rightarrow> [(''error'', PStr e)]))"

text \<open>The leaseholder first, then every other node.\<close>

definition ordered_nodes :: "node \<Rightarrow> node list \<Rightarrow> node list" where
  "ordered_nodes leaseholder candidates =
     leaseholder # filter (\<lambda>n. nd_service n \<noteq> nd_service leaseholder) candidates"

text \<open>The loop over \<open>itertools.cycle(nodes)\<close>, of which \<open>i\<close> have been taken: the attempts, and the instant, the
  event and the node of the first success.\<close>

fun write_loop :: "nat \<Rightarrow> lab \<Rightarrow> real \<Rightarrow> real \<Rightarrow> seed_context \<Rightarrow> node list \<Rightarrow> nat \<Rightarrow> write_attempt list \<Rightarrow>
    (write_attempt list \<times> (real \<times> string \<times> node) option) lab_prog" where
  "write_loop 0 lab kill_started deadline seed nodes i attempts = raise Still_running"
| "write_loop (Suc fuel) lab kill_started deadline seed nodes i attempts =
     andThen (now lab) (\<lambda>t. if t - kill_started < deadline then (let n = nodes ! (i mod length nodes) in
       andThen (now lab) (\<lambda>attempt_start.
       andThen (tried (attempt_write lab n seed)) (\<lambda>r.
       andThen (now lab) (\<lambda>u. let elapsed = lb_round lab 1 ((u - attempt_start) * 1000) in
       case r of
         Inl e \<Rightarrow> write_loop fuel lab kill_started deadline seed nodes (Suc i)
           (attempts @ [\<lparr>wa_node = n, wa_elapsed_ms = elapsed, wa_error = Some (lab_error_name e)\<rparr>])
       | Inr (event_id, txt) \<Rightarrow>
           andThen (now lab) (\<lambda>success.
           andThen (track (tracked_event event_id (sd_org_id seed) txt)) (\<lambda>_.
           ret (attempts @ [\<lparr>wa_node = n, wa_elapsed_ms = elapsed, wa_error = None\<rparr>], Some (success, event_id, n))))))))
     else ret (attempts, None))"

definition failed_in_region :: "string \<Rightarrow> write_attempt list \<Rightarrow> nat" where
  "failed_in_region region attempts = length (filter (\<lambda>a. wa_error a \<noteq> None \<and> nd_region (wa_node a) = region) attempts)"

definition success_details :: "lab \<Rightarrow> write_attempt list \<Rightarrow> nat \<Rightarrow> string \<Rightarrow> node \<Rightarrow> (string \<times> pyval) list" where
  "success_details lab attempts failed event_id n =
     [(''kill_region_failed_attempts'', PInt (int failed)), (''recovered_via_node'', PStr (nd_service n)),
      (''recovered_via_region'', PStr (nd_region n)), (''first_success_event_id'', PStr event_id),
      (''attempt_count'', PInt (int (length attempts))), (''attempts'', PList (map attempt_dict attempts))]"

definition rto_result :: "lab \<Rightarrow> real \<Rightarrow> string \<Rightarrow> node \<Rightarrow> real \<Rightarrow> real \<Rightarrow>
    write_attempt list \<times> (real \<times> string \<times> node) option \<Rightarrow> probe_result" where
  "rto_result lab kill_started region leaseholder target deadline r = (let
     attempts = fst r; failed = failed_in_region region attempts; exercised = (1 \<le> failed);
     leaseholder_details = [(''leaseholder_node'', PStr (nd_service leaseholder)),
       (''leaseholder_region'', PStr (nd_region leaseholder)), (''failover_exercised'', PBool exercised)] in
     case snd r of
       None \<Rightarrow> \<lparr>pb_probe_type = ''rto'', pb_status = ''fail'', pb_measured_value = None, pb_unit = Some ''seconds'',
         pb_details = [(''target_seconds'', PFloat target), (''deadline_seconds'', PFloat deadline),
           (''reason'', PStr ''no successful write within deadline'')] @ leaseholder_details @
           [(''kill_region_failed_attempts'', PInt (int failed)), (''attempts'', PList (map attempt_dict attempts))]\<rparr>
     | Some (success, event_id, n) \<Rightarrow> (let rto_seconds = success - kill_started in
         \<lparr>pb_probe_type = ''rto'', pb_status = status_of (exercised \<and> rto_seconds < target),
          pb_measured_value = Some (lb_round lab 3 rto_seconds), pb_unit = Some ''seconds'',
          pb_details = (''target_seconds'', PFloat target) #
            (if exercised then [] else [(''reason'', PStr (''no failover exercised: no write attempt against '' @
               ''the killed region'' @ [CHR 0x27] @ ''s (pinned) leaseholder failed before the first success''))]) @
            leaseholder_details @ success_details lab attempts failed event_id n\<rparr>))"

definition probe_rto :: "nat \<Rightarrow> lab \<Rightarrow> real \<Rightarrow> node list \<Rightarrow> seed_context \<Rightarrow> string \<Rightarrow> node \<Rightarrow> real \<Rightarrow> real \<Rightarrow> probe_result lab_prog" where
  "probe_rto fuel lab kill_started candidates seed region leaseholder target deadline =
     andThen (write_loop fuel lab kill_started deadline seed (ordered_nodes leaseholder candidates) 0 []) (\<lambda>r.
     ret (rto_result lab kill_started region leaseholder target deadline r))"

end
