(* ===== verification/Re_Harness.thy ===== *)
theory Re_Harness
  imports Re_Probes
begin

text \<open>
  The run of the harness (\<^verbatim>\<open>harness.py\<close>): seed, pin the leases and verify the pin, probe, kill the
  region, measure the recovery of writes, verify the rows during the outage, restore the region, verify
  them again, record and report.
\<close>

section \<open>Configuration and report\<close>

record harness_config =
  hc_kill_region :: string
  hc_control_node :: node
  hc_target_rto_seconds :: real
  hc_rto_deadline_seconds :: real
  hc_region_down_wait_seconds :: real
  hc_recovery_timeout_seconds :: real
  hc_extra_writes_during_outage :: nat
  hc_pinned_tables :: "string list"
  hc_leaseholder_pin_timeout_seconds :: real
  hc_leaseholder_pin_poll_interval_seconds :: real

definition default_config :: "lab \<Rightarrow> harness_config" where
  "default_config lab = \<lparr>hc_kill_region = ''us-east-2'', hc_control_node = control_node (lb_host lab),
     hc_target_rto_seconds = 10, hc_rto_deadline_seconds = 60, hc_region_down_wait_seconds = 15,
     hc_recovery_timeout_seconds = 150, hc_extra_writes_during_outage = 2,
     hc_pinned_tables = [''episodic_events'', ''remediation_actions''],
     hc_leaseholder_pin_timeout_seconds = 180, hc_leaseholder_pin_poll_interval_seconds = 2\<rparr>"

record resilience_report =
  rr_generated_at :: string
  rr_topology :: "(string \<times> pyval) list"
  rr_run :: "(string \<times> pyval) list"
  rr_probes :: "(string \<times> pyval) list"
  rr_node_liveness :: "(string \<times> pyval) list"
  rr_range_snapshot :: "(string \<times> pyval) list"
  rr_overall :: "(string \<times> pyval) list"
  rr_leaseholder_pin :: "(string \<times> pyval) list"
  rr_schema_version :: string

section \<open>Before the kill\<close>

text \<open>\<open>details[key]\<close> of a text.\<close>

definition detail :: "(string \<times> pyval) list \<Rightarrow> string \<Rightarrow> lab_error + string" where
  "detail d key = needE (Key_error key) (Option.bind (map_of d key) py_as_str)"

definition track_event :: "seed_context \<Rightarrow> (string \<times> pyval) list \<Rightarrow> string \<Rightarrow> unit lab_prog" where
  "track_event seed details content_key =
     andThen (lift_result (detail details ''event_id'')) (\<lambda>event_id.
     andThen (lift_result (detail details content_key)) (\<lambda>txt.
     track (tracked_event event_id (sd_org_id seed) txt)))"

definition track_action :: "seed_context \<Rightarrow> (string \<times> pyval) list \<Rightarrow> unit lab_prog" where
  "track_action seed details =
     andThen (lift_result (detail details ''action_id'')) (\<lambda>action_id.
     andThen (lift_result (detail details ''action_idempotency_key'')) (\<lambda>key.
     track (tracked_action action_id (sd_org_id seed) key)))"

definition sub_dict :: "(string \<times> pyval) list \<Rightarrow> string \<Rightarrow> (string \<times> pyval) list" where
  "sub_dict d key = (case map_of d key of Some (PDict x) \<Rightarrow> x | _ \<Rightarrow> [])"

text \<open>The node that holds the lease of \<open>episodic_events\<close>, from the verified pin.\<close>

definition leaseholder_of :: "lab \<Rightarrow> harness_config \<Rightarrow> (string \<times> pyval) list \<Rightarrow> lab_error + node" where
  "leaseholder_of lab cfg pin =
     bindE (needE (Key_error ''episodic_events'') (map_of pin ''episodic_events'')) (\<lambda>_. let
       locality = pget (sub_dict pin ''episodic_events'') ''sample_leaseholder_locality'' in
     case (if py_truthy locality
           then Option.bind (py_as_str locality) (\<lambda>t. resolve_node_from_locality t (topology (lb_host lab))) else None) of
       None \<Rightarrow> Inl (Runtime_error (''could not resolve a concrete node from the pinned episodic_events leaseholder locality '' @
         lb_repr lab locality @ '' -- refusing to proceed without a guaranteed real-leaseholder RTO probe.''))
     | Some n \<Rightarrow>
         if nd_region n \<noteq> hc_kill_region cfg
         then Inl (Runtime_error (''episodic_events leaseholder resolved to '' @ lb_repr lab (PStr (nd_service n)) @
           '' in region '' @ lb_repr lab (PStr (nd_region n)) @ '', not the kill region '' @
           lb_repr lab (PStr (hc_kill_region cfg)) @ '' -- pin verification should have caught this.''))
         else Inr n)"

definition third_region_node :: "lab \<Rightarrow> harness_config \<Rightarrow> node" where
  "third_region_node lab cfg = (let control = hc_control_node cfg in
     case filter (\<lambda>n. nd_region n \<noteq> nd_region control \<and> nd_region n \<noteq> hc_kill_region cfg) (topology (lb_host lab)) of
       [] \<Rightarrow> control | n # _ \<Rightarrow> n)"

definition seed_run :: "lab \<Rightarrow> harness_config \<Rightarrow> seed_context lab_prog" where
  "seed_run lab cfg = with_connection lab (hc_control_node cfg) default_connect_timeout False (seed_baseline lab)"

definition pin_run :: "nat \<Rightarrow> lab \<Rightarrow> harness_config \<Rightarrow> ((string \<times> pyval) list \<times> node) lab_prog" where
  "pin_run fuel lab cfg =
     andThen (pin_and_verify fuel lab (hc_control_node cfg) (hc_pinned_tables cfg) (hc_kill_region cfg)
       (hc_leaseholder_pin_timeout_seconds cfg) (hc_leaseholder_pin_poll_interval_seconds cfg)) (\<lambda>pin.
     andThen (lift_result (leaseholder_of lab cfg pin)) (\<lambda>leaseholder. ret (pin, leaseholder)))"

text \<open>Liveness and ranges before the kill, and the three probes that need no failure.\<close>

record baseline =
  bl_live :: nat
  bl_ranges :: pyval
  bl_freshness :: probe_result
  bl_cross_agent :: probe_result
  bl_atomicity :: probe_result

definition baseline_run :: "lab \<Rightarrow> harness_config \<Rightarrow> seed_context \<Rightarrow> baseline lab_prog" where
  "baseline_run lab cfg seed = (let control = hc_control_node cfg in
     andThen (node_status lab control) (\<lambda>liveness.
     andThen (range_snapshot lab control) (\<lambda>ranges.
     andThen (probe_freshness lab control (third_region_node lab cfg) seed) (\<lambda>freshness.
     andThen (track_event seed (pb_details freshness) ''content'') (\<lambda>_.
     andThen (lift_result (case nodes_in_region (hc_kill_region cfg) (topology (lb_host lab)) of
       [] \<Rightarrow> Inl Index_error | n # _ \<Rightarrow> Inr n)) (\<lambda>writer.
     andThen (probe_cross_agent_visibility lab writer control seed) (\<lambda>cross_agent.
     andThen (track_event seed (pb_details cross_agent) ''content'') (\<lambda>_.
     andThen (probe_atomicity lab control seed) (\<lambda>atomicity.
     andThen (track_event seed (sub_dict (pb_details atomicity) ''commit_path'') ''event_content'') (\<lambda>_.
     andThen (track_action seed (sub_dict (pb_details atomicity) ''commit_path'')) (\<lambda>_.
     ret \<lparr>bl_live = count_live liveness, bl_ranges = ranges, bl_freshness = freshness, bl_cross_agent = cross_agent,
       bl_atomicity = atomicity\<rparr>)))))))))))"

section \<open>The outage\<close>

definition outage_content :: string where
  "outage_content = ''resilience harness: write during outage''"

definition outage_write :: "lab \<Rightarrow> harness_config \<Rightarrow> seed_context \<Rightarrow> string lab_prog" where
  "outage_write lab cfg seed =
     with_connection lab (hc_control_node cfg) default_connect_timeout False (\<lambda>c.
       andThen (draw_uuid lab) (\<lambda>event_id.
       andThen (run_statement lab c (insert_event seed event_id ''observation'' outage_content None)) (\<lambda>_.
       andThen (commit lab c) (\<lambda>_.
       andThen (track (tracked_event event_id (sd_org_id seed) outage_content)) (\<lambda>_. ret event_id)))))"

fun outage_writes :: "nat \<Rightarrow> lab \<Rightarrow> harness_config \<Rightarrow> seed_context \<Rightarrow> string list lab_prog" where
  "outage_writes 0 lab cfg seed = ret []"
| "outage_writes (Suc n) lab cfg seed =
     andThen (outage_write lab cfg seed) (\<lambda>event_id.
     andThen (outage_writes n lab cfg seed) (\<lambda>ids. ret (event_id # ids)))"

record outage =
  og_rto :: probe_result
  og_writes :: "string list"
  og_down :: bool
  og_down_elapsed :: real
  og_live :: nat
  og_ranges :: pyval
  og_rpo :: probe_result

definition outage_run :: "nat \<Rightarrow> lab \<Rightarrow> harness_config \<Rightarrow> seed_context \<Rightarrow> node \<Rightarrow> real \<Rightarrow> outage lab_prog" where
  "outage_run fuel lab cfg seed leaseholder kill_started_at = (let control = hc_control_node cfg in
     andThen (probe_rto fuel lab kill_started_at (topology (lb_host lab)) seed (hc_kill_region cfg) leaseholder
       (hc_target_rto_seconds cfg) (hc_rto_deadline_seconds cfg)) (\<lambda>rto.
     andThen (outage_writes (hc_extra_writes_during_outage cfg) lab cfg seed) (\<lambda>writes.
     andThen (wait_for_region_down fuel lab (hc_kill_region cfg) (hc_region_down_wait_seconds cfg) control) (\<lambda>(down, elapsed, liveness).
     andThen (range_snapshot lab control) (\<lambda>ranges.
     andThen (probe_rpo lab control ''during_outage'') (\<lambda>rpo.
     ret \<lparr>og_rto = rto, og_writes = writes, og_down = down, og_down_elapsed = elapsed, og_live = count_live liveness,
       og_ranges = ranges, og_rpo = rpo\<rparr>))))))"

section \<open>After the outage\<close>

record recovery =
  rv_recovered :: bool
  rv_elapsed :: real
  rv_live :: nat
  rv_ranges :: pyval
  rv_rpo :: probe_result

definition recovery_run :: "nat \<Rightarrow> lab \<Rightarrow> harness_config \<Rightarrow> recovery lab_prog" where
  "recovery_run fuel lab cfg = (let control = hc_control_node cfg in
     andThen (wait_for_full_liveness fuel lab (length (topology (lb_host lab))) (hc_recovery_timeout_seconds cfg) control)
       (\<lambda>(recovered, elapsed, liveness).
     andThen (range_snapshot lab control) (\<lambda>ranges.
     andThen (probe_rpo lab control ''after_recovery'') (\<lambda>rpo.
     ret \<lparr>rv_recovered = recovered, rv_elapsed = elapsed, rv_live = count_live liveness, rv_ranges = ranges, rv_rpo = rpo\<rparr>))))"

definition probes_by_name :: "baseline \<Rightarrow> outage \<Rightarrow> recovery \<Rightarrow> (string, probe_result) dict" where
  "probes_by_name b u v = [(''freshness'', bl_freshness b), (''cross_agent_visibility'', bl_cross_agent b),
     (''atomicity'', bl_atomicity b), (''rto'', og_rto u), (''rpo_during_outage'', og_rpo u), (''rpo'', rv_rpo v)]"

definition record_run :: "lab \<Rightarrow> harness_config \<Rightarrow> seed_context \<Rightarrow> (string, probe_result) dict \<Rightarrow> unit lab_prog" where
  "record_run lab cfg seed probes = with_connection lab (hc_control_node cfg) default_connect_timeout False (\<lambda>c.
     for_each (map snd probes) (record_probe lab c (sd_org_id seed)))"

text \<open>\<open>sorted({n.region for n in TOPOLOGY})\<close>\<close>

definition region_names :: "lab \<Rightarrow> string list" where
  "region_names lab = sort (remdups (map nd_region (topology (lb_host lab))))"

definition assemble_report :: "lab \<Rightarrow> harness_config \<Rightarrow> string \<Rightarrow> seed_context \<Rightarrow> (string \<times> pyval) list \<Rightarrow> nat \<Rightarrow>
    baseline \<Rightarrow> outage \<Rightarrow> recovery \<Rightarrow> resilience_report" where
  "assemble_report lab cfg generated_at seed pin tracked b u v = (let probes = probes_by_name b u v in
     \<lparr>rr_generated_at = generated_at,
      rr_topology = [(''regions'', PList (map PStr (region_names lab))), (''primary_region'', PStr (nd_region (hc_control_node cfg))),
        (''killed_region'', PStr (hc_kill_region cfg)), (''nodes_total'', PInt (int (length (topology (lb_host lab))))),
        (''replication_factor'', PInt 5)],
      rr_run = [(''org_id'', PStr (sd_org_id seed)), (''agent_id'', PStr (sd_agent_id seed)),
        (''service_id'', PStr (sd_service_id seed)), (''incident_id'', PStr (sd_incident_id seed)),
        (''outage_writes'', PList (map PStr (og_writes u))), (''rows_tracked_for_rpo'', PInt (int tracked))],
      rr_probes = map (\<lambda>(name, p). (name, probe_dict p)) probes,
      rr_node_liveness = [(''before_kill'', PInt (int (bl_live b))), (''during_outage'', PInt (int (og_live u))),
        (''after_recovery'', PInt (int (rv_live v))), (''expected'', PInt (int (length (topology (lb_host lab))))),
        (''region_down_detected'', PBool (og_down u)),
        (''region_down_detection_seconds'', PFloat (lb_round lab 2 (og_down_elapsed u))),
        (''recovery_reached_full_liveness'', PBool (rv_recovered v)),
        (''recovery_elapsed_seconds'', PFloat (lb_round lab 2 (rv_elapsed v)))],
      rr_range_snapshot = [(''before_kill'', bl_ranges b), (''during_outage'', og_ranges u), (''after_recovery'', rv_ranges v)],
      rr_overall = overall_from_probes probes,
      rr_leaseholder_pin = pin,
      rr_schema_version = ''postmortem-resilience-v1''\<rparr>)"

section \<open>The run\<close>

text \<open>\<open>fuel\<close> bounds the rounds of each waiting loop.\<close>

definition after_restart :: "nat \<Rightarrow> lab \<Rightarrow> harness_config \<Rightarrow> seed_context \<Rightarrow> (string \<times> pyval) list \<Rightarrow> baseline \<Rightarrow> outage \<Rightarrow>
    resilience_report lab_prog" where
  "after_restart fuel lab cfg seed pin b u =
     andThen (recovery_run fuel lab cfg) (\<lambda>v.
     andThen (record_run lab cfg seed (probes_by_name b u v)) (\<lambda>_.
     andThen (reads (\<lambda>s. (lb_now_iso lab (rn_events s), length (rn_rows s)))) (\<lambda>(generated_at, tracked).
     ret (assemble_report lab cfg generated_at seed pin tracked b u v))))"

definition after_kill :: "nat \<Rightarrow> lab \<Rightarrow> harness_config \<Rightarrow> seed_context \<Rightarrow> (string \<times> pyval) list \<Rightarrow> node \<Rightarrow> baseline \<Rightarrow> real \<Rightarrow>
    resilience_report lab_prog" where
  "after_kill fuel lab cfg seed pin leaseholder b kill_started_at =
     andThen (outage_run fuel lab cfg seed leaseholder kill_started_at) (\<lambda>u.
     andThen (restore_region lab (hc_kill_region cfg)) (\<lambda>_.
     after_restart fuel lab cfg seed pin b u))"

definition before_kill :: "nat \<Rightarrow> lab \<Rightarrow> harness_config \<Rightarrow>
    (seed_context \<times> (string \<times> pyval) list \<times> node \<times> baseline) lab_prog" where
  "before_kill fuel lab cfg =
     andThen (seed_run lab cfg) (\<lambda>seed.
     andThen (pin_run fuel lab cfg) (\<lambda>(pin, leaseholder).
     andThen (baseline_run lab cfg seed) (\<lambda>b. ret (seed, pin, leaseholder, b))))"

definition run_harness :: "nat \<Rightarrow> lab \<Rightarrow> harness_config \<Rightarrow> resilience_report lab_prog" where
  "run_harness fuel lab cfg =
     andThen (before_kill fuel lab cfg) (\<lambda>(seed, pin, leaseholder, b).
     andThen (kill_region lab (hc_kill_region cfg)) (\<lambda>kill_started_at.
     after_kill fuel lab cfg seed pin leaseholder b kill_started_at))"

definition new_run :: lab_run where
  "new_run = \<lparr>rn_events = [], rn_rows = []\<rparr>"

definition report_dict :: "resilience_report \<Rightarrow> (string \<times> pyval) list" where
  "report_dict r = [(''generated_at'', PStr (rr_generated_at r)), (''topology'', PDict (rr_topology r)), (''run'', PDict (rr_run r)),
     (''probes'', PDict (rr_probes r)), (''node_liveness'', PDict (rr_node_liveness r)),
     (''range_snapshot'', PDict (rr_range_snapshot r)), (''overall'', PDict (rr_overall r)),
     (''leaseholder_pin'', PDict (rr_leaseholder_pin r)), (''schema_version'', PStr (rr_schema_version r))]"

text \<open>The exit status of \<^verbatim>\<open>__main__.py\<close>: an exception ends the process with status 1.\<close>

definition exit_status :: "lab_error + resilience_report \<Rightarrow> int" where
  "exit_status r = (case r of Inl _ \<Rightarrow> 1 | Inr report \<Rightarrow> if py_truthy (pget (sub_dict (report_dict report) ''overall'') ''pass'') then 0 else 1)"

end
