(* ===== verification/Re_Trace.thy ===== *)
theory Re_Trace
  imports Re_Harness
begin

text \<open>
  How to reason about runs: what a program appends to the events (\<open>logs\<close>), what holds when it
  returns (\<open>ensures\<close>), that it never runs out of fuel (\<open>ends\<close>), and the waiting loops.
\<close>

named_theorems logs_intros \<open>rules that show what a program appends to the events\<close>
named_theorems ends_intros \<open>rules that show that a program does not run out of fuel\<close>

section \<open>Appended events\<close>

text \<open>\<open>P\<close> survives every event of \<open>Q\<close>; a program that logs \<open>Q\<close> keeps every such property: it appends
  events of \<open>Q\<close> and does nothing else.\<close>

definition survives :: "(lab_run \<Rightarrow> bool) \<Rightarrow> (lab_event \<Rightarrow> bool) \<Rightarrow> bool" where
  "survives P Q \<longleftrightarrow> (\<forall>s e. P s \<longrightarrow> Q e \<longrightarrow> P (s\<lparr>rn_events := rn_events s @ [e]\<rparr>))"

definition logs :: "(lab_event \<Rightarrow> bool) \<Rightarrow> 'a lab_prog \<Rightarrow> bool" where
  "logs Q m \<longleftrightarrow> (\<forall>P. survives P Q \<longrightarrow> keeps P m)"

lemma survivesI: "(\<And>s e. P s \<Longrightarrow> Q e \<Longrightarrow> P (s\<lparr>rn_events := rn_events s @ [e]\<rparr>)) \<Longrightarrow> survives P Q"
  by (simp add: survives_def)

lemma logs_keeps: "logs Q m \<Longrightarrow> survives P Q \<Longrightarrow> keeps P m"
  by (simp add: logs_def)

lemma logs_mono: "logs Q m \<Longrightarrow> (\<And>e. Q e \<Longrightarrow> R e) \<Longrightarrow> logs R m"
  by (simp add: logs_def survives_def)

lemma logs_basic [logs_intros]:
  "logs Q (ret x)" "logs Q (raise e)" "logs Q (reads f)" "logs Q (lift_result r)" "logs Q (require b e)"
  by (simp_all add: logs_def keeps_intros)

lemma logs_andThen [logs_intros]: "logs Q m \<Longrightarrow> (\<And>x. logs Q (f x)) \<Longrightarrow> logs Q (andThen m f)"
  by (simp add: logs_def keeps_andThen)

lemma logs_if [logs_intros]: "(b \<Longrightarrow> logs Q m) \<Longrightarrow> (\<not> b \<Longrightarrow> logs Q n) \<Longrightarrow> logs Q (if b then m else n)"
  by simp

lemma logs_case_sum [logs_intros]:
  "(\<And>e. logs Q (m e)) \<Longrightarrow> (\<And>x. logs Q (n x)) \<Longrightarrow> logs Q (case r of Inl e \<Rightarrow> m e | Inr x \<Rightarrow> n x)"
  by (simp split: sum.split)

lemma logs_case_prod [logs_intros]: "(\<And>x y. logs Q (m x y)) \<Longrightarrow> logs Q (case p of (x, y) \<Rightarrow> m x y)"
  by (simp split: prod.split)

lemma logs_let [logs_intros]: "logs Q (f x) \<Longrightarrow> logs Q (let y = x in f y)"
  by simp

lemma logs_for_each [logs_intros]: "(\<And>x. logs Q (f x)) \<Longrightarrow> logs Q (for_each xs f)"
  by (simp add: logs_def keeps_for_each)

lemma logs_happens: "(\<And>x. Q (ev x)) \<Longrightarrow> logs Q (happens answer ev)"
  by (simp add: logs_def survives_def keeps_def happens_def Let_def)

lemma logs_effect: "(\<And>x. Q (ev x)) \<Longrightarrow> logs Q (effect answer ev)"
  unfolding effect_def by (intro logs_intros logs_happens)

lemma keeps_tried [keeps_intros]: "keeps P m \<Longrightarrow> keeps P (tried m)"
  by (simp add: keeps_def tried_def split: prod.split) (metis snd_conv)

lemma logs_tried [logs_intros]: "logs Q m \<Longrightarrow> logs Q (tried m)"
  by (simp add: logs_def keeps_tried)

lemma keeps_closing: "keeps P m \<Longrightarrow> (\<And>s. P s \<Longrightarrow> P (s\<lparr>rn_events := rn_events s @ [Closed c]\<rparr>)) \<Longrightarrow> keeps P (closing c m)"
  by (simp add: keeps_def closing_def split: prod.split) (metis snd_conv)

lemma logs_closing: "logs Q m \<Longrightarrow> Q (Closed c) \<Longrightarrow> logs Q (closing c m)"
  by (simp add: logs_def survives_def keeps_closing)

lemma logs_connection:
  "(\<And>r. Q (Connected n timeout autocommit r)) \<Longrightarrow> (\<And>c. Q (Closed c)) \<Longrightarrow> (\<And>c. logs Q (body c)) \<Longrightarrow>
   logs Q (with_connection lab n timeout autocommit body)"
  unfolding with_connection_def connect_def by (intro logs_intros logs_effect logs_closing)

lemma logs_poll:
  assumes "\<And>t. Q (Clock t)" "Q (Slept interval)" "logs Q body"
  shows "logs Q (poll fuel lab start timeout interval body x)"
proof (induction fuel arbitrary: x)
  case (Suc fuel)
  show ?case unfolding poll.simps now_def sleep_def
    by (intro logs_intros logs_happens assms Suc.IH)
qed (simp add: logs_intros)

text \<open>Since the events \<open>h\<close>, only events of \<open>Q\<close> have happened.\<close>

definition since :: "lab_event list \<Rightarrow> (lab_event \<Rightarrow> bool) \<Rightarrow> lab_run \<Rightarrow> bool" where
  "since h Q s \<longleftrightarrow> (\<exists>es. rn_events s = h @ es \<and> list_all Q es)"

lemma since_survives: "survives (since h Q) Q"
  by (rule survivesI) (auto simp: since_def)

lemma keeps_since: "logs Q m \<Longrightarrow> keeps (since h Q) m"
  by (simp add: logs_keeps since_survives)

lemma keeps_rows: "logs Q m \<Longrightarrow> keeps (\<lambda>s. rn_rows s = rows) m"
  by (auto intro!: logs_keeps survivesI)

lemma keeps_track_since: "keeps (since h Q) (track r)"
  by (simp add: track_def keeps_def since_def prog_simps)

lemma since_refl: "since (rn_events s) Q s"
  by (simp add: since_def)

lemma appendedE:
  assumes "\<And>h. keeps (since h Q) m" "m s = (r, s')"
  obtains es where "rn_events s' = rn_events s @ es" "list_all Q es"
proof -
  have "since (rn_events s) Q s'" using keepsD [OF assms(1) since_refl] assms(2) by (metis snd_conv)
  then show thesis using that by (auto simp: since_def)
qed

section \<open>Outcomes\<close>

text \<open>Started where \<open>P\<close> holds, \<open>m\<close> raises where \<open>E\<close> holds, or returns a value and a state of \<open>Q\<close>.\<close>

definition yields :: "('s \<Rightarrow> bool) \<Rightarrow> ('s, 'e, 'a) prog \<Rightarrow> ('s \<Rightarrow> bool) \<Rightarrow> ('a \<Rightarrow> 's \<Rightarrow> bool) \<Rightarrow> bool" where
  "yields P m E Q \<longleftrightarrow> (\<forall>s. P s \<longrightarrow> (case m s of (Inl _, s') \<Rightarrow> E s' | (Inr x, s') \<Rightarrow> Q x s'))"

lemma yieldsD:
  "yields P m E Q \<Longrightarrow> P s \<Longrightarrow> m s = (Inr x, s') \<Longrightarrow> Q x s'"
  "yields P m E Q \<Longrightarrow> P s \<Longrightarrow> m s = (Inl e, s') \<Longrightarrow> E s'"
  by (auto simp: yields_def)

lemma yields_andThen:
  "yields P m E Q \<Longrightarrow> (\<And>x. yields (Q x) (f x) E S) \<Longrightarrow> yields P (andThen m f) E S"
  unfolding yields_def by (fastforce simp: andThen_def split: prod.splits sum.splits)

lemma yields_ret: "(\<And>s. P s \<Longrightarrow> Q x s) \<Longrightarrow> yields P (ret x) E Q"
  by (simp add: yields_def prog_simps)

lemma yields_raise: "(\<And>s. P s \<Longrightarrow> E s) \<Longrightarrow> yields P (raise e) E Q"
  by (simp add: yields_def prog_simps)

lemma yields_keeps: "keeps P m \<Longrightarrow> yields P m P (\<lambda>_. P)"
  by (simp add: yields_def keeps_def split: prod.split sum.split) (metis snd_conv)

lemma yields_weaken:
  "yields P m E Q \<Longrightarrow> (\<And>s. P' s \<Longrightarrow> P s) \<Longrightarrow> (\<And>s. E s \<Longrightarrow> E' s) \<Longrightarrow> (\<And>x s. Q x s \<Longrightarrow> Q' x s) \<Longrightarrow> yields P' m E' Q'"
  unfolding yields_def by (fastforce split: prod.splits sum.splits)

lemma yields_happens:
  "(\<And>s x. P s \<Longrightarrow> Q x (s\<lparr>rn_events := rn_events s @ [ev x]\<rparr>)) \<Longrightarrow> yields P (happens answer ev) E Q"
  by (simp add: yields_def happens_def Let_def)

lemma yields_effect:
  "(\<And>s f. P s \<Longrightarrow> E (s\<lparr>rn_events := rn_events s @ [ev (Inl f)]\<rparr>)) \<Longrightarrow>
   (\<And>s x. P s \<Longrightarrow> Q x (s\<lparr>rn_events := rn_events s @ [ev (Inr x)]\<rparr>)) \<Longrightarrow> yields P (effect answer ev) E Q"
  by (auto simp: yields_def effect_def happens_def prog_simps served_def Let_def split: sum.split)

lemma yields_tried:
  "yields P m E Q \<Longrightarrow> yields P (tried m) E' (\<lambda>r s. case r of Inl _ \<Rightarrow> E s | Inr x \<Rightarrow> Q x s)"
  by (auto simp: yields_def tried_def split: prod.splits sum.splits)

lemma yields_closing:
  "yields P m E Q \<Longrightarrow> (\<And>s. E s \<Longrightarrow> E' (s\<lparr>rn_events := rn_events s @ [Closed c]\<rparr>)) \<Longrightarrow>
   (\<And>x s. Q x s \<Longrightarrow> Q' x (s\<lparr>rn_events := rn_events s @ [Closed c]\<rparr>)) \<Longrightarrow> yields P (closing c m) E' Q'"
  unfolding yields_def by (fastforce simp: closing_def split: prod.splits sum.splits)

lemma yields_connection:
  assumes "\<And>s r. P s \<Longrightarrow> P (s\<lparr>rn_events := rn_events s @ [Connected n timeout autocommit r]\<rparr>)" and "\<And>s. P s \<Longrightarrow> E s"
    and "\<And>c. cn_autocommit c = autocommit \<Longrightarrow> yields P (closing c (body c)) E Q"
  shows "yields P (with_connection lab n timeout autocommit body) E Q"
  unfolding with_connection_def
proof (rule yields_andThen [where Q = "\<lambda>c s. P s \<and> cn_autocommit c = autocommit"])
  have "yields P (connect lab n timeout autocommit) P (\<lambda>c s. P s \<and> cn_autocommit c = autocommit)"
    unfolding connect_def
    by (intro yields_andThen [OF yields_keeps [OF keeps_reads]] yields_andThen [where Q = "\<lambda>_. P"] yields_effect)
      (auto intro: assms(1) yields_ret)
  then show "yields P (connect lab n timeout autocommit) E (\<lambda>c s. P s \<and> cn_autocommit c = autocommit)"
    by (rule yields_weaken) (auto intro: assms(2))
  show "yields (\<lambda>s. P s \<and> cn_autocommit c = autocommit) (closing c (body c)) E Q" for c
    using assms(3) [of c] by (auto simp: yields_def)
qed

section \<open>Fuel\<close>

definition ends :: "'a lab_prog \<Rightarrow> bool" where
  "ends m \<longleftrightarrow> (\<forall>s. fst (m s) \<noteq> Inl Still_running)"

lemma ends_basic [ends_intros]:
  "ends (ret x)" "ends (reads f)" "ends (modifies g)" "e \<noteq> Still_running \<Longrightarrow> ends (raise e)"
  "e \<noteq> Still_running \<Longrightarrow> ends (require b e)" "r \<noteq> Inl Still_running \<Longrightarrow> ends (lift_result r)"
  by (simp_all add: ends_def prog_simps)

lemma ends_andThen [ends_intros]: "ends m \<Longrightarrow> (\<And>x. ends (f x)) \<Longrightarrow> ends (andThen m f)"
  by (auto simp: ends_def andThen_def split: prod.splits sum.splits) (metis fst_conv)

lemma ends_case_prod [ends_intros]: "(\<And>x y. ends (m x y)) \<Longrightarrow> ends (case p of (x, y) \<Rightarrow> m x y)"
  by (simp split: prod.split)

lemma ends_let [ends_intros]: "ends (f x) \<Longrightarrow> ends (let y = x in f y)"
  by simp

lemma ends_if [ends_intros]: "(b \<Longrightarrow> ends m) \<Longrightarrow> (\<not> b \<Longrightarrow> ends n) \<Longrightarrow> ends (if b then m else n)"
  by simp

lemma ends_happens [ends_intros]: "ends (happens answer ev)"
  by (simp add: ends_def happens_def Let_def)

lemma ends_effect [ends_intros]: "ends (effect answer ev)"
  unfolding effect_def by (intro ends_intros) (simp add: served_def split: sum.split)

lemma ends_closing [ends_intros]: "ends m \<Longrightarrow> ends (closing c m)"
  by (simp add: ends_def closing_def split: prod.split) (metis fst_conv)

lemma ends_connection [ends_intros]:
  "(\<And>c. ends (body c)) \<Longrightarrow> ends (with_connection lab n timeout autocommit body)"
  unfolding with_connection_def connect_def by (intro ends_intros ends_closing)

lemma ends_tried [ends_intros]: "ends (tried m)"
  by (simp add: ends_def tried_def split: prod.split)

lemma ends_for_each [ends_intros]: "(\<And>x. ends (f x)) \<Longrightarrow> ends (for_each xs f)"
  by (induction xs) (simp_all add: ends_intros)

end
