(* ===== verification/Re_Waits.thy ===== *)
theory Re_Waits
  imports Re_Trace
begin

text \<open>
  The waiting loops: the locale \<open>waiting\<close> states what a body owes its loop, and is interpreted for the
  three loops of the harness. What a finished loop has seen, and when a loop ends.
\<close>

section \<open>Time\<close>

definition slept_by :: "lab_event \<Rightarrow> real" where
  "slept_by e = (case e of Slept d \<Rightarrow> d | _ \<Rightarrow> 0)"

definition connects_by :: "lab_event \<Rightarrow> nat" where
  "connects_by e = (case e of Connected _ _ _ _ \<Rightarrow> 1 | _ \<Rightarrow> 0)"

definition time_taken :: "real \<Rightarrow> lab_event list \<Rightarrow> real" where
  "time_taken \<delta> es = sum_list (map slept_by es) + \<delta> * real (sum_list (map connects_by es))"

text \<open>The clock runs at least as fast as sleeping, and a connection attempt takes at least \<open>\<delta>\<close>.\<close>

definition steady :: "lab \<Rightarrow> real \<Rightarrow> bool" where
  "steady lab \<delta> \<longleftrightarrow> (\<forall>h es. lb_clock lab h + time_taken \<delta> es \<le> lb_clock lab (h @ es))"

lemma steadyD: "steady lab \<delta> \<Longrightarrow> lb_clock lab h + time_taken \<delta> es \<le> lb_clock lab (h @ es)"
  by (simp add: steady_def)

text \<open>Events that do not turn the clock back.\<close>

definition calm :: "lab_event \<Rightarrow> bool" where
  "calm e \<longleftrightarrow> 0 \<le> slept_by e"

lemma time_taken_calm: "list_all calm es \<Longrightarrow> 0 \<le> \<delta> \<Longrightarrow> 0 \<le> time_taken \<delta> es"
  by (auto simp: time_taken_def calm_def list_all_iff intro!: add_nonneg_nonneg sum_list_nonneg)

section \<open>Waiting\<close>

locale waiting =
  fixes lab :: lab and body :: "('b \<times> bool) lab_prog" and seen :: "lab_event list \<Rightarrow> 'b \<Rightarrow> bool"
  assumes finished: "body s = (Inr (y, True), s') \<Longrightarrow> seen (rn_events s') y"
    and clock_blind: "seen es y \<Longrightarrow> seen (es @ [Clock t]) y"
    and body_ends: "ends body"
    and body_calm: "logs calm body"
begin

lemma poll_finished:
  "poll fuel lab start timeout interval body x s = (Inr (True, elapsed, y), s') \<Longrightarrow> seen (rn_events s') y"
proof (induction fuel arbitrary: x s)
  case (Suc fuel)
  then show ?case
    by (auto simp: now_def sleep_def happens_def prog_simps Let_def intro!: clock_blind
        split: prod.splits sum.splits if_splits dest!: finished)
qed (simp add: prog_simps)

text \<open>Enough rounds for the time that is left.\<close>

lemma poll_not_stuck:
  assumes "steady lab \<delta>" "0 \<le> \<delta>" "0 \<le> interval"
  shows "timeout - (lb_clock lab (rn_events s) - start) \<le> real fuel * interval \<Longrightarrow>
    fst (poll (Suc fuel) lab start timeout interval body x s) \<noteq> Inl Still_running"
proof (induction fuel arbitrary: x s)
  case 0
  then show ?case by (simp add: now_def happens_def prog_simps Let_def)
next
  case (Suc fuel)
  let ?s = "s\<lparr>rn_events := rn_events s @ [Clock (lb_clock lab (rn_events s))]\<rparr>"
  obtain r s' where body: "body ?s = (r, s')" by fastforce
  obtain es where es: "rn_events s' = rn_events ?s @ es" "list_all calm es"
    using appendedE [OF keeps_since [OF body_calm] body] by blast
  let ?es = "Clock (lb_clock lab (rn_events s)) # es @ [Slept interval]"
  have "lb_clock lab (rn_events s) + time_taken \<delta> ?es \<le> lb_clock lab (rn_events s' @ [Slept interval])"
    using steadyD [OF assms(1), of "rn_events s" ?es] es by simp
  moreover have "interval + time_taken \<delta> es \<le> time_taken \<delta> ?es"
    by (simp add: time_taken_def slept_by_def connects_by_def)
  ultimately have later: "lb_clock lab (rn_events s) + interval \<le> lb_clock lab (rn_events s' @ [Slept interval])"
    using time_taken_calm [OF es(2) assms(2)] by linarith
  have rest: "fst (poll (Suc fuel) lab start timeout interval body y (s'\<lparr>rn_events := rn_events s' @ [Slept interval]\<rparr>))
      \<noteq> Inl Still_running" for y
    using later Suc.prems by (intro Suc.IH) (simp add: algebra_simps)
  have "fst (body ?s) \<noteq> Inl Still_running" using body_ends by (simp add: ends_def)
  then show ?case using body rest
    by (subst poll.simps) (auto simp: now_def sleep_def happens_def prog_simps Let_def simp del: poll.simps
        split: sum.split if_splits)
qed

lemma poll_ends:
  assumes "steady lab \<delta>" "0 \<le> \<delta>" "0 \<le> interval" "timeout \<le> real fuel * interval"
  shows "ends (andThen (now lab) (\<lambda>start. poll (Suc fuel) lab start timeout interval body x))"
proof -
  have "fst (poll (Suc fuel) lab (lb_clock lab (rn_events s)) timeout interval body x
      (s\<lparr>rn_events := rn_events s @ [Clock (lb_clock lab (rn_events s))]\<rparr>)) \<noteq> Inl Still_running" for s
  proof (rule poll_not_stuck [OF assms(1-3)])
    show "timeout - (lb_clock lab (rn_events (s\<lparr>rn_events := rn_events s @ [Clock (lb_clock lab (rn_events s))]\<rparr>)) -
        lb_clock lab (rn_events s)) \<le> real fuel * interval"
      using steadyD [OF assms(1), of "rn_events s" "[Clock (lb_clock lab (rn_events s))]"] assms(4)
      by (simp add: time_taken_def slept_by_def connects_by_def)
  qed
  then show ?thesis
    by (simp add: ends_def now_def happens_def prog_simps Let_def del: poll.simps)
qed

end

section \<open>The loops of the harness\<close>

text \<open>The answers to the query for the lease holders of a table, the one \<open>_fetch_lease_rows\<close> issues over
  \<open>SHOW RANGES ... WITH DETAILS\<close>. The snapshot of ranges issues a \<open>SHOW RANGES\<close> of its own, whose answer is the
  event \<open>Ranges\<close>: it is only counted for the report.\<close>

definition lease_answer :: "string \<Rightarrow> lab_event \<Rightarrow> (service_fault + lease_row list) option" where
  "lease_answer table e = (case e of Leases _ t r \<Rightarrow> if t = table then Some r else None | _ \<Rightarrow> None)"

definition lease_answers :: "string \<Rightarrow> lab_event list \<Rightarrow> (service_fault + lease_row list) list" where
  "lease_answers table es = List.map_filter (lease_answer table) es"

definition last_leases :: "string \<Rightarrow> lab_event list \<Rightarrow> lease_row list" where
  "last_leases table es = (case rev (lease_answers table es) of Inr rows # _ \<Rightarrow> rows | _ \<Rightarrow> [])"

text \<open>The table had ranges and all their leases were in the region when its lease holders were last asked for.\<close>

definition lease_in :: "string \<Rightarrow> lease_row \<Rightarrow> bool" where
  "lease_in region row = (case row of (_, _, locality) \<Rightarrow> (case locality of None \<Rightarrow> False | Some t \<Rightarrow> region_of t = Some region))"

definition pinned :: "string \<Rightarrow> lab_event list \<Rightarrow> string \<Rightarrow> bool" where
  "pinned region es table \<longleftrightarrow> last_leases table es \<noteq> [] \<and> list_all (lease_in region) (last_leases table es)"

lemma converged_leases: "converged region (lease_rows rows) \<longleftrightarrow> rows \<noteq> [] \<and> list_all (lease_in region) rows"
proof -
  have "(\<lambda>(_, _, t). region_of t = Some region) \<circ> (\<lambda>(range_id, holder, locality). (range_id, holder, case locality of None \<Rightarrow> [] | Some t \<Rightarrow> t)) =
      lease_in region"
    by (auto simp: fun_eq_iff lease_in_def region_of_def split: option.split)
  then have "in_region region (lease_rows rows) = length (filter (lease_in region) rows)"
    by (simp add: in_region_def lease_rows_def filter_map)
  moreover have "length (filter (lease_in region) rows) = length rows \<longleftrightarrow> list_all (lease_in region) rows"
    by (metis filter_True filter_id_conv length_filter_less less_irrefl list_all_iff)
  ultimately show ?thesis by (simp add: converged_def lease_rows_def)
qed

lemma last_leases_append: "lease_answer table e = None \<Longrightarrow> last_leases table (es @ [e]) = last_leases table es"
  by (simp add: last_leases_def lease_answers_def List.map_filter_def)

lemma logs_run_statement: "(\<And>r. Q (Wrote c st r)) \<Longrightarrow> logs Q (run_statement lab c st)"
  unfolding run_statement_def by (rule logs_effect)

lemma fetch_lease_rows_logs:
  "logs (\<lambda>e. 0 = slept_by e \<and> (\<forall>t. t \<noteq> table \<longrightarrow> lease_answer t e = None)) (fetch_lease_rows lab n table)"
  unfolding fetch_lease_rows_def
  by (intro logs_connection logs_intros logs_run_statement logs_effect) (simp_all add: slept_by_def lease_answer_def)

lemma fetch_lease_rows_seen:
  "fetch_lease_rows lab n table s = (Inr rows, s') \<Longrightarrow> rows = lease_rows (last_leases table (rn_events s'))"
  by (auto simp: fetch_lease_rows_def with_connection_def connect_def run_statement_def effect_def happens_def prog_simps
      closing_def served_def Let_def last_leases_def lease_answers_def List.map_filter_def lease_answer_def
      split: prod.splits sum.splits)

lemma fetch_lease_rows_ends: "ends (fetch_lease_rows lab n table)"
  unfolding fetch_lease_rows_def run_statement_def by (intro ends_intros)

interpretation lease_wait: waiting lab "lease_body lab n table region" "\<lambda>es rows. pinned region es table"
  for lab n table region
proof unfold_locales
  show "pinned region (rn_events s') table" if "lease_body lab n table region s = (Inr (y, True), s')" for s y s'
    using that unfolding lease_body_def
    by (elim andThen_Inr) (auto simp: prog_simps pinned_def converged_leases dest: fetch_lease_rows_seen)
  show "pinned region (es @ [Clock t]) table" if "pinned region es table" for es t
    using that by (simp add: pinned_def last_leases_append lease_answer_def)
  show "ends (lease_body lab n table region)" unfolding lease_body_def
    by (intro ends_intros fetch_lease_rows_ends)
  show "logs calm (lease_body lab n table region)" unfolding lease_body_def
    by (intro logs_intros logs_mono [OF fetch_lease_rows_logs]) (simp add: calm_def)
qed

lemma parse_not_stuck: "parse_node_status_tsv lab out \<noteq> Inl Still_running"
proof -
  have column: "column header cols name \<noteq> Inl Still_running" for header cols name
    by (auto simp: column_def bindE_Inl_iff needE_def split: option.splits)
  have row: "status_row lab header line \<noteq> Inl Still_running" for header line
    by (auto simp: status_row_def Let_def bindE_Inl_iff column needE_def split: option.splits)
  have "mapE (status_row lab header) lines \<noteq> Inl Still_running" for header lines
    by (induction lines) (auto simp: bindE_Inl_iff row)
  then show ?thesis by (simp add: parse_node_status_tsv_def split: list.split)
qed

lemma node_status_logs: "logs (\<lambda>e. \<exists>args t r. e = Composed (''exec'' # args) t r) (node_status lab n)"
  unfolding node_status_def compose_def by (intro logs_intros logs_effect) simp

lemma node_status_ends: "ends (node_status lab n)"
  unfolding node_status_def compose_def by (intro ends_intros parse_not_stuck)

lemma status_or_none_logs: "logs (\<lambda>e. \<exists>args t r. e = Composed (''exec'' # args) t r) (status_or_none lab n)"
  unfolding status_or_none_def by (intro logs_intros node_status_logs)

lemma status_or_none_ends: "ends (status_or_none lab n)"
proof -
  have "fst (node_status lab n s) \<noteq> Inl Still_running" for s
    using node_status_ends by (simp add: ends_def)
  then show ?thesis
    by (auto simp: ends_def status_or_none_def tried_def prog_simps split: prod.splits sum.splits)
      (metis fst_conv)
qed

interpretation status_wait: waiting lab "status_body lab n ok" "\<lambda>es rows. ok rows" for lab n ok
proof unfold_locales
  show "ok y" if "status_body lab n ok s = (Inr (y, True), s')" for s y s'
    using that unfolding status_body_def by (elim andThen_Inr) (simp add: prog_simps)
  show "ends (status_body lab n ok)" unfolding status_body_def
    by (intro ends_intros status_or_none_ends)
  show "logs calm (status_body lab n ok)" unfolding status_body_def
    by (intro logs_intros logs_mono [OF status_or_none_logs]) (auto simp: calm_def slept_by_def)
qed

end
