(* ===== verification/Re_Run.thy ===== *)
theory Re_Run
  imports Re_Waits
begin

text \<open>
  The parts of a run: what each part of the harness appends to the events, and what the pin guarantees.
\<close>

section \<open>What each part logs\<close>

text \<open>Events that have nothing to do with the killing of a region or with its leases.\<close>

definition is_kill :: "lab_event \<Rightarrow> bool" where
  "is_kill e = (case e of Composed args _ _ \<Rightarrow> (case args of [] \<Rightarrow> False | a # _ \<Rightarrow> a = ''kill'') | _ \<Rightarrow> False)"

definition is_restart :: "lab_event \<Rightarrow> bool" where
  "is_restart e = (case e of Composed args _ _ \<Rightarrow> (case args of [] \<Rightarrow> False | a # _ \<Rightarrow> a = ''start'') | _ \<Rightarrow> False)"

text \<open>The rows a statement writes that the harness has to track.\<close>

definition row_of :: "statement \<Rightarrow> tracked_row option" where
  "row_of st = (case st of
     Insert_event event_id org_id _ _ _ _ txt _ \<Rightarrow> Some \<lparr>tk_table = ''episodic_events'', tk_id_column = ''event_id'',
       tk_row_id = event_id, tk_org_id = org_id, tk_content_column = Some ''content'', tk_expected_content = Some txt\<rparr>
   | Insert_action action_id org_id _ _ _ _ key \<Rightarrow> Some \<lparr>tk_table = ''remediation_actions'', tk_id_column = ''action_id'',
       tk_row_id = action_id, tk_org_id = org_id, tk_content_column = Some ''idempotency_key'', tk_expected_content = Some key\<rparr>
   | _ \<Rightarrow> None)"

text \<open>Events of a part that writes no such row, kills and restarts nothing, and asks no leases.\<close>

definition plain :: "lab_event \<Rightarrow> bool" where
  "plain e \<longleftrightarrow> \<not> is_kill e \<and> \<not> is_restart e \<and> calm e \<and> (\<forall>t. lease_answer t e = None) \<and>
     (case e of Wrote _ st _ \<Rightarrow> row_of st = None | _ \<Rightarrow> True)"

text \<open>The same for a part that writes rows.\<close>

definition writing :: "lab_event \<Rightarrow> bool" where
  "writing e \<longleftrightarrow> \<not> is_kill e \<and> \<not> is_restart e \<and> calm e \<and> (\<forall>t. lease_answer t e = None)"

lemmas event_defs = plain_def writing_def is_kill_def is_restart_def calm_def slept_by_def lease_answer_def row_of_def

lemma plain_writing: "plain e \<Longrightarrow> writing e"
  by (simp add: plain_def writing_def)

lemma plain_events [simp]:
  "plain (Clock t)" "plain (Counter t)" "plain (Drew u)" "plain (Connected n t a r)" "plain (Closed c)"
  "plain (Selected c q v)" "plain (Ranges c t' w)" "plain (Committed c r)" "plain (Block_entered c r)"
  "plain (Block_left c r)" "plain (Block_rolled_back c)" "0 \<le> d \<Longrightarrow> plain (Slept d)"
  "plain (Composed (''exec'' # args) t out)"
  by (simp_all add: event_defs)

lemma writing_events [simp]: "writing (Wrote c st r)"
  by (simp add: event_defs)

lemmas part_logs = logs_intros logs_run_statement logs_effect logs_happens logs_connection

lemma plain_parts [logs_intros]:
  "logs plain (now lab)" "logs plain (draw_uuid lab)" "logs plain (fetch_one lab c q)" "logs plain (commit lab c)"
  "0 \<le> d \<Longrightarrow> logs plain (sleep d)"
  unfolding now_def draw_uuid_def fetch_one_def commit_def sleep_def by (intro logs_effect logs_happens; simp)+

lemma seed_logs: "logs plain (seed_run lab cfg)"
  unfolding seed_run_def seed_baseline_def by (intro part_logs logs_intros) (simp_all add: event_defs)

lemma range_snapshot_logs [logs_intros]: "logs plain (range_snapshot lab n)"
  unfolding range_snapshot_def by (intro part_logs logs_intros) (simp_all add: event_defs)

lemma node_status_plain [logs_intros]: "logs plain (node_status lab n)"
  by (rule logs_mono [OF node_status_logs]) auto

lemma status_body_plain [logs_intros]: "logs plain (status_body lab n ok)"
  unfolding status_body_def by (intro logs_intros logs_mono [OF status_or_none_logs]) auto

lemma check_rows_logs [logs_intros]: "logs plain (check_rows lab c rows)"
  by (induction rows) (auto intro!: logs_intros)

lemma probe_rpo_logs [logs_intros]: "logs plain (probe_rpo lab n phase)"
  unfolding probe_rpo_def by (intro part_logs logs_intros) simp_all

lemma waits_log [logs_intros]:
  "logs plain (wait_for_region_down fuel lab region timeout n)"
  "logs plain (wait_for_full_liveness fuel lab expected timeout n)"
  unfolding wait_for_region_down_def wait_for_full_liveness_def Let_def by (intro logs_intros logs_poll; simp)+

lemma recovery_logs [logs_intros]: "logs plain (recovery_run fuel lab cfg)"
  unfolding recovery_run_def Let_def by (intro logs_intros)

lemma record_logs [logs_intros]: "logs plain (record_run lab cfg seed probes)"
  unfolding record_run_def record_probe_def by (intro part_logs logs_intros) (simp_all add: event_defs)

lemma write_event_logs [logs_intros]: "logs writing (write_event lab n timeout st)"
  unfolding write_event_def
  by (intro part_logs logs_intros logs_mono [OF plain_parts(4) plain_writing]) (simp_all add: plain_writing)

lemma plain_logs_writing: "logs plain m \<Longrightarrow> logs writing m"
  by (erule logs_mono) (rule plain_writing)

lemma probes_log [logs_intros]:
  "logs writing (probe_freshness lab n n' seed)" "logs writing (probe_cross_agent_visibility lab n n' seed)"
  unfolding probe_freshness_def probe_cross_agent_visibility_def timed_def read_event_def Let_def
  by (intro part_logs logs_intros plain_logs_writing [OF plain_parts(2)] plain_logs_writing [OF plain_parts(3)]; simp add: plain_writing)+

lemma paired_writes_log [logs_intros]: "logs writing (paired_writes lab c seed e a txt outcome key)"
  unfolding paired_writes_def transaction_def by (intro part_logs logs_intros) (simp_all add: plain_writing)

lemma probe_atomicity_logs [logs_intros]: "logs writing (probe_atomicity lab n seed)"
  unfolding probe_atomicity_def both_present_def row_exists_def Let_def
  by (intro part_logs logs_intros plain_logs_writing [OF plain_parts(2)] plain_logs_writing [OF plain_parts(3)])
    (simp_all add: plain_writing)

lemma attempt_write_logs [logs_intros]: "logs writing (attempt_write lab n seed)"
  unfolding attempt_write_def Let_def by (intro logs_intros plain_logs_writing [OF plain_parts(2)])

text \<open>Parts that track rows keep what only depends on the events.\<close>

lemma track_parts_keep:
  "keeps (since h Q) (track_event seed details key)" "keeps (since h Q) (track_action seed details)"
  unfolding track_event_def track_action_def by (intro keeps_intros keeps_track_since)+

lemmas plain_keeps = plain_parts(1-4) [THEN plain_logs_writing, THEN keeps_since]
  node_status_plain [THEN plain_logs_writing, THEN keeps_since] range_snapshot_logs [THEN plain_logs_writing, THEN keeps_since]
  waits_log [THEN plain_logs_writing, THEN keeps_since] probe_rpo_logs [THEN plain_logs_writing, THEN keeps_since]

lemmas writing_keeps = probes_log [THEN keeps_since] probe_atomicity_logs [THEN keeps_since]
  attempt_write_logs [THEN keeps_since]

lemmas part_keeps = keeps_intros plain_keeps writing_keeps track_parts_keep keeps_track_since

lemma keeps_case_sum: "(\<And>e. r = Inl e \<Longrightarrow> keeps P (m e)) \<Longrightarrow> (\<And>x. r = Inr x \<Longrightarrow> keeps P (n x)) \<Longrightarrow>
    keeps P (case r of Inl e \<Rightarrow> m e | Inr x \<Rightarrow> n x)"
  by (simp split: sum.split)

lemma keeps_case_prod: "(\<And>x y. keeps P (m x y)) \<Longrightarrow> keeps P (case p of (x, y) \<Rightarrow> m x y)"
  by (simp split: prod.split)

lemma baseline_keeps: "keeps (since h writing) (baseline_run lab cfg seed)"
  unfolding baseline_run_def Let_def by (intro part_keeps)

lemma write_loop_keeps: "keeps (since h writing) (write_loop fuel lab k d seed nodes i attempts)"
proof (induction fuel arbitrary: i attempts)
  case (Suc fuel)
  show ?case unfolding write_loop.simps Let_def
    by (intro part_keeps keeps_case_sum keeps_case_prod Suc.IH)
qed (simp add: keeps_intros)

lemma outage_write_keeps: "keeps (since h writing) (outage_write lab cfg seed)"
  unfolding outage_write_def with_connection_def connect_def
  by (intro part_keeps keeps_closing keeps_since [OF logs_effect] keeps_since [OF logs_run_statement])
    (auto simp: since_def plain_writing)

lemma outage_writes_keeps: "keeps (since h writing) (outage_writes n lab cfg seed)"
  by (induction n) (auto intro!: keeps_intros outage_write_keeps)

lemma outage_keeps: "keeps (since h writing) (outage_run fuel lab cfg seed leaseholder t)"
  unfolding outage_run_def probe_rto_def Let_def
  by (intro part_keeps keeps_case_prod write_loop_keeps outage_writes_keeps)

section \<open>The pin\<close>

text \<open>Events of the pin itself.\<close>

definition pinning :: "lab_event \<Rightarrow> bool" where
  "pinning e \<longleftrightarrow> \<not> is_kill e \<and> \<not> is_restart e \<and> (case e of Wrote _ st _ \<Rightarrow> row_of st = None | _ \<Rightarrow> True)"

lemma plain_pinning: "plain e \<Longrightarrow> pinning e"
  by (simp add: plain_def pinning_def)

lemma pinning_events [simp]: "pinning (Leases c t r)" "pinning (Slept d)"
  by (simp_all add: pinning_def is_kill_def is_restart_def)

lemma lease_body_logs: "logs pinning (lease_body lab n table region)"
  unfolding lease_body_def fetch_lease_rows_def
  by (intro part_logs logs_intros) (simp_all add: plain_pinning pinning_def is_kill_def is_restart_def row_of_def)

lemma verify_tables_logs: "logs pinning (verify_tables fuel lab n tables region timeout interval results)"
proof (induction tables arbitrary: results)
  case (Cons table tables)
  have "logs pinning (now lab)" by (rule logs_mono [OF plain_parts(1) plain_pinning])
  then show ?case unfolding verify_tables.simps verify_leaseholders_in_region_def
    by (intro logs_intros logs_poll lease_body_logs Cons.IH) (simp_all add: plain_pinning)
qed (simp add: logs_intros)

lemma pin_logs: "logs pinning (pin_run fuel lab cfg)"
  unfolding pin_run_def pin_and_verify_def set_lease_preference_def Let_def
  by (intro part_logs logs_intros verify_tables_logs)
    (simp_all add: plain_pinning pinning_def is_kill_def is_restart_def row_of_def)

text \<open>A verified table is pinned, and stays so while other tables are looked at.\<close>

lemma verify_pinned:
  assumes "verify_leaseholders_in_region fuel lab n table region timeout interval s = (Inr v, s')"
  shows "vf_verified v \<Longrightarrow> pinned region (rn_events s') table"
    and "t \<noteq> table \<Longrightarrow> pinned region (rn_events s) t \<Longrightarrow> pinned region (rn_events s') t"
proof -
  show "pinned region (rn_events s') table" if "vf_verified v"
    using assms that unfolding verify_leaseholders_in_region_def
    by (elim andThen_Inr) (auto simp: prog_simps verification_of_def bindE_Inr_iff dest: lease_wait.poll_finished split: prod.splits)
  show "pinned region (rn_events s') t" if "t \<noteq> table" "pinned region (rn_events s) t"
  proof -
    have "logs (\<lambda>e. lease_answer t e = None) (verify_leaseholders_in_region fuel lab n table region timeout interval)"
      unfolding verify_leaseholders_in_region_def now_def lease_body_def
      by (intro logs_intros logs_happens logs_poll logs_mono [OF fetch_lease_rows_logs])
        (use that(1) in \<open>auto simp: lease_answer_def\<close>)
    then have "keeps (\<lambda>s. pinned region (rn_events s) t) (verify_leaseholders_in_region fuel lab n table region timeout interval)"
      by (rule logs_keeps) (auto intro!: survivesI simp: pinned_def last_leases_append)
    with that(2) assms show ?thesis by (metis keepsD snd_conv)
  qed
qed

lemma verify_tables_pinned:
  "verify_tables fuel lab n tables region timeout interval results s = (Inr out, s') \<Longrightarrow>
   (\<And>t v. map_of results t = Some v \<Longrightarrow> vf_verified v \<Longrightarrow> pinned region (rn_events s) t) \<Longrightarrow>
   (\<forall>t v. map_of out t = Some v \<longrightarrow> vf_verified v \<longrightarrow> pinned region (rn_events s') t) \<and>
   set (map fst results) \<union> set tables \<subseteq> set (map fst out)"
proof (induction tables arbitrary: results s)
  case (Cons table tables)
  from Cons.prems(1) obtain v u where v: "verify_leaseholders_in_region fuel lab n table region timeout interval s = (Inr v, u)"
    and rest: "verify_tables fuel lab n tables region timeout interval (AList.update table v results) u = (Inr out, s')"
    by (auto elim: andThen_Inr)
  have "pinned region (rn_events u) t" if "map_of (AList.update table v results) t = Some w" "vf_verified w" for t w
    using that verify_pinned [OF v] Cons.prems(2) by (auto split: if_splits)
  from Cons.IH [OF rest this] show ?case by (auto simp: dom_update)
qed (simp add: prog_simps)

lemma pin_pinned:
  assumes "pin_run fuel lab cfg s = (Inr (pin, leaseholder), s')"
  shows "list_all (pinned (hc_kill_region cfg) (rn_events s')) (hc_pinned_tables cfg)"
    and "nd_region leaseholder = hc_kill_region cfg"
proof -
  let ?tables = "hc_pinned_tables cfg"
  from assms obtain u v results where
      verify: "verify_tables fuel lab (hc_control_node cfg) ?tables (hc_kill_region cfg)
        (hc_leaseholder_pin_timeout_seconds cfg) (hc_leaseholder_pin_poll_interval_seconds cfg) [] u = (Inr results, v)"
    and ok: "filter (\<lambda>(_, v). \<not> vf_verified v) results = []" and s': "s' = v"
    and leaseholder: "leaseholder_of lab cfg pin = Inr leaseholder"
    unfolding pin_run_def pin_and_verify_def
    by (auto elim!: andThen_Inr simp: run_prog run_lift_result Let_def split: if_splits)
  from verify_tables_pinned [OF verify]
  have all: "\<And>t w. map_of results t = Some w \<Longrightarrow> vf_verified w \<Longrightarrow> pinned (hc_kill_region cfg) (rn_events v) t"
    and keys: "set ?tables \<subseteq> set (map fst results)" by auto
  show "list_all (pinned (hc_kill_region cfg) (rn_events s')) ?tables"
    unfolding list_all_iff
  proof
    fix t assume "t \<in> set ?tables"
    with keys have "t \<in> fst ` set results" by auto
    then obtain w where w: "map_of results t = Some w" by (cases "map_of results t") (auto simp: map_of_eq_None_iff)
    with ok have "vf_verified w" by (auto simp: filter_empty_conv dest!: map_of_SomeD)
    with all w s' show "pinned (hc_kill_region cfg) (rn_events s') t" by simp
  qed
  show "nd_region leaseholder = hc_kill_region cfg"
    using leaseholder by (auto simp: leaseholder_of_def Let_def split: option.splits if_splits)
qed

section \<open>Before and after the kill\<close>

definition harmless :: "lab_event \<Rightarrow> bool" where
  "harmless e \<longleftrightarrow> \<not> is_kill e \<and> \<not> is_restart e"

lemma writing_harmless: "writing e \<Longrightarrow> harmless e"
  by (simp add: writing_def harmless_def)

lemma pinning_harmless: "pinning e \<Longrightarrow> harmless e"
  by (simp add: pinning_def harmless_def)

lemma since_mono: "keeps (since h Q) m \<Longrightarrow> (\<And>h. keeps (since h Q) m) \<Longrightarrow> (\<And>e. Q e \<Longrightarrow> R e) \<Longrightarrow> keeps (since h R) m"
proof (rule keepsI)
  fix s assume m: "\<And>h. keeps (since h Q) m" and QR: "\<And>e. Q e \<Longrightarrow> R e" and s: "since h R s"
  obtain es where "rn_events (snd (m s)) = rn_events s @ es" "list_all Q es"
    using appendedE [OF m] by (metis prod.collapse)
  with s QR show "since h R (snd (m s))" by (auto simp: since_def list_all_iff)
qed

lemma before_kill_harmless: "keeps (since h harmless) (before_kill fuel lab cfg)"
  unfolding before_kill_def
  by (intro keeps_intros keeps_case_prod keeps_since [OF logs_mono [OF seed_logs]] keeps_since [OF logs_mono [OF pin_logs]]
      since_mono [OF baseline_keeps baseline_keeps])
    (auto simp: plain_writing writing_harmless pinning_harmless)

lemma outage_harmless: "keeps (since h harmless) (outage_run fuel lab cfg seed leaseholder t)"
  by (rule since_mono [OF outage_keeps outage_keeps]) (rule writing_harmless)

lemma after_restart_plain: "logs plain (after_restart fuel lab cfg seed pin b u)"
  unfolding after_restart_def by (intro logs_intros)

lemma after_restart_harmless: "keeps (since h harmless) (after_restart fuel lab cfg seed pin b u)"
  by (intro keeps_since logs_mono [OF after_restart_plain]) (simp add: plain_writing writing_harmless)

lemma before_kill_pinned:
  assumes "before_kill fuel lab cfg s = (Inr (seed, pin, leaseholder, b), s')"
  shows "list_all (pinned (hc_kill_region cfg) (rn_events s')) (hc_pinned_tables cfg)"
    and "nd_region leaseholder = hc_kill_region cfg"
proof -
  from assms obtain u v where pin: "pin_run fuel lab cfg u = (Inr (pin, leaseholder), v)"
    and base: "baseline_run lab cfg seed v = (Inr b, s')"
    unfolding before_kill_def by (auto elim!: andThen_Inr simp: run_prog)
  obtain es where es: "rn_events s' = rn_events v @ es" "list_all writing es"
    by (rule appendedE [OF baseline_keeps base])
  have "last_leases t (h @ es) = last_leases t h" for t h
    using es(2) by (induction es rule: rev_induct)
      (auto simp: writing_def last_leases_append simp flip: append_assoc)
  with pin_pinned [OF pin] es(1)
  show "list_all (pinned (hc_kill_region cfg) (rn_events s')) (hc_pinned_tables cfg)"
    and "nd_region leaseholder = hc_kill_region cfg"
    by (auto simp: pinned_def list_all_iff)
qed

end
