(* ===== verification/Re_Ledger.thy ===== *)
theory Re_Ledger
  imports Re_Run
begin

text \<open>
  The rows a run has to answer for: the statements whose transaction the database has acknowledged,
  computed from the events alone, against the rows the tracker knows.
\<close>

section \<open>Acknowledged statements\<close>

text \<open>Statements executed and not yet acknowledged, with their connections, and those acknowledged: by a commit,
  by the end of a transaction block, or at once on a connection that commits automatically.\<close>

fun ledger_step :: "(connection \<times> statement) list \<times> statement list \<Rightarrow> lab_event \<Rightarrow>
    (connection \<times> statement) list \<times> statement list" where
  "ledger_step (uncommitted, acked) (Wrote c st (Inr _)) =
     (if cn_autocommit c then (uncommitted, acked @ [st]) else (uncommitted @ [(c, st)], acked))"
| "ledger_step (uncommitted, acked) (Committed c (Inr _)) =
     (filter (\<lambda>p. fst p \<noteq> c) uncommitted, acked @ map snd (filter (\<lambda>p. fst p = c) uncommitted))"
| "ledger_step (uncommitted, acked) (Block_left c (Inr _)) =
     (filter (\<lambda>p. fst p \<noteq> c) uncommitted, acked @ map snd (filter (\<lambda>p. fst p = c) uncommitted))"
| "ledger_step (uncommitted, acked) (Block_rolled_back c) = (filter (\<lambda>p. fst p \<noteq> c) uncommitted, acked)"
| "ledger_step (uncommitted, acked) (Closed c) = (filter (\<lambda>p. fst p \<noteq> c) uncommitted, acked)"
| "ledger_step l _ = l"

definition ledger :: "lab_event list \<Rightarrow> (connection \<times> statement) list \<times> statement list" where
  "ledger es = foldl ledger_step ([], []) es"

definition uncommitted :: "lab_event list \<Rightarrow> (connection \<times> statement) list" where
  "uncommitted es = fst (ledger es)"

definition acknowledged :: "lab_event list \<Rightarrow> statement list" where
  "acknowledged es = snd (ledger es)"

text \<open>Every acknowledged row is tracked.\<close>

definition tracked :: "tracked_row list \<Rightarrow> statement \<Rightarrow> bool" where
  "tracked rows st \<longleftrightarrow> (case row_of st of None \<Rightarrow> True | Some r \<Rightarrow> r \<in> set rows)"

lemma uncommitted_Nil [simp]: "uncommitted [] = []" "acknowledged [] = []"
  by (simp_all add: uncommitted_def acknowledged_def ledger_def)

lemma ledger_events [simp]:
  "uncommitted (es @ [Wrote c st (Inr u)]) = (if cn_autocommit c then uncommitted es else uncommitted es @ [(c, st)])"
  "acknowledged (es @ [Wrote c st (Inr u)]) = (if cn_autocommit c then acknowledged es @ [st] else acknowledged es)"
  "uncommitted (es @ [Wrote c st (Inl f)]) = uncommitted es" "acknowledged (es @ [Wrote c st (Inl f)]) = acknowledged es"
  "uncommitted (es @ [Committed c (Inr u)]) = filter (\<lambda>p. fst p \<noteq> c) (uncommitted es)"
  "acknowledged (es @ [Committed c (Inr u)]) = acknowledged es @ map snd (filter (\<lambda>p. fst p = c) (uncommitted es))"
  "uncommitted (es @ [Committed c (Inl f)]) = uncommitted es" "acknowledged (es @ [Committed c (Inl f)]) = acknowledged es"
  "uncommitted (es @ [Block_left c (Inr u)]) = filter (\<lambda>p. fst p \<noteq> c) (uncommitted es)"
  "acknowledged (es @ [Block_left c (Inr u)]) = acknowledged es @ map snd (filter (\<lambda>p. fst p = c) (uncommitted es))"
  "uncommitted (es @ [Block_left c (Inl f)]) = uncommitted es" "acknowledged (es @ [Block_left c (Inl f)]) = acknowledged es"
  "uncommitted (es @ [Block_rolled_back c]) = filter (\<lambda>p. fst p \<noteq> c) (uncommitted es)"
  "acknowledged (es @ [Block_rolled_back c]) = acknowledged es"
  "uncommitted (es @ [Closed c]) = filter (\<lambda>p. fst p \<noteq> c) (uncommitted es)" "acknowledged (es @ [Closed c]) = acknowledged es"
  by (cases "foldl ledger_step ([], []) es"; simp add: uncommitted_def acknowledged_def ledger_def)+

lemma ledger_other [simp]:
  "uncommitted (es @ [Clock t]) = uncommitted es" "acknowledged (es @ [Clock t]) = acknowledged es"
  "uncommitted (es @ [Counter t]) = uncommitted es" "acknowledged (es @ [Counter t]) = acknowledged es"
  "uncommitted (es @ [Slept d]) = uncommitted es" "acknowledged (es @ [Slept d]) = acknowledged es"
  "uncommitted (es @ [Drew u]) = uncommitted es" "acknowledged (es @ [Drew u]) = acknowledged es"
  "uncommitted (es @ [Composed a d out]) = uncommitted es" "acknowledged (es @ [Composed a d out]) = acknowledged es"
  "uncommitted (es @ [Connected n d auto r]) = uncommitted es" "acknowledged (es @ [Connected n d auto r]) = acknowledged es"
  "uncommitted (es @ [Leases c tab w]) = uncommitted es" "acknowledged (es @ [Leases c tab w]) = acknowledged es"
  "uncommitted (es @ [Ranges c tab v]) = uncommitted es" "acknowledged (es @ [Ranges c tab v]) = acknowledged es"
  "uncommitted (es @ [Selected c q x]) = uncommitted es" "acknowledged (es @ [Selected c q x]) = acknowledged es"
  "uncommitted (es @ [Block_entered c b]) = uncommitted es" "acknowledged (es @ [Block_entered c b]) = acknowledged es"
  by (cases "foldl ledger_step ([], []) es"; simp add: uncommitted_def acknowledged_def ledger_def)+

section \<open>Accounts\<close>

text \<open>The rows written and not yet acknowledged are among \<open>P\<close>, with their connections, and the acknowledged ones
  are tracked or among \<open>R\<close>.\<close>

definition booked :: "(connection \<times> tracked_row) set \<Rightarrow> tracked_row set \<Rightarrow> lab_run \<Rightarrow> bool" where
  "booked P R s \<longleftrightarrow> (\<forall>(c, st) \<in> set (uncommitted (rn_events s)). \<forall>r. row_of st = Some r \<longrightarrow> (c, r) \<in> P) \<and>
     (\<forall>st \<in> set (acknowledged (rn_events s)). \<forall>r. row_of st = Some r \<longrightarrow> r \<in> set (rn_rows s) \<union> R)"

lemma balanced_mono: "booked P R s \<Longrightarrow> P \<subseteq> P' \<Longrightarrow> R \<subseteq> R' \<Longrightarrow> booked P' R' s"
  by (fastforce simp: booked_def)

definition ledger_neutral :: "lab_event \<Rightarrow> bool" where
  "ledger_neutral e \<longleftrightarrow> (case e of Wrote _ st _ \<Rightarrow> row_of st = None | _ \<Rightarrow> True)"

lemma neutral_survives: "survives (booked {} R) ledger_neutral"
proof (rule survivesI)
  fix s :: lab_run and e assume s: "booked {} R s" and e: "ledger_neutral e"
  show "booked {} R (s\<lparr>rn_events := rn_events s @ [e]\<rparr>)"
  proof (cases e)
    case (Wrote c st r)
    with s e show ?thesis by (cases r) (auto simp: booked_def ledger_neutral_def)
  next
    case (Committed c r)
    with s show ?thesis by (cases r) (fastforce simp: booked_def)+
  next
    case (Block_left c r)
    with s show ?thesis by (cases r) (fastforce simp: booked_def)+
  qed (use s in \<open>auto simp: booked_def\<close>)
qed

lemma pinning_neutral: "pinning e \<Longrightarrow> ledger_neutral e"
  by (simp add: pinning_def ledger_neutral_def)

lemma plain_balanced: "logs plain m \<Longrightarrow> keeps (booked {} R) m"
  by (rule logs_keeps [OF _ neutral_survives], erule logs_mono) (simp add: plain_pinning pinning_neutral)

lemma pinning_balanced: "logs pinning m \<Longrightarrow> keeps (booked {} R) m"
  by (rule logs_keeps [OF _ neutral_survives], erule logs_mono) (rule pinning_neutral)

lemma track_balanced: "booked P (insert r R) s \<Longrightarrow> booked P R (snd (track r s))"
  by (auto simp: booked_def track_def prog_simps)

text \<open>The new connection of a part has written nothing yet.\<close>

lemma balanced_step:
  "booked P R s \<Longrightarrow> booked P R (s\<lparr>rn_events := rn_events s @ [Drew u]\<rparr>)"
  "booked P R s \<Longrightarrow> booked P R (s\<lparr>rn_events := rn_events s @ [Connected n t a r]\<rparr>)"
  "booked P R s \<Longrightarrow> booked P R (s\<lparr>rn_events := rn_events s @ [Selected c q x]\<rparr>)"
  "booked P R s \<Longrightarrow> booked P R (s\<lparr>rn_events := rn_events s @ [Block_entered c b]\<rparr>)"
  "booked P R s \<Longrightarrow> booked P R (s\<lparr>rn_events := rn_events s @ [Clock d]\<rparr>)"
  by (simp_all add: booked_def)

lemma balanced_wrote:
  "booked P R s \<Longrightarrow> \<not> cn_autocommit c \<Longrightarrow> row_of st = Some r \<Longrightarrow> (c, r) \<in> P \<Longrightarrow>
   booked P R (s\<lparr>rn_events := rn_events s @ [Wrote c st (Inr u)]\<rparr>)"
  "booked P R s \<Longrightarrow> booked P R (s\<lparr>rn_events := rn_events s @ [Wrote c st (Inl f)]\<rparr>)"
  by (auto simp: booked_def)

lemma balanced_committed:
  "booked P R s \<Longrightarrow> (\<And>r. (c, r) \<in> P \<Longrightarrow> r \<in> R') \<Longrightarrow> R \<subseteq> R' \<Longrightarrow>
   booked P R' (s\<lparr>rn_events := rn_events s @ [Committed c (Inr u)]\<rparr>)"
  "booked P R s \<Longrightarrow> booked P R (s\<lparr>rn_events := rn_events s @ [Committed c (Inl f)]\<rparr>)"
  "booked P R s \<Longrightarrow> (\<And>r. (c, r) \<in> P \<Longrightarrow> r \<in> R') \<Longrightarrow> R \<subseteq> R' \<Longrightarrow>
   booked P R' (s\<lparr>rn_events := rn_events s @ [Block_left c (Inr u)]\<rparr>)"
  "booked P R s \<Longrightarrow> booked P R (s\<lparr>rn_events := rn_events s @ [Block_left c (Inl f)]\<rparr>)"
  by (fastforce simp: booked_def)+

lemma balanced_closed:
  "booked P R s \<Longrightarrow> (\<And>c' r. (c', r) \<in> P \<Longrightarrow> c' \<noteq> c \<Longrightarrow> (c', r) \<in> P') \<Longrightarrow>
   booked P' R (s\<lparr>rn_events := rn_events s @ [Closed c]\<rparr>)"
  "booked P R s \<Longrightarrow> (\<And>c' r. (c', r) \<in> P \<Longrightarrow> c' \<noteq> c \<Longrightarrow> (c', r) \<in> P') \<Longrightarrow>
   booked P' R (s\<lparr>rn_events := rn_events s @ [Block_rolled_back c]\<rparr>)"
  by (fastforce simp: booked_def)+

end
