(* ===== verification/Re_Accounts.thy ===== *)
theory Re_Accounts
  imports Re_Ledger
begin

text \<open>
  Every part of a run settles its accounts: the rows it has got acknowledged are tracked when it returns.
\<close>

abbreviation anything :: "'s \<Rightarrow> bool" where
  "anything s \<equiv> True"

abbreviation balanced :: "lab_run \<Rightarrow> bool" where
  "balanced \<equiv> booked {} {}"

lemma yields_guard: "yields P m anything Q \<Longrightarrow> yields (\<lambda>s. b \<longrightarrow> P s) m anything (\<lambda>x s. b \<longrightarrow> Q x s)"
  by (cases b) (auto simp: yields_def split: prod.split sum.split)

lemma yields_some: "yields P m E Q \<Longrightarrow> yields P m anything Q"
  by (erule yields_weaken) simp_all

lemma plain_yields: "logs plain m \<Longrightarrow> yields (booked {} R) m (booked {} R) (\<lambda>_. booked {} R)"
  by (intro yields_keeps plain_balanced)

lemma insert_event_row [simp]:
  "row_of (insert_event seed event_id kind txt metadata) = Some (tracked_event event_id (sd_org_id seed) txt)"
  by (simp add: row_of_def insert_event_def tracked_event_def)

section \<open>Writing\<close>

lemma statement_balanced:
  "row_of st = Some r \<Longrightarrow> \<not> cn_autocommit c \<Longrightarrow> (c, r) \<in> P \<Longrightarrow>
   yields (booked P R) (run_statement lab c st) (booked P R) (\<lambda>_. booked P R)"
  unfolding run_statement_def by (rule yields_effect) (auto intro: balanced_wrote)

lemma write_event_balanced:
  assumes "row_of st = Some r"
  shows "yields (booked {} R) (write_event lab n timeout st) (booked {} R) (\<lambda>_. booked {} (insert r R))"
  unfolding write_event_def
proof (rule yields_connection)
  fix c :: connection assume c: "cn_autocommit c = False"
  have "yields (booked {} R) (andThen (run_statement lab c st) (\<lambda>_. commit lab c)) (booked {(c, r)} R)
      (\<lambda>_. booked {(c, r)} (insert r R))"
  proof (rule yields_andThen)
    show "yields (booked {} R) (run_statement lab c st) (booked {(c, r)} R) (\<lambda>_. booked {(c, r)} R)"
      by (rule yields_weaken [OF statement_balanced [OF assms, where P = "{(c, r)}"]]) (auto simp: c elim: balanced_mono)
    show "yields (booked {(c, r)} R) (commit lab c) (booked {(c, r)} R) (\<lambda>_. booked {(c, r)} (insert r R))"
      unfolding commit_def by (rule yields_effect) (auto intro: balanced_committed)
  qed
  then show "yields (booked {} R) (closing c (andThen (run_statement lab c st) (\<lambda>_. commit lab c))) (booked {} R)
      (\<lambda>_. booked {} (insert r R))"
    by (rule yields_closing) (auto intro: balanced_closed)
qed (auto intro: balanced_step)

text \<open>The rows that the details of a probe report.\<close>

definition reported :: "seed_context \<Rightarrow> (string \<times> pyval) list \<Rightarrow> string \<Rightarrow> tracked_row set" where
  "reported seed details key = {tracked_event event_id (sd_org_id seed) txt |event_id txt.
     detail details ''event_id'' = Inr event_id \<and> detail details key = Inr txt}"

definition reported_action :: "seed_context \<Rightarrow> (string \<times> pyval) list \<Rightarrow> tracked_row set" where
  "reported_action seed details = {tracked_action action_id (sd_org_id seed) key |action_id key.
     detail details ''action_id'' = Inr action_id \<and> detail details ''action_idempotency_key'' = Inr key}"

lemma track_event_booked:
  "yields (booked {} (reported seed details key \<union> R)) (track_event seed details key) anything (\<lambda>_. booked {} R)"
  by (auto simp: yields_def track_event_def prog_simps reported_def track_balanced
      split: sum.split dest!: track_balanced)

lemma track_action_booked:
  "yields (booked {} (reported_action seed details \<union> R)) (track_action seed details) anything (\<lambda>_. booked {} R)"
  by (auto simp: yields_def track_action_def prog_simps reported_action_def split: sum.split dest!: track_balanced)

section \<open>Probes\<close>

lemma timed_read_logs: "logs plain (timed lab (read_event lab n conditions))"
  unfolding timed_def read_event_def by (intro part_logs logs_intros) simp_all

lemma write_read_balanced:
  assumes "\<And>u. row_of (st u) = Some (row u)"
    and "\<And>u x ms. reported seed (pb_details (f u x ms)) ''content'' = {row u}"
  shows "yields balanced (andThen (draw_uuid lab) (\<lambda>u. andThen (write_event lab n timeout (st u)) (\<lambda>_.
      andThen (timed lab (read_event lab n' (conditions u))) (\<lambda>(x, ms). ret (f u x ms))))) anything
    (\<lambda>p. booked {} (reported seed (pb_details p) ''content''))"
proof (rule yields_andThen [OF yields_some [OF plain_yields [OF plain_parts(2)]]], rule yields_andThen, rule yields_some)
  show "yields balanced (write_event lab n timeout (st u)) balanced (\<lambda>_. booked {} {row u})" for u
    using write_event_balanced [OF assms(1)] by simp
  show "yields (booked {} {row u}) (andThen (timed lab (read_event lab n' (conditions u))) (\<lambda>(x, ms). ret (f u x ms))) anything
      (\<lambda>p. booked {} (reported seed (pb_details p) ''content''))" for u
    by (rule yields_andThen [OF yields_some [OF plain_yields [OF timed_read_logs]]])
      (auto intro: yields_ret simp: assms(2) split: prod.split)
qed

lemma probes_balanced:
  "yields balanced (probe_freshness lab n n' seed) anything (\<lambda>p. booked {} (reported seed (pb_details p) ''content''))"
  "yields balanced (probe_cross_agent_visibility lab n n' seed) anything
     (\<lambda>p. booked {} (reported seed (pb_details p) ''content''))"
  unfolding probe_freshness_def probe_cross_agent_visibility_def Let_def
  by (rule write_read_balanced; simp add: reported_def detail_def)+

section \<open>Atomicity\<close>

text \<open>Either both rows of a path are acknowledged or, when it raises, none is.\<close>

lemma paired_writes_balanced:
  assumes "\<not> cn_autocommit c" and "(c, tracked_event e (sd_org_id seed) txt) \<in> P" "(c, tracked_action a (sd_org_id seed) key) \<in> P"
    and "{r. (c, r) \<in> P} \<subseteq> R'" "R \<subseteq> R'"
  shows "yields (booked P R) (paired_writes lab c seed e a txt outcome key) (booked P R) (\<lambda>_. booked P R')"
proof -
  have action: "row_of (Insert_action a (sd_org_id seed) i v o' e key) = Some (tracked_action a (sd_org_id seed) key)" for i v o'
    by (simp add: row_of_def tracked_action_def)
  have body: "yields (booked P R) (andThen (run_statement lab c (insert_event seed e ''action'' txt None)) (\<lambda>_.
      run_statement lab c (Insert_action a (sd_org_id seed) (sd_incident_id seed) (sd_service_id seed) outcome e key)))
      (booked P R) (\<lambda>_. booked P R)"
    by (intro yields_andThen [where Q = "\<lambda>_. booked P R"] statement_balanced [OF insert_event_row] statement_balanced [OF action]
        assms(1-3))
  have leave: "yields (\<lambda>s. case r of Inl _ \<Rightarrow> booked P R s | Inr _ \<Rightarrow> booked P R s)
      (case r of Inl e \<Rightarrow> andThen (happens (\<lambda>_. ()) (\<lambda>_. Block_rolled_back c)) (\<lambda>_. raise e)
       | Inr _ \<Rightarrow> effect (\<lambda>es. lb_leave lab es c) (Block_left c)) (booked P R) (\<lambda>_. booked P R')"
    for r :: "lab_error + unit"
  proof (cases r)
    case (Inl e)
    have "yields (booked P R) (andThen (happens (\<lambda>_. ()) (\<lambda>_. Block_rolled_back c)) (\<lambda>_. raise e)) (booked P R) (\<lambda>_. booked P R')"
      by (rule yields_andThen [where Q = "\<lambda>_. booked P R"]) (auto intro!: yields_happens yields_raise intro: balanced_closed)
    with Inl show ?thesis by simp
  next
    case (Inr u)
    have "yields (booked P R) (effect (\<lambda>es. lb_leave lab es c) (Block_left c)) (booked P R) (\<lambda>_. booked P R')"
      using assms(4,5) by (intro yields_effect) (auto intro!: balanced_committed(3) intro: balanced_committed(4))
    with Inr show ?thesis by simp
  qed
  show ?thesis unfolding paired_writes_def transaction_def
    by (rule yields_andThen, rule yields_effect, erule balanced_step, erule balanced_step,
        rule yields_andThen [OF yields_tried [OF body]], rule leave)
qed

lemma both_present_balanced:
  "yields (booked P R) (both_present lab c seed e a) anything (\<lambda>_. booked P R)"
proof (rule yields_some, rule yields_keeps, rule logs_keeps)
  show "logs (\<lambda>e. \<exists>c q x. e = Selected c q x) (both_present lab c seed e a)"
    unfolding both_present_def row_exists_def fetch_one_def by (intro logs_intros logs_effect) auto
  show "survives (booked P R) (\<lambda>e. \<exists>c q x. e = Selected c q x)"
    by (rule survivesI) (auto intro: balanced_step)
qed

text \<open>When the second path raises, only the rows of the first are acknowledged.\<close>

lemma two_paths_balanced:
  defines "rows \<equiv> \<lambda>seed ce ca ck. {tracked_event ce (sd_org_id seed) commit_content, tracked_action ca (sd_org_id seed) ck}"
  shows "yields balanced (with_connection lab n default_connect_timeout False (\<lambda>c.
       andThen (paired_writes lab c seed ce ca commit_content ''success'' ck) (\<lambda>_.
       andThen (both_present lab c seed ce ca) (\<lambda>(commit_event, commit_action).
       andThen (tried (paired_writes lab c seed ae aa txt bad ak)) (\<lambda>r.
       andThen (both_present lab c seed ae aa) (\<lambda>(abort_event, abort_action).
       ret (commit_event, commit_action, case r of Inl _ \<Rightarrow> True | Inr _ \<Rightarrow> False, abort_event, abort_action)))))))
     anything (\<lambda>(_, _, abort_raised, _, _) s. abort_raised \<longrightarrow> booked {} (rows seed ce ca ck) s)"
proof (rule yields_connection)
  fix c :: connection assume c: "cn_autocommit c = False"
  let ?R = "rows seed ce ca ck" and ?bad = "{tracked_event ae (sd_org_id seed) txt, tracked_action aa (sd_org_id seed) ak}"
  let ?P = "{c} \<times> ?R" and ?P' = "{c} \<times> (?R \<union> ?bad)"
  have good: "yields balanced (paired_writes lab c seed ce ca commit_content ''success'' ck) anything (\<lambda>_. booked ?P' ?R)"
    by (rule yields_weaken [OF paired_writes_balanced [where P = ?P and R = "{}" and R' = ?R]])
      (auto simp: c rows_def elim: balanced_mono)
  have bad: "yields (booked ?P' ?R) (tried (paired_writes lab c seed ae aa txt bad ak)) anything
      (\<lambda>r s. (case r of Inl _ \<Rightarrow> True | Inr _ \<Rightarrow> False) \<longrightarrow> booked ?P' ?R s)"
    by (rule yields_weaken [OF yields_tried [OF paired_writes_balanced [where P = ?P' and R = ?R and R' = "?R \<union> ?bad"]]])
      (auto simp: c split: sum.splits)
  show "yields balanced (closing c (andThen (paired_writes lab c seed ce ca commit_content ''success'' ck) (\<lambda>_.
       andThen (both_present lab c seed ce ca) (\<lambda>(commit_event, commit_action).
       andThen (tried (paired_writes lab c seed ae aa txt bad ak)) (\<lambda>r.
       andThen (both_present lab c seed ae aa) (\<lambda>(abort_event, abort_action).
       ret (commit_event, commit_action, case r of Inl _ \<Rightarrow> True | Inr _ \<Rightarrow> False, abort_event, abort_action)))))))
     anything (\<lambda>(_, _, abort_raised, _, _) s. abort_raised \<longrightarrow> booked {} ?R s)"
    by (rule yields_closing [where Q = "\<lambda>(_, _, abort_raised, _, _) s. abort_raised \<longrightarrow> booked ?P' ?R s" and E = anything],
        rule yields_andThen [OF good], rule yields_andThen [OF both_present_balanced], unfold case_prod_beta,
        rule yields_andThen [OF bad], rule yields_andThen [OF yields_guard [OF both_present_balanced]])
      (auto intro!: yields_ret intro: balanced_closed split: sum.splits)
qed (auto intro: balanced_step)

lemma probe_atomicity_balanced:
  "yields balanced (probe_atomicity lab n seed) anything (\<lambda>p s. passes p \<longrightarrow>
     booked {} (reported seed (sub_dict (pb_details p) ''commit_path'') ''event_content'' \<union>
       reported_action seed (sub_dict (pb_details p) ''commit_path'')) s)"
  unfolding probe_atomicity_def Let_def
  by (rule yields_andThen [OF yields_some [OF plain_yields [OF plain_parts(2)]]])+
    (rule yields_andThen [OF two_paths_balanced],
     auto intro!: yields_ret simp: passes_def status_of_def sub_dict_def reported_def reported_action_def detail_def
       insert_is_Un [symmetric] elim!: balanced_mono split: prod.split)

section \<open>The parts of a run\<close>

lemma track_event_balanced:
  "yields (booked {} (reported seed details key)) (track_event seed details key) anything (\<lambda>_. balanced)"
  using track_event_booked [where R = "{}"] by simp

lemma track_action_balanced:
  "yields (booked {} (reported_action seed details)) (track_action seed details) anything (\<lambda>_. balanced)"
  using track_action_booked [where R = "{}"] by simp

lemma baseline_balanced:
  "yields balanced (baseline_run lab cfg seed) anything (\<lambda>b s. passes (bl_atomicity b) \<longrightarrow> balanced s)"
  unfolding baseline_run_def Let_def
  by (rule yields_andThen [OF yields_some [OF plain_yields [OF node_status_plain]]]
        yields_andThen [OF yields_some [OF plain_yields [OF range_snapshot_logs]]]
        yields_andThen [OF probes_balanced(1)] yields_andThen [OF probes_balanced(2)] yields_andThen [OF track_event_balanced]
        yields_andThen [OF yields_some [OF yields_keeps [OF keeps_lift]]]
        yields_andThen [OF probe_atomicity_balanced] yields_andThen [OF yields_guard [OF track_event_booked]])+
    (rule yields_andThen [OF yields_guard [OF track_action_balanced]], simp add: yields_ret)

lemma before_kill_balanced:
  "yields balanced (before_kill fuel lab cfg) anything (\<lambda>(_, _, _, b) s. passes (bl_atomicity b) \<longrightarrow> balanced s)"
  unfolding before_kill_def
  by (rule yields_andThen [OF yields_some [OF plain_yields [OF seed_logs]]],
      rule yields_andThen [OF yields_some [OF yields_keeps [OF pinning_balanced [OF pin_logs]]]], unfold case_prod_beta,
      rule yields_andThen [OF baseline_balanced], rule yields_ret) simp

lemma attempt_write_balanced:
  "yields balanced (attempt_write lab n seed) balanced
     (\<lambda>(event_id, txt). booked {} {tracked_event event_id (sd_org_id seed) txt})"
  unfolding attempt_write_def Let_def
  by (rule yields_andThen [OF plain_yields [OF plain_parts(2)]], rule yields_andThen [OF write_event_balanced [OF insert_event_row]],
      rule yields_ret) simp

lemma now_balanced: "yields (booked {} R) (now lab) anything (\<lambda>_. booked {} R)"
  by (rule yields_some [OF plain_yields [OF plain_parts(1)]])

lemma track_row_balanced: "yields (booked {} {r}) (track r) anything (\<lambda>_. balanced)"
  using track_balanced [of "{}" r "{}"] by (auto simp: yields_def track_def prog_simps)

lemma write_loop_balanced:
  "yields balanced (write_loop fuel lab k d seed nodes i attempts) anything (\<lambda>_. balanced)"
proof (induction fuel arbitrary: i attempts)
  case (Suc fuel)
  have attempt: "yields (\<lambda>s. case r of Inl _ \<Rightarrow> balanced s | Inr (e, txt) \<Rightarrow> booked {} {tracked_event e (sd_org_id seed) txt} s)
      (andThen (now lab) (\<lambda>u. case r of
         Inl e \<Rightarrow> write_loop fuel lab k d seed nodes (Suc i) (f e u)
       | Inr (event_id, txt) \<Rightarrow> andThen (now lab) (\<lambda>success.
           andThen (track (tracked_event event_id (sd_org_id seed) txt)) (\<lambda>_. ret (g u, Some (success, event_id, n))))))
      anything (\<lambda>_. balanced)" for r n f g
    by (cases r)
      (auto intro!: yields_andThen [OF now_balanced] Suc.IH yields_andThen [OF track_row_balanced] yields_ret split: prod.split)
  have "yields (\<lambda>s. case r of Inl _ \<Rightarrow> balanced s | Inr x \<Rightarrow> (case x of (e, txt) \<Rightarrow> booked {} {tracked_event e (sd_org_id seed) txt}) s)
      m anything Q \<longleftrightarrow> yields (\<lambda>s. case r of Inl _ \<Rightarrow> balanced s | Inr (e, txt) \<Rightarrow> booked {} {tracked_event e (sd_org_id seed) txt} s)
      m anything Q" for r :: "lab_error + string \<times> string" and m :: "'c lab_prog" and Q
    by (cases r) (auto simp: case_prod_beta)
  note [simp] = this
  show ?case unfolding write_loop.simps Let_def
    by (rule yields_andThen [OF now_balanced])
      (auto intro!: yields_andThen [OF now_balanced] yields_andThen [OF yields_tried [OF attempt_write_balanced]] attempt yields_ret)
qed (simp add: yields_raise)

lemma outage_write_balanced: "yields balanced (outage_write lab cfg seed) anything (\<lambda>_. balanced)"
  unfolding outage_write_def
proof (rule yields_connection)
  fix c :: connection assume c: "cn_autocommit c = False"
  have written: "yields balanced (run_statement lab c (insert_event seed u ''observation'' outage_content None)) anything
      (\<lambda>_. booked {(c, tracked_event u (sd_org_id seed) outage_content)} {})" for u
    by (rule yields_weaken [OF statement_balanced [OF insert_event_row, where P = "{(c, tracked_event u (sd_org_id seed) outage_content)}"]])
      (auto simp: c elim: balanced_mono)
  have com: "yields (booked {(c, r)} {}) (commit lab c) anything (\<lambda>_. booked {(c, r)} {r})" for r
    unfolding commit_def by (rule yields_effect) (auto intro: balanced_committed)
  have track: "yields (booked {(c, r)} {r}) (track r) anything (\<lambda>_. booked {(c, r)} {})" for r
    using track_balanced [of "{(c, r)}" r "{}"] by (auto simp: yields_def track_def prog_simps)
  show "yields balanced (closing c (andThen (draw_uuid lab) (\<lambda>event_id.
       andThen (run_statement lab c (insert_event seed event_id ''observation'' outage_content None)) (\<lambda>_.
       andThen (commit lab c) (\<lambda>_.
       andThen (track (tracked_event event_id (sd_org_id seed) outage_content)) (\<lambda>_. ret event_id)))))) anything (\<lambda>_. balanced)"
    by (rule yields_closing [where E = anything and Q = "\<lambda>u. booked {(c, tracked_event u (sd_org_id seed) outage_content)} {}"],
        rule yields_andThen [OF yields_some [OF plain_yields [OF plain_parts(2)]]], rule yields_andThen [OF written],
        rule yields_andThen [OF com], rule yields_andThen [OF track], rule yields_ret)
      (auto intro: balanced_closed)
qed (auto intro: balanced_step)

lemma outage_writes_balanced: "yields balanced (outage_writes n lab cfg seed) anything (\<lambda>_. balanced)"
  by (induction n) (auto intro!: yields_ret yields_andThen [OF outage_write_balanced] intro: yields_andThen)

lemma outage_balanced: "yields balanced (outage_run fuel lab cfg seed leaseholder t) anything (\<lambda>_. balanced)"
  unfolding outage_run_def probe_rto_def Let_def
  by (rule yields_andThen, rule yields_andThen [OF write_loop_balanced], rule yields_ret, assumption,
      rule yields_andThen [OF outage_writes_balanced], rule yields_andThen [OF yields_some [OF plain_yields [OF waits_log(1)]]],
      unfold case_prod_beta, rule yields_andThen [OF yields_some [OF plain_yields [OF range_snapshot_logs]]],
      rule yields_andThen [OF yields_some [OF plain_yields [OF probe_rpo_logs]]], rule yields_ret) simp

end
