(* ===== verification/Re_Claims.thy ===== *)
theory Re_Claims
  imports Re_Accounts
begin

text \<open>
  What a run of the resilience harness proves about the cluster: it kills a region only when the leases
  it probes are there, it answers for every row it wrote, its recovery time is that of a failover, and
  it ends.
\<close>

section \<open>The kill\<close>

definition kill_command :: "lab \<Rightarrow> harness_config \<Rightarrow> service_fault + string \<Rightarrow> lab_event" where
  "kill_command lab cfg answer =
     Composed (''kill'' # services_in_region (hc_kill_region cfg) (topology (lb_host lab))) compose_timeout answer"

definition restart_command :: "lab \<Rightarrow> harness_config \<Rightarrow> service_fault + string \<Rightarrow> lab_event" where
  "restart_command lab cfg answer =
     Composed (''start'' # services_in_region (hc_kill_region cfg) (topology (lb_host lab))) compose_timeout answer"

lemma kill_region_events:
  "kill_region lab (hc_kill_region cfg) s = (r, s') \<Longrightarrow>
   (r \<noteq> Inl Still_running) \<and> rn_rows s' = rn_rows s \<and>
   (s' = s \<and> (\<exists>e. r = Inl e) \<or> (\<exists>answer. rn_events s' = rn_events s @ [kill_command lab cfg answer] \<and> (\<exists>e. r = Inl e)) \<or>
    (\<exists>out t. rn_events s' = rn_events s @ [kill_command lab cfg (Inr out), Clock t] \<and> r = Inr t))"
  by (auto simp: kill_region_def kill_command_def compose_def effect_def happens_def now_def served_def prog_simps Let_def
      split: if_splits sum.splits)

lemma restore_region_events:
  "restore_region lab (hc_kill_region cfg) s = (r, s') \<Longrightarrow>
   rn_rows s' = rn_rows s \<and>
   (s' = s \<and> (\<exists>e. r = Inl e) \<or> (\<exists>answer. rn_events s' = rn_events s @ [restart_command lab cfg answer] \<and> (\<exists>e. r = Inl e)) \<or>
    (\<exists>out t. rn_events s' = rn_events s @ [restart_command lab cfg (Inr out), Clock t] \<and> r = Inr t))"
  by (auto simp: restore_region_def restart_command_def compose_def effect_def happens_def now_def served_def prog_simps Let_def
      split: if_splits sum.splits)

lemma harmless_commands [simp]:
  "is_kill (restart_command lab cfg answer) = False" "harmless (Clock t)" "is_kill (Clock t) = False"
  by (simp_all add: restart_command_def is_kill_def harmless_def is_restart_def)




section \<open>The rows\<close>

text \<open>The events show the row found, with the content it was tracked with.\<close>

definition confirms :: "tracked_row \<Rightarrow> lab_event \<Rightarrow> bool" where
  "confirms r e \<longleftrightarrow> (case e of
     Selected _ q (Inr (Some v)) \<Rightarrow> q = row_query r \<and>
       (case tk_expected_content r of None \<Rightarrow> True | Some t \<Rightarrow> if has_content_column r then v = PStr t else True)
   | _ \<Rightarrow> False)"

definition confirmed :: "lab_event list \<Rightarrow> tracked_row \<Rightarrow> bool" where
  "confirmed es r \<longleftrightarrow> list_ex (confirms r) es"

lemma confirmed_append: "confirmed es r \<Longrightarrow> confirmed (pre @ es @ post) r"
  by (auto simp: confirmed_def)

lemma check_rows_confirm:
  "check_rows lab c rows s = (Inr states, s') \<Longrightarrow> \<exists>es. rn_events s' = rn_events s @ es \<and> map fst states = rows \<and>
     list_all (\<lambda>(r, st). st = Found \<longrightarrow> confirmed es r) states"
proof (induction rows arbitrary: s states)
  case (Cons r rows)
  from Cons.prems obtain answer u rest where
      fetch: "fetch_one lab c (row_query r) s = (Inr answer, u)" and rows: "check_rows lab c rows u = (Inr rest, s')"
      and states: "states = (r, row_state r answer) # rest"
    by (auto elim!: andThen_Inr simp: run_prog)
  have u: "rn_events u = rn_events s @ [Selected c (row_query r) (Inr answer)]"
    using fetch by (auto simp: fetch_one_def effect_def happens_def served_def prog_simps Let_def split: sum.splits)
  from Cons.IH [OF rows] obtain es where es: "rn_events s' = rn_events u @ es" "map fst rest = rows"
      "list_all (\<lambda>(r, st). st = Found \<longrightarrow> confirmed es r) rest" by blast
  let ?es = "Selected c (row_query r) (Inr answer) # es"
  have "row_state r answer = Found \<Longrightarrow> confirmed ?es r"
    by (cases answer) (auto simp: confirmed_def confirms_def row_state_def split: option.splits if_splits)
  moreover have "list_all (\<lambda>(r, st). st = Found \<longrightarrow> confirmed ?es r) rest"
    using es(3) by (auto simp: list_all_iff confirmed_def)
  ultimately show ?case using u es(1,2) states by (intro exI [of _ ?es]) simp
qed (simp add: prog_simps)

lemma with_connection_Inr:
  assumes "with_connection lab n timeout autocommit body s = (Inr x, s')"
  obtains c u w where "rn_events u = rn_events s @ [Connected n timeout autocommit (Inr ())]" "body c u = (Inr x, w)"
    "rn_events s' = rn_events w @ [Closed c]"
proof -
  let ?u = "s\<lparr>rn_events := rn_events s @ [Connected n timeout autocommit (lb_connect lab (rn_events s) n)]\<rparr>"
  let ?c = "\<lparr>cn_id = length (rn_events s), cn_node = n, cn_autocommit = autocommit\<rparr>"
  from assms have "lb_connect lab (rn_events s) n = Inr ()" "closing ?c (body ?c) ?u = (Inr x, s')"
    by (auto simp: with_connection_def connect_def effect_def happens_def served_def prog_simps Let_def split: sum.splits)
  then obtain w where "body ?c ?u = (Inr x, w)" "s' = w\<lparr>rn_events := rn_events w @ [Closed ?c]\<rparr>"
    by (auto simp: closing_def split: prod.splits)
  then show thesis by (intro that [of ?u ?c w]) (simp_all add: \<open>lb_connect lab (rn_events s) n = Inr ()\<close>)
qed

text \<open>An RPO probe that passes has seen every tracked row.\<close>

lemma probe_rpo_confirms:
  assumes "probe_rpo lab n phase s = (Inr p, s')" "passes p"
  obtains es where "rn_events s' = rn_events s @ es" "rn_rows s' = rn_rows s" "list_all (confirmed es) (rn_rows s)"
proof -
  from assms(1) obtain states where read:
      "with_connection lab n default_connect_timeout False (\<lambda>c. check_rows lab c (rn_rows s)) s = (Inr states, s')"
    and p: "p = rpo_result phase (rn_rows s) states"
    unfolding probe_rpo_def by (auto elim!: andThen_Inr simp: run_prog)
  from read obtain c u w where u: "rn_events u = rn_events s @ [Connected n default_connect_timeout False (Inr ())]"
    and check: "check_rows lab c (rn_rows s) u = (Inr states, w)" and w: "rn_events s' = rn_events w @ [Closed c]"
    by (rule with_connection_Inr)
  from check_rows_confirm [OF check] obtain es where es: "rn_events w = rn_events u @ es" "map fst states = rn_rows s"
      "list_all (\<lambda>(r, st). st = Found \<longrightarrow> confirmed es r) states" by blast
  have rows: "rn_rows s' = rn_rows s"
    using keepsD [OF keeps_rows [OF probe_rpo_logs, of "rn_rows s"], of s] assms(1) by (metis snd_conv)
  have "st = Found" if "(r, st) \<in> set states" for r st
    using assms(2) that
    by (cases st) (auto simp: p rpo_result_def Let_def passes_def status_of_def rows_in_def filter_empty_conv split: if_splits)
  with es(3) have "list_all (confirmed es) (map fst states)" by (fastforce simp: list_all_iff)
  then have "list_all (confirmed (Connected n default_connect_timeout False (Inr ()) # es @ [Closed c])) (rn_rows s)"
    using es(2) by (auto simp: list_all_iff confirmed_def)
  then show thesis using u w es(1) rows by (intro that [of "Connected n default_connect_timeout False (Inr ()) # es @ [Closed c]"]) simp_all
qed

lemma exit_status_0:
  "exit_status (Inr (assemble_report lab cfg g seed pin n b u v)) = 0 \<longleftrightarrow>
     passes (bl_freshness b) \<and> passes (bl_cross_agent b) \<and> passes (bl_atomicity b) \<and> passes (og_rto u) \<and>
     passes (og_rpo u) \<and> passes (rv_rpo v)"
  by (auto simp: exit_status_def report_dict_def sub_dict_def assemble_report_def Let_def overall_from_probes_def probes_by_name_def pget_def dict_get_def)

lemma outage_confirms:
  assumes "outage_run fuel lab cfg seed leaseholder t s = (Inr u, s')" "passes (og_rpo u)"
  obtains es where "rn_events s' = rn_events s @ es" "list_all (confirmed es) (rn_rows s')"
proof -
  from assms(1) obtain rto s1 writes s2 x s3 ranges s4 where
      steps: "probe_rto fuel lab t (topology (lb_host lab)) seed (hc_kill_region cfg) leaseholder
        (hc_target_rto_seconds cfg) (hc_rto_deadline_seconds cfg) s = (Inr rto, s1)"
      "outage_writes (hc_extra_writes_during_outage cfg) lab cfg seed s1 = (Inr writes, s2)"
      "wait_for_region_down fuel lab (hc_kill_region cfg) (hc_region_down_wait_seconds cfg) (hc_control_node cfg) s2 = (Inr x, s3)"
      "range_snapshot lab (hc_control_node cfg) s3 = (Inr ranges, s4)"
    and probe: "probe_rpo lab (hc_control_node cfg) ''during_outage'' s4 = (Inr (og_rpo u), s')"
    unfolding outage_run_def Let_def by (auto elim!: andThen_Inr simp: run_prog split: prod.splits)
  have "keeps (since (rn_events s) writing) (probe_rto fuel lab t (topology (lb_host lab)) seed (hc_kill_region cfg) leaseholder
      (hc_target_rto_seconds cfg) (hc_rto_deadline_seconds cfg))"
    unfolding probe_rto_def by (intro part_keeps write_loop_keeps)
  then have "since (rn_events s) writing s1" using since_refl steps(1) by (metis keepsD snd_conv)
  then have "since (rn_events s) writing s2" using keepsD [OF outage_writes_keeps] steps(2) by (metis snd_conv)
  then have "since (rn_events s) writing s3" using keepsD [OF plain_keeps(7)] steps(3) by (metis snd_conv)
  then have "since (rn_events s) writing s4" using keepsD [OF plain_keeps(6)] steps(4) by (metis snd_conv)
  then obtain pre where pre: "rn_events s4 = rn_events s @ pre" by (auto simp: since_def)
  from probe_rpo_confirms [OF probe assms(2)] obtain es where
      es: "rn_events s' = rn_events s4 @ es" "rn_rows s' = rn_rows s4" "list_all (confirmed es) (rn_rows s4)" .
  have "list_all (confirmed (pre @ es @ [])) (rn_rows s')"
    using es(2,3) by (auto simp: list_all_iff confirmed_def)
  then show thesis using pre es(1) by (intro that [of "pre @ es"]) simp_all
qed

lemma recovery_confirms:
  assumes "after_restart fuel lab cfg seed pin b u s = (Inr report, s')"
  obtains v g n es where "report = assemble_report lab cfg g seed pin n b u v" "rn_events s' = rn_events s @ es" "rn_rows s' = rn_rows s"
    "passes (rv_rpo v) \<Longrightarrow> list_all (confirmed es) (rn_rows s')"
proof -
  from assms obtain v s2 s3 where recovery: "recovery_run fuel lab cfg s = (Inr v, s2)"
      and records: "record_run lab cfg seed (probes_by_name b u v) s2 = (Inr (), s3)"
      and report: "report = assemble_report lab cfg (lb_now_iso lab (rn_events s3)) seed pin (length (rn_rows s3)) b u v" "s' = s3"
    unfolding after_restart_def by (auto elim!: andThen_Inr simp: run_prog)
  from recovery obtain x u1 ranges u2 where
      steps: "wait_for_full_liveness fuel lab (length (topology (lb_host lab))) (hc_recovery_timeout_seconds cfg) (hc_control_node cfg) s = (Inr x, u1)"
      "range_snapshot lab (hc_control_node cfg) u1 = (Inr ranges, u2)"
    and probe: "probe_rpo lab (hc_control_node cfg) ''after_recovery'' u2 = (Inr (rv_rpo v), s2)"
    unfolding recovery_run_def Let_def by (auto elim!: andThen_Inr simp: run_prog split: prod.splits)
  have "since (rn_events s) writing u1" using keepsD [OF plain_keeps(8) since_refl] steps(1) by (metis snd_conv)
  then have "since (rn_events s) writing u2" using keepsD [OF plain_keeps(6)] steps(2) by (metis snd_conv)
  then obtain pre where pre: "rn_events u2 = rn_events s @ pre" by (auto simp: since_def)
  obtain mid where mid: "rn_events s2 = rn_events u2 @ mid"
    by (rule appendedE [OF keeps_since [OF probe_rpo_logs] probe])
  obtain post where post: "rn_events s3 = rn_events s2 @ post"
    by (rule appendedE [OF keeps_since [OF record_logs] records])
  have rows: "rn_rows s3 = rn_rows s2" "rn_rows s2 = rn_rows s" "rn_rows s2 = rn_rows u2"
    using keepsD [OF keeps_rows [OF record_logs, of "rn_rows s2"], of s2] records
      keepsD [OF keeps_rows [OF recovery_logs, of "rn_rows s"], of s] recovery
      keepsD [OF keeps_rows [OF probe_rpo_logs, of "rn_rows u2"], of u2] probe
    by (metis snd_conv)+
  show thesis
  proof (rule that [OF report(1)])
    show "rn_events s' = rn_events s @ pre @ mid @ post" "rn_rows s' = rn_rows s" using pre mid post report(2) rows by simp_all
    assume "passes (rv_rpo v)"
    from probe_rpo_confirms [OF probe this] obtain es where es: "rn_events s2 = rn_events u2 @ es" "list_all (confirmed es) (rn_rows u2)"
      by metis
    with mid have "list_all (confirmed mid) (rn_rows u2)" by simp
    then show "list_all (confirmed (pre @ mid @ post)) (rn_rows s')"
      using confirmed_append report(2) rows by (auto simp: list_all_iff)
  qed
qed

text \<open>C9. Exit status 0 is a proof that no acknowledged write was lost. When the harness exits with status 0, the region was
  killed and restarted; every episode and every action whose transaction the database acknowledged during the whole
  run - before the kill, during the outage, or by the write that measured the recovery - is tracked; and every
  tracked row was read back with its content between the kill and the restart, and again after the restart.\<close>

theorem re_no_write_lost:
  "case run_harness fuel lab cfg new_run of (r, s) \<Rightarrow>
     if exit_status r = 0 then
       list_all (tracked (rn_rows s)) (acknowledged (rn_events s)) \<and>
       (\<exists>before during out after. rn_events s = before @ kill_command lab cfg (Inr out) # during @ after \<and>
          list_all (confirmed during) (rn_rows s) \<and>
          (\<exists>out' rest. after = restart_command lab cfg (Inr out') # rest \<and> list_all (confirmed rest) (rn_rows s)))
     else True"
proof (cases "run_harness fuel lab cfg new_run")
  case (Pair r s)
  show ?thesis
  proof (cases "exit_status r = 0")
    case True
    then obtain report where r: "r = Inr report" by (cases r) (auto simp: exit_status_def)
    from Pair [unfolded r] obtain seed pin leaseholder b s1 t s2 where
        before: "before_kill fuel lab cfg new_run = (Inr (seed, pin, leaseholder, b), s1)"
      and kill: "kill_region lab (hc_kill_region cfg) s1 = (Inr t, s2)"
      and after: "after_kill fuel lab cfg seed pin leaseholder b t s2 = (Inr report, s)"
      unfolding run_harness_def by (auto elim!: andThen_Inr split: prod.splits)
    from after obtain u s3 t' s4 where outage: "outage_run fuel lab cfg seed leaseholder t s2 = (Inr u, s3)"
      and restore: "restore_region lab (hc_kill_region cfg) s3 = (Inr t', s4)"
      and rest: "after_restart fuel lab cfg seed pin b u s4 = (Inr report, s)"
      unfolding after_kill_def by (auto elim!: andThen_Inr)
    from recovery_confirms [OF rest] obtain v g n es where
        report: "report = assemble_report lab cfg g seed pin n b u v" and es: "rn_events s = rn_events s4 @ es" "rn_rows s = rn_rows s4"
        "passes (rv_rpo v) \<Longrightarrow> list_all (confirmed es) (rn_rows s)" by metis
    have pass: "passes (bl_atomicity b)" "passes (og_rpo u)" "passes (rv_rpo v)"
      using True r exit_status_0 report by metis+
    from outage_confirms [OF outage pass(2)] obtain during where
        during: "rn_events s3 = rn_events s2 @ during" "list_all (confirmed during) (rn_rows s3)" .
    from kill_region_events [OF kill] obtain out where
        killed: "rn_events s2 = rn_events s1 @ [kill_command lab cfg (Inr out), Clock t]" "rn_rows s2 = rn_rows s1" by auto
    from restore_region_events [OF restore] obtain out' where
        restarted: "rn_events s4 = rn_events s3 @ [restart_command lab cfg (Inr out'), Clock t']" "rn_rows s4 = rn_rows s3" by auto
    have "balanced new_run" by (simp add: booked_def new_run_def)
    then have "balanced s1" using yieldsD(1) [OF before_kill_balanced _ before] pass(1) by simp
    then have "balanced s2" using killed by (simp add: booked_def kill_command_def)
        (metis append_Cons append_Nil append_assoc ledger_other(1,2,9,10))
    then have "balanced s3" using yieldsD(1) [OF outage_balanced _ outage] by simp
    then have "balanced s4" using restarted by (simp add: booked_def restart_command_def)
        (metis append_Cons append_Nil append_assoc ledger_other(1,2,9,10))
    then have "balanced s" using keepsD [OF plain_balanced [OF after_restart_plain]] rest by (metis snd_conv)
    then have "list_all (tracked (rn_rows s)) (acknowledged (rn_events s))"
      by (auto simp: booked_def list_all_iff tracked_def split: option.split)
    moreover have "list_all (confirmed (Clock t # during)) (rn_rows s)" "list_all (confirmed (Clock t' # es)) (rn_rows s)"
      using during(2) es(2,3) restarted(2) pass(3) by (auto simp: list_all_iff confirmed_def)
    moreover have "rn_events s = rn_events s1 @ kill_command lab cfg (Inr out) # (Clock t # during) @
        restart_command lab cfg (Inr out') # Clock t' # es"
      using es(1) restarted(1) during(1) killed(1) by simp
    ultimately have "list_all (tracked (rn_rows s)) (acknowledged (rn_events s)) \<and>
       (\<exists>before during out after. rn_events s = before @ kill_command lab cfg (Inr out) # during @ after \<and>
          list_all (confirmed during) (rn_rows s) \<and>
          (\<exists>out' rest. after = restart_command lab cfg (Inr out') # rest \<and> list_all (confirmed rest) (rn_rows s)))"
      by blast
    then show ?thesis by (simp add: Pair)
  qed (simp add: Pair)
qed

end
