(* ===== verification/Re_Recovery.thy ===== *)
theory Re_Recovery
  imports Re_Accounts
begin

text \<open>
  The recovery time of a run, and the end of its loops.
\<close>

section \<open>A write attempt\<close>

definition connected_node :: "lab_event \<Rightarrow> node option" where
  "connected_node e = (case e of Connected n _ _ _ \<Rightarrow> Some n | _ \<Rightarrow> None)"

text \<open>The nodes connected to, in order.\<close>

definition connected_nodes :: "lab_event list \<Rightarrow> node list" where
  "connected_nodes es = List.map_filter connected_node es"

lemma connected_nodes_append [simp]: "connected_nodes (es @ es') = connected_nodes es @ connected_nodes es'"
  by (simp add: connected_nodes_def List.map_filter_def)

lemma ledger_from: "foldl ledger_step (p, a) es = (fst (foldl ledger_step (p, []) es), a @ snd (foldl ledger_step (p, []) es))"
proof (induction es rule: rev_induct)
  case (snoc e es)
  obtain p' a' where "foldl ledger_step (p, []) es = (p', a')" by fastforce
  with snoc show ?case by (cases "(((p', a @ a'), e))" rule: ledger_step.cases) simp_all
qed simp

text \<open>Parts that leave nothing uncommitted are accounted for separately.\<close>

lemma ledger_append:
  "uncommitted es = [] \<Longrightarrow> acknowledged (es @ es') = acknowledged es @ acknowledged es'"
  "uncommitted es = [] \<Longrightarrow> uncommitted (es @ es') = uncommitted es'"
  by (simp_all add: uncommitted_def acknowledged_def ledger_def)
    (metis ledger_from prod.collapse snd_conv fst_conv)+

definition rto_statement :: "seed_context \<Rightarrow> string \<Rightarrow> statement" where
  "rto_statement seed u = insert_event seed u ''observation'' (''resilience-rto-probe-'' @ u) None"

lemma attempt_write_events:
  assumes "attempt_write lab n seed s = (r, s')"
  obtains es where "rn_events s' = rn_events s @ es" "rn_rows s' = rn_rows s" "connected_nodes es = [n]" "uncommitted es = []"
    "sum_list (map slept_by es) = 0" "sum_list (map connects_by es) = 1"
    "case r of Inl e \<Rightarrow> e \<noteq> Still_running \<and> acknowledged es = []
     | Inr (u, txt) \<Rightarrow> txt = ''resilience-rto-probe-'' @ u \<and> acknowledged es = [rto_statement seed u]"
proof -
  note run = attempt_write_def write_event_def with_connection_def connect_def run_statement_def commit_def draw_uuid_def
    effect_def happens_def served_def closing_def prog_simps Let_def
  note facts = connected_nodes_def connected_node_def List.map_filter_def slept_by_def connects_by_def uncommitted_def
    acknowledged_def ledger_def rto_statement_def
  define u where "u = lb_uuid lab (rn_events s)"
  define e1 where "e1 = rn_events s @ [Drew u]"
  define c where "c = \<lparr>cn_id = length e1, cn_node = n, cn_autocommit = False\<rparr>"
  define st where "st = rto_statement seed u"
  show thesis
  proof (cases "lb_connect lab e1 n")
    case (Inl f)
    then show thesis using assms
      by (intro that [of "[Drew u, Connected n retry_connect_timeout False (Inl f)]"]) (auto simp: run facts u_def e1_def)
  next
    case conn: (Inr x)
    define e2 where "e2 = e1 @ [Connected n retry_connect_timeout False (Inr ())]"
    have [simp]: "x = ()" by simp
    show thesis
    proof (cases "lb_write lab e2 c st")
      case (Inl f)
      then show thesis using assms conn
        by (intro that [of "[Drew u, Connected n retry_connect_timeout False (Inr ()), Wrote c st (Inl f), Closed c]"])
          (auto simp: run facts u_def e1_def e2_def c_def st_def)
    next
      case wrote: (Inr y)
      define e3 where "e3 = e2 @ [Wrote c st (Inr ())]"
      show thesis
      proof (cases "lb_commit lab e3 c")
        case (Inl f)
        then show thesis using assms conn wrote
          by (intro that [of "[Drew u, Connected n retry_connect_timeout False (Inr ()), Wrote c st (Inr ()), Committed c (Inl f), Closed c]"])
            (auto simp: run facts u_def e1_def e2_def e3_def c_def st_def)
      next
        case (Inr z)
        then show thesis using assms conn wrote
          by (intro that [of "[Drew u, Connected n retry_connect_timeout False (Inr ()), Wrote c st (Inr ()), Committed c (Inr ()), Closed c]"])
            (auto simp: run facts u_def e1_def e2_def e3_def c_def st_def)
      qed
    qed
  qed
qed

section \<open>The loop\<close>

definition failed :: "write_attempt \<Rightarrow> bool" where
  "failed a \<longleftrightarrow> wa_error a \<noteq> None"

text \<open>What the loop leaves, from the \<open>i\<close>-th node of the rotation on.\<close>

definition loop_trace :: "seed_context \<Rightarrow> node list \<Rightarrow> nat \<Rightarrow> write_attempt list \<Rightarrow> lab_run \<Rightarrow>
    (lab_error + write_attempt list \<times> (real \<times> string \<times> node) option) \<times> lab_run \<Rightarrow> lab_event list \<Rightarrow> write_attempt list \<Rightarrow> bool" where
  "loop_trace seed nodes i attempts s out es new \<longleftrightarrow> rn_events (snd out) = rn_events s @ es \<and> uncommitted es = [] \<and>
     connected_nodes es = map (\<lambda>j. nodes ! (j mod length nodes)) [i..<i + length new] \<and>
     (case fst out of
        Inl e \<Rightarrow> e = Still_running
      | Inr (hist, found) \<Rightarrow> hist = attempts @ new \<and> map wa_node new = connected_nodes es \<and>
          (case found of
             None \<Rightarrow> rn_rows (snd out) = rn_rows s \<and> acknowledged es = [] \<and> list_all failed new
           | Some (t, u, n) \<Rightarrow>
               rn_rows (snd out) = rn_rows s @ [tracked_event u (sd_org_id seed) (''resilience-rto-probe-'' @ u)] \<and>
               acknowledged es = [rto_statement seed u] \<and> new \<noteq> [] \<and> list_all failed (butlast new) \<and>
               \<not> failed (last new) \<and> es \<noteq> [] \<and> last es = Clock t))"

lemma quiet_clock [simp]:
  "uncommitted (Clock t # es) = uncommitted es" "acknowledged (Clock t # es) = acknowledged es"
  "connected_nodes (Clock t # es) = connected_nodes es" "connected_nodes [] = []"
  "uncommitted (es' @ Clock t # es) = uncommitted (es' @ es)" "acknowledged (es' @ Clock t # es) = acknowledged (es' @ es)"
  by (cases "foldl ledger_step ([], []) es'";
      simp add: uncommitted_def acknowledged_def ledger_def connected_nodes_def connected_node_def List.map_filter_def)+

lemma loop_trace_step:
  assumes "loop_trace seed nodes (Suc i) (attempts @ [a]) s1 out es new" "rn_rows s1 = rn_rows s" "failed a"
    and "rn_events s1 = rn_events s @ pre" "uncommitted pre = []" "acknowledged pre = []"
    and "connected_nodes pre = [wa_node a]" "wa_node a = nodes ! (i mod length nodes)"
  shows "loop_trace seed nodes i attempts s out (pre @ es) (a # new)"
proof -
  have "[i..<i + length (a # new)] = i # [Suc i..<Suc i + length new]" by (simp add: upt_rec)
  then show ?thesis using assms
    by (auto simp: loop_trace_def ledger_append split: sum.splits option.splits)
qed

lemma write_loop_trace:
  "write_loop fuel lab k d seed nodes i attempts s = out \<Longrightarrow> \<exists>es new. loop_trace seed nodes i attempts s out es new"
proof (induction fuel arbitrary: i attempts s out)
  case 0
  then show ?case by (intro exI [of _ "[]"]) (auto simp: loop_trace_def prog_simps)
next
  case (Suc fuel)
  let ?t = "lb_clock lab (rn_events s)" and ?n = "nodes ! (i mod length nodes)"
  define s1 where "s1 = s\<lparr>rn_events := rn_events s @ [Clock ?t]\<rparr>"
  show ?case
  proof (cases "?t - k < d")
    case False
    with Suc.prems show ?thesis
      by (intro exI [of _ "[Clock ?t]"] exI [of _ "[]"]) (auto simp: loop_trace_def prog_simps now_def happens_def Let_def)
  next
    case True
    define s2 where "s2 = s1\<lparr>rn_events := rn_events s1 @ [Clock (lb_clock lab (rn_events s1))]\<rparr>"
    obtain r s3 where attempt: "attempt_write lab ?n seed s2 = (r, s3)" by fastforce
    obtain es where es: "rn_events s3 = rn_events s2 @ es" "rn_rows s3 = rn_rows s2" "connected_nodes es = [?n]" "uncommitted es = []"
        "sum_list (map slept_by es) = 0" "sum_list (map connects_by es) = 1"
        "case r of Inl e \<Rightarrow> e \<noteq> Still_running \<and> acknowledged es = []
         | Inr (u, txt) \<Rightarrow> txt = ''resilience-rto-probe-'' @ u \<and> acknowledged es = [rto_statement seed u]"
      by (rule attempt_write_events [OF attempt])
    define v where "v = lb_clock lab (rn_events s3)"
    define s4 where "s4 = s3\<lparr>rn_events := rn_events s3 @ [Clock v]\<rparr>"
    let ?pre = "Clock ?t # Clock (lb_clock lab (rn_events s1)) # es @ [Clock v]"
    have s4: "rn_events s4 = rn_events s @ ?pre" "rn_rows s4 = rn_rows s" using es(1,2) by (simp_all add: s4_def s2_def s1_def)
    let ?elapsed = "lb_round lab 1 ((v - lb_clock lab (rn_events s1)) * 1000)"
    show ?thesis
    proof (cases r)
      case (Inl e)
      let ?a = "\<lparr>wa_node = ?n, wa_elapsed_ms = ?elapsed, wa_error = Some (lab_error_name e)\<rparr>"
      have "write_loop fuel lab k d seed nodes (Suc i) (attempts @ [?a]) s4 = out"
        using Suc.prems True attempt Inl
        by (simp add: now_def happens_def tried_def prog_simps Let_def s1_def s2_def s4_def v_def)
      from Suc.IH [OF this] obtain es' new where "loop_trace seed nodes (Suc i) (attempts @ [?a]) s4 out es' new" by blast
      then have "loop_trace seed nodes i attempts s out (?pre @ es') (?a # new)"
        by (rule loop_trace_step) (use s4 es Inl in \<open>simp_all add: failed_def\<close>)
      then show ?thesis by blast
    next
      case (Inr x)
      obtain u marker where x: "x = (u, marker)" by fastforce
      define t' where "t' = lb_clock lab (rn_events s4)"
      let ?a = "\<lparr>wa_node = ?n, wa_elapsed_ms = ?elapsed, wa_error = None\<rparr>"
      have "out = (Inr (attempts @ [?a], Some (t', u, ?n)),
          s4\<lparr>rn_events := rn_events s4 @ [Clock t'], rn_rows := rn_rows s4 @ [tracked_event u (sd_org_id seed) marker]\<rparr>)"
        using Suc.prems True attempt Inr x
        by (simp add: now_def happens_def tried_def track_def prog_simps Let_def s1_def s2_def s4_def v_def t'_def)
      then have "loop_trace seed nodes i attempts s out (?pre @ [Clock t']) [?a]"
        using s4 es Inr x by (simp add: loop_trace_def failed_def)
      then show ?thesis by blast
    qed
  qed
qed

text \<open>C19. The recovery time is that of a failover. The probe tries the node that held the lease first and then every node of
  another service name in the order given, cyclically, and stops at the first write that is acknowledged; that write is the only one acknowledged and is
  tracked. It passes exactly when a write is acknowledged, within the target, and an earlier attempt at a node of the
  killed region had failed. Nothing a service raises leaves the probe.\<close>

theorem re_rto_is_failover:
  "case probe_rto fuel lab kill_started nodes seed region leaseholder target deadline s of
     (Inl e, _) \<Rightarrow> e = Still_running
   | (Inr p, s') \<Rightarrow> \<exists>es tries. rn_events s' = rn_events s @ es \<and>
       (let rotation = leaseholder # filter (\<lambda>n. nd_service n \<noteq> nd_service leaseholder) nodes in
          connected_nodes es = map (\<lambda>j. rotation ! (j mod length rotation)) [0..<tries]) \<and>
       (case acknowledged es of
          [] \<Rightarrow> rn_rows s' = rn_rows s \<and> \<not> passes p
        | st # others \<Rightarrow> others = [] \<and> (\<exists>u t. st = rto_statement seed u \<and>
            rn_rows s' = rn_rows s @ [\<lparr>tk_table = ''episodic_events'', tk_id_column = ''event_id'', tk_row_id = u,
              tk_org_id = sd_org_id seed, tk_content_column = Some ''content'',
              tk_expected_content = Some (''resilience-rto-probe-'' @ u)\<rparr>] \<and> last es = Clock t \<and>
            passes p = (t - kill_started < target \<and>
              list_ex (\<lambda>n. nd_region n = region) (butlast (connected_nodes es)))))"
proof -
  let ?nodes = "leaseholder # filter (\<lambda>n. nd_service n \<noteq> nd_service leaseholder) nodes"
  have nodes: "ordered_nodes leaseholder nodes = ?nodes" by (simp add: ordered_nodes_def)
  obtain r s1 where loop: "write_loop fuel lab kill_started deadline seed ?nodes 0 [] s = (r, s1)" by fastforce
  from write_loop_trace [OF loop] obtain es new where trace: "loop_trace seed ?nodes 0 [] s (r, s1) es new" by blast
  show ?thesis
  proof (cases r)
    case (Inl e)
    with trace loop show ?thesis by (simp add: probe_rto_def nodes prog_simps loop_trace_def)
  next
    case (Inr x)
    obtain hist found where x: "x = (hist, found)" by fastforce
    have region: "1 \<le> failed_in_region region new \<longleftrightarrow> list_ex (\<lambda>n. nd_region n = region) (butlast (map wa_node new))"
      if "list_all failed (butlast new)" "\<not> failed (last new)" "new \<noteq> []"
    proof -
      from that have "failed_in_region region new = length (filter (\<lambda>a. nd_region (wa_node a) = region) (butlast new))"
        by (cases new rule: rev_cases) (auto simp: failed_in_region_def failed_def list_all_iff intro!: arg_cong [where f = length] filter_cong)
      then show ?thesis by (auto simp: list_ex_iff Suc_le_eq filter_empty_conv simp flip: map_butlast)
    qed
    show ?thesis
    proof (cases found)
      case None
      with trace loop Inr x show ?thesis
        by (auto simp: probe_rto_def nodes tracked_event_def prog_simps loop_trace_def rto_result_def passes_def Let_def
            intro!: exI [of _ es] exI [of _ "length new"])
    next
      case (Some y)
      obtain t u n where y: "y = (t, u, n)" by (cases y)
      with trace loop Inr x Some region show ?thesis
        by (auto simp: probe_rto_def nodes tracked_event_def prog_simps loop_trace_def rto_result_def passes_def status_of_def Let_def
            intro!: exI [of _ es] exI [of _ "length new"])
    qed
  qed
qed

section \<open>The end of a run\<close>

lemma write_loop_not_stuck:
  assumes "steady lab \<delta>" "0 \<le> \<delta>"
  shows "d - (lb_clock lab (rn_events s) - k) \<le> real fuel * \<delta> \<Longrightarrow>
    fst (write_loop (Suc fuel) lab k d seed nodes i attempts s) \<noteq> Inl Still_running"
proof (induction fuel arbitrary: i attempts s)
  case 0
  then show ?case by (simp add: now_def happens_def prog_simps Let_def)
next
  case (Suc fuel)
  let ?t = "lb_clock lab (rn_events s)" and ?n = "nodes ! (i mod length nodes)"
  define s1 where "s1 = s\<lparr>rn_events := rn_events s @ [Clock ?t]\<rparr>"
  define s2 where "s2 = s1\<lparr>rn_events := rn_events s1 @ [Clock (lb_clock lab (rn_events s1))]\<rparr>"
  obtain r s3 where attempt: "attempt_write lab ?n seed s2 = (r, s3)" by fastforce
  obtain es where es: "rn_events s3 = rn_events s2 @ es" "rn_rows s3 = rn_rows s2" "connected_nodes es = [?n]" "uncommitted es = []"
      "sum_list (map slept_by es) = 0" "sum_list (map connects_by es) = 1"
      "case r of Inl e \<Rightarrow> e \<noteq> Still_running \<and> acknowledged es = []
       | Inr (u, txt) \<Rightarrow> txt = ''resilience-rto-probe-'' @ u \<and> acknowledged es = [rto_statement seed u]"
    by (rule attempt_write_events [OF attempt])
  define v where "v = lb_clock lab (rn_events s3)"
  define s4 where "s4 = s3\<lparr>rn_events := rn_events s3 @ [Clock v]\<rparr>"
  let ?pre = "Clock ?t # Clock (lb_clock lab (rn_events s1)) # es @ [Clock v]"
  have "rn_events s4 = rn_events s @ ?pre" using es(1) by (simp add: s4_def s2_def s1_def)
  moreover have "time_taken \<delta> ?pre = \<delta>" using es(5,6) by (simp add: time_taken_def slept_by_def connects_by_def)
  ultimately have "?t + \<delta> \<le> lb_clock lab (rn_events s4)" using steadyD [OF assms(1), of "rn_events s" ?pre] by simp
  with Suc.prems have "d - (lb_clock lab (rn_events s4) - k) \<le> real fuel * \<delta>" by (simp add: algebra_simps)
  from Suc.IH [OF this] have rest: "fst (write_loop (Suc fuel) lab k d seed nodes j as s4) \<noteq> Inl Still_running" for j as .
  show ?case using attempt rest
    by (subst write_loop.simps)
      (auto simp: now_def happens_def tried_def track_def prog_simps Let_def s1_def s2_def s4_def v_def simp del: write_loop.simps
        split: sum.split)
qed

lemma statement_ends [ends_intros]:
  "ends (now lab)" "ends (sleep d)" "ends (draw_uuid lab)" "ends (run_statement lab c st)" "ends (fetch_one lab c q)"
  "ends (commit lab c)" "ends (track r)" "ends (compose lab args t)"
  unfolding now_def sleep_def draw_uuid_def run_statement_def fetch_one_def commit_def track_def compose_def
  by (intro ends_intros)+

lemma detail_ends [ends_intros]: "ends (lift_result (detail d key))"
  by (rule ends_basic) (simp add: detail_def needE_def split: option.split)

lemma tracks_end [ends_intros]: "ends (track_event seed d key)" "ends (track_action seed d)"
  unfolding track_event_def track_action_def by (intro ends_intros)+

lemma range_snapshot_ends [ends_intros]: "ends (range_snapshot lab n)"
  unfolding range_snapshot_def by (intro ends_intros)

lemma probes_end [ends_intros]:
  "ends (write_event lab n t st)" "ends (probe_freshness lab n n' seed)" "ends (probe_cross_agent_visibility lab n n' seed)"
  unfolding write_event_def probe_freshness_def probe_cross_agent_visibility_def timed_def read_event_def Let_def
  by (intro ends_intros)+

lemma ends_case_sum: "(\<And>e. r = Inl e \<Longrightarrow> ends (m e)) \<Longrightarrow> (\<And>x. r = Inr x \<Longrightarrow> ends (n x)) \<Longrightarrow>
    ends (case r of Inl e \<Rightarrow> m e | Inr x \<Rightarrow> n x)"
  by (simp split: sum.split)

lemma ends_try_raise:
  assumes m: "ends m" and f: "\<And>e. ends (f e)" and g: "\<And>x. ends (g x)"
  shows "ends (andThen (tried m) (\<lambda>r. case r of Inl e \<Rightarrow> andThen (f e) (\<lambda>_. raise e) | Inr x \<Rightarrow> g x))"
  unfolding ends_def
proof
  fix s
  obtain r s' where run: "m s = (r, s')" by fastforce
  with m have "r \<noteq> Inl Still_running" unfolding ends_def by (metis fst_conv)
  moreover have "fst (f e s') \<noteq> Inl Still_running" "fst (g x s') \<noteq> Inl Still_running" for e x
    using f g by (simp_all add: ends_def)
  ultimately show "fst (andThen (tried m) (\<lambda>r. case r of Inl e \<Rightarrow> andThen (f e) (\<lambda>_. raise e) | Inr x \<Rightarrow> g x) s) \<noteq> Inl Still_running"
    using run by (cases r) (auto simp: tried_def prog_simps split: prod.split sum.split, metis fst_conv)
qed

lemma paired_writes_ends [ends_intros]: "ends (paired_writes lab c seed e a txt outcome key)"
  unfolding paired_writes_def transaction_def by (intro ends_intros ends_try_raise)

lemma probe_atomicity_ends [ends_intros]: "ends (probe_atomicity lab n seed)"
  unfolding probe_atomicity_def both_present_def row_exists_def Let_def by (intro ends_intros)

lemma check_rows_ends [ends_intros]: "ends (check_rows lab c rows)"
  by (induction rows) (auto intro!: ends_intros)

lemma probe_rpo_ends [ends_intros]: "ends (probe_rpo lab n phase)"
  unfolding probe_rpo_def by (intro ends_intros)

lemma leaseholder_ends [ends_intros]: "ends (lift_result (leaseholder_of lab cfg pin))"
  by (rule ends_basic) (auto simp: leaseholder_of_def Let_def needE_def bindE_Inl_iff split: option.splits if_splits)

lemma region_ends [ends_intros]: "ends (kill_region lab region)" "ends (restore_region lab region)"
  unfolding kill_region_def restore_region_def Let_def by (intro ends_intros; simp)+

lemma outage_writes_ends [ends_intros]: "ends (outage_writes n lab cfg seed)"
  by (induction n) (auto simp: outage_write_def intro!: ends_intros)

text \<open>The configured times, in rounds of the loops.\<close>

definition enough_fuel :: "nat \<Rightarrow> real \<Rightarrow> harness_config \<Rightarrow> bool" where
  "enough_fuel fuel \<delta> cfg \<longleftrightarrow> 0 \<le> hc_leaseholder_pin_poll_interval_seconds cfg \<and>
     hc_leaseholder_pin_timeout_seconds cfg \<le> real fuel * hc_leaseholder_pin_poll_interval_seconds cfg \<and>
     hc_rto_deadline_seconds cfg \<le> real fuel * \<delta> \<and> hc_region_down_wait_seconds cfg \<le> real fuel * (1 / 2) \<and>
     hc_recovery_timeout_seconds cfg \<le> real fuel * 2"

lemma verification_not_stuck: "verification_of table region r \<noteq> Inl Still_running"
  by (cases r) (simp add: verification_of_def sorted_store_ids_def bindE_Inl_iff Let_def)

lemma pin_ends:
  assumes "steady lab \<delta>" "0 \<le> \<delta>" "enough_fuel fuel \<delta> cfg"
  shows "ends (pin_run (Suc fuel) lab cfg)"
proof -
  note time = assms(3) [unfolded enough_fuel_def]
  have verify: "ends (verify_leaseholders_in_region (Suc fuel) lab n table region (hc_leaseholder_pin_timeout_seconds cfg)
      (hc_leaseholder_pin_poll_interval_seconds cfg))" for n table region
  proof -
    have "verify_leaseholders_in_region (Suc fuel) lab n table region (hc_leaseholder_pin_timeout_seconds cfg)
        (hc_leaseholder_pin_poll_interval_seconds cfg) =
      andThen (andThen (now lab) (\<lambda>start. poll (Suc fuel) lab start (hc_leaseholder_pin_timeout_seconds cfg)
        (hc_leaseholder_pin_poll_interval_seconds cfg) (lease_body lab n table region) [])) (\<lambda>r. lift_result (verification_of table region r))"
      by (simp add: verify_leaseholders_in_region_def andThen_def fun_eq_iff split: prod.split sum.split del: poll.simps)
    then show ?thesis
      by (simp only:) (intro ends_intros verification_not_stuck lease_wait.poll_ends [OF assms(1,2)]; use time in simp)
  qed
  have "ends (verify_tables (Suc fuel) lab n tables region (hc_leaseholder_pin_timeout_seconds cfg)
      (hc_leaseholder_pin_poll_interval_seconds cfg) results)" for n tables region results
    by (induction tables arbitrary: results) (auto intro!: ends_intros verify)
  then show ?thesis
    unfolding pin_run_def pin_and_verify_def set_lease_preference_def Let_def by (intro ends_intros) simp_all
qed

lemma waits_end:
  assumes "steady lab \<delta>" "0 \<le> \<delta>" "enough_fuel fuel \<delta> cfg"
  shows "ends (wait_for_region_down (Suc fuel) lab region (hc_region_down_wait_seconds cfg) n)"
    and "ends (wait_for_full_liveness (Suc fuel) lab expected (hc_recovery_timeout_seconds cfg) n)"
  unfolding wait_for_region_down_def wait_for_full_liveness_def Let_def
  by (rule status_wait.poll_ends [OF assms(1,2)]; use assms(3) in \<open>simp add: enough_fuel_def\<close>)+

text \<open>C20. The harness ends. When the clock runs at least as fast as the sleeps and an attempt to connect takes some time, every
  waiting loop - for the leases to move, for writes to recover, for the region to be seen down, for all nodes to be live
  again - is left after the rounds its timeout allows, whatever the services answer: the run returns a report or raises.\<close>

theorem re_run_ends:
  assumes "steady lab \<delta>" "0 \<le> \<delta>" "enough_fuel fuel \<delta> cfg"
  shows "fst (run_harness (Suc fuel) lab cfg s) \<noteq> Inl Still_running"
proof -
  have before: "ends (before_kill (Suc fuel) lab cfg)"
    unfolding before_kill_def seed_run_def seed_baseline_def baseline_run_def Let_def
    by (intro ends_intros pin_ends [OF assms] node_status_ends) (simp split: list.split)
  have after: "fst (after_kill (Suc fuel) lab cfg seed pin leaseholder b k s) \<noteq> Inl Still_running"
    if "k \<le> lb_clock lab (rn_events s)" for seed pin leaseholder b k s
  proof -
    have "fst (write_loop (Suc fuel) lab k (hc_rto_deadline_seconds cfg) seed nodes 0 [] s) \<noteq> Inl Still_running" for nodes
      using assms(3) that by (intro write_loop_not_stuck [OF assms(1,2)]) (simp add: enough_fuel_def)
    moreover have "ends (andThen (outage_writes (hc_extra_writes_during_outage cfg) lab cfg seed) (\<lambda>writes.
        andThen (wait_for_region_down (Suc fuel) lab region (hc_region_down_wait_seconds cfg) n) (\<lambda>(down, elapsed, liveness).
        andThen (range_snapshot lab n) (\<lambda>ranges. andThen (probe_rpo lab n phase) (\<lambda>rpo. ret (f writes down elapsed liveness ranges rpo))))))"
      for region n phase and f :: "string list \<Rightarrow> bool \<Rightarrow> real \<Rightarrow> node_liveness list \<Rightarrow> pyval \<Rightarrow> probe_result \<Rightarrow> outage"
      by (intro ends_intros waits_end(1) [OF assms])
    ultimately have "fst (outage_run (Suc fuel) lab cfg seed leaseholder k s) \<noteq> Inl Still_running"
      unfolding outage_run_def probe_rto_def Let_def
      by (auto simp: ends_def prog_simps simp del: write_loop.simps poll.simps split: prod.splits sum.splits) (metis fst_conv)+
    moreover have "ends (andThen (restore_region lab (hc_kill_region cfg)) (\<lambda>_. after_restart (Suc fuel) lab cfg seed pin b u))" for u
      unfolding after_restart_def recovery_run_def record_run_def record_probe_def Let_def
      by (intro ends_intros waits_end(2) [OF assms])
    ultimately show ?thesis
      unfolding after_kill_def by (auto simp: ends_def andThen_def split: prod.splits sum.splits)
  qed
  have kill: "k \<le> lb_clock lab (rn_events s')" if "kill_region lab region s = (Inr k, s')" for region s k s'
    using that steadyD [OF assms(1), of "rn_events s @ [Composed (''kill'' # services_in_region region (topology (lb_host lab))) compose_timeout
        (lb_compose lab (rn_events s) (''kill'' # services_in_region region (topology (lb_host lab))))]" "[Clock k]"]
    by (auto simp: kill_region_def compose_def effect_def happens_def now_def served_def prog_simps Let_def time_taken_def
        slept_by_def connects_by_def split: if_splits sum.splits)
  have "ends (kill_region lab region)" for region by (intro ends_intros)
  with before after kill show ?thesis
    unfolding run_harness_def ends_def by (auto simp: andThen_def split: prod.splits sum.splits) (metis fst_conv)+
qed

text \<open>A lab whose nodes refuse every connection and whose clock counts the sleeps and one second for each attempt.\<close>

definition dark_lab :: lab where
  "dark_lab = \<lparr>lb_host = ''127.0.0.1'', lb_clock = time_taken 1, lb_counter = time_taken 1, lb_uuid = (\<lambda>_. ''u''),
     lb_now_iso = (\<lambda>_. ''2026-06-01T00:00:00+00:00''), lb_compose = (\<lambda>_ _. Inr []),
     lb_connect = (\<lambda>_ _. Inl (Driver_error ''OperationalError'')), lb_write = (\<lambda>_ _ _. Inr ()), lb_leases = (\<lambda>_ _ _. Inr []),
     lb_ranges = (\<lambda>_ _ _. Inr []), lb_select = (\<lambda>_ _ _. Inr None), lb_commit = (\<lambda>_ _. Inr ()), lb_enter = (\<lambda>_ _. Inr ()),
     lb_leave = (\<lambda>_ _. Inr ()), lb_int = (\<lambda>_. None), lb_repr = (\<lambda>_. []), lb_round = (\<lambda>_ x. x), lb_dumps = (\<lambda>_. [])\<rparr>"

lemma dark_lab_steady: "steady dark_lab 1"
  by (simp add: steady_def dark_lab_def time_taken_def)

theorem re_run_ends_witness:
  "fst (run_harness (Suc 90) dark_lab (default_config dark_lab) new_run) \<noteq> Inl Still_running"
  by (rule re_run_ends [OF dark_lab_steady]) (simp_all add: enough_fuel_def default_config_def)

end
