(* ===== verification/Spec2Isabelle.thy ===== *)
theory Spec2Isabelle
  imports Sim_Claims Cons_Claims Cons_S3_Claims Be_Claims Be_Policy_Claims Be_Adapter_Claims Be_Sql_Claims
    Be_Mcp_Claims Be_Mcp_Session Be_Config Ev_Claims Ev_Agent_Claims Re_Claims Re_Recovery
begin

text \<open>
  Postmortem is an incident responder with a memory: a benchmark world (simulator), a service that
  answers an incident by recalling what was done before and acting on it (backend), a pipeline
  that turns finished incidents into runbooks (consolidation), and a benchmark that replays the
  world with and without memory and scores the difference (evaluation), and a harness that kills a region of
  the database and measures what is lost (resilience). This library models the Python code of the five
  and proves what makes them correct. Paths are under \<^verbatim>\<open>src/\<close>.

  Conventions (\<open>Prelude\<close>). A method that reads and changes state is a program
  \<open>'s \<Rightarrow> ('e + 'a) \<times> 's\<close>, composed with \<open>andThen\<close>: a raised exception is \<open>Inl\<close> and keeps the state
  it was raised in. A dict is an association list in insertion order (\<open>AList.update\<close> assigns), an
  \<open>Any\<close> value is a \<open>pyval\<close>, an instant is an integer number of microseconds (with its offset, or
  naive, where the code tells them apart), a float is a real, a UUID an abstract name with a text.
  Strings are lists of Latin-1 characters. Functions of the Python library whose result is not
  determined by the source (hashes, \<open>repr\<close>, ISO formats, Unicode normalisation, JSON) are fields
  of the records \<open>textlib\<close> and \<open>pylib\<close> or arguments; a theorem that needs a law of one of them
  says so, and its witness discharges the law for a concrete function.

  \<^bold>\<open>Simulator\<close> (\<^verbatim>\<open>simulator/postmortem_sim\<close>). \<open>Sim_Models\<close> has the records of \<^verbatim>\<open>models.py\<close>;
  \<open>Sim_Conductor\<close> every operation of \<^verbatim>\<open>conductor.py\<close>, on the record \<open>conductor\<close>: construction from
  a fixture, the injection of each family, observation, \<open>apply_action\<close>. \<open>Sim_Invariants\<close> has the
  reachable states (\<open>sim_reach\<close>) and the locale of operations that keep an invariant;
  \<open>Sim_Properties\<close> and \<open>Sim_Actions\<close> the invariants and the effect of actions; \<open>Sim_Claims\<close> the
  properties: bitemporal configuration history, life cycle of incidents, ledgers, the exact effect
  and cost of actions, refused actions, blindness of observations, termination of a replay.

  \<^bold>\<open>Consolidation\<close> (\<^verbatim>\<open>consolidation/postmortem_consolidation\<close>). \<open>Cons_Contracts\<close> is
  \<^verbatim>\<open>contracts.py\<close>, \<open>Cons_Grouping\<close> \<^verbatim>\<open>grouping.py\<close>, \<open>Cons_Storage\<close> the in-memory window store of
  \<^verbatim>\<open>storage.py\<close>, \<open>Cons_Repository\<close> both writers of \<^verbatim>\<open>repository.py\<close> (the SQL one on tables),
  \<open>Cons_Model\<close> \<^verbatim>\<open>model.py\<close> and \<^verbatim>\<open>embedding.py\<close>, \<open>Cons_Pipeline\<close> \<^verbatim>\<open>pipeline.py\<close>, \<open>Cons_Handlers\<close>
  the Lambda handlers, \<open>Cons_S3\<close> the durable window store of \<^verbatim>\<open>storage.py\<close> over a bucket: the
  locale \<open>window_store\<close> of \<open>Cons_Storage\<close> is interpreted for both stores. \<open>Cons_S3_Claims\<close>: a window over the
  bucket loses and repeats nothing. \<open>Cons_Claims\<close>: exactness of grouping and of a window, exactly-once
  processing, the life cycle of runbook versions under both writers, idempotence, round trip of
  queue messages, authentication and batching of the receiver, partial batch failures, the retry
  loop, unit embeddings, the candidate of the deterministic model.

  \<^bold>\<open>Backend\<close> (\<^verbatim>\<open>backend/src/postmortem_backend\<close>). \<open>Be_Domain\<close> (\<^verbatim>\<open>domain.py\<close>, \<^verbatim>\<open>errors.py\<close>),
  \<open>Be_Events\<close> (the broker and its streams), \<open>Be_Recall\<close> (gates, scores and diversity; the locale
  \<open>memory_channel\<close> states what the three kinds of memory share and is interpreted for each),
  \<open>Be_Guardrails\<close> (allowlist, approval, provenance, roles, webhook digest), \<open>Be_Injection\<close> (the deny
  patterns as regular expressions, an executable matcher proved against an inductive semantics),
  \<open>Be_Fakes\<close> (local adapters and the copy-on-write store), \<open>Be_Store\<close> (its refinement: the locale
  \<open>remediation_port\<close>, interpreted for the store and for the store behind the provenance guard, and
  the reachable stores), \<open>Be_Service\<close> (the turn, phase by phase, over abstract ports), \<open>Be_Turn\<close> and
  \<open>Be_Trace\<close> (what a turn grants, screens and publishes; the locale \<open>logged_world\<close>), \<open>Be_Runtime\<close>
  (the local runtime as an instance of the ports). \<open>Be_Claims\<close> and \<open>Be_Policy_Claims\<close> have the
  properties: only granted commands are executed, only screened text is reasoned about, the events of
  a turn, atomic remediation and its consistent store, idempotent outcomes, what recall admits and
  chooses, authorisation, authentication, complete streams.

  The adapters of the backend: \<open>Be_Bedrock\<close> (\<^verbatim>\<open>adapters/bedrock.py\<close>: the question put to the model, the
  parsing of its answer, the embedding), \<open>Be_Transport\<close> (\<^verbatim>\<open>transport.py\<close>: payloads and server-sent
  messages), \<open>Be_Facts\<close> (the bitemporal transition and the history of facts in
  \<^verbatim>\<open>adapters/recall.py\<close>) and \<open>Be_Cockroach\<close> (\<^verbatim>\<open>adapters/cockroach.py\<close>, \<^verbatim>\<open>adapters/outcome.py\<close>: the
  SQL statements as functions on tables under the constraints of the schema). Their retry loops share the
  locale \<open>retry_loop\<close>; what the cluster refuses, and what others commit between two attempts, are
  arguments. \<open>Be_Sql_Store\<close> has the view \<open>abs_tables\<close> of the SQL tables as the local store and the
  reachable tables (\<open>sql_reach\<close>). \<open>Be_Adapter_Claims\<close> and \<open>Be_Sql_Claims\<close>: a decision of the model cites
  recalled memory only, chains of facts, framing of messages, remediation exactly once under retries,
  the SQL statements refine the local store. \<open>Be_Rows\<close> and \<open>Be_Mcp\<close> are the two providers of memory
  (\<^verbatim>\<open>adapters/recall.py\<close>, \<^verbatim>\<open>adapters/mcp.py\<close>: rows to memory, the JSON-RPC session and its
  statements), the locale \<open>memory_provider\<close> of \<open>Be_Mcp_Claims\<close> what they share: recall returns rows of
  the query's scope only, no value changes a statement, and (\<open>Be_Mcp_Session\<close>) the session only reads.
  \<open>Be_Config\<close> is \<^verbatim>\<open>config.py\<close> and the AWS mode of \<^verbatim>\<open>runtime.py\<close>: valid settings, separate roles.

  \<^bold>\<open>Evaluation\<close> (\<^verbatim>\<open>evaluation/postmortem_eval\<close>), over the model of the simulator. \<open>Ev_Responders\<close> is
  \<^verbatim>\<open>responders.py\<close> and the bitemporal responder; \<open>Ev_Runner\<close>, \<open>Ev_Validity\<close> and \<open>Ev_Report\<close> are
  \<^verbatim>\<open>runner.py\<close>: the replay of an arm and the retrieval metrics, the temporal part with its oracle,
  the summaries and the report; \<open>Ev_Agent\<close> and \<open>Ev_Compare\<close> are \<^verbatim>\<open>real_agent.py\<close>: the question and the
  plan read from the answer, the replay that counts refused steps, the paired comparison. The client
  of the model is a function of the number of the call and of the request. \<open>Ev_Replay\<close> and \<open>Ev_Arms\<close>
  follow one incident and one arm through the simulator, \<open>Ev_Figures\<close> and \<open>Ev_Paired\<close> have the facts
  about the figures, \<open>Ev_Agent_Runs\<close> the arm with the real model, \<open>Ev_Bench\<close> a small world that the
  witnesses run. \<open>Ev_Claims\<close> and \<open>Ev_Agent_Claims\<close>: records account exactly for what was played, arms
  are comparable, which memory is acted on, independence of the temporal score, bounds of the
  metrics, grounded decisions of the model, symmetry of the comparison.

  \<^bold>\<open>Resilience\<close> (\<^verbatim>\<open>resilience/postmortem_resilience\<close>). \<open>Re_Lab\<close> has the topology, the localities and
  the effects. What the cluster, docker and the clocks answer is a \<open>lab\<close>, a record of functions of all
  events so far, and every effect is appended to the events with its answer, so that a property of a run is
  one of its list of events. \<open>Re_Cluster\<close> is \<^verbatim>\<open>leaseholders.py\<close>, \<^verbatim>\<open>region_control.py\<close> and
  \<^verbatim>\<open>ranges.py\<close>, \<open>Re_Probes\<close> the five probes with \<^verbatim>\<open>report.py\<close> and \<^verbatim>\<open>seed.py\<close>, \<open>Re_Harness\<close>
  the run. \<open>Re_Trace\<close> has rules for what a program logs, keeps and yields; \<open>Re_Waits\<close> the locale
  \<open>waiting\<close> of the bodies that are polled, interpreted for the lease and the status loop; \<open>Re_Run\<close> which
  events each part adds; \<open>Re_Ledger\<close> and \<open>Re_Accounts\<close> the ledger of acknowledged writes and that every
  part settles it. \<open>Re_Claims\<close> and \<open>Re_Recovery\<close>: a region is killed only after its pin has been seen; exit
  status 0 means that no acknowledged write was lost; the recovery time is that of a failover; the run ends.

  Loops are structural recursion or recursion on a measure (the retry loop on the attempts left, the
  regular-expression matcher on the rest of the text, the replays on the scenarios left), so that a claim that
  something is returned is one about a total function. Only the waiting loops of the harness have fuel,
  because a clock that stands still would keep them running: running out is the error \<open>Still_running\<close>,
  and the theorem on the end of a run in \<open>Re_Recovery\<close> shows that it never happens when the clock is \<open>steady\<close> and the fuel covers the timeouts
  divided by the pauses (\<open>enough_fuel\<close>; 91 rounds for the default configuration when an attempt to connect
  takes a second). The safety claims hold for every fuel and clock.

  \<^bold>\<open>Not modelled.\<close> Files and command lines; the construction of AWS clients in the
  consolidation handlers; the pydantic models, FastAPI routing and the connection pools of the
  backend; what the similarity queries answer, whose order is that of a vector index; the CDK stacks of \<^verbatim>\<open>infra\<close>, which declare constructs of a library
  and keep no state; the SQL schema and the web console, written in other languages. Prompt texts and the constant texts of reports are parameters or left out.
  Locks are not modelled as such: each operation under a lock is one step. Rounding of floats and
  characters beyond Latin-1 are outside the model.
\<close>

end
